(* ===== verification/GoErrors.thy ===== *)
theory GoErrors
  imports Main
begin

text \<open>
  Error values.  A Go error is modelled by the list of the sentinel errors that
  \<^verbatim>\<open>errors.Is\<close> finds in its chain, outermost first: \<^verbatim>\<open>fmt.Errorf("text: %w", err)\<close> keeps
  the chain of \<^verbatim>\<open>err\<close>, \<^verbatim>\<open>fmt.Errorf("%w: %w", a, b)\<close> joins two chains, and an
  \<^verbatim>\<open>fmt.Errorf\<close> without \<^verbatim>\<open>%w\<close> is one anonymous sentinel \<open>Msg\<close>.  The message texts that
  wrapping adds are dropped, the sentinels are kept because callers branch on them.
\<close>

datatype infra_error =
    ErrUnavailable                   \<comment> \<open>PostgreSQL, Redis or the gateway did not answer\<close>
  | ErrNoRows                        \<comment> \<open>\<^verbatim>\<open>pgx.ErrNoRows\<close>\<close>
  | ErrUniqueViolation               \<comment> \<open>PostgreSQL code 23505\<close>
  | ErrCheckViolation                \<comment> \<open>PostgreSQL code 23514\<close>
  | ErrForeignKeyViolation           \<comment> \<open>PostgreSQL code 23503\<close>
  | ErrNumericOutOfRange             \<comment> \<open>PostgreSQL code 22003\<close>
  | ErrInvalidText                   \<comment> \<open>PostgreSQL code 22P02\<close>
  | ErrStringTooLong                 \<comment> \<open>PostgreSQL code 22001\<close>
  | ErrRedisNil                      \<comment> \<open>\<^verbatim>\<open>redis.Nil\<close>\<close>
  | ErrContextDone                   \<comment> \<open>\<^verbatim>\<open>context.Canceled\<close>\<close>

text \<open>The sentinels of package \<^verbatim>\<open>domain\<close>.\<close>

datatype domain_error =
    ErrInvalidMoney
  | ErrInvalidCommissionRate
  | ErrFinancialOrderIgnored
  | ErrInvalidCoordinates
  | ErrInvalidOrderStatus
  | ErrInvalidOrderStatusTransition
  | ErrInvalidPaymentMethod
  | ErrInvalidRatingScore
  | ErrInvalidOrderType
  | ErrInvalidScheduledOrderStatus
  | ErrInvalidDriverStatus
  | ErrInvalidDriverStatusTransition
  | ErrInvalidVerificationStatus
  | ErrInvalidPhone
  | ErrInvalidEmail
  | ErrInvalidUserRole
  | ErrInvalidRegistrationType
  | ErrConsentRequired
  | ErrInvalidChatType
  | ErrInvalidChatStatus
  | ErrInvalidChatMessage
  | ErrInvalidLegalDocumentType
  | ErrInvalidLegalDocument
  | ErrParkInviteNotFound
  | ErrParkInviteClosed
  | ErrParkInviteExpired
  | ErrParkInviteSamePark
  | ErrParkInviteInactivePark
  | ErrParkInviteDriverWorking
  | ErrParkInviteContextChanged
  | ErrParkInviteForbidden

text \<open>The sentinels of the service and repository packages.\<close>

datatype service_error =
    ErrDispatchAlreadyFinished
  | ErrOfferNotAccepted
  | ErrOrderAlreadyAssigned
  | ErrOrderConcurrentUpdate
  | ErrOrderWithoutFinalPrice
  | ErrOrderWithoutAssignedDriver
  | ErrFinancialSettlementDuplicate
  | ErrDriverFinanceAccountNotFound
  | ErrInsufficientDriverBalance
  | ErrChatForbidden
  | ErrChatUnavailable
  | ErrPassengerOrderNotFound
  | ErrPassengerActiveOrderExists
  | ErrPassengerCarClassRequired
  | ErrPassengerCarClassNotFound
  | ErrPassengerInactive
  | ErrPriceQuoteStale
  | ErrPriceQuoteRequired
  | ErrDriverNotFound
  | ErrDriverNotAvailable
  | ErrCurrentOrderNotFound
  | ErrOrderAccessDenied
  | ErrOrderRouteForbidden
  | ErrInvalidCode
  | ErrCodeAlreadyUsed
  | ErrCodeExpired
  | ErrTooManyAttempts
  | ErrPassengerBlocked
  | ErrInvalidRefreshToken
  | ErrTaxiParkNotFound
  | ErrTaxiParkResourceNotFound
  | ErrScheduledOrdersDisabled
  | ErrInvalidScheduledOrder
  | ErrOrderTariffNotFound
  | ErrInvalidOrderFields
  | ErrInvalidCredentials
  | ErrAuthInvalidCode
  | ErrAuthInvalidToken
  | ErrInactiveUser
  | ErrDriverAccessDenied
  | ErrNotImplemented

datatype sentinel =
    Infra infra_error
  | Domain domain_error
  | Service service_error
  | Msg string                       \<comment> \<open>an error with a text only\<close>

type_synonym error = "sentinel list"

definition errors_Is :: "error \<Rightarrow> sentinel \<Rightarrow> bool" where
  "errors_Is err target \<longleftrightarrow> target \<in> set err"

lemma errors_Is_simps [simp]:
  "errors_Is [] t \<longleftrightarrow> False"
  "errors_Is (x # xs) t \<longleftrightarrow> x = t \<or> errors_Is xs t"
  by (auto simp: errors_Is_def)

end
