(* ===== verification/GoPrelude.thy ===== *)
theory GoPrelude
  imports GoErrors Complex_Main "HOL-Library.Word" "HOL-Library.Signed_Division"
begin

text \<open>
  The vocabulary shared by every component: identifiers, instants and machine integers of
  Go, the error-and-state computations in which handlers are written, the environment that
  decides when an external call fails and how much time passes, and the proof support for
  them: a weakest-precondition calculus (collection \<open>wp_simps\<close>) and the preservation
  of invariants (collection \<open>keeps_intros\<close>).
\<close>

named_theorems wp_simps \<open>weakest preconditions of computations\<close>
named_theorems keeps_intros \<open>computations that keep an invariant\<close>
named_theorems frame_intros \<open>computations that leave a projection of the state alone\<close>

section \<open>Identifiers, instants and numbers\<close>

type_synonym uuid = "128 word"

abbreviation uuid_Nil :: uuid where "uuid_Nil \<equiv> 0"

text \<open>
  An instant counts nanoseconds since Go's zero time, a duration is a number of nanoseconds.
\<close>

type_synonym time = int
type_synonym duration = int

abbreviation seconds :: "int \<Rightarrow> duration" where "seconds n \<equiv> n * 1000000000"
abbreviation minutes :: "int \<Rightarrow> duration" where "minutes n \<equiv> seconds (n * 60)"
abbreviation hours :: "int \<Rightarrow> duration" where "hours n \<equiv> minutes (n * 60)"

definition time_IsZero :: "time \<Rightarrow> bool" where
  "time_IsZero t \<longleftrightarrow> t = 0"

text \<open>Signed 64-bit arithmetic wraps around; conversion from a 32-bit value is exact.\<close>

definition int64_min :: int where "int64_min = - (2 ^ 63)"
definition int64_max :: int where "int64_max = 2 ^ 63 - 1"

definition wrap64 :: "int \<Rightarrow> int" where
  "wrap64 x = signed_take_bit 63 x"

lemma wrap64_sint: "wrap64 x = sint (word_of_int x :: 64 word)"
  by (simp add: wrap64_def sint_sbintrunc')

lemma wrap64_id [simp]: "int64_min \<le> x \<Longrightarrow> x \<le> int64_max \<Longrightarrow> wrap64 x = x"
  unfolding wrap64_def int64_min_def int64_max_def
  by (rule signed_take_bit_int_eq_self) auto

lemma wrap64_bounds: "int64_min \<le> wrap64 x \<and> wrap64 x \<le> int64_max"
  using signed_take_bit_int_greater_eq_minus_exp [of 63 x]
    signed_take_bit_int_less_exp [of 63 x]
  by (simp add: wrap64_def int64_min_def int64_max_def)

text \<open>A float64 value: the finite ones are rationals, comparisons with NaN are false.\<close>

datatype f64 = Fin rat | PosInf | NegInf | NaN

fun f64_less :: "f64 \<Rightarrow> f64 \<Rightarrow> bool" where
  "f64_less NaN _ = False"
| "f64_less _ NaN = False"
| "f64_less (Fin a) (Fin b) = (a < b)"
| "f64_less NegInf b = (b \<noteq> NegInf)"
| "f64_less a NegInf = False"
| "f64_less PosInf b = False"
| "f64_less a PosInf = (a \<noteq> PosInf)"

section \<open>Computations with state and errors\<close>

text \<open>
  A method that returns \<^verbatim>\<open>(T, error)\<close> and changes state.  The state is returned on the error
  path as well: what was already written stays written.
\<close>

type_synonym ('s, 'a) op = "'s \<Rightarrow> (error + 'a) \<times> 's"

definition ret :: "'a \<Rightarrow> ('s, 'a) op" where
  "ret a = (\<lambda>s. (Inr a, s))"

definition fail :: "error \<Rightarrow> ('s, 'a) op" where
  "fail e = (\<lambda>s. (Inl e, s))"

text \<open>\<open>bind m k\<close> is \<^verbatim>\<open>x, err := m; if err != nil { return err }; k(x)\<close>.\<close>

definition bind :: "('s, 'a) op \<Rightarrow> ('a \<Rightarrow> ('s, 'b) op) \<Rightarrow> ('s, 'b) op" where
  "bind m k = (\<lambda>s. case m s of (Inl e, t) \<Rightarrow> (Inl e, t) | (Inr a, t) \<Rightarrow> k a t)"

text \<open>\<open>catching m k\<close> is \<^verbatim>\<open>x, err := m\<close> followed by code that inspects \<^verbatim>\<open>err\<close> itself.\<close>

definition catching :: "('s, 'a) op \<Rightarrow> (error + 'a \<Rightarrow> ('s, 'b) op) \<Rightarrow> ('s, 'b) op" where
  "catching m k = (\<lambda>s. case m s of (r, t) \<Rightarrow> k r t)"

definition lift :: "error + 'a \<Rightarrow> ('s, 'a) op" where
  "lift r = (\<lambda>s. (r, s))"

definition gets :: "('s \<Rightarrow> 'a) \<Rightarrow> ('s, 'a) op" where
  "gets f = (\<lambda>s. (Inr (f s), s))"

definition modify :: "('s \<Rightarrow> 's) \<Rightarrow> ('s, unit) op" where
  "modify f = (\<lambda>s. (Inr (), f s))"

abbreviation done_op :: "('s, unit) op" where "done_op \<equiv> ret ()"

abbreviation andthen :: "('s, unit) op \<Rightarrow> ('s, 'b) op \<Rightarrow> ('s, 'b) op" where
  "andthen m k \<equiv> bind m (\<lambda>_. k)"

text \<open>A \<^verbatim>\<open>for range\<close> loop whose body returns on the first error.\<close>

primrec for_each :: "'a list \<Rightarrow> ('a \<Rightarrow> ('s, unit) op) \<Rightarrow> ('s, unit) op" where
  "for_each [] body = ret ()"
| "for_each (x # xs) body = andthen (body x) (for_each xs body)"

text \<open>The same loop, collecting the value that each round appends to a result slice.\<close>

primrec collect :: "'a list \<Rightarrow> ('a \<Rightarrow> ('s, 'b list) op) \<Rightarrow> ('s, 'b list) op" where
  "collect [] body = ret []"
| "collect (x # xs) body =
     bind (body x) (\<lambda>ys. bind (collect xs body) (\<lambda>zs. ret (ys @ zs)))"

section \<open>Weakest preconditions\<close>

definition wp :: "('s, 'a) op \<Rightarrow> ('a \<Rightarrow> 's \<Rightarrow> bool) \<Rightarrow> (error \<Rightarrow> 's \<Rightarrow> bool) \<Rightarrow> 's \<Rightarrow> bool" where
  "wp m Q E s = (case m s of (Inl e, t) \<Rightarrow> E e t | (Inr a, t) \<Rightarrow> Q a t)"

lemma wp_ret [wp_simps]: "wp (ret a) Q E s = Q a s"
  by (simp add: wp_def ret_def)

lemma wp_fail [wp_simps]: "wp (fail e) Q E s = E e s"
  by (simp add: wp_def fail_def)

lemma wp_bind [wp_simps]: "wp (bind m k) Q E s = wp m (\<lambda>a. wp (k a) Q E) E s"
  by (simp add: wp_def bind_def split: sum.splits prod.splits)

lemma wp_catching [wp_simps]:
  "wp (catching m k) Q E s = wp m (\<lambda>a. wp (k (Inr a)) Q E) (\<lambda>e. wp (k (Inl e)) Q E) s"
  by (cases "m s"; cases "fst (m s)") (auto simp: wp_def catching_def)

lemma wp_lift [wp_simps]:
  "wp (lift r) Q E s = (case r of Inl e \<Rightarrow> E e s | Inr a \<Rightarrow> Q a s)"
  by (simp add: wp_def lift_def)

lemma wp_gets [wp_simps]: "wp (gets f) Q E s = Q (f s) s"
  by (simp add: wp_def gets_def)

lemma wp_modify [wp_simps]: "wp (modify f) Q E s = Q () (f s)"
  by (simp add: wp_def modify_def)

lemma wp_if [wp_simps]:
  "wp (if b then m else n) Q E s = (if b then wp m Q E s else wp n Q E s)"
  by simp

lemma wp_conseq:
  assumes "wp m Q E s" and "\<And>a t. Q a t \<Longrightarrow> Q' a t" and "\<And>e t. E e t \<Longrightarrow> E' e t"
  shows "wp m Q' E' s"
  using assms by (auto simp: wp_def split: sum.splits prod.splits)

lemma wpD: "wp m Q E s \<Longrightarrow> m s = (Inr a, t) \<Longrightarrow> Q a t"
  by (simp add: wp_def)

lemma wpE: "wp m Q E s \<Longrightarrow> m s = (Inl e, t) \<Longrightarrow> E e t"
  by (simp add: wp_def)

lemma wpI: "(\<And>a t. m s = (Inr a, t) \<Longrightarrow> Q a t) \<Longrightarrow> (\<And>e t. m s = (Inl e, t) \<Longrightarrow> E e t) \<Longrightarrow> wp m Q E s"
  by (simp add: wp_def split: sum.splits prod.splits)

lemma wp_for_each:
  assumes step: "\<And>x s. x \<in> set xs \<Longrightarrow> I s \<Longrightarrow> wp (body x) (\<lambda>_. I) E s"
    and "I s"
  shows "wp (for_each xs body) (\<lambda>_. I) E s"
  using assms
proof (induction xs arbitrary: s)
  case Nil
  then show ?case by (simp add: wp_ret)
next
  case (Cons x xs)
  from Cons.prems have "wp (body x) (\<lambda>_. I) E s" by simp
  then have "wp (body x) (\<lambda>_. wp (for_each xs body) (\<lambda>_. I) E) E s"
    by (rule wp_conseq) (use Cons in auto)
  then show ?case by (simp add: wp_bind)
qed

section \<open>Invariants and frames\<close>

definition keeps :: "('s \<Rightarrow> bool) \<Rightarrow> ('s, 'a) op \<Rightarrow> bool" where
  "keeps I m \<longleftrightarrow> (\<forall>s. I s \<longrightarrow> I (snd (m s)))"

lemma keepsI: "(\<And>s. I s \<Longrightarrow> I (snd (m s))) \<Longrightarrow> keeps I m"
  by (simp add: keeps_def)

lemma keepsD: "keeps I m \<Longrightarrow> I s \<Longrightarrow> I (snd (m s))"
  by (simp add: keeps_def)

lemma keeps_wp: "keeps I m \<longleftrightarrow> (\<forall>s. I s \<longrightarrow> wp m (\<lambda>_. I) (\<lambda>_. I) s)"
  by (auto simp: keeps_def wp_def split: sum.splits prod.splits) (metis snd_conv sum.exhaust surj_pair)

lemma keeps_ret [keeps_intros]: "keeps I (ret a)"
  by (simp add: keeps_def ret_def)

lemma keeps_fail [keeps_intros]: "keeps I (fail e)"
  by (simp add: keeps_def fail_def)

lemma keeps_lift [keeps_intros]: "keeps I (lift r)"
  by (simp add: keeps_def lift_def)

lemma keeps_gets [keeps_intros]: "keeps I (gets f)"
  by (simp add: keeps_def gets_def)

lemma keeps_bind [keeps_intros]:
  assumes "keeps I m" and "\<And>a. keeps I (k a)"
  shows "keeps I (bind m k)"
  using assms by (auto simp: keeps_def bind_def split: sum.splits prod.splits; metis snd_conv)

lemma keeps_bind_lift: "(\<And>a. r = Inr a \<Longrightarrow> keeps I (k a)) \<Longrightarrow> keeps I (bind (lift r) k)"
  by (cases r) (auto simp: keeps_def bind_def lift_def)

lemma keeps_catching [keeps_intros]:
  assumes "keeps I m" and "\<And>r. keeps I (k r)"
  shows "keeps I (catching m k)"
  using assms by (auto simp: keeps_def catching_def split: prod.splits; metis snd_conv)

lemma keeps_modify: "(\<And>s. I s \<Longrightarrow> I (f s)) \<Longrightarrow> keeps I (modify f)"
  by (simp add: keeps_def modify_def)

lemma keeps_if [keeps_intros]:
  "(b \<Longrightarrow> keeps I m) \<Longrightarrow> (\<not> b \<Longrightarrow> keeps I n) \<Longrightarrow> keeps I (if b then m else n)"
  by simp

lemma keeps_case_option [keeps_intros]:
  "(x = None \<Longrightarrow> keeps I m) \<Longrightarrow> (\<And>a. x = Some a \<Longrightarrow> keeps I (n a)) \<Longrightarrow>
    keeps I (case x of None \<Rightarrow> m | Some a \<Rightarrow> n a)"
  by (cases x) auto

lemma keeps_case_sum [keeps_intros]:
  "(\<And>a. x = Inl a \<Longrightarrow> keeps I (m a)) \<Longrightarrow> (\<And>a. x = Inr a \<Longrightarrow> keeps I (n a)) \<Longrightarrow>
    keeps I (case x of Inl a \<Rightarrow> m a | Inr a \<Rightarrow> n a)"
  by (cases x) auto

lemma keeps_case_prod [keeps_intros]:
  "(\<And>a b. x = (a, b) \<Longrightarrow> keeps I (m a b)) \<Longrightarrow> keeps I (case x of (a, b) \<Rightarrow> m a b)"
  by (cases x) auto

lemma keeps_Let [keeps_intros]: "(\<And>a. keeps I (m a)) \<Longrightarrow> keeps I (Let x m)"
  by (simp add: Let_def)

lemma keeps_for_each [keeps_intros]:
  "(\<And>x. keeps I (body x)) \<Longrightarrow> keeps I (for_each xs body)"
  by (induction xs) (auto intro!: keeps_intros)

lemma keeps_collect [keeps_intros]:
  "(\<And>x. keeps I (body x)) \<Longrightarrow> keeps I (collect xs body)"
  by (induction xs) (auto intro!: keeps_intros)

text \<open>A computation that leaves the projection \<open>f\<close> of the state unchanged.\<close>

definition frames :: "('s \<Rightarrow> 'b) \<Rightarrow> ('s, 'a) op \<Rightarrow> bool" where
  "frames f m \<longleftrightarrow> (\<forall>v. keeps (\<lambda>s. f s = v) m)"

lemma framesD: "frames f m \<Longrightarrow> f (snd (m s)) = f s"
  by (simp add: frames_def keeps_def)

lemma framesI: "(\<And>s. f (snd (m s)) = f s) \<Longrightarrow> frames f m"
  by (simp add: frames_def keeps_def)

lemma frames_keeps: "frames f m \<Longrightarrow> keeps (\<lambda>s. P (f s)) m"
  by (simp add: frames_def keeps_def)

section \<open>The environment\<close>

text \<open>
  Every call that leaves the process (a statement, a Redis command, a publication) consumes one
  step of the environment's script: it may work, fail without effect, or take effect while the
  reply is lost, and time may pass.  An exhausted script means that everything works.  Theorems
  quantify over the script, hence over every pattern of failures.
\<close>

datatype outcome = Works | Fails | ReplyLost

record env_step =
  outcome :: outcome
  elapsed :: nat

record env =
  clock :: time
  script :: "env_step list"
  random :: "nat \<Rightarrow> uuid"
  draws :: nat

definition external :: "('x env_scheme, 'a) op \<Rightarrow> ('x env_scheme, 'a) op" where
  "external m = (\<lambda>s. case script s of
      [] \<Rightarrow> m s
    | st # rest \<Rightarrow>
        let t = s\<lparr>clock := clock s + int (elapsed st), script := rest\<rparr>
        in case outcome st of
             Works \<Rightarrow> m t
           | Fails \<Rightarrow> (Inl [Infra ErrUnavailable], t)
           | ReplyLost \<Rightarrow> (Inl [Infra ErrUnavailable], snd (m t)))"

definition time_Now :: "('x env_scheme, time) op" where
  "time_Now = gets clock"

text \<open>
  \<^verbatim>\<open>uuid.New()\<close> and \<^verbatim>\<open>gen_random_uuid()\<close> draw the next identifier of the stream \<open>random\<close>, about
  which nothing is assumed here.
\<close>

definition uuid_New :: "('x env_scheme, uuid) op" where
  "uuid_New = (\<lambda>s. (Inr (random s (draws s)), s\<lparr>draws := Suc (draws s)\<rparr>))"

text \<open>
  \<open>begin\<close>, the body, \<open>commit\<close>.  The body says with its first component whether it
  reaches the commit; every other exit runs the deferred rollback, which restores the database
  \<open>sel\<close> as it was at the begin.
\<close>

definition transaction ::
  "('x env_scheme \<Rightarrow> 'db) \<Rightarrow> (('db \<Rightarrow> 'db) \<Rightarrow> 'x env_scheme \<Rightarrow> 'x env_scheme) \<Rightarrow>
   ('x env_scheme, bool \<times> 'a) op \<Rightarrow> ('x env_scheme, 'a) op" where
  "transaction sel upd body =
     andthen (external done_op) (\<lambda>s. case body s of
        (Inl e, t) \<Rightarrow> (Inl e, upd (\<lambda>_. sel s) t)
      | (Inr (False, a), t) \<Rightarrow> (Inr a, upd (\<lambda>_. sel s) t)
      | (Inr (True, a), t) \<Rightarrow>
          (case script t of
             [] \<Rightarrow> (Inr a, t)
           | st # rest \<Rightarrow>
               let u = t\<lparr>clock := clock t + int (elapsed st), script := rest\<rparr>
               in case outcome st of
                    Works \<Rightarrow> (Inr a, u)
                  | Fails \<Rightarrow> (Inl [Infra ErrUnavailable], upd (\<lambda>_. sel s) u)
                  | ReplyLost \<Rightarrow> (Inl [Infra ErrUnavailable], u)))"

text \<open>An invariant that does not look at the environment is kept by external calls.\<close>

definition env_free :: "('x env_scheme \<Rightarrow> bool) \<Rightarrow> bool" where
  "env_free I \<longleftrightarrow>
     (\<forall>s c sc. I (s\<lparr>clock := c, script := sc\<rparr>) = I s) \<and> (\<forall>s n. I (s\<lparr>draws := n\<rparr>) = I s)"

lemma env_freeD: "env_free I \<Longrightarrow> I (s\<lparr>clock := c, script := sc\<rparr>) = I s"
  by (simp add: env_free_def)

lemma keeps_uuid_New: "env_free I \<Longrightarrow> keeps I uuid_New"
  by (simp add: env_free_def keeps_def uuid_New_def)

lemma keeps_external:
  assumes "env_free I" and "keeps I m"
  shows "keeps I (external m)"
proof (rule keepsI)
  fix s :: "'a env_scheme"
  assume I: "I s"
  have adv: "I (s\<lparr>clock := clock s + int n, script := rest\<rparr>)" for n rest
    using assms(1) I by (simp add: env_freeD)
  show "I (snd (external m s))"
    using I adv keepsD [OF assms(2)]
    by (auto simp: external_def Let_def split: list.splits outcome.splits)
qed

lemma keeps_time_Now [keeps_intros]: "keeps I time_Now"
  by (simp add: time_Now_def keeps_gets)

lemma keeps_transaction:
  assumes free: "env_free I" and body: "keeps I body"
    and restore: "\<And>s t. I s \<Longrightarrow> I t \<Longrightarrow> I (upd (\<lambda>_. sel s) t)"
  shows "keeps I (transaction sel upd body)"
proof -
  have ext: "keeps I (external done_op)"
    by (rule keeps_external [OF free keeps_ret])
  have run: "I (snd ((\<lambda>s. case body s of
        (Inl e, t) \<Rightarrow> (Inl e, upd (\<lambda>_. sel s) t)
      | (Inr (False, a), t) \<Rightarrow> (Inr a, upd (\<lambda>_. sel s) t)
      | (Inr (True, a), t) \<Rightarrow>
          (case script t of
             [] \<Rightarrow> (Inr a, t)
           | st # rest \<Rightarrow>
               let u = t\<lparr>clock := clock t + int (elapsed st), script := rest\<rparr>
               in case outcome st of
                    Works \<Rightarrow> (Inr a, u)
                  | Fails \<Rightarrow> (Inl [Infra ErrUnavailable], upd (\<lambda>_. sel s) u)
                  | ReplyLost \<Rightarrow> (Inl [Infra ErrUnavailable], u))) s))" if "I s" for s
  proof -
    obtain r t where rt: "body s = (r, t)" by (cases "body s")
    with keepsD [OF body that] have t: "I t" by simp
    then have u: "I (t\<lparr>clock := clock t + int n, script := rest\<rparr>)" for n rest
      using free by (simp add: env_freeD)
    show ?thesis
      using rt t u restore [OF that]
      by (auto simp: Let_def split: sum.splits bool.splits list.splits outcome.splits)
  qed
  show ?thesis
    unfolding transaction_def
    by (rule keeps_bind [OF ext]) (rule keepsI, rule run)
qed

text \<open>What an external call can do, for the weakest-precondition calculus.\<close>

lemma wp_external:
  assumes "\<And>c sc. clock s \<le> c \<Longrightarrow> wp m Q E (s\<lparr>clock := c, script := sc\<rparr>)"
    and "\<And>c sc. clock s \<le> c \<Longrightarrow> E [Infra ErrUnavailable] (s\<lparr>clock := c, script := sc\<rparr>)"
    and "\<And>c sc. clock s \<le> c \<Longrightarrow> E [Infra ErrUnavailable] (snd (m (s\<lparr>clock := c, script := sc\<rparr>)))"
  shows "wp (external m) Q E s"
proof (cases "script s")
  case Nil
  have same: "s\<lparr>clock := clock s, script := script s\<rparr> = s" by simp
  have "wp m Q E s" using assms(1) [of "clock s" "script s"] unfolding same by simp
  with Nil show ?thesis by (simp add: wp_def external_def)
next
  case (Cons st rest)
  then show ?thesis
    using assms [of "clock s + int (elapsed st)" rest]
    by (auto simp: wp_def external_def Let_def split: outcome.splits)
qed

lemma wp_uuid_New [wp_simps]:
  "wp uuid_New Q E s = Q (random s (draws s)) (s\<lparr>draws := Suc (draws s)\<rparr>)"
  by (simp add: wp_def uuid_New_def)

lemma wp_time_Now [wp_simps]: "wp time_Now Q E s = Q (clock s) s"
  by (simp add: time_Now_def wp_gets)

lemma external_ok: "script s = [] \<Longrightarrow> external m s = m s"
  by (simp add: external_def)

section \<open>Tables\<close>

text \<open>
  A table is the list of its rows.  \<open>UPDATE .. SET .. WHERE\<close> maps the matching rows;
  \<open>RowsAffected\<close> counts them.
\<close>

definition sql_update :: "('r \<Rightarrow> bool) \<Rightarrow> ('r \<Rightarrow> 'r) \<Rightarrow> 'r list \<Rightarrow> 'r list" where
  "sql_update P f rows = map (\<lambda>r. if P r then f r else r) rows"

definition rows_affected :: "('r \<Rightarrow> bool) \<Rightarrow> 'r list \<Rightarrow> nat" where
  "rows_affected P rows = length (filter P rows)"

lemma sql_update_none: "rows_affected P rows = 0 \<Longrightarrow> sql_update P f rows = rows"
  unfolding sql_update_def rows_affected_def
  by (induction rows) (auto split: if_splits)

lemma set_sql_update: "set (sql_update P f rows) = {if P r then f r else r |r. r \<in> set rows}"
  by (auto simp: sql_update_def)

lemma sql_update_mem: "r \<in> set (sql_update P f rows) \<Longrightarrow> \<exists>q \<in> set rows. r = (if P q then f q else q)"
  by (auto simp: sql_update_def)

lemma map_sql_update:
  "(\<And>r. r \<in> set rows \<Longrightarrow> P r \<Longrightarrow> k (f r) = k r) \<Longrightarrow> map k (sql_update P f rows) = map k rows"
  by (auto simp: sql_update_def)

lemma length_sql_update [simp]: "length (sql_update P f rows) = length rows"
  by (simp add: sql_update_def)

end
