(* ===== verification/Domain_User.thy ===== *)
theory Domain_User
  imports GoPrelude
begin

text \<open>
  Users: roles, registration, telephone numbers and consents (\<^verbatim>\<open>internal/domain/user.go\<close>), and
  the permission table of the roles (\<^verbatim>\<open>permission.go\<close>).  A Go string is the list of its bytes.
\<close>

section \<open>Strings\<close>

text \<open>
  The UTF-8 encodings of the code points that \<^verbatim>\<open>unicode.IsSpace\<close> accepts, which
  \<^verbatim>\<open>strings.TrimSpace\<close> removes at both ends.
\<close>

definition space_encodings :: "string list" where
  "space_encodings =
     [[CHR 0x09], [CHR 0x0A], [CHR 0x0B], [CHR 0x0C], [CHR 0x0D], [CHR 0x20],
      [CHR 0xC2, CHR 0x85], [CHR 0xC2, CHR 0xA0], [CHR 0xE1, CHR 0x9A, CHR 0x80],
      [CHR 0xE2, CHR 0x80, CHR 0x80], [CHR 0xE2, CHR 0x80, CHR 0x81],
      [CHR 0xE2, CHR 0x80, CHR 0x82], [CHR 0xE2, CHR 0x80, CHR 0x83],
      [CHR 0xE2, CHR 0x80, CHR 0x84], [CHR 0xE2, CHR 0x80, CHR 0x85],
      [CHR 0xE2, CHR 0x80, CHR 0x86], [CHR 0xE2, CHR 0x80, CHR 0x87],
      [CHR 0xE2, CHR 0x80, CHR 0x88], [CHR 0xE2, CHR 0x80, CHR 0x89],
      [CHR 0xE2, CHR 0x80, CHR 0x8A], [CHR 0xE2, CHR 0x80, CHR 0xA8],
      [CHR 0xE2, CHR 0x80, CHR 0xA9], [CHR 0xE2, CHR 0x80, CHR 0xAF],
      [CHR 0xE2, CHR 0x81, CHR 0x9F], [CHR 0xE3, CHR 0x80, CHR 0x80]]"

text \<open>Removes encodings of the list from the front, as long as one is there.\<close>

function trim_front :: "string list \<Rightarrow> string \<Rightarrow> string" where
  "trim_front ws s =
     (case find (\<lambda>w. w \<noteq> [] \<and> take (length w) s = w) ws of
        None \<Rightarrow> s
      | Some w \<Rightarrow> trim_front ws (drop (length w) s))"
  by pat_completeness auto
termination
proof (relation "measure (\<lambda>(ws, s). length s)")
  fix ws :: "string list" and s w
  assume "find (\<lambda>w. w \<noteq> [] \<and> take (length w) s = w) ws = Some w"
  then have "w \<noteq> []" "take (length w) s = w" by (auto simp: find_Some_iff)
  then have "0 < length w" "length w \<le> length s" by (auto simp: min_def split: if_splits dest: arg_cong [of _ _ length])
  then have "length (drop (length w) s) < length s" unfolding length_drop by linarith
  then show "((ws, drop (length w) s), ws, s) \<in> measure (\<lambda>(ws, s). length s)" by simp
qed simp

declare trim_front.simps [simp del]

definition TrimSpace :: "string \<Rightarrow> string" where
  "TrimSpace s =
     rev (trim_front (map rev space_encodings) (rev (trim_front space_encodings s)))"

text \<open>\<^verbatim>\<open>strings.ReplaceAll(s, c, "")\<close> for a one-byte \<open>c\<close>.\<close>

definition remove_byte :: "char \<Rightarrow> string \<Rightarrow> string" where
  "remove_byte c s = filter (\<lambda>x. x \<noteq> c) s"

definition is_digit :: "char \<Rightarrow> bool" where
  "is_digit c \<longleftrightarrow> c \<in> set ''0123456789''"

section \<open>Roles and registration\<close>

datatype user_role =
    UserRolePassenger
  | UserRoleDriver
  | UserRoleTaxiPark
  | UserRoleAdmin
  | UserRoleDispatcher
  | UserRoleOther string

definition UserRole_Validate :: "user_role \<Rightarrow> error + unit" where
  "UserRole_Validate role =
     (if role \<in> {UserRolePassenger, UserRoleDriver, UserRoleTaxiPark, UserRoleAdmin,
                 UserRoleDispatcher}
      then Inr () else Inl [Domain ErrInvalidUserRole])"

datatype registration_type =
    RegistrationTypePassenger
  | RegistrationTypeDriver
  | RegistrationTypeTaxiPark
  | RegistrationTypeOther string

definition RegistrationType_Validate :: "registration_type \<Rightarrow> error + unit" where
  "RegistrationType_Validate t =
     (if t \<in> {RegistrationTypePassenger, RegistrationTypeDriver, RegistrationTypeTaxiPark}
      then Inr () else Inl [Domain ErrInvalidRegistrationType])"

fun RoleFromRegistrationType :: "registration_type \<Rightarrow> error + user_role" where
  "RoleFromRegistrationType RegistrationTypePassenger = Inr UserRolePassenger"
| "RoleFromRegistrationType RegistrationTypeDriver = Inr UserRoleDriver"
| "RoleFromRegistrationType RegistrationTypeTaxiPark = Inr UserRoleTaxiPark"
| "RoleFromRegistrationType (RegistrationTypeOther _) = Inl [Domain ErrInvalidRegistrationType]"

definition ValidateRequiredRegistrationConsent ::
  "bool \<Rightarrow> bool \<Rightarrow> string \<Rightarrow> string \<Rightarrow> error + unit" where
  "ValidateRequiredRegistrationConsent personalDataConsent termsAccepted privacyPolicyVersion
     termsVersion =
     (if \<not> personalDataConsent \<or> \<not> termsAccepted then Inl [Domain ErrConsentRequired]
      else if TrimSpace privacyPolicyVersion = '''' \<or> TrimSpace termsVersion = ''''
        then Inl [Domain ErrConsentRequired]
      else Inr ())"

section \<open>Telephone numbers\<close>

text \<open>The pattern \<^verbatim>\<open>^\+[1-9]\d{7,14}$\<close>.\<close>

fun phonePattern :: "string \<Rightarrow> bool" where
  "phonePattern (p # d # ds) =
     (p = CHR ''+'' \<and> is_digit d \<and> d \<noteq> CHR ''0'' \<and> list_all is_digit ds
      \<and> 7 \<le> length ds \<and> length ds \<le> 14)"
| "phonePattern _ = False"

definition NormalizePhone :: "string \<Rightarrow> error + string" where
  "NormalizePhone phone =
     (let normalized = TrimSpace phone;
          normalized = remove_byte (CHR '' '') normalized;
          normalized = remove_byte (CHR ''-'') normalized;
          normalized = remove_byte (CHR ''('') normalized;
          normalized = remove_byte (CHR '')'') normalized;
          normalized = (if length normalized = 11 \<and> take 1 normalized = ''8''
                        then ''+7'' @ drop 1 normalized else normalized)
      in if phonePattern normalized then Inr normalized else Inl [Domain ErrInvalidPhone])"

section \<open>E-mail addresses\<close>

text \<open>
  The Unicode tables of \<^verbatim>\<open>strings.ToLower\<close>, the parser \<^verbatim>\<open>mail.ParseAddress\<close>, which returns the
  address of a well-formed text, and \<^verbatim>\<open>lower\<close> of PostgreSQL are parameters.
\<close>

record mail_text =
  mlt_ToLower :: "string \<Rightarrow> string"
  mlt_ParseAddress :: "string \<Rightarrow> string option"
  mlt_sql_lower :: "string \<Rightarrow> string"

definition NormalizeEmail :: "mail_text \<Rightarrow> string \<Rightarrow> error + string" where
  "NormalizeEmail mt email =
     (let normalized = mlt_ToLower mt (TrimSpace email)
      in if normalized = [] then Inl [Domain ErrInvalidEmail]
         else if mlt_ParseAddress mt normalized \<noteq> Some normalized then Inl [Domain ErrInvalidEmail]
         else Inr normalized)"

section \<open>The normal form of a telephone number\<close>

lemma is_digit_neq:
  "is_digit c \<Longrightarrow> c \<notin> {CHR '' '', CHR ''-'', CHR ''('', CHR '')'', CHR ''+''}"
  by (auto simp: is_digit_def)

lemma phonePattern_cases:
  assumes "phonePattern s"
  obtains d ds where "s = CHR ''+'' # d # ds" "is_digit d" "list_all is_digit ds" "ds \<noteq> []"
  using assms by (cases s rule: phonePattern.cases) (fastforce simp: list_all_iff)+

lemma trim_front_id:
  assumes "\<And>w. w \<in> set ws \<Longrightarrow> w \<noteq> [] \<Longrightarrow> hd w \<noteq> c"
  shows "trim_front ws (c # s) = c # s"
proof -
  have "\<not> (w \<noteq> [] \<and> take (length w) (c # s) = w)" if "w \<in> set ws" for w
    using assms [OF that] by (cases w) auto
  then have "find (\<lambda>w. w \<noteq> [] \<and> take (length w) (c # s) = w) ws = None"
    by (auto simp: find_None_iff)
  then show ?thesis by (simp add: trim_front.simps [of ws "c # s"])
qed

lemma space_first: "w \<in> set space_encodings \<Longrightarrow> hd w \<noteq> CHR ''+''"
  by (auto simp: space_encodings_def)

lemma space_last: "w \<in> set (map rev space_encodings) \<Longrightarrow> is_digit c \<Longrightarrow> hd w \<noteq> c"
  by (auto simp: space_encodings_def is_digit_def)

lemma TrimSpace_phone:
  assumes "phonePattern s"
  shows "TrimSpace s = s"
proof -
  from assms obtain d ds where s: "s = CHR ''+'' # d # ds" "list_all is_digit ds" "ds \<noteq> []"
    by (rule phonePattern_cases)
  then obtain x xs where x: "rev s = x # xs" "is_digit x"
    by (cases ds rule: rev_cases) auto
  have "trim_front space_encodings s = s"
    unfolding s(1) by (rule trim_front_id) (use space_first in blast)
  moreover have "trim_front (map rev space_encodings) (rev s) = rev s"
    unfolding x(1) by (rule trim_front_id) (use space_last x(2) in blast)
  ultimately show ?thesis by (simp add: TrimSpace_def)
qed

lemma remove_byte_phone:
  assumes "phonePattern s" and "c \<in> {CHR '' '', CHR ''-'', CHR ''('', CHR '')''}"
  shows "remove_byte c s = s"
proof -
  from assms(1) obtain d ds where s: "s = CHR ''+'' # d # ds" "is_digit d" "list_all is_digit ds"
    by (rule phonePattern_cases)
  then have "x \<noteq> c" if "x \<in> set s" for x
    using that is_digit_neq assms(2) by (fastforce simp: list_all_iff)
  then show ?thesis by (simp add: remove_byte_def)
qed

lemma NormalizePhone_phone:
  assumes "phonePattern s"
  shows "NormalizePhone s = Inr s"
proof -
  have "take 1 s \<noteq> ''8''" using assms by (rule phonePattern_cases) auto
  then show ?thesis
    using assms by (simp add: NormalizePhone_def TrimSpace_phone remove_byte_phone)
qed

lemma NormalizePhone_Inr: "NormalizePhone s = Inr q \<Longrightarrow> phonePattern q"
  by (auto simp: NormalizePhone_def Let_def split: if_splits)

section \<open>Permissions\<close>

text \<open>\<^verbatim>\<open>type Permission string\<close> with its constants, and the table of each role.\<close>

type_synonym permission = string

abbreviation PermissionPassengerCreateOrder :: permission where
  "PermissionPassengerCreateOrder \<equiv> ''passenger.orders.create''"
abbreviation PermissionPassengerViewCurrentOrder :: permission where
  "PermissionPassengerViewCurrentOrder \<equiv> ''passenger.orders.current.view''"
abbreviation PermissionPassengerViewOrderHistory :: permission where
  "PermissionPassengerViewOrderHistory \<equiv> ''passenger.orders.history.view''"
abbreviation PermissionPassengerCancelOrder :: permission where
  "PermissionPassengerCancelOrder \<equiv> ''passenger.orders.cancel''"
abbreviation PermissionPassengerRateTrip :: permission where
  "PermissionPassengerRateTrip \<equiv> ''passenger.trips.rate''"
abbreviation PermissionPassengerViewDriverContact :: permission where
  "PermissionPassengerViewDriverContact \<equiv> ''passenger.driver.contact.view''"
abbreviation PermissionDriverAuthorize :: permission where
  "PermissionDriverAuthorize \<equiv> ''driver.auth.authorize''"
abbreviation PermissionDriverSubmitVerification :: permission where
  "PermissionDriverSubmitVerification \<equiv> ''driver.verification.submit''"
abbreviation PermissionDriverGoOnline :: permission where
  "PermissionDriverGoOnline \<equiv> ''driver.status.online''"
abbreviation PermissionDriverGoOffline :: permission where
  "PermissionDriverGoOffline \<equiv> ''driver.status.offline''"
abbreviation PermissionDriverUpdateLocation :: permission where
  "PermissionDriverUpdateLocation \<equiv> ''driver.location.update''"
abbreviation PermissionDriverReceiveOrders :: permission where
  "PermissionDriverReceiveOrders \<equiv> ''driver.orders.receive''"
abbreviation PermissionDriverAcceptOrder :: permission where
  "PermissionDriverAcceptOrder \<equiv> ''driver.orders.accept''"
abbreviation PermissionDriverRejectOrder :: permission where
  "PermissionDriverRejectOrder \<equiv> ''driver.orders.reject''"
abbreviation PermissionDriverUpdateTripStatus :: permission where
  "PermissionDriverUpdateTripStatus \<equiv> ''driver.trips.status.update''"
abbreviation PermissionDriverCompleteOrder :: permission where
  "PermissionDriverCompleteOrder \<equiv> ''driver.orders.complete''"
abbreviation PermissionDriverViewEarnings :: permission where
  "PermissionDriverViewEarnings \<equiv> ''driver.earnings.view''"
abbreviation PermissionDriverViewBalance :: permission where
  "PermissionDriverViewBalance \<equiv> ''driver.balance.view''"
abbreviation PermissionDriverViewTransactions :: permission where
  "PermissionDriverViewTransactions \<equiv> ''driver.transactions.view''"
abbreviation PermissionDriverViewOrderHistory :: permission where
  "PermissionDriverViewOrderHistory \<equiv> ''driver.orders.history.view''"
abbreviation PermissionAdminManageCities :: permission where
  "PermissionAdminManageCities \<equiv> ''admin.cities.manage''"
abbreviation PermissionAdminManageZones :: permission where
  "PermissionAdminManageZones \<equiv> ''admin.zones.manage''"
abbreviation PermissionAdminManageTariffs :: permission where
  "PermissionAdminManageTariffs \<equiv> ''admin.tariffs.manage''"
abbreviation PermissionAdminManageDrivers :: permission where
  "PermissionAdminManageDrivers \<equiv> ''admin.drivers.manage''"
abbreviation PermissionAdminBlockDrivers :: permission where
  "PermissionAdminBlockDrivers \<equiv> ''admin.drivers.block''"
abbreviation PermissionAdminViewOrders :: permission where
  "PermissionAdminViewOrders \<equiv> ''admin.orders.view''"
abbreviation PermissionAdminViewStatistics :: permission where
  "PermissionAdminViewStatistics \<equiv> ''admin.statistics.view''"
abbreviation PermissionAdminAssignDriver :: permission where
  "PermissionAdminAssignDriver \<equiv> ''admin.orders.driver.assign''"
abbreviation PermissionAdminManageCommissions :: permission where
  "PermissionAdminManageCommissions \<equiv> ''admin.commissions.manage''"
abbreviation PermissionAdminViewFinance :: permission where
  "PermissionAdminViewFinance \<equiv> ''admin.finance.view''"
abbreviation PermissionAdminViewComplaints :: permission where
  "PermissionAdminViewComplaints \<equiv> ''admin.complaints.view''"
abbreviation PermissionAdminViewRatings :: permission where
  "PermissionAdminViewRatings \<equiv> ''admin.ratings.view''"
abbreviation PermissionDispatcherCreateOrder :: permission where
  "PermissionDispatcherCreateOrder \<equiv> ''dispatcher.orders.create''"
abbreviation PermissionDispatcherFindPassenger :: permission where
  "PermissionDispatcherFindPassenger \<equiv> ''dispatcher.passengers.find''"
abbreviation PermissionDispatcherAssignDriver :: permission where
  "PermissionDispatcherAssignDriver \<equiv> ''dispatcher.orders.driver.assign''"
abbreviation PermissionDispatcherUpdateAddress :: permission where
  "PermissionDispatcherUpdateAddress \<equiv> ''dispatcher.orders.address.update''"
abbreviation PermissionDispatcherCancelOrder :: permission where
  "PermissionDispatcherCancelOrder \<equiv> ''dispatcher.orders.cancel''"
abbreviation PermissionDispatcherContactDriver :: permission where
  "PermissionDispatcherContactDriver \<equiv> ''dispatcher.drivers.contact''"
abbreviation PermissionTaxiParkInviteDrivers :: permission where
  "PermissionTaxiParkInviteDrivers \<equiv> ''taxi_park.drivers.invite''"
abbreviation PermissionTaxiParkManageProfile :: permission where
  "PermissionTaxiParkManageProfile \<equiv> ''taxi_park.profile.manage''"
abbreviation PermissionTaxiParkCreateDrivers :: permission where
  "PermissionTaxiParkCreateDrivers \<equiv> ''taxi_park.drivers.create''"
abbreviation PermissionTaxiParkManageDrivers :: permission where
  "PermissionTaxiParkManageDrivers \<equiv> ''taxi_park.drivers.manage''"
abbreviation PermissionTaxiParkManageCars :: permission where
  "PermissionTaxiParkManageCars \<equiv> ''taxi_park.cars.manage''"
abbreviation PermissionTaxiParkViewOrders :: permission where
  "PermissionTaxiParkViewOrders \<equiv> ''taxi_park.orders.view''"
abbreviation PermissionTaxiParkViewEarnings :: permission where
  "PermissionTaxiParkViewEarnings \<equiv> ''taxi_park.earnings.view''"
abbreviation PermissionTaxiParkViewFinance :: permission where
  "PermissionTaxiParkViewFinance \<equiv> ''taxi_park.finance.view''"

fun rolePermissions :: "user_role \<Rightarrow> permission list" where
  "rolePermissions UserRolePassenger =
     [PermissionPassengerCreateOrder,
      PermissionPassengerViewCurrentOrder,
      PermissionPassengerViewOrderHistory,
      PermissionPassengerCancelOrder,
      PermissionPassengerRateTrip,
      PermissionPassengerViewDriverContact]"
| "rolePermissions UserRoleDriver =
     [PermissionPassengerCreateOrder,
      PermissionPassengerViewCurrentOrder,
      PermissionPassengerViewOrderHistory,
      PermissionPassengerCancelOrder,
      PermissionPassengerRateTrip,
      PermissionPassengerViewDriverContact,
      PermissionDriverAuthorize,
      PermissionDriverSubmitVerification,
      PermissionDriverGoOnline,
      PermissionDriverGoOffline,
      PermissionDriverUpdateLocation,
      PermissionDriverReceiveOrders,
      PermissionDriverAcceptOrder,
      PermissionDriverRejectOrder,
      PermissionDriverUpdateTripStatus,
      PermissionDriverCompleteOrder,
      PermissionDriverViewEarnings,
      PermissionDriverViewBalance,
      PermissionDriverViewTransactions,
      PermissionDriverViewOrderHistory]"
| "rolePermissions UserRoleAdmin =
     [PermissionPassengerCreateOrder,
      PermissionPassengerViewCurrentOrder,
      PermissionPassengerViewOrderHistory,
      PermissionPassengerCancelOrder,
      PermissionPassengerRateTrip,
      PermissionPassengerViewDriverContact,
      PermissionAdminManageCities,
      PermissionAdminManageZones,
      PermissionAdminManageTariffs,
      PermissionAdminManageDrivers,
      PermissionAdminBlockDrivers,
      PermissionAdminViewOrders,
      PermissionAdminViewStatistics,
      PermissionAdminAssignDriver,
      PermissionAdminManageCommissions,
      PermissionAdminViewFinance,
      PermissionAdminViewComplaints,
      PermissionAdminViewRatings]"
| "rolePermissions UserRoleDispatcher =
     [PermissionTaxiParkInviteDrivers,
      PermissionPassengerCreateOrder,
      PermissionPassengerViewCurrentOrder,
      PermissionPassengerViewOrderHistory,
      PermissionPassengerCancelOrder,
      PermissionPassengerRateTrip,
      PermissionPassengerViewDriverContact,
      PermissionDispatcherCreateOrder,
      PermissionDispatcherFindPassenger,
      PermissionDispatcherAssignDriver,
      PermissionDispatcherUpdateAddress,
      PermissionDispatcherCancelOrder,
      PermissionDispatcherContactDriver]"
| "rolePermissions UserRoleTaxiPark =
     [PermissionTaxiParkInviteDrivers,
      PermissionPassengerCreateOrder,
      PermissionPassengerViewCurrentOrder,
      PermissionPassengerViewOrderHistory,
      PermissionPassengerCancelOrder,
      PermissionPassengerRateTrip,
      PermissionPassengerViewDriverContact,
      PermissionTaxiParkManageProfile,
      PermissionTaxiParkCreateDrivers,
      PermissionTaxiParkManageDrivers,
      PermissionTaxiParkManageCars,
      PermissionTaxiParkViewOrders,
      PermissionTaxiParkViewEarnings,
      PermissionTaxiParkViewFinance]"
| "rolePermissions (UserRoleOther _) = []"

definition PermissionsForRole :: "user_role \<Rightarrow> permission list" where
  "PermissionsForRole role = rolePermissions role"

definition RoleHasPermission :: "user_role \<Rightarrow> permission \<Rightarrow> bool" where
  "RoleHasPermission role requiredPermission =
     list_ex (\<lambda>permission. permission = requiredPermission) (rolePermissions role)"

section \<open>Properties\<close>

text \<open>
  A telephone number that is accepted is in E.164 form (a plus sign, a digit from 1 to 9, then 7
  to 14 digits), and normalising the result again changes nothing.
\<close>

theorem NormalizePhone_normal_form:
  assumes "NormalizePhone s = Inr q"
  shows "phonePattern q \<and> 9 \<le> length q \<and> length q \<le> 16 \<and> set (tl q) \<subseteq> set ''0123456789''
    \<and> NormalizePhone q = Inr q"
proof -
  have q: "phonePattern q" using assms by (rule NormalizePhone_Inr)
  then have "9 \<le> length q \<and> length q \<le> 16 \<and> set (tl q) \<subseteq> set ''0123456789''"
    by (cases q rule: phonePattern.cases) (auto simp: is_digit_def list_all_iff)
  with q show ?thesis by (simp add: NormalizePhone_phone)
qed

theorem NormalizePhone_normal_form_witness:
  "NormalizePhone ''+79991234567'' = Inr ''+79991234567''"
  using NormalizePhone_normal_form [of "'' 8 (999) 123-45-67''" "''+79991234567''"]
  by (simp add: NormalizePhone_def TrimSpace_def space_encodings_def trim_front.simps
      remove_byte_def is_digit_def)

text \<open>
  The permissions separate the roles: a driver permission is held by drivers only, an
  administrator permission by administrators only, a dispatcher permission by dispatchers only; a
  role outside the five known ones holds nothing, and every known role may order a taxi.
\<close>

theorem permissions_separate_roles:
  "(RoleHasPermission r p \<and> take 7 p = ''driver.'' \<longrightarrow> r = UserRoleDriver)
   \<and> (RoleHasPermission r p \<and> take 6 p = ''admin.'' \<longrightarrow> r = UserRoleAdmin)
   \<and> (RoleHasPermission r p \<and> take 11 p = ''dispatcher.'' \<longrightarrow> r = UserRoleDispatcher)
   \<and> (RoleHasPermission r PermissionPassengerCreateOrder \<longleftrightarrow> UserRole_Validate r = Inr ())
   \<and> (RoleHasPermission r p \<longleftrightarrow> p \<in> set (PermissionsForRole r))"
  by (cases r) (auto simp: RoleHasPermission_def PermissionsForRole_def UserRole_Validate_def)

theorem permissions_separate_roles_witness:
  "RoleHasPermission UserRoleDriver PermissionDriverGoOnline
   \<and> \<not> RoleHasPermission UserRoleDispatcher PermissionDriverGoOnline"
  using permissions_separate_roles [of UserRoleDispatcher PermissionDriverGoOnline]
  by (simp add: RoleHasPermission_def)

end
