(* ===== verification/Domain_Money.thy ===== *)
theory Domain_Money
  imports GoPrelude
begin

text \<open>
  Money, geographic coordinates and the commission arithmetic: \<^verbatim>\<open>internal/domain/money.go\<close>,
  \<^verbatim>\<open>geo.go\<close> and the pure part of \<^verbatim>\<open>finance.go\<close>.  Amounts are int64 numbers of kopecks;
  every product and sum is computed through \<open>wrap64\<close>, so that an overflow is visible.
\<close>

record money =
  Amount :: int
  Currency :: string

definition NewMoney :: "int \<Rightarrow> string \<Rightarrow> error + money" where
  "NewMoney amount currency =
     (if amount < 0 \<or> currency = '''' then Inl [Domain ErrInvalidMoney]
      else Inr \<lparr>Amount = amount, Currency = currency\<rparr>)"

record coordinates =
  Latitude :: f64
  Longitude :: f64

definition NewCoordinates :: "f64 \<Rightarrow> f64 \<Rightarrow> error + coordinates" where
  "NewCoordinates latitude longitude =
     (if f64_less latitude (Fin (-90)) \<or> f64_less (Fin 90) latitude then Inl [Domain ErrInvalidCoordinates]
      else if f64_less longitude (Fin (-180)) \<or> f64_less (Fin 180) longitude
        then Inl [Domain ErrInvalidCoordinates]
      else Inr \<lparr>Latitude = latitude, Longitude = longitude\<rparr>)"

section \<open>Commission rates\<close>

datatype transaction_type =
    TransactionTypeCommission
  | TransactionTypeDriverIncome
  | TransactionTypeRefund
  | TransactionTypeManualAdjustment
  | TransactionTypeWithdrawal
  | TransactionTypeOther string

definition TransactionType_Validate :: "transaction_type \<Rightarrow> error + unit" where
  "TransactionType_Validate t =
     (if t \<in> {TransactionTypeCommission, TransactionTypeDriverIncome, TransactionTypeRefund,
              TransactionTypeManualAdjustment, TransactionTypeWithdrawal}
      then Inr () else Inl [Msg ''invalid transaction type''])"

definition DefaultPlatformCommissionBasisPoints :: int where
  "DefaultPlatformCommissionBasisPoints = 100"

record commission_rate =
  BasisPoints :: int
  Source :: string

record commission_context =
  PlatformDefaultBasisPoints :: int
  CityBasisPoints :: "int option"
  TariffBasisPoints :: "int option"
  TaxiParkBasisPoints :: "int option"
  DriverBasisPoints :: "int option"

text \<open>One \<^verbatim>\<open>if context.X != nil\<close> of the chain: a present rate replaces the one found so far.\<close>

definition override_rate :: "int option \<Rightarrow> string \<Rightarrow> commission_rate \<Rightarrow> commission_rate" where
  "override_rate bps src rate =
     (case bps of None \<Rightarrow> rate | Some b \<Rightarrow> \<lparr>BasisPoints = b, Source = src\<rparr>)"

definition ResolveCommissionRate :: "commission_context \<Rightarrow> error + commission_rate" where
  "ResolveCommissionRate ctx =
     (let dflt = (if PlatformDefaultBasisPoints ctx = 0
                  then DefaultPlatformCommissionBasisPoints else PlatformDefaultBasisPoints ctx);
          rate = \<lparr>BasisPoints = dflt, Source = ''platform_default''\<rparr>;
          rate = override_rate (CityBasisPoints ctx) ''city'' rate;
          rate = override_rate (TariffBasisPoints ctx) ''tariff'' rate;
          rate = override_rate (TaxiParkBasisPoints ctx) ''taxi_park'' rate;
          rate = override_rate (DriverBasisPoints ctx) ''driver'' rate
      in if BasisPoints rate < 0 \<or> BasisPoints rate > 10000
         then Inl [Domain ErrInvalidCommissionRate] else Inr rate)"

text \<open>\<^verbatim>\<open>(amount*int64(bps) + 5000) / 10000\<close> in int64: wrapped product and sum, truncated quotient.\<close>

definition basis_points_of :: "int \<Rightarrow> int \<Rightarrow> int" where
  "basis_points_of amount bps = wrap64 (wrap64 (wrap64 (amount * bps) + 5000) sdiv 10000)"

definition CalculateCommission :: "money \<Rightarrow> commission_rate \<Rightarrow> error + (money \<times> money)" where
  "CalculateCommission grossAmount rate =
     (if Amount grossAmount < 0 \<or> Currency grossAmount = '''' then Inl [Domain ErrInvalidMoney]
      else if BasisPoints rate < 0 \<or> BasisPoints rate > 10000 then Inl [Domain ErrInvalidCommissionRate]
      else
        let commissionAmount = basis_points_of (Amount grossAmount) (BasisPoints rate);
            netAmount = wrap64 (Amount grossAmount - commissionAmount)
        in case NewMoney commissionAmount (Currency grossAmount) of
             Inl e \<Rightarrow> Inl e
           | Inr commission \<Rightarrow>
               (case NewMoney netAmount (Currency grossAmount) of
                  Inl e \<Rightarrow> Inl e
                | Inr net \<Rightarrow> Inr (commission, net)))"

definition CalculatePlatformFee :: "money \<Rightarrow> commission_rate \<Rightarrow> error + money" where
  "CalculatePlatformFee baseAmount rate =
     (if Amount baseAmount < 0 \<or> Currency baseAmount = '''' then Inl [Domain ErrInvalidMoney]
      else if BasisPoints rate < 0 \<or> BasisPoints rate > 10000 then Inl [Domain ErrInvalidCommissionRate]
      else NewMoney (basis_points_of (Amount baseAmount) (BasisPoints rate)) (Currency baseAmount))"

section \<open>Facts about the rounded share\<close>

text \<open>The largest amount whose product with any legal rate stays inside int64.\<close>

definition max_commissionable :: int where
  "max_commissionable = 922337203685477"

lemma basis_points_of_exact:
  assumes "0 \<le> amount" "amount \<le> max_commissionable" "0 \<le> bps" "bps \<le> 10000"
  shows "basis_points_of amount bps = (amount * bps + 5000) div 10000"
proof -
  have le: "amount * bps \<le> 922337203685477 * 10000"
    using assms by (intro mult_mono) (auto simp: max_commissionable_def)
  have ge: "0 \<le> amount * bps" using assms by simp
  have w1: "wrap64 (amount * bps) = amount * bps"
    using le ge by (intro wrap64_id) (auto simp: int64_min_def int64_max_def)
  have w2: "wrap64 (amount * bps + 5000) = amount * bps + 5000"
    using le ge by (intro wrap64_id) (auto simp: int64_min_def int64_max_def)
  have q: "(amount * bps + 5000) sdiv 10000 = (amount * bps + 5000) div 10000"
    using ge by (simp add: signed_divide_int_def)
  have "(amount * bps + 5000) div 10000 \<le> int64_max"
    using le by (simp add: int64_max_def)
  moreover have "int64_min \<le> (amount * bps + 5000) div 10000"
    using ge by (simp add: int64_min_def)
  ultimately show ?thesis by (simp add: basis_points_of_def w1 w2 q)
qed

lemma rounded_share_bounds:
  fixes amount bps :: int
  assumes "0 \<le> amount" "0 \<le> bps" "bps \<le> 10000"
  shows "0 \<le> (amount * bps + 5000) div 10000" and "(amount * bps + 5000) div 10000 \<le> amount"
proof -
  have ge: "0 \<le> amount * bps" using assms by simp
  then show "0 \<le> (amount * bps + 5000) div 10000" by simp
  have "amount * bps \<le> amount * 10000" using assms by (intro mult_left_mono) auto
  then show "(amount * bps + 5000) div 10000 \<le> amount" by simp
qed

text \<open>A quotient \<open>x / n\<close> rounded to the nearest integer, halves up.\<close>

lemma round_half_up:
  fixes x n h :: int
  assumes "0 < h" "n = 2 * h"
  shows "\<bar>n * ((x + h) div n) - x\<bar> \<le> h"
proof -
  have "n * ((x + h) div n) + (x + h) mod n = x + h" by (rule mult_div_mod_eq)
  moreover have "0 \<le> (x + h) mod n" "(x + h) mod n < n" using assms by auto
  ultimately show ?thesis using assms(2) by linarith
qed

lemma rounded_share_nearest:
  fixes x :: int
  shows "\<bar>10000 * ((x + 5000) div 10000) - x\<bar> \<le> 5000"
  by (rule round_half_up) simp_all

lemma override_rate_simps [simp]:
  "override_rate None src rate = rate"
  "override_rate (Some b) src rate = \<lparr>BasisPoints = b, Source = src\<rparr>"
  by (simp_all add: override_rate_def)

section \<open>Properties\<close>

text \<open>
  C36: the commission split loses nothing: for a gross amount up to \<open>max_commissionable\<close> and a
  legal rate it succeeds, the commission and the net amount are both between zero and the gross
  amount and add up to it, the currency is kept, and the commission is the exact share rounded to
  the nearest kopeck.
\<close>

theorem CalculateCommission_split:
  assumes "0 \<le> Amount gross" and "Amount gross \<le> max_commissionable" and "Currency gross \<noteq> ''''"
    and "0 \<le> BasisPoints rate" and "BasisPoints rate \<le> 10000"
  shows "\<exists>commission net. CalculateCommission gross rate = Inr (commission, net)
    \<and> Amount commission + Amount net = Amount gross
    \<and> 0 \<le> Amount commission \<and> 0 \<le> Amount net
    \<and> Currency commission = Currency gross \<and> Currency net = Currency gross
    \<and> \<bar>10000 * Amount commission - Amount gross * BasisPoints rate\<bar> \<le> 5000"
proof -
  let ?c = "(Amount gross * BasisPoints rate + 5000) div 10000"
  have c: "basis_points_of (Amount gross) (BasisPoints rate) = ?c"
    using assms by (simp add: basis_points_of_exact)
  have b: "0 \<le> ?c" "?c \<le> Amount gross" using rounded_share_bounds assms by auto
  moreover have "wrap64 (Amount gross - ?c) = Amount gross - ?c"
    using b assms by (intro wrap64_id) (auto simp: int64_min_def int64_max_def max_commissionable_def)
  ultimately show ?thesis
    using assms rounded_share_nearest [of "Amount gross * BasisPoints rate"]
    by (auto simp: CalculateCommission_def c Let_def NewMoney_def)
qed

theorem CalculateCommission_split_witness:
  "\<exists>commission net. CalculateCommission \<lparr>Amount = 35050, Currency = ''RUB''\<rparr>
      \<lparr>BasisPoints = 1500, Source = ''driver''\<rparr> = Inr (commission, net)
    \<and> Amount commission + Amount net = 35050"
  using CalculateCommission_split [of "\<lparr>Amount = 35050, Currency = ''RUB''\<rparr>"
      "\<lparr>BasisPoints = 1500, Source = ''driver''\<rparr>"]
  by (auto simp: max_commissionable_def)

text \<open>
  Beyond \<open>max_commissionable\<close> the int64 product wraps around: a commission of 100 percent on
  18.4 trillion roubles comes out as one kopeck.
\<close>

lemma CalculateCommission_overflow:
  "CalculateCommission \<lparr>Amount = 1844674407370956, Currency = ''RUB''\<rparr>
     \<lparr>BasisPoints = 10000, Source = ''driver''\<rparr>
   = Inr (\<lparr>Amount = 1, Currency = ''RUB''\<rparr>, \<lparr>Amount = 1844674407370955, Currency = ''RUB''\<rparr>)"
  by (simp add: CalculateCommission_def basis_points_of_def wrap64_sint NewMoney_def Let_def
      signed_take_bit_int_eq_self signed_divide_int_def)

text \<open>
  The commission rate is resolved by priority: a driver's own rate wins over the taxi park's,
  that over the tariff's, that over the city's, that over the platform default; the rate chosen is
  returned when it lies between 0 and 100 percent and refused otherwise, a rate of lower priority
  never being consulted.
\<close>

theorem ResolveCommissionRate_priority:
  "ResolveCommissionRate ctx =
    (let (bps, src) =
       (case DriverBasisPoints ctx of Some b \<Rightarrow> (b, ''driver'') | None \<Rightarrow>
        case TaxiParkBasisPoints ctx of Some b \<Rightarrow> (b, ''taxi_park'') | None \<Rightarrow>
        case TariffBasisPoints ctx of Some b \<Rightarrow> (b, ''tariff'') | None \<Rightarrow>
        case CityBasisPoints ctx of Some b \<Rightarrow> (b, ''city'') | None \<Rightarrow>
          (if PlatformDefaultBasisPoints ctx = 0 then 100 else PlatformDefaultBasisPoints ctx,
           ''platform_default''))
     in if 0 \<le> bps \<and> bps \<le> 10000 then Inr \<lparr>BasisPoints = bps, Source = src\<rparr>
        else Inl [Domain ErrInvalidCommissionRate])"
  by (auto simp: ResolveCommissionRate_def DefaultPlatformCommissionBasisPoints_def Let_def
      split: option.splits)

end
