(* ===== verification/Domain_Pricing.thy ===== *)
theory Domain_Pricing
  imports Domain_Money
begin

text \<open>
  Tariffs and trip prices: \<^verbatim>\<open>internal/domain/pricing.go\<close>, \<^verbatim>\<open>trip_pricing.go\<close> and the tariff and
  settings records of \<^verbatim>\<open>taxi_park_settings.go\<close>.  The source computes the measured fare with
  \<^verbatim>\<open>big.Int\<close>, so the model computes it in \<open>int\<close> and refuses a result outside int64;
  \<^verbatim>\<open>big.Int.Div\<close> is Euclidean division, which is \<open>div\<close> for these positive divisors.
\<close>

section \<open>Data\<close>

datatype fare_mode =
    FareModeFixedQuote
  | FareModeMetered
  | FareModeOther string

datatype pricing_mode =
    PricingModeUnknown
  | PricingModeFixed
  | PricingModeDistance
  | PricingModeTime
  | PricingModeDistanceTime
  | PricingModeOther string

datatype estimated_price_source =
    EstimatedPriceSourceAverageParks
  | EstimatedPriceSourceCarClassCatalog
  | EstimatedPriceSourceFixedTariff
  | EstimatedPriceSourceUnavailable
  | EstimatedPriceSourceOther string

record tariff =
  trf_ID :: uuid
  trf_TaxiParkID :: uuid
  trf_CarClassID :: "uuid option"
  trf_Name :: string
  trf_Description :: string
  trf_PricingMode :: pricing_mode
  trf_FareMode :: fare_mode
  trf_Priority :: int
  trf_BasePrice :: money
  trf_FixedPrice :: money
  trf_PricePerKM :: money
  trf_PricePerMinute :: money
  trf_MinimumPrice :: money
  trf_FixedRoutes :: string
  trf_IsActive :: bool
  trf_CreatedAt :: time
  trf_UpdatedAt :: time

text \<open>\<^verbatim>\<open>TariffRateSnapshot\<close>; the two identifiers are kept as UUIDs rather than their texts.\<close>

record tariff_rate_snapshot =
  trs_TariffID :: uuid
  trs_TaxiParkID :: uuid
  trs_ProjectedPrice :: "money option"
  trs_PricingMode :: pricing_mode
  trs_FareMode :: fare_mode
  trs_BasePrice :: money
  trs_FixedPrice :: money
  trs_PricePerKM :: money
  trs_PricePerMinute :: money
  trs_MinimumPrice :: money

record order_pricing_snapshot =
  ops_EstimatedPrice :: "money option"
  ops_EstimatedPriceMin :: "money option"
  ops_EstimatedPriceMax :: "money option"
  ops_EstimatedPriceSource :: estimated_price_source
  ops_PricingMode :: pricing_mode
  ops_FareMode :: fare_mode
  ops_PriceAvailable :: bool
  ops_IsFinal :: bool
  ops_Message :: string
  ops_UnavailableReason :: string
  ops_SearchRadiusMeters :: "int option"
  ops_RouteDistanceMeters :: "int option"
  ops_RouteDurationSeconds :: "int option"
  ops_RouteSource :: string
  ops_RouteDataVersion :: string
  ops_TariffRates :: "tariff_rate_snapshot list"
  ops_RoundingRule :: string
  ops_TaxiParkCount :: int
  ops_ExcludedTariffReasons :: "string list"
  ops_CalculatedAt :: time

definition SnapshotTariffRates :: "tariff list \<Rightarrow> tariff_rate_snapshot list" where
  "SnapshotTariffRates tariffs = map (\<lambda>t.
     \<lparr>trs_TariffID = trf_ID t, trs_TaxiParkID = trf_TaxiParkID t, trs_ProjectedPrice = None,
      trs_PricingMode = trf_PricingMode t, trs_FareMode = trf_FareMode t,
      trs_BasePrice = trf_BasePrice t, trs_FixedPrice = trf_FixedPrice t,
      trs_PricePerKM = trf_PricePerKM t, trs_PricePerMinute = trf_PricePerMinute t,
      trs_MinimumPrice = trf_MinimumPrice t\<rparr>) tariffs"

section \<open>Trip price\<close>

definition calculateMeasuredPrice :: "tariff \<Rightarrow> int \<Rightarrow> int \<Rightarrow> error + int" where
  "calculateMeasuredPrice trf distanceMeters durationSeconds =
     (let price = Amount (trf_BasePrice trf);
          distanceCharge = (distanceMeters * Amount (trf_PricePerKM trf) + 500) div 1000;
          price = price + distanceCharge;
          price = (if durationSeconds > 0
                   then price + (durationSeconds + 59) div 60 * Amount (trf_PricePerMinute trf)
                   else price);
          price = (if price < Amount (trf_MinimumPrice trf)
                   then Amount (trf_MinimumPrice trf) else price)
      in if \<not> (int64_min \<le> price \<and> price \<le> int64_max)
         then Inl [Msg ''tariff price exceeds int64 cents''] else Inr price)"

definition CalculateTripPrice :: "tariff \<Rightarrow> int \<Rightarrow> int \<Rightarrow> error + int" where
  "CalculateTripPrice trf distanceMeters durationSeconds =
     (if distanceMeters < 0 \<or> durationSeconds < 0
      then Inl [Msg ''trip metrics cannot be negative'']
      else if Amount (trf_BasePrice trf) < 0 \<or> Amount (trf_FixedPrice trf) < 0
        \<or> Amount (trf_PricePerKM trf) < 0 \<or> Amount (trf_PricePerMinute trf) < 0
        \<or> Amount (trf_MinimumPrice trf) < 0
      then Inl [Msg ''tariff rates cannot be negative'']
      else case trf_PricingMode trf of
        PricingModeFixed \<Rightarrow>
          (if Amount (trf_FixedPrice trf) \<le> 0 then Inl [Msg ''fixed tariff has no fixed price'']
           else let price = Amount (trf_FixedPrice trf);
                    price = (if price < Amount (trf_MinimumPrice trf)
                             then Amount (trf_MinimumPrice trf) else price)
                in Inr price)
      | PricingModeDistance \<Rightarrow>
          (if Amount (trf_PricePerKM trf) \<le> 0
           then Inl [Msg ''distance tariff has no kilometer rate'']
           else calculateMeasuredPrice trf distanceMeters 0)
      | PricingModeTime \<Rightarrow>
          (if Amount (trf_PricePerMinute trf) \<le> 0
           then Inl [Msg ''time tariff has no minute rate'']
           else calculateMeasuredPrice trf 0 durationSeconds)
      | PricingModeDistanceTime \<Rightarrow>
          (if Amount (trf_PricePerKM trf) = 0 \<and> Amount (trf_PricePerMinute trf) = 0
           then Inl [Msg ''distance/time tariff has no variable rate'']
           else calculateMeasuredPrice trf distanceMeters durationSeconds)
      | _ \<Rightarrow> Inl [Msg ''unsupported pricing mode''])"

section \<open>Facts about the measured price\<close>

text \<open>The fare before the minimum and the int64 test, as a formula.\<close>

definition measured_fare :: "tariff \<Rightarrow> int \<Rightarrow> int \<Rightarrow> int" where
  "measured_fare trf d t =
     Amount (trf_BasePrice trf) + (d * Amount (trf_PricePerKM trf) + 500) div 1000
       + (t + 59) div 60 * Amount (trf_PricePerMinute trf)"

definition rates_nonneg :: "tariff \<Rightarrow> bool" where
  "rates_nonneg trf \<longleftrightarrow>
     0 \<le> Amount (trf_BasePrice trf) \<and> 0 \<le> Amount (trf_FixedPrice trf)
     \<and> 0 \<le> Amount (trf_PricePerKM trf) \<and> 0 \<le> Amount (trf_PricePerMinute trf)
     \<and> 0 \<le> Amount (trf_MinimumPrice trf)"

text \<open>The meters and seconds that a pricing mode looks at.\<close>

fun billed_metrics :: "pricing_mode \<Rightarrow> int \<Rightarrow> int \<Rightarrow> int \<times> int" where
  "billed_metrics PricingModeDistance d t = (d, 0)"
| "billed_metrics PricingModeTime d t = (0, t)"
| "billed_metrics _ d t = (d, t)"

lemma calculateMeasuredPrice_eq:
  assumes "0 \<le> t"
  shows "calculateMeasuredPrice trf d t =
    (let p = max (measured_fare trf d t) (Amount (trf_MinimumPrice trf))
     in if int64_min \<le> p \<and> p \<le> int64_max then Inr p
        else Inl [Msg ''tariff price exceeds int64 cents''])"
proof -
  have zero: "t = 0" if "\<not> t > 0" using assms that by simp
  show ?thesis
    by (cases "t > 0")
       (use zero in \<open>auto simp: calculateMeasuredPrice_def measured_fare_def Let_def max_def\<close>)
qed

lemma measured_fare_mono:
  assumes "rates_nonneg trf" "0 \<le> d" "d \<le> d'" "0 \<le> t" "t \<le> t'"
  shows "measured_fare trf d t \<le> measured_fare trf d' t'"
proof -
  have "d * Amount (trf_PricePerKM trf) \<le> d' * Amount (trf_PricePerKM trf)"
    using assms by (intro mult_right_mono) (auto simp: rates_nonneg_def)
  then have "(d * Amount (trf_PricePerKM trf) + 500) div 1000
      \<le> (d' * Amount (trf_PricePerKM trf) + 500) div 1000"
    by (intro zdiv_mono1) auto
  moreover have "(t + 59) div 60 * Amount (trf_PricePerMinute trf)
      \<le> (t' + 59) div 60 * Amount (trf_PricePerMinute trf)"
    using assms by (intro mult_right_mono zdiv_mono1) (auto simp: rates_nonneg_def)
  ultimately show ?thesis by (simp add: measured_fare_def)
qed

lemma measured_fare_nonneg:
  assumes "rates_nonneg trf" "0 \<le> d" "0 \<le> t"
  shows "Amount (trf_BasePrice trf) \<le> measured_fare trf d t"
proof -
  have "0 \<le> (d * Amount (trf_PricePerKM trf) + 500) div 1000"
    using assms by (simp add: rates_nonneg_def pos_imp_zdiv_nonneg_iff)
  moreover have "0 \<le> (t + 59) div 60 * Amount (trf_PricePerMinute trf)"
    using assms by (simp add: rates_nonneg_def pos_imp_zdiv_nonneg_iff)
  ultimately show ?thesis by (simp add: measured_fare_def)
qed

lemma CalculateTripPrice_Inr:
  assumes "CalculateTripPrice trf d t = Inr p"
  shows "0 \<le> d \<and> 0 \<le> t \<and> rates_nonneg trf \<and>
    (trf_PricingMode trf = PricingModeFixed \<and>
        p = max (Amount (trf_FixedPrice trf)) (Amount (trf_MinimumPrice trf))
     \<or> trf_PricingMode trf \<in> {PricingModeDistance, PricingModeTime, PricingModeDistanceTime} \<and>
        p = max (case billed_metrics (trf_PricingMode trf) d t of (d', t') \<Rightarrow> measured_fare trf d' t')
                (Amount (trf_MinimumPrice trf))
        \<and> p \<le> int64_max)"
  using assms
  by (cases "trf_PricingMode trf")
     (auto simp: CalculateTripPrice_def calculateMeasuredPrice_eq Let_def rates_nonneg_def
       max_def split: if_splits)

lemma billed_metrics_mono:
  assumes "0 \<le> d" "d \<le> d'" "0 \<le> t" "t \<le> t'"
    and "billed_metrics m d t = (a, b)" "billed_metrics m d' t' = (a', b')"
  shows "0 \<le> a \<and> a \<le> a' \<and> 0 \<le> b \<and> b \<le> b'"
  using assms by (cases m) auto

lemma started_minutes:
  fixes t :: int
  shows "t \<le> 60 * ((t + 59) div 60) \<and> 60 * ((t + 59) div 60) < t + 60"
  by presburger

section \<open>Properties\<close>

text \<open>
  A metered trip price that is returned is the fare of the metrics its pricing mode bills:
  base price plus the kilometre charge, off the exact charge by at most half a kopeck, plus the
  price of every started minute, raised to the tariff's minimum; it fits int64.
\<close>

theorem trip_price_measured:
  assumes price: "CalculateTripPrice trf d t = Inr p"
    and mode: "trf_PricingMode trf \<noteq> PricingModeFixed"
    and billed: "billed_metrics (trf_PricingMode trf) d t = (meters, secs)"
  shows "\<exists>km mins.
      \<bar>1000 * km - meters * Amount (trf_PricePerKM trf)\<bar> \<le> 500
    \<and> secs \<le> 60 * mins \<and> 60 * mins < secs + 60
    \<and> p = max (Amount (trf_BasePrice trf) + km + mins * Amount (trf_PricePerMinute trf))
              (Amount (trf_MinimumPrice trf))
    \<and> 0 \<le> p \<and> p \<le> int64_max"
proof -
  have p: "p = max (measured_fare trf meters secs) (Amount (trf_MinimumPrice trf))" "p \<le> int64_max"
    and nn: "rates_nonneg trf"
    using CalculateTripPrice_Inr [OF price] mode billed by auto
  let ?km = "(meters * Amount (trf_PricePerKM trf) + 500) div 1000"
  have "\<bar>1000 * ?km - meters * Amount (trf_PricePerKM trf)\<bar> \<le> 500"
    using round_half_up [of 500 1000 "meters * Amount (trf_PricePerKM trf)"] by simp
  moreover have "0 \<le> p" using p nn by (auto simp: rates_nonneg_def)
  ultimately show ?thesis
    using p started_minutes [of secs] unfolding measured_fare_def by blast
qed

definition sample_money :: "int \<Rightarrow> money" where
  "sample_money n = \<lparr>Amount = n, Currency = ''RUB''\<rparr>"

definition sample_tariff :: "pricing_mode \<Rightarrow> tariff" where
  "sample_tariff m =
     \<lparr>trf_ID = 1, trf_TaxiParkID = 7, trf_CarClassID = None, trf_Name = ''City'',
      trf_Description = '''', trf_PricingMode = m, trf_FareMode = FareModeMetered,
      trf_Priority = 1, trf_BasePrice = sample_money 5000, trf_FixedPrice = sample_money 20000,
      trf_PricePerKM = sample_money 1500, trf_PricePerMinute = sample_money 500,
      trf_MinimumPrice = sample_money 9000, trf_FixedRoutes = '''', trf_IsActive = True,
      trf_CreatedAt = 1, trf_UpdatedAt = 1\<rparr>"

lemmas sample_tariff_simps = sample_tariff_def sample_money_def

lemma sample_trip_price:
  "CalculateTripPrice (sample_tariff PricingModeDistanceTime) 12345 601 = Inr 29018"
  "CalculateTripPrice (sample_tariff PricingModeDistanceTime) 20000 1200 = Inr 45000"
  by (simp_all add: CalculateTripPrice_def calculateMeasuredPrice_def sample_tariff_simps
      int64_min_def int64_max_def)

theorem trip_price_measured_witness:
  "\<exists>km mins. \<bar>1000 * km - 12345 * 1500\<bar> \<le> (500::int) \<and> 601 \<le> 60 * mins \<and> 60 * mins < 661
     \<and> (29018::int) = max (5000 + km + mins * 500) 9000"
  using trip_price_measured [OF sample_trip_price(1), of 12345 601]
  by (auto simp: sample_tariff_simps)

text \<open>
  A longer or slower trip is never cheaper: for one tariff the price is monotone in the
  driven distance and in the duration.
\<close>

theorem trip_price_monotone:
  assumes "CalculateTripPrice trf d t = Inr p" and "CalculateTripPrice trf d' t' = Inr p'"
    and "d \<le> d'" and "t \<le> t'"
  shows "p \<le> p'"
proof (cases "trf_PricingMode trf = PricingModeFixed")
  case True
  then show ?thesis
    using CalculateTripPrice_Inr [OF assms(1)] CalculateTripPrice_Inr [OF assms(2)] by auto
next
  case False
  obtain a b a' b' where ab: "billed_metrics (trf_PricingMode trf) d t = (a, b)"
      "billed_metrics (trf_PricingMode trf) d' t' = (a', b')"
    by fastforce
  note inr = CalculateTripPrice_Inr [OF assms(1)] CalculateTripPrice_Inr [OF assms(2)]
  have "0 \<le> a \<and> a \<le> a' \<and> 0 \<le> b \<and> b \<le> b'"
    using inr assms(3,4) ab by (intro billed_metrics_mono) auto
  then have "measured_fare trf a b \<le> measured_fare trf a' b'"
    using inr by (intro measured_fare_mono) auto
  then show ?thesis using inr False ab by auto
qed

theorem trip_price_monotone_witness: "(29018::int) \<le> 45000"
  using trip_price_monotone [OF sample_trip_price] by simp

text \<open>
  The price calculation is total on a tariff with the rate its pricing mode needs: for
  metrics that are not negative it fails only when the fare exceeds int64, and a tariff whose
  fare fits gets a price.
\<close>

theorem trip_price_defined:
  assumes "rates_nonneg trf" and "0 \<le> d" and "0 \<le> t"
    and "Amount (trf_MinimumPrice trf) \<le> int64_max"
    and "case trf_PricingMode trf of
           PricingModeDistance \<Rightarrow> Amount (trf_PricePerKM trf) \<noteq> 0
         | PricingModeTime \<Rightarrow> Amount (trf_PricePerMinute trf) \<noteq> 0
         | PricingModeDistanceTime \<Rightarrow>
             Amount (trf_PricePerKM trf) \<noteq> 0 \<or> Amount (trf_PricePerMinute trf) \<noteq> 0
         | _ \<Rightarrow> False"
    and "billed_metrics (trf_PricingMode trf) d t = (meters, secs)"
  shows "(\<exists>p. CalculateTripPrice trf d t = Inr p) \<longleftrightarrow> measured_fare trf meters secs \<le> int64_max"
proof -
  have "0 \<le> meters \<and> 0 \<le> secs"
    using billed_metrics_mono [of d d t t] assms by fastforce
  then have "0 \<le> measured_fare trf meters secs"
    using measured_fare_nonneg [OF assms(1), of meters secs] assms(1)
    by (auto simp: rates_nonneg_def)
  then show ?thesis
    using assms
    by (cases "trf_PricingMode trf")
       (auto simp: CalculateTripPrice_def calculateMeasuredPrice_eq Let_def rates_nonneg_def
         max_def int64_min_def)
qed

theorem trip_price_defined_witness:
  "\<exists>p. CalculateTripPrice (sample_tariff PricingModeTime) 0 90 = Inr p"
  using trip_price_defined [of "sample_tariff PricingModeTime" 0 90 0 90]
  by (simp add: rates_nonneg_def sample_tariff_simps measured_fare_def int64_max_def)

end
