(* ===== verification/Domain_Order.thy ===== *)
theory Domain_Order
  imports Domain_User Domain_Pricing
begin

text \<open>
  Orders: statuses and their transitions, events, ratings (\<^verbatim>\<open>internal/domain/order.go\<close>) and the
  actions that the applications offer in a status (\<^verbatim>\<open>internal/order/actions.go\<close>).
\<close>

section \<open>Data\<close>

datatype order_status =
    OrderStatusCreated
  | OrderStatusSearching
  | OrderStatusDriverAssigned
  | OrderStatusDriverArriving
  | OrderStatusDriverWaiting
  | OrderStatusInProgress
  | OrderStatusCompleted
  | OrderStatusCancelled
  | OrderStatusFailed
  | OrderStatusOther string

datatype order_type =
    OrderTypeInstant
  | OrderTypeScheduled
  | OrderTypeOther string

datatype scheduled_order_status =
    ScheduledOrderStatusNew
  | ScheduledOrderStatusConfirmed
  | ScheduledOrderStatusDriverAssigned
  | ScheduledOrderStatusWaitingActivation
  | ScheduledOrderStatusActivated
  | ScheduledOrderStatusCancelled
  | ScheduledOrderStatusExpired
  | ScheduledOrderStatusFailed
  | ScheduledOrderStatusOther string

datatype payment_method =
    PaymentMethodCash
  | PaymentMethodCard
  | PaymentMethodCorporate
  | PaymentMethodOther string

datatype order_event_type =
    OrderEventCreated
  | OrderEventSearching
  | OrderEventOffer
  | OrderEventAccepted
  | OrderEventRejected
  | OrderEventUpdated
  | OrderEventCancelled
  | OrderEventLocation
  | OrderEventArriving
  | OrderEventArrived
  | OrderEventTripStarted
  | OrderEventCompleted
  | OrderEventFailed

record order_participant =
  part_ID :: uuid
  part_Name :: string
  part_Phone :: string

record order =
  ord_ID :: uuid
  ord_PassengerID :: uuid
  ord_CreatedByRole :: user_role
  ord_DriverID :: "uuid option"
  ord_Driver :: "order_participant option"
  ord_Passenger :: "order_participant option"
  ord_CarID :: "uuid option"
  ord_ParkID :: "uuid option"
  ord_PreassignedDriverID :: "uuid option"
  ord_CityID :: uuid
  ord_TariffID :: "uuid option"
  ord_AssignedTariffID :: "uuid option"
  ord_CarClassID :: "uuid option"
  ord_Status :: order_status
  ord_OrderType :: order_type
  ord_ScheduledStatus :: "scheduled_order_status option"
  ord_PickupAddress :: string
  ord_PickupEntrance :: string
  ord_PickupComment :: string
  ord_PickupLocation :: coordinates
  ord_DestinationAddress :: string
  ord_DestinationLocation :: "coordinates option"
  ord_ScheduledAt :: "time option"
  ord_ActivationAt :: "time option"
  ord_ScheduledTimezone :: string
  ord_RequestedAt :: time
  ord_AcceptedAt :: "time option"
  ord_StartedAt :: "time option"
  ord_CompletedAt :: "time option"
  ord_CancelledAt :: "time option"
  ord_ActivatedAt :: "time option"
  ord_ScheduledCancelledAt :: "time option"
  ord_ScheduledExpiredAt :: "time option"
  ord_CancellationReason :: string
  ord_ScheduledCancelReason :: string
  ord_EstimatedPrice :: "money option"
  ord_FinalPrice :: "money option"
  ord_FareMode :: fare_mode
  ord_PriceConfirmationState :: string
  ord_ProposedPriceCents :: "int option"
  ord_AgreedPriceCents :: "int option"
  ord_PriceConfirmationExpiresAt :: "time option"
  ord_DeclinedDriverIDs :: "uuid list"
  ord_ActualDistanceMeters :: "int option"
  ord_ActualDurationSeconds :: "int option"
  ord_PaymentMethod :: payment_method
  ord_PassengerComment :: string
  ord_PassengerLocationSharingEnabled :: bool
  ord_DispatchAttempt :: int
  ord_ScheduledCreatedBy :: "uuid option"
  ord_Version :: int
  ord_CreatedAt :: time
  ord_UpdatedAt :: time
  ord_DeletedAt :: "time option"

record order_rating =
  rat_ID :: uuid
  rat_OrderID :: uuid
  rat_PassengerID :: uuid
  rat_DriverID :: uuid
  rat_Score :: int
  rat_Comment :: string
  rat_CreatedAt :: time

record order_transition =
  tr_OrderID :: uuid
  tr_FromStatus :: order_status
  tr_ToStatus :: order_status
  tr_ExpectedVersion :: int
  tr_ActorUserID :: "uuid option"
  tr_ActorDriverID :: "uuid option"
  tr_Reason :: string
  tr_OccurredAt :: time

section \<open>Statuses\<close>

definition terminalOrderStatuses :: "order_status list" where
  "terminalOrderStatuses = [OrderStatusCompleted, OrderStatusCancelled, OrderStatusFailed]"

text \<open>A status that is no key of the Go map has the nil slice.\<close>

fun allowedOrderStatusTransitions :: "order_status \<Rightarrow> order_status list" where
  "allowedOrderStatusTransitions OrderStatusCreated = [OrderStatusSearching]"
| "allowedOrderStatusTransitions OrderStatusSearching =
     [OrderStatusDriverAssigned, OrderStatusCancelled, OrderStatusFailed]"
| "allowedOrderStatusTransitions OrderStatusDriverAssigned =
     [OrderStatusDriverArriving, OrderStatusCancelled]"
| "allowedOrderStatusTransitions OrderStatusDriverArriving =
     [OrderStatusDriverWaiting, OrderStatusCancelled]"
| "allowedOrderStatusTransitions OrderStatusDriverWaiting =
     [OrderStatusInProgress, OrderStatusCancelled]"
| "allowedOrderStatusTransitions OrderStatusInProgress = [OrderStatusCompleted]"
| "allowedOrderStatusTransitions _ = []"

definition OrderStatus_Validate :: "order_status \<Rightarrow> error + unit" where
  "OrderStatus_Validate status =
     (if status \<in> {OrderStatusCreated, OrderStatusSearching, OrderStatusDriverAssigned,
                   OrderStatusDriverArriving, OrderStatusDriverWaiting, OrderStatusInProgress,
                   OrderStatusCompleted, OrderStatusCancelled, OrderStatusFailed}
      then Inr () else Inl [Domain ErrInvalidOrderStatus])"

definition OrderType_Validate :: "order_type \<Rightarrow> error + unit" where
  "OrderType_Validate orderType =
     (if orderType \<in> {OrderTypeInstant, OrderTypeScheduled}
      then Inr () else Inl [Domain ErrInvalidOrderType])"

definition ScheduledOrderStatus_Validate :: "scheduled_order_status \<Rightarrow> error + unit" where
  "ScheduledOrderStatus_Validate status =
     (if status \<in> {ScheduledOrderStatusNew, ScheduledOrderStatusConfirmed,
                   ScheduledOrderStatusDriverAssigned, ScheduledOrderStatusWaitingActivation,
                   ScheduledOrderStatusActivated, ScheduledOrderStatusCancelled,
                   ScheduledOrderStatusExpired, ScheduledOrderStatusFailed}
      then Inr () else Inl [Domain ErrInvalidScheduledOrderStatus])"

definition ScheduledOrderStatus_IsTerminal :: "scheduled_order_status \<Rightarrow> bool" where
  "ScheduledOrderStatus_IsTerminal status \<longleftrightarrow>
     status \<in> {ScheduledOrderStatusActivated, ScheduledOrderStatusCancelled,
               ScheduledOrderStatusExpired, ScheduledOrderStatusFailed}"

definition OrderStatus_IsTerminal :: "order_status \<Rightarrow> bool" where
  "OrderStatus_IsTerminal status \<longleftrightarrow> status \<in> set terminalOrderStatuses"

definition CanTransitionOrderStatus :: "order_status \<Rightarrow> order_status \<Rightarrow> bool" where
  "CanTransitionOrderStatus source target =
     (if source = target then True
      else list_ex (\<lambda>allowedStatus. allowedStatus = target) (allowedOrderStatusTransitions source))"

definition EnsureOrderStatusTransition :: "order_status \<Rightarrow> order_status \<Rightarrow> error + unit" where
  "EnsureOrderStatusTransition source target =
     (case OrderStatus_Validate source of
        Inl e \<Rightarrow> Inl e
      | Inr _ \<Rightarrow>
          (case OrderStatus_Validate target of
             Inl e \<Rightarrow> Inl e
           | Inr _ \<Rightarrow>
               if \<not> CanTransitionOrderStatus source target
               then Inl [Domain ErrInvalidOrderStatusTransition] else Inr ()))"

text \<open>\<open>now\<close> is what \<^verbatim>\<open>time.Now().UTC()\<close> returns.\<close>

definition NewOrderTransition ::
  "time \<Rightarrow> 'x order_scheme \<Rightarrow> order_status \<Rightarrow> uuid option \<Rightarrow> uuid option \<Rightarrow> string \<Rightarrow> time \<Rightarrow>
   error + order_transition" where
  "NewOrderTransition now o1 toStatus actorUserID actorDriverID reason occurredAt =
     (case EnsureOrderStatusTransition (ord_Status o1) toStatus of
        Inl e \<Rightarrow> Inl e
      | Inr _ \<Rightarrow>
          let occurredAt = (if time_IsZero occurredAt then now else occurredAt)
          in Inr \<lparr>tr_OrderID = ord_ID o1, tr_FromStatus = ord_Status o1, tr_ToStatus = toStatus,
                  tr_ExpectedVersion = ord_Version o1, tr_ActorUserID = actorUserID,
                  tr_ActorDriverID = actorDriverID, tr_Reason = reason,
                  tr_OccurredAt = occurredAt\<rparr>)"

fun EventTypeForOrderStatus :: "order_status \<Rightarrow> order_event_type" where
  "EventTypeForOrderStatus OrderStatusSearching = OrderEventSearching"
| "EventTypeForOrderStatus OrderStatusDriverAssigned = OrderEventAccepted"
| "EventTypeForOrderStatus OrderStatusDriverArriving = OrderEventArriving"
| "EventTypeForOrderStatus OrderStatusDriverWaiting = OrderEventArrived"
| "EventTypeForOrderStatus OrderStatusInProgress = OrderEventTripStarted"
| "EventTypeForOrderStatus OrderStatusCompleted = OrderEventCompleted"
| "EventTypeForOrderStatus OrderStatusCancelled = OrderEventCancelled"
| "EventTypeForOrderStatus OrderStatusFailed = OrderEventFailed"
| "EventTypeForOrderStatus _ = OrderEventCreated"

definition PaymentMethod_Validate :: "payment_method \<Rightarrow> error + unit" where
  "PaymentMethod_Validate m =
     (if m \<in> {PaymentMethodCash, PaymentMethodCard, PaymentMethodCorporate}
      then Inr () else Inl [Domain ErrInvalidPaymentMethod])"

definition NewOrderRating :: "uuid \<Rightarrow> uuid \<Rightarrow> uuid \<Rightarrow> int \<Rightarrow> string \<Rightarrow> error + order_rating" where
  "NewOrderRating orderID passengerID driverID score comment =
     (if score < 1 \<or> score > 5 then Inl [Domain ErrInvalidRatingScore]
      else Inr \<lparr>rat_ID = uuid_Nil, rat_OrderID = orderID, rat_PassengerID = passengerID,
                rat_DriverID = driverID, rat_Score = score, rat_Comment = comment,
                rat_CreatedAt = 0\<rparr>)"

section \<open>Actions of the applications\<close>

datatype action =
    ActionCancel
  | ActionCallDriver
  | ActionRate
  | ActionAccept
  | ActionReject
  | ActionArrived
  | ActionStart
  | ActionComplete
  | ActionCallPassenger

fun AllowedPassengerActions :: "order_status \<Rightarrow> action list" where
  "AllowedPassengerActions OrderStatusSearching = [ActionCancel]"
| "AllowedPassengerActions OrderStatusDriverAssigned = [ActionCancel, ActionCallDriver]"
| "AllowedPassengerActions OrderStatusDriverArriving = [ActionCancel, ActionCallDriver]"
| "AllowedPassengerActions OrderStatusDriverWaiting = [ActionCancel, ActionCallDriver]"
| "AllowedPassengerActions OrderStatusCompleted = [ActionRate]"
| "AllowedPassengerActions _ = []"

definition AllowedDriverActions :: "order_status \<Rightarrow> bool \<Rightarrow> action list" where
  "AllowedDriverActions status hasActiveOffer =
     (if hasActiveOffer \<and> status = OrderStatusSearching then [ActionAccept, ActionReject]
      else case status of
        OrderStatusDriverAssigned \<Rightarrow> [ActionArrived, ActionCallPassenger]
      | OrderStatusDriverWaiting \<Rightarrow> [ActionStart, ActionCallPassenger]
      | OrderStatusInProgress \<Rightarrow> [ActionComplete, ActionCallPassenger]
      | _ \<Rightarrow> [])"

section \<open>Facts about transitions\<close>

definition legal_change :: "order_status \<Rightarrow> order_status \<Rightarrow> bool" where
  "legal_change a b \<longleftrightarrow> EnsureOrderStatusTransition a b = Inr ()"

lemma OrderStatus_Validate_iff:
  "OrderStatus_Validate a = Inr () \<longleftrightarrow> (\<forall>x. a \<noteq> OrderStatusOther x)"
  by (cases a) (auto simp: OrderStatus_Validate_def)

lemma legal_change_iff:
  "legal_change a b \<longleftrightarrow> OrderStatus_Validate a = Inr () \<and> OrderStatus_Validate b = Inr ()
     \<and> (a = b \<or> b \<in> set (allowedOrderStatusTransitions a))"
  by (auto simp: legal_change_def EnsureOrderStatusTransition_def CanTransitionOrderStatus_def
      list_ex_iff split: sum.splits if_splits)

lemma legal_change_refl: "legal_change a b \<Longrightarrow> legal_change a a \<and> legal_change b b"
  by (auto simp: legal_change_iff)

lemma run_stays_valid:
  assumes "successively legal_change (s # ss)" "legal_change s s" "x \<in> set (s # ss)"
  shows "legal_change x x"
  using assms
proof (induction ss arbitrary: s)
  case (Cons y ys)
  then show ?case using legal_change_refl by auto
qed simp

lemma EnsureOrderStatusTransition_Inr:
  "EnsureOrderStatusTransition a b = Inr u \<longleftrightarrow> legal_change a b"
  by (simp add: legal_change_def)

lemma NewOrderTransition_Inr:
  "NewOrderTransition now o1 st usr drv rsn t = Inr tr \<longleftrightarrow>
     legal_change (ord_Status o1) st \<and>
     tr = \<lparr>tr_OrderID = ord_ID o1, tr_FromStatus = ord_Status o1, tr_ToStatus = st,
           tr_ExpectedVersion = ord_Version o1, tr_ActorUserID = usr, tr_ActorDriverID = drv,
           tr_Reason = rsn, tr_OccurredAt = (if time_IsZero t then now else t)\<rparr>"
  by (auto simp: NewOrderTransition_def legal_change_def Let_def split: sum.splits)

lemma terminal_no_way_out:
  "OrderStatus_IsTerminal a \<Longrightarrow> legal_change a b \<Longrightarrow> b = a"
  by (cases a) (auto simp: OrderStatus_IsTerminal_def terminalOrderStatuses_def legal_change_iff)

text \<open>The statuses that an order goes through when everything works.\<close>

definition main_path :: "order_status list" where
  "main_path = [OrderStatusCreated, OrderStatusSearching, OrderStatusDriverAssigned,
     OrderStatusDriverArriving, OrderStatusDriverWaiting, OrderStatusInProgress,
     OrderStatusCompleted]"

lemma main_path_predecessor:
  assumes "legal_change a b" "a \<noteq> b" "main_path = pre @ b # post"
  shows "\<exists>pre'. pre = pre' @ [a]"
proof -
  have "b \<in> set (allowedOrderStatusTransitions a)" using assms by (simp add: legal_change_iff)
  with assms(3) show ?thesis
    by (cases a) (auto simp: main_path_def Cons_eq_append_conv)
qed

lemma run_to_completed_is_suffix:
  assumes "successively legal_change ys" "distinct_adj ys" "ys \<noteq> []" "last ys = OrderStatusCompleted"
  shows "\<exists>pre. main_path = pre @ ys"
  using assms
proof (induction ys rule: induct_list012)
  case (2 x)
  then show ?case by (auto simp: main_path_def intro: exI [of _ "butlast main_path"])
next
  case (3 x y zs)
  then obtain pre where pre: "main_path = pre @ y # zs" by auto
  with 3 main_path_predecessor [of x y pre zs] show ?case by auto
qed simp

section \<open>Properties\<close>

text \<open>
  C35: an order that is completed went through the whole life cycle: every sequence of status
  changes accepted by \<^verbatim>\<open>EnsureOrderStatusTransition\<close> from created to completed is, up to
  repetitions of a status, the one main path; nothing can be skipped.
\<close>

theorem completed_order_history:
  assumes "successively (\<lambda>a b. EnsureOrderStatusTransition a b = Inr ()) (s # ss)"
    and "s = OrderStatusCreated" and "last (s # ss) = OrderStatusCompleted"
  shows "remdups_adj (s # ss) =
    [OrderStatusCreated, OrderStatusSearching, OrderStatusDriverAssigned, OrderStatusDriverArriving,
     OrderStatusDriverWaiting, OrderStatusInProgress, OrderStatusCompleted]"
proof -
  have run: "successively legal_change (s # ss)"
    using assms(1) by (simp add: legal_change_def [abs_def])
  moreover have "legal_change s s"
    by (simp add: assms(2) legal_change_iff OrderStatus_Validate_iff)
  ultimately have refl: "legal_change x x" if "x \<in> set (s # ss)" for x
    using that by (rule run_stays_valid)
  have "successively legal_change (remdups_adj (s # ss))"
    by (subst successively_remdups_adj_iff) (use run refl in blast)+
  then obtain pre where pre: "main_path = pre @ remdups_adj (s # ss)"
    using run_to_completed_is_suffix [of "remdups_adj (s # ss)"] assms(3) by auto
  moreover have "hd (remdups_adj (s # ss)) = OrderStatusCreated" using assms(2) by simp
  ultimately show ?thesis
    by (cases "remdups_adj (s # ss)") (auto simp: main_path_def Cons_eq_append_conv)
qed

theorem completed_order_history_witness:
  "remdups_adj [OrderStatusCreated, OrderStatusSearching, OrderStatusSearching,
      OrderStatusDriverAssigned, OrderStatusDriverArriving, OrderStatusDriverWaiting,
      OrderStatusInProgress, OrderStatusCompleted] = main_path"
  unfolding main_path_def
  by (rule completed_order_history)
     (simp_all add: EnsureOrderStatusTransition_def OrderStatus_Validate_def
       CanTransitionOrderStatus_def)

text \<open>
  A terminal status is final: whatever sequence of accepted changes follows completed, cancelled
  or failed, the order stays in that status.
\<close>

theorem terminal_status_final:
  assumes "OrderStatus_IsTerminal s"
    and "(\<lambda>a b. EnsureOrderStatusTransition a b = Inr ())\<^sup>*\<^sup>* s t"
  shows "t = s"
  using assms(2,1)
proof (induction rule: rtranclp_induct)
  case (step y z)
  then show ?case using terminal_no_way_out [of s z] by (simp add: legal_change_def)
qed simp

theorem terminal_status_final_witness:
  "OrderStatus_IsTerminal OrderStatusFailed
   \<and> EnsureOrderStatusTransition OrderStatusFailed OrderStatusFailed = Inr ()
   \<and> \<not> (\<lambda>a b. EnsureOrderStatusTransition a b = Inr ())\<^sup>*\<^sup>* OrderStatusFailed OrderStatusSearching"
proof -
  let ?R = "\<lambda>a b. EnsureOrderStatusTransition a b = Inr ()"
  have fin: "OrderStatus_IsTerminal OrderStatusFailed"
    by (simp add: OrderStatus_IsTerminal_def terminalOrderStatuses_def)
  have "OrderStatusSearching = OrderStatusFailed" if "?R\<^sup>*\<^sup>* OrderStatusFailed OrderStatusSearching"
    using fin that by (rule terminal_status_final)
  then have "\<not> ?R\<^sup>*\<^sup>* OrderStatusFailed OrderStatusSearching" by blast
  moreover have "?R OrderStatusFailed OrderStatusFailed"
    by (simp add: EnsureOrderStatusTransition_def OrderStatus_Validate_def
        CanTransitionOrderStatus_def)
  ultimately show ?thesis using fin by blast
qed

text \<open>
  The applications offer an action exactly when the state machine allows its status change:
  the passenger can cancel in the statuses that lead to cancelled, the driver can start in the one
  that leads to in progress, complete in the one that leads to completed, and accept or reject
  while holding an offer for a searching order.
\<close>

theorem offered_actions_are_legal:
  "(ActionCancel \<in> set (AllowedPassengerActions s)
      \<longleftrightarrow> s \<noteq> OrderStatusCancelled \<and> EnsureOrderStatusTransition s OrderStatusCancelled = Inr ())
   \<and> (ActionStart \<in> set (AllowedDriverActions s offered)
      \<longleftrightarrow> s \<noteq> OrderStatusInProgress \<and> EnsureOrderStatusTransition s OrderStatusInProgress = Inr ())
   \<and> (ActionComplete \<in> set (AllowedDriverActions s offered)
      \<longleftrightarrow> s \<noteq> OrderStatusCompleted \<and> EnsureOrderStatusTransition s OrderStatusCompleted = Inr ())
   \<and> (ActionAccept \<in> set (AllowedDriverActions s offered)
      \<longleftrightarrow> offered \<and> s \<noteq> OrderStatusDriverAssigned
          \<and> EnsureOrderStatusTransition s OrderStatusDriverAssigned = Inr ())"
  by (cases s) (auto simp: AllowedDriverActions_def EnsureOrderStatusTransition_def
      OrderStatus_Validate_def CanTransitionOrderStatus_def)

end
