(* ===== verification/Domain_Driver.thy ===== *)
theory Domain_Driver
  imports Domain_Money
begin

text \<open>
  Drivers, cars and car classes (\<^verbatim>\<open>internal/domain/driver.go\<close>, \<^verbatim>\<open>car.go\<close>, \<^verbatim>\<open>car_class.go\<close>) and
  the invitations by which a driver changes the taxi park (\<^verbatim>\<open>driver_park_invite.go\<close>).
\<close>

section \<open>Drivers\<close>

datatype driver_status =
    DriverStatusOffline
  | DriverStatusOnline
  | DriverStatusBusy
  | DriverStatusPaused
  | DriverStatusBlocked
  | DriverStatusOther string

datatype verification_lifecycle_status =
    ComplianceStatusDraft
  | ComplianceStatusPendingVerification
  | ComplianceStatusVerified
  | ComplianceStatusRejected
  | ComplianceStatusBlocked
  | ComplianceStatusArchived
  | ComplianceStatusOther string

record driver =
  drv_ID :: uuid
  drv_UserID :: uuid
  drv_CityID :: uuid
  drv_TaxiParkID :: "uuid option"
  drv_Status :: driver_status
  drv_VerificationStatus :: verification_lifecycle_status
  drv_Rating :: f64
  drv_RatingsCount :: int
  drv_CompletedOrdersCount :: int
  drv_BirthDate :: "time option"
  drv_LicenseSeries :: string
  drv_LicenseNumber :: string
  drv_LicenseCategory :: string
  drv_LicenseIssuedAt :: "time option"
  drv_LicenseExpiresAt :: "time option"
  drv_DrivingExperienceFrom :: "time option"
  drv_HasNoTaxiWorkRestrictions :: bool
  drv_FederalLaw580Compliant :: bool
  drv_RegionalRequirementsCompliant :: bool
  drv_MedicalCheckPassed :: bool
  drv_PretripControlRequired :: bool
  drv_PretripControlPassed :: bool
  drv_NoTransportBan :: bool
  drv_VerificationCheckedAt :: "time option"
  drv_VerificationCheckedBy :: "uuid option"
  drv_CommissionBasisPoints :: "int option"
  drv_IsVerified :: bool
  drv_BlockedReason :: string
  drv_TaxiParkComment :: string
  drv_MustChangePassword :: bool
  drv_CreatedAt :: time
  drv_UpdatedAt :: time
  drv_DeletedAt :: "time option"

fun allowedDriverStatusTransitions :: "driver_status \<Rightarrow> driver_status list" where
  "allowedDriverStatusTransitions DriverStatusOffline = [DriverStatusOnline, DriverStatusBlocked]"
| "allowedDriverStatusTransitions DriverStatusOnline =
     [DriverStatusBusy, DriverStatusPaused, DriverStatusOffline, DriverStatusBlocked]"
| "allowedDriverStatusTransitions DriverStatusBusy = [DriverStatusOnline, DriverStatusBlocked]"
| "allowedDriverStatusTransitions DriverStatusPaused =
     [DriverStatusOnline, DriverStatusOffline, DriverStatusBlocked]"
| "allowedDriverStatusTransitions _ = []"

definition DriverStatus_Validate :: "driver_status \<Rightarrow> error + unit" where
  "DriverStatus_Validate status =
     (if status \<in> {DriverStatusOffline, DriverStatusOnline, DriverStatusBusy, DriverStatusPaused,
                   DriverStatusBlocked}
      then Inr () else Inl [Domain ErrInvalidDriverStatus])"

definition VerificationLifecycleStatus_Validate ::
  "verification_lifecycle_status \<Rightarrow> error + unit" where
  "VerificationLifecycleStatus_Validate status =
     (if status \<in> {ComplianceStatusDraft, ComplianceStatusPendingVerification,
                   ComplianceStatusVerified, ComplianceStatusRejected, ComplianceStatusBlocked,
                   ComplianceStatusArchived}
      then Inr () else Inl [Domain ErrInvalidVerificationStatus])"

definition CanTransitionDriverStatus :: "driver_status \<Rightarrow> driver_status \<Rightarrow> bool" where
  "CanTransitionDriverStatus source target =
     (if source = target then True
      else list_ex (\<lambda>allowedStatus. allowedStatus = target) (allowedDriverStatusTransitions source))"

definition EnsureDriverStatusTransition :: "driver_status \<Rightarrow> driver_status \<Rightarrow> error + unit" where
  "EnsureDriverStatusTransition source target =
     (case DriverStatus_Validate source of
        Inl e \<Rightarrow> Inl e
      | Inr _ \<Rightarrow>
          (case DriverStatus_Validate target of
             Inl e \<Rightarrow> Inl e
           | Inr _ \<Rightarrow>
               if \<not> CanTransitionDriverStatus source target
               then Inl [Domain ErrInvalidDriverStatusTransition] else Inr ()))"

section \<open>Cars and their classes\<close>

text \<open>\<open>car_AttachedDriverIDs\<close> is the join table \<^verbatim>\<open>car_driver_assignments\<close>.\<close>

record car =
  car_ID :: uuid
  car_TaxiParkID :: uuid
  car_PrimaryDriverID :: "uuid option"
  car_AttachedDriverIDs :: "uuid list"
  car_Brand :: string
  car_Model :: string
  car_Year :: int
  car_PlateNumber :: string
  car_VIN :: string
  car_STS :: string
  car_PTS :: string
  car_Color :: string
  car_CarClass :: string
  car_VerificationStatus :: verification_lifecycle_status
  car_OwnerDetails :: string
  car_OSAGOExpiresAt :: "time option"
  car_DiagnosticCardExpiresAt :: "time option"
  car_TaxiPermitNumber :: string
  car_RegionalRegistryNumber :: string
  car_PermitRegion :: string
  car_PermitIssuedAt :: "time option"
  car_PermitExpiresAt :: "time option"
  car_TaxiPermitVerified :: bool
  car_RegionalRegistryVerified :: bool
  car_RegionalRequirementsCompliant :: bool
  car_HasTaxiColorScheme :: bool
  car_HasOrangeRoofLamp :: bool
  car_HasPassengerInfo :: bool
  car_OSAGOVerified :: bool
  car_DiagnosticCardVerified :: bool
  car_TechnicalStateVerified :: bool
  car_LocalizationCompliant :: bool
  car_LegalUseBasisVerified :: bool
  car_VerificationCheckedAt :: "time option"
  car_VerificationCheckedBy :: "uuid option"
  car_IsActive :: bool
  car_CreatedAt :: time
  car_UpdatedAt :: time
  car_DeletedAt :: "time option"

text \<open>The table has the column \<^verbatim>\<open>deleted_at\<close> besides the fields of the struct.\<close>

record car_class =
  ccl_ID :: uuid
  ccl_Code :: string
  ccl_Name :: string
  ccl_Description :: string
  ccl_BasePrice :: money
  ccl_PricePerKM :: money
  ccl_PricePerMinute :: money
  ccl_MinimumPrice :: money
  ccl_IsActive :: bool
  ccl_SortOrder :: int
  ccl_CreatedAt :: time
  ccl_UpdatedAt :: time

record car_class_row = car_class +
  ccl_DeletedAt :: "time option"

section \<open>Invitations of a taxi park\<close>

datatype driver_park_invite_status =
    DriverParkInvitePending
  | DriverParkInviteAccepted
  | DriverParkInviteDeclined
  | DriverParkInviteCancelled
  | DriverParkInviteExpired
  | DriverParkInviteOther string

record driver_park_invite =
  inv_ID :: uuid
  inv_DriverID :: uuid
  inv_FromTaxiParkID :: "uuid option"
  inv_ToTaxiParkID :: uuid
  inv_FromTaxiParkName :: string
  inv_ToTaxiParkName :: string
  inv_DriverName :: string
  inv_Status :: driver_park_invite_status
  inv_CreatedByUserID :: uuid
  inv_CreatedAt :: time
  inv_ExpiresAt :: time
  inv_AcceptedAt :: "time option"
  inv_DeclinedAt :: "time option"
  inv_CancelledAt :: "time option"
  inv_CancellationReason :: string

definition EnsurePending :: "'x driver_park_invite_scheme \<Rightarrow> time \<Rightarrow> error + unit" where
  "EnsurePending invite now =
     (if inv_Status invite = DriverParkInviteExpired
        \<or> (inv_Status invite = DriverParkInvitePending \<and> \<not> now < inv_ExpiresAt invite)
      then Inl [Domain ErrParkInviteExpired]
      else if inv_Status invite \<noteq> DriverParkInvitePending then Inl [Domain ErrParkInviteClosed]
      else Inr ())"

definition EnsureTransfer ::
  "'x driver_park_invite_scheme \<Rightarrow> uuid option \<Rightarrow> driver_status \<Rightarrow> bool \<Rightarrow> error + unit" where
  "EnsureTransfer invite currentPark status hasOrders =
     (if currentPark \<noteq> inv_FromTaxiParkID invite then Inl [Domain ErrParkInviteContextChanged]
      else if currentPark = Some (inv_ToTaxiParkID invite) then Inl [Domain ErrParkInviteSamePark]
      else if status \<noteq> DriverStatusOffline \<or> hasOrders
        then Inl [Domain ErrParkInviteDriverWorking]
      else Inr ())"

lemma EnsurePending_Inr:
  "EnsurePending invite now = Inr u \<longleftrightarrow>
     inv_Status invite = DriverParkInvitePending \<and> now < inv_ExpiresAt invite"
  by (auto simp: EnsurePending_def)

lemma EnsureTransfer_Inr:
  "EnsureTransfer invite park status hasOrders = Inr u \<longleftrightarrow>
     park = inv_FromTaxiParkID invite \<and> park \<noteq> Some (inv_ToTaxiParkID invite)
     \<and> status = DriverStatusOffline \<and> \<not> hasOrders"
  by (auto simp: EnsureTransfer_def)

end
