(* ===== verification/Dispatch_Model.thy ===== *)
theory Dispatch_Model
  imports Domain_Order Domain_Driver
begin

text \<open>
  The data of the dispatcher: configuration, offers, tasks and events
  (\<^verbatim>\<open>internal/dispatch/model.go\<close>, \<^verbatim>\<open>contracts.go\<close>), and the pure functions of
  \<^verbatim>\<open>internal/dispatch/service.go\<close>: normalisation of a configuration, the radius of an attempt and
  the union of exclusion lists.
\<close>

section \<open>Data\<close>

record dispatch_config =
  InitialRadiusMeters :: int
  MaxRadiusMeters :: int
  RadiusStepMeters :: int
  RadiusAttemptsMeters :: "int list"
  MaxDriversPerOffer :: int
  DriverLocationMaxAge :: duration
  OfferTTL :: duration
  AcceptLockTTL :: duration
  WorkerPollTimeout :: duration
  RecoveryInterval :: duration
  ConfirmationTTL :: duration

record nearest_drivers_query =
  ndq_CityID :: uuid
  ndq_FareMode :: fare_mode
  ndq_CarClassID :: "uuid option"
  ndq_Pickup :: coordinates
  ndq_RadiusMeters :: int
  ndq_Limit :: int
  ndq_ExcludeIDs :: "uuid list"
  ndq_LocationMaxAge :: duration

record driver_candidate =
  cand_DriverID :: uuid
  cand_DistanceMeters :: rat
  cand_Location :: coordinates

record order_offer =
  off_OrderID :: uuid
  off_DriverID :: uuid
  off_Attempt :: int
  off_RadiusMeters :: int
  off_DistanceMeters :: rat
  off_ExpiresAt :: time
  off_CreatedAt :: time
  off_AcceptLockTTLSeconds :: int

record driver_order_offer =
  doo_Offer :: order_offer
  doo_Order :: order
  doo_ProposedPrice :: "money option"
  doo_FareMode :: fare_mode
  doo_TariffRates :: "tariff_rate_snapshot list"

record dispatch_task =
  task_OrderID :: uuid
  task_Attempt :: int
  task_QueuedAt :: time
  task_ExcludeDriverIDs :: "uuid list"
  task_Config :: "dispatch_config option"

record candidate_fare =
  fare_Tariff :: tariff
  fare_DistanceMeters :: int
  fare_DurationSeconds :: int

record dispatch_result =
  res_OrderID :: uuid
  res_Status :: order_status
  res_Attempt :: int
  res_RadiusMeters :: int
  res_OfferedDriverIDs :: "uuid list"
  res_NextRetryAfter :: duration
  res_NoDriversAvailable :: bool

text \<open>\<^verbatim>\<open>map[string]any\<close>, as it is serialised: the keys in the order of the source.\<close>

datatype payload_value =
    PInt int
  | PRat rat
  | PStr string
  | PUuid uuid
  | PUuids "uuid list"
  | PTime time
  | PMoney "money option"
  | PCoordinates coordinates
  | PFareMode fare_mode
  | PNull

type_synonym payload = "(string \<times> payload_value) list"

record order_event =
  oev_OrderID :: uuid
  oev_ActorUserID :: "uuid option"
  oev_ActorDriverID :: "uuid option"
  oev_EventType :: order_event_type
  oev_Payload :: payload
  oev_CreatedAt :: time

abbreviation EventOrderOffer :: string where "EventOrderOffer \<equiv> ''order.offer''"
abbreviation EventOrderOfferCancelled :: string where
  "EventOrderOfferCancelled \<equiv> ''order.offer_cancelled''"
abbreviation EventOrderCancelled :: string where "EventOrderCancelled \<equiv> ''order.cancelled''"
abbreviation EventOrderAssigned :: string where "EventOrderAssigned \<equiv> ''order.assigned''"
abbreviation EventOrderNoDriversFound :: string where
  "EventOrderNoDriversFound \<equiv> ''no_drivers_found''"
abbreviation EventOrderExpired :: string where "EventOrderExpired \<equiv> ''order.expired''"
abbreviation EventPassengerDriverAssigned :: string where
  "EventPassengerDriverAssigned \<equiv> ''driver_assigned''"
abbreviation EventPriceConfirmationRequested :: string where
  "EventPriceConfirmationRequested \<equiv> ''order.price_confirmation_requested''"
abbreviation EventPriceConfirmationExpired :: string where
  "EventPriceConfirmationExpired \<equiv> ''order.price_confirmation_expired''"

section \<open>Pure functions of the service\<close>

text \<open>\<^verbatim>\<open>if x <= 0 { x = d }\<close>.\<close>

definition or_default :: "int \<Rightarrow> int \<Rightarrow> int" where
  "or_default x d = (if x \<le> 0 then d else x)"

definition normalizeConfig :: "dispatch_config \<Rightarrow> dispatch_config" where
  "normalizeConfig config =
     (let attempts = (if RadiusAttemptsMeters config = [] then [1000, 3000, 5000, 10000]
                      else RadiusAttemptsMeters config);
          initial = or_default (InitialRadiusMeters config) (hd attempts);
          maximum = (if MaxRadiusMeters config < initial then last attempts
                     else MaxRadiusMeters config)
      in \<lparr>InitialRadiusMeters = initial,
          MaxRadiusMeters = maximum,
          RadiusStepMeters = or_default (RadiusStepMeters config) 1000,
          RadiusAttemptsMeters = attempts,
          MaxDriversPerOffer = or_default (MaxDriversPerOffer config) 5,
          DriverLocationMaxAge = or_default (DriverLocationMaxAge config) (seconds 30),
          OfferTTL = or_default (OfferTTL config) (seconds 15),
          AcceptLockTTL = or_default (AcceptLockTTL config) (seconds 30),
          WorkerPollTimeout = or_default (WorkerPollTimeout config) (seconds 5),
          RecoveryInterval = or_default (RecoveryInterval config) (seconds 30),
          ConfirmationTTL = or_default (ConfirmationTTL config) (seconds 60)\<rparr>)"

definition lastRadius :: "dispatch_config \<Rightarrow> int" where
  "lastRadius config =
     (if RadiusAttemptsMeters config = [] then MaxRadiusMeters config
      else last (RadiusAttemptsMeters config))"

definition radiusForAttempt :: "dispatch_config \<Rightarrow> int \<Rightarrow> int \<times> bool" where
  "radiusForAttempt config attempt =
     (if attempt < 0 \<or> attempt \<ge> int (length (RadiusAttemptsMeters config))
      then (lastRadius config, False)
      else (RadiusAttemptsMeters config ! nat attempt, True))"

text \<open>One of the two loops: \<open>seen\<close> and \<open>result\<close> hold the same identifiers.\<close>

fun append_unseen :: "uuid list \<Rightarrow> uuid list \<Rightarrow> uuid list" where
  "append_unseen result [] = result"
| "append_unseen result (d # ds) =
     (if d \<in> set result then append_unseen result ds else append_unseen (result @ [d]) ds)"

definition appendUniqueDriverIDs :: "uuid list \<Rightarrow> uuid list \<Rightarrow> uuid list" where
  "appendUniqueDriverIDs existing vals =
     (if existing = [] \<and> vals = [] then []
      else append_unseen (append_unseen [] existing) vals)"

definition configForTask :: "dispatch_config \<Rightarrow> dispatch_task \<Rightarrow> dispatch_config" where
  "configForTask service_config task =
     (case task_Config task of None \<Rightarrow> service_config | Some c \<Rightarrow> normalizeConfig c)"

definition offerPayload :: "order \<Rightarrow> order_offer \<Rightarrow> payload" where
  "offerPayload o1 offer =
     [(''order_id'', PUuid (ord_ID o1)),
      (''pickup_address'', PStr (ord_PickupAddress o1)),
      (''pickup_location'', PCoordinates (ord_PickupLocation o1)),
      (''destination_address'', PStr (ord_DestinationAddress o1)),
      (''estimated_price'', PMoney (ord_EstimatedPrice o1)),
      (''attempt'', PInt (off_Attempt offer)),
      (''radius_meters'', PInt (off_RadiusMeters offer)),
      (''distance_meters'', PRat (off_DistanceMeters offer)),
      (''expires_at'', PTime (off_ExpiresAt offer))]"

section \<open>Facts\<close>

text \<open>What the rest of the dispatcher relies on.\<close>

definition valid_config :: "dispatch_config \<Rightarrow> bool" where
  "valid_config c \<longleftrightarrow>
     RadiusAttemptsMeters c \<noteq> [] \<and> 0 < RadiusStepMeters c \<and> 0 < MaxDriversPerOffer c
     \<and> 0 < DriverLocationMaxAge c \<and> 0 < OfferTTL c \<and> 0 < AcceptLockTTL c
     \<and> 0 < WorkerPollTimeout c \<and> 0 < RecoveryInterval c \<and> 0 < ConfirmationTTL c"

lemma or_default_simps:
  "0 < d \<Longrightarrow> 0 < or_default x d"
  "0 < x \<Longrightarrow> or_default x d = x"
  "or_default (or_default x d) d = or_default x d"
  by (auto simp: or_default_def)

lemma normalizeConfig_attempts:
  "RadiusAttemptsMeters (normalizeConfig c) =
     (if RadiusAttemptsMeters c = [] then [1000, 3000, 5000, 10000] else RadiusAttemptsMeters c)"
  by (simp add: normalizeConfig_def Let_def)

lemma normalizeConfig_valid: "valid_config (normalizeConfig c)"
  by (simp add: valid_config_def normalizeConfig_def or_default_simps Let_def)

lemma normalizeConfig_idem: "normalizeConfig (normalizeConfig c) = normalizeConfig c"
  by (simp add: normalizeConfig_def or_default_simps Let_def)

lemma radiusForAttempt_ok:
  "radiusForAttempt c n = (r, True) \<longleftrightarrow>
     0 \<le> n \<and> n < int (length (RadiusAttemptsMeters c)) \<and> r = RadiusAttemptsMeters c ! nat n"
  by (auto simp: radiusForAttempt_def)

lemma append_unseen_set [simp]: "set (append_unseen r ds) = set r \<union> set ds"
  by (induction r ds rule: append_unseen.induct) auto

lemma append_unseen_distinct: "distinct r \<Longrightarrow> distinct (append_unseen r ds)"
  by (induction r ds rule: append_unseen.induct) auto

lemma append_unseen_prefix: "\<exists>zs. append_unseen r ds = r @ zs"
  by (induction r ds rule: append_unseen.induct) auto

lemma append_unseen_id: "distinct (r @ ds) \<Longrightarrow> append_unseen r ds = r @ ds"
  by (induction r ds rule: append_unseen.induct) auto

section \<open>Properties\<close>

text \<open>
  Normalising a dispatch configuration always gives a usable one (there is a radius to try and
  every limit and duration is positive), keeps the configured radii and every usable value, and
  normalising again changes nothing.
\<close>

theorem normalizeConfig_usable:
  "valid_config (normalizeConfig c)
   \<and> normalizeConfig (normalizeConfig c) = normalizeConfig c
   \<and> (RadiusAttemptsMeters c \<noteq> [] \<longrightarrow> RadiusAttemptsMeters (normalizeConfig c) = RadiusAttemptsMeters c)
   \<and> (0 < OfferTTL c \<longrightarrow> OfferTTL (normalizeConfig c) = OfferTTL c)
   \<and> (0 < MaxDriversPerOffer c \<longrightarrow> MaxDriversPerOffer (normalizeConfig c) = MaxDriversPerOffer c)
   \<and> (0 < ConfirmationTTL c \<longrightarrow> ConfirmationTTL (normalizeConfig c) = ConfirmationTTL c)"
  by (simp add: normalizeConfig_valid normalizeConfig_idem normalizeConfig_attempts)
     (simp add: normalizeConfig_def or_default_simps Let_def)

definition empty_config :: dispatch_config where
  "empty_config =
     \<lparr>InitialRadiusMeters = 0, MaxRadiusMeters = 0, RadiusStepMeters = 0,
      RadiusAttemptsMeters = [], MaxDriversPerOffer = 0, DriverLocationMaxAge = 0, OfferTTL = 0,
      AcceptLockTTL = 0, WorkerPollTimeout = 0, RecoveryInterval = 0, ConfirmationTTL = 0\<rparr>"

theorem normalizeConfig_usable_witness:
  "valid_config (normalizeConfig empty_config)
   \<and> OfferTTL (normalizeConfig (empty_config\<lparr>OfferTTL := seconds 20\<rparr>)) = seconds 20"
  using normalizeConfig_usable [of empty_config]
    normalizeConfig_usable [of "empty_config\<lparr>OfferTTL := seconds 20\<rparr>"]
  by simp

text \<open>
  The exclusion list of the next attempt names every driver excluded so far and every newly
  excluded one, each once, the earlier ones first.
\<close>

theorem appendUniqueDriverIDs_union:
  "set (appendUniqueDriverIDs existing vals) = set existing \<union> set vals
   \<and> distinct (appendUniqueDriverIDs existing vals)
   \<and> (\<exists>zs. appendUniqueDriverIDs existing vals = appendUniqueDriverIDs existing [] @ zs)
   \<and> (distinct (existing @ vals) \<longrightarrow> appendUniqueDriverIDs existing vals = existing @ vals)"
proof -
  have "distinct (existing @ vals) \<Longrightarrow> append_unseen (append_unseen [] existing) vals = existing @ vals"
    by (simp add: append_unseen_id)
  then show ?thesis
    using append_unseen_prefix [of "append_unseen [] existing" vals]
    by (auto simp: appendUniqueDriverIDs_def append_unseen_distinct)
qed

theorem appendUniqueDriverIDs_union_witness:
  "appendUniqueDriverIDs [1, 2] [3] = [1, 2, 3] \<and> appendUniqueDriverIDs [1, 2, 1] [2, 3] = [1, 2, 3]"
  using appendUniqueDriverIDs_union [of "[1, 2]" "[3]"]
  by (simp add: appendUniqueDriverIDs_def)

lemma append_unseen_remdups: "distinct r \<Longrightarrow> append_unseen r ds = rev (remdups (rev (r @ ds)))"
proof (induction r ds rule: append_unseen.induct)
  case (2 r d ds)
  show ?case
  proof (cases "d \<in> set r")
    case True
    have "remdups (rev ds @ d # rev r) = remdups (rev ds @ remdups (d # rev r))"
      by (simp only: remdups_append2)
    also have "\<dots> = remdups (rev ds @ rev r)" using True by (simp add: remdups_append2)
    finally show ?thesis using 2 True by simp
  qed (use 2 in simp)
qed (simp add: distinct_remdups_id)

text \<open>
  C38: the two loops that merge the exclusion lists compute the list without repetitions: of the old and the new
  identifiers in their order, the first occurrence of each.
\<close>

theorem appendUniqueDriverIDs_reference:
  "appendUniqueDriverIDs existing vals = rev (remdups (rev (existing @ vals)))"
  by (simp add: appendUniqueDriverIDs_def append_unseen_remdups remdups_append2)

end
