(* ===== verification/Park_Model.thy ===== *)
theory Park_Model
  imports Domain_Order Domain_Driver
begin

text \<open>
  Users and taxi parks (\<^verbatim>\<open>internal/domain/user.go\<close>), the settings of a taxi park
  (\<^verbatim>\<open>taxi_park_settings.go\<close>) and the records of its money: settlements, transactions and balances
  (\<^verbatim>\<open>finance.go\<close>), payouts and invoices (\<^verbatim>\<open>internal/finance/models.go\<close>), ledger rows.
\<close>

section \<open>Users and parks\<close>

record user =
  usr_ID :: uuid
  usr_Phone :: string
  usr_Email :: string
  usr_Role :: user_role
  usr_RegistrationType :: registration_type
  usr_FirstName :: string
  usr_LastName :: string
  usr_ProfilePhotoURL :: string
  usr_Rating :: f64
  usr_RatingsCount :: int
  usr_PasswordHash :: string
  usr_MustChangePassword :: bool
  usr_IsPhoneConfirmed :: bool
  usr_IsEmailConfirmed :: bool
  usr_PersonalDataConsent :: bool
  usr_PersonalDataConsentAt :: "time option"
  usr_PrivacyPolicyVersion :: string
  usr_TermsAccepted :: bool
  usr_TermsAcceptedAt :: "time option"
  usr_TermsVersion :: string
  usr_ConsentIP :: string
  usr_ConsentUserAgent :: string
  usr_IsActive :: bool
  usr_LastLoginAt :: "time option"
  usr_CreatedAt :: time
  usr_UpdatedAt :: time
  usr_DeletedAt :: "time option"

text \<open>The codes of the registration and of the e-mail confirmation, and the log of consents.\<close>

datatype verification_channel = VerificationChannelSMS | VerificationChannelEmail

datatype verification_purpose =
    VerificationPurposeRegistration
  | VerificationPurposeLogin
  | VerificationPurposeEmailConfirm
  | VerificationPurposePhoneChange
  | VerificationPurposePasswordReset

record verification_code =
  vcd_ID :: uuid
  vcd_UserID :: uuid
  vcd_Target :: string
  vcd_Channel :: verification_channel
  vcd_Purpose :: verification_purpose
  vcd_CodeHash :: string
  vcd_Attempts :: int
  vcd_MaxAttempts :: int
  vcd_ExpiresAt :: time
  vcd_ConsumedAt :: "time option"
  vcd_CreatedAt :: time
  vcd_LastSentAt :: time

datatype consent_document = ConsentDocumentPersonalData | ConsentDocumentPrivacyPolicy | ConsentDocumentTerms

datatype consent_event_type = ConsentEventAccepted | ConsentEventRevoked | ConsentEventRenewed

text \<open>The identifier of an event is drawn by the database and read by nobody.\<close>

record user_consent_event =
  cev_UserID :: uuid
  cev_EventType :: consent_event_type
  cev_DocumentType :: consent_document
  cev_DocumentVersion :: string
  cev_IP :: string
  cev_UserAgent :: string
  cev_CreatedAt :: time

text \<open>A row of \<^verbatim>\<open>refresh_tokens\<close>, the sessions of the users.\<close>

record user_token_row =
  utk_UserID :: uuid
  utk_TokenHash :: string
  utk_ExpiresAt :: time
  utk_RevokedAt :: "time option"

datatype verification_status =
    VerificationStatusPending
  | VerificationStatusVerified
  | VerificationStatusExpired
  | VerificationStatusBlocked
  | VerificationStatusOther string

record taxi_park =
  tp_ID :: uuid
  tp_OwnerUserID :: uuid
  tp_CityID :: uuid
  tp_Name :: string
  tp_LegalName :: string
  tp_TaxID :: string
  tp_ContactPhone :: string
  tp_ContactEmail :: string
  tp_IsVerified :: bool
  tp_VerificationStatus :: verification_status
  tp_CreatedAt :: time
  tp_UpdatedAt :: time
  tp_DeletedAt :: "time option"

text \<open>
  The table \<^verbatim>\<open>taxi_parks\<close> also has the balance in kopecks and a commission; the percentage is kept
  in basis points, which is what the queries turn it into.
\<close>

record taxi_park_row = taxi_park +
  tp_balance_cents :: int
  tp_commission_bps :: "int option"

text \<open>A row of \<^verbatim>\<open>taxi_park_staff\<close>.\<close>

record staff_row =
  stf_TaxiParkID :: uuid
  stf_UserID :: uuid
  stf_Role :: user_role
  stf_IsActive :: bool
  stf_DeletedAt :: "time option"

record taxi_park_settings =
  set_ID :: uuid
  set_TaxiParkID :: uuid
  set_CityID :: uuid
  set_CityName :: string
  set_CityRegion :: string
  set_CityCountryCode :: string
  set_CityTimezone :: string
  set_CityCenter :: coordinates
  set_DisplayName :: string
  set_ShortName :: string
  set_SupportPhone :: string
  set_SupportEmail :: string
  set_LegalName :: string
  set_LegalAddress :: string
  set_INN :: string
  set_OGRN :: string
  set_Website :: string
  set_LogoURL :: string
  set_PrimaryColor :: string
  set_SecondaryColor :: string
  set_CommissionBasisPoints :: "int option"
  set_MinimumOrderPrice :: money
  set_CancellationTimeoutSec :: int
  set_DriverArrivalTimeoutSec :: int
  set_AllowCashPayment :: bool
  set_AllowCardPayment :: bool
  set_AllowTransferPayment :: bool
  set_DispatchInitialRadiusMeters :: int
  set_DispatchMaxRadiusMeters :: int
  set_DispatchRadiusStepMeters :: int
  set_DispatchRadiusAttemptsMeters :: "int list"
  set_DispatchMaxDriversPerOffer :: int
  set_DispatchDriverLocationMaxAgeSec :: int
  set_DispatchOfferTTLSec :: int
  set_DispatchAcceptLockTTLSec :: int
  set_DispatchWorkerPollTimeoutSec :: int
  set_DispatchRecoveryIntervalSec :: int
  set_ScheduledOrdersEnabled :: bool
  set_ScheduledMinBeforeMinutes :: int
  set_ScheduledActivationBeforeMinutes :: int
  set_ScheduledExpireAfterMinutes :: int
  set_AllowScheduledDriverPreassignment :: bool
  set_IsActive :: bool
  set_CreatedAt :: time
  set_UpdatedAt :: time

section \<open>Money of a park\<close>

record order_settlement =
  stl_OrderID :: uuid
  stl_DriverID :: uuid
  stl_TaxiParkID :: "uuid option"
  stl_GrossAmount :: money
  stl_CommissionRate :: commission_rate
  stl_CommissionAmount :: money
  stl_NetAmount :: money
  stl_PlatformFeeRate :: commission_rate
  stl_PlatformFeeAmount :: money
  stl_TaxiParkIncomeAmount :: money
  stl_CommissionTransactionID :: uuid
  stl_IncomeTransactionID :: uuid
  stl_CreatedAt :: time

record taxi_park_finance_settings =
  tfs_TaxiParkID :: uuid
  tfs_DriverCommissionRate :: commission_rate
  tfs_PlatformFeeRate :: commission_rate
  tfs_IsActive :: bool
  tfs_CreatedAt :: time
  tfs_UpdatedAt :: time

record financial_transaction =
  ftx_ID :: uuid
  ftx_OrderID :: "uuid option"
  ftx_DriverID :: "uuid option"
  ftx_TaxiParkID :: "uuid option"
  ftx_TransactionType :: transaction_type
  ftx_GrossAmount :: money
  ftx_CommissionBasisPoints :: int
  ftx_CommissionAmount :: money
  ftx_NetAmount :: money
  ftx_Currency :: string
  ftx_CreatedAt :: time

text \<open>
  A row of \<^verbatim>\<open>driver_balances\<close>: the fields of the struct \<^verbatim>\<open>DriverBalance\<close>, the park, the version.
\<close>

record driver_balance =
  bal_DriverID :: uuid
  bal_AvailableBalance :: money
  bal_PendingBalance :: money
  bal_UpdatedAt :: time

record driver_balance_row = driver_balance +
  bal_TaxiParkID :: "uuid option"
  bal_version :: int

record taxi_park_balance =
  tpb_TaxiParkID :: uuid
  tpb_AvailableBalance :: money
  tpb_UpdatedAt :: time

text \<open>What the settlement of an order starts from.\<close>

record order_snapshot =
  snp_OrderID :: uuid
  snp_DriverID :: "uuid option"
  snp_TaxiParkID :: "uuid option"
  snp_CityID :: uuid
  snp_TariffID :: "uuid option"
  snp_Status :: order_status
  snp_FinalPrice :: "money option"
  snp_DriverCommissionBPS :: "int option"
  snp_PlatformFeeBPS :: int

record order_finance =
  ofi_ID :: uuid
  ofi_OrderID :: uuid
  ofi_TaxiParkID :: "uuid option"
  ofi_DriverID :: uuid
  ofi_PassengerID :: "uuid option"
  ofi_OrderTotalAmount :: money
  ofi_DriverCommissionBasisPoints :: int
  ofi_TaxiParkCommissionAmount :: money
  ofi_DriverIncomeAmount :: money
  ofi_PlatformFeeBasisPoints :: int
  ofi_PlatformFeeAmount :: money
  ofi_TaxiParkIncomeAmount :: money
  ofi_Status :: string
  ofi_CreatedAt :: time
  ofi_UpdatedAt :: time

record driver_payout =
  pay_ID :: uuid
  pay_DriverID :: uuid
  pay_TaxiParkID :: uuid
  pay_Amount :: money
  pay_Status :: string
  pay_PeriodFrom :: "time option"
  pay_PeriodTo :: "time option"
  pay_PaymentMethod :: string
  pay_PaymentDocumentNumber :: string
  pay_Comment :: string
  pay_CreatedBy :: "uuid option"
  pay_CreatedAt :: time
  pay_PaidAt :: "time option"
  pay_UpdatedAt :: time

record platform_invoice =
  piv_ID :: uuid
  piv_TaxiParkID :: uuid
  piv_Amount :: money
  piv_PeriodFrom :: time
  piv_PeriodTo :: time
  piv_Status :: string
  piv_InvoiceNumber :: string
  piv_DocumentURL :: string
  piv_CreatedAt :: time
  piv_PaidAt :: "time option"
  piv_UpdatedAt :: time

record create_driver_payout_input =
  cdp_AmountCents :: int
  cdp_PeriodFrom :: "time option"
  cdp_PeriodTo :: "time option"
  cdp_Comment :: string

record create_platform_invoice_input =
  cpi_PeriodFrom :: time
  cpi_PeriodTo :: time

record taxi_park_finance_overview =
  ovw_TaxiParkID :: uuid
  ovw_OrdersCount :: int
  ovw_OrderTotalAmount :: money
  ovw_DriverIncomeAmount :: money
  ovw_TaxiParkCommissionAmount :: money
  ovw_TaxiParkIncomeAmount :: money
  ovw_PlatformServiceFeeAmount :: money
  ovw_PlatformDebtAmount :: money
  ovw_PeriodFrom :: time
  ovw_PeriodTo :: time

record admin_overview =
  aov_CompletedOrdersRevenue :: money
  aov_TotalCommissions :: money
  aov_DriverPayouts :: money
  aov_TaxiParkRevenue :: money
  aov_AverageCommission :: money
  aov_CompletedOrdersCount :: int
  aov_PeriodFrom :: time
  aov_PeriodTo :: time

text \<open>
  A row of one of the four ledgers; a column that a ledger does not have is \<open>None\<close>.  Amounts are
  in kopecks: the numeric columns have two decimals and are written from kopecks.
\<close>

record ledger_row =
  led_DriverID :: "uuid option"
  led_TaxiParkID :: "uuid option"
  led_OrderID :: "uuid option"
  led_TransactionID :: "uuid option"
  led_InvoiceID :: "uuid option"
  led_Type :: string
  led_Amount :: int
  led_Currency :: string
  led_Direction :: string
  led_BalanceAfter :: int
  led_Comment :: string
  led_CreatedAt :: time

text \<open>A row of \<^verbatim>\<open>finance_audit_events\<close>.\<close>

record finance_audit_event =
  fae_TransactionID :: "uuid option"
  fae_OrderID :: "uuid option"
  fae_ActorUserID :: "uuid option"
  fae_EventType :: string

text \<open>A row of \<^verbatim>\<open>driver_park_history\<close>.\<close>

record park_history_row =
  dph_DriverID :: uuid
  dph_TaxiParkID :: uuid
  dph_JoinedAt :: time
  dph_LeftAt :: "time option"
  dph_TransferInviteID :: "uuid option"

end
