(* ===== verification/Passenger_Model.thy ===== *)
theory Passenger_Model
  imports Domain_User Domain_Pricing Domain_Order
begin

text \<open>
  Passengers and their sign-in codes (\<^verbatim>\<open>internal/domain/passenger.go\<close>), price quotes
  (\<^verbatim>\<open>internal/passenger/order_contracts.go\<close>), route points of a trip, and the threads and messages
  of the chat (\<^verbatim>\<open>internal/domain/chat.go\<close>).
\<close>

section \<open>Passengers\<close>

record passenger =
  psg_ID :: uuid
  psg_Phone :: string
  psg_Name :: string
  psg_Email :: string
  psg_AvatarURL :: string
  psg_IsActive :: bool
  psg_PhoneVerifiedAt :: "time option"
  psg_LastLoginAt :: "time option"
  psg_CreatedAt :: time
  psg_UpdatedAt :: time
  psg_DeletedAt :: "time option"

record passenger_auth_code =
  pac_ID :: uuid
  pac_Phone :: string
  pac_CodeHash :: string
  pac_Attempts :: int
  pac_MaxAttempts :: int
  pac_ExpiresAt :: time
  pac_UsedAt :: "time option"
  pac_CreatedAt :: time
  pac_UpdatedAt :: time

text \<open>A row of \<^verbatim>\<open>passenger_refresh_tokens\<close>.\<close>

record refresh_token_row =
  rft_PassengerID :: uuid
  rft_TokenHash :: string
  rft_ExpiresAt :: time
  rft_RevokedAt :: "time option"

definition NormalizePassengerName :: "string \<Rightarrow> string" where
  "NormalizePassengerName name = TrimSpace name"

record price_quote =
  pqt_ID :: uuid
  pqt_PassengerID :: uuid
  pqt_CityID :: uuid
  pqt_CarClassID :: uuid
  pqt_FareMode :: fare_mode
  pqt_Pickup :: coordinates
  pqt_Destination :: coordinates
  pqt_Pricing :: order_pricing_snapshot
  pqt_ExpiresAt :: time
  pqt_ConsumedOrderID :: "uuid option"

text \<open>A row of \<^verbatim>\<open>order_route_points\<close>; heading, speed and accuracy are not modelled.\<close>

record route_point_row =
  rpt_OrderID :: uuid
  rpt_DriverID :: uuid
  rpt_Location :: coordinates
  rpt_RecordedAt :: time

section \<open>Chat\<close>

datatype chat_type =
    ChatTypeDispatcherDriver
  | ChatTypeDriverPassenger
  | ChatTypePassengerSupport
  | ChatTypeOther string

datatype chat_status =
    ChatStatusOpen
  | ChatStatusClosed
  | ChatStatusArchived
  | ChatStatusOther string

record chat_thread =
  cht_ID :: uuid
  cht_Type :: chat_type
  cht_OrderID :: "uuid option"
  cht_TaxiParkID :: "uuid option"
  cht_PassengerID :: "uuid option"
  cht_DriverID :: "uuid option"
  cht_Status :: chat_status
  cht_CreatedAt :: time
  cht_UpdatedAt :: time
  cht_ClosedAt :: "time option"

record chat_message =
  chm_ID :: uuid
  chm_ThreadID :: uuid
  chm_OrderID :: "uuid option"
  chm_SenderID :: uuid
  chm_SenderUserID :: "uuid option"
  chm_SenderPassengerID :: "uuid option"
  chm_SenderRole :: user_role
  chm_Body :: string
  chm_CreatedAt :: time
  chm_EditedAt :: "time option"

definition ChatType_Validate :: "chat_type \<Rightarrow> error + unit" where
  "ChatType_Validate chatType =
     (if chatType \<in> {ChatTypeDispatcherDriver, ChatTypeDriverPassenger, ChatTypePassengerSupport}
      then Inr () else Inl [Domain ErrInvalidChatType])"

definition ChatStatus_Validate :: "chat_status \<Rightarrow> error + unit" where
  "ChatStatus_Validate status =
     (if status \<in> {ChatStatusOpen, ChatStatusClosed, ChatStatusArchived}
      then Inr () else Inl [Domain ErrInvalidChatStatus])"

text \<open>
  \<^verbatim>\<open>len([]rune(s))\<close>: the number of UTF-8 sequences of a byte string, an invalid byte counting as one
  rune.  \<open>sequence_length\<close> is the length of the sequence at the front.
\<close>

definition byte_in :: "nat \<Rightarrow> nat \<Rightarrow> char \<Rightarrow> bool" where
  "byte_in lo hi c \<longleftrightarrow> lo \<le> of_char c \<and> of_char c \<le> hi"

fun all_bytes :: "(nat \<times> nat) list \<Rightarrow> string \<Rightarrow> bool" where
  "all_bytes [] s \<longleftrightarrow> True"
| "all_bytes (r # rs) [] \<longleftrightarrow> False"
| "all_bytes ((lo, hi) # rs) (c # s) \<longleftrightarrow> byte_in lo hi c \<and> all_bytes rs s"

definition sequence_length :: "string \<Rightarrow> nat" where
  "sequence_length s =
     (let tail = (0x80, 0xBF)
      in if all_bytes [(0xC2, 0xDF), tail] s then 2
         else if all_bytes [(0xE0, 0xE0), (0xA0, 0xBF), tail] s
           \<or> all_bytes [(0xE1, 0xEC), tail, tail] s
           \<or> all_bytes [(0xED, 0xED), (0x80, 0x9F), tail] s
           \<or> all_bytes [(0xEE, 0xEF), tail, tail] s then 3
         else if all_bytes [(0xF0, 0xF0), (0x90, 0xBF), tail, tail] s
           \<or> all_bytes [(0xF1, 0xF3), tail, tail, tail] s
           \<or> all_bytes [(0xF4, 0xF4), (0x80, 0x8F), tail, tail] s then 4
         else 1)"

lemma sequence_length_pos: "0 < sequence_length s"
  by (simp add: sequence_length_def Let_def)

function rune_count :: "string \<Rightarrow> nat" where
  "rune_count s = (if s = [] then 0 else Suc (rune_count (drop (sequence_length s) s)))"
  by pat_completeness auto
termination
  by (relation "measure length") (simp_all add: sequence_length_pos)

declare rune_count.simps [simp del]

lemma rune_count_le: "rune_count s \<le> length s"
proof (induction s rule: rune_count.induct)
  case (1 s)
  show ?case
  proof (cases "s = []")
    case False
    with 1 sequence_length_pos [of s] show ?thesis
      by (simp add: rune_count.simps [of s]) (cases s; simp; linarith)
  qed (simp add: rune_count.simps)
qed

lemma rune_count_Nil [simp]: "rune_count s = 0 \<longleftrightarrow> s = []"
  by (simp add: rune_count.simps [of s])

definition NormalizeChatMessageBody :: "string \<Rightarrow> error + string" where
  "NormalizeChatMessageBody value =
     (let trimmed = TrimSpace value
      in if trimmed = '''' \<or> rune_count trimmed > 2000 then Inl [Domain ErrInvalidChatMessage]
         else Inr trimmed)"

end
