(* ===== verification/World.thy ===== *)
theory World
  imports Dispatch_Model Park_Model Passenger_Model
begin

text \<open>
  The state outside the process: the PostgreSQL tables, the Redis keys and the messages that were
  published.  A table is the list of its rows in the order of insertion.  A Redis key with a time
  to live is a value with the instant at which it expires; the keys of the source differ by their
  prefix, so each prefix is a map of its own.  A Redis set is the list of its members without
  repetition.
\<close>

named_theorems partial_intros \<open>partial correctness of external calls\<close>

section \<open>Tables\<close>

text \<open>
  A row of \<^verbatim>\<open>orders\<close>: the columns that \<^verbatim>\<open>domain.Order\<close> has, and the members of the JSON column
  \<^verbatim>\<open>metadata\<close> that statements read or write: \<^verbatim>\<open>taxi_park_id\<close>, the route of \<^verbatim>\<open>pricing_snapshot\<close> and
  \<^verbatim>\<open>assigned_tariff_snapshot\<close> (the tariff and the instant of its capture).
\<close>

record order_row = order +
  meta_taxi_park_id :: "uuid option"
  meta_route_distance_meters :: "int option"
  meta_route_duration_seconds :: "int option"
  meta_assigned_tariff :: "(tariff \<times> time) option"

record driver_location_row =
  loc_DriverID :: uuid
  loc_CityID :: uuid
  loc_Location :: coordinates
  loc_RecordedAt :: time
  loc_UpdatedAt :: time

record finance_document =
  doc_ID :: uuid
  doc_TaxiParkID :: "uuid option"
  doc_DriverID :: "uuid option"
  doc_OrderID :: "uuid option"
  doc_PayoutID :: "uuid option"
  doc_InvoiceID :: "uuid option"
  doc_Type :: string
  doc_Number :: string
  doc_Status :: string
  doc_FileURL :: string
  doc_Payload :: payload
  doc_CreatedAt :: time
  doc_UpdatedAt :: time

text \<open>A row of \<^verbatim>\<open>driver_push_tokens\<close>.\<close>

record push_token_row =
  pt_Token :: string
  pt_UserID :: uuid
  pt_Platform :: string
  pt_UpdatedAt :: time

text \<open>
  A row of \<^verbatim>\<open>tariffs\<close>, the tariffs that belong to no park; an order can name one of them.  The columns
  that no statement of the model reads are left out, the prices are in kopecks.
\<close>

record global_tariff_row =
  gtf_ID :: uuid
  gtf_BasePrice :: int
  gtf_PricePerKM :: int
  gtf_MinimumPrice :: int
  gtf_IsActive :: bool
  gtf_DeletedAt :: "time option"

record db =
  orders :: "order_row list"
  order_events :: "order_event list"
  users :: "user list"
  drivers :: "driver list"
  driver_locations :: "driver_location_row list"
  cars :: "car list"
  car_classes :: "car_class_row list"
  taxi_parks :: "taxi_park_row list"
  taxi_park_staff :: "staff_row list"
  park_settings :: "taxi_park_settings list"
  tariffs :: "tariff list"
  invites :: "driver_park_invite list"
  finance_settings :: "taxi_park_finance_settings list"
  financial_transactions :: "financial_transaction list"
  order_finances :: "order_finance list"
  driver_balances :: "driver_balance_row list"
  driver_ledger :: "ledger_row list"
  park_ledger :: "ledger_row list"
  fee_ledger :: "ledger_row list"
  platform_ledger :: "ledger_row list"
  payouts :: "driver_payout list"
  invoices :: "platform_invoice list"
  finance_audit :: "finance_audit_event list"
  finance_documents :: "finance_document list"
  park_history :: "park_history_row list"
  passengers :: "passenger list"
  auth_codes :: "passenger_auth_code list"
  refresh_tokens :: "refresh_token_row list"
  price_quotes :: "price_quote list"
  route_points :: "route_point_row list"
  chat_threads :: "chat_thread list"
  chat_messages :: "chat_message list"
  driver_push_tokens :: "push_token_row list"
  global_tariffs :: "global_tariff_row list"
  user_codes :: "verification_code list"
  user_tokens :: "user_token_row list"
  consent_events :: "user_consent_event list"

section \<open>Redis\<close>

datatype lock_key = OrderAcceptLock uuid

record redis =
  rd_offers :: "uuid \<times> uuid \<Rightarrow> (order_offer \<times> time) option"
  rd_order_offers :: "uuid \<Rightarrow> (uuid list \<times> time option) option"
  rd_driver_offers :: "uuid \<Rightarrow> (uuid list \<times> time option) option"
  rd_dispatching :: "uuid \<Rightarrow> (unit \<times> time) option"
  rd_active_offer :: "uuid \<Rightarrow> (unit \<times> time) option"
  rd_accepted_driver :: "uuid \<Rightarrow> (uuid \<times> time) option"
  rd_locks :: "lock_key \<Rightarrow> (int \<times> time) option"
  rd_queue :: "dispatch_task list"
  rd_timeouts :: "(dispatch_task \<times> int) list"
  rd_city_online :: "uuid \<Rightarrow> (uuid list \<times> time option) option"
  rd_online :: "uuid \<Rightarrow> (uuid \<times> time) option"
  rd_throttled :: "uuid \<Rightarrow> (unit \<times> time) option"

section \<open>The world\<close>

text \<open>A message on the WebSocket channel of a user, a push notification and a text message.\<close>

record message =
  msg_UserID :: uuid
  msg_Event :: string
  msg_Payload :: payload

record notification =
  ntf_PassengerID :: uuid
  ntf_Data :: payload

record text_message =
  txt_Phone :: string
  txt_Code :: string

record world = env +
  db :: db
  redis :: redis
  published :: "message list"
  notified :: "notification list"
  texted :: "text_message list"

text \<open>Statements work on the database, Redis commands on the keys.\<close>

definition sql :: "(time \<Rightarrow> db \<Rightarrow> (error + 'a) \<times> db) \<Rightarrow> (world, 'a) op" where
  "sql f = external (\<lambda>s. case f (clock s) (db s) of (r, d) \<Rightarrow> (r, s\<lparr>db := d\<rparr>))"

definition redis_cmd :: "(time \<Rightarrow> redis \<Rightarrow> (error + 'a) \<times> redis) \<Rightarrow> (world, 'a) op" where
  "redis_cmd f = external (\<lambda>s. case f (clock s) (redis s) of (r, d) \<Rightarrow> (r, s\<lparr>redis := d\<rparr>))"

definition db_transaction :: "(world, bool \<times> 'a) op \<Rightarrow> (world, 'a) op" where
  "db_transaction body = transaction db (\<lambda>f s. s\<lparr>db := f (db s)\<rparr>) body"

text \<open>A query reads the database and changes nothing.\<close>

definition query :: "(time \<Rightarrow> db \<Rightarrow> error + 'a) \<Rightarrow> (world, 'a) op" where
  "query f = sql (\<lambda>now d. (f now d, d))"

text \<open>The first row of a result, or \<^verbatim>\<open>pgx.ErrNoRows\<close>.\<close>

definition one_row :: "'a list \<Rightarrow> error + 'a" where
  "one_row rows = (case rows of [] \<Rightarrow> Inl [Infra ErrNoRows] | r # _ \<Rightarrow> Inr r)"

lemma one_row_simps [simp]:
  "one_row [] = Inl [Infra ErrNoRows]"
  "one_row (r # rs) = Inr r"
  by (simp_all add: one_row_def)

text \<open>A live value of a key with a time to live.\<close>

definition live :: "time \<Rightarrow> ('k \<Rightarrow> ('v \<times> time) option) \<Rightarrow> 'k \<Rightarrow> 'v option" where
  "live now m k = (case m k of Some (v, e) \<Rightarrow> if now < e then Some v else None | None \<Rightarrow> None)"

definition live_set :: "time \<Rightarrow> ('k \<Rightarrow> ('v list \<times> time option) option) \<Rightarrow> 'k \<Rightarrow> 'v list" where
  "live_set now m k =
     (case m k of
        Some (vs, e) \<Rightarrow> (case e of None \<Rightarrow> vs | Some t \<Rightarrow> if now < t then vs else [])
      | None \<Rightarrow> [])"

definition live_expiry :: "time \<Rightarrow> ('k \<Rightarrow> ('v list \<times> time option) option) \<Rightarrow> 'k \<Rightarrow> time option" where
  "live_expiry now m k =
     (case m k of
        Some (vs, Some t) \<Rightarrow> if now < t then Some t else None
      | _ \<Rightarrow> None)"

lemma live_upd [simp]:
  "live now (m(k := Some (v, e))) k' = (if k' = k then if now < e then Some v else None else live now m k')"
  "live now (m(k := None)) k' = (if k' = k then None else live now m k')"
  by (auto simp: live_def)

lemma live_set_upd [simp]:
  "live_set now (m(k := Some (vs, e))) k' =
     (if k' = k then (case e of None \<Rightarrow> vs | Some t \<Rightarrow> if now < t then vs else []) else live_set now m k')"
  "live_set now (m(k := None)) k' = (if k' = k then [] else live_set now m k')"
  by (auto simp: live_set_def)

section \<open>Invariants and frames of statements\<close>

text \<open>A property of the tables only, as a property of the world.\<close>

abbreviation on_db :: "(db \<Rightarrow> bool) \<Rightarrow> world \<Rightarrow> bool" where
  "on_db P \<equiv> \<lambda>s. P (db s)"

abbreviation on_redis :: "(redis \<Rightarrow> bool) \<Rightarrow> world \<Rightarrow> bool" where
  "on_redis P \<equiv> \<lambda>s. P (redis s)"

lemma env_free_on_db [simp]: "env_free (on_db P)" "env_free (on_redis R)"
  by (simp_all add: env_free_def)

lemma keeps_sql:
  assumes "\<And>now d. P d \<Longrightarrow> P (snd (f now d))"
  shows "keeps (on_db P) (sql f)"
  unfolding sql_def
proof (rule keeps_external)
  show "keeps (on_db P) (\<lambda>s. case f (clock s) (db s) of (r, d) \<Rightarrow> (r, s\<lparr>db := d\<rparr>))"
  proof (rule keepsI)
    fix s assume "P (db s)"
    with assms [of "db s" "clock s"]
    show "P (db (snd (case f (clock s) (db s) of (r, d) \<Rightarrow> (r, s\<lparr>db := d\<rparr>))))"
      by (cases "f (clock s) (db s)") simp
  qed
qed simp

lemma keeps_query [keeps_intros]: "keeps (on_db P) (query f)"
  unfolding query_def by (rule keeps_sql) simp

lemma keeps_redis_cmd [keeps_intros]: "keeps (on_db P) (redis_cmd f)"
  unfolding redis_cmd_def
  by (rule keeps_external) (auto simp: keeps_def split: prod.splits)

lemma keeps_db_transaction:
  assumes "keeps (on_db P) body"
  shows "keeps (on_db P) (db_transaction body)"
  unfolding db_transaction_def by (rule keeps_transaction) (use assms in auto)

lemma keeps_uuid_New_db [keeps_intros]: "keeps (on_db P) uuid_New"
  by (rule keeps_uuid_New) simp

lemma wp_sql:
  assumes "\<And>c sc r d. clock s \<le> c \<Longrightarrow> f c (db s) = (Inr r, d) \<Longrightarrow> Q r (s\<lparr>clock := c, script := sc, db := d\<rparr>)"
    and "\<And>c sc e d. clock s \<le> c \<Longrightarrow> f c (db s) = (Inl e, d) \<Longrightarrow> E e (s\<lparr>clock := c, script := sc, db := d\<rparr>)"
    and "\<And>c sc. clock s \<le> c \<Longrightarrow> E [Infra ErrUnavailable] (s\<lparr>clock := c, script := sc\<rparr>)"
    and "\<And>c sc. clock s \<le> c \<Longrightarrow> E [Infra ErrUnavailable] (s\<lparr>clock := c, script := sc, db := snd (f c (db s))\<rparr>)"
  shows "wp (sql f) Q E s"
  unfolding sql_def
proof (rule wp_external)
  fix c sc
  assume c: "clock s \<le> c"
  show "wp (\<lambda>s. case f (clock s) (db s) of (r, d) \<Rightarrow> (r, s\<lparr>db := d\<rparr>)) Q E (s\<lparr>clock := c, script := sc\<rparr>)"
    using assms(1,2) [OF c, where sc = sc]
    by (cases "f c (db s)"; cases "fst (f c (db s))") (auto simp: wp_def)
  show "E [Infra ErrUnavailable] (s\<lparr>clock := c, script := sc\<rparr>)" by (rule assms(3) [OF c])
  show "E [Infra ErrUnavailable]
      (snd (case f (clock (s\<lparr>clock := c, script := sc\<rparr>)) (db (s\<lparr>clock := c, script := sc\<rparr>)) of
        (r, d) \<Rightarrow> (r, s\<lparr>clock := c, script := sc, db := d\<rparr>)))"
    using assms(4) [OF c, where sc = sc] by (cases "f c (db s)") simp
qed

section \<open>What a successful call did\<close>

lemma bind_Inr:
  assumes "bind m k s = (Inr a, t)"
  obtains b u where "m s = (Inr b, u)" "k b u = (Inr a, t)"
  using assms by (auto simp: bind_def split: sum.splits prod.splits)

lemma catching_elim:
  assumes "catching m k s = (r, t)"
  obtains q u where "m s = (q, u)" "k q u = (r, t)"
  using assms by (auto simp: catching_def split: prod.splits)

lemma ret_Inr: "ret a s = (Inr b, t) \<longleftrightarrow> b = a \<and> t = s"
  by (auto simp: ret_def)

lemma fail_Inr: "fail e s = (Inr b, t) \<longleftrightarrow> False"
  by (simp add: fail_def)

lemma lift_Inr: "lift r s = (Inr b, t) \<longleftrightarrow> r = Inr b \<and> t = s"
  by (auto simp: lift_def)

lemma time_Now_Inr: "time_Now s = (Inr b, t) \<longleftrightarrow> b = clock s \<and> t = s"
  by (auto simp: time_Now_def gets_def)

lemmas Inr_simps = ret_Inr fail_Inr lift_Inr time_Now_Inr

lemma external_Inr:
  assumes "external m s = (Inr a, t)"
  obtains c sc where "clock s \<le> c" "m (s\<lparr>clock := c, script := sc\<rparr>) = (Inr a, t)"
proof (cases "script s")
  case Nil
  have same: "s\<lparr>clock := clock s, script := script s\<rparr> = s" by simp
  have "m (s\<lparr>clock := clock s, script := script s\<rparr>) = (Inr a, t)"
    unfolding same using assms by (simp add: external_def Nil)
  then show ?thesis by (rule that [rotated]) (rule order.refl)
next
  case (Cons st rest)
  with assms that [of "clock s + int (elapsed st)" rest] show ?thesis
    by (auto simp: external_def Let_def split: outcome.splits)
qed

lemma transaction_Inr:
  assumes "transaction sel upd body s = (Inr a, t)"
  obtains c sc b u where "clock s \<le> c"
    "body (s\<lparr>clock := c, script := sc\<rparr>) = (Inr (b, a), u)"
    "b \<Longrightarrow> \<exists>c' sc'. t = u\<lparr>clock := c', script := sc'\<rparr>"
    "\<not> b \<Longrightarrow> t = upd (\<lambda>_. sel (s\<lparr>clock := c, script := sc\<rparr>)) u"
proof -
  let ?run = "\<lambda>s. case body s of
        (Inl e, t) \<Rightarrow> (Inl e, upd (\<lambda>_. sel s) t)
      | (Inr (False, a), t) \<Rightarrow> (Inr a, upd (\<lambda>_. sel s) t)
      | (Inr (True, a), t) \<Rightarrow>
          (case script t of
             [] \<Rightarrow> (Inr a, t)
           | st # rest \<Rightarrow>
               let u = t\<lparr>clock := clock t + int (elapsed st), script := rest\<rparr>
               in case outcome st of
                    Works \<Rightarrow> (Inr a, u)
                  | Fails \<Rightarrow> (Inl [Infra ErrUnavailable], upd (\<lambda>_. sel s) u)
                  | ReplyLost \<Rightarrow> (Inl [Infra ErrUnavailable], u))"
  from assms obtain s1 where s1: "external done_op s = (Inr (), s1)" "?run s1 = (Inr a, t)"
    unfolding transaction_def by (elim bind_Inr) (auto simp: ret_Inr)
  from s1(1) obtain c sc where c: "clock s \<le> c" "s1 = s\<lparr>clock := c, script := sc\<rparr>"
    by (elim external_Inr) (auto simp: ret_Inr)
  obtain r u where ru: "body s1 = (r, u)" by (cases "body s1")
  show ?thesis
  proof (cases r)
    case Inl
    then show ?thesis using s1(2) ru by simp
  next
    case (Inr p)
    then obtain b a' where p: "r = Inr (b, a')" by (cases p) auto
    show ?thesis
    proof (cases b)
      case False
      then show ?thesis using that [OF c(1), of sc b u] s1(2) ru p c(2) by simp
    next
      case True
      have self: "\<exists>c' sc'. u = u\<lparr>clock := c', script := sc'\<rparr>"
        by (rule exI [of _ "clock u"], rule exI [of _ "script u"]) simp
      have "a' = a \<and> (\<exists>c' sc'. t = u\<lparr>clock := c', script := sc'\<rparr>)"
        using s1(2) ru p True self
        by (auto simp: Let_def split: list.splits outcome.splits)
      then show ?thesis using that [OF c(1), of sc b u] ru p True c(2) by auto
    qed
  qed
qed

lemma sql_Inr:
  assumes "sql f s = (Inr a, t)"
  obtains c d where "clock s \<le> c" "f c (db s) = (Inr a, d)" "db t = d" "redis t = redis s"
    "clock t = c" "published t = published s"
  using assms unfolding sql_def
  by (elim external_Inr) (auto split: prod.splits)

lemma query_Inr:
  assumes "query f s = (Inr a, t)"
  obtains c where "clock s \<le> c" "f c (db s) = Inr a" "db t = db s" "redis t = redis s" "clock t = c"
    "published t = published s"
proof (rule sql_Inr [OF assms [unfolded query_def]])
  fix c d
  assume c: "clock s \<le> c" "(f c (db s), db s) = (Inr a, d)" "db t = d" "redis t = redis s"
    "clock t = c" "published t = published s"
  show thesis by (rule that [of c]) (use c in auto)
qed

lemma redis_cmd_Inr:
  assumes "redis_cmd f s = (Inr a, t)"
  obtains c where "clock s \<le> c" "f c (redis s) = (Inr a, redis t)" "db t = db s" "clock t = c"
    "published t = published s"
  using assms unfolding redis_cmd_def
  by (elim external_Inr) (auto split: prod.splits)

lemma db_transaction_Inr:
  assumes "db_transaction body s = (Inr a, t)"
  obtains s1 b u where "clock s \<le> clock s1" "db s1 = db s" "redis s1 = redis s"
    "body s1 = (Inr (b, a), u)" "db t = (if b then db u else db s)" "redis t = redis u"
proof (rule transaction_Inr [OF assms [unfolded db_transaction_def]])
  fix c sc b u
  assume c: "clock s \<le> c" and run: "body (s\<lparr>clock := c, script := sc\<rparr>) = (Inr (b, a), u)"
    and yes: "b \<Longrightarrow> \<exists>c' sc'. t = u\<lparr>clock := c', script := sc'\<rparr>"
    and no: "\<not> b \<Longrightarrow> t = u\<lparr>db := (\<lambda>_. db (s\<lparr>clock := c, script := sc\<rparr>)) (db u)\<rparr>"
  have t: "db t = (if b then db u else db s) \<and> redis t = redis u"
  proof (cases b)
    case True
    then obtain c' sc' where "t = u\<lparr>clock := c', script := sc'\<rparr>" using yes by blast
    then show ?thesis using True by simp
  next
    case False
    show ?thesis using no [OF False] False by simp
  qed
  show thesis
    by (rule that [OF _ _ _ run]) (simp_all add: c t)
qed

lemma keeps_on_db:
  "keeps (on_db P) m \<Longrightarrow> m s = (r, t) \<Longrightarrow> P (db s) \<Longrightarrow> P (db t)"
  by (drule keepsD) auto

section \<open>Partial correctness\<close>

text \<open>
  What holds when a computation succeeds, whatever the environment did: rules that step through the
  external calls (collection \<open>partial_intros\<close>).
\<close>

abbreviation succeeds :: "(world, 'a) op \<Rightarrow> ('a \<Rightarrow> world \<Rightarrow> bool) \<Rightarrow> world \<Rightarrow> bool" where
  "succeeds m Q s \<equiv> wp m Q (\<lambda>_ _. True) s"

lemma wp_partial: "(\<And>a t. m s = (Inr a, t) \<Longrightarrow> Q a t) \<Longrightarrow> succeeds m Q s"
  by (rule wpI) auto

lemma wp_True [simp]: "wp m (\<lambda>_ _. True) (\<lambda>_ _. True) s"
  by (rule wpI) auto

lemma succeeds_conseq: "succeeds m Q s \<Longrightarrow> (\<And>a t. Q a t \<Longrightarrow> Q' a t) \<Longrightarrow> succeeds m Q' s"
  by (rule wp_conseq)

lemma succeeds_keeps: "keeps I m \<Longrightarrow> I s \<Longrightarrow> (\<And>a t. I t \<Longrightarrow> Q a t) \<Longrightarrow> succeeds m Q s"
  by (rule wp_partial) (metis keepsD snd_conv)

lemma succeeds_external [partial_intros]:
  assumes "\<And>c sc. clock s \<le> c \<Longrightarrow> succeeds m Q (s\<lparr>clock := c, script := sc\<rparr>)"
  shows "succeeds (external m) Q s"
  by (rule wp_external) (use assms in auto)

lemma succeeds_sql [partial_intros]:
  assumes "\<And>c sc a d. clock s \<le> c \<Longrightarrow> f c (db s) = (Inr a, d) \<Longrightarrow> Q a (s\<lparr>clock := c, script := sc, db := d\<rparr>)"
  shows "succeeds (sql f) Q s"
  by (rule wp_sql) (use assms in auto)

lemma succeeds_query [partial_intros]:
  assumes "\<And>c sc a. clock s \<le> c \<Longrightarrow> f c (db s) = Inr a \<Longrightarrow> Q a (s\<lparr>clock := c, script := sc\<rparr>)"
  shows "succeeds (query f) Q s"
proof -
  have same: "s\<lparr>clock := c, script := sc, db := db s\<rparr> = s\<lparr>clock := c, script := sc\<rparr>" for c sc
    by simp
  show ?thesis unfolding query_def
    by (rule succeeds_sql) (use assms same in \<open>auto simp: same\<close>)
qed

lemma succeeds_redis [partial_intros]:
  assumes "\<And>c sc a r. clock s \<le> c \<Longrightarrow> f c (redis s) = (Inr a, r) \<Longrightarrow> Q a (s\<lparr>clock := c, script := sc, redis := r\<rparr>)"
  shows "succeeds (redis_cmd f) Q s"
  unfolding redis_cmd_def
  by (rule succeeds_external) (use assms in \<open>auto simp: wp_def split: prod.splits sum.splits\<close>)

lemma succeeds_transaction [partial_intros]:
  assumes "\<And>c sc. clock s \<le> c \<Longrightarrow> succeeds body
      (\<lambda>p t. if fst p then \<forall>c sc. Q (snd p) (t\<lparr>clock := c, script := sc\<rparr>) else Q (snd p) (t\<lparr>db := db s\<rparr>))
      (s\<lparr>clock := c, script := sc\<rparr>)"
  shows "succeeds (db_transaction body) Q s"
proof (rule wp_partial)
  fix a t
  assume run: "db_transaction body s = (Inr a, t)"
  show "Q a t"
  proof (rule transaction_Inr [OF run [unfolded db_transaction_def]])
    fix c sc b u
    assume c: "clock s \<le> c" "body (s\<lparr>clock := c, script := sc\<rparr>) = (Inr (b, a), u)"
      and yes: "b \<Longrightarrow> \<exists>c' sc'. t = u\<lparr>clock := c', script := sc'\<rparr>"
      and no: "\<not> b \<Longrightarrow> t = u\<lparr>db := (\<lambda>_. db (s\<lparr>clock := c, script := sc\<rparr>)) (db u)\<rparr>"
    from wpD [OF assms [OF c(1)] c(2)] show "Q a t"
      using yes no by (cases b) auto
  qed
qed

end
