(* ===== verification/Order_Store.thy ===== *)
theory Order_Store
  imports World
begin

text \<open>
  The order table as the dispatcher and the order service use it:
  \<^verbatim>\<open>internal/repository/dispatch_order_repository.go\<close>, one definition per statement, with the
  constraints that the migrations put on the table; and \<^verbatim>\<open>driver_state_repository.go\<close>,
  \<^verbatim>\<open>driver_search_repository.go\<close>.  A SQL \<^verbatim>\<open>NULL\<close> of a text column that the scan coalesces is the
  empty string.
\<close>

section \<open>Constraints of the table\<close>

definition driver_active_statuses :: "order_status list" where
  "driver_active_statuses =
     [OrderStatusDriverAssigned, OrderStatusDriverArriving, OrderStatusDriverWaiting,
      OrderStatusInProgress]"

definition passenger_active_statuses :: "order_status list" where
  "passenger_active_statuses = OrderStatusCreated # OrderStatusSearching # driver_active_statuses"

text \<open>\<^verbatim>\<open>orders_one_active_order_per_driver_idx\<close> and \<^verbatim>\<open>idx_orders_one_active_per_passenger\<close>.\<close>

definition serving :: "'x order_scheme \<Rightarrow> bool" where
  "serving r \<longleftrightarrow> ord_DriverID r \<noteq> None \<and> ord_DeletedAt r = None
     \<and> ord_Status r \<in> set driver_active_statuses"

definition current_of_passenger :: "'x order_scheme \<Rightarrow> bool" where
  "current_of_passenger r \<longleftrightarrow> ord_DeletedAt r = None
     \<and> ord_Status r \<in> set passenger_active_statuses"

definition orders_unique :: "order_row list \<Rightarrow> bool" where
  "orders_unique rows \<longleftrightarrow>
     distinct (map ord_DriverID (filter serving rows))
     \<and> distinct (map ord_PassengerID (filter current_of_passenger rows))
     \<and> distinct (map ord_ID rows)"

text \<open>The checks on the price confirmation and on the fare mode.\<close>

definition order_checks :: "order_row \<Rightarrow> bool" where
  "order_checks r \<longleftrightarrow>
     ord_PriceConfirmationState r \<in> {'''', ''pending'', ''confirmed''}
     \<and> ord_FareMode r \<in> {FareModeFixedQuote, FareModeMetered}
     \<and> (\<forall>p. ord_ProposedPriceCents r = Some p \<longrightarrow> 0 < p)
     \<and> (\<forall>p. ord_AgreedPriceCents r = Some p \<longrightarrow> 0 < p)"

lemma order_checks_code [code]:
  "order_checks r \<longleftrightarrow>
     ord_PriceConfirmationState r \<in> {'''', ''pending'', ''confirmed''}
     \<and> ord_FareMode r \<in> {FareModeFixedQuote, FareModeMetered}
     \<and> (case ord_ProposedPriceCents r of None \<Rightarrow> True | Some p \<Rightarrow> 0 < p)
     \<and> (case ord_AgreedPriceCents r of None \<Rightarrow> True | Some p \<Rightarrow> 0 < p)"
  by (auto simp: order_checks_def split: option.splits)

text \<open>
  \<^verbatim>\<open>UPDATE orders SET .. WHERE ..\<close> with the trigger that stamps \<^verbatim>\<open>updated_at\<close>: the number of rows
  changed, or the violated constraint and an unchanged table.
\<close>

definition update_orders ::
  "(order_row \<Rightarrow> bool) \<Rightarrow> (order_row \<Rightarrow> order_row) \<Rightarrow> time \<Rightarrow> db \<Rightarrow> (error + nat) \<times> db" where
  "update_orders P f now d =
     (let rows = sql_update P (\<lambda>r. (f r)\<lparr>ord_UpdatedAt := now\<rparr>) (orders d)
      in if \<not> list_all order_checks rows then (Inl [Infra ErrCheckViolation], d)
         else if \<not> orders_unique rows then (Inl [Infra ErrUniqueViolation], d)
         else (Inr (rows_affected P (orders d)), d\<lparr>orders := rows\<rparr>))"

text \<open>The rows that \<^verbatim>\<open>RETURNING\<close> gives back.\<close>

definition updated_rows ::
  "(order_row \<Rightarrow> bool) \<Rightarrow> (order_row \<Rightarrow> order_row) \<Rightarrow> time \<Rightarrow> db \<Rightarrow> order_row list" where
  "updated_rows P f now d = map (\<lambda>r. (f r)\<lparr>ord_UpdatedAt := now\<rparr>) (filter P (orders d))"

text \<open>\<^verbatim>\<open>WITH changed AS (UPDATE .. RETURNING ..) INSERT INTO order_events .. FROM changed\<close>.\<close>

definition update_orders_logging ::
  "(order_row \<Rightarrow> bool) \<Rightarrow> (order_row \<Rightarrow> order_row) \<Rightarrow> (order_row \<Rightarrow> order_event) \<Rightarrow> time \<Rightarrow> db \<Rightarrow>
   (error + nat) \<times> db" where
  "update_orders_logging P f ev now d =
     (case update_orders P f now d of
        (Inl e, d') \<Rightarrow> (Inl e, d')
      | (Inr n, d') \<Rightarrow>
          (Inr n, d'\<lparr>order_events := order_events d' @ map ev (updated_rows P f now d)\<rparr>))"

text \<open>\<^verbatim>\<open>ORDER BY .. DESC LIMIT 1\<close> over a strict order, and \<^verbatim>\<open>ORDER BY k LIMIT n\<close>.\<close>

fun best_by :: "('a \<Rightarrow> 'a \<Rightarrow> bool) \<Rightarrow> 'a list \<Rightarrow> 'a option" where
  "best_by higher [] = None"
| "best_by higher (x # xs) =
     (case best_by higher xs of
        None \<Rightarrow> Some x
      | Some y \<Rightarrow> if higher y x then Some y else Some x)"

lemma best_by_None [simp]: "best_by higher xs = None \<longleftrightarrow> xs = []"
  by (cases xs) (auto split: option.splits)

lemma best_by_mem: "best_by higher xs = Some y \<Longrightarrow> y \<in> set xs"
  by (induction xs arbitrary: y) (auto split: option.splits if_splits)

section \<open>Reading orders\<close>

definition coordinates_of :: "coordinates \<Rightarrow> error + coordinates" where
  "coordinates_of c = NewCoordinates (Latitude c) (Longitude c)"

definition in_roubles :: "money \<Rightarrow> money" where
  "in_roubles m = m\<lparr>Currency := ''RUB''\<rparr>"

definition scanDispatchOrder :: "order_row \<Rightarrow> error + order" where
  "scanDispatchOrder row =
     (case coordinates_of (ord_PickupLocation row) of
        Inl e \<Rightarrow> Inl e
      | Inr pickup \<Rightarrow>
          (let o1 = (order.truncate row)\<lparr>ord_Driver := None, ord_Passenger := None,
                 ord_EstimatedPrice := map_option in_roubles (ord_EstimatedPrice row),
                 ord_FinalPrice := map_option in_roubles (ord_FinalPrice row),
                 ord_PickupLocation := pickup\<rparr>
           in case ord_DestinationLocation row of
                None \<Rightarrow> Inr o1
              | Some destination \<Rightarrow>
                  (case coordinates_of destination of
                     Inl e \<Rightarrow> Inl e
                   | Inr value \<Rightarrow> Inr (o1\<lparr>ord_DestinationLocation := Some value\<rparr>))))"

definition GetOrderByID :: "uuid \<Rightarrow> (world, order) op" where
  "GetOrderByID orderID =
     bind (query (\<lambda>now d. one_row (filter (\<lambda>r. ord_ID r = orderID \<and> ord_DeletedAt r = None) (orders d))))
       (\<lambda>row. lift (scanDispatchOrder row))"

definition GetCurrentOrderByPassengerID :: "uuid \<Rightarrow> (world, order) op" where
  "GetCurrentOrderByPassengerID passengerID =
     bind (query (\<lambda>now d. one_row (sort_key (\<lambda>r. - ord_CreatedAt r)
            (filter (\<lambda>r. ord_PassengerID r = passengerID
                \<and> ord_Status r \<in> {OrderStatusCreated, OrderStatusSearching, OrderStatusDriverAssigned,
                    OrderStatusDriverArriving, OrderStatusDriverWaiting, OrderStatusInProgress}
                \<and> ord_DeletedAt r = None) (orders d)))))
       (\<lambda>row. lift (scanDispatchOrder row))"

definition GetCurrentOrderByDriverID :: "uuid \<Rightarrow> (world, order) op" where
  "GetCurrentOrderByDriverID driverID =
     bind (query (\<lambda>now d. one_row (sort_key (\<lambda>r. - ord_CreatedAt r)
            (filter (\<lambda>r. ord_DriverID r = Some driverID
                \<and> ord_Status r \<in> {OrderStatusDriverAssigned, OrderStatusDriverArriving,
                    OrderStatusDriverWaiting, OrderStatusInProgress}
                \<and> ord_DeletedAt r = None) (orders d)))))
       (\<lambda>row. lift (scanDispatchOrder row))"

definition ListExpiredPriceConfirmations :: "nat \<Rightarrow> (world, uuid list) op" where
  "ListExpiredPriceConfirmations limit =
     query (\<lambda>now d. Inr (map ord_ID (take limit (sort_key (\<lambda>r. the (ord_PriceConfirmationExpiresAt r))
       (filter (\<lambda>r. ord_Status r = OrderStatusDriverAssigned
          \<and> ord_PriceConfirmationState r = ''pending''
          \<and> (case ord_PriceConfirmationExpiresAt r of None \<Rightarrow> False | Some t \<Rightarrow> t \<le> now)
          \<and> ord_DeletedAt r = None) (orders d))))))"

definition ListSearchingOrders :: "nat \<Rightarrow> (world, uuid list) op" where
  "ListSearchingOrders limit =
     query (\<lambda>now d. Inr (map ord_ID (take limit (sort_key ord_UpdatedAt
       (filter (\<lambda>r. ord_Status r = OrderStatusSearching \<and> ord_DriverID r = None
          \<and> ord_DeletedAt r = None) (orders d))))))"

section \<open>Fares, cars and drivers that fit an order\<close>

text \<open>\<^verbatim>\<open>ORDER BY t.priority DESC, t.id DESC\<close>; an identifier is compared as a 128-bit number.\<close>

definition higher_tariff :: "tariff \<Rightarrow> tariff \<Rightarrow> bool" where
  "higher_tariff a b \<longleftrightarrow> trf_Priority a > trf_Priority b
     \<or> (trf_Priority a = trf_Priority b \<and> trf_ID a > trf_ID b)"

text \<open>The tariffs of the driver's park that fit the class and the fare mode of the order.\<close>

definition matching_tariffs :: "db \<Rightarrow> uuid \<Rightarrow> 'x order_scheme \<Rightarrow> tariff list" where
  "matching_tariffs d driverID r =
     [t. dr \<leftarrow> drivers d, drv_ID dr = driverID, t \<leftarrow> tariffs d,
         drv_TaxiParkID dr = Some (trf_TaxiParkID t)
         \<and> trf_CarClassID t \<noteq> None \<and> trf_CarClassID t = ord_CarClassID r
         \<and> trf_FareMode t = ord_FareMode r \<and> trf_IsActive t]"

definition in_roubles_tariff :: "tariff \<Rightarrow> tariff" where
  "in_roubles_tariff t = t\<lparr>trf_BasePrice := in_roubles (trf_BasePrice t),
     trf_FixedPrice := in_roubles (trf_FixedPrice t), trf_PricePerKM := in_roubles (trf_PricePerKM t),
     trf_PricePerMinute := in_roubles (trf_PricePerMinute t),
     trf_MinimumPrice := in_roubles (trf_MinimumPrice t)\<rparr>"

text \<open>A missing route cannot be scanned into an int64.\<close>

definition GetCandidateFare :: "uuid \<Rightarrow> uuid \<Rightarrow> (world, candidate_fare) op" where
  "GetCandidateFare orderID driverID =
     query (\<lambda>now d.
       case filter (\<lambda>r. ord_ID r = orderID \<and> ord_Status r = OrderStatusSearching
                        \<and> ord_DeletedAt r = None) (orders d) of
         [] \<Rightarrow> Inl [Infra ErrNoRows]
       | r # _ \<Rightarrow>
           (case best_by higher_tariff (matching_tariffs d driverID r) of
              None \<Rightarrow> Inl [Infra ErrNoRows]
            | Some t \<Rightarrow>
                (case (meta_route_distance_meters r, meta_route_duration_seconds r) of
                   (Some distance, Some dur) \<Rightarrow>
                     Inr \<lparr>fare_Tariff = in_roubles_tariff t, fare_DistanceMeters = distance,
                          fare_DurationSeconds = dur\<rparr>
                 | _ \<Rightarrow> Inl [Msg ''cannot scan NULL into int64''])))"

text \<open>\<^verbatim>\<open>COALESCE(expires, current_date + interval '1 day') >= current_date\<close>, dates in UTC.\<close>

definition day_of :: "time \<Rightarrow> int" where
  "day_of t = t div hours 24"

definition not_expired :: "time \<Rightarrow> time option \<Rightarrow> bool" where
  "not_expired now expires = (case expires of None \<Rightarrow> True | Some t \<Rightarrow> day_of now \<le> day_of t)"

text \<open>A verified, active car of the driver's park that is the driver's own or assigned to him.\<close>

definition usable_car :: "time \<Rightarrow> driver \<Rightarrow> car \<Rightarrow> bool" where
  "usable_car now dr c \<longleftrightarrow>
     drv_TaxiParkID dr = Some (car_TaxiParkID c)
     \<and> (car_PrimaryDriverID c = Some (drv_ID dr) \<or> drv_ID dr \<in> set (car_AttachedDriverIDs c))
     \<and> car_DeletedAt c = None \<and> car_IsActive c
     \<and> car_VerificationStatus c = ComplianceStatusVerified
     \<and> not_expired now (car_PermitExpiresAt c) \<and> not_expired now (car_OSAGOExpiresAt c)"

text \<open>The class of the car is at least the requested class; \<open>strict\<close> also asks for live classes.\<close>

definition class_serves :: "bool \<Rightarrow> db \<Rightarrow> uuid option \<Rightarrow> car \<Rightarrow> bool" where
  "class_serves strict d requested c \<longleftrightarrow>
     list_ex (\<lambda>rc. requested = Some (ccl_ID rc)
       \<and> (strict \<longrightarrow> ccl_IsActive rc \<and> ccl_DeletedAt rc = None)
       \<and> list_ex (\<lambda>dc. ccl_Code dc = car_CarClass c \<and> ccl_SortOrder dc \<ge> ccl_SortOrder rc
            \<and> (strict \<longrightarrow> ccl_IsActive dc \<and> ccl_DeletedAt dc = None)) (car_classes d))
       (car_classes d)"

text \<open>
  \<^verbatim>\<open>ORDER BY (c.driver_id = d.id) DESC, c.created_at DESC\<close>: descending order puts NULL first, so a
  car without a primary driver comes before the driver's own car.
\<close>

definition car_rank :: "driver \<Rightarrow> car \<Rightarrow> int" where
  "car_rank dr c =
     (case car_PrimaryDriverID c of None \<Rightarrow> 2 | Some p \<Rightarrow> if p = drv_ID dr then 1 else 0)"

definition higher_car :: "driver \<Rightarrow> car \<Rightarrow> car \<Rightarrow> bool" where
  "higher_car dr a b \<longleftrightarrow> car_rank dr a > car_rank dr b
     \<or> (car_rank dr a = car_rank dr b \<and> car_CreatedAt a > car_CreatedAt b)"

definition car_of_driver :: "time \<Rightarrow> db \<Rightarrow> uuid \<Rightarrow> uuid option \<Rightarrow> uuid option" where
  "car_of_driver now d driverID requested =
     (case filter (\<lambda>dr. drv_ID dr = driverID) (drivers d) of
        [] \<Rightarrow> None
      | dr # _ \<Rightarrow>
          map_option car_ID (best_by (higher_car dr)
            (filter (\<lambda>c. usable_car now dr c \<and> class_serves True d requested c) (cars d))))"

definition park_active :: "db \<Rightarrow> uuid \<Rightarrow> bool" where
  "park_active d parkID \<longleftrightarrow>
     list_ex (\<lambda>tp. tp_ID tp = parkID \<and> tp_DeletedAt tp = None
       \<and> (let s = filter (\<lambda>s. set_TaxiParkID s = tp_ID tp) (park_settings d)
          in s = [] \<or> list_ex set_IsActive s)) (taxi_parks d)"

definition located_since :: "db \<Rightarrow> uuid \<Rightarrow> time \<Rightarrow> bool" where
  "located_since d driverID t \<longleftrightarrow>
     list_ex (\<lambda>l. loc_DriverID l = driverID \<and> t \<le> loc_UpdatedAt l) (driver_locations d)"

definition driver_serving :: "db \<Rightarrow> uuid \<Rightarrow> bool" where
  "driver_serving d driverID \<longleftrightarrow>
     list_ex (\<lambda>r. ord_DriverID r = Some driverID \<and> ord_Status r \<in> set driver_active_statuses
       \<and> ord_DeletedAt r = None) (orders d)"

text \<open>A verified driver on the line.\<close>

definition driver_on_line :: "driver \<Rightarrow> bool" where
  "driver_on_line dr \<longleftrightarrow>
     drv_Status dr = DriverStatusOnline \<and> drv_IsVerified dr
     \<and> drv_VerificationStatus dr = ComplianceStatusVerified \<and> drv_DeletedAt dr = None"

section \<open>Reserving a driver\<close>

text \<open>The \<^verbatim>\<open>WHERE\<close> of \<^verbatim>\<open>assignDriverQuery\<close>: the order part, and the \<^verbatim>\<open>EXISTS\<close> about the driver.\<close>

definition assignable_driver ::
  "time \<Rightarrow> db \<Rightarrow> uuid \<Rightarrow> candidate_fare \<Rightarrow> 'x order_scheme \<Rightarrow> bool" where
  "assignable_driver now d driverID fare r \<longleftrightarrow>
     list_ex (\<lambda>dr. drv_ID dr = driverID \<and> driver_on_line dr
       \<and> (case drv_TaxiParkID dr of None \<Rightarrow> False | Some p \<Rightarrow> park_active d p)
       \<and> located_since d driverID (now - seconds 30)
       \<and> \<not> driver_serving d driverID
       \<and> list_ex (\<lambda>c. usable_car now dr c \<and> class_serves False d (ord_CarClassID r) c) (cars d)
       \<and> list_ex (\<lambda>t. trf_ID t = trf_ID (fare_Tariff fare)
            \<and> trf_UpdatedAt t = trf_UpdatedAt (fare_Tariff fare)
            \<and> \<not> list_ex (\<lambda>h. trf_TaxiParkID h = trf_TaxiParkID t
                 \<and> trf_CarClassID h \<noteq> None \<and> trf_CarClassID h = trf_CarClassID t
                 \<and> trf_FareMode h = trf_FareMode t \<and> trf_IsActive h \<and> higher_tariff h t) (tariffs d))
            (matching_tariffs d driverID r)) (drivers d)"

definition assignable :: "time \<Rightarrow> db \<Rightarrow> uuid \<Rightarrow> uuid \<Rightarrow> candidate_fare \<Rightarrow> order_row \<Rightarrow> bool" where
  "assignable now d orderID driverID fare r \<longleftrightarrow>
     ord_ID r = orderID \<and> ord_Status r = OrderStatusSearching
     \<and> meta_route_distance_meters r = Some (fare_DistanceMeters fare)
     \<and> meta_route_duration_seconds r = Some (fare_DurationSeconds fare)
     \<and> ord_DriverID r = None \<and> ord_DeletedAt r = None
     \<and> assignable_driver now d driverID fare r"

text \<open>The \<^verbatim>\<open>SET\<close> list.\<close>

definition assigned_row ::
  "time \<Rightarrow> db \<Rightarrow> uuid \<Rightarrow> time \<Rightarrow> int \<Rightarrow> time \<Rightarrow> bool \<Rightarrow> order_row \<Rightarrow> order_row" where
  "assigned_row now d driverID acceptedAt priceCents confirmationExpiresAt requires r =
     r\<lparr>ord_DriverID := Some driverID,
       ord_CarID := car_of_driver now d driverID (ord_CarClassID r),
       ord_ParkID := (case filter (\<lambda>dr. drv_ID dr = driverID) (drivers d) of
                        [] \<Rightarrow> None | dr # _ \<Rightarrow> drv_TaxiParkID dr),
       ord_AssignedTariffID := map_option trf_ID (best_by higher_tariff (matching_tariffs d driverID r)),
       meta_assigned_tariff := map_option (\<lambda>t. (t, acceptedAt))
         (best_by higher_tariff (matching_tariffs d driverID r)),
       ord_Status := OrderStatusDriverAssigned,
       ord_AcceptedAt := Some acceptedAt,
       ord_PriceConfirmationState := (if requires then ''pending'' else ''confirmed''),
       ord_ProposedPriceCents := Some priceCents,
       ord_AgreedPriceCents := (if requires \<or> ord_FareMode r \<noteq> FareModeFixedQuote then None
                                else Some priceCents),
       ord_PriceConfirmationExpiresAt := (if requires then Some confirmationExpiresAt else None),
       ord_Version := ord_Version r + 1\<rparr>"

definition assigned_event :: "uuid \<Rightarrow> time \<Rightarrow> int \<Rightarrow> time \<Rightarrow> bool \<Rightarrow> order_row \<Rightarrow> order_event" where
  "assigned_event driverID acceptedAt priceCents confirmationExpiresAt requires r =
     \<lparr>oev_OrderID = ord_ID r, oev_ActorUserID = None, oev_ActorDriverID = Some driverID,
      oev_EventType = OrderEventUpdated,
      oev_Payload =
        [(''event'', PStr (if requires then ''price_confirmation_requested'' else ''price_confirmed'')),
         (''driver_id'', PUuid driverID), (''price_cents'', PInt priceCents),
         (''expires_at'', if requires then PTime confirmationExpiresAt else PNull)],
      oev_CreatedAt = acceptedAt\<rparr>"

text \<open>
  In a transaction \<^verbatim>\<open>now()\<close> is the instant of the begin.  A unique violation ends in a rollback
  and the answer \<open>False\<close>.
\<close>

definition AssignDriver ::
  "uuid \<Rightarrow> uuid \<Rightarrow> time \<Rightarrow> candidate_fare \<Rightarrow> int \<Rightarrow> time \<Rightarrow> bool \<Rightarrow> (world, bool) op" where
  "AssignDriver orderID driverID acceptedAt fare priceCents confirmationExpiresAt requires =
     db_transaction
       (bind time_Now (\<lambda>now.
        bind (query (\<lambda>_ d. one_row (filter (\<lambda>dr. drv_ID dr = driverID \<and> drv_DeletedAt dr = None)
                 (drivers d))))
         (\<lambda>lockedDriver.
        catching (sql (\<lambda>_ d. update_orders_logging
             (assignable now d orderID driverID fare)
             (assigned_row now d driverID acceptedAt priceCents confirmationExpiresAt requires)
             (assigned_event driverID acceptedAt priceCents confirmationExpiresAt requires) now d))
         (\<lambda>r. case r of
             Inl err \<Rightarrow> if errors_Is err (Infra ErrUniqueViolation) then ret (False, False) else fail err
           | Inr n \<Rightarrow> ret (True, n = 1)))))"

definition ConfirmDriverPrice :: "uuid \<Rightarrow> uuid \<Rightarrow> (world, bool) op" where
  "ConfirmDriverPrice orderID passengerID =
     bind (sql (\<lambda>now. update_orders_logging
        (\<lambda>r. ord_ID r = orderID \<and> ord_PassengerID r = passengerID
           \<and> ord_Status r = OrderStatusDriverAssigned
           \<and> ord_PriceConfirmationState r = ''pending''
           \<and> (case ord_PriceConfirmationExpiresAt r of None \<Rightarrow> False | Some t \<Rightarrow> now < t)
           \<and> (case ord_ProposedPriceCents r of None \<Rightarrow> False | Some p \<Rightarrow> 0 < p)
           \<and> ord_DeletedAt r = None)
        (\<lambda>r. r\<lparr>ord_PriceConfirmationState := ''confirmed'',
               ord_AgreedPriceCents := (if ord_FareMode r = FareModeFixedQuote
                                        then ord_ProposedPriceCents r else None),
               ord_Version := ord_Version r + 1\<rparr>)
        (\<lambda>r. \<lparr>oev_OrderID = ord_ID r, oev_ActorUserID = None, oev_ActorDriverID = None,
              oev_EventType = OrderEventUpdated,
              oev_Payload =
                [(''event'', PStr ''price_confirmed''),
                 (''driver_id'', case ord_DriverID r of None \<Rightarrow> PNull | Some v \<Rightarrow> PUuid v),
                 (''price_cents'', case ord_ProposedPriceCents r of None \<Rightarrow> PNull | Some v \<Rightarrow> PInt v),
                 (''fare_mode'', PFareMode (ord_FareMode r))],
              oev_CreatedAt = now\<rparr>) now))
       (\<lambda>n. ret (n = 1))"

text \<open>\<^verbatim>\<open>INSERT INTO order_events\<close>; \<open>insertOrderEvent\<close> stamps an event without an instant.\<close>

definition append_event :: "order_event \<Rightarrow> time \<Rightarrow> db \<Rightarrow> (error + unit) \<times> db" where
  "append_event ev now d = (Inr (), d\<lparr>order_events := order_events d @ [ev]\<rparr>)"

definition insertOrderEvent :: "order_event \<Rightarrow> (world, unit) op" where
  "insertOrderEvent ev =
     bind time_Now (\<lambda>now.
       let createdAt = (if time_IsZero (oev_CreatedAt ev) then now else oev_CreatedAt ev)
       in sql (append_event (ev\<lparr>oev_CreatedAt := createdAt\<rparr>)))"

definition AddOrderEvent :: "order_event \<Rightarrow> (world, unit) op" where
  "AddOrderEvent event = insertOrderEvent event"

text \<open>The event of the order service has no instant of its own: it is stamped now.\<close>

definition AddStateEvent :: "order_event \<Rightarrow> (world, unit) op" where
  "AddStateEvent event = bind time_Now (\<lambda>now. insertOrderEvent (event\<lparr>oev_CreatedAt := now\<rparr>))"

text \<open>\<^verbatim>\<open>UPDATE drivers\<close> with its trigger.\<close>

definition update_drivers ::
  "(driver \<Rightarrow> bool) \<Rightarrow> (driver \<Rightarrow> driver) \<Rightarrow> time \<Rightarrow> db \<Rightarrow> (error + nat) \<times> db" where
  "update_drivers P f now d =
     (Inr (rows_affected P (drivers d)),
      d\<lparr>drivers := sql_update P (\<lambda>r. (f r)\<lparr>drv_UpdatedAt := now\<rparr>) (drivers d)\<rparr>)"

definition released_row :: "uuid \<Rightarrow> order_row \<Rightarrow> order_row" where
  "released_row driverID r =
     r\<lparr>ord_Status := OrderStatusSearching, ord_DriverID := None, ord_CarID := None,
       ord_ParkID := None, ord_AssignedTariffID := None, ord_AcceptedAt := None,
       ord_PriceConfirmationState := '''', ord_ProposedPriceCents := None,
       ord_PriceConfirmationExpiresAt := None, ord_AgreedPriceCents := None,
       meta_assigned_tariff := None,
       ord_DeclinedDriverIDs := ord_DeclinedDriverIDs r @ [driverID],
       ord_Version := ord_Version r + 1\<rparr>"

definition ReleaseDriverReservation :: "uuid \<Rightarrow> uuid \<Rightarrow> (world, bool) op" where
  "ReleaseDriverReservation orderID driverID =
     db_transaction
       (bind time_Now (\<lambda>now.
        bind (sql (\<lambda>_. update_orders
             (\<lambda>r. ord_ID r = orderID \<and> ord_DriverID r = Some driverID
                \<and> ord_Status r = OrderStatusDriverAssigned
                \<and> ord_PriceConfirmationState r = ''pending'' \<and> ord_DeletedAt r = None)
             (released_row driverID) now))
         (\<lambda>n.
        if n \<noteq> 1 then ret (False, False)
        else
          andthen (sql (\<lambda>_. append_event
             \<lparr>oev_OrderID = orderID, oev_ActorUserID = None, oev_ActorDriverID = Some driverID,
              oev_EventType = OrderEventUpdated,
              oev_Payload = [(''event'', PStr ''price_declined''), (''driver_id'', PUuid driverID)],
              oev_CreatedAt = now\<rparr> now))
          (bind (sql (\<lambda>_. update_drivers
             (\<lambda>dr. drv_ID dr = driverID \<and> drv_Status dr = DriverStatusBusy \<and> drv_DeletedAt dr = None)
             (\<lambda>dr. dr\<lparr>drv_Status := DriverStatusOnline\<rparr>) now))
          (\<lambda>_. ret (True, True))))))"

section \<open>Status changes\<close>

definition require_row :: "nat \<Rightarrow> (world, unit) op" where
  "require_row n = (if n = 0 then fail [Infra ErrNoRows] else done_op)"

definition MarkOrderSearching :: "uuid \<Rightarrow> (world, unit) op" where
  "MarkOrderSearching orderID =
     bind (sql (update_orders
        (\<lambda>r. ord_ID r = orderID \<and> ord_Status r \<in> {OrderStatusCreated, OrderStatusSearching}
           \<and> ord_DriverID r = None \<and> ord_DeletedAt r = None)
        (\<lambda>r. r\<lparr>ord_Status := OrderStatusSearching, ord_Version := ord_Version r + 1\<rparr>)))
       require_row"

text \<open>The \<^verbatim>\<open>WHERE\<close> and the \<^verbatim>\<open>SET\<close> of the transition statement.\<close>

definition transition_applies :: "order_transition \<Rightarrow> order_row \<Rightarrow> bool" where
  "transition_applies tr r \<longleftrightarrow>
     ord_ID r = tr_OrderID tr \<and> ord_Status r = tr_FromStatus tr
     \<and> (ord_Status r \<noteq> OrderStatusDriverAssigned
        \<or> ord_FareMode r = FareModeMetered
        \<or> ord_PriceConfirmationState r \<in> {'''', ''confirmed''}
        \<or> tr_ToStatus tr = OrderStatusCancelled)
     \<and> ord_Version r = tr_ExpectedVersion tr \<and> ord_DeletedAt r = None"

definition transitioned_row :: "order_transition \<Rightarrow> order_row \<Rightarrow> order_row" where
  "transitioned_row tr r =
     r\<lparr>ord_Status := tr_ToStatus tr,
       ord_Version := ord_Version r + 1,
       ord_CancelledAt := (if tr_ToStatus tr = OrderStatusCancelled
                           then Some (tr_OccurredAt tr) else ord_CancelledAt r),
       ord_CancellationReason := (if tr_ToStatus tr = OrderStatusCancelled
                                  then tr_Reason tr else ord_CancellationReason r),
       ord_StartedAt := (if tr_ToStatus tr = OrderStatusInProgress
                         then Some (tr_OccurredAt tr) else ord_StartedAt r),
       ord_CompletedAt := (if tr_ToStatus tr = OrderStatusCompleted
                           then Some (tr_OccurredAt tr) else ord_CompletedAt r)\<rparr>"

text \<open>\<^verbatim>\<open>UPDATE .. RETURNING\<close>: the changed rows.\<close>

definition update_orders_returning ::
  "(order_row \<Rightarrow> bool) \<Rightarrow> (order_row \<Rightarrow> order_row) \<Rightarrow> time \<Rightarrow> db \<Rightarrow> (error + order_row list) \<times> db" where
  "update_orders_returning P f now d =
     (case update_orders P f now d of
        (Inl e, d') \<Rightarrow> (Inl e, d')
      | (Inr n, d') \<Rightarrow> (Inr (updated_rows P f now d), d'))"

text \<open>\<open>None\<close> is the answer \<^verbatim>\<open>(Order{}, false, nil)\<close>.\<close>

definition TransitionOrderStatus :: "order_transition \<Rightarrow> (world, order option) op" where
  "TransitionOrderStatus tr =
     bind (sql (update_orders_returning (transition_applies tr) (transitioned_row tr)))
       (\<lambda>rows. case rows of
          [] \<Rightarrow> ret None
        | row # _ \<Rightarrow> bind (lift (scanDispatchOrder row)) (\<lambda>o1. ret (Some o1)))"

definition IncrementDispatchAttempt :: "uuid \<Rightarrow> (world, unit) op" where
  "IncrementDispatchAttempt orderID =
     bind (sql (update_orders
        (\<lambda>r. ord_ID r = orderID \<and> ord_Status r = OrderStatusSearching \<and> ord_DeletedAt r = None)
        (\<lambda>r. r\<lparr>ord_DispatchAttempt := ord_DispatchAttempt r + 1\<rparr>)))
       require_row"

definition FailOrder :: "uuid \<Rightarrow> string \<Rightarrow> (world, unit) op" where
  "FailOrder orderID reason =
     bind (sql (\<lambda>now. update_orders
        (\<lambda>r. ord_ID r = orderID \<and> ord_Status r = OrderStatusSearching \<and> ord_DriverID r = None
           \<and> ord_DeletedAt r = None)
        (\<lambda>r. r\<lparr>ord_Status := OrderStatusFailed, ord_CancellationReason := reason,
               ord_CancelledAt := Some now, ord_Version := ord_Version r + 1\<rparr>) now))
       require_row"

section \<open>Drivers\<close>

definition MarkDriverBusy :: "uuid \<Rightarrow> (world, unit) op" where
  "MarkDriverBusy driverID =
     bind (sql (update_drivers
        (\<lambda>dr. drv_ID dr = driverID \<and> drv_Status dr = DriverStatusOnline \<and> drv_DeletedAt dr = None)
        (\<lambda>dr. dr\<lparr>drv_Status := DriverStatusBusy\<rparr>)))
       require_row"

text \<open>
  \<open>st_distance\<close> stands for the PostGIS function \<^verbatim>\<open>ST_Distance\<close> on the spheroid, in metres, and
  \<^verbatim>\<open>ST_DWithin\<close> compares it with the radius.  A driver without a fix is not joined.
\<close>

definition searchable_driver :: "time \<Rightarrow> db \<Rightarrow> nearest_drivers_query \<Rightarrow> driver \<Rightarrow> bool" where
  "searchable_driver now d q dr \<longleftrightarrow>
     drv_CityID dr = ndq_CityID q \<and> driver_on_line dr \<and> drv_TaxiParkID dr \<noteq> None
     \<and> (ndq_CarClassID q = None
        \<or> list_ex (\<lambda>t. drv_TaxiParkID dr = Some (trf_TaxiParkID t)
             \<and> trf_CarClassID t = ndq_CarClassID q \<and> trf_FareMode t = ndq_FareMode q
             \<and> trf_IsActive t) (tariffs d))
     \<and> \<not> driver_serving d (drv_ID dr)
     \<and> (case drv_TaxiParkID dr of None \<Rightarrow> False | Some p \<Rightarrow> park_active d p)
     \<and> list_ex (\<lambda>c. usable_car now dr c
          \<and> (ndq_CarClassID q = None \<or> class_serves True d (ndq_CarClassID q) c)) (cars d)
     \<and> drv_ID dr \<notin> set (ndq_ExcludeIDs q)"

definition FindNearestOnlineDrivers ::
  "(coordinates \<Rightarrow> coordinates \<Rightarrow> rat) \<Rightarrow> nearest_drivers_query \<Rightarrow> (world, driver_candidate list) op" where
  "FindNearestOnlineDrivers st_distance q =
     bind (query (\<lambda>now d. Inr (take (nat (ndq_Limit q)) (sort_key cand_DistanceMeters
        [\<lparr>cand_DriverID = drv_ID dr, cand_DistanceMeters = st_distance (loc_Location l) (ndq_Pickup q),
          cand_Location = loc_Location l\<rparr>.
          dr \<leftarrow> drivers d, l \<leftarrow> driver_locations d,
          loc_DriverID l = drv_ID dr \<and> searchable_driver now d q dr
          \<and> now - seconds (ndq_LocationMaxAge q div seconds 1) \<le> loc_UpdatedAt l
          \<and> st_distance (loc_Location l) (ndq_Pickup q) \<le> of_int (ndq_RadiusMeters q)]))))
       (\<lambda>found. collect found (\<lambda>c.
          bind (lift (coordinates_of (cand_Location c)))
            (\<lambda>location. ret [c\<lparr>cand_Location := location\<rparr>])))"

end
