(* ===== verification/Sample_World.thy ===== *)
theory Sample_World
  imports World
begin

text \<open>
  Concrete states on which the witnesses of the properties run: an empty database, an empty Redis,
  a world in which every external call works, and a small park with one driver and one order.
\<close>

definition empty_db :: db where
  "empty_db =
     \<lparr>orders = [], order_events = [], users = [], drivers = [], driver_locations = [], cars = [],
      car_classes = [], taxi_parks = [], taxi_park_staff = [], park_settings = [], tariffs = [],
      invites = [], finance_settings = [], financial_transactions = [], order_finances = [],
      driver_balances = [], driver_ledger = [], park_ledger = [], fee_ledger = [],
      platform_ledger = [], payouts = [], invoices = [], finance_audit = [],
      finance_documents = [], park_history = [], passengers = [], auth_codes = [],
      refresh_tokens = [], price_quotes = [], route_points = [], chat_threads = [], chat_messages = [],
      driver_push_tokens = [], global_tariffs = [], user_codes = [], user_tokens = [], consent_events = []\<rparr>"

definition empty_redis :: redis where
  "empty_redis =
     \<lparr>rd_offers = (\<lambda>_. None), rd_order_offers = (\<lambda>_. None), rd_driver_offers = (\<lambda>_. None),
      rd_dispatching = (\<lambda>_. None), rd_active_offer = (\<lambda>_. None), rd_accepted_driver = (\<lambda>_. None),
      rd_locks = (\<lambda>_. None), rd_queue = [], rd_timeouts = [],
      rd_city_online = (\<lambda>_. None), rd_online = (\<lambda>_. None),
      rd_throttled = (\<lambda>_. None)\<rparr>"

definition world_at :: "time \<Rightarrow> db \<Rightarrow> world" where
  "world_at t d =
     \<lparr>clock = t, script = [], random = (\<lambda>n. word_of_nat (n + 1000)), draws = 0, db = d,
      redis = empty_redis, published = [], notified = [], texted = []\<rparr>"

definition empty_coordinates :: coordinates where
  "empty_coordinates = \<lparr>Latitude = Fin 57, Longitude = Fin 57\<rparr>"

text \<open>A searching order of a passenger, with a route of 12.3 km and ten minutes.\<close>

definition sample_order :: order_row where
  "sample_order =
     \<lparr>ord_ID = 1, ord_PassengerID = 2, ord_CreatedByRole = UserRolePassenger, ord_DriverID = None,
      ord_Driver = None, ord_Passenger = None, ord_CarID = None, ord_ParkID = None,
      ord_PreassignedDriverID = None, ord_CityID = 5, ord_TariffID = None, ord_AssignedTariffID = None,
      ord_CarClassID = Some 9, ord_Status = OrderStatusSearching, ord_OrderType = OrderTypeInstant,
      ord_ScheduledStatus = None, ord_PickupAddress = ''A'', ord_PickupEntrance = '''',
      ord_PickupComment = '''', ord_PickupLocation = empty_coordinates, ord_DestinationAddress = ''B'',
      ord_DestinationLocation = None, ord_ScheduledAt = None, ord_ActivationAt = None,
      ord_ScheduledTimezone = '''', ord_RequestedAt = 1, ord_AcceptedAt = None, ord_StartedAt = None,
      ord_CompletedAt = None, ord_CancelledAt = None, ord_ActivatedAt = None,
      ord_ScheduledCancelledAt = None, ord_ScheduledExpiredAt = None, ord_CancellationReason = '''',
      ord_ScheduledCancelReason = '''', ord_EstimatedPrice = None, ord_FinalPrice = None,
      ord_FareMode = FareModeFixedQuote, ord_PriceConfirmationState = '''',
      ord_ProposedPriceCents = None, ord_AgreedPriceCents = None,
      ord_PriceConfirmationExpiresAt = None, ord_DeclinedDriverIDs = [], ord_ActualDistanceMeters = None,
      ord_ActualDurationSeconds = None, ord_PaymentMethod = PaymentMethodCash,
      ord_PassengerComment = '''', ord_PassengerLocationSharingEnabled = False, ord_DispatchAttempt = 0,
      ord_ScheduledCreatedBy = None, ord_Version = 1, ord_CreatedAt = 1, ord_UpdatedAt = 1,
      ord_DeletedAt = None, meta_taxi_park_id = None, meta_route_distance_meters = Some 12300,
      meta_route_duration_seconds = Some 600, meta_assigned_tariff = None\<rparr>"

text \<open>The same order reserved for driver 3 of park 7, its price waiting for the passenger.\<close>

definition reserved_order :: order_row where
  "reserved_order = sample_order\<lparr>ord_Status := OrderStatusDriverAssigned, ord_DriverID := Some 3,
     ord_ParkID := Some 7, ord_PriceConfirmationState := ''pending'',
     ord_ProposedPriceCents := Some 29018, ord_AcceptedAt := Some 10,
     ord_PriceConfirmationExpiresAt := Some (seconds 100)\<rparr>"

definition sample_driver :: driver where
  "sample_driver =
     \<lparr>drv_ID = 3, drv_UserID = 33, drv_CityID = 5, drv_TaxiParkID = Some 7,
      drv_Status = DriverStatusOnline, drv_VerificationStatus = ComplianceStatusVerified,
      drv_Rating = Fin 5, drv_RatingsCount = 0, drv_CompletedOrdersCount = 0, drv_BirthDate = None,
      drv_LicenseSeries = '''', drv_LicenseNumber = '''', drv_LicenseCategory = ''B'',
      drv_LicenseIssuedAt = None, drv_LicenseExpiresAt = None, drv_DrivingExperienceFrom = None,
      drv_HasNoTaxiWorkRestrictions = True, drv_FederalLaw580Compliant = True,
      drv_RegionalRequirementsCompliant = True, drv_MedicalCheckPassed = True,
      drv_PretripControlRequired = False, drv_PretripControlPassed = True, drv_NoTransportBan = True,
      drv_VerificationCheckedAt = None, drv_VerificationCheckedBy = None,
      drv_CommissionBasisPoints = None, drv_IsVerified = True, drv_BlockedReason = '''',
      drv_TaxiParkComment = '''', drv_MustChangePassword = False, drv_CreatedAt = 1,
      drv_UpdatedAt = 1, drv_DeletedAt = None\<rparr>"

text \<open>Park 7 with its class 9, tariff and car; driver 3 stands at the pickup point.\<close>

definition sample_park :: taxi_park_row where
  "sample_park =
     \<lparr>tp_ID = 7, tp_OwnerUserID = 70, tp_CityID = 5, tp_Name = ''Park'', tp_LegalName = ''Park'',
      tp_TaxID = ''1'', tp_ContactPhone = '''', tp_ContactEmail = '''', tp_IsVerified = True,
      tp_VerificationStatus = VerificationStatusVerified, tp_CreatedAt = 1, tp_UpdatedAt = 1,
      tp_DeletedAt = None, tp_balance_cents = 0, tp_commission_bps = None\<rparr>"

definition sample_car :: car where
  "sample_car =
     \<lparr>car_ID = 8, car_TaxiParkID = 7, car_PrimaryDriverID = Some 3, car_AttachedDriverIDs = [],
      car_Brand = '''', car_Model = '''', car_Year = 2020, car_PlateNumber = '''', car_VIN = '''',
      car_STS = '''', car_PTS = '''', car_Color = '''', car_CarClass = ''economy'',
      car_VerificationStatus = ComplianceStatusVerified, car_OwnerDetails = '''',
      car_OSAGOExpiresAt = None, car_DiagnosticCardExpiresAt = None, car_TaxiPermitNumber = '''',
      car_RegionalRegistryNumber = '''', car_PermitRegion = '''', car_PermitIssuedAt = None,
      car_PermitExpiresAt = None, car_TaxiPermitVerified = True,
      car_RegionalRegistryVerified = True, car_RegionalRequirementsCompliant = True,
      car_HasTaxiColorScheme = True, car_HasOrangeRoofLamp = True, car_HasPassengerInfo = True,
      car_OSAGOVerified = True, car_DiagnosticCardVerified = True,
      car_TechnicalStateVerified = True, car_LocalizationCompliant = True,
      car_LegalUseBasisVerified = True, car_VerificationCheckedAt = None,
      car_VerificationCheckedBy = None, car_IsActive = True, car_CreatedAt = 1, car_UpdatedAt = 1,
      car_DeletedAt = None\<rparr>"

definition sample_class :: car_class_row where
  "sample_class =
     \<lparr>ccl_ID = 9, ccl_Code = ''economy'', ccl_Name = '''', ccl_Description = '''',
      ccl_BasePrice = sample_money 0, ccl_PricePerKM = sample_money 0,
      ccl_PricePerMinute = sample_money 0, ccl_MinimumPrice = sample_money 0, ccl_IsActive = True,
      ccl_SortOrder = 10, ccl_CreatedAt = 1, ccl_UpdatedAt = 1, ccl_DeletedAt = None\<rparr>"

definition sample_fixed_tariff :: tariff where
  "sample_fixed_tariff = (sample_tariff PricingModeFixed)
     \<lparr>trf_CarClassID := Some 9, trf_FareMode := FareModeFixedQuote\<rparr>"

definition sample_location :: driver_location_row where
  "sample_location = \<lparr>loc_DriverID = 3, loc_CityID = 5, loc_Location = empty_coordinates,
     loc_RecordedAt = seconds 4, loc_UpdatedAt = seconds 4\<rparr>"

text \<open>A user account, and the passenger of the order.\<close>

definition sample_user :: "uuid \<Rightarrow> user_role \<Rightarrow> user" where
  "sample_user i role =
     \<lparr>usr_ID = i, usr_Phone = ''+79990000001'', usr_Email = '''', usr_Role = role,
      usr_RegistrationType = RegistrationTypeDriver, usr_FirstName = ''Ivan'', usr_LastName = '''',
      usr_ProfilePhotoURL = '''', usr_Rating = Fin 5, usr_RatingsCount = 0, usr_PasswordHash = '''',
      usr_MustChangePassword = False, usr_IsPhoneConfirmed = True, usr_IsEmailConfirmed = False,
      usr_PersonalDataConsent = True, usr_PersonalDataConsentAt = None, usr_PrivacyPolicyVersion = '''',
      usr_TermsAccepted = True, usr_TermsAcceptedAt = None, usr_TermsVersion = '''',
      usr_ConsentIP = '''', usr_ConsentUserAgent = '''', usr_IsActive = True, usr_LastLoginAt = None,
      usr_CreatedAt = 1, usr_UpdatedAt = 1, usr_DeletedAt = None\<rparr>"

definition sample_passenger :: passenger where
  "sample_passenger =
     \<lparr>psg_ID = 2, psg_Phone = ''+79990000002'', psg_Name = ''Anna'', psg_Email = [], psg_AvatarURL = [],
      psg_IsActive = True, psg_PhoneVerifiedAt = None, psg_LastLoginAt = None, psg_CreatedAt = 1,
      psg_UpdatedAt = 1, psg_DeletedAt = None\<rparr>"

definition sample_db :: "order_row \<Rightarrow> db" where
  "sample_db r = empty_db\<lparr>orders := [r], drivers := [sample_driver], taxi_parks := [sample_park],
     cars := [sample_car], car_classes := [sample_class], tariffs := [sample_fixed_tariff],
     driver_locations := [sample_location]\<rparr>"

lemmas sample_simps =
  empty_db_def empty_redis_def world_at_def sample_order_def reserved_order_def sample_driver_def
  empty_coordinates_def

text \<open>How a statement, a command and a transaction run when nothing fails.\<close>

lemma sql_ok: "script s = [] \<Longrightarrow> sql f s = (case f (clock s) (db s) of (r, d) \<Rightarrow> (r, s\<lparr>db := d\<rparr>))"
  by (simp add: sql_def external_ok)

lemma redis_cmd_ok:
  "script s = [] \<Longrightarrow> redis_cmd f s = (case f (clock s) (redis s) of (r, d) \<Rightarrow> (r, s\<lparr>redis := d\<rparr>))"
  by (simp add: redis_cmd_def external_ok)

lemma query_ok: "script s = [] \<Longrightarrow> query f s = (f (clock s) (db s), s)"
  by (simp add: query_def sql_ok)

text \<open>Weakest preconditions when nothing fails.\<close>

lemma wp_ok:
  assumes "script s = []"
  shows "wp (external m) Q E s = wp m Q E s"
    and "wp (sql f) Q E s =
      (case f (clock s) (db s) of (Inl e, d) \<Rightarrow> E e (s\<lparr>db := d\<rparr>) | (Inr a, d) \<Rightarrow> Q a (s\<lparr>db := d\<rparr>))"
    and "wp (redis_cmd g) Q E s =
      (case g (clock s) (redis s) of
         (Inl e, d) \<Rightarrow> E e (s\<lparr>redis := d\<rparr>) | (Inr a, d) \<Rightarrow> Q a (s\<lparr>redis := d\<rparr>))"
    and "wp (query h) Q E s = (case h (clock s) (db s) of Inl e \<Rightarrow> E e s | Inr a \<Rightarrow> Q a s)"
  using assms
  by (auto simp: wp_def external_ok sql_ok redis_cmd_ok query_ok split: prod.splits sum.splits)

lemma wp_transaction_ok:
  assumes "script s = []"
    and "wp body (\<lambda>p t. script t = [] \<and> (if fst p then Q (snd p) t else Q (snd p) (t\<lparr>db := db s\<rparr>)))
           (\<lambda>e t. E e (t\<lparr>db := db s\<rparr>)) s"
  shows "wp (db_transaction body) Q E s"
proof (cases "body s")
  case (Pair r t)
  then show ?thesis
    using assms
    by (cases r) (auto simp: db_transaction_def transaction_def wp_def bind_def ret_def external_ok
        split: bool.splits)
qed

end
