(* ===== verification/Order_Lifecycle.thy ===== *)
theory Order_Lifecycle
  imports Order_Store Sample_World
begin

text \<open>
  What every statement of the order repository keeps of an order, however the actors interleave:
  a well-formedness invariant of the rows, and a relation between a row and the same row later
  (its status moves along the state machine, its version counts the changes).
\<close>

section \<open>The invariant of a row\<close>

definition driving_statuses :: "order_status list" where
  "driving_statuses =
     [OrderStatusDriverArriving, OrderStatusDriverWaiting, OrderStatusInProgress, OrderStatusCompleted]"

definition order_wf :: "'x order_scheme \<Rightarrow> bool" where
  "order_wf r \<longleftrightarrow>
     (ord_OrderType r \<noteq> OrderTypeScheduled
        \<and> ord_Status r \<in> {OrderStatusCreated, OrderStatusSearching} \<longrightarrow> ord_DriverID r = None)
     \<and> (ord_Status r \<in> insert OrderStatusCompleted (set driver_active_statuses) \<longrightarrow> ord_DriverID r \<noteq> None)
     \<and> (ord_PriceConfirmationState r = ''pending'' \<longrightarrow>
          ord_DriverID r \<noteq> None \<and> ord_ProposedPriceCents r \<noteq> None
          \<and> ord_PriceConfirmationExpiresAt r \<noteq> None \<and> ord_AgreedPriceCents r = None)
     \<and> (ord_PriceConfirmationState r = ''confirmed'' \<and> ord_FareMode r = FareModeFixedQuote \<longrightarrow>
          ord_ProposedPriceCents r \<noteq> None \<and> ord_AgreedPriceCents r = ord_ProposedPriceCents r)
     \<and> (ord_FareMode r = FareModeFixedQuote \<and> ord_Status r \<in> set driving_statuses \<longrightarrow>
          ord_PriceConfirmationState r \<noteq> ''pending'')"

lemma order_wf_stamp [simp]: "order_wf (r\<lparr>ord_UpdatedAt := t\<rparr>) = order_wf r"
  by (simp add: order_wf_def)

section \<open>The evolution of a row\<close>

text \<open>
  The changes of the state machine, and the release of a reservation, which puts an order whose
  price was declined back into the search.
\<close>

definition status_step :: "order_status \<Rightarrow> order_status \<Rightarrow> bool" where
  "status_step a b \<longleftrightarrow> legal_change a b \<or> (a = OrderStatusDriverAssigned \<and> b = OrderStatusSearching)"

definition order_evolves :: "order_row \<Rightarrow> order_row \<Rightarrow> bool" where
  "order_evolves r r' \<longleftrightarrow>
     ord_ID r' = ord_ID r \<and> ord_PassengerID r' = ord_PassengerID r \<and> ord_FareMode r' = ord_FareMode r
     \<and> ord_OrderType r' = ord_OrderType r
     \<and> (ord_OrderType r \<noteq> OrderTypeScheduled \<longrightarrow> status_step\<^sup>*\<^sup>* (ord_Status r) (ord_Status r'))
     \<and> ord_Version r \<le> ord_Version r'
     \<and> (ord_Version r = ord_Version r' \<longrightarrow>
          ord_Status r' = ord_Status r \<and> ord_DriverID r' = ord_DriverID r
          \<and> ord_AgreedPriceCents r' = ord_AgreedPriceCents r
          \<and> ord_PriceConfirmationState r' = ord_PriceConfirmationState r)"

lemma order_evolves_refl [simp]: "order_evolves r r"
  by (simp add: order_evolves_def)

lemma order_evolves_trans: "order_evolves r s \<Longrightarrow> order_evolves s t \<Longrightarrow> order_evolves r t"
  by (auto simp: order_evolves_def)

lemma order_evolves_stamp [simp]: "order_evolves r (q\<lparr>ord_UpdatedAt := t\<rparr>) = order_evolves r q"
  by (simp add: order_evolves_def)

text \<open>The rows that were there at the start have evolved, rows may have been added, all are well formed.\<close>

definition good_since :: "order_row list \<Rightarrow> order_row list \<Rightarrow> bool" where
  "good_since rows0 rows \<longleftrightarrow>
     list_all order_wf rows \<and> length rows0 \<le> length rows
     \<and> list_all2 order_evolves rows0 (take (length rows0) rows)"

lemma good_since_refl: "list_all order_wf rows \<Longrightarrow> good_since rows rows"
  by (simp add: good_since_def list_all2_refl)

lemma good_since_trans:
  assumes "good_since a b" "good_since b c"
  shows "good_since a c"
proof -
  let ?n = "length a"
  have ab: "list_all2 order_evolves a (take ?n b)" and len: "?n \<le> length b" "length b \<le> length c"
    and bc: "list_all2 order_evolves b (take (length b) c)"
    using assms by (auto simp: good_since_def)
  have "list_all2 order_evolves (take ?n b) (take ?n (take (length b) c))"
    by (rule list_all2_takeI [OF bc])
  then have "list_all2 order_evolves (take ?n b) (take ?n c)" using len by simp
  with ab have "list_all2 order_evolves a (take ?n c)"
    by (rule list_all2_trans [rotated]) (rule order_evolves_trans)
  with assms len show ?thesis by (simp add: good_since_def)
qed

lemma good_since_append:
  "good_since rows0 rows \<Longrightarrow> order_wf r \<Longrightarrow> good_since rows0 (rows @ [r])"
  by (simp add: good_since_def)

lemma good_since_sql_update:
  assumes "list_all order_wf rows"
    and "\<And>r. order_wf r \<Longrightarrow> P r \<Longrightarrow> order_wf (f r) \<and> order_evolves r (f r)"
  shows "good_since rows (sql_update P f rows)"
proof -
  have "list_all order_wf (sql_update P f rows)"
    using assms by (auto simp: list_all_iff sql_update_def)
  moreover have "list_all2 order_evolves rows (sql_update P f rows)"
    using assms by (auto simp: sql_update_def list_all2_map2 list_all_iff intro!: list.rel_refl_strong)
  ultimately show ?thesis by (simp add: good_since_def)
qed

lemma good_since_update_orders:
  assumes "good_since rows0 (orders d)"
    and "\<And>r. order_wf r \<Longrightarrow> P r \<Longrightarrow> order_wf (f r) \<and> order_evolves r (f r)"
  shows "good_since rows0 (orders (snd (update_orders P f now d)))"
proof -
  have "good_since (orders d) (sql_update P (\<lambda>r. (f r)\<lparr>ord_UpdatedAt := now\<rparr>) (orders d))"
    by (rule good_since_sql_update) (use assms in \<open>auto simp: good_since_def\<close>)
  with good_since_trans [OF assms(1) this] assms(1) show ?thesis
    by (simp add: update_orders_def Let_def)
qed

lemma orders_update_orders_logging [simp]:
  "orders (snd (update_orders_logging P f ev now d)) = orders (snd (update_orders P f now d))"
  by (simp add: update_orders_logging_def split: prod.splits sum.splits)

lemma orders_update_orders_returning [simp]:
  "orders (snd (update_orders_returning P f now d)) = orders (snd (update_orders P f now d))"
  by (simp add: update_orders_returning_def split: prod.splits sum.splits)

text \<open>The constraints of the table.\<close>

definition orders_consistent :: "order_row list \<Rightarrow> bool" where
  "orders_consistent rows \<longleftrightarrow> orders_unique rows \<and> list_all order_checks rows"

lemma orders_consistent_update [simp]:
  "orders_consistent (orders d) \<Longrightarrow> orders_consistent (orders (snd (update_orders P f now d)))"
  by (simp add: update_orders_def Let_def orders_consistent_def)

abbreviation orders_since :: "order_row list \<Rightarrow> world \<Rightarrow> bool" where
  "orders_since rows0 \<equiv> on_db (\<lambda>d. good_since rows0 (orders d) \<and> orders_consistent (orders d))"

lemma keeps_update_orders:
  assumes "\<And>now d r. order_wf r \<Longrightarrow> P now d r \<Longrightarrow> order_wf (f now d r) \<and> order_evolves r (f now d r)"
  shows "keeps (orders_since rows0) (sql (\<lambda>now d. update_orders (P now d) (f now d) (g now) d))"
    and "keeps (orders_since rows0)
      (sql (\<lambda>now d. update_orders_logging (P now d) (f now d) (ev now d) (g now) d))"
    and "keeps (orders_since rows0)
      (sql (\<lambda>now d. update_orders_returning (P now d) (f now d) (g now) d))"
  by (rule keeps_sql; simp add: good_since_update_orders assms)+

lemma keeps_orders_other:
  "(\<And>now d. orders (snd (f now d)) = orders d) \<Longrightarrow> keeps (orders_since rows0) (sql f)"
  by (rule keeps_sql) simp

lemma orders_append_event [simp]: "orders (snd (append_event ev now d)) = orders d"
  by (simp add: append_event_def)

lemma orders_update_drivers [simp]: "orders (snd (update_drivers P f now d)) = orders d"
  by (simp add: update_drivers_def)

section \<open>The statements\<close>

lemma keeps_require_row [keeps_intros]: "keeps I (require_row n)"
  by (simp add: require_row_def keeps_fail keeps_ret)

lemma assigned_row_good:
  assumes "order_wf r" "assignable now d orderID driverID fare r"
  shows "order_wf (assigned_row now d driverID t p e q r)
    \<and> order_evolves r (assigned_row now d driverID t p e q r)"
  using assms
  by (auto simp: order_wf_def order_evolves_def assigned_row_def assignable_def driving_statuses_def
      driver_active_statuses_def status_step_def legal_change_iff OrderStatus_Validate_iff
      intro!: r_into_rtranclp)

lemma released_row_good:
  assumes "order_wf r" "ord_Status r = OrderStatusDriverAssigned"
  shows "order_wf (released_row driverID r) \<and> order_evolves r (released_row driverID r)"
  using assms
  by (auto simp: order_wf_def order_evolves_def released_row_def driving_statuses_def
      driver_active_statuses_def status_step_def intro!: r_into_rtranclp)

text \<open>A transition that the domain allows and that does not assign a driver by its status alone.\<close>

definition plain_transition :: "order_transition \<Rightarrow> bool" where
  "plain_transition tr \<longleftrightarrow> legal_change (tr_FromStatus tr) (tr_ToStatus tr)
     \<and> (tr_ToStatus tr = OrderStatusDriverAssigned \<longrightarrow> tr_FromStatus tr = OrderStatusDriverAssigned)"

lemma plain_transition_cases:
  assumes "plain_transition tr"
  shows "tr_ToStatus tr = tr_FromStatus tr
    \<or> (tr_FromStatus tr, tr_ToStatus tr) \<in>
        {(OrderStatusCreated, OrderStatusSearching), (OrderStatusSearching, OrderStatusCancelled),
         (OrderStatusSearching, OrderStatusFailed),
         (OrderStatusDriverAssigned, OrderStatusDriverArriving),
         (OrderStatusDriverAssigned, OrderStatusCancelled),
         (OrderStatusDriverArriving, OrderStatusDriverWaiting),
         (OrderStatusDriverArriving, OrderStatusCancelled),
         (OrderStatusDriverWaiting, OrderStatusInProgress),
         (OrderStatusDriverWaiting, OrderStatusCancelled),
         (OrderStatusInProgress, OrderStatusCompleted)}"
  using assms
  by (cases "tr_FromStatus tr") (auto simp: plain_transition_def legal_change_iff)

lemma transitioned_row_simps [simp]:
  "ord_Status (transitioned_row tr r) = tr_ToStatus tr"
  "ord_DriverID (transitioned_row tr r) = ord_DriverID r"
  "ord_FareMode (transitioned_row tr r) = ord_FareMode r"
  "ord_PriceConfirmationState (transitioned_row tr r) = ord_PriceConfirmationState r"
  "ord_ProposedPriceCents (transitioned_row tr r) = ord_ProposedPriceCents r"
  "ord_PriceConfirmationExpiresAt (transitioned_row tr r) = ord_PriceConfirmationExpiresAt r"
  "ord_AgreedPriceCents (transitioned_row tr r) = ord_AgreedPriceCents r"
  "ord_Version (transitioned_row tr r) = ord_Version r + 1"
  "ord_ID (transitioned_row tr r) = ord_ID r"
  "ord_PassengerID (transitioned_row tr r) = ord_PassengerID r"
  "ord_OrderType (transitioned_row tr r) = ord_OrderType r"
  by (simp_all add: transitioned_row_def)

lemma transitioned_row_good:
  assumes "plain_transition tr" "order_wf r" "transition_applies tr r"
  shows "order_wf (transitioned_row tr r) \<and> order_evolves r (transitioned_row tr r)"
proof -
  have st: "ord_Status r = tr_FromStatus tr" using assms(3) by (simp add: transition_applies_def)
  have "status_step (tr_FromStatus tr) (tr_ToStatus tr)"
    using assms(1) by (simp add: status_step_def plain_transition_def)
  then have "order_evolves r (transitioned_row tr r)"
    using st by (auto simp: order_evolves_def)
  moreover have "order_wf (transitioned_row tr r)"
    using plain_transition_cases [OF assms(1)]
  proof
    assume "tr_ToStatus tr = tr_FromStatus tr"
    then show ?thesis using assms(2) st by (simp add: order_wf_def)
  next
    assume c: "(tr_FromStatus tr, tr_ToStatus tr) \<in>
        {(OrderStatusCreated, OrderStatusSearching), (OrderStatusSearching, OrderStatusCancelled),
         (OrderStatusSearching, OrderStatusFailed),
         (OrderStatusDriverAssigned, OrderStatusDriverArriving),
         (OrderStatusDriverAssigned, OrderStatusCancelled),
         (OrderStatusDriverArriving, OrderStatusDriverWaiting),
         (OrderStatusDriverArriving, OrderStatusCancelled),
         (OrderStatusDriverWaiting, OrderStatusInProgress),
         (OrderStatusDriverWaiting, OrderStatusCancelled),
         (OrderStatusInProgress, OrderStatusCompleted)}"
    have price: "tr_FromStatus tr = OrderStatusDriverAssigned \<Longrightarrow> ord_FareMode r = FareModeFixedQuote \<Longrightarrow>
        tr_ToStatus tr \<noteq> OrderStatusCancelled \<Longrightarrow> ord_PriceConfirmationState r \<noteq> ''pending''"
      using assms(3) st by (auto simp: transition_applies_def)
    show ?thesis
      using c assms(2) st price
      by (elim insertE emptyE; simp add: order_wf_def driving_statuses_def driver_active_statuses_def)
  qed
  ultimately show ?thesis by simp
qed

lemma MarkOrderSearching_keeps [keeps_intros]:
  "keeps (orders_since rows0) (MarkOrderSearching orderID)"
  unfolding MarkOrderSearching_def
  by (intro keeps_intros keeps_update_orders)
     (auto simp: order_wf_def order_evolves_def driving_statuses_def driver_active_statuses_def
       status_step_def legal_change_iff OrderStatus_Validate_iff intro!: r_into_rtranclp)

lemma IncrementDispatchAttempt_keeps [keeps_intros]:
  "keeps (orders_since rows0) (IncrementDispatchAttempt orderID)"
  unfolding IncrementDispatchAttempt_def
  by (intro keeps_intros keeps_update_orders) (auto simp: order_wf_def order_evolves_def)

lemma FailOrder_keeps [keeps_intros]: "keeps (orders_since rows0) (FailOrder orderID reason)"
  unfolding FailOrder_def
  by (intro keeps_intros keeps_update_orders)
     (auto simp: order_wf_def order_evolves_def driving_statuses_def driver_active_statuses_def
       status_step_def legal_change_iff OrderStatus_Validate_iff intro!: r_into_rtranclp)

lemma ConfirmDriverPrice_keeps [keeps_intros]:
  "keeps (orders_since rows0) (ConfirmDriverPrice orderID passengerID)"
  unfolding ConfirmDriverPrice_def
  by (intro keeps_intros keeps_update_orders) (auto simp: order_wf_def order_evolves_def)

lemma TransitionOrderStatus_keeps [keeps_intros]:
  "plain_transition tr \<Longrightarrow> keeps (orders_since rows0) (TransitionOrderStatus tr)"
  unfolding TransitionOrderStatus_def
  by (intro keeps_intros keeps_update_orders transitioned_row_good)
     (auto intro!: keeps_intros split: list.splits)

lemma AssignDriver_keeps [keeps_intros]:
  "keeps (orders_since rows0) (AssignDriver orderID driverID t fare p e q)"
  unfolding AssignDriver_def
  by (intro keeps_db_transaction keeps_intros keeps_update_orders assigned_row_good)

lemma ReleaseDriverReservation_keeps [keeps_intros]:
  "keeps (orders_since rows0) (ReleaseDriverReservation orderID driverID)"
  unfolding ReleaseDriverReservation_def
  by (intro keeps_db_transaction keeps_intros keeps_update_orders released_row_good keeps_orders_other)
     auto

lemma insertOrderEvent_keeps [keeps_intros]: "keeps (orders_since rows0) (insertOrderEvent ev)"
  unfolding insertOrderEvent_def by (intro keeps_intros keeps_orders_other) simp

lemma AddOrderEvent_keeps [keeps_intros]: "keeps (orders_since rows0) (AddOrderEvent ev)"
  unfolding AddOrderEvent_def by (intro keeps_intros)

lemma AddStateEvent_keeps [keeps_intros]: "keeps (orders_since rows0) (AddStateEvent ev)"
  unfolding AddStateEvent_def by (intro keeps_intros)

lemma MarkDriverBusy_keeps [keeps_intros]: "keeps (orders_since rows0) (MarkDriverBusy driverID)"
  unfolding MarkDriverBusy_def by (intro keeps_intros keeps_orders_other) simp

lemma GetOrderByID_keeps [keeps_intros]: "keeps (on_db P) (GetOrderByID orderID)"
  unfolding GetOrderByID_def by (intro keeps_intros)

lemma GetCandidateFare_keeps [keeps_intros]: "keeps (on_db P) (GetCandidateFare orderID driverID)"
  unfolding GetCandidateFare_def by (intro keeps_intros)

lemma FindNearestOnlineDrivers_keeps [keeps_intros]:
  "keeps (on_db P) (FindNearestOnlineDrivers st_distance q)"
  unfolding FindNearestOnlineDrivers_def by (intro keeps_intros)

section \<open>Statements that succeed\<close>

lemma update_orders_Inr:
  assumes "update_orders P f now d = (Inr n, d')"
  shows "n = rows_affected P (orders d)"
    and "d' = d\<lparr>orders := sql_update P (\<lambda>r. (f r)\<lparr>ord_UpdatedAt := now\<rparr>) (orders d)\<rparr>"
    and "orders_consistent (orders d')"
  using assms by (auto simp: update_orders_def Let_def orders_consistent_def split: if_splits)

lemma rows_affected_pos: "0 < rows_affected P rows \<longleftrightarrow> (\<exists>r\<in>set rows. P r)"
  by (auto simp: rows_affected_def filter_empty_conv)

lemma sql_update_one:
  assumes "distinct (map k rows)" "\<And>r. P r \<Longrightarrow> k r = i" "r \<in> set rows" "P r"
  shows "\<exists>xs ys. rows = xs @ r # ys \<and> sql_update P f rows = xs @ f r # ys"
proof -
  from split_list [OF assms(3)] obtain xs ys where xs: "rows = xs @ r # ys" by blast
  have "\<not> P q" if "q \<in> set xs \<union> set ys" for q
    using assms(1,2,4) that unfolding xs by force
  then have "map (\<lambda>r. if P r then f r else r) xs = xs" "map (\<lambda>r. if P r then f r else r) ys = ys"
    by (simp_all add: map_idI)
  with xs assms(4) show ?thesis by (auto simp: sql_update_def)
qed

text \<open>A table in which one row has been replaced.\<close>

definition replaced :: "('r \<Rightarrow> 'r \<Rightarrow> bool) \<Rightarrow> 'r list \<Rightarrow> 'r list \<Rightarrow> bool" where
  "replaced R rows rows' \<longleftrightarrow>
     (\<exists>xs r ys r'. rows = xs @ r # ys \<and> rows' = xs @ r' # ys \<and> R r r')"

lemma replacedE:
  assumes "replaced R rows rows'"
  obtains xs r ys r' where "rows = xs @ r # ys" "rows' = xs @ r' # ys" "R r r'"
  using assms unfolding replaced_def by blast

lemma replaced_mono: "replaced R rows rows' \<Longrightarrow> (\<And>r r'. R r r' \<Longrightarrow> S r r') \<Longrightarrow> replaced S rows rows'"
  unfolding replaced_def by blast

lemma update_orders_replaces:
  assumes "update_orders P f now d = (Inr n, d')" "0 < n" "orders_consistent (orders d)"
    and "\<And>r. P r \<Longrightarrow> ord_ID r = i"
  shows "replaced (\<lambda>r r'. P r \<and> r' = (f r)\<lparr>ord_UpdatedAt := now\<rparr>) (orders d) (orders d')"
proof -
  from assms(2) obtain r where r: "r \<in> set (orders d)" "P r"
    unfolding update_orders_Inr(1) [OF assms(1)] rows_affected_pos by blast
  have "distinct (map ord_ID (orders d))"
    using assms(3) by (simp add: orders_consistent_def orders_unique_def)
  then have "\<exists>xs ys. orders d = xs @ r # ys
      \<and> sql_update P (\<lambda>r. (f r)\<lparr>ord_UpdatedAt := now\<rparr>) (orders d)
        = xs @ (f r)\<lparr>ord_UpdatedAt := now\<rparr> # ys"
    by (rule sql_update_one [where i = i]) (use assms(4) r in auto)
  then show ?thesis
    unfolding replaced_def using r update_orders_Inr(2) [OF assms(1)] by auto
qed

text \<open>The row that is read is one of the table, and the scan keeps its columns.\<close>

lemma one_row_Inr: "one_row rows = Inr r \<Longrightarrow> r \<in> set rows"
  by (cases rows) auto

lemma scanDispatchOrder_Inr:
  assumes "scanDispatchOrder row = Inr o1"
  shows "ord_ID o1 = ord_ID row" "ord_PassengerID o1 = ord_PassengerID row"
    "ord_Status o1 = ord_Status row" "ord_DriverID o1 = ord_DriverID row"
    "ord_CreatedByRole o1 = ord_CreatedByRole row" "ord_FareMode o1 = ord_FareMode row"
    "ord_PriceConfirmationState o1 = ord_PriceConfirmationState row"
    "ord_PriceConfirmationExpiresAt o1 = ord_PriceConfirmationExpiresAt row"
    "ord_ProposedPriceCents o1 = ord_ProposedPriceCents row"
    "ord_AgreedPriceCents o1 = ord_AgreedPriceCents row"
    "ord_DeclinedDriverIDs o1 = ord_DeclinedDriverIDs row" "ord_Version o1 = ord_Version row"
  using assms
  by (auto simp: scanDispatchOrder_def Let_def order.defs split: sum.splits option.splits)

lemma GetOrderByID_Inr:
  assumes "GetOrderByID i s = (Inr o1, t)"
  obtains row where "row \<in> set (orders (db s))" "ord_ID row = i" "ord_DeletedAt row = None"
    "scanDispatchOrder row = Inr o1" "db t = db s" "redis t = redis s" "clock s \<le> clock t"
    "published t = published s"
proof -
  obtain row u where row: "query (\<lambda>now d. one_row (filter (\<lambda>r. ord_ID r = i \<and> ord_DeletedAt r = None)
      (orders d))) s = (Inr row, u)" "lift (scanDispatchOrder row) u = (Inr o1, t)"
    by (rule bind_Inr [OF assms [unfolded GetOrderByID_def]])
  from row(1) obtain c where c: "clock s \<le> c"
    "one_row (filter (\<lambda>r. ord_ID r = i \<and> ord_DeletedAt r = None) (orders (db s))) = Inr row"
    "db u = db s" "redis u = redis s" "clock u = c" "published u = published s"
    by (rule query_Inr)
  from c(2) have "row \<in> set (filter (\<lambda>r. ord_ID r = i \<and> ord_DeletedAt r = None) (orders (db s)))"
    by (rule one_row_Inr)
  with row(2) c show thesis by (intro that [of row]) (auto simp: Inr_simps)
qed

section \<open>One row updated and read back\<close>

lemma update_orders_returning_one:
  assumes upd: "update_orders_returning P f now d = (Inr (row # rest), d')"
    and "orders_consistent (orders d)" and one: "\<And>r. P r \<Longrightarrow> ord_ID r = i"
  shows "orders_consistent (orders d')" "d' = d\<lparr>orders := orders d'\<rparr>"
    "replaced (\<lambda>r r'. P r \<and> r' = (f r)\<lparr>ord_UpdatedAt := now\<rparr> \<and> r' = row) (orders d) (orders d')"
proof -
  obtain n where run: "update_orders P f now d = (Inr n, d')"
    and rs: "row # rest = updated_rows P f now d"
    using upd unfolding update_orders_returning_def by (auto split: prod.splits sum.splits)
  have n: "0 < n"
    using rs unfolding update_orders_Inr(1) [OF run] rows_affected_def updated_rows_def
    by (cases "filter P (orders d)") auto
  have rep: "replaced (\<lambda>r r'. P r \<and> r' = (f r)\<lparr>ord_UpdatedAt := now\<rparr>) (orders d) (orders d')"
    by (rule update_orders_replaces [OF run n assms(2) one])
  then obtain xs r ys where r: "orders d = xs @ r # ys" "P r"
    "orders d' = xs @ (f r)\<lparr>ord_UpdatedAt := now\<rparr> # ys"
    by (rule replacedE) blast
  have "distinct (map ord_ID (orders d))"
    using assms(2) by (simp add: orders_consistent_def orders_unique_def)
  then have "ord_ID r \<notin> ord_ID ` (set xs \<union> set ys)" unfolding r(1) by auto
  then have "\<not> P q" if "q \<in> set xs \<union> set ys" for q
    using one [OF r(2)] one [of q] that by (metis image_eqI)
  then have "filter P xs = []" "filter P ys = []" by (auto simp: filter_empty_conv)
  then have "filter P (orders d) = [r]" using r(1,2) by simp
  then have row: "row = (f r)\<lparr>ord_UpdatedAt := now\<rparr>"
    using rs by (simp add: updated_rows_def)
  show "orders_consistent (orders d')" using update_orders_Inr(3) [OF run] by simp
  show "d' = d\<lparr>orders := orders d'\<rparr>"
    using run by (auto simp: update_orders_def Let_def split: if_splits)
  show "replaced (\<lambda>r r'. P r \<and> r' = (f r)\<lparr>ord_UpdatedAt := now\<rparr> \<and> r' = row) (orders d) (orders d')"
    unfolding replaced_def using r row by blast
qed

lemma update_returning_Some:
  assumes "bind (sql (\<lambda>now. update_orders_returning (P now) (f now) now))
      (\<lambda>rows. case rows of [] \<Rightarrow> ret None
        | row # _ \<Rightarrow> bind (lift (scanDispatchOrder row)) (\<lambda>o1. ret (Some o1))) s = (Inr (Some o1), t)"
    and "orders_consistent (orders (db s))" and one: "\<And>now r. P now r \<Longrightarrow> ord_ID r = i"
  obtains now where "clock s \<le> now" "orders_consistent (orders (db t))"
    "replaced (\<lambda>r r'. P now r \<and> r' = (f now r)\<lparr>ord_UpdatedAt := now\<rparr>
       \<and> scanDispatchOrder r' = Inr o1) (orders (db s)) (orders (db t))"
proof -
  obtain rows u where u: "sql (\<lambda>now. update_orders_returning (P now) (f now) now) s = (Inr rows, u)"
    "(case rows of [] \<Rightarrow> ret None
      | row # _ \<Rightarrow> bind (lift (scanDispatchOrder row)) (\<lambda>o1. ret (Some o1))) u = (Inr (Some o1), t)"
    by (rule bind_Inr [OF assms(1)])
  from u(2) obtain row rest where rows: "rows = row # rest" "scanDispatchOrder row = Inr o1" "t = u"
    by (cases rows) (auto simp: Inr_simps elim!: bind_Inr)
  from u(1) obtain now where now: "clock s \<le> now"
    "update_orders_returning (P now) (f now) now (db s) = (Inr (row # rest), db u)"
    unfolding rows(1) by (rule sql_Inr) blast
  note res = update_orders_returning_one [OF now(2) assms(2) one]
  show thesis
    by (rule that [OF now(1)]) (use res(1) rows(2,3) in \<open>auto intro: replaced_mono [OF res(3)]\<close>)
qed

lemma TransitionOrderStatus_Some:
  assumes "TransitionOrderStatus tr s = (Inr (Some o1), t)" "orders_consistent (orders (db s))"
  obtains now where "clock s \<le> now" "orders_consistent (orders (db t))"
    "replaced (\<lambda>r r'. transition_applies tr r \<and> r' = (transitioned_row tr r)\<lparr>ord_UpdatedAt := now\<rparr>
       \<and> scanDispatchOrder r' = Inr o1) (orders (db s)) (orders (db t))"
  by (rule update_returning_Some [where P = "\<lambda>_. transition_applies tr" and f = "\<lambda>_. transitioned_row tr",
        OF assms(1) [unfolded TransitionOrderStatus_def] assms(2)])
     (auto simp: transition_applies_def intro: that)

section \<open>Properties\<close>

text \<open>
  A status change that the repository reports as done has replaced exactly one row, which had
  the expected status and version; the new row has the new status and the next version, keeps its
  driver, passenger and agreed price, stamps the cancellation, start or completion of the trip, and
  a fixed-price order that leaves the assigned status otherwise than by cancellation has no price
  waiting for the passenger.
\<close>

theorem TransitionOrderStatus_effect:
  assumes "orders_consistent (orders (db s))" "TransitionOrderStatus tr s = (Inr (Some o1), t)"
  shows "ord_Status o1 = tr_ToStatus tr \<and> ord_Version o1 = tr_ExpectedVersion tr + 1
     \<and> replaced (\<lambda>r r'. ord_ID r = tr_OrderID tr \<and> ord_ID r' = tr_OrderID tr
          \<and> ord_Status r = tr_FromStatus tr \<and> ord_Status r' = tr_ToStatus tr
          \<and> ord_Version r = tr_ExpectedVersion tr \<and> ord_Version r' = tr_ExpectedVersion tr + 1
          \<and> ord_DriverID r' = ord_DriverID r \<and> ord_PassengerID r' = ord_PassengerID r
          \<and> ord_AgreedPriceCents r' = ord_AgreedPriceCents r
          \<and> (tr_ToStatus tr = OrderStatusCancelled \<longrightarrow> ord_CancelledAt r' = Some (tr_OccurredAt tr))
          \<and> (tr_ToStatus tr = OrderStatusInProgress \<longrightarrow> ord_StartedAt r' = Some (tr_OccurredAt tr))
          \<and> (tr_ToStatus tr = OrderStatusCompleted \<longrightarrow> ord_CompletedAt r' = Some (tr_OccurredAt tr))
          \<and> (tr_FromStatus tr = OrderStatusDriverAssigned \<and> tr_ToStatus tr \<noteq> OrderStatusCancelled
              \<and> ord_FareMode r \<noteq> FareModeMetered \<longrightarrow> ord_PriceConfirmationState r \<noteq> ''pending''))
         (orders (db s)) (orders (db t))"
proof -
  obtain now where rep: "replaced (\<lambda>r r'. transition_applies tr r
       \<and> r' = (transitioned_row tr r)\<lparr>ord_UpdatedAt := now\<rparr> \<and> scanDispatchOrder r' = Inr o1)
       (orders (db s)) (orders (db t))"
    by (rule TransitionOrderStatus_Some [OF assms(2,1)])
  from rep obtain r where r: "transition_applies tr r"
    "scanDispatchOrder ((transitioned_row tr r)\<lparr>ord_UpdatedAt := now\<rparr>) = Inr o1"
    by (auto elim: replacedE)
  have "ord_Status o1 = tr_ToStatus tr" "ord_Version o1 = tr_ExpectedVersion tr + 1"
    using r(1) scanDispatchOrder_Inr(3,12) [OF r(2)] by (simp_all add: transition_applies_def)
  then show ?thesis
    by (intro conjI replaced_mono [OF rep]) (auto simp: transition_applies_def transitioned_row_def)
qed

text \<open>The searching order is cancelled at second 5.\<close>

definition sample_cancellation :: order_transition where
  "sample_cancellation = \<lparr>tr_OrderID = 1, tr_FromStatus = OrderStatusSearching,
     tr_ToStatus = OrderStatusCancelled, tr_ExpectedVersion = 1, tr_ActorUserID = None,
     tr_ActorDriverID = None, tr_Reason = '''', tr_OccurredAt = seconds 5\<rparr>"

definition searching_world :: world where
  "searching_world = world_at (seconds 5) (sample_db sample_order)"

lemma searching_world_consistent: "orders_consistent (orders (db searching_world))"
proof -
  have "order_checks sample_order" by code_simp
  then show ?thesis
    by (simp add: searching_world_def world_at_def sample_db_def orders_consistent_def orders_unique_def)
qed

lemma sample_cancellation_runs:
  "\<exists>o1 t. TransitionOrderStatus sample_cancellation searching_world = (Inr (Some o1), t)"
proof -
  let ?r = "(transitioned_row sample_cancellation sample_order)\<lparr>ord_UpdatedAt := seconds 5\<rparr>"
  have o: "transition_applies sample_cancellation sample_order" "order_checks ?r"
    by code_simp+
  have o2: "orders (sample_db sample_order) = [sample_order]" by (simp add: sample_db_def)
  have "\<exists>o1. scanDispatchOrder ?r = Inr o1"
    by (simp add: scanDispatchOrder_def coordinates_of_def transitioned_row_def sample_order_def
        NewCoordinates_def empty_coordinates_def)
  with o o2 show ?thesis
    by (auto simp: TransitionOrderStatus_def searching_world_def world_at_def bind_def sql_ok
        update_orders_returning_def update_orders_def updated_rows_def Let_def sql_update_def
        orders_unique_def lift_def ret_def)
qed

theorem TransitionOrderStatus_effect_witness:
  "\<exists>o1 t. TransitionOrderStatus sample_cancellation searching_world = (Inr (Some o1), t)
     \<and> ord_Status o1 = OrderStatusCancelled \<and> ord_Version o1 = 2"
proof -
  obtain o1 t where t: "TransitionOrderStatus sample_cancellation searching_world = (Inr (Some o1), t)"
    using sample_cancellation_runs by blast
  with TransitionOrderStatus_effect [OF searching_world_consistent t] show ?thesis
    by (simp add: sample_cancellation_def)
qed

text \<open>
  C6: optimistic concurrency: of two status changes that were planned from the same version of an
  order only one is applied; while the table stays as the first one left it, the second one changes
  no row and is reported as not done.
\<close>

theorem TransitionOrderStatus_once:
  assumes "orders_consistent (orders (db s))" "TransitionOrderStatus tr s = (Inr (Some o1), t)"
    and "orders (db u) = orders (db t)" "tr_OrderID tr' = tr_OrderID tr"
    and "tr_ExpectedVersion tr' = tr_ExpectedVersion tr"
  shows "fst (TransitionOrderStatus tr' u) \<noteq> Inr (Some o2)"
proof
  assume "fst (TransitionOrderStatus tr' u) = Inr (Some o2)"
  then obtain v where v: "TransitionOrderStatus tr' u = (Inr (Some o2), v)" by (metis prod.collapse)
  obtain now where c: "orders_consistent (orders (db t))" and rep: "replaced (\<lambda>r r'. transition_applies tr r
       \<and> r' = (transitioned_row tr r)\<lparr>ord_UpdatedAt := now\<rparr> \<and> scanDispatchOrder r' = Inr o1)
       (orders (db s)) (orders (db t))"
    by (rule TransitionOrderStatus_Some [OF assms(2,1)])
  from rep obtain q where q: "q \<in> set (orders (db u))" "ord_ID q = tr_OrderID tr"
    "ord_Version q = tr_ExpectedVersion tr + 1"
  proof (rule replacedE)
    fix xs r ys r'
    assume "orders (db t) = xs @ r' # ys" "transition_applies tr r
       \<and> r' = (transitioned_row tr r)\<lparr>ord_UpdatedAt := now\<rparr> \<and> scanDispatchOrder r' = Inr o1"
    then show thesis
      by (intro that [of r']) (simp_all add: assms(3) transition_applies_def)
  qed
  obtain now' where "replaced (\<lambda>r r'. transition_applies tr' r
       \<and> r' = (transitioned_row tr' r)\<lparr>ord_UpdatedAt := now'\<rparr> \<and> scanDispatchOrder r' = Inr o2)
       (orders (db u)) (orders (db v))"
    by (rule TransitionOrderStatus_Some [OF v]) (use c assms(3) in simp)
  then obtain r where r: "r \<in> set (orders (db u))" "ord_ID r = tr_OrderID tr"
    "ord_Version r = tr_ExpectedVersion tr"
    by (rule replacedE) (auto simp: transition_applies_def assms(4,5))
  have "distinct (map ord_ID (orders (db u)))"
    using c assms(3) by (simp add: orders_consistent_def orders_unique_def)
  then have "q = r" using q(1,2) r(1,2) by (auto simp: distinct_map inj_on_def)
  with q(3) r(3) show False by simp
qed

theorem TransitionOrderStatus_once_witness:
  "\<exists>o1 t. TransitionOrderStatus sample_cancellation searching_world = (Inr (Some o1), t)
     \<and> fst (TransitionOrderStatus sample_cancellation t) \<noteq> Inr (Some o1)"
  using sample_cancellation_runs
    TransitionOrderStatus_once [OF searching_world_consistent _ refl refl refl] by blast

end
