(* ===== verification/Redis_Store.thy ===== *)
theory Redis_Store
  imports Sample_World "HOL-Library.Sublist"
begin

text \<open>
  The dispatcher's Redis structures: offers with their two indexes
  (\<^verbatim>\<open>internal/redis/offer_store.go\<close>), the task queue and the timeout queue
  (\<^verbatim>\<open>dispatch_queue.go\<close>), the dispatch state (\<^verbatim>\<open>dispatch_state_store.go\<close>) and the locks
  (\<^verbatim>\<open>lock.go\<close>).  Each command is one external call; a method that issues several commands can
  fail between them.  Two contracts are stated as locales, a store whose keys expire and a
  first-in-first-out queue, and are interpreted on the commands.
\<close>

section \<open>The contract of a store whose keys expire\<close>

locale expiring_store =
  fixes look :: "time \<Rightarrow> 'r \<Rightarrow> 'k \<Rightarrow> 'v option"
    and put :: "time \<Rightarrow> duration \<Rightarrow> 'k \<Rightarrow> 'v \<Rightarrow> 'r \<Rightarrow> 'r"
    and del :: "'k \<Rightarrow> 'r \<Rightarrow> 'r"
  assumes look_put: "look t' (put t ttl k v r) k' =
      (if k' = k then if t' < t + ttl then Some v else None else look t' r k')"
    and look_del: "look t (del k r) k' = (if k' = k then None else look t r k')"
    and look_earlier: "look t' r k = Some v \<Longrightarrow> t \<le> t' \<Longrightarrow> look t r k = Some v"
begin

text \<open>Writing only where nothing is live, as \<^verbatim>\<open>SETNX\<close> does.\<close>

definition put_new :: "time \<Rightarrow> duration \<Rightarrow> 'k \<Rightarrow> 'v \<Rightarrow> 'r \<Rightarrow> bool \<times> 'r" where
  "put_new t ttl k v r =
     (case look t r k of None \<Rightarrow> (True, put t ttl k v r) | Some _ \<Rightarrow> (False, r))"

lemma put_new_excludes:
  assumes "look t' r k = Some v" "t \<le> t'"
  shows "put_new t ttl k w r = (False, r)"
  using look_earlier [OF assms] by (simp add: put_new_def)

lemma put_new_wins:
  assumes "put_new t ttl k v r = (True, r')" "t' < t + ttl"
  shows "look t' r' k = Some v"
  using assms by (auto simp: put_new_def look_put split: option.splits)

lemma put_new_other: "k' \<noteq> k \<Longrightarrow> look t' (snd (put_new t ttl k v r)) k' = look t' r k'"
  by (simp add: put_new_def look_put split: option.splits)

text \<open>A lease taken by one owner survives everybody else's attempts until it expires.\<close>

lemma put_new_keeps:
  assumes "look e r k = Some v" "t \<le> e"
  shows "look e (snd (put_new t ttl k' w r)) k = Some v"
proof (cases "k' = k")
  case True
  then show ?thesis using put_new_excludes [OF assms] assms(1) by simp
next
  case False
  then show ?thesis using assms(1) by (simp add: put_new_other)
qed

text \<open>\<open>del_if v\<close> deletes the key when it still holds \<open>v\<close>.\<close>

definition del_if :: "time \<Rightarrow> 'k \<Rightarrow> 'v \<Rightarrow> 'r \<Rightarrow> 'r" where
  "del_if t k v r = (if look t r k = Some v then del k r else r)"

lemma del_if_keeps:
  assumes "look e r k = Some v" "t \<le> e" "(k', w) \<noteq> (k, v)"
  shows "look e (del_if t k' w r) k = Some v"
  using assms look_earlier [OF assms(1,2)] by (auto simp: del_if_def look_del)

end

section \<open>The contract of a queue\<close>

locale fifo_queue =
  fixes push :: "'t \<Rightarrow> 'q \<Rightarrow> 'q"
    and pop :: "'q \<Rightarrow> ('t \<times> 'q) option"
    and items :: "'q \<Rightarrow> 't list"
  assumes items_push: "items (push t q) = items q @ [t]"
    and pop_None: "pop q = None \<longleftrightarrow> items q = []"
    and pop_Some: "pop q = Some (t, q') \<Longrightarrow> items q = t # items q'"
begin

primrec push_all :: "'t list \<Rightarrow> 'q \<Rightarrow> 'q" where
  "push_all [] q = q"
| "push_all (t # ts) q = push_all ts (push t q)"

primrec pop_n :: "nat \<Rightarrow> 'q \<Rightarrow> 't list \<times> 'q" where
  "pop_n 0 q = ([], q)"
| "pop_n (Suc n) q =
     (case pop q of None \<Rightarrow> ([], q) | Some (t, q') \<Rightarrow> (case pop_n n q' of (ts, q'') \<Rightarrow> (t # ts, q'')))"

lemma items_push_all: "items (push_all ts q) = items q @ ts"
  by (induction ts arbitrary: q) (simp_all add: items_push)

lemma pop_n_takes: "pop_n n q = (ts, q') \<Longrightarrow> ts = take n (items q) \<and> items q' = drop n (items q)"
proof (induction n arbitrary: q ts q')
  case (Suc n)
  show ?case
  proof (cases "pop q")
    case None
    then have "items q = []" by (simp add: pop_None)
    then show ?thesis using Suc.prems None by auto
  next
    case (Some p)
    then obtain t q1 where p: "pop q = Some (t, q1)" by (cases p) auto
    obtain us q2 where us: "pop_n n q1 = (us, q2)" by fastforce
    have "ts = t # us" "q2 = q'" using Suc.prems p us by auto
    then show ?thesis using Suc.IH [OF us] pop_Some [OF p] by auto
  qed
qed simp

lemma fifo: "items q = [] \<Longrightarrow> fst (pop_n (length ts) (push_all ts q)) = ts"
  using pop_n_takes [of "length ts" "push_all ts q"]
  by (cases "pop_n (length ts) (push_all ts q)") (simp add: items_push_all)

end

section \<open>Commands on sets\<close>

text \<open>\<^verbatim>\<open>SADD\<close>, \<^verbatim>\<open>SREM\<close> and \<^verbatim>\<open>EXPIRE\<close>; a set without members is no key.\<close>

definition set_add :: "time \<Rightarrow> 'k \<Rightarrow> 'v \<Rightarrow> ('k \<Rightarrow> ('v list \<times> time option) option) \<Rightarrow>
    'k \<Rightarrow> ('v list \<times> time option) option" where
  "set_add now k v m =
     (let vs = live_set now m k
      in m(k := Some (if v \<in> set vs then vs else vs @ [v], live_expiry now m k)))"

definition set_remove :: "time \<Rightarrow> 'k \<Rightarrow> 'v \<Rightarrow> ('k \<Rightarrow> ('v list \<times> time option) option) \<Rightarrow>
    'k \<Rightarrow> ('v list \<times> time option) option" where
  "set_remove now k v m =
     (let vs = filter (\<lambda>x. x \<noteq> v) (live_set now m k)
      in m(k := (if vs = [] then None else Some (vs, live_expiry now m k))))"

definition set_expire :: "time \<Rightarrow> duration \<Rightarrow> 'k \<Rightarrow> ('k \<Rightarrow> ('v list \<times> time option) option) \<Rightarrow>
    'k \<Rightarrow> ('v list \<times> time option) option" where
  "set_expire now ttl k m =
     (if live_set now m k = [] then m else m(k := Some (live_set now m k, Some (now + ttl))))"

section \<open>Offers\<close>

text \<open>\<^verbatim>\<open>SET key payload EX ttl\<close>, \<^verbatim>\<open>GET\<close>, \<^verbatim>\<open>DEL\<close> on the offer keys.\<close>

definition put_offer :: "time \<Rightarrow> duration \<Rightarrow> uuid \<times> uuid \<Rightarrow> order_offer \<Rightarrow> redis \<Rightarrow> redis" where
  "put_offer now ttl k v r = r\<lparr>rd_offers := (rd_offers r)(k := Some (v, now + ttl))\<rparr>"

definition del_offer :: "uuid \<times> uuid \<Rightarrow> redis \<Rightarrow> redis" where
  "del_offer k r = r\<lparr>rd_offers := (rd_offers r)(k := None)\<rparr>"

definition look_offer :: "time \<Rightarrow> redis \<Rightarrow> uuid \<times> uuid \<Rightarrow> order_offer option" where
  "look_offer now r k = live now (rd_offers r) k"

definition SaveOffer :: "order_offer \<Rightarrow> duration \<Rightarrow> (world, unit) op" where
  "SaveOffer offer ttl =
     andthen (redis_cmd (\<lambda>now r. (Inr (),
        put_offer now ttl (off_OrderID offer, off_DriverID offer) offer r)))
     (andthen (redis_cmd (\<lambda>now r. (Inr (),
        r\<lparr>rd_order_offers := set_add now (off_OrderID offer) (off_DriverID offer) (rd_order_offers r)\<rparr>)))
     (andthen (redis_cmd (\<lambda>now r. (Inr (),
        r\<lparr>rd_driver_offers := set_add now (off_DriverID offer) (off_OrderID offer) (rd_driver_offers r)\<rparr>)))
     (andthen (redis_cmd (\<lambda>now r. (Inr (),
        r\<lparr>rd_order_offers := set_expire now ttl (off_OrderID offer) (rd_order_offers r)\<rparr>)))
     (redis_cmd (\<lambda>now r. (Inr (),
        r\<lparr>rd_driver_offers := set_expire now ttl (off_DriverID offer) (rd_driver_offers r)\<rparr>))))))"

text \<open>\<open>None\<close> is the answer \<^verbatim>\<open>(OrderOffer{}, false, nil)\<close>.\<close>

definition GetOffer :: "uuid \<Rightarrow> uuid \<Rightarrow> (world, order_offer option) op" where
  "GetOffer orderID driverID =
     redis_cmd (\<lambda>now r. (Inr (look_offer now r (orderID, driverID)), r))"

definition ListDriverOffers :: "uuid \<Rightarrow> (world, order_offer list) op" where
  "ListDriverOffers driverID =
     bind (redis_cmd (\<lambda>now r. (Inr (live_set now (rd_driver_offers r) driverID), r)))
       (\<lambda>orderIDs. collect orderIDs (\<lambda>orderID.
          bind (GetOffer orderID driverID)
            (\<lambda>offer. ret (case offer of None \<Rightarrow> [] | Some o1 \<Rightarrow> [o1]))))"

definition ListOfferedDriverIDs :: "uuid \<Rightarrow> (world, uuid list) op" where
  "ListOfferedDriverIDs orderID =
     redis_cmd (\<lambda>now r. (Inr (live_set now (rd_order_offers r) orderID), r))"

definition RemoveDriverOffer :: "uuid \<Rightarrow> uuid \<Rightarrow> (world, unit) op" where
  "RemoveDriverOffer orderID driverID =
     andthen (redis_cmd (\<lambda>now r. (Inr (), del_offer (orderID, driverID) r)))
     (andthen (redis_cmd (\<lambda>now r. (Inr (),
        r\<lparr>rd_order_offers := set_remove now orderID driverID (rd_order_offers r)\<rparr>)))
     (redis_cmd (\<lambda>now r. (Inr (),
        r\<lparr>rd_driver_offers := set_remove now driverID orderID (rd_driver_offers r)\<rparr>))))"

text \<open>The last command deletes the offer keys and the index of the order at once.\<close>

definition del_order_offers :: "uuid \<Rightarrow> uuid list \<Rightarrow> redis \<Rightarrow> redis" where
  "del_order_offers orderID driverIDs r =
     r\<lparr>rd_offers := (\<lambda>k. if fst k = orderID \<and> snd k \<in> set driverIDs then None else rd_offers r k),
       rd_order_offers := (rd_order_offers r)(orderID := None)\<rparr>"

definition RemoveOffers :: "uuid \<Rightarrow> (world, unit) op" where
  "RemoveOffers orderID =
     bind (ListOfferedDriverIDs orderID) (\<lambda>driverIDs.
       andthen (for_each driverIDs (\<lambda>driverID. redis_cmd (\<lambda>now r. (Inr (),
          r\<lparr>rd_driver_offers := set_remove now driverID orderID (rd_driver_offers r)\<rparr>))))
       (redis_cmd (\<lambda>now r. (Inr (), del_order_offers orderID driverIDs r))))"

section \<open>Queues\<close>

text \<open>\<^verbatim>\<open>LPUSH\<close> at the head, \<^verbatim>\<open>BRPOP\<close> at the tail.\<close>

definition queue_push :: "dispatch_task \<Rightarrow> redis \<Rightarrow> redis" where
  "queue_push task r = r\<lparr>rd_queue := task # rd_queue r\<rparr>"

definition queue_pop :: "redis \<Rightarrow> (dispatch_task \<times> redis) option" where
  "queue_pop r =
     (if rd_queue r = [] then None
      else Some (last (rd_queue r), r\<lparr>rd_queue := butlast (rd_queue r)\<rparr>))"

definition queue_items :: "redis \<Rightarrow> dispatch_task list" where
  "queue_items r = rev (rd_queue r)"

definition Publish :: "dispatch_task \<Rightarrow> (world, unit) op" where
  "Publish task = redis_cmd (\<lambda>now r. (Inr (), queue_push task r))"

text \<open>\<open>None\<close> when nothing arrives within the timeout.\<close>

definition Consume :: "(world, dispatch_task option) op" where
  "Consume = redis_cmd (\<lambda>now r.
     case queue_pop r of None \<Rightarrow> (Inr None, r) | Some (task, r') \<Rightarrow> (Inr (Some task), r'))"

text \<open>Milliseconds since the Unix epoch, which is 62135596800 seconds after Go's zero time.\<close>

definition UnixMilli :: "time \<Rightarrow> int" where
  "UnixMilli t = (t - seconds 62135596800) div 1000000"

text \<open>\<^verbatim>\<open>ZADD\<close> moves a member that is there already.\<close>

definition Schedule :: "dispatch_task \<Rightarrow> time \<Rightarrow> (world, unit) op" where
  "Schedule task runAt = redis_cmd (\<lambda>now r. (Inr (),
     r\<lparr>rd_timeouts := filter (\<lambda>(t, _). t \<noteq> task) (rd_timeouts r) @ [(task, UnixMilli runAt)]\<rparr>))"

definition Due :: "time \<Rightarrow> nat \<Rightarrow> (world, dispatch_task list) op" where
  "Due instant limit = redis_cmd (\<lambda>now r. (Inr (map fst (take limit
     (sort_key snd (filter (\<lambda>(_, score). score \<le> UnixMilli instant) (rd_timeouts r))))), r))"

definition RemoveTimeout :: "dispatch_task \<Rightarrow> (world, unit) op" where
  "RemoveTimeout task = redis_cmd (\<lambda>now r. (Inr (),
     r\<lparr>rd_timeouts := filter (\<lambda>(t, _). t \<noteq> task) (rd_timeouts r)\<rparr>))"

section \<open>Dispatch state and locks\<close>

definition put_dispatching :: "time \<Rightarrow> duration \<Rightarrow> uuid \<Rightarrow> unit \<Rightarrow> redis \<Rightarrow> redis" where
  "put_dispatching now ttl k v r = r\<lparr>rd_dispatching := (rd_dispatching r)(k := Some (v, now + ttl))\<rparr>"

definition del_dispatching :: "uuid \<Rightarrow> redis \<Rightarrow> redis" where
  "del_dispatching k r = r\<lparr>rd_dispatching := (rd_dispatching r)(k := None)\<rparr>"

definition look_dispatching :: "time \<Rightarrow> redis \<Rightarrow> uuid \<Rightarrow> unit option" where
  "look_dispatching now r k = live now (rd_dispatching r) k"

definition BeginDispatch :: "uuid \<Rightarrow> duration \<Rightarrow> (world, bool) op" where
  "BeginDispatch orderID ttl = redis_cmd (\<lambda>now r.
     case look_dispatching now r orderID of
       None \<Rightarrow> (Inr True, put_dispatching now ttl orderID () r)
     | Some _ \<Rightarrow> (Inr False, r))"

definition FinishDispatch :: "uuid \<Rightarrow> (world, unit) op" where
  "FinishDispatch orderID = redis_cmd (\<lambda>now r. (Inr (),
     (del_dispatching orderID r)\<lparr>rd_active_offer := (rd_active_offer r)(orderID := None)\<rparr>))"

definition MarkActiveOffer :: "uuid \<Rightarrow> duration \<Rightarrow> (world, unit) op" where
  "MarkActiveOffer orderID ttl = redis_cmd (\<lambda>now r. (Inr (),
     r\<lparr>rd_active_offer := (rd_active_offer r)(orderID := Some ((), now + ttl))\<rparr>))"

definition MarkAcceptedDriver :: "uuid \<Rightarrow> uuid \<Rightarrow> duration \<Rightarrow> (world, unit) op" where
  "MarkAcceptedDriver orderID driverID ttl = redis_cmd (\<lambda>now r. (Inr (),
     r\<lparr>rd_accepted_driver := (rd_accepted_driver r)(orderID := Some (driverID, now + ttl))\<rparr>))"

definition put_lock :: "time \<Rightarrow> duration \<Rightarrow> lock_key \<Rightarrow> int \<Rightarrow> redis \<Rightarrow> redis" where
  "put_lock now ttl k v r = r\<lparr>rd_locks := (rd_locks r)(k := Some (v, now + ttl))\<rparr>"

definition del_lock :: "lock_key \<Rightarrow> redis \<Rightarrow> redis" where
  "del_lock k r = r\<lparr>rd_locks := (rd_locks r)(k := None)\<rparr>"

definition look_lock :: "time \<Rightarrow> redis \<Rightarrow> lock_key \<Rightarrow> int option" where
  "look_lock now r k = live now (rd_locks r) k"

text \<open>The token is the reading of the clock in nanoseconds; \<open>None\<close> means not acquired.\<close>

definition Acquire :: "lock_key \<Rightarrow> duration \<Rightarrow> (world, (lock_key \<times> int) option) op" where
  "Acquire key ttl =
     bind time_Now (\<lambda>token.
       redis_cmd (\<lambda>now r.
         case look_lock now r key of
           None \<Rightarrow> (Inr (Some (key, token)), put_lock now ttl key token r)
         | Some _ \<Rightarrow> (Inr None, r)))"

text \<open>The script deletes the key only while it holds the token of this lock.\<close>

definition Release :: "lock_key \<times> int \<Rightarrow> (world, unit) op" where
  "Release l = redis_cmd (\<lambda>now r. (Inr (),
     if look_lock now r (fst l) = Some (snd l) then del_lock (fst l) r else r))"

section \<open>The commands fulfil the contracts\<close>

lemma live_earlier: "live t' m k = Some v \<Longrightarrow> t \<le> t' \<Longrightarrow> live t m k = Some v"
  by (auto simp: live_def split: option.splits if_splits)

interpretation offers: expiring_store look_offer put_offer del_offer
  by unfold_locales
    (auto simp: look_offer_def put_offer_def del_offer_def intro: live_earlier)

interpretation dispatching: expiring_store look_dispatching put_dispatching del_dispatching
  by unfold_locales
    (auto simp: look_dispatching_def put_dispatching_def del_dispatching_def intro: live_earlier)

interpretation locks: expiring_store look_lock put_lock del_lock
  by unfold_locales
    (auto simp: look_lock_def put_lock_def del_lock_def intro: live_earlier)

interpretation tasks: fifo_queue queue_push queue_pop queue_items
proof unfold_locales
  show "queue_pop r = Some (t, r') \<Longrightarrow> queue_items r = t # queue_items r'" for r t r'
    by (cases "rd_queue r" rule: rev_cases)
       (auto simp: queue_pop_def queue_items_def split: if_splits)
qed (simp_all add: queue_push_def queue_pop_def queue_items_def)

section \<open>Facts about commands\<close>

lemma redis_cmd_cases:
  assumes "redis_cmd f s = (r, t)"
  obtains (lost) c sc e where "clock s \<le> c" "t = s\<lparr>clock := c, script := sc\<rparr>" "r = Inl e"
  | (run) c sc e where "clock s \<le> c" "t = s\<lparr>clock := c, script := sc, redis := snd (f c (redis s))\<rparr>"
      "r = fst (f c (redis s)) \<or> r = Inl e"
proof (cases "script s")
  case Nil
  then have "r = fst (f (clock s) (redis s)) \<and> t = s\<lparr>redis := snd (f (clock s) (redis s))\<rparr>"
    using assms by (auto simp: redis_cmd_def external_def split: prod.splits)
  then show ?thesis using run [of "clock s" "script s"] by simp
next
  case (Cons st rest)
  let ?c = "clock s + int (elapsed st)"
  show ?thesis
  proof (cases "outcome st")
    case Works
    then show ?thesis
      using assms Cons by (intro run [of ?c rest]) (auto simp: redis_cmd_def external_def split: prod.splits)
  next
    case Fails
    then show ?thesis
      using assms Cons
      by (intro lost [of ?c rest "[Infra ErrUnavailable]"]) (auto simp: redis_cmd_def external_def split: prod.splits)
  next
    case ReplyLost
    then show ?thesis
      using assms Cons
      by (intro run [of ?c rest "[Infra ErrUnavailable]"]) (auto simp: redis_cmd_def external_def split: prod.splits)
  qed
qed

lemma wp_redis_cmd:
  assumes "\<And>c sc. clock s \<le> c \<Longrightarrow>
    (case f c (redis s) of (Inr a, r) \<Rightarrow> Q a (s\<lparr>clock := c, script := sc, redis := r\<rparr>) | (Inl e, r) \<Rightarrow> True)"
  shows "wp (redis_cmd f) Q (\<lambda>_ _. True) s"
proof (rule wpI)
  fix a t
  assume "redis_cmd f s = (Inr a, t)"
  then show "Q a t"
  proof (cases rule: redis_cmd_cases)
    case (run c sc e)
    then show ?thesis using assms [of c sc] by (cases "f c (redis s)") auto
  qed simp
qed simp

lemma wp_redis_do:
  assumes "\<And>c sc. clock s \<le> c \<Longrightarrow> Q (a c (redis s)) (s\<lparr>clock := c, script := sc, redis := g c (redis s)\<rparr>)"
  shows "wp (redis_cmd (\<lambda>now r. (Inr (a now r), g now r))) Q (\<lambda>_ _. True) s"
  by (rule wp_redis_cmd) (simp add: assms)

section \<open>Properties\<close>

text \<open>What other clients may do while one of them holds the lock \<open>l\<close>.\<close>

inductive lock_traffic :: "lock_key \<times> int \<Rightarrow> world \<Rightarrow> world \<Rightarrow> bool" for l where
  acquiring: "lock_traffic l s (snd (Acquire k ttl s))"
| releasing: "l' \<noteq> l \<Longrightarrow> lock_traffic l s (snd (Release l' s))"
| elsewhere: "rd_locks (redis t) = rd_locks (redis s) \<Longrightarrow> clock s \<le> clock t \<Longrightarrow> lock_traffic l s t"

text \<open>The lock is held, unless it has expired by now.\<close>

definition held_until :: "lock_key \<times> int \<Rightarrow> time \<Rightarrow> world \<Rightarrow> bool" where
  "held_until l e s \<longleftrightarrow> clock s < e \<longrightarrow> look_lock (e - 1) (redis s) (fst l) = Some (snd l)"

lemma look_lock_env: "rd_locks r = rd_locks r' \<Longrightarrow> look_lock t r k = look_lock t r' k"
  by (simp add: look_lock_def)

lemma Acquire_run:
  "Acquire k ttl s = redis_cmd (\<lambda>now r. case look_lock now r k of
      None \<Rightarrow> (Inr (Some (k, clock s)), put_lock now ttl k (clock s) r) | Some _ \<Rightarrow> (Inr None, r)) s"
  by (simp add: Acquire_def bind_def time_Now_def gets_def)

lemma lock_traffic_held:
  assumes "lock_traffic l s t" "held_until l e s"
  shows "held_until l e t"
  using assms
proof (cases rule: lock_traffic.cases)
  case (acquiring k ttl)
  obtain r where run: "Acquire k ttl s = (r, t)" using acquiring by (cases "Acquire k ttl s") simp
  then show ?thesis unfolding Acquire_run
  proof (cases rule: redis_cmd_cases)
    case (lost c sc e')
    then show ?thesis using assms(2) by (auto simp: held_until_def)
  next
    case (run c sc e')
    have "redis t = snd (locks.put_new c ttl k (clock s) (redis s))"
      using run(2) by (auto simp: locks.put_new_def split: option.splits)
    then show ?thesis
      using run(1,2) assms(2) locks.put_new_keeps [of "e - 1" "redis s" "fst l" "snd l" c]
      by (auto simp: held_until_def)
  qed
next
  case (releasing l')
  obtain r where run: "Release l' s = (r, t)" using releasing by (cases "Release l' s") simp
  then show ?thesis unfolding Release_def
  proof (cases rule: redis_cmd_cases)
    case (lost c sc e')
    then show ?thesis using assms(2) by (auto simp: held_until_def)
  next
    case (run c sc e')
    have "redis t = locks.del_if c (fst l') (snd l') (redis s)"
      using run(2) by (simp add: locks.del_if_def)
    then show ?thesis
      using run(1,2) assms(2) releasing(2)
        locks.del_if_keeps [of "e - 1" "redis s" "fst l" "snd l" c "fst l'" "snd l'"]
      by (auto simp: held_until_def prod_eq_iff)
  qed
next
  case elsewhere
  then show ?thesis using assms(2) by (simp add: held_until_def look_lock_def)
qed

lemma Acquire_held:
  assumes "Acquire k ttl s = (Inr (Some l), t)"
  shows "fst l = k \<and> held_until l (clock t + ttl) t"
  using assms unfolding Acquire_run
proof (cases rule: redis_cmd_cases)
  case (run c sc e)
  then have "look_lock c (redis s) k = None" "l = (k, clock s)"
    by (auto split: option.splits)
  then show ?thesis using run(1,2) by (auto simp: held_until_def locks.look_put)
qed simp

text \<open>
  Mutual exclusion of the accept lock: once a client has acquired a key, no other client acquires
  it before the time to live of the first lock has run out, whatever the clients do meanwhile (other
  acquisitions, releases of other locks, failing commands, lost replies, anything else that leaves
  the lock keys alone); only the release of this very lock ends it earlier.
\<close>

theorem lock_mutual_exclusion:
  assumes "Acquire key ttl s = (Inr (Some l), s1)"
    and "(lock_traffic l)\<^sup>*\<^sup>* s1 s2"
    and "Acquire key ttl' s2 = (Inr (Some l'), s3)"
  shows "clock s1 + ttl \<le> clock s3"
proof (rule ccontr)
  assume early: "\<not> ?thesis"
  let ?e = "clock s1 + ttl"
  have l: "fst l = key" and "held_until l ?e s1" using Acquire_held [OF assms(1)] by auto
  with assms(2) have held: "held_until l ?e s2"
    by (induction rule: rtranclp_induct) (auto intro: lock_traffic_held)
  from assms(3) show False unfolding Acquire_run
  proof (cases rule: redis_cmd_cases)
    case (run c sc e')
    have c: "clock s3 = c" using run(2) by simp
    then have "look_lock (?e - 1) (redis s2) key = Some (snd l)"
      using held run(1) early l by (simp add: held_until_def)
    then have "look_lock c (redis s2) key = Some (snd l)"
      by (rule locks.look_earlier) (use early c in simp)
    then show False using run(3) by simp
  qed simp
qed

theorem lock_mutual_exclusion_witness:
  "\<exists>s1 s3 l'. Acquire (OrderAcceptLock 1) (seconds 30) (world_at 5 empty_db)
        = (Inr (Some (OrderAcceptLock 1, 5)), s1)
     \<and> Acquire (OrderAcceptLock 1) (seconds 30) (s1\<lparr>clock := seconds 40\<rparr>) = (Inr (Some l'), s3)
     \<and> clock s1 + seconds 30 \<le> clock s3"
proof -
  let ?s = "world_at 5 empty_db"
  let ?s1 = "snd (Acquire (OrderAcceptLock 1) (seconds 30) ?s)"
  let ?s2 = "?s1\<lparr>clock := seconds 40\<rparr>"
  have s1: "Acquire (OrderAcceptLock 1) (seconds 30) ?s = (Inr (Some (OrderAcceptLock 1, 5)), ?s1)"
    by (simp add: Acquire_run redis_cmd_ok look_lock_def live_def sample_simps)
  have t: "(lock_traffic (OrderAcceptLock 1, 5))\<^sup>*\<^sup>* ?s1 ?s2"
    by (rule r_into_rtranclp, rule lock_traffic.elsewhere)
       (simp_all add: Acquire_run redis_cmd_ok look_lock_def live_def sample_simps)
  have s3: "Acquire (OrderAcceptLock 1) (seconds 30) ?s2
      = (Inr (Some (OrderAcceptLock 1, seconds 40)), snd (Acquire (OrderAcceptLock 1) (seconds 30) ?s2))"
    by (simp add: Acquire_run redis_cmd_ok look_lock_def put_lock_def live_def sample_simps)
  have "clock ?s1 + seconds 30 \<le> clock (snd (Acquire (OrderAcceptLock 1) (seconds 30) ?s2))"
    by (rule lock_mutual_exclusion [OF s1 t s3])
  with s1 s3 show ?thesis by blast
qed

text \<open>
  A run of the task queue: \<open>queue_run s published consumed t\<close> collects the tasks for which a
  publication was attempted and the tasks that a consumer received.
\<close>

inductive queue_run :: "world \<Rightarrow> dispatch_task list \<Rightarrow> dispatch_task list \<Rightarrow> world \<Rightarrow> bool" for s where
  start: "queue_run s [] [] s"
| publish: "queue_run s ps cs t \<Longrightarrow> queue_run s (ps @ [task]) cs (snd (Publish task t))"
| receive: "queue_run s ps cs t \<Longrightarrow> Consume t = (Inr (Some task), t') \<Longrightarrow> queue_run s ps (cs @ [task]) t'"
| nothing: "queue_run s ps cs t \<Longrightarrow> Consume t = (r, t') \<Longrightarrow> (\<nexists>task. r = Inr (Some task)) \<Longrightarrow>
    queue_run s ps cs t'"
| elsewhere: "queue_run s ps cs t \<Longrightarrow> rd_queue (redis t') = rd_queue (redis t) \<Longrightarrow>
    queue_run s ps cs t'"

lemma Publish_items:
  "queue_items (redis (snd (Publish task t))) \<in> {queue_items (redis t), queue_items (redis t) @ [task]}"
proof -
  obtain r t' where run: "Publish task t = (r, t')" by fastforce
  then have "queue_items (redis t') \<in> {queue_items (redis t), queue_items (redis t) @ [task]}"
    unfolding Publish_def by (cases rule: redis_cmd_cases) (auto simp: tasks.items_push)
  with run show ?thesis by simp
qed

lemma Consume_items:
  assumes "Consume t = (r, t')"
  shows "queue_items (redis t') = queue_items (redis t) \<and> (\<nexists>task. r = Inr (Some task))
    \<or> (\<exists>task. queue_items (redis t) = task # queue_items (redis t')
         \<and> (r = Inr (Some task) \<or> (\<nexists>task. r = Inr (Some task))))"
  using assms unfolding Consume_def
proof (cases rule: redis_cmd_cases)
  case (run c sc e)
  show ?thesis
  proof (cases "queue_pop (redis t)")
    case None
    then show ?thesis using run by auto
  next
    case (Some p)
    then obtain task q where p: "queue_pop (redis t) = Some (task, q)" by (cases p) auto
    then have "queue_items (redis t) = task # queue_items q" by (rule tasks.pop_Some)
    then show ?thesis using run p by auto
  qed
qed simp

text \<open>
  The task queue delivers in order and at most once: whatever fails on the way, the tasks that a
  consumer has received form a subsequence of the tasks whose publication was attempted.
\<close>

theorem tasks_delivered_in_order:
  assumes "queue_run s published_tasks received t" and "rd_queue (redis s) = []"
  shows "subseq received published_tasks"
proof -
  have "subseq (received @ queue_items (redis t)) published_tasks"
    using assms
  proof (induction rule: queue_run.induct)
    case start
    then show ?case by (simp add: queue_items_def)
  next
    case (publish ps cs t task)
    then have IH: "subseq (cs @ queue_items (redis t)) ps" by simp
    from Publish_items [of task t] show ?case
    proof
      assume "queue_items (redis (snd (Publish task t))) = queue_items (redis t)"
      then show ?thesis using list_emb_append_mono [OF IH, of "[]" "[task]"] by simp
    next
      assume "queue_items (redis (snd (Publish task t))) \<in> {queue_items (redis t) @ [task]}"
      then show ?thesis using IH list_emb_append_mono [OF IH, of "[task]" "[task]"] by simp
    qed
  next
    case (receive ps cs t task t')
    then show ?case using Consume_items [OF receive.hyps(2)] by auto
  next
    case (nothing ps cs t r t')
    then have IH: "subseq (cs @ queue_items (redis t)) ps" by simp
    from Consume_items [OF nothing.hyps(2)] show ?case
    proof
      assume "\<exists>task. queue_items (redis t) = task # queue_items (redis t')
         \<and> (r = Inr (Some task) \<or> (\<nexists>task. r = Inr (Some task)))"
      then obtain task where "queue_items (redis t) = task # queue_items (redis t')" by blast
      then have "subseq (cs @ queue_items (redis t')) (cs @ queue_items (redis t))"
        by (auto intro: list_emb_append_mono)
      then show ?thesis using IH by (rule subseq_order.trans)
    qed (use IH in simp)
  next
    case (elsewhere ps cs t t')
    then show ?case by (simp add: queue_items_def)
  qed
  then show ?thesis
    by (rule subseq_order.trans [rotated]) (simp add: subseq_rev_drop_many)
qed

definition sample_task :: "uuid \<Rightarrow> dispatch_task" where
  "sample_task n = \<lparr>task_OrderID = n, task_Attempt = 0, task_QueuedAt = 1, task_ExcludeDriverIDs = [],
     task_Config = None\<rparr>"

theorem tasks_delivered_in_order_witness: "subseq [sample_task 1] [sample_task 1, sample_task 2]"
proof -
  let ?s = "world_at 5 empty_db"
  have 1: "queue_run ?s [sample_task 1, sample_task 2] []
      (snd (Publish (sample_task 2) (snd (Publish (sample_task 1) ?s))))"
    using queue_run.publish [OF queue_run.publish [OF queue_run.start], of ?s "sample_task 1" "sample_task 2"]
    by simp
  have 2: "\<exists>t. Consume (snd (Publish (sample_task 2) (snd (Publish (sample_task 1) ?s))))
      = (Inr (Some (sample_task 1)), t)"
    by (simp add: Publish_def Consume_def redis_cmd_ok queue_push_def queue_pop_def sample_simps)
  then obtain t where "queue_run ?s [sample_task 1, sample_task 2] [sample_task 1] t"
    using queue_run.receive [OF 1] by force
  then show ?thesis by (rule tasks_delivered_in_order) (simp add: sample_simps)
qed

section \<open>Offers and their indexes\<close>

lemma live_set_add:
  "live_set now (set_add now k v m) k' =
     (if k' = k then (if v \<in> set (live_set now m k) then live_set now m k else live_set now m k @ [v])
      else live_set now m k')"
  by (auto simp: set_add_def Let_def live_expiry_def split: option.splits if_splits)

lemma set_add_key:
  "set_add now k v m k =
     Some (if v \<in> set (live_set now m k) then live_set now m k else live_set now m k @ [v],
           live_expiry now m k)"
  by (simp add: set_add_def Let_def)

lemma set_add_other [simp]: "k' \<noteq> k \<Longrightarrow> set_add now k v m k' = m k'"
  by (simp add: set_add_def Let_def)

lemma set_expire_other [simp]: "k' \<noteq> k \<Longrightarrow> set_expire now ttl k m k' = m k'"
  by (simp add: set_expire_def)

text \<open>After \<^verbatim>\<open>SADD\<close> and a later \<^verbatim>\<open>EXPIRE\<close> the member is in the live set, when the set did not expire in between.\<close>

lemma set_add_expire:
  assumes "\<And>e. live_expiry c1 m k = Some e \<Longrightarrow> c2 < e" and "c2 \<le> c3" "c3 < c2 + ttl" "c1 \<le> c2"
  shows "v \<in> set (live_set c3 (set_expire c2 ttl k (set_add c1 k v m)) k)"
proof -
  have "v \<in> set (live_set c2 (set_add c1 k v m) k)"
    using assms(1) by (cases "live_expiry c1 m k") (auto simp: live_set_def set_add_key)
  moreover from this have "live_set c2 (set_add c1 k v m) k \<noteq> []" by auto
  ultimately show ?thesis using assms by (simp add: set_expire_def)
qed

text \<open>The members of an index stay alive while it is written between \<open>a\<close> and \<open>b\<close>.\<close>

definition index_survives :: "time \<Rightarrow> time \<Rightarrow> ('v list \<times> time option) option \<Rightarrow> bool" where
  "index_survives a b entry =
     (case entry of Some (vs, Some e) \<Rightarrow> e \<le> a \<or> b < e | _ \<Rightarrow> True)"

lemma index_survives_expiry:
  "index_survives a b (m k) \<Longrightarrow> a \<le> c \<Longrightarrow> live_expiry c m k = Some e \<Longrightarrow> b < e"
  by (auto simp: index_survives_def live_expiry_def split: option.splits if_splits)

text \<open>
  A saved offer is visible: when \<^verbatim>\<open>SaveOffer\<close> succeeds within the time to live, the driver's
  offer can be read back as it was written, the order's index lists the driver and the driver's index
  lists the order, provided an index that was alive at the start has not expired on the way; the
  offers of other pairs are untouched.
\<close>

theorem SaveOffer_visible:
  assumes "SaveOffer offer ttl s = (Inr (), t)"
    and "clock t < clock s + ttl"
    and "index_survives (clock s) (clock t) (rd_order_offers (redis s) (off_OrderID offer))"
    and "index_survives (clock s) (clock t) (rd_driver_offers (redis s) (off_DriverID offer))"
  shows "look_offer (clock t) (redis t) (off_OrderID offer, off_DriverID offer) = Some offer
    \<and> off_DriverID offer \<in> set (live_set (clock t) (rd_order_offers (redis t)) (off_OrderID offer))
    \<and> off_OrderID offer \<in> set (live_set (clock t) (rd_driver_offers (redis t)) (off_DriverID offer))
    \<and> (\<forall>k. k \<noteq> (off_OrderID offer, off_DriverID offer) \<longrightarrow> rd_offers (redis t) k = rd_offers (redis s) k)"
proof -
  let ?goal = "\<lambda>t. look_offer (clock t) (redis t) (off_OrderID offer, off_DriverID offer) = Some offer
    \<and> off_DriverID offer \<in> set (live_set (clock t) (rd_order_offers (redis t)) (off_OrderID offer))
    \<and> off_OrderID offer \<in> set (live_set (clock t) (rd_driver_offers (redis t)) (off_DriverID offer))
    \<and> (\<forall>k. k \<noteq> (off_OrderID offer, off_DriverID offer) \<longrightarrow> rd_offers (redis t) k = rd_offers (redis s) k)"
  let ?hyp = "\<lambda>t. clock t < clock s + ttl
    \<and> index_survives (clock s) (clock t) (rd_order_offers (redis s) (off_OrderID offer))
    \<and> index_survives (clock s) (clock t) (rd_driver_offers (redis s) (off_DriverID offer))"
  have "wp (SaveOffer offer ttl) (\<lambda>_ t. ?hyp t \<longrightarrow> ?goal t) (\<lambda>_ _. True) s"
    unfolding SaveOffer_def wp_bind
  proof (intro wp_redis_do impI, goal_cases)
    case (1 c1 _ c2 _ c3 _ c4 _ c5)
    have c: "clock s \<le> c1" "c1 \<le> c2" "c2 \<le> c3" "c3 \<le> c4" "c4 \<le> c5" "c5 < clock s + ttl"
      using 1 by simp_all
    have i: "index_survives (clock s) c5 (rd_order_offers (redis s) (off_OrderID offer))"
      "index_survives (clock s) c5 (rd_driver_offers (redis s) (off_DriverID offer))"
      using 1 by simp_all
    have e1: "c4 < e" if "live_expiry c2 (rd_order_offers (redis s)) (off_OrderID offer) = Some e" for e
    proof -
      have "c5 < e" by (rule index_survives_expiry [OF i(1) _ that]) (use c in simp)
      with c show ?thesis by simp
    qed
    have e2: "c5 < e" if "live_expiry c3 (rd_driver_offers (redis s)) (off_DriverID offer) = Some e" for e
      by (rule index_survives_expiry [OF i(2) _ that]) (use c in simp)
    have o: "off_DriverID offer \<in> set (live_set c5 (set_expire c4 ttl (off_OrderID offer)
        (set_add c2 (off_OrderID offer) (off_DriverID offer) (rd_order_offers (redis s)))) (off_OrderID offer))"
      by (rule set_add_expire) (use c e1 in auto)
    have d: "off_OrderID offer \<in> set (live_set c5 (set_expire c5 ttl (off_DriverID offer)
        (set_add c3 (off_DriverID offer) (off_OrderID offer) (rd_driver_offers (redis s)))) (off_DriverID offer))"
      by (rule set_add_expire) (use c e2 in auto)
    show ?case using c o d by (simp add: put_offer_def look_offer_def)
  qed
  from wpD [OF this assms(1)] assms(2-4) show ?thesis by blast
qed

definition sample_offer :: order_offer where
  "sample_offer = \<lparr>off_OrderID = 1, off_DriverID = 3, off_Attempt = 0, off_RadiusMeters = 1000,
     off_DistanceMeters = 350, off_ExpiresAt = seconds 20, off_CreatedAt = seconds 5,
     off_AcceptLockTTLSeconds = 30\<rparr>"

theorem SaveOffer_visible_witness:
  "\<exists>t. SaveOffer sample_offer (seconds 15) (world_at (seconds 5) empty_db) = (Inr (), t)
     \<and> look_offer (clock t) (redis t) (1, 3) = Some sample_offer"
proof -
  let ?s = "world_at (seconds 5) empty_db"
  let ?t = "snd (SaveOffer sample_offer (seconds 15) ?s)"
  have run: "SaveOffer sample_offer (seconds 15) ?s = (Inr (), ?t)" "clock ?t = clock ?s"
    by (simp_all add: SaveOffer_def bind_def redis_cmd_ok world_at_def)
  have "look_offer (clock ?t) (redis ?t) (off_OrderID sample_offer, off_DriverID sample_offer)
      = Some sample_offer"
    using SaveOffer_visible [OF run(1)] run(2)
    by (simp add: index_survives_def sample_simps)
  then show ?thesis using run(1) by (auto simp: sample_offer_def)
qed

lemma wp_for_each_redis:
  assumes "\<And>x s. x \<in> set xs \<Longrightarrow> I s \<Longrightarrow> wp (body x) (\<lambda>_. I) (\<lambda>_ _. True) s" and "I s"
  shows "wp (for_each xs body) (\<lambda>_. I) (\<lambda>_ _. True) s"
  by (rule wp_for_each [where I = I]) (use assms in auto)

text \<open>
  Removing an order's offers withdraws them all: when \<^verbatim>\<open>RemoveOffers\<close> succeeds while the order's
  index is alive, no driver listed there can read an offer of the order any more, at no later
  instant, the index is gone, and the offers of every other order are untouched.
\<close>

theorem RemoveOffers_withdraws:
  assumes "RemoveOffers orderID s = (Inr (), t)"
    and "rd_order_offers (redis s) orderID = Some (driverIDs, Some e)" and "clock t < e"
  shows "(\<forall>d \<in> set driverIDs. \<forall>now. look_offer now (redis t) (orderID, d) = None)
    \<and> rd_order_offers (redis t) orderID = None
    \<and> (\<forall>o' d. o' \<noteq> orderID \<longrightarrow> rd_offers (redis t) (o', d) = rd_offers (redis s) (o', d))"
proof -
  let ?I = "\<lambda>c0 u. c0 \<le> clock u \<and> rd_offers (redis u) = rd_offers (redis s)"
  let ?Q = "\<lambda>t. clock t < e \<longrightarrow> (\<forall>d \<in> set driverIDs. \<forall>now. look_offer now (redis t) (orderID, d) = None)
    \<and> rd_order_offers (redis t) orderID = None
    \<and> (\<forall>o' d. o' \<noteq> orderID \<longrightarrow> rd_offers (redis t) (o', d) = rd_offers (redis s) (o', d))"
  have "wp (RemoveOffers orderID) (\<lambda>_. ?Q) (\<lambda>_ _. True) s"
    unfolding RemoveOffers_def ListOfferedDriverIDs_def wp_bind
  proof (rule wp_redis_do)
    fix c0 sc0
    let ?s0 = "s\<lparr>clock := c0, script := sc0, redis := redis s\<rparr>"
    let ?ds = "live_set c0 (rd_order_offers (redis s)) orderID"
    have "wp (for_each ?ds (\<lambda>driverID. redis_cmd (\<lambda>now r. (Inr (),
          r\<lparr>rd_driver_offers := set_remove now driverID orderID (rd_driver_offers r)\<rparr>))))
        (\<lambda>_. ?I c0) (\<lambda>_ _. True) ?s0"
      by (rule wp_for_each_redis) (auto intro!: wp_redis_do)
    then show "wp (for_each ?ds (\<lambda>driverID. redis_cmd (\<lambda>now r. (Inr (),
          r\<lparr>rd_driver_offers := set_remove now driverID orderID (rd_driver_offers r)\<rparr>))))
        (\<lambda>_. wp (redis_cmd (\<lambda>now r. (Inr (), del_order_offers orderID ?ds r))) (\<lambda>_. ?Q) (\<lambda>_ _. True))
        (\<lambda>_ _. True) ?s0"
    proof (rule wp_conseq)
      fix a :: unit and u :: world
      assume "?I c0 u"
      then show "wp (redis_cmd (\<lambda>now r. (Inr (), del_order_offers orderID ?ds r))) (\<lambda>_. ?Q) (\<lambda>_ _. True) u"
        using assms(2)
        by (intro wp_redis_do) (auto simp: del_order_offers_def look_offer_def live_def live_set_def)
    qed simp
  qed
  from wpD [OF this assms(1)] assms(3) show ?thesis by blast
qed

theorem RemoveOffers_withdraws_witness:
  "\<exists>s t. look_offer (clock s) (redis s) (1, 3) = Some sample_offer
     \<and> RemoveOffers 1 s = (Inr (), t) \<and> look_offer (clock t) (redis t) (1, 3) = None"
proof -
  let ?s = "snd (SaveOffer sample_offer (seconds 15) (world_at (seconds 5) empty_db))"
  let ?t = "snd (RemoveOffers 1 ?s)"
  have s: "rd_order_offers (redis ?s) 1 = Some ([3], Some (seconds 20))" "script ?s = []"
    "look_offer (clock ?s) (redis ?s) (1, 3) = Some sample_offer" "clock ?s = seconds 5"
    by (simp_all add: SaveOffer_def bind_def redis_cmd_ok sample_simps sample_offer_def set_add_def
        set_expire_def live_set_def live_expiry_def put_offer_def look_offer_def)
  then have r: "RemoveOffers 1 ?s = (Inr (), ?t)" "clock ?t = seconds 5"
    by (simp_all add: RemoveOffers_def ListOfferedDriverIDs_def bind_def redis_cmd_ok live_set_def ret_def)
  have "look_offer (clock ?t) (redis ?t) (1, 3) = None"
    using RemoveOffers_withdraws [OF r(1) s(1)] r(2) by simp
  with s r show ?thesis by blast
qed

end
