(* ===== verification/Realtime_Gateway.thy ===== *)
theory Realtime_Gateway
  imports Sample_World
begin

text \<open>
  Messages to the applications: \<^verbatim>\<open>internal/redis/realtime_gateway.go\<close>.  A message is published on
  the channel of a user; a driver is found by his user, a taxi park by its owner and its staff.  The
  identifier and the instant that a message carries are not modelled.
\<close>

definition publishToUser :: "uuid \<Rightarrow> string \<Rightarrow> payload \<Rightarrow> (world, unit) op" where
  "publishToUser userID eventName body =
     external (\<lambda>s. (Inr (), s\<lparr>published := published s @
       [\<lparr>msg_UserID = userID, msg_Event = eventName, msg_Payload = body\<rparr>]\<rparr>))"

definition driverRealtimeEvent :: "string \<Rightarrow> string" where
  "driverRealtimeEvent eventName =
     (if eventName = ''order.assigned'' then ''order.accepted''
      else if eventName = ''order.expired'' then ''order.offer_expired''
      else eventName)"

definition passengerRealtimeEvent :: "string \<Rightarrow> string" where
  "passengerRealtimeEvent eventName =
     (if eventName = ''driver_assigned'' then ''order.driver_assigned'' else eventName)"

definition driverUserID :: "uuid \<Rightarrow> (world, uuid) op" where
  "driverUserID driverID =
     query (\<lambda>now d. one_row (map drv_UserID
       (filter (\<lambda>dr. drv_ID dr = driverID \<and> drv_DeletedAt dr = None) (drivers d))))"

text \<open>The owner of each target park, and its active staff; \<^verbatim>\<open>UNION\<close> drops repetitions.\<close>

definition park_recipients :: "db \<Rightarrow> uuid list \<Rightarrow> uuid list" where
  "park_recipients d parkIDs = remdups
     ([tp_OwnerUserID tp. tp \<leftarrow> taxi_parks d, tp_ID tp \<in> set parkIDs \<and> tp_DeletedAt tp = None]
      @ [stf_UserID st. st \<leftarrow> taxi_park_staff d, u \<leftarrow> users d,
           usr_ID u = stf_UserID st \<and> stf_TaxiParkID st \<in> set parkIDs
           \<and> stf_Role st \<in> {UserRoleDispatcher, UserRoleTaxiPark}
           \<and> stf_IsActive st \<and> stf_DeletedAt st = None
           \<and> usr_IsActive u \<and> usr_DeletedAt u = None])"

definition taxiParkRealtimeRecipientUserIDs :: "uuid \<Rightarrow> (world, uuid list) op" where
  "taxiParkRealtimeRecipientUserIDs driverID =
     query (\<lambda>now d. Inr (park_recipients d
       [tp_ID tp. dr \<leftarrow> drivers d, tp \<leftarrow> taxi_parks d,
          drv_ID dr = driverID \<and> drv_DeletedAt dr = None
          \<and> drv_TaxiParkID dr = Some (tp_ID tp) \<and> tp_DeletedAt tp = None]))"

text \<open>\<^verbatim>\<open>COALESCE(o.park_id, metadata->>'taxi_park_id')\<close>: the serving park or the creating one.\<close>

definition order_park :: "order_row \<Rightarrow> uuid option" where
  "order_park r = (case ord_ParkID r of None \<Rightarrow> meta_taxi_park_id r | Some p \<Rightarrow> Some p)"

definition taxiParkRealtimeRecipientUserIDsByOrder :: "uuid \<Rightarrow> (world, uuid list) op" where
  "taxiParkRealtimeRecipientUserIDsByOrder orderID =
     query (\<lambda>now d. Inr (park_recipients d
       (concat (map (\<lambda>r. case order_park r of None \<Rightarrow> [] | Some p \<Rightarrow> [p])
          (filter (\<lambda>r. ord_ID r = orderID \<and> ord_DeletedAt r = None) (orders d))))))"

definition SendToUser :: "uuid \<Rightarrow> string \<Rightarrow> payload \<Rightarrow> (world, unit) op" where
  "SendToUser userID eventName body = publishToUser userID eventName body"

definition SendToDriver :: "uuid \<Rightarrow> string \<Rightarrow> payload \<Rightarrow> (world, unit) op" where
  "SendToDriver driverID eventName body =
     bind (driverUserID driverID)
       (\<lambda>userID. publishToUser userID (driverRealtimeEvent eventName) body)"

definition SendToPassenger :: "uuid \<Rightarrow> string \<Rightarrow> payload \<Rightarrow> (world, unit) op" where
  "SendToPassenger passengerID eventName body =
     publishToUser passengerID (passengerRealtimeEvent eventName) body"

definition SendDriverPresenceToTaxiPark :: "uuid \<Rightarrow> payload \<Rightarrow> (world, unit) op" where
  "SendDriverPresenceToTaxiPark driverID body =
     bind (taxiParkRealtimeRecipientUserIDs driverID)
       (\<lambda>ids. for_each ids (\<lambda>userID. publishToUser userID ''driver.status.updated'' body))"

definition SendDriverLocationToTaxiPark :: "uuid \<Rightarrow> payload \<Rightarrow> (world, unit) op" where
  "SendDriverLocationToTaxiPark driverID body =
     bind (taxiParkRealtimeRecipientUserIDs driverID)
       (\<lambda>ids. for_each ids (\<lambda>userID. publishToUser userID ''driver.location_updated'' body))"

definition SendToTaxiParkByOrder :: "uuid \<Rightarrow> string \<Rightarrow> payload \<Rightarrow> (world, unit) op" where
  "SendToTaxiParkByOrder orderID eventName body =
     bind (taxiParkRealtimeRecipientUserIDsByOrder orderID)
       (\<lambda>ids. for_each ids (\<lambda>userID. publishToUser userID eventName body))"

text \<open>The push gateway: an external call that takes the notification.\<close>

definition NotifyPassenger :: "uuid \<Rightarrow> payload \<Rightarrow> (world, unit) op" where
  "NotifyPassenger passengerID body =
     external (\<lambda>s. (Inr (), s\<lparr>notified := notified s @
       [\<lparr>ntf_PassengerID = passengerID, ntf_Data = body\<rparr>]\<rparr>))"

section \<open>Sending a message leaves the tables and the keys alone\<close>

lemma keeps_publish [keeps_intros]:
  "keeps (on_db P) (publishToUser u e b)" "keeps (on_redis R) (publishToUser u e b)"
  "keeps (on_db P) (NotifyPassenger u b)" "keeps (on_redis R) (NotifyPassenger u b)"
  unfolding publishToUser_def NotifyPassenger_def
  by (rule keeps_external; simp add: keeps_def)+

lemma keeps_send [keeps_intros]:
  "keeps (on_db P) (SendToUser u e b)" "keeps (on_db P) (SendToDriver u e b)"
  "keeps (on_db P) (SendToPassenger u e b)" "keeps (on_db P) (SendDriverPresenceToTaxiPark u b)"
  "keeps (on_db P) (SendDriverLocationToTaxiPark u b)" "keeps (on_db P) (SendToTaxiParkByOrder u e b)"
  unfolding SendToUser_def SendToDriver_def SendToPassenger_def SendDriverPresenceToTaxiPark_def
    SendDriverLocationToTaxiPark_def SendToTaxiParkByOrder_def driverUserID_def
    taxiParkRealtimeRecipientUserIDs_def taxiParkRealtimeRecipientUserIDsByOrder_def
  by (intro keeps_intros)+

lemma publishToUser_ok:
  "script s = [] \<Longrightarrow> publishToUser u e b s =
     (Inr (), s\<lparr>published := published s @ [\<lparr>msg_UserID = u, msg_Event = e, msg_Payload = b\<rparr>]\<rparr>)"
  by (simp add: publishToUser_def external_ok)

lemma wp_publish_ok:
  "script s = [] \<Longrightarrow> wp (publishToUser u e b) Q E s =
     Q () (s\<lparr>published := published s @ [\<lparr>msg_UserID = u, msg_Event = e, msg_Payload = b\<rparr>]\<rparr>)"
  "script s = [] \<Longrightarrow> wp (NotifyPassenger u b) Q E s =
     Q () (s\<lparr>notified := notified s @ [\<lparr>ntf_PassengerID = u, ntf_Data = b\<rparr>]\<rparr>)"
  by (simp_all add: publishToUser_def NotifyPassenger_def external_ok wp_def)

end
