(* ===== verification/Dispatch.thy ===== *)
theory Dispatch
  imports Order_Lifecycle Redis_Store Realtime_Gateway
begin

text \<open>
  The dispatch service (\<^verbatim>\<open>internal/dispatch/service.go\<close>) and its worker (\<^verbatim>\<open>worker.go\<close>), over the
  order repository, the Redis stores and the gateway.  Logging and metrics are left out; a method's
  text wrapping of an error keeps the sentinels.  The dependencies that may be nil are flags.
\<close>

record dispatch_service =
  svc_has_state_store :: bool
  svc_has_notifier :: bool
  svc_config :: dispatch_config

definition NewService :: "bool \<Rightarrow> bool \<Rightarrow> dispatch_config \<Rightarrow> dispatch_service" where
  "NewService has_store has_notifier config =
     \<lparr>svc_has_state_store = has_store, svc_has_notifier = has_notifier,
      svc_config = normalizeConfig config\<rparr>"

text \<open>\<^verbatim>\<open>if dependency != nil { .. }\<close>.\<close>

definition if_set :: "bool \<Rightarrow> (world, unit) op \<Rightarrow> (world, unit) op" where
  "if_set b m = (if b then m else done_op)"

section \<open>Starting a dispatch\<close>

definition enqueueOrder ::
  "dispatch_service \<Rightarrow> uuid \<Rightarrow> dispatch_config option \<Rightarrow> (world, unit) op" where
  "enqueueOrder service orderID config =
     bind (if svc_has_state_store service then BeginDispatch orderID (minutes 30) else ret True)
       (\<lambda>started.
     if \<not> started then done_op
     else
       andthen (MarkOrderSearching orderID)
       (bind time_Now (\<lambda>now.
          Publish \<lparr>task_OrderID = orderID, task_Attempt = 0, task_QueuedAt = now,
                   task_ExcludeDriverIDs = [], task_Config = config\<rparr>)))"

definition EnqueueOrder :: "dispatch_service \<Rightarrow> uuid \<Rightarrow> (world, unit) op" where
  "EnqueueOrder service orderID = enqueueOrder service orderID None"

definition EnqueueOrderWithConfig ::
  "dispatch_service \<Rightarrow> uuid \<Rightarrow> dispatch_config \<Rightarrow> (world, unit) op" where
  "EnqueueOrderWithConfig service orderID config =
     enqueueOrder service orderID (Some (normalizeConfig config))"

section \<open>One attempt\<close>

definition no_drivers_reason :: string where
  "no_drivers_reason = ''no online drivers found in dispatch radius''"

definition failNoDriversFound ::
  "dispatch_service \<Rightarrow> order \<Rightarrow> int \<Rightarrow> (world, dispatch_result) op" where
  "failNoDriversFound service o1 radiusMeters =
     andthen (FailOrder (ord_ID o1) no_drivers_reason)
     (andthen (SendToPassenger (ord_PassengerID o1) EventOrderNoDriversFound
        [(''order_id'', PUuid (ord_ID o1))])
     (andthen (SendToTaxiParkByOrder (ord_ID o1) EventOrderNoDriversFound
        [(''order_id'', PUuid (ord_ID o1))])
     (andthen (if_set (svc_has_state_store service) (FinishDispatch (ord_ID o1)))
     (ret \<lparr>res_OrderID = ord_ID o1, res_Status = OrderStatusFailed, res_Attempt = 0,
           res_RadiusMeters = radiusMeters, res_OfferedDriverIDs = [], res_NextRetryAfter = 0,
           res_NoDriversAvailable = True\<rparr>))))"

definition scheduleRadiusExpansionAfterTimeout ::
  "dispatch_service \<Rightarrow> dispatch_task \<Rightarrow> dispatch_config \<Rightarrow> (world, unit) op" where
  "scheduleRadiusExpansionAfterTimeout service task config =
     (if \<not> snd (radiusForAttempt config (task_Attempt task + 1))
      then bind (GetOrderByID (task_OrderID task)) (\<lambda>o1.
             andthen (bind (failNoDriversFound service o1 (lastRadius config)) (\<lambda>_. done_op)) done_op)
      else bind time_Now (\<lambda>now. Schedule task (now + OfferTTL config)))"

definition scheduleNextAttempt ::
  "dispatch_service \<Rightarrow> dispatch_task \<Rightarrow> uuid list \<Rightarrow> dispatch_config \<Rightarrow> (world, unit) op" where
  "scheduleNextAttempt service task newlyExcludedDriverIDs config =
     bind time_Now (\<lambda>now.
       let nextTask = \<lparr>task_OrderID = task_OrderID task, task_Attempt = task_Attempt task + 1,
             task_QueuedAt = now,
             task_ExcludeDriverIDs =
               appendUniqueDriverIDs (task_ExcludeDriverIDs task) newlyExcludedDriverIDs,
             task_Config = task_Config task\<rparr>
       in if \<not> snd (radiusForAttempt config (task_Attempt nextTask))
          then bind (GetOrderByID (task_OrderID task)) (\<lambda>o1.
                 bind (failNoDriversFound service o1 (lastRadius config)) (\<lambda>_. done_op))
          else Publish nextTask)"

text \<open>A driver whose offer is still running is counted and not offered again.\<close>

definition offerDriver ::
  "order \<Rightarrow> int \<Rightarrow> int \<Rightarrow> dispatch_config \<Rightarrow> time \<Rightarrow> driver_candidate \<Rightarrow> (world, uuid list) op" where
  "offerDriver o1 attempt radiusMeters config now candidate =
     bind (GetOffer (ord_ID o1) (cand_DriverID candidate)) (\<lambda>existing.
     bind time_Now (\<lambda>checked.
     if (case existing of None \<Rightarrow> False | Some offer \<Rightarrow> checked < off_ExpiresAt offer)
     then ret [cand_DriverID candidate]
     else
       let offer = \<lparr>off_OrderID = ord_ID o1, off_DriverID = cand_DriverID candidate,
             off_Attempt = attempt, off_RadiusMeters = radiusMeters,
             off_DistanceMeters = cand_DistanceMeters candidate,
             off_ExpiresAt = now + OfferTTL config, off_CreatedAt = now,
             off_AcceptLockTTLSeconds = AcceptLockTTL config div seconds 1\<rparr>
       in andthen (SaveOffer offer (OfferTTL config))
          (andthen (SendToDriver (cand_DriverID candidate) EventOrderOffer (offerPayload o1 offer))
          (ret [cand_DriverID candidate]))))"

definition offerDrivers ::
  "order \<Rightarrow> int \<Rightarrow> driver_candidate list \<Rightarrow> int \<Rightarrow> dispatch_config \<Rightarrow> (world, uuid list) op" where
  "offerDrivers o1 attempt candidates radiusMeters config =
     bind time_Now (\<lambda>now.
     let expiresAt = now + OfferTTL config;
         candidates = (if int (length candidates) > MaxDriversPerOffer config
                       then take (nat (MaxDriversPerOffer config)) candidates else candidates)
     in bind (collect candidates (offerDriver o1 attempt radiusMeters config now))
          (\<lambda>offeredDriverIDs.
        andthen (AddOrderEvent
          \<lparr>oev_OrderID = ord_ID o1, oev_ActorUserID = None, oev_ActorDriverID = None,
           oev_EventType = OrderEventOffer,
           oev_Payload =
             [(''attempt'', PInt attempt), (''radius_meters'', PInt radiusMeters),
              (''offered_driver_ids'', PUuids offeredDriverIDs), (''expires_at'', PTime expiresAt),
              (''max_drivers_per_offer'', PInt (MaxDriversPerOffer config))],
           oev_CreatedAt = now\<rparr>)
        (andthen (SendToTaxiParkByOrder (ord_ID o1) EventOrderOffer
          [(''order_id'', PUuid (ord_ID o1)), (''attempt'', PInt attempt),
           (''radius_meters'', PInt radiusMeters), (''offered_driver_ids'', PUuids offeredDriverIDs),
           (''offer_expires_at'', PTime expiresAt),
           (''offered_driver_count'', PInt (int (length offeredDriverIDs)))])
        (ret offeredDriverIDs))))"

definition ProcessTask ::
  "dispatch_service \<Rightarrow> (coordinates \<Rightarrow> coordinates \<Rightarrow> rat) \<Rightarrow> dispatch_task \<Rightarrow>
   (world, dispatch_result) op" where
  "ProcessTask service st_distance task0 =
     (let config = configForTask (svc_config service) task0
      in bind (GetOrderByID (task_OrderID task0)) (\<lambda>o0.
         if OrderStatus_IsTerminal (ord_Status o0) \<or> ord_Status o0 = OrderStatusDriverAssigned
         then fail [Service ErrDispatchAlreadyFinished]
         else bind (if ord_Status o0 \<noteq> OrderStatusSearching
                    then andthen (MarkOrderSearching (task_OrderID task0))
                           (ret (o0\<lparr>ord_Status := OrderStatusSearching\<rparr>))
                    else ret o0) (\<lambda>o1.
         let task = task0\<lparr>task_ExcludeDriverIDs :=
               appendUniqueDriverIDs (task_ExcludeDriverIDs task0) (ord_DeclinedDriverIDs o1)\<rparr>;
             (radiusMeters, ok) = radiusForAttempt config (task_Attempt task)
         in if \<not> ok then failNoDriversFound service o1 radiusMeters
            else bind (FindNearestOnlineDrivers st_distance
                   \<lparr>ndq_CityID = ord_CityID o1, ndq_FareMode = ord_FareMode o1,
                    ndq_CarClassID = ord_CarClassID o1, ndq_Pickup = ord_PickupLocation o1,
                    ndq_RadiusMeters = radiusMeters, ndq_Limit = MaxDriversPerOffer config,
                    ndq_ExcludeIDs = task_ExcludeDriverIDs task,
                    ndq_LocationMaxAge = DriverLocationMaxAge config\<rparr>) (\<lambda>candidates.
         if candidates = []
         then andthen (scheduleRadiusExpansionAfterTimeout service task config)
                (ret \<lparr>res_OrderID = task_OrderID task, res_Status = OrderStatusSearching,
                      res_Attempt = task_Attempt task, res_RadiusMeters = radiusMeters,
                      res_OfferedDriverIDs = [], res_NextRetryAfter = OfferTTL config,
                      res_NoDriversAvailable = False\<rparr>)
         else
           bind (offerDrivers o1 (task_Attempt task) candidates radiusMeters config)
             (\<lambda>offeredDriverIDs.
           andthen (bind time_Now (\<lambda>now. Schedule task (now + OfferTTL config)))
           (andthen (if_set (svc_has_state_store service)
              (MarkActiveOffer (task_OrderID task) (OfferTTL config)))
           (ret \<lparr>res_OrderID = task_OrderID task, res_Status = OrderStatusSearching,
                 res_Attempt = task_Attempt task, res_RadiusMeters = radiusMeters,
                 res_OfferedDriverIDs = offeredDriverIDs, res_NextRetryAfter = OfferTTL config,
                 res_NoDriversAvailable = False\<rparr>)))))))"

section \<open>Price confirmation\<close>

definition confirmed_assignment ::
  "uuid \<Rightarrow> uuid \<Rightarrow> uuid \<Rightarrow> (world, unit) op" where
  "confirmed_assignment orderID driverID passengerID =
     andthen (SendToDriver driverID EventOrderAssigned [(''order_id'', PUuid orderID)])
     (andthen (SendToPassenger passengerID EventPassengerDriverAssigned
        [(''order_id'', PUuid orderID), (''driver_id'', PUuid driverID)])
     (SendToTaxiParkByOrder orderID ''order.driver_assigned''
        [(''order_id'', PUuid orderID), (''driver_id'', PUuid driverID)]))"

definition ConfirmOrderPrice :: "uuid \<Rightarrow> uuid \<Rightarrow> (world, unit) op" where
  "ConfirmOrderPrice orderID passengerID =
     bind (ConfirmDriverPrice orderID passengerID) (\<lambda>confirmed.
     bind (GetOrderByID orderID) (\<lambda>o1.
     case ord_DriverID o1 of
       None \<Rightarrow> fail [Service ErrOfferNotAccepted]
     | Some driverID \<Rightarrow>
         if ord_PassengerID o1 \<noteq> passengerID \<or> ord_Status o1 \<noteq> OrderStatusDriverAssigned
         then fail [Service ErrOfferNotAccepted]
         else if \<not> confirmed
         then (if ord_PriceConfirmationState o1 = ''confirmed'' then done_op
               else fail [Service ErrOfferNotAccepted])
         else confirmed_assignment orderID driverID passengerID))"

definition releasePriceConfirmation ::
  "dispatch_service \<Rightarrow> uuid \<Rightarrow> uuid \<Rightarrow> (world, unit) op" where
  "releasePriceConfirmation service orderID driverID =
     bind (ReleaseDriverReservation orderID driverID) (\<lambda>released.
     if \<not> released then fail [Service ErrOfferNotAccepted]
     else
       andthen (SendToDriver driverID EventPriceConfirmationExpired [(''order_id'', PUuid orderID)])
       (bind (GetOrderByID orderID) (\<lambda>o1.
       andthen (SendToPassenger (ord_PassengerID o1) EventPriceConfirmationExpired
          [(''order_id'', PUuid orderID)])
       (andthen (if_set (svc_has_state_store service)
          (bind (BeginDispatch orderID (minutes 30)) (\<lambda>_. done_op)))
       (bind time_Now (\<lambda>now.
          Publish \<lparr>task_OrderID = orderID, task_Attempt = 0, task_QueuedAt = now,
                   task_ExcludeDriverIDs = [driverID], task_Config = None\<rparr>))))))"

definition DeclineOrderPrice :: "dispatch_service \<Rightarrow> uuid \<Rightarrow> uuid \<Rightarrow> (world, unit) op" where
  "DeclineOrderPrice service orderID passengerID =
     bind (GetOrderByID orderID) (\<lambda>o1.
     case ord_DriverID o1 of
       None \<Rightarrow> fail [Service ErrOfferNotAccepted]
     | Some driverID \<Rightarrow>
         if ord_PassengerID o1 \<noteq> passengerID \<or> ord_PriceConfirmationState o1 \<noteq> ''pending''
         then fail [Service ErrOfferNotAccepted]
         else releasePriceConfirmation service orderID driverID)"

definition ExpireOrderPrice :: "dispatch_service \<Rightarrow> uuid \<Rightarrow> (world, unit) op" where
  "ExpireOrderPrice service orderID =
     bind (GetOrderByID orderID) (\<lambda>o1.
     bind time_Now (\<lambda>now.
     case (ord_DriverID o1, ord_PriceConfirmationExpiresAt o1) of
       (Some driverID, Some expiresAt) \<Rightarrow>
         if ord_PriceConfirmationState o1 = ''pending'' \<and> \<not> now < expiresAt
         then releasePriceConfirmation service orderID driverID else done_op
     | _ \<Rightarrow> done_op))"

definition expirePriceConfirmation :: "dispatch_service \<Rightarrow> dispatch_task \<Rightarrow> (world, unit) op" where
  "expirePriceConfirmation service task =
     andthen (ExpireOrderPrice service (task_OrderID task)) (RemoveTimeout task)"

section \<open>Timeouts\<close>

definition HandleOfferTimeout :: "dispatch_service \<Rightarrow> dispatch_task \<Rightarrow> (world, unit) op" where
  "HandleOfferTimeout service task =
     (if task_Attempt task = -1 then expirePriceConfirmation service task
      else
        let config = configForTask (svc_config service) task
        in bind (GetOrderByID (task_OrderID task)) (\<lambda>o1.
           if ord_Status o1 \<noteq> OrderStatusSearching then RemoveTimeout task
           else
             bind (ListOfferedDriverIDs (task_OrderID task)) (\<lambda>offeredDriverIDs.
             andthen (for_each offeredDriverIDs (\<lambda>driverID.
                SendToDriver driverID EventOrderExpired [(''order_id'', PUuid (task_OrderID task))]))
             (andthen (RemoveOffers (task_OrderID task))
             (andthen (RemoveTimeout task)
             (scheduleNextAttempt service task offeredDriverIDs config))))))"

section \<open>Accepting and rejecting\<close>

definition cancelRemainingOffers ::
  "dispatch_service \<Rightarrow> uuid \<Rightarrow> uuid \<Rightarrow> (world, unit) op" where
  "cancelRemainingOffers service orderID acceptedDriverID =
     bind (ListOfferedDriverIDs orderID) (\<lambda>offeredDriverIDs.
     andthen (for_each offeredDriverIDs (\<lambda>offeredDriverID.
        if offeredDriverID = acceptedDriverID then done_op
        else SendToDriver offeredDriverID EventOrderCancelled [(''order_id'', PUuid orderID)]))
     (andthen (RemoveOffers orderID)
     (if_set (svc_has_state_store service) (FinishDispatch orderID))))"

text \<open>The part of \<^verbatim>\<open>AcceptOffer\<close> that tells everybody, after the driver has been reserved.\<close>

definition announce_acceptance ::
  "dispatch_service \<Rightarrow> uuid \<Rightarrow> uuid \<Rightarrow> order \<Rightarrow> bool \<Rightarrow> candidate_fare \<Rightarrow> int \<Rightarrow> time \<Rightarrow>
   (world, unit) op" where
  "announce_acceptance service orderID driverID o1 requires fare priceCents confirmationExpiresAt =
     (if \<not> requires then confirmed_assignment orderID driverID (ord_PassengerID o1)
      else
        andthen (SendToDriver driverID EventPriceConfirmationRequested
          [(''order_id'', PUuid orderID), (''confirmation_expires_at'', PTime confirmationExpiresAt)])
        (andthen (SendToPassenger (ord_PassengerID o1) EventPriceConfirmationRequested
          [(''order_id'', PUuid orderID), (''driver_id'', PUuid driverID),
           (''fare_mode'', PFareMode (trf_FareMode (fare_Tariff fare))),
           (''proposed_price_cents'', PInt priceCents),
           (''confirmation_expires_at'', PTime confirmationExpiresAt)])
        (andthen (if_set (svc_has_notifier service) (NotifyPassenger (ord_PassengerID o1)
          [(''event'', PStr EventPriceConfirmationRequested), (''order_id'', PUuid orderID),
           (''driver_id'', PUuid driverID)]))
        (SendToTaxiParkByOrder orderID EventPriceConfirmationRequested
          [(''order_id'', PUuid orderID), (''driver_id'', PUuid driverID)]))))"

text \<open>What follows the reservation: the timer, the states, the other offers, the messages.\<close>

definition after_reservation ::
  "dispatch_service \<Rightarrow> uuid \<Rightarrow> uuid \<Rightarrow> time \<Rightarrow> bool \<Rightarrow> candidate_fare \<Rightarrow> int \<Rightarrow> time \<Rightarrow>
   (world, unit) op" where
  "after_reservation service orderID driverID acceptedAt requires fare priceCents confirmationExpiresAt =
     andthen (if_set requires (Schedule
        \<lparr>task_OrderID = orderID, task_Attempt = -1, task_QueuedAt = acceptedAt,
         task_ExcludeDriverIDs = [driverID], task_Config = None\<rparr> confirmationExpiresAt))
     (andthen (if_set (svc_has_state_store service)
        (MarkAcceptedDriver orderID driverID (hours 24)))
     (andthen (MarkDriverBusy driverID)
     (andthen (cancelRemainingOffers service orderID driverID)
     (bind (GetOrderByID orderID) (\<lambda>o1.
        announce_acceptance service orderID driverID o1 requires fare priceCents
          confirmationExpiresAt)))))"

text \<open>The part between the acquisition and the release of the accept lock.\<close>

definition reserve_driver :: "dispatch_service \<Rightarrow> uuid \<Rightarrow> uuid \<Rightarrow> (world, unit) op" where
  "reserve_driver service orderID driverID =
     bind time_Now (\<lambda>acceptedAt.
     bind (GetCandidateFare orderID driverID) (\<lambda>fare.
     bind (lift (CalculateTripPrice (fare_Tariff fare) (fare_DistanceMeters fare)
                   (fare_DurationSeconds fare))) (\<lambda>priceCents.
     if priceCents \<le> 0 then fail [Msg ''calculate candidate fare for driver'']
     else bind (GetOrderByID orderID) (\<lambda>o0.
     let requires = (ord_CreatedByRole o0 \<noteq> UserRoleTaxiPark);
         confirmationExpiresAt = acceptedAt + ConfirmationTTL (svc_config service)
     in bind (AssignDriver orderID driverID acceptedAt fare priceCents confirmationExpiresAt requires)
          (\<lambda>accepted.
     if \<not> accepted then fail [Service ErrOfferNotAccepted, Service ErrOrderAlreadyAssigned]
     else after_reservation service orderID driverID acceptedAt requires fare priceCents
            confirmationExpiresAt)))))"

text \<open>No running offer: the error says whether somebody else has the order.\<close>

definition missing_offer :: "uuid \<Rightarrow> (world, unit) op" where
  "missing_offer orderID =
     bind (GetOrderByID orderID) (\<lambda>o1.
     if ord_Status o1 = OrderStatusDriverAssigned \<or> ord_DriverID o1 \<noteq> None
     then fail [Service ErrOfferNotAccepted, Service ErrOrderAlreadyAssigned]
     else fail [Service ErrOfferNotAccepted])"

definition AcceptOffer :: "dispatch_service \<Rightarrow> uuid \<Rightarrow> uuid \<Rightarrow> (world, unit) op" where
  "AcceptOffer service orderID driverID =
     bind (GetOffer orderID driverID) (\<lambda>found.
     bind time_Now (\<lambda>now.
     case found of
       None \<Rightarrow> missing_offer orderID
     | Some offer \<Rightarrow>
         if now > off_ExpiresAt offer then missing_offer orderID
         else
           let acceptLockTTL = (if off_AcceptLockTTLSeconds offer > 0
                  then seconds (off_AcceptLockTTLSeconds offer) else AcceptLockTTL (svc_config service))
           in bind (Acquire (OrderAcceptLock orderID) acceptLockTTL) (\<lambda>acquired.
              case acquired of
                None \<Rightarrow> fail [Service ErrOfferNotAccepted, Service ErrOrderAlreadyAssigned]
              | Some lock \<Rightarrow>
                  catching (reserve_driver service orderID driverID)
                    (\<lambda>r. catching (Release lock) (\<lambda>_. lift r)))))"


definition RejectOffer :: "uuid \<Rightarrow> uuid \<Rightarrow> string \<Rightarrow> (world, unit) op" where
  "RejectOffer orderID driverID reason =
     bind (GetOffer orderID driverID) (\<lambda>found.
     bind time_Now (\<lambda>now.
     case found of
       None \<Rightarrow> fail [Service ErrOfferNotAccepted]
     | Some offer \<Rightarrow>
         if now > off_ExpiresAt offer then fail [Service ErrOfferNotAccepted]
         else
           andthen (RemoveDriverOffer orderID driverID)
           (bind time_Now (\<lambda>createdAt.
           andthen (AddOrderEvent
             \<lparr>oev_OrderID = orderID, oev_ActorUserID = None, oev_ActorDriverID = Some driverID,
              oev_EventType = OrderEventRejected,
              oev_Payload = [(''order_id'', PUuid orderID), (''driver_id'', PUuid driverID),
                             (''reason'', PStr reason)],
              oev_CreatedAt = createdAt\<rparr>)
           (SendToDriver driverID EventOrderOfferCancelled
             [(''order_id'', PUuid orderID), (''reason'', PStr reason)])))))"

text \<open>The offers a driver sees: running, of an order still searched for, with the price of his park.\<close>

definition driver_offer_of :: "uuid \<Rightarrow> time \<Rightarrow> order_offer \<Rightarrow> (world, driver_order_offer list) op" where
  "driver_offer_of driverID now offer =
     (if now > off_ExpiresAt offer then ret []
      else bind (GetOrderByID (off_OrderID offer)) (\<lambda>o1.
        if ord_Status o1 \<noteq> OrderStatusSearching then ret []
        else bind (GetCandidateFare (ord_ID o1) driverID) (\<lambda>fare.
        bind (lift (CalculateTripPrice (fare_Tariff fare) (fare_DistanceMeters fare)
               (fare_DurationSeconds fare))) (\<lambda>priceCents.
        if priceCents \<le> 0 then fail [Msg ''calculate driver offer park fare: nonpositive price'']
        else ret [\<lparr>doo_Offer = offer, doo_Order = o1,
               doo_ProposedPrice = Some \<lparr>Amount = priceCents, Currency = ''RUB''\<rparr>,
               doo_FareMode = trf_FareMode (fare_Tariff fare),
               doo_TariffRates = SnapshotTariffRates [fare_Tariff fare]\<rparr>]))))"

definition ListDriverOffers_service :: "uuid \<Rightarrow> (world, driver_order_offer list) op" where
  "ListDriverOffers_service driverID =
     bind (ListDriverOffers driverID) (\<lambda>offers.
     bind time_Now (\<lambda>now. collect offers (driver_offer_of driverID now)))"

definition StopDispatch :: "dispatch_service \<Rightarrow> uuid \<Rightarrow> (world, unit) op" where
  "StopDispatch service orderID =
     bind (ListOfferedDriverIDs orderID) (\<lambda>offeredDriverIDs.
     andthen (for_each offeredDriverIDs (\<lambda>driverID.
        SendToDriver driverID EventOrderCancelled [(''order_id'', PUuid orderID)]))
     (andthen (RemoveOffers orderID)
     (if_set (svc_has_state_store service) (FinishDispatch orderID))))"

section \<open>The worker\<close>

text \<open>
  The three loops of \<^verbatim>\<open>worker.go\<close>, for a given number of rounds before the context is cancelled.
  An error of a task is logged and the loop goes on; an error of the queue ends the loop.
\<close>

definition dispatch_round ::
  "dispatch_service \<Rightarrow> (coordinates \<Rightarrow> coordinates \<Rightarrow> rat) \<Rightarrow> (world, unit) op" where
  "dispatch_round service st_distance =
     bind Consume (\<lambda>task. case task of
        None \<Rightarrow> done_op
      | Some task \<Rightarrow> catching (ProcessTask service st_distance task) (\<lambda>_. done_op))"

primrec runDispatchWorker ::
  "nat \<Rightarrow> dispatch_service \<Rightarrow> (coordinates \<Rightarrow> coordinates \<Rightarrow> rat) \<Rightarrow> (world, unit) op" where
  "runDispatchWorker 0 service st_distance = done_op"
| "runDispatchWorker (Suc n) service st_distance =
     andthen (dispatch_round service st_distance) (runDispatchWorker n service st_distance)"

text \<open>The ticker delivers the instants of its ticks.\<close>

primrec runOfferTimeoutWorker :: "time list \<Rightarrow> dispatch_service \<Rightarrow> (world, unit) op" where
  "runOfferTimeoutWorker [] service = done_op"
| "runOfferTimeoutWorker (tick # ticks) service =
     andthen (bind (Due tick 100) (\<lambda>tasks. for_each tasks (\<lambda>task.
        catching (HandleOfferTimeout service task) (\<lambda>_. done_op))))
     (runOfferTimeoutWorker ticks service)"

definition recoverSearchingOrders :: "bool \<Rightarrow> dispatch_service \<Rightarrow> (world, unit) op" where
  "recoverSearchingOrders has_recovery service =
     (if \<not> has_recovery then done_op
      else
        bind (ListExpiredPriceConfirmations 500) (\<lambda>expiredIDs.
        andthen (for_each expiredIDs (ExpireOrderPrice service))
        (bind (ListSearchingOrders 500) (\<lambda>orderIDs.
         for_each orderIDs (EnqueueOrder service)))))"

primrec runStaleOrderRecoveryWorker :: "nat \<Rightarrow> bool \<Rightarrow> dispatch_service \<Rightarrow> (world, unit) op" where
  "runStaleOrderRecoveryWorker 0 has_recovery service = done_op"
| "runStaleOrderRecoveryWorker (Suc n) has_recovery service =
     andthen (recoverSearchingOrders has_recovery service)
       (runStaleOrderRecoveryWorker n has_recovery service)"

end
