(* ===== verification/Dispatch_Safety.thy ===== *)
theory Dispatch_Safety
  imports Dispatch
begin

text \<open>
  Safety of the dispatcher.  Every operation of the service and of the worker, under every pattern
  of failures of its external calls, keeps the invariant of the order table: well-formed rows, the
  constraints of the table, and rows that only move along the life cycle.
\<close>

section \<open>Operations that do not touch the tables\<close>

lemma redis_store_keeps [keeps_intros]:
  "keeps (on_db P) (SaveOffer o1 ttl)" "keeps (on_db P) (GetOffer i j)"
  "keeps (on_db P) (ListDriverOffers j)" "keeps (on_db P) (ListOfferedDriverIDs i)"
  "keeps (on_db P) (RemoveDriverOffer i j)" "keeps (on_db P) (RemoveOffers i)"
  "keeps (on_db P) (Publish t)" "keeps (on_db P) Consume" "keeps (on_db P) (Schedule t r)"
  "keeps (on_db P) (Due r n)" "keeps (on_db P) (RemoveTimeout t)"
  "keeps (on_db P) (BeginDispatch i ttl)" "keeps (on_db P) (FinishDispatch i)"
  "keeps (on_db P) (MarkActiveOffer i ttl)" "keeps (on_db P) (MarkAcceptedDriver i j ttl)"
  "keeps (on_db P) (Acquire k ttl)" "keeps (on_db P) (Release l)"
  unfolding SaveOffer_def GetOffer_def ListDriverOffers_def ListOfferedDriverIDs_def
    RemoveDriverOffer_def RemoveOffers_def Publish_def Consume_def Schedule_def Due_def
    RemoveTimeout_def BeginDispatch_def FinishDispatch_def MarkActiveOffer_def
    MarkAcceptedDriver_def Acquire_def Release_def
  by (intro keeps_intros)+

lemma keeps_if_set [keeps_intros]: "keeps I m \<Longrightarrow> keeps I (if_set b m)"
  by (simp add: if_set_def keeps_ret)

lemma keeps_case_product [keeps_intros]:
  "(\<And>a b. keeps I (m a b)) \<Longrightarrow> keeps I (case_prod m x)"
  by (cases x) simp

lemma listings_keep [keeps_intros]:
  "keeps (on_db P) (ListExpiredPriceConfirmations n)" "keeps (on_db P) (ListSearchingOrders n)"
  unfolding ListExpiredPriceConfirmations_def ListSearchingOrders_def by (intro keeps_intros)+

section \<open>The operations of the service\<close>

lemma enqueueOrder_keeps [keeps_intros]: "keeps (orders_since rows0) (enqueueOrder sv i c)"
  unfolding enqueueOrder_def by (intro keeps_intros)

lemma EnqueueOrder_keeps [keeps_intros]:
  "keeps (orders_since rows0) (EnqueueOrder sv i)"
  "keeps (orders_since rows0) (EnqueueOrderWithConfig sv i cf)"
  unfolding EnqueueOrder_def EnqueueOrderWithConfig_def by (intro keeps_intros)+

lemma failNoDriversFound_keeps [keeps_intros]:
  "keeps (orders_since rows0) (failNoDriversFound sv o1 m)"
  unfolding failNoDriversFound_def by (intro keeps_intros)

lemma schedule_keeps [keeps_intros]:
  "keeps (orders_since rows0) (scheduleRadiusExpansionAfterTimeout sv t c)"
  "keeps (orders_since rows0) (scheduleNextAttempt sv t ds c)"
  unfolding scheduleRadiusExpansionAfterTimeout_def scheduleNextAttempt_def
  by (intro keeps_intros)+

lemma offer_keeps [keeps_intros]:
  "keeps (orders_since rows0) (offerDriver o1 a m c n cd)"
  "keeps (orders_since rows0) (offerDrivers o1 a cs m c)"
  unfolding offerDrivers_def offerDriver_def by (intro keeps_intros)+

lemma ProcessTask_keeps [keeps_intros]: "keeps (orders_since rows0) (ProcessTask sv g t)"
  unfolding ProcessTask_def by (intro keeps_intros)

lemma price_keeps [keeps_intros]:
  "keeps (orders_since rows0) (confirmed_assignment i j p)"
  "keeps (orders_since rows0) (ConfirmOrderPrice i p)"
  "keeps (orders_since rows0) (releasePriceConfirmation sv i j)"
  "keeps (orders_since rows0) (DeclineOrderPrice sv i p)"
  "keeps (orders_since rows0) (ExpireOrderPrice sv i)"
  "keeps (orders_since rows0) (expirePriceConfirmation sv t)"
  unfolding confirmed_assignment_def ConfirmOrderPrice_def releasePriceConfirmation_def
    DeclineOrderPrice_def ExpireOrderPrice_def expirePriceConfirmation_def
  by (intro keeps_intros)+

lemma HandleOfferTimeout_keeps [keeps_intros]: "keeps (orders_since rows0) (HandleOfferTimeout sv t)"
  unfolding HandleOfferTimeout_def by (intro keeps_intros)

lemma accept_keeps [keeps_intros]:
  "keeps (orders_since rows0) (cancelRemainingOffers sv i j)"
  "keeps (orders_since rows0) (announce_acceptance sv i j o1 b f p e)"
  "keeps (orders_since rows0) (after_reservation sv i j n b f p e)"
  "keeps (orders_since rows0) (reserve_driver sv i j)"
  "keeps (orders_since rows0) (missing_offer i)"
  "keeps (orders_since rows0) (AcceptOffer sv i j)"
  unfolding cancelRemainingOffers_def announce_acceptance_def after_reservation_def reserve_driver_def missing_offer_def
    AcceptOffer_def confirmed_assignment_def
  by (intro keeps_intros)+

lemma offers_keep [keeps_intros]:
  "keeps (orders_since rows0) (RejectOffer i j rs)"
  "keeps (orders_since rows0) (ListDriverOffers_service j)"
  "keeps (orders_since rows0) (StopDispatch sv i)"
  unfolding RejectOffer_def ListDriverOffers_service_def driver_offer_of_def StopDispatch_def
  by (intro keeps_intros)+

lemma worker_keeps [keeps_intros]:
  "keeps (orders_since rows0) (dispatch_round sv g)"
  "keeps (orders_since rows0) (recoverSearchingOrders b sv)"
  unfolding dispatch_round_def recoverSearchingOrders_def by (intro keeps_intros)+

lemma loops_keep [keeps_intros]:
  "keeps (orders_since rows0) (runDispatchWorker n sv g)"
  "keeps (orders_since rows0) (runOfferTimeoutWorker ticks sv)"
  "keeps (orders_since rows0) (runStaleOrderRecoveryWorker n b sv)"
proof -
  show "keeps (orders_since rows0) (runDispatchWorker n sv g)"
    by (induction n) (auto intro!: keeps_intros)
  show "keeps (orders_since rows0) (runOfferTimeoutWorker ticks sv)"
    by (induction ticks) (auto intro!: keeps_intros)
  show "keeps (orders_since rows0) (runStaleOrderRecoveryWorker n b sv)"
    by (induction n) (auto intro!: keeps_intros)
qed

end
