(* ===== verification/Dispatch_Acceptance.thy ===== *)
theory Dispatch_Acceptance
  imports Dispatch_Safety
begin

text \<open>
  What a successful acceptance of an offer does: \<^verbatim>\<open>AcceptOffer\<close> of
  \<^verbatim>\<open>internal/dispatch/service.go\<close> reserves one searching order for one free driver, and nobody
  can accept the order, and the driver can accept nothing, as long as the reservation stands.
\<close>

section \<open>Statements that succeed\<close>

lemma update_orders_logging_Inr:
  assumes "update_orders_logging P f ev now d = (Inr n, d')"
  shows "n = rows_affected P (orders d)"
    and "orders d' = sql_update P (\<lambda>r. (f r)\<lparr>ord_UpdatedAt := now\<rparr>) (orders d)"
    and "drivers d' = drivers d"
  using assms update_orders_Inr(1,2) [of P f now d]
  by (auto simp: update_orders_logging_def split: prod.splits sum.splits)

text \<open>What \<^verbatim>\<open>AssignDriver\<close> did when it answered true.\<close>

definition assigned_from ::
  "uuid \<Rightarrow> uuid \<Rightarrow> int \<Rightarrow> time \<Rightarrow> time \<Rightarrow> bool \<Rightarrow> order_row list \<Rightarrow> order_row list \<Rightarrow> bool" where
  "assigned_from orderID driverID priceCents acceptedAt expiresAt requires rows rows' \<longleftrightarrow>
     (\<exists>xs r ys r'. rows = xs @ r # ys \<and> rows' = xs @ r' # ys
        \<and> ord_ID r = orderID \<and> ord_Status r = OrderStatusSearching \<and> ord_DriverID r = None
        \<and> ord_DeletedAt r = None
        \<and> (\<forall>q \<in> set rows. ord_DriverID q = Some driverID \<and> ord_DeletedAt q = None \<longrightarrow>
             ord_Status q \<notin> set driver_active_statuses)
        \<and> ord_ID r' = orderID \<and> ord_Status r' = OrderStatusDriverAssigned
        \<and> ord_DriverID r' = Some driverID \<and> ord_DeletedAt r' = None
        \<and> ord_AcceptedAt r' = Some acceptedAt \<and> ord_ProposedPriceCents r' = Some priceCents
        \<and> ord_PriceConfirmationState r' = (if requires then ''pending'' else ''confirmed'')
        \<and> ord_PriceConfirmationExpiresAt r' = (if requires then Some expiresAt else None)
        \<and> ord_CreatedByRole r' = ord_CreatedByRole r
        \<and> ord_Version r' = ord_Version r + 1)"

lemma AssignDriver_True:
  assumes "AssignDriver orderID driverID acc fare price e q s = (Inr True, t)"
    and "orders_consistent (orders (db s))"
  shows "assigned_from orderID driverID price acc e q (orders (db s)) (orders (db t))"
    and "orders_consistent (orders (db t))" and "redis t = redis s"
proof -
  obtain s1 b u where clk: "clock s \<le> clock s1" and s1: "db s1 = db s" "redis s1 = redis s"
    and run: "bind time_Now (\<lambda>now. bind (query (\<lambda>_ d. one_row (filter (\<lambda>dr. drv_ID dr = driverID
        \<and> drv_DeletedAt dr = None) (drivers d)))) (\<lambda>lockedDriver.
        catching (sql (\<lambda>_ d. update_orders_logging (assignable now d orderID driverID fare)
             (assigned_row now d driverID acc price e q) (assigned_event driverID acc price e q) now d))
         (\<lambda>r. case r of Inl err \<Rightarrow> if errors_Is err (Infra ErrUniqueViolation) then ret (False, False) else fail err
           | Inr n \<Rightarrow> ret (True, n = 1)))) s1 = (Inr (b, True), u)"
    and t: "db t = (if b then db u else db s)" "redis t = redis u"
    by (rule db_transaction_Inr [OF assms(1) [unfolded AssignDriver_def]])
  define now where "now = clock s1"
  let ?P = "assignable now (db s) orderID driverID fare"
  let ?f = "assigned_row now (db s) driverID acc price e q"
  from run obtain s2 r0 v where s2: "db s2 = db s" "redis s2 = redis s"
    and u: "sql (\<lambda>_ d. update_orders_logging (assignable now d orderID driverID fare)
             (assigned_row now d driverID acc price e q) (assigned_event driverID acc price e q) now d) s2
             = (r0, v)"
      "(case r0 of Inl err \<Rightarrow> if errors_Is err (Infra ErrUniqueViolation) then ret (False, False) else fail err
           | Inr n \<Rightarrow> ret (True, n = 1)) v = (Inr (b, True), u)"
    using s1 unfolding now_def
    by (elim bind_Inr query_Inr catching_elim) (simp add: Inr_simps)
  from u(2) have r0: "r0 = Inr 1" "b" "v = u"
    by (auto simp: Inr_simps split: sum.splits if_splits)
  from u(1) r0 s2 have upd: "update_orders_logging ?P ?f (assigned_event driverID acc price e q) now (db s)
      = (Inr 1, db u)" and red: "redis u = redis s"
    by (auto elim!: sql_Inr)
  note U = update_orders_logging_Inr [OF upd]
  from U(1) have "0 < rows_affected ?P (orders (db s))" by simp
  then obtain r where r: "r \<in> set (orders (db s))" "?P r" by (auto simp: rows_affected_pos)
  have "distinct (map ord_ID (orders (db s)))"
    using assms(2) by (simp add: orders_consistent_def orders_unique_def)
  then have "\<exists>xs ys. orders (db s) = xs @ r # ys
      \<and> sql_update ?P (\<lambda>r. (?f r)\<lparr>ord_UpdatedAt := now\<rparr>) (orders (db s))
        = xs @ (?f r)\<lparr>ord_UpdatedAt := now\<rparr> # ys"
    by (rule sql_update_one [where i = orderID]) (use r in \<open>auto simp: assignable_def\<close>)
  then obtain xs ys where split: "orders (db s) = xs @ r # ys"
    "orders (db t) = xs @ (?f r)\<lparr>ord_UpdatedAt := now\<rparr> # ys"
    using U(2) t r0 by auto
  have free: "\<not> driver_serving (db s) driverID"
    using r(2) by (auto simp: assignable_def assignable_driver_def list_ex_iff)
  show "assigned_from orderID driverID price acc e q (orders (db s)) (orders (db t))"
    unfolding assigned_from_def
    by (rule exI [of _ xs], rule exI [of _ r], rule exI [of _ ys],
        rule exI [of _ "(?f r)\<lparr>ord_UpdatedAt := now\<rparr>"])
      (use r split free in \<open>auto simp: assignable_def assigned_row_def driver_serving_def list_ex_iff\<close>)
  have "update_orders ?P ?f now (db s) = (Inr 1, (db s)\<lparr>orders := orders (db t)\<rparr>)"
    using upd U(2) t r0
    by (auto simp: update_orders_logging_def update_orders_def Let_def split: prod.splits sum.splits if_splits)
  from update_orders_Inr(3) [OF this] show "orders_consistent (orders (db t))" by simp
  show "redis t = redis s" using red t by simp
qed

lemma keeps_orders_only [keeps_intros]:
  "keeps (on_db (\<lambda>d. P (orders d))) (MarkDriverBusy j)"
  unfolding MarkDriverBusy_def require_row_def by (intro keeps_intros keeps_sql) auto


lemma after_reservation_keeps:
  "keeps (on_db (\<lambda>d. P (orders d))) (after_reservation sv i j n b f p e)"
  unfolding after_reservation_def cancelRemainingOffers_def announce_acceptance_def
    confirmed_assignment_def
  by (intro keeps_intros)

definition reserved_by :: "dispatch_service \<Rightarrow> uuid \<Rightarrow> uuid \<Rightarrow> time \<Rightarrow> order_row list \<Rightarrow> order_row list \<Rightarrow> bool" where
  "reserved_by service orderID driverID now rows rows' \<longleftrightarrow>
     (\<exists>price acceptedAt requires. 0 < price \<and> now \<le> acceptedAt
        \<and> assigned_from orderID driverID price acceptedAt
            (acceptedAt + ConfirmationTTL (svc_config service)) requires rows rows'
        \<and> orders_consistent rows'
        \<and> (\<exists>row \<in> set rows. ord_ID row = orderID
            \<and> requires = (ord_CreatedByRole row \<noteq> UserRoleTaxiPark)))"

lemma reserved_byI:
  "0 < price \<Longrightarrow> now \<le> acceptedAt \<Longrightarrow>
   assigned_from orderID driverID price acceptedAt
     (acceptedAt + ConfirmationTTL (svc_config service)) (ord_CreatedByRole row \<noteq> UserRoleTaxiPark)
     rows rows' \<Longrightarrow>
   orders_consistent rows' \<Longrightarrow> row \<in> set rows \<Longrightarrow> ord_ID row = orderID \<Longrightarrow>
   reserved_by service orderID driverID now rows rows'"
  unfolding reserved_by_def by blast

lemma reserved_by_earlier:
  "reserved_by service orderID driverID now rows rows' \<Longrightarrow> now0 \<le> now \<Longrightarrow>
    reserved_by service orderID driverID now0 rows rows'"
  unfolding reserved_by_def using order.trans by blast

lemma reserve_driver_Inr:
  assumes ok: "orders_consistent (orders (db s))"
  shows "wp (reserve_driver service orderID driverID) (\<lambda>_ t. reserved_by service orderID driverID (clock s) (orders (db s)) (orders (db t)))
    (\<lambda>_ _. True) s"
  unfolding reserve_driver_def wp_bind wp_time_Now
proof (rule wp_partial, goal_cases)
  case (1 fare s1)
  from keeps_on_db [OF GetCandidateFare_keeps [of "\<lambda>d. d = db s"] 1] have s1: "db s1 = db s" by simp
  show ?case unfolding wp_lift
  proof (split sum.split, intro conjI allI impI TrueI, goal_cases)
    case (1 price)
    show ?case
    proof (cases "price \<le> 0")
      case False
      show ?thesis
        unfolding if_not_P [OF False] wp_bind
      proof (rule wp_partial, goal_cases)
        case (1 o0 s2)
        obtain row where row: "row \<in> set (orders (db s1))" "ord_ID row = orderID"
          "scanDispatchOrder row = Inr o0" "db s2 = db s1"
          by (rule GetOrderByID_Inr [OF 1])
        show ?case unfolding Let_def wp_bind
        proof (rule wp_partial, goal_cases)
          case (1 accepted s3)
          show ?case
          proof (cases accepted)
            case True
            from 1 True have a: "AssignDriver orderID driverID (clock s) fare price
              (clock s + ConfirmationTTL (svc_config service))
              (ord_CreatedByRole o0 \<noteq> UserRoleTaxiPark) s2 = (Inr True, s3)" by simp
            from AssignDriver_True(1,2) [OF a] ok row(4) s1
            have "reserved_by service orderID driverID (clock s) (orders (db s)) (orders (db s3))"
              using row False scanDispatchOrder_Inr(5) [OF row(3)] by (intro reserved_byI) auto
            then show ?thesis
              by (simp only: \<open>accepted\<close> not_True_eq_False if_False) (rule wp_partial,
                drule keeps_on_db [OF after_reservation_keeps [where P = "\<lambda>x. x = orders (db s3)"]],
                simp_all)
          qed (simp add: wp_fail)
        qed
      qed
    qed (simp add: wp_fail)
  qed
qed

lemma AcceptOffer_Inr:
  assumes ok: "orders_consistent (orders (db s))"
  shows "wp (AcceptOffer service orderID driverID)
    (\<lambda>_ t. reserved_by service orderID driverID (clock s) (orders (db s)) (orders (db t))) (\<lambda>_ _. True) s"
  unfolding AcceptOffer_def wp_bind GetOffer_def wp_time_Now
proof (rule wp_partial, goal_cases)
  case (1 found s1)
  obtain c where s1: "clock s \<le> c" "db s1 = db s" "clock s1 = c"
    by (rule redis_cmd_Inr [OF 1])
  show ?case
  proof (cases found)
    case None
    then show ?thesis unfolding missing_offer_def
      by (simp add: wp_bind) (rule wp_partial, simp add: wp_fail)
  next
    case (Some offer)
    show ?thesis
    proof (cases "clock s1 > off_ExpiresAt offer")
      case True
      with Some show ?thesis unfolding missing_offer_def
        by (simp add: wp_bind) (rule wp_partial, simp add: wp_fail)
    next
      case False
      show ?thesis
        unfolding Some option.case if_not_P [OF False] Let_def wp_bind
      proof (rule wp_partial, goal_cases)
        case (1 acquired s2)
        from 1 have s2: "db s2 = db s1 \<and> clock s1 \<le> clock s2"
          unfolding Acquire_def by (elim bind_Inr redis_cmd_Inr) (auto simp: Inr_simps)
        show ?case
        proof (cases acquired)
          case (Some lock)
          from reserve_driver_Inr [of s2 service orderID driverID] ok s1 s2
          have "wp (reserve_driver service orderID driverID)
            (\<lambda>_ t. reserved_by service orderID driverID (clock s2) (orders (db s)) (orders (db t))) (\<lambda>_ _. True) s2" by simp
          then show ?thesis unfolding Some option.case wp_catching
          proof (rule wp_conseq)
            fix a :: unit and u :: world
            assume r: "reserved_by service orderID driverID (clock s2) (orders (db s)) (orders (db u))"
            have "keeps (on_db (\<lambda>d. d = db u)) (Release lock)" by (rule redis_store_keeps)
            then have "wp (Release lock) (\<lambda>_. on_db (\<lambda>d. d = db u)) (\<lambda>_. on_db (\<lambda>d. d = db u)) u"
              by (simp add: keeps_wp)
            then show "wp (Release lock)
              (\<lambda>_. wp (lift (Inr a)) (\<lambda>_ t. reserved_by service orderID driverID (clock s) (orders (db s)) (orders (db t))) (\<lambda>_ _. True))
              (\<lambda>_. wp (lift (Inr a)) (\<lambda>_ t. reserved_by service orderID driverID (clock s) (orders (db s)) (orders (db t))) (\<lambda>_ _. True)) u"
              by (rule wp_conseq)
                (use reserved_by_earlier [OF r, of "clock s"] s1 s2 in \<open>simp_all add: wp_lift\<close>)
          qed (rule wp_conseq [OF wp_True], simp_all add: wp_lift)
        qed (simp add: wp_fail)
      qed
    qed
  qed
qed


section \<open>A run that succeeds\<close>

text \<open>Order 1 has been offered to driver 3, who accepts it when nothing fails.\<close>

definition sample_service :: dispatch_service where
  "sample_service = NewService True True empty_config"

definition offered_world :: world where
  "offered_world = (world_at (seconds 5) (sample_db sample_order))\<lparr>redis := empty_redis
     \<lparr>rd_offers := (\<lambda>_. None)((1, 3) := Some (sample_offer, seconds 20)),
      rd_order_offers := (\<lambda>_. None)(1 := Some ([3], Some (seconds 20))),
      rd_driver_offers := (\<lambda>_. None)(3 := Some ([1], Some (seconds 20)))\<rparr>\<rparr>"

definition sample_fare :: candidate_fare where
  "sample_fare = \<lparr>fare_Tariff = sample_fixed_tariff, fare_DistanceMeters=12300, fare_DurationSeconds=600\<rparr>"

definition sample_assigned_row :: order_row where
  "sample_assigned_row = (assigned_row (seconds 5) (sample_db sample_order) 3 (seconds 5) 20000 (seconds 65) True sample_order)
   \<lparr>ord_UpdatedAt := seconds 5\<rparr>"

lemma sample_assignable: "assignable (seconds 5) (sample_db sample_order) 1 3 sample_fare sample_order" by code_simp
lemma sample_assigned_checks: "order_checks sample_assigned_row" by code_simp
lemma sample_assigned_unique: "orders_unique [sample_assigned_row]" by (simp add: orders_unique_def)
lemma sample_confirmation_ttl: "ConfirmationTTL (svc_config sample_service) = seconds 60" by code_simp

lemma sample_assign_statement:
  "update_orders_logging (assignable (seconds 5) (sample_db sample_order) 1 3 sample_fare)
     (assigned_row (seconds 5) (sample_db sample_order) 3 (seconds 5) 20000 (seconds 65) True) ev
     (seconds 5) (sample_db sample_order)
   = (Inr 1, (sample_db sample_order)\<lparr>orders := [sample_assigned_row], order_events := [ev sample_assigned_row]\<rparr>)"
proof -
  have o: "orders (sample_db sample_order) = [sample_order]" "order_events (sample_db sample_order) = []"
    by (simp_all add: sample_db_def empty_db_def)
  show ?thesis
    using sample_assignable sample_assigned_checks sample_assigned_unique
    by (simp add: update_orders_logging_def update_orders_def Let_def sql_update_def o
        updated_rows_def rows_affected_def sample_assigned_row_def)
qed

lemma sample_assign_runs:
  assumes "script s = []" "db s = sample_db sample_order" "clock s = seconds 5"
  shows "wp (AssignDriver 1 3 (seconds 5) sample_fare 20000 (seconds 65) True) Q E s =
    Q True (s\<lparr>db := (sample_db sample_order)\<lparr>orders := [sample_assigned_row], order_events :=
     [assigned_event 3 (seconds 5) 20000 (seconds 65) True sample_assigned_row]\<rparr>\<rparr>)"
proof -
  have o: "drivers (sample_db sample_order) = [sample_driver]"
    "drv_ID sample_driver = 3" "drv_DeletedAt sample_driver = None"
    by (simp_all add: sample_db_def sample_driver_def)
  have "AssignDriver 1 3 (seconds 5) sample_fare 20000 (seconds 65) True s =
   (Inr True, s\<lparr>db := (sample_db sample_order)\<lparr>orders := [sample_assigned_row], order_events :=
     [assigned_event 3 (seconds 5) 20000 (seconds 65) True sample_assigned_row]\<rparr>\<rparr>)"
    using assms sample_assign_statement unfolding AssignDriver_def
    by (simp add: db_transaction_def transaction_def bind_def external_ok ret_def time_Now_def gets_def
      query_ok sql_ok catching_def o)
  then show ?thesis by (simp add: wp_def)
qed
lemma sample_assigned_simps: "ord_ID sample_assigned_row = 1" "ord_DeletedAt sample_assigned_row = None" "ord_PassengerID sample_assigned_row = 2"
  "ord_CreatedByRole sample_assigned_row = UserRolePassenger" "order_park sample_assigned_row = Some 7"
  by (simp_all add: sample_assigned_row_def assigned_row_def sample_order_def sample_db_def sample_driver_def order_park_def)

lemma sample_assigned_scan: "scanDispatchOrder sample_assigned_row = Inr (order.truncate sample_assigned_row)"
  by (simp add: scanDispatchOrder_def coordinates_of_def sample_assigned_row_def assigned_row_def sample_order_def
     NewCoordinates_def empty_coordinates_def order.defs)

lemma sample_db_simps: 
 "drivers (sample_db r) = [sample_driver]" "drv_ID sample_driver = 3" "drv_DeletedAt sample_driver = None" "drv_Status sample_driver = DriverStatusOnline"
 "taxi_parks (sample_db r) = [sample_park]" "taxi_park_staff (sample_db r) = []" "orders (sample_db r) = [r]"
 "tp_ID sample_park = 7" "tp_DeletedAt sample_park = None"
  by (simp_all add: sample_db_def sample_driver_def sample_park_def empty_db_def)

lemma sample_after_runs:
  "wp (after_reservation sample_service 1 3 (seconds 5) True sample_fare 20000 (seconds 65)) (\<lambda>_ t. script t = []) (\<lambda>_ _. False) s"
  if s: "script s = []" "db s = (sample_db sample_order)\<lparr>orders := [sample_assigned_row], order_events := ev\<rparr>"
   "clock s = seconds 5"
   "rd_order_offers (redis s) = (\<lambda>_. None)(1 := Some ([3], Some (seconds 20)))"
  unfolding after_reservation_def wp_bind
  by (simp add: if_set_def Schedule_def wp_ok s wp_ret MarkAcceptedDriver_def MarkDriverBusy_def update_drivers_def wp_bind rows_affected_def sample_db_simps
   require_row_def cancelRemainingOffers_def ListOfferedDriverIDs_def sample_service_def NewService_def
   RemoveOffers_def live_set_def del_order_offers_def FinishDispatch_def del_dispatching_def GetOrderByID_def sample_assigned_simps sample_assigned_scan wp_lift
   announce_acceptance_def SendToDriver_def driverUserID_def SendToPassenger_def SendToTaxiParkByOrder_def
   taxiParkRealtimeRecipientUserIDsByOrder_def park_recipients_def wp_publish_ok sql_update_def)


lemma sample_fare_runs:
  "script s = [] \<Longrightarrow> db s = sample_db sample_order \<Longrightarrow>
    wp (GetCandidateFare 1 3) Q E s = Q sample_fare s"
proof -
  have "best_by higher_tariff (matching_tariffs (sample_db sample_order) 3 sample_order) = Some sample_fixed_tariff
    \<and> in_roubles_tariff sample_fixed_tariff = sample_fixed_tariff \<and>
    ord_ID sample_order = 1 \<and> ord_Status sample_order = OrderStatusSearching \<and> ord_DeletedAt sample_order = None
    \<and> meta_route_distance_meters sample_order = Some 12300 \<and> meta_route_duration_seconds sample_order = Some 600" by code_simp
  then show "script s = [] \<Longrightarrow> db s = sample_db sample_order \<Longrightarrow>
    wp (GetCandidateFare 1 3) Q E s = Q sample_fare s"
    by (simp add: GetCandidateFare_def wp_ok sample_db_simps sample_fare_def)
qed

lemma sample_price: "CalculateTripPrice (fare_Tariff sample_fare) (fare_DistanceMeters sample_fare) (fare_DurationSeconds sample_fare) = Inr 20000" by code_simp

lemma sample_reserve_runs: "wp (reserve_driver sample_service 1 3) (\<lambda>_ t. script t = []) (\<lambda>_ _. False) s"
  if s: "script s = []" "db s = sample_db sample_order"
   "clock s = seconds 5"
   "rd_order_offers (redis s) = (\<lambda>_. None)(1 := Some ([3], Some (seconds 20)))"
proof -
  have o: "ord_ID sample_order = 1" "ord_DeletedAt sample_order = None"
    "scanDispatchOrder sample_order = Inr (order.truncate sample_order)"
    "ord_CreatedByRole (order.truncate sample_order) = UserRolePassenger"
    by (simp_all add: scanDispatchOrder_def coordinates_of_def sample_order_def
     NewCoordinates_def empty_coordinates_def order.defs)
  show ?thesis
  unfolding reserve_driver_def
  by (simp add: wp_bind wp_time_Now s sample_fare_runs sample_price wp_lift GetOrderByID_def wp_ok sample_db_simps o Let_def sample_confirmation_ttl
    sample_assign_runs [OF s(1-3), simplified] sample_after_runs [simplified])
qed

lemma sample_accept_runs: "wp (AcceptOffer sample_service 1 3) (\<lambda>_ _. True) (\<lambda>_ _. False) offered_world"
  unfolding AcceptOffer_def wp_bind
   apply (simp add: GetOffer_def wp_ok offered_world_def wp_time_Now sample_offer_def look_offer_def live_def world_at_def
    Acquire_def wp_bind look_lock_def empty_redis_def put_lock_def wp_catching)
   apply (rule wp_conseq [OF sample_reserve_runs])
   apply (simp_all add: wp_lift wp_catching Release_def wp_ok)
   done

lemma assigned_from_excludes:
  assumes "assigned_from i j p a e q rows rows'" "distinct (map ord_ID rows)" "i2 = i \<or> j2 = j"
  shows "\<not> assigned_from i2 j2 p2 a2 e2 q2 rows' rows''"
proof
  assume second: "assigned_from i2 j2 p2 a2 e2 q2 rows' rows''"
  from assms(1) obtain xs r ys r' where r: "rows = xs @ r # ys" "rows' = xs @ r' # ys"
    "ord_ID r = i" "ord_ID r' = i" "ord_Status r' = OrderStatusDriverAssigned"
    "ord_DriverID r' = Some j" "ord_DeletedAt r' = None"
    unfolding assigned_from_def by blast
  from second obtain q where q: "q \<in> set rows'" "ord_ID q = i2" "ord_Status q = OrderStatusSearching"
    and free: "\<forall>q \<in> set rows'. ord_DriverID q = Some j2 \<and> ord_DeletedAt q = None \<longrightarrow>
      ord_Status q \<notin> set driver_active_statuses"
    unfolding assigned_from_def by (elim exE conjE) (simp, blast)
  have "i2 \<noteq> i"
    using assms(2) r q by (auto simp: image_iff)
  moreover have "j2 \<noteq> j"
    using free r by (auto simp: driver_active_statuses_def)
  ultimately show False using assms(3) by blast
qed

section \<open>Properties\<close>

text \<open>
  C7: a successful \<^verbatim>\<open>AcceptOffer\<close> reserves the driver for exactly that order: the order was still
  searched for and without a driver, the driver served no other order, and now the order, and no
  other row, is assigned to the driver with a positive price, its version counted up; a price that
  the passenger has to confirm is pending until the confirmation time has passed, the price of an
  order that the taxi park created is confirmed at once.
\<close>

theorem AcceptOffer_reserves:
  assumes "orders_consistent (orders (db s))"
    and "AcceptOffer service orderID driverID s = (Inr (), t)"
  shows "\<exists>price acceptedAt requires. 0 < price \<and> clock s \<le> acceptedAt
     \<and> assigned_from orderID driverID price acceptedAt
         (acceptedAt + ConfirmationTTL (svc_config service)) requires (orders (db s)) (orders (db t))
     \<and> (\<exists>row \<in> set (orders (db s)). ord_ID row = orderID
         \<and> requires = (ord_CreatedByRole row \<noteq> UserRoleTaxiPark))"
  using wpD [OF AcceptOffer_Inr [OF assms(1)] assms(2)] unfolding reserved_by_def by blast

lemma offered_world_consistent: "orders_consistent (orders (db offered_world))"
proof -
  have "order_checks sample_order" by code_simp
  then show ?thesis
    by (simp add: offered_world_def world_at_def sample_db_def orders_consistent_def orders_unique_def)
qed

lemma offered_world_accepts: "\<exists>t. AcceptOffer sample_service 1 3 offered_world = (Inr (), t)"
  using sample_accept_runs
  by (cases "AcceptOffer sample_service 1 3 offered_world")
     (auto simp: wp_def split: sum.splits)

theorem AcceptOffer_reserves_witness:
  "\<exists>t price acceptedAt requires. AcceptOffer sample_service 1 3 offered_world = (Inr (), t)
     \<and> assigned_from 1 3 price acceptedAt (acceptedAt + seconds 60) requires [sample_order] (orders (db t))"
proof -
  have o: "orders (db offered_world) = [sample_order]"
    by (simp add: offered_world_def world_at_def sample_db_def)
  from offered_world_accepts obtain t where t: "AcceptOffer sample_service 1 3 offered_world = (Inr (), t)" ..
  from AcceptOffer_reserves [OF offered_world_consistent t] t show ?thesis
    unfolding o sample_confirmation_ttl by blast
qed

text \<open>
  C3: a reservation excludes every other acceptance: after a driver has accepted an order, and as
  long as the order table stays as it is, nobody can accept that order again, and the driver can
  accept no other order.
\<close>

theorem AcceptOffer_exclusive:
  assumes "orders_consistent (orders (db s))"
    and "AcceptOffer service orderID driverID s = (Inr (), t)"
    and "orders (db u) = orders (db t)"
    and "otherOrderID = orderID \<or> otherDriverID = driverID"
  shows "fst (AcceptOffer service' otherOrderID otherDriverID u) \<noteq> Inr ()"
proof
  assume "fst (AcceptOffer service' otherOrderID otherDriverID u) = Inr ()"
  then obtain v where v: "AcceptOffer service' otherOrderID otherDriverID u = (Inr (), v)"
    by (metis prod.collapse)
  have first: "reserved_by service orderID driverID (clock s) (orders (db s)) (orders (db u))"
    using wpD [OF AcceptOffer_Inr [OF assms(1)] assms(2)] assms(3) by simp
  then have "orders_consistent (orders (db u))" by (auto simp: reserved_by_def)
  from wpD [OF AcceptOffer_Inr [OF this] v] first show False
    using assigned_from_excludes [OF _ _ assms(4)] assms(1)
    by (auto simp: reserved_by_def orders_consistent_def orders_unique_def)
qed

theorem AcceptOffer_exclusive_witness:
  "\<exists>t. AcceptOffer sample_service 1 3 offered_world = (Inr (), t)
     \<and> fst (AcceptOffer sample_service 1 4 t) \<noteq> Inr () \<and> fst (AcceptOffer sample_service 2 3 t) \<noteq> Inr ()"
proof -
  from offered_world_accepts obtain t where t: "AcceptOffer sample_service 1 3 offered_world = (Inr (), t)" ..
  show ?thesis
    using t AcceptOffer_exclusive [OF offered_world_consistent t, of t 1 4]
      AcceptOffer_exclusive [OF offered_world_consistent t, of t 2 3] by blast
qed

end
