(* ===== verification/Dispatch_Outcomes.thy ===== *)
theory Dispatch_Outcomes
  imports Dispatch_Acceptance
begin

text \<open>
  What the other operations of the dispatch service achieve when they succeed: an attempt offers
  the order only to drivers that may get it, a declined price puts the order back into the search
  without that driver, a timeout withdraws the offers and either tries the next radius or fails the
  order.
\<close>

section \<open>Frames\<close>

lemma keeps_send_redis [keeps_intros]:
  "keeps (on_redis R) (SendToUser u e b)" "keeps (on_redis R) (SendToDriver u e b)"
  "keeps (on_redis R) (SendToPassenger u e b)" "keeps (on_redis R) (SendToTaxiParkByOrder u e b)"
  unfolding SendToUser_def SendToDriver_def SendToPassenger_def SendToTaxiParkByOrder_def
    driverUserID_def taxiParkRealtimeRecipientUserIDsByOrder_def query_def sql_def
  by (intro keeps_intros keeps_external; simp add: keeps_def split: prod.splits)+

lemma keeps_sql_redis [keeps_intros]: "keeps (on_redis R) (sql f)" "keeps (on_redis R) (query h)"
  unfolding query_def sql_def
  by (intro keeps_external; simp add: keeps_def split: prod.splits)+

lemma keeps_GetOrder_redis [keeps_intros]: "keeps (on_redis R) (GetOrderByID i)"
  unfolding GetOrderByID_def by (intro keeps_intros)

lemma keeps_redis_part:
  assumes "\<And>now r. R r \<Longrightarrow> R (snd (f now r))"
  shows "keeps (on_redis R) (redis_cmd f)"
  unfolding redis_cmd_def
  by (rule keeps_external) (use assms in \<open>auto simp: keeps_def split: prod.splits, metis snd_conv\<close>)

section \<open>Declining a price\<close>

text \<open>What a release does to the row.\<close>

definition released :: "uuid \<Rightarrow> uuid \<Rightarrow> order_row \<Rightarrow> order_row \<Rightarrow> bool" where
  "released orderID driverID r r' \<longleftrightarrow>
     ord_ID r = orderID \<and> ord_ID r' = orderID
     \<and> ord_Status r = OrderStatusDriverAssigned \<and> ord_DriverID r = Some driverID
     \<and> ord_PriceConfirmationState r = ''pending''
     \<and> ord_Status r' = OrderStatusSearching \<and> ord_DriverID r' = None \<and> ord_CarID r' = None
     \<and> ord_ParkID r' = None \<and> ord_PriceConfirmationState r' = '''' \<and> ord_ProposedPriceCents r' = None
     \<and> ord_DeclinedDriverIDs r' = ord_DeclinedDriverIDs r @ [driverID]
     \<and> ord_Version r' = ord_Version r + 1"

lemma orders_append_events [simp]:
  "orders (snd (append_event ev now d)) = orders d" "drivers (snd (append_event ev now d)) = drivers d"
  by (simp_all add: append_event_def)

definition freed :: "uuid \<Rightarrow> driver list \<Rightarrow> bool" where
  "freed driverID rows \<longleftrightarrow> (\<forall>dr \<in> set rows. drv_ID dr = driverID \<longrightarrow> drv_DeletedAt dr = None \<longrightarrow>
     drv_Status dr \<noteq> DriverStatusBusy)"

lemma sql_update_all:
  "(\<And>r. P r \<Longrightarrow> Q (f r)) \<Longrightarrow> (\<And>r. \<not> P r \<Longrightarrow> Q r) \<Longrightarrow> \<forall>x \<in> set (sql_update P f rows). Q x"
  by (auto simp: sql_update_def)

lemma freed_update:
  "freed j (sql_update (\<lambda>dr. drv_ID dr = j \<and> drv_Status dr = DriverStatusBusy \<and> drv_DeletedAt dr = None)
     (\<lambda>r. r\<lparr>drv_Status := DriverStatusOnline, drv_UpdatedAt := c\<rparr>) rows)"
  unfolding freed_def by (rule sql_update_all) auto

lemma ReleaseDriverReservation_True:
  assumes "orders_consistent (orders (db s))"
  shows "succeeds (ReleaseDriverReservation i j) (\<lambda>done t. done \<longrightarrow>
      replaced (released i j) (orders (db s)) (orders (db t)) \<and> redis t = redis s
      \<and> freed j (drivers (db t))) s"
  unfolding ReleaseDriverReservation_def
proof (rule succeeds_transaction, unfold wp_bind wp_time_Now, rule succeeds_sql, goal_cases)
  case (1 c sc c1 sc1 n d)
  note upd = 1(3) [simplified]
  have "replaced (released i j) (orders (db s)) (orders d)" if "0 < n"
    by (rule replaced_mono [OF update_orders_replaces [OF upd that assms, where i = i]])
       (auto simp: released_def released_row_def)
  note rep = this
  show ?case
  proof (cases "n = 1")
    case True
    with rep have rep: "replaced (released i j) (orders (db s)) (orders d)" by simp
    show ?thesis
      unfolding True simp_thms if_False wp_bind
      by (rule succeeds_sql, rule succeeds_sql)
        (use rep in \<open>clarsimp simp: wp_ret append_event_def update_drivers_def freed_update\<close>)
  next
    case False
    then show ?thesis by (simp add: wp_ret)
  qed
qed

lemma succeeds_bind_keeps:
  "keeps I m \<Longrightarrow> I s \<Longrightarrow> (\<And>a t. I t \<Longrightarrow> succeeds (k a) Q t) \<Longrightarrow> succeeds (bind m k) Q s"
  unfolding wp_bind by (rule succeeds_keeps)

lemma keeps_conj: "keeps P m \<Longrightarrow> keeps Q m \<Longrightarrow> keeps (\<lambda>s. P s \<and> Q s) m"
  by (simp add: keeps_def)

lemma keeps_BeginDispatch_queue: "keeps (on_redis (\<lambda>r. rd_queue r = q)) (BeginDispatch i ttl)"
  unfolding BeginDispatch_def
  by (rule keeps_redis_part) (auto simp: put_dispatching_def split: option.splits)

lemma wp_if_set: "wp (if_set b m) Q E s = (if b then wp m Q E s else Q () s)"
  by (simp add: if_set_def wp_ret)

text \<open>The queue entry that restarts the search without the driver.\<close>

lemma releasePriceConfirmation_done:
  assumes "orders_consistent (orders (db s))"
  shows "succeeds (releasePriceConfirmation sv i j) (\<lambda>_ t.
      replaced (released i j) (orders (db s)) (orders (db t)) \<and> freed j (drivers (db t))
      \<and> (\<exists>queuedAt. rd_queue (redis t) =
          \<lparr>task_OrderID = i, task_Attempt = 0, task_QueuedAt = queuedAt, task_ExcludeDriverIDs = [j],
           task_Config = None\<rparr> # rd_queue (redis s))) s"
  unfolding releasePriceConfirmation_def wp_bind
proof (rule succeeds_conseq [OF ReleaseDriverReservation_True [OF assms]], goal_cases)
  case (1 released t)
  let ?I = "\<lambda>u. db u = db t \<and> rd_queue (redis u) = rd_queue (redis s)"
  have sends: "keeps ?I (SendToDriver j e p)" "keeps ?I (SendToPassenger x e p)" "keeps ?I (GetOrderByID i)"
    "keeps ?I (if_set (svc_has_state_store sv) (bind (BeginDispatch i ttl) (\<lambda>_. done_op)))" for e p x ttl
    by (intro keeps_conj keeps_intros keeps_BeginDispatch_queue)+
  show ?case
  proof (cases released)
    case True
    with 1 have t: "replaced (Dispatch_Outcomes.released i j) (orders (db s)) (orders (db t))" "redis t = redis s"
      "freed j (drivers (db t))" by simp_all
    show ?thesis
      by (simp only: True not_True_eq_False if_False, rule succeeds_bind_keeps [OF sends(1)],
          simp add: t, rule succeeds_bind_keeps [OF sends(3)], assumption,
          rule succeeds_bind_keeps [OF sends(2)], assumption,
          rule succeeds_bind_keeps [OF sends(4)], assumption,
          simp add: wp_bind wp_time_Now Publish_def queue_push_def,
          rule succeeds_redis, use t in auto)
  qed (simp add: wp_fail)
qed


text \<open>Every operation of the table that reads an order and goes on with it.\<close>

lemma succeeds_GetOrderByID:
  assumes "\<And>o1 row t. row \<in> set (orders (db s)) \<Longrightarrow> ord_ID row = i \<Longrightarrow> ord_DeletedAt row = None \<Longrightarrow>
      scanDispatchOrder row = Inr o1 \<Longrightarrow> db t = db s \<Longrightarrow> redis t = redis s \<Longrightarrow> clock s \<le> clock t \<Longrightarrow>
      succeeds (k o1) Q t"
  shows "succeeds (bind (GetOrderByID i) k) Q s"
  unfolding wp_bind
proof (rule wp_partial)
  fix o1 t
  assume "GetOrderByID i s = (Inr o1, t)"
  then show "succeeds (k o1) Q t" by (rule GetOrderByID_Inr) (rule assms)
qed

text \<open>
  C28: declining or expiring a price undoes the reservation: when \<^verbatim>\<open>DeclineOrderPrice\<close> succeeds,
  exactly one row has changed, from assigned to the driver with the price pending to searching
  without driver, car, park and price, the driver is entered in the list of those who will not be
  asked again and is no longer busy, and the search restarts from the first radius without him.
\<close>

theorem DeclineOrderPrice_releases:
  assumes "orders_consistent (orders (db s))"
    and "DeclineOrderPrice service orderID passengerID s = (Inr (), t)"
  shows "\<exists>driverID. replaced (released orderID driverID) (orders (db s)) (orders (db t))
     \<and> freed driverID (drivers (db t))
     \<and> (\<exists>queuedAt. rd_queue (redis t) =
          \<lparr>task_OrderID = orderID, task_Attempt = 0, task_QueuedAt = queuedAt,
           task_ExcludeDriverIDs = [driverID], task_Config = None\<rparr> # rd_queue (redis s))
     \<and> (\<exists>row \<in> set (orders (db s)). ord_ID row = orderID \<and> ord_PassengerID row = passengerID
          \<and> ord_DriverID row = Some driverID)"
    (is "?goal t")
proof -
  have "succeeds (DeclineOrderPrice service orderID passengerID) (\<lambda>_. ?goal) s"
    unfolding DeclineOrderPrice_def
  proof (rule succeeds_GetOrderByID, goal_cases)
    case (1 o1 row u)
    note scan = scanDispatchOrder_Inr [OF 1(4)]
    show ?case
    proof (cases "ord_DriverID o1")
      case (Some j)
      have c: "orders_consistent (orders (db u))" using assms(1) 1(5) by simp
      show ?thesis
      proof (cases "ord_PassengerID o1 \<noteq> passengerID \<or> ord_PriceConfirmationState o1 \<noteq> ''pending''")
        case False
        show ?thesis
          unfolding Some option.case if_not_P [OF False]
          by (rule succeeds_conseq [OF releasePriceConfirmation_done [OF c]], rule exI [of _ j])
             (use 1 scan False Some in \<open>auto intro: bexI [of _ row]\<close>)
      qed (simp add: Some wp_fail)
    qed (simp add: wp_fail)
  qed
  from wpD [OF this assms(2)] show ?thesis .
qed


definition reserved_world :: world where
  "reserved_world = world_at (seconds 5) (sample_db reserved_order)"

lemma reserved_order_simps:
  "ord_ID reserved_order = 1" "ord_DeletedAt reserved_order = None" "ord_PassengerID reserved_order = 2"
  "ord_DriverID reserved_order = Some 3" "ord_Status reserved_order = OrderStatusDriverAssigned"
  "ord_PriceConfirmationState reserved_order = ''pending''"
  "scanDispatchOrder reserved_order = Inr (order.truncate reserved_order)"
  "order_checks reserved_order" "order_checks ((released_row 3 reserved_order)\<lparr>ord_UpdatedAt := c\<rparr>)"
  "ord_ID (released_row 3 reserved_order) = 1" "ord_DeletedAt (released_row 3 reserved_order) = None"
  "scanDispatchOrder ((released_row 3 reserved_order)\<lparr>ord_UpdatedAt := c\<rparr>)
     = Inr (order.truncate ((released_row 3 reserved_order)\<lparr>ord_UpdatedAt := c\<rparr>))"
  by (simp_all add: reserved_order_def sample_order_def scanDispatchOrder_def coordinates_of_def
      NewCoordinates_def empty_coordinates_def order_checks_def released_row_def order.defs)

lemma reserved_world_simps:
  "script reserved_world = []" "db reserved_world = sample_db reserved_order"
  "clock reserved_world = seconds 5" "redis reserved_world = empty_redis"
  by (simp_all add: reserved_world_def world_at_def)

lemma reserved_world_consistent: "orders_consistent (orders (db reserved_world))"
  by (simp add: reserved_world_simps sample_db_simps orders_consistent_def orders_unique_def
      reserved_order_simps)

lemma decline_runs: "wp (DeclineOrderPrice sample_service 1 2) (\<lambda>_ _. True) (\<lambda>_ _. False) reserved_world"
proof -
  have t: "ord_DriverID (order.truncate reserved_order) = Some 3"
    "ord_PassengerID (order.truncate reserved_order) = 2"
    "ord_PriceConfirmationState (order.truncate reserved_order) = ''pending''"
    using scanDispatchOrder_Inr(2,4,7) [OF reserved_order_simps(7)] reserved_order_simps by simp_all
  have r: "wp (ReleaseDriverReservation 1 3) Q (\<lambda>_ _. False) reserved_world"
    if "\<And>d dr. orders d = [(released_row 3 reserved_order)\<lparr>ord_UpdatedAt := seconds 5\<rparr>] \<Longrightarrow>
       drivers d = [dr] \<Longrightarrow> drv_ID dr = 3 \<Longrightarrow> drv_DeletedAt dr = None \<Longrightarrow>
       Q True (reserved_world\<lparr>db := d\<rparr>)" for Q
    unfolding ReleaseDriverReservation_def
    by (rule wp_transaction_ok)
       (simp_all add: reserved_world_simps wp_bind wp_time_Now wp_ok update_orders_def Let_def
         sql_update_def sample_db_simps reserved_order_simps orders_unique_def rows_affected_def wp_ret
         append_event_def update_drivers_def that)
  show ?thesis
    unfolding DeclineOrderPrice_def releasePriceConfirmation_def
    by (simp add: wp_bind GetOrderByID_def wp_ok reserved_world_simps sample_db_simps
          reserved_order_simps wp_lift t, rule r)
       (simp add: SendToDriver_def SendToPassenger_def driverUserID_def wp_bind wp_ok wp_time_Now
          reserved_world_simps wp_publish_ok GetOrderByID_def wp_lift reserved_order_simps wp_if_set
          BeginDispatch_def look_dispatching_def live_def empty_redis_def wp_ret Publish_def)
qed

theorem DeclineOrderPrice_releases_witness:
  "\<exists>t driverID. DeclineOrderPrice sample_service 1 2 reserved_world = (Inr (), t)
     \<and> freed driverID (drivers (db t)) \<and> replaced (released 1 driverID) [reserved_order] (orders (db t))"
proof -
  obtain t where t: "DeclineOrderPrice sample_service 1 2 reserved_world = (Inr (), t)"
    using decline_runs
    by (cases "DeclineOrderPrice sample_service 1 2 reserved_world") (auto simp: wp_def split: sum.splits)
  have "orders (db reserved_world) = [reserved_order]"
    by (simp add: reserved_world_simps sample_db_simps)
  with DeclineOrderPrice_releases [OF reserved_world_consistent t] t show ?thesis by auto
qed


section \<open>The end of an unsuccessful search\<close>

definition failed :: "uuid \<Rightarrow> order_row \<Rightarrow> order_row \<Rightarrow> bool" where
  "failed orderID r r' \<longleftrightarrow>
     ord_ID r = orderID \<and> ord_ID r' = orderID \<and> ord_Status r = OrderStatusSearching
     \<and> ord_DriverID r = None \<and> ord_DriverID r' = None \<and> ord_Status r' = OrderStatusFailed
     \<and> ord_CancellationReason r' = no_drivers_reason \<and> ord_Version r' = ord_Version r + 1"

lemma FailOrder_done:
  assumes "orders_consistent (orders (db s))"
  shows "succeeds (FailOrder i no_drivers_reason)
    (\<lambda>_ t. replaced (failed i) (orders (db s)) (orders (db t)) \<and> redis t = redis s) s"
  unfolding FailOrder_def wp_bind
proof (rule succeeds_sql, goal_cases)
  case (1 c sc n d)
  show ?case
  proof (cases "n = 0")
    case False
    have "replaced (failed i) (orders (db s)) (orders d)"
      by (rule replaced_mono [OF update_orders_replaces [OF 1(2) _ assms, where i = i]])
         (use False in \<open>auto simp: failed_def\<close>)
    then show ?thesis using False by (simp add: require_row_def wp_ret)
  qed (simp add: require_row_def wp_fail)
qed

text \<open>The parts of Redis that the messages and the dispatch state do not touch.\<close>

abbreviation queues_are :: "dispatch_task list \<Rightarrow> (dispatch_task \<times> int) list \<Rightarrow> redis \<Rightarrow> bool" where
  "queues_are q ts \<equiv> \<lambda>r. rd_queue r = q \<and> rd_timeouts r = ts"

lemma keeps_queues [keeps_intros]:
  "keeps (on_redis (queues_are q ts)) (FinishDispatch i)"
  "keeps (on_redis (queues_are q ts)) (ListOfferedDriverIDs i)"
  "keeps (on_redis (queues_are q ts)) (RemoveOffers i)"
  "keeps (on_redis (queues_are q ts)) (GetOffer i j)"
  "keeps (on_redis (queues_are q ts)) (SaveOffer o1 ttl)"
  "keeps (on_redis (queues_are q ts)) (MarkActiveOffer i ttl)"
  unfolding FinishDispatch_def RemoveOffers_def ListOfferedDriverIDs_def GetOffer_def SaveOffer_def
    MarkActiveOffer_def
  by (intro keeps_intros keeps_redis_part;
      simp add: del_dispatching_def del_order_offers_def put_offer_def)+

lemma failNoDriversFound_done:
  assumes "orders_consistent (orders (db s))"
  shows "succeeds (failNoDriversFound sv o1 m)
    (\<lambda>res t. replaced (failed (ord_ID o1)) (orders (db s)) (orders (db t))
       \<and> queues_are (rd_queue (redis s)) (rd_timeouts (redis s)) (redis t)
       \<and> res_Status res = OrderStatusFailed \<and> res_OfferedDriverIDs res = []
       \<and> res_NoDriversAvailable res) s"
  unfolding failNoDriversFound_def wp_bind
proof (rule succeeds_conseq [OF FailOrder_done [OF assms]], goal_cases)
  case (1 a t)
  let ?I = "\<lambda>u. db u = db t
    \<and> queues_are (rd_queue (redis s)) (rd_timeouts (redis s)) (redis u)"
  have k: "keeps ?I (SendToPassenger x e p)" "keeps ?I (SendToTaxiParkByOrder i e p)"
    "keeps ?I (if_set b (FinishDispatch i))" for x e p i b
    by (intro keeps_conj [where P = "on_db (\<lambda>d. d = db t)"] keeps_intros)+
  have "?I t" using 1 by simp
  then show ?case
    by (rule succeeds_keeps [OF k(1)])
      (rule succeeds_keeps [OF k(2)], assumption, rule succeeds_keeps [OF k(3)], assumption,
       use 1 in \<open>simp add: wp_ret\<close>)
qed


section \<open>Timeouts\<close>

lemma scheduleNextAttempt_done:
  assumes "orders_consistent (orders (db s))"
  shows "succeeds (scheduleNextAttempt sv task ds config) (\<lambda>_ t.
      rd_timeouts (redis t) = rd_timeouts (redis s)
      \<and> (if snd (radiusForAttempt config (task_Attempt task + 1))
         then db t = db s \<and> (\<exists>queuedAt. rd_queue (redis t) =
           \<lparr>task_OrderID = task_OrderID task, task_Attempt = task_Attempt task + 1,
            task_QueuedAt = queuedAt,
            task_ExcludeDriverIDs = appendUniqueDriverIDs (task_ExcludeDriverIDs task) ds,
            task_Config = task_Config task\<rparr> # rd_queue (redis s))
         else replaced (failed (task_OrderID task)) (orders (db s)) (orders (db t))
           \<and> rd_queue (redis t) = rd_queue (redis s))) s"
proof (cases "snd (radiusForAttempt config (task_Attempt task + 1))")
  case True
  then show ?thesis
    unfolding scheduleNextAttempt_def
    by (simp add: wp_bind wp_time_Now Let_def Publish_def queue_push_def)
       (rule succeeds_redis, auto)
next
  case False
  show ?thesis
    unfolding scheduleNextAttempt_def
  proof (simp only: wp_bind [of time_Now] wp_time_Now Let_def dispatch_task.simps False not_False_eq_True
      if_True if_False, rule succeeds_GetOrderByID, goal_cases)
    case (1 o1 row u)
    have c: "orders_consistent (orders (db u))" using assms 1(5) by simp
    show ?case
      unfolding wp_bind
      by (rule succeeds_conseq [OF failNoDriversFound_done [OF c]])
         (use 1 scanDispatchOrder_Inr(1) [OF 1(4)] in \<open>simp add: wp_ret\<close>)
  qed
qed

text \<open>A timeout that is handled without an error.\<close>

lemma HandleOfferTimeout_step:
  assumes "orders_consistent (orders (db s))" "task_Attempt task \<noteq> -1"
    and "HandleOfferTimeout service task s = (Inr (), t)"
  shows "task \<notin> fst ` set (rd_timeouts (redis t))
     \<and> (db t = db s \<and> rd_queue (redis t) = rd_queue (redis s)
          \<and> (\<exists>row \<in> set (orders (db s)). ord_ID row = task_OrderID task
               \<and> ord_Status row \<noteq> OrderStatusSearching)
        \<or> (\<exists>offered. if snd (radiusForAttempt (configForTask (svc_config service) task) (task_Attempt task + 1))
         then db t = db s \<and> (\<exists>queuedAt. rd_queue (redis t) =
           \<lparr>task_OrderID = task_OrderID task, task_Attempt = task_Attempt task + 1,
            task_QueuedAt = queuedAt,
            task_ExcludeDriverIDs = appendUniqueDriverIDs (task_ExcludeDriverIDs task) offered,
            task_Config = task_Config task\<rparr> # rd_queue (redis s))
         else replaced (failed (task_OrderID task)) (orders (db s)) (orders (db t))
           \<and> rd_queue (redis t) = rd_queue (redis s)))"
    (is "?goal t")
proof -
  let ?config = "configForTask (svc_config service) task"
  have remove: "succeeds (RemoveTimeout task) (\<lambda>_ v. db v = db u \<and> rd_queue (redis v) = rd_queue (redis u)
      \<and> task \<notin> fst ` set (rd_timeouts (redis v))) u" for u
    unfolding RemoveTimeout_def by (rule succeeds_redis) auto
  have "succeeds (HandleOfferTimeout service task) (\<lambda>_. ?goal) s"
    unfolding HandleOfferTimeout_def if_not_P [OF assms(2)] Let_def
  proof (rule succeeds_GetOrderByID, goal_cases)
    case (1 o1 row u)
    show ?case
    proof (cases "ord_Status o1 \<noteq> OrderStatusSearching")
      case True
      show ?thesis
        unfolding if_P [OF True]
        by (rule succeeds_conseq [OF remove])
           (use 1 True scanDispatchOrder_Inr(3) [OF 1(4)] in auto)
    next
      case False
      let ?I = "\<lambda>v. db v = db s \<and> queues_are (rd_queue (redis s)) (rd_timeouts (redis s)) (redis v)"
      have k: "keeps ?I (ListOfferedDriverIDs (task_OrderID task))"
        "keeps ?I (for_each ds (\<lambda>driverID. SendToDriver driverID e p))"
        "keeps ?I (RemoveOffers (task_OrderID task))" for ds e p
        by (intro keeps_conj [where P = "on_db (\<lambda>d. d = db s)"] keeps_intros)+
      show ?thesis
        unfolding if_not_P [OF False]
      proof (rule succeeds_bind_keeps [OF k(1)], use 1 in simp,
          rule succeeds_bind_keeps [OF k(2)], assumption,
          rule succeeds_bind_keeps [OF k(3)], assumption, unfold wp_bind,
          rule succeeds_conseq [OF remove], goal_cases)
        case (1 offered u1 a u2 b u3 c u4)
        then have "orders_consistent (orders (db u4))" using assms(1) by simp
        from scheduleNextAttempt_done [OF this, of service task offered ?config] show ?case
          by (rule succeeds_conseq) (use 1 in \<open>auto split: if_splits\<close>)
      qed
    qed
  qed
  from wpD [OF this assms(3)] show ?thesis .
qed




definition first_attempt :: dispatch_task where
  "first_attempt = \<lparr>task_OrderID = 1, task_Attempt = 0, task_QueuedAt = seconds 1,
     task_ExcludeDriverIDs = [4], task_Config = None\<rparr>"

lemma sample_next_radius: "snd (radiusForAttempt (configForTask (svc_config sample_service) first_attempt)
    (task_Attempt first_attempt + 1))"
  by code_simp

lemma searching_world_simps:
  "script searching_world = []" "db searching_world = sample_db sample_order"
  "clock searching_world = seconds 5" "redis searching_world = empty_redis"
  "ord_ID sample_order = 1" "ord_DeletedAt sample_order = None"
  "ord_Status sample_order = OrderStatusSearching"
  "scanDispatchOrder sample_order = Inr (order.truncate sample_order)"
  "ord_Status (order.truncate sample_order) = OrderStatusSearching"
  by (simp_all add: searching_world_def world_at_def sample_order_def scanDispatchOrder_def
      coordinates_of_def NewCoordinates_def empty_coordinates_def order.defs)

lemma timeout_runs:
  "wp (HandleOfferTimeout sample_service first_attempt) (\<lambda>_ _. True) (\<lambda>_ _. False) searching_world"
  using sample_next_radius
  by (simp add: HandleOfferTimeout_def first_attempt_def Let_def wp_bind GetOrderByID_def wp_ok
      searching_world_simps sample_db_simps wp_lift ListOfferedDriverIDs_def live_set_def empty_redis_def
      wp_ret RemoveOffers_def RemoveTimeout_def scheduleNextAttempt_def wp_time_Now Publish_def)


section \<open>One attempt\<close>

lemma succeeds_collect_singletons:
  assumes "\<And>x s. x \<in> set xs \<Longrightarrow> succeeds (m x) (\<lambda>ys _. ys = [f x]) s"
  shows "succeeds (collect xs m) (\<lambda>ys _. ys = map f xs) s"
  using assms
proof (induction xs arbitrary: s)
  case (Cons x xs)
  show ?case
    unfolding collect.simps wp_bind
    by (rule succeeds_conseq [OF Cons.prems], simp, rule succeeds_conseq [OF Cons.IH])
       (use Cons.prems in \<open>simp_all add: wp_ret\<close>)
qed (simp add: wp_ret)

lemma offerDriver_counts: "succeeds (offerDriver o1 a m cf n cd) (\<lambda>ys _. ys = [cand_DriverID cd]) s"
  unfolding offerDriver_def wp_bind
  by (rule wp_partial)
     (simp add: wp_time_Now wp_ret Let_def wp_bind wp_partial)

lemma offerDrivers_counts:
  "succeeds (offerDrivers o1 a cs m cf) (\<lambda>ys _. \<exists>n. ys = map cand_DriverID (take n cs)) s"
  unfolding offerDrivers_def wp_bind wp_time_Now Let_def
proof (rule succeeds_conseq [OF succeeds_collect_singletons [where f = cand_DriverID, OF offerDriver_counts]],
    goal_cases)
  case (1 ys t)
  then have "\<exists>n. ys = map cand_DriverID (take n cs)"
    by (cases "int (length cs) > MaxDriversPerOffer cf") (auto intro: exI [of _ "length cs"])
  note n = this
  show ?case by (rule wp_partial, rule wp_partial) (simp add: wp_ret n)
qed

text \<open>The candidates of the search query.\<close>

lemma succeeds_collect_map:
  assumes "\<And>x s. x \<in> set xs \<Longrightarrow> succeeds (m x) (\<lambda>ys _. map f ys = [f x]) s"
  shows "succeeds (collect xs m) (\<lambda>ys _. map f ys = map f xs) s"
  using assms
proof (induction xs arbitrary: s)
  case (Cons x xs)
  show ?case
    unfolding collect.simps wp_bind
    by (rule succeeds_conseq [OF Cons.prems], simp, rule succeeds_conseq [OF Cons.IH])
       (use Cons.prems in \<open>auto simp: wp_ret\<close>)
qed (simp add: wp_ret)

definition may_be_offered :: "db \<Rightarrow> uuid list \<Rightarrow> uuid \<Rightarrow> bool" where
  "may_be_offered d excluded driverID \<longleftrightarrow> driverID \<notin> set excluded
     \<and> (\<exists>dr \<in> set (drivers d). drv_ID dr = driverID \<and> driver_on_line dr
          \<and> drv_TaxiParkID dr \<noteq> None \<and> \<not> driver_serving d driverID)"

lemma FindNearestOnlineDrivers_fit:
  "succeeds (FindNearestOnlineDrivers g q) (\<lambda>cs _. int (length cs) \<le> max 0 (ndq_Limit q)
     \<and> (\<forall>c \<in> set cs. may_be_offered (db s) (ndq_ExcludeIDs q) (cand_DriverID c))) s"
  unfolding FindNearestOnlineDrivers_def wp_bind
proof (rule succeeds_query, goal_cases)
  case (1 c sc found)
  have len: "length found \<le> nat (ndq_Limit q)" using 1(2) by auto
  have "\<exists>dr \<in> set (drivers (db s)). cand_DriverID x = drv_ID dr \<and> searchable_driver c (db s) q dr"
    if "x \<in> set found" for x
    using 1(2) that by (auto dest!: in_set_takeD) blast+
  then have fit: "may_be_offered (db s) (ndq_ExcludeIDs q) (cand_DriverID x)" if "x \<in> set found" for x
    using that unfolding may_be_offered_def searchable_driver_def by metis
  show ?case
  proof (rule succeeds_conseq [OF succeeds_collect_map [where f = cand_DriverID]], goal_cases)
    case (1 x s)
    show ?case by (auto simp: wp_bind wp_lift wp_ret split: sum.splits)
  next
    case (2 cs t)
    then have ids: "map cand_DriverID cs = map cand_DriverID found" by simp
    from arg_cong [OF ids, of length] have "length cs = length found" by simp
    moreover from arg_cong [OF ids, of set] have "cand_DriverID ` set cs = cand_DriverID ` set found"
      by simp
    then have "\<exists>y \<in> set found. cand_DriverID x = cand_DriverID y" if "x \<in> set cs" for x
      using that by blast
    then have "may_be_offered (db s) (ndq_ExcludeIDs q) (cand_DriverID x)" if "x \<in> set cs" for x
      using that fit by metis
    ultimately show ?case using len by simp
  qed
qed

text \<open>Marking an order as searching leaves the drivers alone and can serve nobody.\<close>

lemma MarkOrderSearching_done:
  assumes "orders_consistent (orders (db s))"
  shows "succeeds (MarkOrderSearching i) (\<lambda>_ t. drivers (db t) = drivers (db s)
    \<and> orders_consistent (orders (db t))
    \<and> (\<forall>j. driver_serving (db t) j \<longleftrightarrow> driver_serving (db s) j)
    \<and> map ord_ID (orders (db t)) = map ord_ID (orders (db s))) s"
  unfolding MarkOrderSearching_def wp_bind
proof (rule succeeds_sql, goal_cases)
  case (1 c sc n d)
  note upd = update_orders_Inr [OF 1(2)]
  let ?P = "\<lambda>r. ord_ID r = i \<and> ord_Status r \<in> {OrderStatusCreated, OrderStatusSearching}
           \<and> ord_DriverID r = None \<and> ord_DeletedAt r = None"
  have serving: "driver_serving d j \<longleftrightarrow> driver_serving (db s) j" for j
    unfolding upd(2) driver_serving_def sql_update_def
    by (auto simp: list_ex_iff driver_active_statuses_def)
  have ids: "map ord_ID (orders d) = map ord_ID (orders (db s))"
    unfolding upd(2) by (simp add: map_sql_update)
  have "drivers d = drivers (db s)" unfolding upd(2) by simp
  with serving ids upd(3) show ?case by (simp add: require_row_def wp_ret wp_fail)
qed


text \<open>
  C15: an attempt of the search offers the order only to drivers that may get it: a processed task
  belongs to an order that is neither finished nor assigned; every driver it offers the order to is
  verified, online, in a park, serves no order, is not excluded by the task and has not declined the
  order before; there are at most as many as the configuration allows; and an attempt that reports
  that no driver is available has failed the order.
\<close>

theorem ProcessTask_offers:
  assumes "orders_consistent (orders (db s))"
    and "ProcessTask service st_distance task s = (Inr res, t)"
  shows "\<exists>row \<in> set (orders (db s)). ord_ID row = task_OrderID task
     \<and> \<not> OrderStatus_IsTerminal (ord_Status row) \<and> ord_Status row \<noteq> OrderStatusDriverAssigned
     \<and> (\<forall>j \<in> set (res_OfferedDriverIDs res).
          may_be_offered (db s) (task_ExcludeDriverIDs task @ ord_DeclinedDriverIDs row) j)
     \<and> int (length (res_OfferedDriverIDs res))
          \<le> max 0 (MaxDriversPerOffer (configForTask (svc_config service) task))
     \<and> (res_NoDriversAvailable res \<longrightarrow>
          (\<exists>row' \<in> set (orders (db t)). ord_ID row' = task_OrderID task
             \<and> ord_Status row' = OrderStatusFailed))"
    (is "?goal res t")
proof -
  let ?cf = "configForTask (svc_config service) task"
  have "succeeds (ProcessTask service st_distance task) (\<lambda>res t. ?goal res t) s"
    unfolding ProcessTask_def Let_def
  proof (rule succeeds_GetOrderByID, goal_cases)
    case (1 o0 row u)
    note row = 1 and scan = scanDispatchOrder_Inr [OF 1(4)]
    let ?excluded = "appendUniqueDriverIDs (task_ExcludeDriverIDs task) (ord_DeclinedDriverIDs row)"
    have sub: "set ?excluded = set (task_ExcludeDriverIDs task @ ord_DeclinedDriverIDs row)"
      using appendUniqueDriverIDs_def append_unseen_set by simp
    show ?case
    proof (cases "OrderStatus_IsTerminal (ord_Status o0) \<or> ord_Status o0 = OrderStatusDriverAssigned")
      case False
      let ?J = "\<lambda>o1 v. drivers (db v) = drivers (db s) \<and> orders_consistent (orders (db v))
          \<and> (\<forall>j. driver_serving (db v) j \<longleftrightarrow> driver_serving (db s) j)
          \<and> ord_ID o1 = task_OrderID task \<and> ord_DeclinedDriverIDs o1 = ord_DeclinedDriverIDs row"
      have prep: "succeeds (if ord_Status o0 \<noteq> OrderStatusSearching
                    then andthen (MarkOrderSearching (task_OrderID task))
                           (ret (o0\<lparr>ord_Status := OrderStatusSearching\<rparr>))
                    else ret o0) ?J u"
      proof (cases "ord_Status o0 \<noteq> OrderStatusSearching")
        case True
        have "orders_consistent (orders (db u))" using assms(1) row(5) by simp
        from MarkOrderSearching_done [OF this] show ?thesis
          unfolding if_P [OF True] wp_bind
          by (rule succeeds_conseq) (use row scan in \<open>simp add: wp_ret\<close>)
      qed (use assms(1) row scan in \<open>simp add: wp_ret\<close>)
      show ?thesis
        unfolding if_not_P [OF False] wp_bind
      proof (rule succeeds_conseq [OF prep], goal_cases)
        case (1 o1 v)
        have goalI: "?goal res t" if "\<And>j. j \<in> set (res_OfferedDriverIDs res) \<Longrightarrow>
            may_be_offered (db s) ?excluded j"
          "int (length (res_OfferedDriverIDs res)) \<le> max 0 (MaxDriversPerOffer ?cf)"
          "res_NoDriversAvailable res \<longrightarrow> (\<exists>row' \<in> set (orders (db t)).
             ord_ID row' = task_OrderID task \<and> ord_Status row' = OrderStatusFailed)" for res t
          using that row scan False sub by (intro bexI [OF _ row(1)]) (auto simp: may_be_offered_def)
        have same: "may_be_offered (db v) ex j = may_be_offered (db s) ex j" for ex j
          using 1 by (simp add: may_be_offered_def)
        obtain m ok where r: "radiusForAttempt ?cf (task_Attempt task) = (m, ok)" by fastforce
        show ?case
        proof (cases ok)
          case False
          have c: "orders_consistent (orders (db v))" using 1 by simp
          have "succeeds (failNoDriversFound service o1 m) (\<lambda>res t. ?goal res t) v"
            by (rule succeeds_conseq [OF failNoDriversFound_done [OF c]], rule goalI)
               (use 1 in \<open>auto simp: failed_def elim!: replacedE\<close>)
          then show ?thesis using False r by simp
        next
          case True
          let ?t = "task\<lparr>task_ExcludeDriverIDs :=
            appendUniqueDriverIDs (task_ExcludeDriverIDs task) (ord_DeclinedDriverIDs o1)\<rparr>"
          have r': "radiusForAttempt ?cf (task_Attempt ?t) = (m, True)" using r True by simp
          have fit: "succeeds (FindNearestOnlineDrivers st_distance
                   \<lparr>ndq_CityID = ord_CityID o1, ndq_FareMode = ord_FareMode o1,
                    ndq_CarClassID = ord_CarClassID o1, ndq_Pickup = ord_PickupLocation o1,
                    ndq_RadiusMeters = m, ndq_Limit = MaxDriversPerOffer ?cf,
                    ndq_ExcludeIDs = task_ExcludeDriverIDs ?t,
                    ndq_LocationMaxAge = DriverLocationMaxAge ?cf\<rparr>)
                  (\<lambda>cs _. int (length cs) \<le> max 0 (MaxDriversPerOffer ?cf)
                    \<and> (\<forall>c \<in> set cs. may_be_offered (db s) ?excluded (cand_DriverID c))) v"
            by (rule succeeds_conseq [OF FindNearestOnlineDrivers_fit]) (use 1 same in simp)
          show ?thesis
            unfolding r' prod.case not_True_eq_False if_False wp_bind
          proof (rule succeeds_conseq [OF fit], goal_cases)
            case (1 cs w)
            note cs = this
            show ?case
            proof (cases "cs = []")
              case True
              show ?thesis
                unfolding if_P [OF True] wp_bind
                by (rule wp_partial, unfold wp_ret, rule goalI) simp_all
            next
              case False
              show ?thesis
                unfolding if_not_P [OF False] wp_bind wp_time_Now
              proof (rule succeeds_conseq [OF offerDrivers_counts], goal_cases)
                case (1 ids x)
                then obtain n where ids: "ids = map cand_DriverID (take n cs)" by blast
                have "int (length ids) \<le> int (length cs)" unfolding ids by simp
                then have "int (length ids) \<le> max 0 (MaxDriversPerOffer ?cf)"
                  using cs by linarith
                moreover have "may_be_offered (db s) ?excluded j" if "j \<in> set ids" for j
                  using cs that unfolding ids by (auto dest!: in_set_takeD)
                ultimately show ?case
                  by - (rule wp_partial, rule wp_partial, unfold wp_ret, rule goalI, simp_all)
              qed
            qed
          qed
        qed
      qed
    qed (simp add: wp_fail)
  qed
  from wpD [OF this assms(2)] show ?thesis .
qed


definition sample_distance :: "coordinates \<Rightarrow> coordinates \<Rightarrow> rat" where
  "sample_distance a b = 100"

definition sample_query :: nearest_drivers_query where
  "sample_query = \<lparr>ndq_CityID = 5, ndq_FareMode = FareModeFixedQuote, ndq_CarClassID = Some 9,
     ndq_Pickup = empty_coordinates,
     ndq_RadiusMeters = fst (radiusForAttempt (configForTask (svc_config sample_service) first_attempt) 0),
     ndq_Limit = MaxDriversPerOffer (configForTask (svc_config sample_service) first_attempt),
     ndq_ExcludeIDs = [4],
     ndq_LocationMaxAge = DriverLocationMaxAge (configForTask (svc_config sample_service) first_attempt)\<rparr>"

lemma sample_searchable:
  "searchable_driver (seconds 5) (sample_db sample_order) sample_query sample_driver
   \<and> 100 \<le> ndq_RadiusMeters sample_query \<and> 1 \<le> ndq_Limit sample_query
   \<and> seconds 5 - seconds (ndq_LocationMaxAge sample_query div seconds 1) \<le> seconds 4
   \<and> snd (radiusForAttempt (configForTask (svc_config sample_service) first_attempt) 0)"
  by code_simp

lemma sample_found:
  assumes "script s = []" "db s = sample_db sample_order" "clock s = seconds 5"
  shows "wp (FindNearestOnlineDrivers sample_distance sample_query) Q E s =
    Q [\<lparr>cand_DriverID = 3, cand_DistanceMeters = 100, cand_Location = empty_coordinates\<rparr>] s"
proof -
  have l: "driver_locations (sample_db r) = [sample_location]" "loc_DriverID sample_location = 3"
    "loc_Location sample_location = empty_coordinates" "loc_UpdatedAt sample_location = seconds 4" for r
    by (simp_all add: sample_db_def sample_location_def)
  have "of_int 100 \<le> (of_int (ndq_RadiusMeters sample_query) :: rat)"
    unfolding of_int_le_iff using sample_searchable by simp
  moreover have "take (nat (ndq_Limit sample_query)) [x] = [x]" for x :: driver_candidate
    using sample_searchable by (simp add: take_Cons')
  moreover have "coordinates_of empty_coordinates = Inr empty_coordinates"
    by (simp add: coordinates_of_def NewCoordinates_def empty_coordinates_def)
  ultimately show ?thesis
    using assms sample_searchable
    by (simp add: FindNearestOnlineDrivers_def wp_bind wp_ok sample_db_simps l sample_distance_def
        wp_lift wp_ret)
qed

lemma attempt_runs:
  "wp (ProcessTask sample_service sample_distance first_attempt)
     (\<lambda>res _. res_OfferedDriverIDs res = [3]) (\<lambda>_ _. False) searching_world"
proof -
  let ?cf = "configForTask (svc_config sample_service) first_attempt"
  have o: "ord_DeclinedDriverIDs (order.truncate sample_order) = []"
    "ord_CityID (order.truncate sample_order) = 5" "ord_ID (order.truncate sample_order) = 1"
    "ord_FareMode (order.truncate sample_order) = FareModeFixedQuote"
    "ord_CarClassID (order.truncate sample_order) = Some 9"
    "ord_PickupLocation (order.truncate sample_order) = empty_coordinates"
    by (simp_all add: sample_order_def order.defs)
  have ex: "appendUniqueDriverIDs (task_ExcludeDriverIDs first_attempt) [] = [4]"
    by (simp add: first_attempt_def appendUniqueDriverIDs_def)
  obtain m where m: "radiusForAttempt ?cf (task_Attempt first_attempt) = (m, True)"
    "m = fst (radiusForAttempt ?cf 0)"
    using sample_searchable by (cases "radiusForAttempt ?cf 0") (simp add: first_attempt_def)
  have i: "task_OrderID first_attempt = 1" by (simp add: first_attempt_def)
  have q: "\<lparr>ndq_CityID = 5, ndq_FareMode = FareModeFixedQuote, ndq_CarClassID = Some 9,
       ndq_Pickup = empty_coordinates, ndq_RadiusMeters = m, ndq_Limit = MaxDriversPerOffer ?cf,
       ndq_ExcludeIDs = [4], ndq_LocationMaxAge = DriverLocationMaxAge ?cf\<rparr> = sample_query"
    by (simp add: sample_query_def m)
  have "\<not> MaxDriversPerOffer ?cf < 1" using sample_searchable by (simp add: sample_query_def)
  then show ?thesis
    unfolding ProcessTask_def
    by (simp add: Let_def wp_bind GetOrderByID_def wp_ok i searching_world_simps sample_db_simps
        wp_lift OrderStatus_IsTerminal_def terminalOrderStatuses_def wp_ret o ex m(1) q sample_found
        offerDrivers_def wp_time_Now offerDriver_def GetOffer_def look_offer_def live_def
        empty_redis_def SaveOffer_def SendToDriver_def driverUserID_def wp_publish_ok
        AddOrderEvent_def insertOrderEvent_def append_event_def SendToTaxiParkByOrder_def
        taxiParkRealtimeRecipientUserIDsByOrder_def park_recipients_def order_park_def
        Schedule_def wp_if_set MarkActiveOffer_def put_offer_def)
qed

theorem ProcessTask_offers_witness:
  "\<exists>res t. ProcessTask sample_service sample_distance first_attempt searching_world = (Inr res, t)
     \<and> res_OfferedDriverIDs res = [3] \<and> may_be_offered (sample_db sample_order) [4] 3"
proof -
  obtain res t where t: "ProcessTask sample_service sample_distance first_attempt searching_world = (Inr res, t)"
    "res_OfferedDriverIDs res = [3]"
    using attempt_runs
    by (cases "ProcessTask sample_service sample_distance first_attempt searching_world")
       (auto simp: wp_def split: sum.splits)
  from ProcessTask_offers [OF searching_world_consistent t(1)] t(2)
  have "may_be_offered (sample_db sample_order) (task_ExcludeDriverIDs first_attempt @
      ord_DeclinedDriverIDs sample_order) 3"
    by (simp add: searching_world_simps sample_db_simps)
  moreover have "ord_DeclinedDriverIDs sample_order = []" by (simp add: sample_order_def)
  ultimately show ?thesis using t by (simp add: first_attempt_def)
qed


section \<open>Confirming a price\<close>

lemma update_orders_logging_splits:
  assumes "update_orders_logging P f ev now d = (Inr n, d')"
  shows "\<exists>d0. update_orders P f now d = (Inr n, d0) \<and> orders d' = orders d0"
  using assms by (auto simp: update_orders_logging_def split: prod.splits sum.splits)

lemma ConfirmDriverPrice_done:
  assumes "orders_consistent (orders (db s))"
  shows "succeeds (ConfirmDriverPrice i p) (\<lambda>confirmed t. orders_consistent (orders (db t))
    \<and> (confirmed \<longrightarrow> (\<exists>r \<in> set (orders (db t)). ord_ID r = i \<and> ord_PriceConfirmationState r = ''confirmed''))) s"
  unfolding ConfirmDriverPrice_def wp_bind
proof (rule succeeds_sql, goal_cases)
  case (1 c sc n d)
  obtain d0 where d0: "update_orders
        (\<lambda>r. ord_ID r = i \<and> ord_PassengerID r = p
           \<and> ord_Status r = OrderStatusDriverAssigned
           \<and> ord_PriceConfirmationState r = ''pending''
           \<and> (case ord_PriceConfirmationExpiresAt r of None \<Rightarrow> False | Some t \<Rightarrow> c < t)
           \<and> (case ord_ProposedPriceCents r of None \<Rightarrow> False | Some p \<Rightarrow> 0 < p)
           \<and> ord_DeletedAt r = None)
        (\<lambda>r. r\<lparr>ord_PriceConfirmationState := ''confirmed'',
               ord_AgreedPriceCents := (if ord_FareMode r = FareModeFixedQuote
                                        then ord_ProposedPriceCents r else None),
               ord_Version := ord_Version r + 1\<rparr>) c (db s) = (Inr n, d0)" "orders d = orders d0"
    using update_orders_logging_splits [OF 1(2)] by blast
  have "\<exists>r \<in> set (orders d). ord_ID r = i \<and> ord_PriceConfirmationState r = ''confirmed''" if "n = 1"
    using update_orders_replaces [OF d0(1) _ assms, where i = i] that d0(2)
    by (auto elim!: replacedE)
  then show ?case using update_orders_Inr(3) [OF d0(1)] d0(2) by (simp add: wp_ret)
qed

text \<open>
  C27: after a successful \<^verbatim>\<open>ConfirmOrderPrice\<close> the price is agreed: the order of that passenger is
  assigned to a driver with its price confirmed, and when the fare is a fixed quote the agreed price
  is exactly the price that was proposed.  A second confirmation changes nothing and succeeds.
\<close>

theorem ConfirmOrderPrice_agrees:
  assumes "orders_consistent (orders (db s))" "list_all order_wf (orders (db s))"
    and "ConfirmOrderPrice orderID passengerID s = (Inr (), t)"
  shows "\<exists>r \<in> set (orders (db t)). ord_ID r = orderID \<and> ord_PassengerID r = passengerID
     \<and> ord_Status r = OrderStatusDriverAssigned \<and> ord_DriverID r \<noteq> None
     \<and> ord_PriceConfirmationState r = ''confirmed''
     \<and> (ord_FareMode r = FareModeFixedQuote \<longrightarrow>
          (\<exists>price. ord_ProposedPriceCents r = Some price \<and> ord_AgreedPriceCents r = Some price))"
    (is "?goal t")
proof -
  have "succeeds (ConfirmOrderPrice orderID passengerID) (\<lambda>_. ?goal) s"
    unfolding ConfirmOrderPrice_def wp_bind [of "ConfirmDriverPrice orderID passengerID"]
  proof (rule wp_partial, goal_cases)
    case (1 confirmed u)
    have u: "orders_consistent (orders (db u))" "confirmed \<Longrightarrow> \<exists>r \<in> set (orders (db u)).
        ord_ID r = orderID \<and> ord_PriceConfirmationState r = ''confirmed''"
      using wpD [OF ConfirmDriverPrice_done [OF assms(1)] 1] by simp_all
    have wf: "list_all order_wf (orders (db u))"
      using keeps_on_db [OF ConfirmDriverPrice_keeps [of "orders (db s)"] 1] assms
      by (simp add: good_since_refl) (simp add: good_since_def)
    show ?case
    proof (rule succeeds_GetOrderByID, goal_cases)
      case (1 o1 row v)
      note scan = scanDispatchOrder_Inr [OF 1(4)]
      have uniq: "r = row" if "r \<in> set (orders (db u))" "ord_ID r = orderID" for r
        using u(1) that 1(1,2) unfolding orders_consistent_def orders_unique_def
        by (auto simp: distinct_map inj_on_def)
      have agreed: "?goal w" if "ord_DriverID o1 \<noteq> None" "ord_PassengerID o1 = passengerID"
        "ord_Status o1 = OrderStatusDriverAssigned" "ord_PriceConfirmationState row = ''confirmed''"
        "db w = db u" for w
        using that 1 scan wf by (intro bexI [of _ row]) (auto simp: list_all_iff order_wf_def)
      have k: "keeps (on_db (\<lambda>d. d = db u)) (confirmed_assignment orderID j passengerID)" for j
        unfolding confirmed_assignment_def by (intro keeps_intros)
      show ?case
      proof (cases "ord_DriverID o1")
        case (Some j)
        show ?thesis
        proof (cases "ord_PassengerID o1 \<noteq> passengerID \<or> ord_Status o1 \<noteq> OrderStatusDriverAssigned")
          case False
          show ?thesis
          proof (cases confirmed)
            case True
            then have "ord_PriceConfirmationState row = ''confirmed''" using u(2) uniq by blast
            then have "?goal w" if "db w = db u" for w
              by (rule agreed [rotated 3]) (use False Some that in simp_all)
            with False Some True 1(5) show ?thesis
              by (simp only: option.case if_not_P [OF False] not_True_eq_False if_False)
                (rule succeeds_keeps [OF k], simp_all)
          next
            case c: False
            have "?goal v" if "ord_PriceConfirmationState o1 = ''confirmed''"
              by (rule agreed) (use False Some that scan 1(5) in simp_all)
            with False Some c show ?thesis by (simp add: wp_ret wp_fail)
          qed
        qed (use Some in \<open>simp add: wp_fail\<close>)
      qed (simp add: wp_fail)
    qed
  qed
  from wpD [OF this assms(3)] show ?thesis .
qed


lemma reserved_world_wf: "list_all order_wf (orders (db reserved_world))"
  by (simp add: reserved_world_simps sample_db_simps order_wf_def reserved_order_def sample_order_def
      driver_active_statuses_def driving_statuses_def)

definition sample_confirmed_row :: order_row where
  "sample_confirmed_row = reserved_order\<lparr>ord_PriceConfirmationState := ''confirmed'',
     ord_AgreedPriceCents := Some 29018, ord_Version := 2, ord_UpdatedAt := seconds 5\<rparr>"

lemma sample_confirmed_row_simps:
  "order_checks sample_confirmed_row" "ord_ID sample_confirmed_row = 1"
  "ord_DeletedAt sample_confirmed_row = None"
  "scanDispatchOrder sample_confirmed_row = Inr (order.truncate sample_confirmed_row)"
  "order_park sample_confirmed_row = Some 7"
  by (simp_all add: sample_confirmed_row_def reserved_order_def sample_order_def order_checks_def
      scanDispatchOrder_def coordinates_of_def NewCoordinates_def empty_coordinates_def order.defs
      order_park_def)

lemma confirm_runs: "wp (ConfirmOrderPrice 1 2) (\<lambda>_ _. True) (\<lambda>_ _. False) reserved_world"
proof -
  have r: "ord_ProposedPriceCents reserved_order = Some 29018" "ord_FareMode reserved_order = FareModeFixedQuote"
    "ord_PriceConfirmationExpiresAt reserved_order = Some (seconds 100)" "ord_Version reserved_order = 1"
    by (simp_all add: reserved_order_def sample_order_def)
  have c: "wp (ConfirmDriverPrice 1 2) Q (\<lambda>_ _. False) reserved_world"
    if "\<And>ev. Q True (reserved_world\<lparr>db := (sample_db reserved_order)
        \<lparr>orders := [sample_confirmed_row], order_events := ev\<rparr>\<rparr>)" for Q
    using that [unfolded sample_confirmed_row_def]
      sample_confirmed_row_simps(1) [unfolded sample_confirmed_row_def]
    by (simp add: ConfirmDriverPrice_def wp_bind wp_ok reserved_world_simps update_orders_logging_def
        update_orders_def Let_def sql_update_def sample_db_simps reserved_order_simps r wp_ret
        rows_affected_def orders_unique_def)
  have t: "ord_DriverID (order.truncate sample_confirmed_row) = Some 3"
    "ord_PassengerID (order.truncate sample_confirmed_row) = 2"
    "ord_Status (order.truncate sample_confirmed_row) = OrderStatusDriverAssigned"
    by (simp_all add: sample_confirmed_row_def reserved_order_def sample_order_def order.defs)
  show ?thesis
    unfolding ConfirmOrderPrice_def
    by (simp add: wp_bind, rule c)
       (simp add: GetOrderByID_def wp_bind wp_ok reserved_world_simps sample_confirmed_row_simps wp_lift t
         confirmed_assignment_def SendToDriver_def driverUserID_def sample_db_simps SendToPassenger_def
         wp_publish_ok SendToTaxiParkByOrder_def taxiParkRealtimeRecipientUserIDsByOrder_def
         park_recipients_def wp_ret)
qed

theorem ConfirmOrderPrice_agrees_witness:
  "\<exists>t r. ConfirmOrderPrice 1 2 reserved_world = (Inr (), t) \<and> r \<in> set (orders (db t))
     \<and> ord_ID r = 1 \<and> ord_PriceConfirmationState r = ''confirmed''"
proof -
  obtain t where t: "ConfirmOrderPrice 1 2 reserved_world = (Inr (), t)"
    using confirm_runs
    by (cases "ConfirmOrderPrice 1 2 reserved_world") (auto simp: wp_def split: sum.splits)
  from ConfirmOrderPrice_agrees [OF reserved_world_consistent reserved_world_wf t] t show ?thesis by blast
qed

end
