(* ===== verification/Dispatch_Termination.thy ===== *)
theory Dispatch_Termination
  imports Dispatch_Outcomes
begin

text \<open>
  The search for a driver ends.  A timeout that is handled puts at most one task into the queue, the next
  attempt of the same order; the attempts are numbered, and there are as many as the configuration has
  radii.
\<close>

section \<open>The next attempt\<close>

text \<open>
  A search attempt leads to another one: its timeout was handled, in some state of the platform, and the
  queue got the other task.
\<close>

inductive leads_to :: "dispatch_service \<Rightarrow> dispatch_task \<Rightarrow> dispatch_task \<Rightarrow> bool" for service where
  timeout: "orders_consistent (orders (db s)) \<Longrightarrow> 0 \<le> task_Attempt task \<Longrightarrow>
    HandleOfferTimeout service task s = (Inr (), t) \<Longrightarrow>
    rd_queue (redis t) = later # rd_queue (redis s) \<Longrightarrow> leads_to service task later"

inductive_cases leads_toE: "leads_to service task later"

definition radii :: "dispatch_service \<Rightarrow> dispatch_task \<Rightarrow> int" where
  "radii service task = int (length (RadiusAttemptsMeters (configForTask (svc_config service) task)))"

lemma leads_to_later:
  assumes "leads_to service task later"
  shows "task_Attempt later = task_Attempt task + 1" "task_Attempt later < radii service task"
    "task_Config later = task_Config task" "task_OrderID later = task_OrderID task"
proof -
  from assms obtain s t where run: "orders_consistent (orders (db s))" "0 \<le> task_Attempt task"
    "HandleOfferTimeout service task s = (Inr (), t)"
    "rd_queue (redis t) = later # rd_queue (redis s)"
    by (rule leads_toE)
  let ?more = "snd (radiusForAttempt (configForTask (svc_config service) task) (task_Attempt task + 1))"
  have "?more \<and> (\<exists>offered queuedAt. later =
           \<lparr>task_OrderID = task_OrderID task, task_Attempt = task_Attempt task + 1,
            task_QueuedAt = queuedAt,
            task_ExcludeDriverIDs = appendUniqueDriverIDs (task_ExcludeDriverIDs task) offered,
            task_Config = task_Config task\<rparr>)"
    using HandleOfferTimeout_step [OF run(1) _ run(3)] run(2,4) by (auto split: if_splits)
  then show "task_Attempt later = task_Attempt task + 1" "task_Attempt later < radii service task"
    "task_Config later = task_Config task" "task_OrderID later = task_OrderID task"
    by (auto simp: radii_def radiusForAttempt_def split: if_splits)
qed

lemma leads_to_radii: "leads_to service task later \<Longrightarrow> radii service later = radii service task"
  by (simp add: radii_def configForTask_def leads_to_later(3))

lemma leads_to_progress:
  assumes "leads_to service task later"
  shows "nat (radii service later - task_Attempt later) < nat (radii service task - task_Attempt task)"
  using leads_to_later(1,2) [OF assms] leads_to_radii [OF assms] by simp

lemma leads_to_steps:
  "(leads_to service ^^ n) task later \<Longrightarrow>
   task_Attempt later = task_Attempt task + int n \<and> radii service later = radii service task
   \<and> task_OrderID later = task_OrderID task \<and> (n \<noteq> 0 \<longrightarrow> task_Attempt later < radii service task)"
proof (induction n arbitrary: later)
  case (Suc n)
  then obtain mid where mid: "(leads_to service ^^ n) task mid" "leads_to service mid later" by auto
  from Suc.IH [OF mid(1)] leads_to_later [OF mid(2)] leads_to_radii [OF mid(2)]
  show ?case by auto
qed simp

text \<open>
  C16: the search terminates.  Every chain of attempts that starts with the first one is shorter than the
  list of radii of its configuration, all its tasks belong to one order, and there is no endless
  chain, from whatever task and with whatever failures in between.
\<close>

theorem search_terminates:
  "wfp (\<lambda>later task. leads_to service task later)
   \<and> ((leads_to service ^^ n) task later \<and> task_Attempt task = 0 \<and> 0 < n \<longrightarrow>
        int n < radii service task \<and> task_OrderID later = task_OrderID task)"
proof
  have "wfp (\<lambda>later task. (later, task) \<in> measure (\<lambda>task. nat (radii service task - task_Attempt task)))"
    using wf_measure [of "\<lambda>task. nat (radii service task - task_Attempt task)"]
    unfolding wfp_def by (simp add: measure_def inv_image_def)
  then show "wfp (\<lambda>later task. leads_to service task later)"
    by (rule wfp_subset) (auto dest: leads_to_progress)
qed (use leads_to_steps [of n service task later] in auto)

theorem search_terminates_witness:
  "\<exists>later. (leads_to sample_service ^^ 1) first_attempt later \<and> 1 < radii sample_service first_attempt
     \<and> task_OrderID later = 1"
proof -
  obtain t where t: "HandleOfferTimeout sample_service first_attempt searching_world = (Inr (), t)"
    using timeout_runs
    by (cases "HandleOfferTimeout sample_service first_attempt searching_world")
       (auto simp: wp_def split: sum.splits)
  have "task_Attempt first_attempt \<noteq> -1" by (simp add: first_attempt_def)
  from HandleOfferTimeout_step [OF searching_world_consistent this t] sample_next_radius
  obtain later where "rd_queue (redis t) = later # rd_queue (redis searching_world)"
    by (auto simp: searching_world_simps sample_db_simps first_attempt_def sample_order_def)
  from leads_to.timeout [OF searching_world_consistent _ t this]
  have "(leads_to sample_service ^^ 1) first_attempt later" by (simp add: first_attempt_def eq_OO)
  with search_terminates [of sample_service 1 first_attempt later] show ?thesis
    by (auto simp: first_attempt_def)
qed

end
