(* ===== verification/Numeric_Text.thy ===== *)
theory Numeric_Text
  imports Domain_User Domain_Money
begin

text \<open>
  Amounts as decimal texts: \<^verbatim>\<open>moneyCentsToNumeric\<close> and \<^verbatim>\<open>basisPointsToNumeric\<close> of
  \<^verbatim>\<open>internal/repository/finance_repository.go\<close> write kopecks and basis points with two decimals, and
  the numeric columns read them back.  The verbs \<^verbatim>\<open>%d\<close> and \<^verbatim>\<open>%02d\<close> of \<^verbatim>\<open>fmt.Sprintf\<close> are
  \<open>fmt_d\<close> and \<open>fmt_02d\<close>.
\<close>

section \<open>Printing\<close>

definition digit :: "nat \<Rightarrow> char" where
  "digit n = ''0123456789'' ! n"

fun decimal :: "nat \<Rightarrow> string" where
  "decimal n = (if n < 10 then [digit n] else decimal (n div 10) @ [digit (n mod 10)])"

declare decimal.simps [simp del]

definition fmt_d :: "int \<Rightarrow> string" where
  "fmt_d i = (if i < 0 then CHR ''-'' # decimal (nat (- i)) else decimal (nat i))"

definition fmt_02d :: "int \<Rightarrow> string" where
  "fmt_02d i = (if 0 \<le> i \<and> i < 10 then CHR ''0'' # fmt_d i else fmt_d i)"

text \<open>The negation and the division are those of int64.\<close>

definition moneyCentsToNumeric :: "int \<Rightarrow> string" where
  "moneyCentsToNumeric amountCents =
     (let (sign, val) = (if amountCents < 0 then (''-'', wrap64 (- amountCents)) else ('''', amountCents))
      in sign @ fmt_d (val sdiv 100) @ ''.'' @ fmt_02d (val smod 100))"

definition basisPointsToNumeric :: "int \<Rightarrow> string" where
  "basisPointsToNumeric basisPoints =
     fmt_d (basisPoints sdiv 100) @ ''.'' @ fmt_02d (basisPoints smod 100)"

section \<open>Reading\<close>

text \<open>
  The cast \<^verbatim>\<open>text::numeric\<close> of a number with exactly two decimals, as a number of hundredths; the
  other texts that the cast accepts do not occur.
\<close>

definition digit_value :: "char \<Rightarrow> nat" where
  "digit_value c = of_char c - 48"

definition read_digits :: "string \<Rightarrow> nat" where
  "read_digits s = foldl (\<lambda>acc c. acc * 10 + digit_value c) 0 s"

definition unsigned_hundredths :: "string \<Rightarrow> int option" where
  "unsigned_hundredths s =
     (let whole = takeWhile (\<lambda>c. c \<noteq> CHR ''.'') s;
          rest = dropWhile (\<lambda>c. c \<noteq> CHR ''.'') s
      in if whole \<noteq> [] \<and> list_all is_digit whole \<and> length rest = 3 \<and> list_all is_digit (tl rest)
         then Some (int (read_digits whole * 100 + read_digits (tl rest))) else None)"

definition numeric_hundredths :: "string \<Rightarrow> int option" where
  "numeric_hundredths s =
     (case s of
        c # cs \<Rightarrow> if c = CHR ''-'' then map_option uminus (unsigned_hundredths cs)
                  else unsigned_hundredths s
      | [] \<Rightarrow> None)"

text \<open>A column \<^verbatim>\<open>NUMERIC(12,2)\<close> or \<^verbatim>\<open>NUMERIC(5,2)\<close>: ten or three digits before the point.\<close>

definition numeric_column :: "int \<Rightarrow> string \<Rightarrow> error + int" where
  "numeric_column bound s =
     (case numeric_hundredths s of
        None \<Rightarrow> Inl [Infra ErrInvalidText]
      | Some n \<Rightarrow> if \<bar>n\<bar> < bound then Inr n else Inl [Infra ErrNumericOutOfRange])"

abbreviation numeric_12_2 :: "string \<Rightarrow> error + int" where
  "numeric_12_2 \<equiv> numeric_column (10 ^ 12)"

abbreviation numeric_5_2 :: "string \<Rightarrow> error + int" where
  "numeric_5_2 \<equiv> numeric_column (10 ^ 5)"

section \<open>What was printed is read back\<close>

lemma digit_cases: "n < 10 \<Longrightarrow> n \<in> {0, 1, 2, 3, 4, 5, 6, 7, 8, 9::nat}"
  by auto

lemma is_digit_digit [simp]: "n < 10 \<Longrightarrow> is_digit (digit n)"
  by (drule digit_cases) (auto simp: is_digit_def digit_def)

lemma digit_value_digit [simp]: "n < 10 \<Longrightarrow> digit_value (digit n) = n"
  by (drule digit_cases) (auto simp: digit_value_def digit_def)

lemma is_digit_not_mark: "is_digit c \<Longrightarrow> c \<noteq> CHR ''.'' \<and> c \<noteq> CHR ''-''"
  by (auto simp: is_digit_def)

lemma read_digits_snoc: "read_digits (s @ [c]) = read_digits s * 10 + digit_value c"
  by (simp add: read_digits_def)

lemma decimal_digits: "list_all is_digit (decimal n) \<and> decimal n \<noteq> []"
proof (induction n rule: decimal.induct)
  case (1 n)
  then show ?case by (subst (1 2) decimal.simps) auto
qed

lemma read_decimal [simp]: "read_digits (decimal n) = n"
proof (induction n rule: decimal.induct)
  case (1 n)
  show ?case
  proof (cases "n < 10")
    case True
    then show ?thesis by (subst decimal.simps) (simp add: read_digits_def)
  next
    case False
    with 1 show ?thesis
      by (subst decimal.simps) (simp add: read_digits_snoc)
  qed
qed

lemma fmt_02d_nat:
  assumes "0 \<le> i" "i < 100"
  obtains a b where "fmt_02d i = [a, b]" "is_digit a" "is_digit b" "read_digits [a, b] = nat i"
proof (cases "i < 10")
  case True
  with assms have "fmt_02d i = [CHR ''0'', digit (nat i)]"
    by (subst fmt_02d_def, subst fmt_d_def, subst decimal.simps) auto
  moreover have "is_digit CHR ''0''" "digit_value CHR ''0'' = 0"
    by (simp_all add: is_digit_def digit_value_def)
  ultimately show ?thesis using that True assms by (auto simp: read_digits_def)
next
  case False
  with assms have "nat i div 10 < 10" "\<not> nat i < 10" by auto
  then have "fmt_02d i = [digit (nat i div 10), digit (nat i mod 10)]"
    using False assms
    by (simp add: fmt_02d_def fmt_d_def decimal.simps [of "nat i"] decimal.simps [of "nat i div 10"])
  moreover have "nat i div 10 * 10 + nat i mod 10 = nat i" by simp
  ultimately show ?thesis
    using that \<open>nat i div 10 < 10\<close> by (auto simp: read_digits_def)
qed

lemma truncated_division [simp]:
  fixes v :: int
  assumes "0 \<le> v"
  shows "v sdiv 100 = v div 100" and "v smod 100 = v mod 100"
  using assms by (cases "v = 0"; simp add: signed_divide_int_def signed_modulo_int_def)+

lemma unsigned_hundredths_print:
  assumes "0 \<le> v"
  shows "unsigned_hundredths (fmt_d (v sdiv 100) @ ''.'' @ fmt_02d (v smod 100)) = Some v"
proof -
  let ?w = "decimal (nat (v div 100))"
  have q: "v sdiv 100 = v div 100" "v smod 100 = v mod 100"
    using assms by simp_all
  obtain a b where ab: "fmt_02d (v mod 100) = [a, b]" "is_digit a" "is_digit b"
    "read_digits [a, b] = nat (v mod 100)"
    by (rule fmt_02d_nat [of "v mod 100"]) auto
  have d: "list_all is_digit ?w" "?w \<noteq> []" using decimal_digits by auto
  then have nodot: "c \<in> set ?w \<Longrightarrow> c \<noteq> CHR ''.''" for c
    using is_digit_not_mark by (auto simp: list_all_iff)
  have "takeWhile (\<lambda>c. c \<noteq> CHR ''.'') (?w @ ''.'' @ [a, b]) = ?w"
    "dropWhile (\<lambda>c. c \<noteq> CHR ''.'') (?w @ ''.'' @ [a, b]) = ''.'' @ [a, b]"
    using nodot by (auto simp: takeWhile_append2 dropWhile_append2)
  moreover have "nat (v div 100) * 100 + nat (v mod 100) = nat v"
    using assms by (simp add: nat_div_distrib nat_mod_distrib)
  moreover have "fmt_d (v div 100) = ?w" using assms by (simp add: fmt_d_def pos_imp_zdiv_neg_iff)
  ultimately show ?thesis
    using ab d assms by (simp add: unsigned_hundredths_def Let_def q)
qed

lemma fmt_d_head:
  assumes "0 \<le> i"
  obtains c cs where "fmt_d i = c # cs" "is_digit c"
  using assms decimal_digits [of "nat i"] that
  by (cases "decimal (nat i)") (auto simp: fmt_d_def)

lemma numeric_hundredths_unsigned:
  assumes "0 \<le> v"
  shows "numeric_hundredths (fmt_d (v sdiv 100) @ ''.'' @ fmt_02d (v smod 100)) = Some v"
proof -
  have "0 \<le> v sdiv 100" using assms by simp
  then obtain c cs where c: "fmt_d (v sdiv 100) = c # cs" "is_digit c" by (rule fmt_d_head)
  then show ?thesis
    using unsigned_hundredths_print [OF assms] is_digit_not_mark [OF c(2)]
    by (simp add: numeric_hundredths_def)
qed

lemma numeric_money:
  assumes "int64_min < n" "n \<le> int64_max"
  shows "numeric_hundredths (moneyCentsToNumeric n) = Some n"
proof (cases "n < 0")
  case True
  have "wrap64 (- n) = - n"
    using assms True by (intro wrap64_id) (auto simp: int64_min_def int64_max_def)
  with True show ?thesis
    using unsigned_hundredths_print [of "- n"]
    by (simp add: moneyCentsToNumeric_def numeric_hundredths_def)
next
  case False
  then show ?thesis
    using numeric_hundredths_unsigned [of n] by (simp add: moneyCentsToNumeric_def)
qed

text \<open>The smallest int64 has no negation: it is printed with two signs.\<close>

lemma moneyCentsToNumeric_min:
  "moneyCentsToNumeric int64_min = ''--92233720368547758.-8''"
proof -
  have "wrap64 (- int64_min) = int64_min"
    by (simp add: int64_min_def wrap64_sint)
  moreover have "int64_min sdiv 100 = -92233720368547758" "int64_min smod 100 = -8"
    by (simp_all add: int64_min_def signed_divide_int_def signed_modulo_int_def)
  ultimately show ?thesis
    by (simp add: moneyCentsToNumeric_def int64_min_def fmt_02d_def fmt_d_def decimal.simps digit_def)
qed

section \<open>Properties\<close>

text \<open>
  C37: every int64 amount of kopecks that is written to a numeric column is read back as the same
  amount, except the smallest one, whose text is malformed and refused; rates between 0 and 100
  percent are read back as well.
\<close>

theorem moneyCentsToNumeric_roundtrip:
  assumes "int64_min \<le> n" "n \<le> int64_max" "0 \<le> bps"
  shows "(numeric_hundredths (moneyCentsToNumeric n) = Some n \<longleftrightarrow> n \<noteq> int64_min)
    \<and> numeric_hundredths (moneyCentsToNumeric int64_min) = None
    \<and> numeric_hundredths (basisPointsToNumeric bps) = Some bps"
proof -
  have bad: "numeric_hundredths (moneyCentsToNumeric int64_min) = None"
    unfolding moneyCentsToNumeric_min
    by (simp add: numeric_hundredths_def unsigned_hundredths_def Let_def is_digit_def)
  with assms numeric_money [of n] numeric_hundredths_unsigned [of bps] show ?thesis
    by (auto simp: basisPointsToNumeric_def)
qed

theorem moneyCentsToNumeric_roundtrip_witness:
  "numeric_hundredths (moneyCentsToNumeric (-12345)) = Some (-12345)
    \<and> moneyCentsToNumeric (-12345) = ''-123.45''
    \<and> basisPointsToNumeric 1505 = ''15.05''"
  using moneyCentsToNumeric_roundtrip [of "-12345" 1505]
  by (simp add: int64_min_def int64_max_def moneyCentsToNumeric_def basisPointsToNumeric_def fmt_02d_def
      fmt_d_def decimal.simps digit_def signed_divide_int_def signed_modulo_int_def)

end
