(* ===== verification/Finance_Store.thy ===== *)
theory Finance_Store
  imports Order_Store Realtime_Gateway Numeric_Text
begin

text \<open>
  The tables of the money: \<^verbatim>\<open>internal/repository/finance_repository.go\<close>,
  \<^verbatim>\<open>finance_repository_extended.go\<close> and \<^verbatim>\<open>driver_park_balance.go\<close>, one definition per method, with
  the constraints that the migrations put on the tables.  A transaction is atomic; \<^verbatim>\<open>now()\<close> inside
  it is the instant of its begin.  The JSON columns that are never read back (the metadata of a
  transaction, the payload of an audit event) are left out.
\<close>

section \<open>Constraints and statements of the tables\<close>

definition park_exists :: "db \<Rightarrow> uuid option \<Rightarrow> bool" where
  "park_exists d park = (case park of None \<Rightarrow> True | Some p \<Rightarrow> list_ex (\<lambda>tp. tp_ID tp = p) (taxi_parks d))"

definition settlement_references :: "db \<Rightarrow> order_settlement \<Rightarrow> bool" where
  "settlement_references d s \<longleftrightarrow>
     list_ex (\<lambda>r. ord_ID r = stl_OrderID s) (orders d)
     \<and> list_ex (\<lambda>dr. drv_ID dr = stl_DriverID s) (drivers d) \<and> park_exists d (stl_TaxiParkID s)"

text \<open>One transaction of each type per order; the amounts are not negative.\<close>

definition insert_transaction :: "order_settlement \<Rightarrow> financial_transaction \<Rightarrow> db \<Rightarrow> (error + unit) \<times> db" where
  "insert_transaction s t d =
     (if \<bar>ftx_CommissionBasisPoints t\<bar> \<ge> 10 ^ 5 then (Inl [Infra ErrNumericOutOfRange], d)
      else if Amount (ftx_GrossAmount t) < 0 \<or> Amount (ftx_CommissionAmount t) < 0
        \<or> Amount (ftx_NetAmount t) < 0 then (Inl [Infra ErrCheckViolation], d)
      else if ftx_OrderID t \<noteq> None \<and> list_ex (\<lambda>u. ftx_OrderID u = ftx_OrderID t
           \<and> ftx_TransactionType u = ftx_TransactionType t) (financial_transactions d)
        then (Inl [Infra ErrUniqueViolation], d)
      else if \<not> settlement_references d s then (Inl [Infra ErrForeignKeyViolation], d)
      else (Inr (), d\<lparr>financial_transactions := financial_transactions d @ [t]\<rparr>))"

text \<open>One settlement per order.\<close>

definition insert_order_finance :: "order_finance \<Rightarrow> db \<Rightarrow> (error + unit) \<times> db" where
  "insert_order_finance f d =
     (if Amount (ofi_OrderTotalAmount f) < 0 \<or> Amount (ofi_TaxiParkCommissionAmount f) < 0
        \<or> Amount (ofi_DriverIncomeAmount f) < 0 \<or> Amount (ofi_PlatformFeeAmount f) < 0
        \<or> Amount (ofi_TaxiParkIncomeAmount f) < 0
        \<or> ofi_DriverCommissionBasisPoints f < 0 \<or> ofi_DriverCommissionBasisPoints f > 10000
        \<or> ofi_PlatformFeeBasisPoints f < 0 \<or> ofi_PlatformFeeBasisPoints f > 10000
        then (Inl [Infra ErrCheckViolation], d)
      else if list_ex (\<lambda>g. ofi_OrderID g = ofi_OrderID f) (order_finances d)
        then (Inl [Infra ErrUniqueViolation], d)
      else (Inr (), d\<lparr>order_finances := order_finances d @ [f]\<rparr>))"

text \<open>
  The balances: one row per driver and park (\<^verbatim>\<open>NULLS NOT DISTINCT\<close>), never negative, a bigint.  A
  \<^verbatim>\<open>bigint\<close> sum that does not fit is an error of the statement.
\<close>

definition balance_key :: "uuid \<Rightarrow> uuid option \<Rightarrow> driver_balance_row \<Rightarrow> bool" where
  "balance_key driver park b \<longleftrightarrow> bal_DriverID b = driver \<and> bal_TaxiParkID b = park"

definition available :: "driver_balance_row \<Rightarrow> int" where
  "available b = Amount (bal_AvailableBalance b)"

definition add_available :: "int \<Rightarrow> time \<Rightarrow> driver_balance_row \<Rightarrow> driver_balance_row" where
  "add_available delta now b =
     b\<lparr>bal_AvailableBalance := (bal_AvailableBalance b)\<lparr>Amount := available b + delta\<rparr>,
       bal_version := bal_version b + 1, bal_UpdatedAt := now\<rparr>"

definition update_balances ::
  "(driver_balance_row \<Rightarrow> bool) \<Rightarrow> int \<Rightarrow> time \<Rightarrow> db \<Rightarrow> (error + nat) \<times> db" where
  "update_balances P delta now d =
     (if list_ex (\<lambda>b. P b \<and> available b + delta > int64_max) (driver_balances d)
        then (Inl [Infra ErrNumericOutOfRange], d)
      else if list_ex (\<lambda>b. P b \<and> available b + delta < 0) (driver_balances d)
        then (Inl [Infra ErrCheckViolation], d)
      else (Inr (rows_affected P (driver_balances d)),
            d\<lparr>driver_balances := sql_update P (add_available delta now) (driver_balances d)\<rparr>))"

definition upsert_balance ::
  "uuid \<Rightarrow> uuid option \<Rightarrow> money \<Rightarrow> time \<Rightarrow> db \<Rightarrow> (error + nat) \<times> db" where
  "upsert_balance driver park amount now d =
     (if Amount amount < 0 then (Inl [Infra ErrCheckViolation], d)
      else if list_ex (balance_key driver park) (driver_balances d)
        then update_balances (balance_key driver park) (Amount amount) now d
      else (Inr 1, d\<lparr>driver_balances := driver_balances d @
             [\<lparr>bal_DriverID = driver, bal_AvailableBalance = amount,
               bal_PendingBalance = amount\<lparr>Amount := 0\<rparr>, bal_UpdatedAt = now,
               bal_TaxiParkID = park, bal_version = 1\<rparr>]\<rparr>))"

definition update_park_balance :: "uuid \<Rightarrow> int \<Rightarrow> time \<Rightarrow> db \<Rightarrow> (error + nat) \<times> db" where
  "update_park_balance park delta now d =
     (if list_ex (\<lambda>tp. tp_ID tp = park \<and> tp_balance_cents tp + delta > int64_max) (taxi_parks d)
        then (Inl [Infra ErrNumericOutOfRange], d)
      else (Inr (rows_affected (\<lambda>tp. tp_ID tp = park) (taxi_parks d)),
            d\<lparr>taxi_parks := sql_update (\<lambda>tp. tp_ID tp = park)
               (\<lambda>tp. tp\<lparr>tp_balance_cents := tp_balance_cents tp + delta, tp_UpdatedAt := now\<rparr>)
               (taxi_parks d)\<rparr>))"

section \<open>Ledgers\<close>

text \<open>The four tables; the queries that build the table name into the text take it as an argument.\<close>

datatype ledger_table = driver_balance_ledger | taxi_park_balance_ledger
  | taxi_park_platform_fee_ledger | platform_balance_ledger

primrec ledger :: "ledger_table \<Rightarrow> db \<Rightarrow> ledger_row list" where
  "ledger driver_balance_ledger d = driver_ledger d"
| "ledger taxi_park_balance_ledger d = park_ledger d"
| "ledger taxi_park_platform_fee_ledger d = fee_ledger d"
| "ledger platform_balance_ledger d = platform_ledger d"

primrec set_ledger :: "ledger_table \<Rightarrow> ledger_row list \<Rightarrow> db \<Rightarrow> db" where
  "set_ledger driver_balance_ledger rows d = d\<lparr>driver_ledger := rows\<rparr>"
| "set_ledger taxi_park_balance_ledger rows d = d\<lparr>park_ledger := rows\<rparr>"
| "set_ledger taxi_park_platform_fee_ledger rows d = d\<lparr>fee_ledger := rows\<rparr>"
| "set_ledger platform_balance_ledger rows d = d\<lparr>platform_ledger := rows\<rparr>"

definition insert_ledger :: "ledger_table \<Rightarrow> ledger_row \<Rightarrow> db \<Rightarrow> (error + unit) \<times> db" where
  "insert_ledger table row d =
     (if led_Amount row < 0 \<or> led_BalanceAfter row < 0 then (Inl [Infra ErrCheckViolation], d)
      else (Inr (), set_ledger table (ledger table d @ [row]) d))"

text \<open>
  The amounts of a row travel as texts.  \<open>started\<close> is the begin of the transaction, which the column
  \<^verbatim>\<open>created_at\<close> takes by default.
\<close>

definition write_ledger ::
  "ledger_table \<Rightarrow> time \<Rightarrow> ledger_row \<Rightarrow> int \<Rightarrow> int \<Rightarrow> (world, unit) op" where
  "write_ledger table started row amount balanceAfter =
     sql (\<lambda>_ d. case (numeric_12_2 (moneyCentsToNumeric amount),
                      numeric_12_2 (moneyCentsToNumeric balanceAfter)) of
            (Inr a, Inr b) \<Rightarrow>
              insert_ledger table (row\<lparr>led_Amount := a, led_BalanceAfter := b, led_CreatedAt := started\<rparr>) d
          | (Inl e, _) \<Rightarrow> (Inl e, d)
          | (_, Inl e) \<Rightarrow> (Inl e, d))"

definition empty_ledger_row :: ledger_row where
  "empty_ledger_row = \<lparr>led_DriverID = None, led_TaxiParkID = None, led_OrderID = None,
     led_TransactionID = None, led_InvoiceID = None, led_Type = '''', led_Amount = 0,
     led_Currency = '''', led_Direction = '''', led_BalanceAfter = 0, led_Comment = '''',
     led_CreatedAt = 0\<rparr>"

text \<open>\<^verbatim>\<open>ORDER BY created_at DESC LIMIT 1\<close>; of rows of the same instant the last inserted one.\<close>

definition latest_balance :: "ledger_table \<Rightarrow> uuid \<Rightarrow> db \<Rightarrow> int option" where
  "latest_balance table park d =
     map_option led_BalanceAfter (best_by (\<lambda>a b. led_CreatedAt a \<ge> led_CreatedAt b)
       (filter (\<lambda>r. led_TaxiParkID r = Some park) (ledger table d)))"

definition nextLedgerBalance ::
  "ledger_table \<Rightarrow> uuid \<Rightarrow> int \<Rightarrow> bool \<Rightarrow> (world, int) op" where
  "nextLedgerBalance table ownerID deltaCents increase =
     bind (query (\<lambda>_ d. Inr (case latest_balance table ownerID d of None \<Rightarrow> 0 | Some b \<Rightarrow> b)))
       (\<lambda>currentBalance.
          ret (if increase then wrap64 (currentBalance + deltaCents)
               else wrap64 (currentBalance - deltaCents)))"

definition driverParkBalanceInTransaction :: "uuid \<Rightarrow> uuid option \<Rightarrow> (world, int) op" where
  "driverParkBalanceInTransaction driver park =
     query (\<lambda>_ d. one_row (map available (filter (balance_key driver park) (driver_balances d))))"
section \<open>Settling an order\<close>

text \<open>The active settings of a park; a missing park has none.\<close>

definition active_settings :: "db \<Rightarrow> uuid option \<Rightarrow> taxi_park_finance_settings option" where
  "active_settings d park =
     find (\<lambda>s. Some (tfs_TaxiParkID s) = park \<and> tfs_IsActive s
       \<and> list_ex (\<lambda>tp. tp_ID tp = tfs_TaxiParkID s) (taxi_parks d)) (finance_settings d)"

definition park_commission :: "db \<Rightarrow> uuid option \<Rightarrow> int option" where
  "park_commission d park =
     (case find (\<lambda>tp. Some (tp_ID tp) = park) (taxi_parks d) of
        None \<Rightarrow> None | Some tp \<Rightarrow> tp_commission_bps tp)"

definition snapshot_of :: "db \<Rightarrow> order_row \<Rightarrow> order_snapshot" where
  "snapshot_of d r =
     \<lparr>snp_OrderID = ord_ID r, snp_DriverID = ord_DriverID r, snp_TaxiParkID = order_park r,
      snp_CityID = ord_CityID r, snp_TariffID = ord_TariffID r, snp_Status = ord_Status r,
      snp_FinalPrice = map_option in_roubles (ord_FinalPrice r),
      snp_DriverCommissionBPS =
        Some (case active_settings d (order_park r) of
                Some s \<Rightarrow> BasisPoints (tfs_DriverCommissionRate s)
              | None \<Rightarrow> (case park_commission d (order_park r) of Some b \<Rightarrow> b | None \<Rightarrow> 0)),
      snp_PlatformFeeBPS =
        (case active_settings d (order_park r) of
           Some s \<Rightarrow> BasisPoints (tfs_PlatformFeeRate s) | None \<Rightarrow> 100)\<rparr>"

definition GetOrderSnapshot :: "uuid \<Rightarrow> (world, order_snapshot) op" where
  "GetOrderSnapshot orderID =
     query (\<lambda>_ d. one_row (map (snapshot_of d)
       (filter (\<lambda>r. ord_ID r = orderID \<and> ord_DeletedAt r = None) (orders d))))"

definition settlement_of :: "order_finance \<Rightarrow> order_settlement" where
  "settlement_of f =
     \<lparr>stl_OrderID = ofi_OrderID f, stl_DriverID = ofi_DriverID f, stl_TaxiParkID = ofi_TaxiParkID f,
      stl_GrossAmount = ofi_OrderTotalAmount f,
      stl_CommissionRate = \<lparr>BasisPoints = ofi_DriverCommissionBasisPoints f,
                            Source = ''taxi_park_finance_settings''\<rparr>,
      stl_CommissionAmount = ofi_TaxiParkCommissionAmount f,
      stl_NetAmount = ofi_DriverIncomeAmount f,
      stl_PlatformFeeRate = \<lparr>BasisPoints = ofi_PlatformFeeBasisPoints f,
                             Source = ''taxi_park_finance_settings''\<rparr>,
      stl_PlatformFeeAmount = ofi_PlatformFeeAmount f,
      stl_TaxiParkIncomeAmount = ofi_TaxiParkIncomeAmount f,
      stl_CommissionTransactionID = uuid_Nil, stl_IncomeTransactionID = uuid_Nil,
      stl_CreatedAt = ofi_CreatedAt f\<rparr>"

definition getOrderSettlementForUpdate :: "uuid \<Rightarrow> (world, order_settlement option) op" where
  "getOrderSettlementForUpdate orderID =
     query (\<lambda>_ d. Inr (map_option settlement_of
       (find (\<lambda>f. ofi_OrderID f = orderID) (order_finances d))))"

definition insertFinancialTransaction ::
  "time \<Rightarrow> order_settlement \<Rightarrow> transaction_type \<Rightarrow> (world, uuid) op" where
  "insertFinancialTransaction started s transactionType =
     (let netAmount = (if transactionType = TransactionTypeCommission
                       then stl_CommissionAmount s else stl_NetAmount s)
      in bind uuid_New (\<lambda>transactionID.
           andthen (sql (\<lambda>_. insert_transaction s
             \<lparr>ftx_ID = transactionID, ftx_OrderID = Some (stl_OrderID s),
              ftx_DriverID = Some (stl_DriverID s), ftx_TaxiParkID = stl_TaxiParkID s,
              ftx_TransactionType = transactionType,
              ftx_GrossAmount = stl_GrossAmount s,
              ftx_CommissionBasisPoints = BasisPoints (stl_CommissionRate s),
              ftx_CommissionAmount = stl_CommissionAmount s,
              ftx_NetAmount = netAmount\<lparr>Currency := Currency (stl_GrossAmount s)\<rparr>,
              ftx_Currency = Currency (stl_GrossAmount s), ftx_CreatedAt = started\<rparr>))
           (ret transactionID)))"

text \<open>The row of \<^verbatim>\<open>order_financial_transactions\<close>: its numbers are parsed from their texts.\<close>

definition order_finance_row :: "uuid \<Rightarrow> time \<Rightarrow> order_settlement \<Rightarrow> int list \<Rightarrow> order_finance" where
  "order_finance_row rowID started s ns =
     (let m = (\<lambda>i. \<lparr>Amount = ns ! i, Currency = Currency (stl_GrossAmount s)\<rparr>)
      in \<lparr>ofi_ID = rowID, ofi_OrderID = stl_OrderID s, ofi_TaxiParkID = stl_TaxiParkID s,
          ofi_DriverID = stl_DriverID s, ofi_PassengerID = None,
          ofi_OrderTotalAmount = m 0, ofi_DriverCommissionBasisPoints = ns ! 1,
          ofi_TaxiParkCommissionAmount = m 2, ofi_DriverIncomeAmount = m 3,
          ofi_PlatformFeeBasisPoints = ns ! 4, ofi_PlatformFeeAmount = m 5,
          ofi_TaxiParkIncomeAmount = m 6, ofi_Status = ''calculated'',
          ofi_CreatedAt = started, ofi_UpdatedAt = started\<rparr>)"

definition insertOrderFinance :: "time \<Rightarrow> order_settlement \<Rightarrow> (world, unit) op" where
  "insertOrderFinance started s =
     bind uuid_New (\<lambda>rowID.
     sql (\<lambda>_ d.
       case collect
         [numeric_12_2 (moneyCentsToNumeric (Amount (stl_GrossAmount s))),
          numeric_5_2 (basisPointsToNumeric (BasisPoints (stl_CommissionRate s))),
          numeric_12_2 (moneyCentsToNumeric (Amount (stl_CommissionAmount s))),
          numeric_12_2 (moneyCentsToNumeric (Amount (stl_NetAmount s))),
          numeric_5_2 (basisPointsToNumeric (BasisPoints (stl_PlatformFeeRate s))),
          numeric_12_2 (moneyCentsToNumeric (Amount (stl_PlatformFeeAmount s))),
          numeric_12_2 (moneyCentsToNumeric (Amount (stl_TaxiParkIncomeAmount s)))]
         (\<lambda>x. bind (lift x) (\<lambda>n. ret [n])) () of
         (Inl e, _) \<Rightarrow> (Inl e, d)
       | (Inr ns, _) \<Rightarrow> insert_order_finance (order_finance_row rowID started s ns) d))"

definition insertFinanceAudit :: "uuid \<Rightarrow> order_settlement \<Rightarrow> string \<Rightarrow> (world, unit) op" where
  "insertFinanceAudit transactionID s eventType =
     sql (\<lambda>_ d. (Inr (), d\<lparr>finance_audit := finance_audit d @
       [\<lparr>fae_TransactionID = Some transactionID, fae_OrderID = Some (stl_OrderID s),
         fae_ActorUserID = None, fae_EventType = eventType\<rparr>]\<rparr>))"

definition insertDriverBalanceLedger :: "time \<Rightarrow> order_settlement \<Rightarrow> (world, unit) op" where
  "insertDriverBalanceLedger started s =
     bind (driverParkBalanceInTransaction (stl_DriverID s) (stl_TaxiParkID s)) (\<lambda>balanceAfter.
       write_ledger driver_balance_ledger started
         (empty_ledger_row\<lparr>led_DriverID := Some (stl_DriverID s), led_TaxiParkID := stl_TaxiParkID s,
            led_OrderID := Some (stl_OrderID s), led_TransactionID := Some (stl_IncomeTransactionID s),
            led_Type := ''order_income'', led_Currency := Currency (stl_NetAmount s),
            led_Direction := ''credit''\<rparr>)
         (Amount (stl_NetAmount s)) balanceAfter)"

text \<open>The row that the three ledgers of a park write: they differ in type, direction and amount.\<close>

definition park_ledger_entry ::
  "ledger_table \<Rightarrow> string \<Rightarrow> string \<Rightarrow> money \<Rightarrow> time \<Rightarrow> uuid \<Rightarrow> order_settlement \<Rightarrow> (world, unit) op" where
  "park_ledger_entry table entryType direction amount started park s =
     bind (nextLedgerBalance table park (Amount amount) True) (\<lambda>balanceAfter.
       write_ledger table started
         (empty_ledger_row\<lparr>led_TaxiParkID := Some park, led_OrderID := Some (stl_OrderID s),
            led_TransactionID := Some (stl_CommissionTransactionID s), led_Type := entryType,
            led_Currency := Currency amount, led_Direction := direction\<rparr>)
         (Amount amount) balanceAfter)"

definition insertTaxiParkBalanceLedger :: "time \<Rightarrow> uuid \<Rightarrow> order_settlement \<Rightarrow> (world, unit) op" where
  "insertTaxiParkBalanceLedger started park s =
     park_ledger_entry taxi_park_balance_ledger ''order_commission_income'' ''credit''
       (stl_TaxiParkIncomeAmount s) started park s"

definition insertTaxiParkPlatformFeeLedger :: "time \<Rightarrow> uuid \<Rightarrow> order_settlement \<Rightarrow> (world, unit) op" where
  "insertTaxiParkPlatformFeeLedger started park s =
     park_ledger_entry taxi_park_platform_fee_ledger ''platform_service_fee_accrual'' ''debit''
       (stl_PlatformFeeAmount s) started park s"

definition insertPlatformBalanceLedger :: "time \<Rightarrow> uuid \<Rightarrow> order_settlement \<Rightarrow> (world, unit) op" where
  "insertPlatformBalanceLedger started park s =
     park_ledger_entry platform_balance_ledger ''service_fee_receivable'' ''credit''
       (stl_PlatformFeeAmount s) started park s"

definition getCommittedOrderSettlement :: "uuid \<Rightarrow> (world, order_settlement) op" where
  "getCommittedOrderSettlement orderID =
     db_transaction (bind (getOrderSettlementForUpdate orderID) (\<lambda>found.
       case found of
         None \<Rightarrow> fail [Service ErrFinancialSettlementDuplicate]
       | Some s \<Rightarrow> ret (True, s)))"

text \<open>
  \<open>unless_duplicate m\<close> is the error handling of the three inserts: a unique violation leaves the
  transaction for a second look at the committed row, which is the answer \<open>None\<close> here; every other
  error is returned.
\<close>

definition unless_duplicate ::
  "(world, 'a) op \<Rightarrow> ('a \<Rightarrow> (world, bool \<times> order_settlement option) op) \<Rightarrow>
   (world, bool \<times> order_settlement option) op" where
  "unless_duplicate m k =
     catching m (\<lambda>r. case r of
        Inl err \<Rightarrow> if errors_Is err (Infra ErrUniqueViolation) then ret (False, None) else fail err
      | Inr a \<Rightarrow> k a)"

text \<open>The three ledgers of the park, and the balance it shows.\<close>

definition settle_park :: "time \<Rightarrow> uuid \<Rightarrow> order_settlement \<Rightarrow> (world, unit) op" where
  "settle_park started park s =
     bind (sql (\<lambda>_. update_park_balance park (Amount (stl_TaxiParkIncomeAmount s)) started)) (\<lambda>_.
     andthen (insertTaxiParkBalanceLedger started park s)
     (andthen (insertTaxiParkPlatformFeeLedger started park s)
     (insertPlatformBalanceLedger started park s)))"

text \<open>Everything after the three inserts: the balances, the ledgers and the audit.\<close>

definition credit_accounts ::
  "time \<Rightarrow> order_settlement \<Rightarrow> (world, bool \<times> order_settlement option) op" where
  "credit_accounts started s =
     bind (sql (\<lambda>_. upsert_balance (stl_DriverID s) (stl_TaxiParkID s) (stl_NetAmount s) started)) (\<lambda>_.
     andthen (case stl_TaxiParkID s of None \<Rightarrow> done_op | Some park \<Rightarrow> settle_park started park s)
     (andthen (insertDriverBalanceLedger started s)
     (andthen (insertFinanceAudit (stl_CommissionTransactionID s) s ''commission_created'')
     (andthen (insertFinanceAudit (stl_IncomeTransactionID s) s ''income_created'')
     (ret (True, Some s))))))"

text \<open>
  The body of the transaction.  The second look runs after the rollback: the failed statement has
  already made the transaction unusable, so nothing of it can be seen there.
\<close>

definition settle_in_transaction ::
  "order_settlement \<Rightarrow> (world, bool \<times> order_settlement option) op" where
  "settle_in_transaction settlement =
     bind time_Now (\<lambda>started.
     bind (getOrderSettlementForUpdate (stl_OrderID settlement)) (\<lambda>existing.
     if existing \<noteq> None then ret (True, existing)
     else
     unless_duplicate (insertFinancialTransaction started settlement TransactionTypeCommission)
       (\<lambda>commissionTransactionID.
     unless_duplicate (insertFinancialTransaction started settlement TransactionTypeDriverIncome)
       (\<lambda>incomeTransactionID.
     let s = settlement\<lparr>stl_CommissionTransactionID := commissionTransactionID,
                        stl_IncomeTransactionID := incomeTransactionID\<rparr>
     in unless_duplicate (insertOrderFinance started s) (\<lambda>_. credit_accounts started s)))))"

definition CreateOrderSettlement :: "order_settlement \<Rightarrow> (world, order_settlement) op" where
  "CreateOrderSettlement settlement =
     bind (db_transaction (settle_in_transaction settlement)) (\<lambda>result.
       case result of
         Some s \<Rightarrow> ret s
       | None \<Rightarrow> getCommittedOrderSettlement (stl_OrderID settlement))"

end
