(* ===== verification/Finance_Accounts.thy ===== *)
theory Finance_Accounts
  imports Finance_Store
begin

text \<open>
  Balances, settings, payouts, invoices and documents: the other methods of the finance repository
  (\<^verbatim>\<open>finance_repository.go\<close>, \<^verbatim>\<open>finance_repository_extended.go\<close>).
\<close>

section \<open>Balances and settings\<close>

definition GetDriverIDByUserID :: "uuid \<Rightarrow> (world, uuid) op" where
  "GetDriverIDByUserID userID =
     catching (query (\<lambda>_ d. one_row (map drv_ID
         (filter (\<lambda>dr. drv_UserID dr = userID \<and> drv_DeletedAt dr = None) (drivers d)))))
       (\<lambda>r. case r of
          Inr driverID \<Rightarrow> ret driverID
        | Inl err \<Rightarrow> if errors_Is err (Infra ErrNoRows) then fail [Service ErrDriverFinanceAccountNotFound]
                    else fail err)"

definition roubles :: "int \<Rightarrow> money" where
  "roubles n = \<lparr>Amount = n, Currency = ''RUB''\<rparr>"

text \<open>The balance at the driver's present park; a driver without a row has an empty one.\<close>

definition GetDriverBalance :: "uuid \<Rightarrow> (world, driver_balance) op" where
  "GetDriverBalance driverID =
     catching (query (\<lambda>_ d. one_row (map driver_balance.truncate
         (filter (balance_key driverID
            (case find (\<lambda>dr. drv_ID dr = driverID) (drivers d) of
               None \<Rightarrow> None | Some dr \<Rightarrow> drv_TaxiParkID dr)) (driver_balances d)))))
       (\<lambda>r. case r of
          Inr balance \<Rightarrow> ret (balance\<lparr>bal_PendingBalance := (bal_PendingBalance balance)
                                \<lparr>Currency := Currency (bal_AvailableBalance balance)\<rparr>\<rparr>)
        | Inl err \<Rightarrow>
            if errors_Is err (Infra ErrNoRows)
            then ret \<lparr>bal_DriverID = driverID, bal_AvailableBalance = roubles 0,
                      bal_PendingBalance = roubles 0, bal_UpdatedAt = 0\<rparr>
            else fail err)"

text \<open>The parks of an owner; \<^verbatim>\<open>owner_user_id\<close> is unique.\<close>

definition owned_parks :: "uuid \<Rightarrow> db \<Rightarrow> taxi_park_row list" where
  "owned_parks ownerUserID d =
     filter (\<lambda>tp. tp_OwnerUserID tp = ownerUserID \<and> tp_DeletedAt tp = None) (taxi_parks d)"

definition GetTaxiParkBalance :: "uuid \<Rightarrow> (world, taxi_park_balance) op" where
  "GetTaxiParkBalance ownerUserID =
     query (\<lambda>_ d. one_row (map (\<lambda>tp. \<lparr>tpb_TaxiParkID = tp_ID tp,
         tpb_AvailableBalance = roubles (tp_balance_cents tp), tpb_UpdatedAt = tp_UpdatedAt tp\<rparr>)
       (owned_parks ownerUserID d)))"

definition settings_view ::
  "uuid \<Rightarrow> int \<Rightarrow> int \<Rightarrow> bool \<Rightarrow> time \<Rightarrow> time \<Rightarrow> taxi_park_finance_settings" where
  "settings_view park driverBPS platformBPS active created updated =
     \<lparr>tfs_TaxiParkID = park,
      tfs_DriverCommissionRate = \<lparr>BasisPoints = driverBPS, Source = ''taxi_park''\<rparr>,
      tfs_PlatformFeeRate = \<lparr>BasisPoints = platformBPS, Source = ''platform''\<rparr>,
      tfs_IsActive = active, tfs_CreatedAt = created, tfs_UpdatedAt = updated\<rparr>"

definition GetTaxiParkFinanceSettings :: "uuid \<Rightarrow> (world, taxi_park_finance_settings) op" where
  "GetTaxiParkFinanceSettings ownerUserID =
     query (\<lambda>now d. one_row (map (\<lambda>tp.
         case active_settings d (Some (tp_ID tp)) of
           None \<Rightarrow> settings_view (tp_ID tp) 0 100 True now now
         | Some s \<Rightarrow> settings_view (tp_ID tp) (BasisPoints (tfs_DriverCommissionRate s))
             (BasisPoints (tfs_PlatformFeeRate s)) (tfs_IsActive s) (tfs_CreatedAt s) (tfs_UpdatedAt s))
       (owned_parks ownerUserID d)))"

text \<open>
  The upsert of the commission: settings that were switched off are switched on again and keep the
  platform fee of their row.
\<close>

definition upsert_commission ::
  "uuid \<Rightarrow> int \<Rightarrow> time \<Rightarrow> db \<Rightarrow> (error + taxi_park_finance_settings) \<times> db" where
  "upsert_commission park bps now d =
     (if bps < 0 \<or> bps > 10000 then (Inl [Infra ErrCheckViolation], d)
      else case find (\<lambda>s. tfs_TaxiParkID s = park) (finance_settings d) of
        None \<Rightarrow>
          (let s = settings_view park bps 100 True now now
           in (Inr s, d\<lparr>finance_settings := finance_settings d @ [s]\<rparr>))
      | Some old \<Rightarrow>
          (let s = settings_view park bps (BasisPoints (tfs_PlatformFeeRate old)) True
                     (tfs_CreatedAt old) now
           in (Inr s, d\<lparr>finance_settings :=
                 sql_update (\<lambda>s. tfs_TaxiParkID s = park) (\<lambda>_. s) (finance_settings d)\<rparr>)))"

definition UpdateTaxiParkDriverCommission :: "uuid \<Rightarrow> int \<Rightarrow> (world, taxi_park_finance_settings) op" where
  "UpdateTaxiParkDriverCommission ownerUserID driverCommissionBasisPoints =
     sql (\<lambda>now d.
       case numeric_5_2 (basisPointsToNumeric driverCommissionBasisPoints) of
         Inl e \<Rightarrow> (Inl e, d)
       | Inr bps \<Rightarrow>
           (case owned_parks ownerUserID d of
              [] \<Rightarrow> (Inl [Infra ErrNoRows], d)
            | tp # _ \<Rightarrow> upsert_commission (tp_ID tp) bps now d))"

definition resolveTaxiParkIDByOwner :: "uuid \<Rightarrow> (world, uuid) op" where
  "resolveTaxiParkIDByOwner ownerUserID =
     query (\<lambda>_ d. one_row (map tp_ID (owned_parks ownerUserID d)))"

definition GetTaxiParkDriverBalance :: "uuid \<Rightarrow> uuid \<Rightarrow> (world, driver_balance) op" where
  "GetTaxiParkDriverBalance ownerUserID driverID =
     query (\<lambda>_ d. one_row [driver_balance.truncate b
         \<lparr>bal_PendingBalance := (bal_PendingBalance b)\<lparr>Currency := Currency (bal_AvailableBalance b)\<rparr>\<rparr>.
       b \<leftarrow> driver_balances d, dr \<leftarrow> drivers d, tp \<leftarrow> owned_parks ownerUserID d,
       bal_DriverID b = driverID \<and> drv_ID dr = driverID \<and> drv_DeletedAt dr = None
       \<and> bal_TaxiParkID b = Some (tp_ID tp)])"

section \<open>Payouts\<close>

definition insert_payout :: "driver_payout \<Rightarrow> db \<Rightarrow> (error + unit) \<times> db" where
  "insert_payout p d =
     (if Amount (pay_Amount p) < 0 then (Inl [Infra ErrCheckViolation], d)
      else if list_ex (\<lambda>q. pay_ID q = pay_ID p) (payouts d) then (Inl [Infra ErrUniqueViolation], d)
      else (Inr (), d\<lparr>payouts := payouts d @ [p]\<rparr>))"

definition CreateDriverPayout ::
  "uuid \<Rightarrow> uuid \<Rightarrow> create_driver_payout_input \<Rightarrow> (world, driver_payout) op" where
  "CreateDriverPayout ownerUserID driverID input =
     db_transaction (bind time_Now (\<lambda>started.
       bind (resolveTaxiParkIDByOwner ownerUserID) (\<lambda>taxiParkID.
       bind (driverParkBalanceInTransaction driverID (Some taxiParkID)) (\<lambda>currentBalance.
       if currentBalance < cdp_AmountCents input then fail [Service ErrInsufficientDriverBalance]
       else bind uuid_New (\<lambda>payoutID.
         bind (lift (numeric_12_2 (moneyCentsToNumeric (cdp_AmountCents input)))) (\<lambda>amount.
         let payout = \<lparr>pay_ID = payoutID, pay_DriverID = driverID, pay_TaxiParkID = taxiParkID,
               pay_Amount = roubles amount, pay_Status = ''created'',
               pay_PeriodFrom = cdp_PeriodFrom input, pay_PeriodTo = cdp_PeriodTo input,
               pay_PaymentMethod = '''', pay_PaymentDocumentNumber = '''',
               pay_Comment = cdp_Comment input, pay_CreatedBy = Some ownerUserID,
               pay_CreatedAt = started, pay_PaidAt = None, pay_UpdatedAt = started\<rparr>
         in andthen (sql (\<lambda>_. insert_payout payout)) (ret (True, payout))))))))"

text \<open>The payout of one's own park that is still open; the rows are returned as they are stored.\<close>

definition open_payout :: "db \<Rightarrow> uuid \<Rightarrow> uuid \<Rightarrow> driver_payout \<Rightarrow> bool" where
  "open_payout d ownerUserID payoutID p \<longleftrightarrow>
     pay_ID p = payoutID
     \<and> list_ex (\<lambda>tp. tp_ID tp = pay_TaxiParkID p \<and> tp_OwnerUserID tp = ownerUserID) (taxi_parks d)
     \<and> pay_Status p \<in> {''created'', ''approved''}"

definition updateDriverPayoutStatusTx ::
  "time \<Rightarrow> uuid \<Rightarrow> uuid \<Rightarrow> string \<Rightarrow> bool \<Rightarrow> (world, driver_payout) op" where
  "updateDriverPayoutStatusTx started ownerUserID payoutID status setPaidAt =
     (let change = (\<lambda>p. p\<lparr>pay_Status := status,
            pay_PaidAt := (if setPaidAt then Some started else None), pay_UpdatedAt := started\<rparr>)
      in sql (\<lambda>_ d.
        case filter (open_payout d ownerUserID payoutID) (payouts d) of
          [] \<Rightarrow> (Inl [Infra ErrNoRows], d)
        | p # _ \<Rightarrow>
            (Inr (change p),
             d\<lparr>payouts := sql_update (open_payout d ownerUserID payoutID) change (payouts d)\<rparr>)))"

definition updateDriverPayoutStatus ::
  "uuid \<Rightarrow> uuid \<Rightarrow> string \<Rightarrow> bool \<Rightarrow> (world, driver_payout) op" where
  "updateDriverPayoutStatus ownerUserID payoutID status setPaidAt =
     db_transaction (bind time_Now (\<lambda>started.
       bind (updateDriverPayoutStatusTx started ownerUserID payoutID status setPaidAt)
         (\<lambda>payout. ret (True, payout))))"

definition ApproveDriverPayout :: "uuid \<Rightarrow> uuid \<Rightarrow> (world, driver_payout) op" where
  "ApproveDriverPayout ownerUserID payoutID =
     updateDriverPayoutStatus ownerUserID payoutID ''approved'' False"

definition debit_balance :: "driver_payout \<Rightarrow> time \<Rightarrow> db \<Rightarrow> (error + nat) \<times> db" where
  "debit_balance payout =
     update_balances (\<lambda>b. balance_key (pay_DriverID payout) (Some (pay_TaxiParkID payout)) b
       \<and> Amount (pay_Amount payout) \<le> available b) (- Amount (pay_Amount payout))"

definition pay_in_transaction :: "uuid \<Rightarrow> uuid \<Rightarrow> (world, bool \<times> driver_payout) op" where
  "pay_in_transaction ownerUserID payoutID =
     bind time_Now (\<lambda>started.
       bind (updateDriverPayoutStatusTx started ownerUserID payoutID ''paid'' True) (\<lambda>payout.
       bind (sql (\<lambda>_. debit_balance payout started)) (\<lambda>n.
       if n \<noteq> 1 then fail [Service ErrInsufficientDriverBalance]
       else bind (driverParkBalanceInTransaction (pay_DriverID payout) (Some (pay_TaxiParkID payout)))
         (\<lambda>balanceAfter.
         andthen (write_ledger driver_balance_ledger started
           (empty_ledger_row\<lparr>led_DriverID := Some (pay_DriverID payout),
              led_TaxiParkID := Some (pay_TaxiParkID payout), led_Type := ''payout'',
              led_Currency := Currency (pay_Amount payout), led_Direction := ''debit'',
              led_Comment := pay_Comment payout\<rparr>)
           (Amount (pay_Amount payout)) balanceAfter)
         (ret (True, payout))))))"

definition MarkDriverPayoutPaid :: "uuid \<Rightarrow> uuid \<Rightarrow> (world, driver_payout) op" where
  "MarkDriverPayoutPaid ownerUserID payoutID = db_transaction (pay_in_transaction ownerUserID payoutID)"

section \<open>Invoices of the platform\<close>

definition accrued :: "uuid \<Rightarrow> create_platform_invoice_input \<Rightarrow> ledger_row \<Rightarrow> bool" where
  "accrued park input r \<longleftrightarrow>
     led_TaxiParkID r = Some park \<and> led_InvoiceID r = None
     \<and> led_Type r = ''platform_service_fee_accrual''
     \<and> cpi_PeriodFrom input \<le> led_CreatedAt r \<and> led_CreatedAt r < cpi_PeriodTo input"

definition insert_invoice :: "platform_invoice \<Rightarrow> db \<Rightarrow> (error + unit) \<times> db" where
  "insert_invoice i d =
     (if Amount (piv_Amount i) < 0 then (Inl [Infra ErrCheckViolation], d)
      else if list_ex (\<lambda>j. piv_ID j = piv_ID i) (invoices d) then (Inl [Infra ErrUniqueViolation], d)
      else if list_ex (\<lambda>j. piv_TaxiParkID j = piv_TaxiParkID i \<and> piv_PeriodFrom j = piv_PeriodFrom i
             \<and> piv_PeriodTo j = piv_PeriodTo i) (invoices d)
        then (Inl [Infra ErrUniqueViolation], d)
      else (Inr (), d\<lparr>invoices := invoices d @ [i]\<rparr>))"

text \<open>\<^verbatim>\<open>taxiParkID.String()[:8]\<close>, and \<^verbatim>\<open>Unix()\<close>, which counts from 1970.\<close>

definition hex_prefix :: "uuid \<Rightarrow> string" where
  "hex_prefix u = map (\<lambda>i. ''0123456789abcdef'' ! (unat u div 16 ^ (31 - i) mod 16)) [0..<8]"

definition unix_seconds :: "time \<Rightarrow> int" where
  "unix_seconds t = t div seconds 1 - 62135596800"

definition CreateTaxiParkPlatformInvoice ::
  "uuid \<Rightarrow> create_platform_invoice_input \<Rightarrow> (world, platform_invoice) op" where
  "CreateTaxiParkPlatformInvoice ownerUserID input =
     db_transaction (bind time_Now (\<lambda>started.
       bind (resolveTaxiParkIDByOwner ownerUserID) (\<lambda>taxiParkID.
       bind (query (\<lambda>_ d. let total = sum_list (map led_Amount (filter (accrued taxiParkID input) (fee_ledger d)))
                          in if total \<le> int64_max then Inr total else Inl [Msg ''cannot scan into int64'']))
         (\<lambda>amountCents.
       bind time_Now (\<lambda>now.
       bind uuid_New (\<lambda>invoiceID.
       bind (lift (numeric_12_2 (moneyCentsToNumeric amountCents))) (\<lambda>amount.
       let invoice = \<lparr>piv_ID = invoiceID, piv_TaxiParkID = taxiParkID, piv_Amount = roubles amount,
             piv_PeriodFrom = cpi_PeriodFrom input, piv_PeriodTo = cpi_PeriodTo input,
             piv_Status = ''issued'',
             piv_InvoiceNumber = ''INV-'' @ hex_prefix taxiParkID @ ''-'' @ fmt_d (unix_seconds now),
             piv_DocumentURL = '''', piv_CreatedAt = started, piv_PaidAt = None, piv_UpdatedAt = started\<rparr>
       in andthen (sql (\<lambda>_. insert_invoice invoice))
         (andthen (sql (\<lambda>_ d. (Inr (), d\<lparr>fee_ledger := sql_update (accrued taxiParkID input)
              (\<lambda>r. r\<lparr>led_InvoiceID := Some invoiceID\<rparr>) (fee_ledger d)\<rparr>)))
         (ret (True, invoice))))))))))"

definition mark_invoice_paid :: "time \<Rightarrow> uuid \<Rightarrow> db \<Rightarrow> (error + platform_invoice) \<times> db" where
  "mark_invoice_paid started invoiceID d =
     (let change = (\<lambda>i. i\<lparr>piv_Status := ''paid'', piv_PaidAt := Some started, piv_UpdatedAt := started\<rparr>)
      in case filter (\<lambda>i. piv_ID i = invoiceID) (invoices d) of
           [] \<Rightarrow> (Inl [Infra ErrNoRows], d)
         | i # _ \<Rightarrow> (Inr (change i),
             d\<lparr>invoices := sql_update (\<lambda>i. piv_ID i = invoiceID) change (invoices d)\<rparr>))"

definition invoice_ledger_entry ::
  "ledger_table \<Rightarrow> string \<Rightarrow> time \<Rightarrow> platform_invoice \<Rightarrow> int \<Rightarrow> (world, unit) op" where
  "invoice_ledger_entry table entryType started invoice balanceAfter =
     write_ledger table started
       (empty_ledger_row\<lparr>led_TaxiParkID := Some (piv_TaxiParkID invoice),
          led_InvoiceID := Some (piv_ID invoice), led_Type := entryType,
          led_Currency := Currency (piv_Amount invoice), led_Direction := ''credit''\<rparr>)
       (Amount (piv_Amount invoice)) balanceAfter"

definition MarkAdminPlatformInvoicePaid :: "uuid \<Rightarrow> (world, platform_invoice) op" where
  "MarkAdminPlatformInvoicePaid invoiceID =
     db_transaction (bind time_Now (\<lambda>started.
       bind (sql (\<lambda>_. mark_invoice_paid started invoiceID)) (\<lambda>invoice.
       bind (nextLedgerBalance taxi_park_platform_fee_ledger (piv_TaxiParkID invoice)
               (Amount (piv_Amount invoice)) False) (\<lambda>debtBalanceAfter.
       andthen (invoice_ledger_entry taxi_park_platform_fee_ledger ''platform_service_fee_payment''
                  started invoice debtBalanceAfter)
       (bind (nextLedgerBalance platform_balance_ledger (piv_TaxiParkID invoice)
               (Amount (piv_Amount invoice)) True) (\<lambda>platformBalanceAfter.
       andthen (invoice_ledger_entry platform_balance_ledger ''service_fee_payment_received''
                  started invoice platformBalanceAfter)
       (ret (True, invoice))))))))"

definition getTaxiParkPlatformFeeDebtByID :: "uuid \<Rightarrow> (world, money) op" where
  "getTaxiParkPlatformFeeDebtByID taxiParkID =
     query (\<lambda>_ d. Inr (roubles (case latest_balance taxi_park_platform_fee_ledger taxiParkID d of
       None \<Rightarrow> 0 | Some b \<Rightarrow> b)))"

definition GetTaxiParkPlatformFeeDebt :: "uuid \<Rightarrow> (world, money) op" where
  "GetTaxiParkPlatformFeeDebt ownerUserID =
     bind (resolveTaxiParkIDByOwner ownerUserID) getTaxiParkPlatformFeeDebtByID"

section \<open>Lists and sums\<close>

text \<open>\<^verbatim>\<open>ORDER BY created_at DESC LIMIT n\<close>.\<close>

definition latest_first :: "('r \<Rightarrow> time) \<Rightarrow> int \<Rightarrow> 'r list \<Rightarrow> 'r list" where
  "latest_first created limit rows = take (nat limit) (sort_key (\<lambda>r. - created r) rows)"

definition drivers_of_user :: "uuid \<Rightarrow> db \<Rightarrow> uuid list" where
  "drivers_of_user userID d =
     map drv_ID (filter (\<lambda>dr. drv_UserID dr = userID \<and> drv_DeletedAt dr = None) (drivers d))"

definition ListDriverTransactions :: "uuid \<Rightarrow> int \<Rightarrow> (world, financial_transaction list) op" where
  "ListDriverTransactions driverID limit =
     query (\<lambda>_ d. Inr (latest_first ftx_CreatedAt limit
       (filter (\<lambda>t. ftx_DriverID t = Some driverID) (financial_transactions d))))"

text \<open>The join with \<^verbatim>\<open>taxi_parks\<close> does not look at \<^verbatim>\<open>deleted_at\<close> here.\<close>

definition ListTaxiParkTransactions :: "uuid \<Rightarrow> int \<Rightarrow> (world, financial_transaction list) op" where
  "ListTaxiParkTransactions ownerUserID limit =
     query (\<lambda>_ d. Inr (latest_first ftx_CreatedAt limit
       [t. t \<leftarrow> financial_transactions d, tp \<leftarrow> taxi_parks d,
          ftx_TaxiParkID t = Some (tp_ID tp) \<and> tp_OwnerUserID tp = ownerUserID]))"

definition ListDriverOrderFinances :: "uuid \<Rightarrow> int \<Rightarrow> (world, order_finance list) op" where
  "ListDriverOrderFinances userID limit =
     query (\<lambda>_ d. Inr (latest_first ofi_CreatedAt limit
       (filter (\<lambda>f. ofi_DriverID f \<in> set (drivers_of_user userID d)) (order_finances d))))"

definition ListTaxiParkOrderFinances :: "uuid \<Rightarrow> int \<Rightarrow> (world, order_finance list) op" where
  "ListTaxiParkOrderFinances ownerUserID limit =
     query (\<lambda>_ d. Inr (latest_first ofi_CreatedAt limit
       [f. f \<leftarrow> order_finances d, tp \<leftarrow> owned_parks ownerUserID d, ofi_TaxiParkID f = Some (tp_ID tp)]))"

definition ListTaxiParkPlatformFeeAccruals ::
  "uuid \<Rightarrow> time \<Rightarrow> time \<Rightarrow> int \<Rightarrow> (world, order_finance list) op" where
  "ListTaxiParkPlatformFeeAccruals ownerUserID periodFrom periodTo limit =
     query (\<lambda>_ d. Inr (latest_first ofi_CreatedAt limit
       [f. f \<leftarrow> order_finances d, tp \<leftarrow> taxi_parks d,
          ofi_TaxiParkID f = Some (tp_ID tp) \<and> tp_OwnerUserID tp = ownerUserID
          \<and> periodFrom \<le> ofi_CreatedAt f \<and> ofi_CreatedAt f < periodTo]))"

definition ListDriverPayouts :: "uuid \<Rightarrow> int \<Rightarrow> (world, driver_payout list) op" where
  "ListDriverPayouts userID limit =
     query (\<lambda>_ d. Inr (latest_first pay_CreatedAt limit
       (filter (\<lambda>p. pay_DriverID p \<in> set (drivers_of_user userID d)) (payouts d))))"

definition ListTaxiParkDriverPayouts :: "uuid \<Rightarrow> uuid \<Rightarrow> int \<Rightarrow> (world, driver_payout list) op" where
  "ListTaxiParkDriverPayouts ownerUserID driverID limit =
     query (\<lambda>_ d. Inr (latest_first pay_CreatedAt limit
       [p. p \<leftarrow> payouts d, tp \<leftarrow> taxi_parks d,
          pay_TaxiParkID p = tp_ID tp \<and> tp_OwnerUserID tp = ownerUserID \<and> pay_DriverID p = driverID]))"

definition ListTaxiParkPlatformInvoices :: "uuid \<Rightarrow> int \<Rightarrow> (world, platform_invoice list) op" where
  "ListTaxiParkPlatformInvoices ownerUserID limit =
     query (\<lambda>_ d. Inr (latest_first piv_CreatedAt limit
       [i. i \<leftarrow> invoices d, tp \<leftarrow> taxi_parks d,
          piv_TaxiParkID i = tp_ID tp \<and> tp_OwnerUserID tp = ownerUserID]))"

definition ListAdminPlatformInvoices :: "int \<Rightarrow> (world, platform_invoice list) op" where
  "ListAdminPlatformInvoices limit =
     query (\<lambda>_ d. Inr (latest_first piv_CreatedAt limit (invoices d)))"

definition in_period :: "('r \<Rightarrow> time) \<Rightarrow> time \<Rightarrow> time \<Rightarrow> 'r list \<Rightarrow> 'r list" where
  "in_period created periodFrom periodTo rows =
     filter (\<lambda>r. periodFrom \<le> created r \<and> created r < periodTo) rows"

text \<open>\<^verbatim>\<open>SUM\<close> of a bigint column is numeric: a sum beyond int64 cannot be scanned.\<close>

definition scan_sum :: "('r \<Rightarrow> money) \<Rightarrow> 'r list \<Rightarrow> error + money" where
  "scan_sum amount rows =
     (let total = sum_list (map (Amount \<circ> amount) rows)
      in if total < int64_min \<or> int64_max < total then Inl [Msg ''cannot scan into int64'']
         else Inr (roubles total))"

definition getTaxiParkOverviewByID ::
  "uuid \<Rightarrow> time \<Rightarrow> time \<Rightarrow> (world, taxi_park_finance_overview) op" where
  "getTaxiParkOverviewByID taxiParkID periodFrom periodTo =
     bind (query (\<lambda>_ d.
       let rows = in_period ofi_CreatedAt periodFrom periodTo
                    (filter (\<lambda>f. ofi_TaxiParkID f = Some taxiParkID) (order_finances d))
       in case collect [ofi_OrderTotalAmount, ofi_DriverIncomeAmount, ofi_TaxiParkCommissionAmount,
                        ofi_TaxiParkIncomeAmount, ofi_PlatformFeeAmount]
                 (\<lambda>column. bind (lift (scan_sum column rows)) (\<lambda>m. ret [m])) () of
            (Inl e, _) \<Rightarrow> Inl e
          | (Inr ms, _) \<Rightarrow> Inr (int (length rows), ms)))
       (\<lambda>(ordersCount, ms).
     bind (getTaxiParkPlatformFeeDebtByID taxiParkID) (\<lambda>debt.
       ret \<lparr>ovw_TaxiParkID = taxiParkID, ovw_OrdersCount = ordersCount,
            ovw_OrderTotalAmount = ms ! 0, ovw_DriverIncomeAmount = ms ! 1,
            ovw_TaxiParkCommissionAmount = ms ! 2, ovw_TaxiParkIncomeAmount = ms ! 3,
            ovw_PlatformServiceFeeAmount = ms ! 4, ovw_PlatformDebtAmount = debt,
            ovw_PeriodFrom = periodFrom, ovw_PeriodTo = periodTo\<rparr>))"

definition GetTaxiParkOverview ::
  "uuid \<Rightarrow> time \<Rightarrow> time \<Rightarrow> (world, taxi_park_finance_overview) op" where
  "GetTaxiParkOverview ownerUserID periodFrom periodTo =
     bind (resolveTaxiParkIDByOwner ownerUserID)
       (\<lambda>taxiParkID. getTaxiParkOverviewByID taxiParkID periodFrom periodTo)"

definition GetAdminOverview :: "time \<Rightarrow> time \<Rightarrow> (world, admin_overview) op" where
  "GetAdminOverview periodFrom periodTo =
     query (\<lambda>_ d.
       let rows = filter (\<lambda>t. ftx_TransactionType t = TransactionTypeDriverIncome)
                    (in_period ftx_CreatedAt periodFrom periodTo (financial_transactions d))
       in case collect
                [scan_sum ftx_GrossAmount rows, scan_sum ftx_CommissionAmount rows,
                 scan_sum ftx_NetAmount (filter (\<lambda>t. ftx_TaxiParkID t = None) rows),
                 scan_sum ftx_NetAmount (filter (\<lambda>t. ftx_TaxiParkID t \<noteq> None) rows)]
                (\<lambda>x. bind (lift x) (\<lambda>m. ret [m])) () of
            (Inl e, _) \<Rightarrow> Inl e
          | (Inr ms, _) \<Rightarrow>
              (let count = int (length rows)
               in Inr \<lparr>aov_CompletedOrdersRevenue = ms ! 0, aov_TotalCommissions = ms ! 1,
                    aov_DriverPayouts = ms ! 2, aov_TaxiParkRevenue = ms ! 3,
                    aov_AverageCommission =
                      (if count > 0 then roubles (Amount (ms ! 1) sdiv count) else roubles 0),
                    aov_CompletedOrdersCount = count,
                    aov_PeriodFrom = periodFrom, aov_PeriodTo = periodTo\<rparr>))"

section \<open>Documents\<close>

text \<open>
  \<open>buildPayload\<close> gives the payload, the linked identifiers and a number or the empty text.  The
  numeric columns are printed with their two decimals.
\<close>

record linked_finance_document_refs =
  ref_taxiParkID :: "uuid option"
  ref_driverID :: "uuid option"
  ref_orderID :: "uuid option"
  ref_payoutID :: "uuid option"
  ref_invoiceID :: "uuid option"
  ref_number :: string

definition no_refs :: linked_finance_document_refs where
  "no_refs = \<lparr>ref_taxiParkID = None, ref_driverID = None, ref_orderID = None, ref_payoutID = None,
     ref_invoiceID = None, ref_number = ''''\<rparr>"

definition insertFinanceDocument ::
  "string \<Rightarrow> string \<Rightarrow> (world, payload \<times> linked_finance_document_refs) op \<Rightarrow> (world, finance_document) op" where
  "insertFinanceDocument documentType numberPrefix buildPayload =
     bind buildPayload (\<lambda>(content, refs).
     bind time_Now (\<lambda>now.
     bind uuid_New (\<lambda>documentID.
       let number = (if ref_number refs = '''' then numberPrefix @ ''-'' @ fmt_d (unix_seconds now)
                     else ref_number refs)
       in sql (\<lambda>t d.
            let doc = \<lparr>doc_ID = documentID, doc_TaxiParkID = ref_taxiParkID refs,
                  doc_DriverID = ref_driverID refs, doc_OrderID = ref_orderID refs,
                  doc_PayoutID = ref_payoutID refs, doc_InvoiceID = ref_invoiceID refs,
                  doc_Type = documentType, doc_Number = number, doc_Status = ''created'',
                  doc_FileURL = '''', doc_Payload = content, doc_CreatedAt = t, doc_UpdatedAt = t\<rparr>
            in (Inr doc, d\<lparr>finance_documents := finance_documents d @ [doc]\<rparr>)))))"

definition GenerateDriverPayoutAct :: "uuid \<Rightarrow> (world, finance_document) op" where
  "GenerateDriverPayoutAct payoutID =
     insertFinanceDocument ''driver_payout_act'' ''DPA''
       (query (\<lambda>_ d. one_row (map (\<lambda>p.
          ([(''payout_id'', PUuid payoutID),
            (''amount'', PStr (moneyCentsToNumeric (Amount (pay_Amount p))))],
           no_refs\<lparr>ref_taxiParkID := Some (pay_TaxiParkID p), ref_driverID := Some (pay_DriverID p),
                   ref_payoutID := Some (pay_ID p)\<rparr>))
          (filter (\<lambda>p. pay_ID p = payoutID) (payouts d)))))"

definition invoice_document ::
  "string \<Rightarrow> string \<Rightarrow> uuid \<Rightarrow> (platform_invoice \<Rightarrow> string \<times> string) \<Rightarrow> (world, finance_document) op" where
  "invoice_document documentType numberPrefix invoiceID detail =
     insertFinanceDocument documentType numberPrefix
       (query (\<lambda>_ d. one_row (map (\<lambda>i.
          ([(''invoice_id'', PUuid invoiceID), (fst (detail i), PStr (snd (detail i)))],
           no_refs\<lparr>ref_taxiParkID := Some (piv_TaxiParkID i), ref_invoiceID := Some (piv_ID i),
                   ref_number := piv_InvoiceNumber i\<rparr>))
          (filter (\<lambda>i. piv_ID i = invoiceID) (invoices d)))))"

definition GeneratePlatformInvoice :: "uuid \<Rightarrow> (world, finance_document) op" where
  "GeneratePlatformInvoice invoiceID =
     invoice_document ''taxi_park_platform_invoice'' ''TPI'' invoiceID
       (\<lambda>i. (''amount'', moneyCentsToNumeric (Amount (piv_Amount i))))"

definition GeneratePlatformAct :: "uuid \<Rightarrow> (world, finance_document) op" where
  "GeneratePlatformAct invoiceID =
     invoice_document ''taxi_park_platform_act'' ''TPA'' invoiceID (\<lambda>i. (''status'', piv_Status i))"

definition GenerateOrderFinancialReport :: "uuid \<Rightarrow> (world, finance_document) op" where
  "GenerateOrderFinancialReport orderID =
     insertFinanceDocument ''order_financial_report'' ''OFR''
       (query (\<lambda>_ d. one_row (map (\<lambda>f.
          ([(''order_id'', PUuid orderID),
            (''order_total_amount'', PStr (moneyCentsToNumeric (Amount (ofi_OrderTotalAmount f))))],
           no_refs\<lparr>ref_taxiParkID := ofi_TaxiParkID f, ref_driverID := Some (ofi_DriverID f),
                   ref_orderID := Some (ofi_OrderID f)\<rparr>))
          (filter (\<lambda>f. ofi_OrderID f = orderID) (order_finances d)))))"

definition GenerateReconciliationAct :: "uuid \<Rightarrow> time \<Rightarrow> time \<Rightarrow> (world, finance_document) op" where
  "GenerateReconciliationAct taxiParkID periodFrom periodTo =
     insertFinanceDocument ''reconciliation_act'' ''RCA''
       (bind (getTaxiParkOverviewByID taxiParkID periodFrom periodTo) (\<lambda>overview.
          ret ([(''taxi_park_id'', PUuid taxiParkID), (''period_from'', PTime periodFrom),
                (''period_to'', PTime periodTo), (''orders_count'', PInt (ovw_OrdersCount overview))],
               no_refs\<lparr>ref_taxiParkID := Some taxiParkID\<rparr>)))"

definition ListDriverFinanceDocuments :: "uuid \<Rightarrow> int \<Rightarrow> (world, finance_document list) op" where
  "ListDriverFinanceDocuments userID limit =
     query (\<lambda>_ d. Inr (latest_first doc_CreatedAt limit
       [doc. doc \<leftarrow> finance_documents d, driver \<leftarrow> drivers_of_user userID d,
          doc_DriverID doc = Some driver]))"

definition ListTaxiParkDocuments :: "uuid \<Rightarrow> int \<Rightarrow> (world, finance_document list) op" where
  "ListTaxiParkDocuments ownerUserID limit =
     query (\<lambda>_ d. Inr (latest_first doc_CreatedAt limit
       [doc. doc \<leftarrow> finance_documents d, tp \<leftarrow> taxi_parks d,
          doc_TaxiParkID doc = Some (tp_ID tp) \<and> tp_OwnerUserID tp = ownerUserID]))"

definition ListAdminDocuments :: "int \<Rightarrow> (world, finance_document list) op" where
  "ListAdminDocuments limit =
     query (\<lambda>_ d. Inr (latest_first doc_CreatedAt limit (finance_documents d)))"

end
