(* ===== verification/Finance_Service.thy ===== *)
theory Finance_Service
  imports Finance_Accounts
begin

text \<open>
  \<^verbatim>\<open>internal/finance/service.go\<close>: the settlement of a completed order, the commission of a park,
  payouts and invoices, and the queries with their limits and periods.  The log and the counters
  are left out.
\<close>

section \<open>Settlement\<close>

text \<open>
  The arithmetic between the snapshot and the statement.  A missing rate is zero, and the rate of
  the park is handed to \<open>ResolveCommissionRate\<close> as the platform default.
\<close>

definition settlement_from :: "order_snapshot \<Rightarrow> time \<Rightarrow> error + order_settlement" where
  "settlement_from snapshot now =
     (if snp_Status snapshot \<noteq> OrderStatusCompleted then Inl [Domain ErrFinancialOrderIgnored]
      else case snp_FinalPrice snapshot of
        None \<Rightarrow> Inl [Service ErrOrderWithoutFinalPrice]
      | Some finalPrice \<Rightarrow>
      (case snp_DriverID snapshot of
        None \<Rightarrow> Inl [Service ErrOrderWithoutAssignedDriver]
      | Some driverID \<Rightarrow>
      (let driverCommissionBasisPoints =
             (case snp_DriverCommissionBPS snapshot of None \<Rightarrow> 0 | Some b \<Rightarrow> b);
           by_default = (\<lambda>b. \<lparr>PlatformDefaultBasisPoints = b, CityBasisPoints = None,
             TariffBasisPoints = None, TaxiParkBasisPoints = None, DriverBasisPoints = None\<rparr>)
       in case ResolveCommissionRate (by_default driverCommissionBasisPoints) of
            Inl e \<Rightarrow> Inl e
          | Inr rate \<Rightarrow>
       (case CalculateCommission finalPrice rate of
            Inl e \<Rightarrow> Inl e
          | Inr (commission, driverIncome) \<Rightarrow>
       (case ResolveCommissionRate (by_default (snp_PlatformFeeBPS snapshot)) of
            Inl e \<Rightarrow> Inl e
          | Inr platformFeeRate \<Rightarrow>
       (case CalculatePlatformFee commission platformFeeRate of
            Inl e \<Rightarrow> Inl e
          | Inr platformFeeAmount \<Rightarrow>
              Inr \<lparr>stl_OrderID = snp_OrderID snapshot, stl_DriverID = driverID,
                   stl_TaxiParkID = snp_TaxiParkID snapshot, stl_GrossAmount = finalPrice,
                   stl_CommissionRate = rate, stl_CommissionAmount = commission,
                   stl_NetAmount = driverIncome, stl_PlatformFeeRate = platformFeeRate,
                   stl_PlatformFeeAmount = platformFeeAmount, stl_TaxiParkIncomeAmount = commission,
                   stl_CommissionTransactionID = uuid_Nil, stl_IncomeTransactionID = uuid_Nil,
                   stl_CreatedAt = now\<rparr>))))))"

definition SettleCompletedOrder :: "uuid \<Rightarrow> (world, order_settlement) op" where
  "SettleCompletedOrder orderID =
     bind (GetOrderSnapshot orderID) (\<lambda>snapshot.
     bind time_Now (\<lambda>now.
     bind (lift (settlement_from snapshot now)) CreateOrderSettlement))"

section \<open>Parks, drivers and the platform\<close>

definition UpdateTaxiParkDriverCommission_service ::
  "uuid \<Rightarrow> int \<Rightarrow> (world, taxi_park_finance_settings) op" where
  "UpdateTaxiParkDriverCommission_service ownerUserID bps =
     (if bps < 0 \<or> bps > 10000 then fail [Domain ErrInvalidCommissionRate]
      else UpdateTaxiParkDriverCommission ownerUserID bps)"

definition GetDriverBalance_service :: "uuid \<Rightarrow> (world, driver_balance) op" where
  "GetDriverBalance_service userID = bind (GetDriverIDByUserID userID) GetDriverBalance"

definition normalizeLimit :: "int \<Rightarrow> int" where
  "normalizeLimit limit = (if limit \<le> 0 \<or> limit > 100 then 50 else limit)"

text \<open>\<^verbatim>\<open>AddDate(0, 0, -30)\<close> in UTC is thirty times twenty-four hours.\<close>

definition normalizePeriod :: "time \<Rightarrow> time \<Rightarrow> time \<Rightarrow> time \<times> time" where
  "normalizePeriod now periodFrom periodTo =
     (let periodTo = (if time_IsZero periodTo then now else periodTo);
          periodFrom = (if time_IsZero periodFrom then periodTo - hours (24 * 30) else periodFrom)
      in (periodFrom, periodTo))"

definition ListDriverTransactions_service :: "uuid \<Rightarrow> int \<Rightarrow> (world, financial_transaction list) op" where
  "ListDriverTransactions_service userID limit =
     bind (GetDriverIDByUserID userID) (\<lambda>driverID. ListDriverTransactions driverID (normalizeLimit limit))"

definition ListDriverPayouts_service :: "uuid \<Rightarrow> int \<Rightarrow> (world, driver_payout list) op" where
  "ListDriverPayouts_service userID limit = ListDriverPayouts userID (normalizeLimit limit)"

definition GetTaxiParkOverview_service ::
  "uuid \<Rightarrow> time \<Rightarrow> time \<Rightarrow> (world, taxi_park_finance_overview) op" where
  "GetTaxiParkOverview_service ownerUserID periodFrom periodTo =
     bind time_Now (\<lambda>now. case normalizePeriod now periodFrom periodTo of
       (a, b) \<Rightarrow> GetTaxiParkOverview ownerUserID a b)"

definition GetAdminOverview_service :: "time \<Rightarrow> time \<Rightarrow> (world, admin_overview) op" where
  "GetAdminOverview_service periodFrom periodTo =
     bind time_Now (\<lambda>now. case normalizePeriod now periodFrom periodTo of
       (a, b) \<Rightarrow> GetAdminOverview a b)"

text \<open>A failure to write the document is only logged.\<close>

definition with_document :: "'a \<Rightarrow> (world, finance_document) op \<Rightarrow> (world, 'a) op" where
  "with_document result generate = catching generate (\<lambda>_. ret result)"

definition CreateDriverPayout_service ::
  "uuid \<Rightarrow> uuid \<Rightarrow> create_driver_payout_input \<Rightarrow> (world, driver_payout) op" where
  "CreateDriverPayout_service ownerUserID driverID input =
     (if cdp_AmountCents input \<le> 0 then fail [Domain ErrInvalidMoney]
      else bind (CreateDriverPayout ownerUserID driverID input) (\<lambda>payout.
        with_document payout (GenerateDriverPayoutAct (pay_ID payout))))"

definition CreateTaxiParkPlatformInvoice_service ::
  "uuid \<Rightarrow> create_platform_invoice_input \<Rightarrow> (world, platform_invoice) op" where
  "CreateTaxiParkPlatformInvoice_service ownerUserID input =
     bind (CreateTaxiParkPlatformInvoice ownerUserID input) (\<lambda>invoice.
       with_document invoice (GeneratePlatformInvoice (piv_ID invoice)))"

definition MarkAdminPlatformInvoicePaid_service :: "uuid \<Rightarrow> (world, platform_invoice) op" where
  "MarkAdminPlatformInvoicePaid_service invoiceID =
     bind (MarkAdminPlatformInvoicePaid invoiceID) (\<lambda>invoice.
       with_document invoice (GeneratePlatformAct (piv_ID invoice)))"

end
