(* ===== verification/Effects.thy ===== *)
theory Effects
  imports Sample_World
begin

text \<open>
  What a successful call does to the tables, as a relation between the clock and the database
  before, the result, and the clock and the database after: a calculus that composes along the
  calls (collection \<open>effect_intros\<close>), and the atomicity of transactions.
\<close>

named_theorems effect_intros \<open>effects of computations on the clock and the tables\<close>

definition effect :: "(world, 'a) op \<Rightarrow> (time \<Rightarrow> db \<Rightarrow> 'a \<Rightarrow> time \<Rightarrow> db \<Rightarrow> bool) \<Rightarrow> bool" where
  "effect m R \<longleftrightarrow>
     (\<forall>s a t. m s = (Inr a, t) \<longrightarrow> clock s \<le> clock t \<and> R (clock s) (db s) a (clock t) (db t))"

lemma effectI:
  "(\<And>s a t. m s = (Inr a, t) \<Longrightarrow> clock s \<le> clock t \<and> R (clock s) (db s) a (clock t) (db t)) \<Longrightarrow> effect m R"
  by (simp add: effect_def)

lemma effectD:
  "effect m R \<Longrightarrow> m s = (Inr a, t) \<Longrightarrow> clock s \<le> clock t \<and> R (clock s) (db s) a (clock t) (db t)"
  by (simp add: effect_def)

lemma effect_conseq:
  assumes "effect m R'" and "\<And>c d a c' d'. c \<le> c' \<Longrightarrow> R' c d a c' d' \<Longrightarrow> R c d a c' d'"
  shows "effect m R"
  using assms by (auto simp: effect_def)

lemma effect_ret [effect_intros]: "effect (ret a) (\<lambda>c d b c' d'. b = a \<and> c' = c \<and> d' = d)"
  by (auto simp: effect_def ret_def)

lemma effect_fail [effect_intros]: "effect (fail e) (\<lambda>c d b c' d'. False)"
  by (auto simp: effect_def fail_def)

lemma effect_lift [effect_intros]: "effect (lift r) (\<lambda>c d b c' d'. r = Inr b \<and> c' = c \<and> d' = d)"
  by (auto simp: effect_def lift_def)

lemma effect_time_Now [effect_intros]: "effect time_Now (\<lambda>c d b c' d'. b = c \<and> c' = c \<and> d' = d)"
  by (auto simp: effect_def time_Now_Inr)

lemma effect_uuid_New [effect_intros]: "effect uuid_New (\<lambda>c d b c' d'. c' = c \<and> d' = d)"
  by (auto simp: effect_def uuid_New_def)

lemma effect_sql [effect_intros]: "effect (sql f) (\<lambda>c d b c' d'. f c' d = (Inr b, d'))"
  by (rule effectI) (auto elim!: sql_Inr)

lemma effect_query [effect_intros]: "effect (query f) (\<lambda>c d b c' d'. f c' d = Inr b \<and> d' = d)"
  by (rule effectI) (auto elim!: query_Inr)

lemma effect_redis_cmd [effect_intros]: "effect (redis_cmd f) (\<lambda>c d b c' d'. d' = d)"
  by (rule effectI) (auto elim!: redis_cmd_Inr)

lemma effect_bind [effect_intros]:
  assumes "effect m R" and "\<And>a. effect (k a) (R' a)"
  shows "effect (bind m k) (\<lambda>c d b c' d'. \<exists>a c1 d1. c \<le> c1 \<and> c1 \<le> c' \<and> R c d a c1 d1 \<and> R' a c1 d1 b c' d')"
proof (rule effectI)
  fix s b t
  assume "bind m k s = (Inr b, t)"
  then obtain a u where au: "m s = (Inr a, u)" "k a u = (Inr b, t)" by (rule bind_Inr)
  show "clock s \<le> clock t \<and> (\<exists>a c1 d1. clock s \<le> c1 \<and> c1 \<le> clock t
      \<and> R (clock s) (db s) a c1 d1 \<and> R' a c1 d1 b (clock t) (db t))"
    using effectD [OF assms(1) au(1)] effectD [OF assms(2) au(2)] order_trans by blast
qed

lemma effect_if [effect_intros]:
  assumes "effect m R" and "effect n R'"
  shows "effect (if b then m else n)
    (\<lambda>c d a c' d'. (b \<and> R c d a c' d') \<or> (\<not> b \<and> R' c d a c' d'))"
  using assms by (auto simp: effect_def)

lemma effect_case_option [effect_intros]:
  assumes "effect m R" and "\<And>v. effect (n v) (R' v)"
  shows "effect (case x of None \<Rightarrow> m | Some v \<Rightarrow> n v)
    (\<lambda>c d a c' d'. (x = None \<and> R c d a c' d') \<or> (\<exists>v. x = Some v \<and> R' v c d a c' d'))"
  using assms by (cases x) (auto simp: effect_def)

lemma effect_case_prod [effect_intros]:
  assumes "\<And>u v. effect (m u v) (R u v)"
  shows "effect (case x of (u, v) \<Rightarrow> m u v) (\<lambda>c d a c' d'. R (fst x) (snd x) c d a c' d')"
  using assms by (cases x) simp

lemma effect_Let [effect_intros]:
  assumes "\<And>v. effect (m v) (R v)"
  shows "effect (Let x m) (R x)"
  using assms by simp

text \<open>The clock never goes back, on the error paths as well.\<close>

abbreviation since :: "time \<Rightarrow> world \<Rightarrow> bool" where
  "since c \<equiv> \<lambda>s. c \<le> clock s"

lemma keeps_since_sql [keeps_intros]: "keeps (since c) (sql f)"
  unfolding sql_def
  by (rule keepsI) (auto simp: external_def Let_def split: list.splits outcome.splits prod.splits)

lemma keeps_since [keeps_intros]:
  "keeps (since c) (query f)" "keeps (since c) uuid_New"
  unfolding query_def by (rule keeps_since_sql, simp add: keeps_def uuid_New_def)

lemma transaction_clock:
  assumes "db_transaction body s = (Inr a, t)"
  obtains s1 b u where "clock s \<le> clock s1" "db s1 = db s" "body s1 = (Inr (b, a), u)"
    "clock u \<le> clock t" "db t = (if b then db u else db s)"
proof -
  let ?run = "\<lambda>s. case body s of
        (Inl e, t) \<Rightarrow> (Inl e, t\<lparr>db := db s\<rparr>)
      | (Inr (False, a), t) \<Rightarrow> (Inr a, t\<lparr>db := db s\<rparr>)
      | (Inr (True, a), t) \<Rightarrow>
          (case script t of
             [] \<Rightarrow> (Inr a, t)
           | st # rest \<Rightarrow>
               let u = t\<lparr>clock := clock t + int (elapsed st), script := rest\<rparr>
               in case outcome st of
                    Works \<Rightarrow> (Inr a, u)
                  | Fails \<Rightarrow> (Inl [Infra ErrUnavailable], u\<lparr>db := db s\<rparr>)
                  | ReplyLost \<Rightarrow> (Inl [Infra ErrUnavailable], u))"
  from assms obtain s1 where s1: "external done_op s = (Inr (), s1)" "?run s1 = (Inr a, t)"
    unfolding db_transaction_def transaction_def by (elim bind_Inr) auto
  from s1(1) have c: "clock s \<le> clock s1" "db s1 = db s"
    by (auto elim!: external_Inr simp: ret_Inr)
  obtain r u where ru: "body s1 = (r, u)" by (cases "body s1")
  obtain b a' where r: "r = Inr (b, a')"
  proof (cases r)
    case Inl
    with s1(2) ru show ?thesis by simp
  next
    case (Inr p)
    then show ?thesis using that by (cases p) auto
  qed
  have "a' = a \<and> clock u \<le> clock t \<and> db t = (if b then db u else db s)"
    using s1(2) c(2) ru r by (cases b) (auto simp: Let_def split: list.splits outcome.splits)
  with that [OF c] ru r show ?thesis by auto
qed

lemma effect_transaction [effect_intros]:
  assumes "effect body R"
  shows "effect (db_transaction body)
    (\<lambda>c d a c' d'. \<exists>b c0 c1 d1. c \<le> c0 \<and> c0 \<le> c1 \<and> c1 \<le> c' \<and> R c0 d (b, a) c1 d1
       \<and> d' = (if b then d1 else d))"
proof (rule effectI)
  fix s a t
  assume run: "db_transaction body s = (Inr a, t)"
  show "clock s \<le> clock t \<and> (\<exists>b c0 c1 d1. clock s \<le> c0 \<and> c0 \<le> c1 \<and> c1 \<le> clock t
      \<and> R c0 (db s) (b, a) c1 d1 \<and> db t = (if b then d1 else db s))"
  proof (rule transaction_clock [OF run])
    fix s1 b u
    assume u: "clock s \<le> clock s1" "db s1 = db s" "body s1 = (Inr (b, a), u)" "clock u \<le> clock t"
      "db t = (if b then db u else db s)"
    have "clock s1 \<le> clock u \<and> R (clock s1) (db s) (b, a) (clock u) (db u)"
      using effectD [OF assms u(3)] u(2) by simp
    then show ?thesis using u
      by (intro conjI, linarith)
        (rule exI [of _ b], rule exI [of _ "clock s1"], rule exI [of _ "clock u"], rule exI [of _ "db u"], simp)
  qed
qed

text \<open>
  A transaction keeps an invariant that its body restores by the time it commits, however broken the
  invariant is in between: every other exit puts the tables back.
\<close>

lemma keeps_transaction_effect:
  assumes body: "effect body R"
    and commit: "\<And>c d a c' d'. P d \<Longrightarrow> R c d (True, a) c' d' \<Longrightarrow> P d'"
  shows "keeps (on_db P) (db_transaction body)"
proof (rule keepsI)
  fix s :: world
  assume P: "P (db s)"
  let ?run = "\<lambda>s. case body s of
        (Inl e, t) \<Rightarrow> (Inl e, t\<lparr>db := db s\<rparr>)
      | (Inr (False, a), t) \<Rightarrow> (Inr a, t\<lparr>db := db s\<rparr>)
      | (Inr (True, a), t) \<Rightarrow>
          (case script t of
             [] \<Rightarrow> (Inr a, t)
           | st # rest \<Rightarrow>
               let u = t\<lparr>clock := clock t + int (elapsed st), script := rest\<rparr>
               in case outcome st of
                    Works \<Rightarrow> (Inr a, u)
                  | Fails \<Rightarrow> (Inl [Infra ErrUnavailable], u\<lparr>db := db s\<rparr>)
                  | ReplyLost \<Rightarrow> (Inl [Infra ErrUnavailable], u))"
  have run: "P (db (snd (?run s1)))" if "P (db s1)" for s1 :: world
  proof -
    obtain r u where ru: "body s1 = (r, u)" by (cases "body s1")
    show ?thesis
    proof (cases r)
      case Inl
      then show ?thesis using ru that by simp
    next
      case (Inr p)
      then obtain b a where r: "r = Inr (b, a)" by (cases p) auto
      show ?thesis
      proof (cases b)
        case False
        then show ?thesis using ru r that by simp
      next
        case True
        have "R (clock s1) (db s1) (True, a) (clock u) (db u)"
          using effectD [OF body, of s1 "(True, a)" u] ru r True by simp
        then have "P (db u)" using commit that by blast
        then show ?thesis using ru r True that
          by (auto simp: Let_def split: list.splits outcome.splits)
      qed
    qed
  qed
  have free: "env_free (on_db P)" by simp
  have "keeps (on_db P) (andthen (external done_op) ?run)"
    by (rule keeps_bind) (use run keeps_external [OF free keeps_ret] in \<open>auto intro: keepsI\<close>)
  then show "P (db (snd (db_transaction body s)))"
    using P keepsD [of "on_db P" _ s] unfolding db_transaction_def transaction_def by simp
qed

end
