(* ===== verification/Finance_Books.thy ===== *)
theory Finance_Books
  imports Finance_Service Effects
begin

text \<open>
  The books that the finance tables keep, as an abstract state: the balance of every driver at every
  park, the balance of every park, what every park owes the platform, and the orders that are
  settled.  The statements implement the postings on it.
\<close>

section \<open>Numbers that were written\<close>

lemma numeric_column_written [simp]:
  assumes "0 \<le> n"
  shows "numeric_column bound (moneyCentsToNumeric n) =
      (if n < bound then Inr n else Inl [Infra ErrNumericOutOfRange])"
    and "numeric_column bound (basisPointsToNumeric n) =
      (if n < bound then Inr n else Inl [Infra ErrNumericOutOfRange])"
  using assms numeric_hundredths_unsigned [of n]
  by (simp_all add: numeric_column_def moneyCentsToNumeric_def basisPointsToNumeric_def)

section \<open>Effects of the statements\<close>

lemma insert_transaction_Inr:
  "insert_transaction s t d = (Inr u, d') \<longleftrightarrow>
     d' = d\<lparr>financial_transactions := financial_transactions d @ [t]\<rparr>
     \<and> \<bar>ftx_CommissionBasisPoints t\<bar> < 10 ^ 5
     \<and> 0 \<le> Amount (ftx_GrossAmount t) \<and> 0 \<le> Amount (ftx_CommissionAmount t)
     \<and> 0 \<le> Amount (ftx_NetAmount t)
     \<and> \<not> (ftx_OrderID t \<noteq> None \<and> list_ex (\<lambda>u. ftx_OrderID u = ftx_OrderID t
           \<and> ftx_TransactionType u = ftx_TransactionType t) (financial_transactions d))
     \<and> settlement_references d s"
  by (auto simp: insert_transaction_def not_less not_le)

lemma write_ledger_effect [effect_intros]:
  "effect (write_ledger table started row amount balanceAfter)
    (\<lambda>c d u c' d'. \<exists>a b. numeric_12_2 (moneyCentsToNumeric amount) = Inr a
       \<and> numeric_12_2 (moneyCentsToNumeric balanceAfter) = Inr b \<and> 0 \<le> a \<and> 0 \<le> b
       \<and> d' = set_ledger table (ledger table d @
            [row\<lparr>led_Amount := a, led_BalanceAfter := b, led_CreatedAt := started\<rparr>]) d)"
  unfolding write_ledger_def
  by (rule effect_conseq, rule effect_intros)
    (auto simp: insert_ledger_def split: sum.splits if_splits)

definition transaction_key :: "financial_transaction \<Rightarrow> uuid option \<times> transaction_type" where
  "transaction_key t = (ftx_OrderID t, ftx_TransactionType t)"

lemma insertFinancialTransaction_effect [effect_intros]:
  "effect (insertFinancialTransaction started s ty)
    (\<lambda>c d i c' d'. settlement_references d s
       \<and> \<bar>BasisPoints (stl_CommissionRate s)\<bar> < 10 ^ 5
       \<and> 0 \<le> Amount (stl_GrossAmount s) \<and> 0 \<le> Amount (stl_CommissionAmount s)
       \<and> 0 \<le> Amount (if ty = TransactionTypeCommission then stl_CommissionAmount s else stl_NetAmount s)
       \<and> \<not> list_ex (\<lambda>u. ftx_OrderID u = Some (stl_OrderID s) \<and> ftx_TransactionType u = ty)
             (financial_transactions d)
       \<and> map transaction_key (financial_transactions d')
           = map transaction_key (financial_transactions d) @ [(Some (stl_OrderID s), ty)]
       \<and> d' = d\<lparr>financial_transactions := financial_transactions d'\<rparr>)"
  unfolding insertFinancialTransaction_def Let_def
  apply (rule effect_conseq, (rule effect_intros)+)
  apply (elim exE conjE)
  apply (simp add: insert_transaction_Inr transaction_key_def)
  done
lemma collect_lifted:
  "collect xs (\<lambda>x. bind (lift x) (\<lambda>n. ret [n])) s = (Inr ns, t) \<longleftrightarrow>
     t = s \<and> list_all2 (\<lambda>x n. x = Inr n) xs ns"
proof (induction xs arbitrary: ns)
  case Nil
  then show ?case by (auto simp: ret_def)
next
  case (Cons x xs)
  show ?case
  proof (cases x)
    case (Inl e)
    then show ?thesis by (auto simp: bind_def lift_def list_all2_Cons1)
  next
    case (Inr n)
    have "collect (x # xs) (\<lambda>x. bind (lift x) (\<lambda>n. ret [n])) s = (Inr ns, t) \<longleftrightarrow>
        (\<exists>ms. collect xs (\<lambda>x. bind (lift x) (\<lambda>n. ret [n])) s = (Inr ms, t) \<and> ns = n # ms)"
      using Inr by (auto simp: bind_def lift_def ret_def split: sum.splits prod.splits)
    then show ?thesis using Inr Cons by (auto simp: list_all2_Cons1)
  qed
qed

definition rouble_amounts :: "order_settlement \<Rightarrow> bool" where
  "rouble_amounts s \<longleftrightarrow>
     0 \<le> Amount (stl_GrossAmount s) \<and> 0 \<le> Amount (stl_CommissionAmount s) \<and> 0 \<le> Amount (stl_NetAmount s)
     \<and> 0 \<le> Amount (stl_PlatformFeeAmount s) \<and> 0 \<le> Amount (stl_TaxiParkIncomeAmount s)
     \<and> 0 \<le> BasisPoints (stl_CommissionRate s) \<and> 0 \<le> BasisPoints (stl_PlatformFeeRate s)"

text \<open>The row of a settlement is its numbers.\<close>

definition finance_of :: "uuid \<Rightarrow> time \<Rightarrow> order_settlement \<Rightarrow> order_finance" where
  "finance_of i started s = order_finance_row i started s
     [Amount (stl_GrossAmount s), BasisPoints (stl_CommissionRate s), Amount (stl_CommissionAmount s),
      Amount (stl_NetAmount s), BasisPoints (stl_PlatformFeeRate s), Amount (stl_PlatformFeeAmount s),
      Amount (stl_TaxiParkIncomeAmount s)]"

lemma finance_of_simps [simp]:
  "ofi_OrderID (finance_of i st s) = stl_OrderID s" "ofi_TaxiParkID (finance_of i st s) = stl_TaxiParkID s"
  "ofi_DriverID (finance_of i st s) = stl_DriverID s"
  "Amount (ofi_OrderTotalAmount (finance_of i st s)) = Amount (stl_GrossAmount s)"
  "Amount (ofi_TaxiParkCommissionAmount (finance_of i st s)) = Amount (stl_CommissionAmount s)"
  "Amount (ofi_DriverIncomeAmount (finance_of i st s)) = Amount (stl_NetAmount s)"
  "Amount (ofi_PlatformFeeAmount (finance_of i st s)) = Amount (stl_PlatformFeeAmount s)"
  "Amount (ofi_TaxiParkIncomeAmount (finance_of i st s)) = Amount (stl_TaxiParkIncomeAmount s)"
  by (simp_all add: finance_of_def order_finance_row_def Let_def)

lemma insertOrderFinance_effect:
  assumes "rouble_amounts s"
  shows "effect (insertOrderFinance started s)
    (\<lambda>c d u c' d'. \<not> list_ex (\<lambda>g. ofi_OrderID g = stl_OrderID s) (order_finances d)
       \<and> Amount (stl_GrossAmount s) < 10 ^ 12
       \<and> (\<exists>i. d' = d\<lparr>order_finances := order_finances d @ [finance_of i started s]\<rparr>))"
  unfolding insertOrderFinance_def
proof (rule effect_conseq, (rule effect_intros)+, elim exE conjE)
  fix c d u c' d' i c1 d1
  let ?xs = "[numeric_12_2 (moneyCentsToNumeric (Amount (stl_GrossAmount s))),
          numeric_5_2 (basisPointsToNumeric (BasisPoints (stl_CommissionRate s))),
          numeric_12_2 (moneyCentsToNumeric (Amount (stl_CommissionAmount s))),
          numeric_12_2 (moneyCentsToNumeric (Amount (stl_NetAmount s))),
          numeric_5_2 (basisPointsToNumeric (BasisPoints (stl_PlatformFeeRate s))),
          numeric_12_2 (moneyCentsToNumeric (Amount (stl_PlatformFeeAmount s))),
          numeric_12_2 (moneyCentsToNumeric (Amount (stl_TaxiParkIncomeAmount s)))]"
  assume d1: "d1 = d" and run: "(case collect ?xs (\<lambda>x. bind (lift x) (\<lambda>n. ret [n])) () of
         (Inl e, _) \<Rightarrow> (Inl e, d1)
       | (Inr ns, _) \<Rightarrow> insert_order_finance (order_finance_row i started s ns) d1) = (Inr u, d')"
  obtain ns where ns: "collect ?xs (\<lambda>x. bind (lift x) (\<lambda>n. ret [n])) () = (Inr ns, ())"
    and ins: "insert_order_finance (order_finance_row i started s ns) d = (Inr u, d')"
    using run d1 by (cases "collect ?xs (\<lambda>x. bind (lift x) (\<lambda>n. ret [n])) ()") (simp del: collect.simps split: sum.splits)
  have all: "list_all2 (\<lambda>x n. x = Inr n) ?xs ns" using ns unfolding collect_lifted by (rule conjunct2)
  have row: "order_finance_row i started s ns = finance_of i started s"
    and bound: "Amount (stl_GrossAmount s) < 10 ^ 12"
    using all assms by (auto simp: list_all2_Cons1 finance_of_def rouble_amounts_def split: if_splits)
  show "\<not> list_ex (\<lambda>g. ofi_OrderID g = stl_OrderID s) (order_finances d)
       \<and> Amount (stl_GrossAmount s) < 10 ^ 12
       \<and> (\<exists>i. d' = d\<lparr>order_finances := order_finances d @ [finance_of i started s]\<rparr>)"
    using ins bound unfolding row
    by (auto simp: insert_order_finance_def finance_of_def order_finance_row_def Let_def split: if_splits)
qed

text \<open>An insert whose unique violation is looked at.\<close>

lemma unless_duplicate_effect [effect_intros]:
  assumes m: "effect m R" and k: "\<And>a. effect (k a) (R' a)" and clocks: "\<And>c. keeps (since c) m"
  shows "effect (unless_duplicate m k)
    (\<lambda>c d p c' d'. p = (False, None)
       \<or> (\<exists>a c1 d1. c \<le> c1 \<and> c1 \<le> c' \<and> R c d a c1 d1 \<and> R' a c1 d1 p c' d'))"
proof (rule effectI)
  fix s p t
  assume "unless_duplicate m k s = (Inr p, t)"
  then obtain r u where ru: "m s = (r, u)"
    and rest: "(case r of
        Inl err \<Rightarrow> if errors_Is err (Infra ErrUniqueViolation) then ret (False, None) else fail err
      | Inr a \<Rightarrow> k a) u = (Inr p, t)"
    unfolding unless_duplicate_def by (rule catching_elim)
  show "clock s \<le> clock t \<and> (p = (False, None) \<or> (\<exists>a c1 d1. clock s \<le> c1 \<and> c1 \<le> clock t
      \<and> R (clock s) (db s) a c1 d1 \<and> R' a c1 d1 p (clock t) (db t)))"
  proof (cases r)
    case (Inl e)
    have "clock s \<le> clock u" using keepsD [OF clocks [of "clock s"], of s] ru by simp
    then show ?thesis using rest Inl by (auto simp: Inr_simps split: if_splits)
  next
    case (Inr a)
    with rest have ka: "k a u = (Inr p, t)" by simp
    show ?thesis
      using effectD [OF m ru [unfolded Inr]] effectD [OF k ka] order_trans by blast
  qed
qed

section \<open>The abstract books\<close>

definition total :: "('r \<Rightarrow> bool) \<Rightarrow> ('r \<Rightarrow> int) \<Rightarrow> 'r list \<Rightarrow> int" where
  "total P v rows = sum_list (map v (filter P rows))"

lemma total_simps [simp]:
  "total P v [] = 0"
  "total P v (rows @ rows') = total P v rows + total P v rows'"
  "total P v [r] = (if P r then v r else 0)"
  by (simp_all add: total_def)

text \<open>An update of the only row of a key.\<close>

lemma total_sql_update:
  assumes "distinct (map key rows)"
    and "\<And>r. P r \<Longrightarrow> key r = k \<and> key (f r) = k \<and> v (f r) = v r + delta"
    and "rows_affected P rows = 1"
  shows "total (\<lambda>r. key r = k') v (sql_update P f rows)
    = total (\<lambda>r. key r = k') v rows + (if k' = k then delta else 0)"
proof -
  have none: "sql_update P f rows = rows" if "k \<notin> set (map key rows)" for rows
    using that assms(2) by (force simp: sql_update_def intro!: map_idI)
  show ?thesis
    using assms(1,3)
  proof (induction rows)
    case Nil
    then show ?case by (simp add: rows_affected_def)
  next
    case (Cons r rows)
    show ?case
    proof (cases "P r")
      case True
      then have "k \<notin> set (map key rows)" using Cons.prems assms(2) [OF True] by auto
      then show ?thesis using none [of rows] assms(2) [OF True] True
        by (auto simp: total_def sql_update_def)
    next
      case False
      then show ?thesis using Cons by (auto simp: total_def sql_update_def rows_affected_def)
    qed
  qed
qed

type_synonym account = "uuid \<times> uuid option"

definition balance_account :: "driver_balance_row \<Rightarrow> account" where
  "balance_account b = (bal_DriverID b, bal_TaxiParkID b)"

definition driver_account :: "db \<Rightarrow> account \<Rightarrow> int" where
  "driver_account d k = total (\<lambda>b. balance_account b = k) available (driver_balances d)"

definition park_account :: "db \<Rightarrow> uuid \<Rightarrow> int" where
  "park_account d p = total (\<lambda>tp. tp_ID tp = p) tp_balance_cents (taxi_parks d)"

text \<open>What a ledger says: credits minus debits.\<close>

definition signed :: "ledger_row \<Rightarrow> int" where
  "signed r = (if led_Direction r = ''credit'' then led_Amount r else - led_Amount r)"

definition park_ledger_row :: "uuid \<Rightarrow> ledger_row \<Rightarrow> bool" where
  "park_ledger_row p r \<longleftrightarrow> led_TaxiParkID r = Some p"

definition of_account :: "account \<Rightarrow> ledger_row \<Rightarrow> bool" where
  "of_account k r \<longleftrightarrow> led_DriverID r = Some (fst k) \<and> led_TaxiParkID r = snd k"

definition fee_debt :: "db \<Rightarrow> uuid \<Rightarrow> int" where
  "fee_debt d p = - total (park_ledger_row p) signed (fee_ledger d)"

record books =
  bk_driver :: "account \<Rightarrow> int"
  bk_park :: "uuid \<Rightarrow> int"
  bk_debt :: "uuid \<Rightarrow> int"
  bk_settled :: "uuid set"

definition books_of :: "db \<Rightarrow> books" where
  "books_of d = \<lparr>bk_driver = driver_account d, bk_park = park_account d, bk_debt = fee_debt d,
     bk_settled = ofi_OrderID ` set (order_finances d)\<rparr>"

text \<open>The posting of a settlement and of a payout.\<close>

definition add_at :: "'k option \<Rightarrow> int \<Rightarrow> ('k \<Rightarrow> int) \<Rightarrow> 'k \<Rightarrow> int" where
  "add_at k n f = (case k of None \<Rightarrow> f | Some i \<Rightarrow> f(i := f i + n))"

definition post_settlement :: "order_settlement \<Rightarrow> books \<Rightarrow> books" where
  "post_settlement s b =
     \<lparr>bk_driver = add_at (Some (stl_DriverID s, stl_TaxiParkID s)) (Amount (stl_NetAmount s)) (bk_driver b),
      bk_park = add_at (stl_TaxiParkID s) (Amount (stl_TaxiParkIncomeAmount s)) (bk_park b),
      bk_debt = add_at (stl_TaxiParkID s) (Amount (stl_PlatformFeeAmount s)) (bk_debt b),
      bk_settled = insert (stl_OrderID s) (bk_settled b)\<rparr>"

definition post_payout :: "driver_payout \<Rightarrow> books \<Rightarrow> books" where
  "post_payout p b = b\<lparr>bk_driver :=
     add_at (Some (pay_DriverID p, Some (pay_TaxiParkID p))) (- Amount (pay_Amount p)) (bk_driver b)\<rparr>"

text \<open>The keys of the tables, and the books against the ledgers.\<close>

definition accounts_ok :: "db \<Rightarrow> bool" where
  "accounts_ok d \<longleftrightarrow>
     distinct (map balance_account (driver_balances d)) \<and> distinct (map tp_ID (taxi_parks d))
     \<and> distinct (map ofi_OrderID (order_finances d)) \<and> distinct (map pay_ID (payouts d))
     \<and> (\<forall>p \<in> set (payouts d). 0 \<le> Amount (pay_Amount p))"

definition books_balanced :: "db \<Rightarrow> bool" where
  "books_balanced d \<longleftrightarrow> accounts_ok d
     \<and> (\<forall>b \<in> set (driver_balances d). 0 \<le> available b)
     \<and> (\<forall>k. driver_account d k = total (of_account k) signed (driver_ledger d))
     \<and> (\<forall>p. park_account d p = total (park_ledger_row p) signed (park_ledger d))
     \<and> (\<forall>p. total (park_ledger_row p) signed (park_ledger d)
          = total (\<lambda>f. ofi_TaxiParkID f = Some p) (Amount \<circ> ofi_TaxiParkIncomeAmount) (order_finances d))
     \<and> (\<forall>k. total (\<lambda>r. of_account k r \<and> led_Type r = ''order_income'') signed (driver_ledger d)
          = total (\<lambda>f. (ofi_DriverID f, ofi_TaxiParkID f) = k) (Amount \<circ> ofi_DriverIncomeAmount)
              (order_finances d))
     \<and> (\<forall>p. total (\<lambda>r. park_ledger_row p r \<and> led_Type r = ''platform_service_fee_accrual'') led_Amount
            (fee_ledger d)
          = total (\<lambda>f. ofi_TaxiParkID f = Some p) (Amount \<circ> ofi_PlatformFeeAmount) (order_finances d))
     \<and> (\<forall>f \<in> set (order_finances d). Amount (ofi_OrderTotalAmount f)
          = Amount (ofi_TaxiParkCommissionAmount f) + Amount (ofi_DriverIncomeAmount f))"

section \<open>What each statement posts\<close>

lemma rows_affected_unique:
  assumes "distinct (map key rows)" "\<And>r. P r \<Longrightarrow> key r = k" "list_ex P rows"
  shows "rows_affected P rows = 1"
  using assms
proof (induction rows)
  case Nil
  then show ?case by simp
next
  case (Cons r rows)
  show ?case
  proof (cases "P r")
    case True
    then have "\<not> list_ex P rows" using Cons.prems by (auto simp: list_ex_iff)
    then have "filter P rows = []" by (auto simp: list_ex_iff filter_empty_conv)
    then show ?thesis using True by (simp add: rows_affected_def)
  next
    case False
    then show ?thesis using Cons by (simp add: rows_affected_def)
  qed
qed

lemma balance_key_account: "balance_key driver park = (\<lambda>b. balance_account b = (driver, park))"
  by (auto simp: balance_key_def balance_account_def fun_eq_iff)

lemma add_available_simps [simp]:
  "available (add_available delta now b) = available b + delta"
  "balance_account (add_available delta now b) = balance_account b"
  by (simp_all add: add_available_def available_def balance_account_def)

lemma map_account_update:
  "map balance_account (sql_update P (add_available delta now) rows) = map balance_account rows"
  by (rule map_sql_update) simp

text \<open>An update of the balance of one account.\<close>

lemma update_balances_posts:
  assumes "update_balances P delta now d = (Inr n, d')" "accounts_ok d"
    and "\<And>b. P b \<Longrightarrow> balance_account b = k" "list_ex P (driver_balances d)"
  shows "n = 1" and "d' = d\<lparr>driver_balances := driver_balances d'\<rparr>" and "accounts_ok d'"
    and "driver_account d' k' = driver_account d k' + (if k' = k then delta else 0)"
    and "(\<forall>b \<in> set (driver_balances d). 0 \<le> available b) \<Longrightarrow>
         (\<forall>b \<in> set (driver_balances d'). 0 \<le> available b)"
proof -
  have d: "distinct (map balance_account (driver_balances d))" using assms(2) by (simp add: accounts_ok_def)
  have d': "d' = d\<lparr>driver_balances := sql_update P (add_available delta now) (driver_balances d)\<rparr>"
    and n: "n = rows_affected P (driver_balances d)"
    and pos: "\<not> list_ex (\<lambda>b. P b \<and> available b + delta < 0) (driver_balances d)"
    using assms(1) by (auto simp: update_balances_def split: if_splits)
  have one: "rows_affected P (driver_balances d) = 1"
    by (rule rows_affected_unique [OF d]) (use assms in auto)
  with n show "n = 1" by simp
  show "d' = d\<lparr>driver_balances := driver_balances d'\<rparr>" using d' by simp
  show "accounts_ok d'" using assms(2) d' by (simp add: accounts_ok_def map_account_update)
  show "driver_account d' k' = driver_account d k' + (if k' = k then delta else 0)"
    unfolding driver_account_def d'
    using total_sql_update [OF d _ one, of k "add_available delta now" available delta k'] assms(3)
    by simp
  assume "\<forall>b \<in> set (driver_balances d). 0 \<le> available b"
  with pos show "\<forall>b \<in> set (driver_balances d'). 0 \<le> available b"
    unfolding d' by (auto simp: list_ex_iff not_less dest!: sql_update_mem split: if_splits)
qed

lemma upsert_balance_posts:
  assumes "upsert_balance driver park amount now d = (Inr n, d')" "accounts_ok d"
  shows "d' = d\<lparr>driver_balances := driver_balances d'\<rparr>" and "accounts_ok d'"
    and "driver_account d' k' = driver_account d k' + (if k' = (driver, park) then Amount amount else 0)"
    and "(\<forall>b \<in> set (driver_balances d). 0 \<le> available b) \<Longrightarrow>
         (\<forall>b \<in> set (driver_balances d'). 0 \<le> available b)"
    and "0 \<le> Amount amount"
proof -
  show pos: "0 \<le> Amount amount" using assms(1) by (auto simp: upsert_balance_def split: if_splits)
  have all: "d' = d\<lparr>driver_balances := driver_balances d'\<rparr> \<and> accounts_ok d' \<and>
      driver_account d' k' = driver_account d k' + (if k' = (driver, park) then Amount amount else 0) \<and>
      ((\<forall>b \<in> set (driver_balances d). 0 \<le> available b) \<longrightarrow>
       (\<forall>b \<in> set (driver_balances d'). 0 \<le> available b))"
  proof (cases "list_ex (balance_key driver park) (driver_balances d)")
    case True
    with assms(1) have up: "update_balances (balance_key driver park) (Amount amount) now d = (Inr n, d')"
      by (auto simp: upsert_balance_def split: if_splits)
    show ?thesis
      using update_balances_posts [OF up assms(2) _ True, of "(driver, park)"]
      by (simp add: balance_key_account)
  next
    case False
    then show ?thesis
      using assms pos
      by (auto simp: upsert_balance_def accounts_ok_def driver_account_def balance_account_def
          available_def balance_key_def list_ex_iff split: if_splits)
  qed
  then show "d' = d\<lparr>driver_balances := driver_balances d'\<rparr>" "accounts_ok d'"
    "driver_account d' k' = driver_account d k' + (if k' = (driver, park) then Amount amount else 0)"
    "(\<forall>b \<in> set (driver_balances d). 0 \<le> available b) \<Longrightarrow>
      (\<forall>b \<in> set (driver_balances d'). 0 \<le> available b)"
    by blast+
qed

lemma update_park_balance_posts:
  assumes "update_park_balance park delta now d = (Inr n, d')" "accounts_ok d"
    and "park_exists d (Some park)"
  shows "d' = d\<lparr>taxi_parks := taxi_parks d'\<rparr>" and "accounts_ok d'"
    and "park_account d' p = park_account d p + (if p = park then delta else 0)"
proof -
  let ?P = "\<lambda>tp. tp_ID tp = park"
  let ?f = "\<lambda>tp. tp\<lparr>tp_balance_cents := tp_balance_cents tp + delta, tp_UpdatedAt := now\<rparr>"
  have d: "distinct (map tp_ID (taxi_parks d))" using assms(2) by (simp add: accounts_ok_def)
  have d': "d' = d\<lparr>taxi_parks := sql_update ?P ?f (taxi_parks d)\<rparr>"
    using assms(1) by (auto simp: update_park_balance_def split: if_splits)
  then show "d' = d\<lparr>taxi_parks := taxi_parks d'\<rparr>" by simp
  have "map tp_ID (sql_update ?P ?f (taxi_parks d)) = map tp_ID (taxi_parks d)"
    by (rule map_sql_update) simp
  with assms(2) d' show "accounts_ok d'" by (simp add: accounts_ok_def)
  have one: "rows_affected ?P (taxi_parks d) = 1"
    by (rule rows_affected_unique [OF d]) (use assms(3) in \<open>auto simp: park_exists_def\<close>)
  show "park_account d' p = park_account d p + (if p = park then delta else 0)"
    unfolding park_account_def d'
    using total_sql_update [OF d _ one, of park ?f tp_balance_cents delta p] by simp
qed

text \<open>One row of a park ledger.\<close>

definition entry_row ::
  "string \<Rightarrow> string \<Rightarrow> money \<Rightarrow> time \<Rightarrow> uuid \<Rightarrow> order_settlement \<Rightarrow> int \<Rightarrow> ledger_row" where
  "entry_row entryType direction amount started park s balance =
     empty_ledger_row\<lparr>led_TaxiParkID := Some park, led_OrderID := Some (stl_OrderID s),
       led_TransactionID := Some (stl_CommissionTransactionID s), led_Type := entryType,
       led_Amount := Amount amount, led_Currency := Currency amount, led_Direction := direction,
       led_BalanceAfter := balance, led_CreatedAt := started\<rparr>"

lemma park_ledger_entry_effect [effect_intros]:
  assumes "0 \<le> Amount amount"
  shows "effect (park_ledger_entry table entryType direction amount started park s)
    (\<lambda>c d u c' d'. \<exists>b. numeric_12_2 (moneyCentsToNumeric
          (wrap64 ((case latest_balance table park d of None \<Rightarrow> 0 | Some b \<Rightarrow> b) + Amount amount))) = Inr b
       \<and> 0 \<le> b
       \<and> d' = set_ledger table (ledger table d @ [entry_row entryType direction amount started park s b]) d)"
  unfolding park_ledger_entry_def nextLedgerBalance_def
  by (rule effect_conseq, (rule effect_intros)+)
    (use assms in \<open>auto simp: entry_row_def empty_ledger_row_def split: if_splits\<close>)

definition income_row :: "time \<Rightarrow> order_settlement \<Rightarrow> int \<Rightarrow> ledger_row" where
  "income_row started s balance =
     empty_ledger_row\<lparr>led_DriverID := Some (stl_DriverID s), led_TaxiParkID := stl_TaxiParkID s,
       led_OrderID := Some (stl_OrderID s), led_TransactionID := Some (stl_IncomeTransactionID s),
       led_Type := ''order_income'', led_Amount := Amount (stl_NetAmount s),
       led_Currency := Currency (stl_NetAmount s), led_Direction := ''credit'',
       led_BalanceAfter := balance, led_CreatedAt := started\<rparr>"

lemma insertDriverBalanceLedger_effect [effect_intros]:
  assumes "0 \<le> Amount (stl_NetAmount s)"
  shows "effect (insertDriverBalanceLedger started s)
    (\<lambda>c d u c' d'. \<exists>b. d' = d\<lparr>driver_ledger := driver_ledger d @ [income_row started s b]\<rparr>)"
  unfolding insertDriverBalanceLedger_def driverParkBalanceInTransaction_def
proof (rule effect_conseq, (rule effect_intros)+, elim exE conjE)
  fix c d u c' d' bal c1 d1 a b
  assume a: "numeric_12_2 (moneyCentsToNumeric (Amount (stl_NetAmount s))) = Inr a" and d1: "d1 = d"
    and d': "d' = set_ledger driver_balance_ledger (ledger driver_balance_ledger d1 @
      [empty_ledger_row\<lparr>led_DriverID := Some (stl_DriverID s), led_TaxiParkID := stl_TaxiParkID s,
         led_OrderID := Some (stl_OrderID s), led_TransactionID := Some (stl_IncomeTransactionID s),
         led_Type := ''order_income'', led_Currency := Currency (stl_NetAmount s),
         led_Direction := ''credit'', led_Amount := a, led_BalanceAfter := b,
         led_CreatedAt := started\<rparr>]) d1"
  have "a = Amount (stl_NetAmount s)" using a assms by (simp split: if_splits)
  then have "d' = d\<lparr>driver_ledger := driver_ledger d @ [income_row started s b]\<rparr>"
    unfolding d' d1 by (simp add: income_row_def empty_ledger_row_def)
  then show "\<exists>b. d' = d\<lparr>driver_ledger := driver_ledger d @ [income_row started s b]\<rparr>" by (rule exI)
qed

lemma insertFinanceAudit_effect [effect_intros]:
  "effect (insertFinanceAudit i s ev) (\<lambda>c d u c' d'. \<exists>rows. d' = d\<lparr>finance_audit := rows\<rparr>)"
  unfolding insertFinanceAudit_def
  by (rule effect_conseq, (rule effect_intros)+) auto

text \<open>The park's part of a settlement.\<close>

lemma settle_park_effect:
  assumes "rouble_amounts s"
  shows "effect (settle_park started park s)
    (\<lambda>c d u c' d'. accounts_ok d \<and> park_exists d (Some park) \<longrightarrow>
       accounts_ok d' \<and> (\<exists>b1 b2 b3.
         d' = d\<lparr>taxi_parks := taxi_parks d',
           park_ledger := park_ledger d @ [entry_row ''order_commission_income'' ''credit''
             (stl_TaxiParkIncomeAmount s) started park s b1],
           fee_ledger := fee_ledger d @ [entry_row ''platform_service_fee_accrual'' ''debit''
             (stl_PlatformFeeAmount s) started park s b2],
           platform_ledger := platform_ledger d @ [entry_row ''service_fee_receivable'' ''credit''
             (stl_PlatformFeeAmount s) started park s b3]\<rparr>)
       \<and> (\<forall>p. park_account d' p = park_account d p
            + (if p = park then Amount (stl_TaxiParkIncomeAmount s) else 0)))"
  unfolding settle_park_def insertTaxiParkBalanceLedger_def insertTaxiParkPlatformFeeLedger_def
    insertPlatformBalanceLedger_def
proof (rule effect_conseq, (rule effect_intros | (use assms in \<open>simp add: rouble_amounts_def\<close>; fail))+,
    elim exE conjE, intro impI, elim conjE)
  fix c d u c' d' n c1 d1 u2 c2 d2 u3 c3 d3 b1 b2 b3
  assume ok: "accounts_ok d" "park_exists d (Some park)"
    and up: "update_park_balance park (Amount (stl_TaxiParkIncomeAmount s)) started d = (Inr n, d1)"
    and d2: "d2 = set_ledger taxi_park_balance_ledger (ledger taxi_park_balance_ledger d1 @
      [entry_row ''order_commission_income'' ''credit'' (stl_TaxiParkIncomeAmount s) started park s b1]) d1"
    and d3: "d3 = set_ledger taxi_park_platform_fee_ledger (ledger taxi_park_platform_fee_ledger d2 @
      [entry_row ''platform_service_fee_accrual'' ''debit'' (stl_PlatformFeeAmount s) started park s b2]) d2"
    and d': "d' = set_ledger platform_balance_ledger (ledger platform_balance_ledger d3 @
      [entry_row ''service_fee_receivable'' ''credit'' (stl_PlatformFeeAmount s) started park s b3]) d3"
  note posts = update_park_balance_posts [OF up ok]
  obtain ps where d1: "d1 = d\<lparr>taxi_parks := ps\<rparr>" using posts(1) by (rule that)
  show "accounts_ok d' \<and> (\<exists>b1 b2 b3.
         d' = d\<lparr>taxi_parks := taxi_parks d',
           park_ledger := park_ledger d @ [entry_row ''order_commission_income'' ''credit''
             (stl_TaxiParkIncomeAmount s) started park s b1],
           fee_ledger := fee_ledger d @ [entry_row ''platform_service_fee_accrual'' ''debit''
             (stl_PlatformFeeAmount s) started park s b2],
           platform_ledger := platform_ledger d @ [entry_row ''service_fee_receivable'' ''credit''
             (stl_PlatformFeeAmount s) started park s b3]\<rparr>)
       \<and> (\<forall>p. park_account d' p = park_account d p
            + (if p = park then Amount (stl_TaxiParkIncomeAmount s) else 0))"
  proof (intro conjI exI)
    show "accounts_ok d'" using posts(2) unfolding d' d3 d2 by (simp add: accounts_ok_def)
    show "\<forall>p. park_account d' p = park_account d p
            + (if p = park then Amount (stl_TaxiParkIncomeAmount s) else 0)"
      using posts(3) unfolding d' d3 d2 by (simp add: park_account_def)
    show "d' = d\<lparr>taxi_parks := taxi_parks d',
           park_ledger := park_ledger d @ [entry_row ''order_commission_income'' ''credit''
             (stl_TaxiParkIncomeAmount s) started park s b1],
           fee_ledger := fee_ledger d @ [entry_row ''platform_service_fee_accrual'' ''debit''
             (stl_PlatformFeeAmount s) started park s b2],
           platform_ledger := platform_ledger d @ [entry_row ''service_fee_receivable'' ''credit''
             (stl_PlatformFeeAmount s) started park s b3]\<rparr>"
      unfolding d' d3 d2 d1 by simp
  qed
qed

section \<open>The transaction of a settlement\<close>

text \<open>The row that a ledger of the park gets, if there is a park.\<close>

definition park_rows :: "order_settlement \<Rightarrow> (uuid \<Rightarrow> int \<Rightarrow> ledger_row) \<Rightarrow> int \<Rightarrow> ledger_row list" where
  "park_rows s row b = (case stl_TaxiParkID s of None \<Rightarrow> [] | Some park \<Rightarrow> [row park b])"

text \<open>How the tables look after the accounts were credited, compared with before.\<close>

definition credited :: "time \<Rightarrow> order_settlement \<Rightarrow> db \<Rightarrow> db \<Rightarrow> bool" where
  "credited started s d d' \<longleftrightarrow> accounts_ok d'
     \<and> orders d' = orders d \<and> drivers d' = drivers d \<and> payouts d' = payouts d \<and> invoices d' = invoices d
     \<and> finance_settings d' = finance_settings d \<and> order_finances d' = order_finances d
     \<and> financial_transactions d' = financial_transactions d
     \<and> (\<exists>b. driver_ledger d' = driver_ledger d @ [income_row started s b])
     \<and> (\<exists>b. park_ledger d' = park_ledger d @ park_rows s
          (\<lambda>park. entry_row ''order_commission_income'' ''credit''
             (stl_TaxiParkIncomeAmount s) started park s) b)
     \<and> (\<exists>b. fee_ledger d' = fee_ledger d @ park_rows s
          (\<lambda>park. entry_row ''platform_service_fee_accrual'' ''debit''
             (stl_PlatformFeeAmount s) started park s) b)
     \<and> (\<exists>b. platform_ledger d' = platform_ledger d @ park_rows s
          (\<lambda>park. entry_row ''service_fee_receivable'' ''credit''
             (stl_PlatformFeeAmount s) started park s) b)
     \<and> (\<forall>k. driver_account d' k = driver_account d k
          + (if k = (stl_DriverID s, stl_TaxiParkID s) then Amount (stl_NetAmount s) else 0))
     \<and> (\<forall>p. park_account d' p = park_account d p
          + (if stl_TaxiParkID s = Some p then Amount (stl_TaxiParkIncomeAmount s) else 0))
     \<and> ((\<forall>b \<in> set (driver_balances d). 0 \<le> available b) \<longrightarrow>
        (\<forall>b \<in> set (driver_balances d'). 0 \<le> available b))"

lemma credit_accounts_effect:
  assumes "rouble_amounts s"
  shows "effect (credit_accounts started s)
    (\<lambda>c d p c' d'. accounts_ok d \<and> park_exists d (stl_TaxiParkID s) \<longrightarrow>
       p = (True, Some s) \<and> credited started s d d')"
proof -
  have net: "0 \<le> Amount (stl_NetAmount s)" using assms by (simp add: rouble_amounts_def)
  show ?thesis
    unfolding credit_accounts_def
  proof (rule effect_conseq,
      (rule effect_intros settle_park_effect assms | (simp add: net; fail))+,
      elim exE conjE, intro impI, elim conjE)
    fix c d p c' d' n c1 d1 u1 c2 d2 u2 c3 d3 u3 c4 d4 u4 c5 d5 b4 rows5 rows6
    assume ok: "accounts_ok d" "park_exists d (stl_TaxiParkID s)"
      and up: "upsert_balance (stl_DriverID s) (stl_TaxiParkID s) (stl_NetAmount s) started d = (Inr n, d1)"
      and parks: "stl_TaxiParkID s = None \<and> u1 = () \<and> c2 = c1 \<and> d2 = d1 \<or>
        (\<exists>park. stl_TaxiParkID s = Some park \<and> (accounts_ok d1 \<and> park_exists d1 (Some park) \<longrightarrow>
           accounts_ok d2 \<and> (\<exists>b1 b2 b3.
             d2 = d1\<lparr>taxi_parks := taxi_parks d2,
               park_ledger := park_ledger d1 @ [entry_row ''order_commission_income'' ''credit''
                 (stl_TaxiParkIncomeAmount s) started park s b1],
               fee_ledger := fee_ledger d1 @ [entry_row ''platform_service_fee_accrual'' ''debit''
                 (stl_PlatformFeeAmount s) started park s b2],
               platform_ledger := platform_ledger d1 @ [entry_row ''service_fee_receivable'' ''credit''
                 (stl_PlatformFeeAmount s) started park s b3]\<rparr>)
           \<and> (\<forall>p. park_account d2 p = park_account d1 p
                + (if p = park then Amount (stl_TaxiParkIncomeAmount s) else 0))))"
      and d3: "d3 = d2\<lparr>driver_ledger := driver_ledger d2 @ [income_row started s b4]\<rparr>"
      and d4: "d4 = d3\<lparr>finance_audit := rows5\<rparr>" and d5: "d5 = d4\<lparr>finance_audit := rows6\<rparr>"
      and p: "p = (True, Some s)" and d': "d' = d5"
    note posts = upsert_balance_posts [OF up ok(1)]
    obtain bs where d1: "d1 = d\<lparr>driver_balances := bs\<rparr>" using posts(1) by (rule that)
    have frame: "d' = d2\<lparr>driver_ledger := driver_ledger d2 @ [income_row started s b4],
        finance_audit := rows6\<rparr>"
      unfolding d' d5 d4 d3 by simp
    have drivers: "driver_account d1 k = driver_account d k
          + (if k = (stl_DriverID s, stl_TaxiParkID s) then Amount (stl_NetAmount s) else 0)" for k
      by (rule posts(3))
    have park1: "park_account d1 q = park_account d q" for q unfolding d1 by (simp add: park_account_def)
    show "p = (True, Some s) \<and> credited started s d d'"
    proof (cases "stl_TaxiParkID s")
      case None
      then have d2: "d2 = d1" using parks by simp
      show ?thesis
        using p posts(2,4) drivers park1 None unfolding frame credited_def park_rows_def d2
        by (auto simp: d1 accounts_ok_def driver_account_def park_account_def)
    next
      case (Some park)
      have "park_exists d1 (Some park)" using ok(2) Some unfolding d1 by (simp add: park_exists_def)
      then obtain tps b1 b2 b3 where d2: "d2 = d1\<lparr>taxi_parks := tps,
               park_ledger := park_ledger d1 @ [entry_row ''order_commission_income'' ''credit''
                 (stl_TaxiParkIncomeAmount s) started park s b1],
               fee_ledger := fee_ledger d1 @ [entry_row ''platform_service_fee_accrual'' ''debit''
                 (stl_PlatformFeeAmount s) started park s b2],
               platform_ledger := platform_ledger d1 @ [entry_row ''service_fee_receivable'' ''credit''
                 (stl_PlatformFeeAmount s) started park s b3]\<rparr>"
        and ok2: "accounts_ok d2"
        and parks2: "\<And>q. park_account d2 q = park_account d1 q
                + (if q = park then Amount (stl_TaxiParkIncomeAmount s) else 0)"
        using parks Some posts(2) by auto
      have keep: "driver_account d' k = driver_account d1 k" "park_account d' q = park_account d2 q" for k q
        unfolding frame d2 by (simp_all add: driver_account_def park_account_def)
      have ok': "accounts_ok d'" using ok2 unfolding frame by (simp add: accounts_ok_def)
      show ?thesis
        using p posts(4) ok' Some unfolding credited_def park_rows_def keep drivers parks2 park1
        by (auto simp: frame d2 d1)
    qed
  qed
qed

lemma keeps_since_inserts [keeps_intros]:
  "keeps (since c) (insertFinancialTransaction started s ty)" "keeps (since c) (insertOrderFinance started s)"
  unfolding insertFinancialTransaction_def insertOrderFinance_def by (intro keeps_intros)+

text \<open>A new settlement: the three inserts, then the credits.\<close>

definition settled_tables :: "order_settlement \<Rightarrow> db \<Rightarrow> db \<Rightarrow> bool" where
  "settled_tables s d d' \<longleftrightarrow>
     stl_OrderID s \<notin> ofi_OrderID ` set (order_finances d)
     \<and> Amount (stl_GrossAmount s) < 10 ^ 12
     \<and> settlement_references d s
     \<and> (\<exists>d1 i started.
          d1 = d\<lparr>financial_transactions := financial_transactions d1,
                 order_finances := order_finances d @ [finance_of i started s]\<rparr>
          \<and> map transaction_key (financial_transactions d1)
              = map transaction_key (financial_transactions d)
                @ [(Some (stl_OrderID s), TransactionTypeCommission),
                   (Some (stl_OrderID s), TransactionTypeDriverIncome)]
          \<and> credited started s d1 d')"

lemma settle_in_transaction_effect:
  assumes "rouble_amounts settlement"
  shows "effect (settle_in_transaction settlement)
    (\<lambda>c d p c' d'. accounts_ok d \<longrightarrow>
       p = (False, None)
       \<or> (\<exists>f. find (\<lambda>f. ofi_OrderID f = stl_OrderID settlement) (order_finances d) = Some f
            \<and> p = (True, Some (settlement_of f)) \<and> d' = d)
       \<or> (\<exists>i j. let s = settlement\<lparr>stl_CommissionTransactionID := i, stl_IncomeTransactionID := j\<rparr>
                in p = (True, Some s) \<and> settled_tables s d d'))"
proof -
  let ?s = "\<lambda>i j. settlement\<lparr>stl_CommissionTransactionID := i, stl_IncomeTransactionID := j\<rparr>"
  have amounts: "rouble_amounts (?s i j)" for i j
    using assms by (simp add: rouble_amounts_def)
  show ?thesis
    unfolding settle_in_transaction_def getOrderSettlementForUpdate_def Let_def
  proof (rule effect_conseq,
      (rule effect_intros keeps_intros insertOrderFinance_effect [OF amounts]
        credit_accounts_effect [OF amounts])+,
      elim exE conjE, intro impI, elim disjE conjE exE)
    fix c :: time and d :: db and p c' and d' :: db and st c1 d1 existing c2 d2
    assume "d2 = d1" "d1 = d" "d' = d2" "p = (True, existing)" "existing \<noteq> None"
      "Inr (map_option settlement_of (find (\<lambda>f. ofi_OrderID f = stl_OrderID settlement)
         (order_finances d1))) = Inr existing"
    then show "p = (False, None)
       \<or> (\<exists>f. find (\<lambda>f. ofi_OrderID f = stl_OrderID settlement) (order_finances d) = Some f
            \<and> p = (True, Some (settlement_of f)) \<and> d' = d)
       \<or> (\<exists>i j. p = (True, Some (?s i j)) \<and> settled_tables (?s i j) d d')"
      by auto
  next
    fix c :: time and d :: db and p c' and d' :: db and st c1 d1 existing c2 d2 i c3 d3 j c4 d4 u c5 d5 k
    assume ok: "accounts_ok d" and d2: "d2 = d1" "d1 = d"
      and refs: "settlement_references d2 settlement"
      and t3: "map transaction_key (financial_transactions d3) = map transaction_key (financial_transactions d2)
          @ [(Some (stl_OrderID settlement), TransactionTypeCommission)]"
      and d3: "d3 = d2\<lparr>financial_transactions := financial_transactions d3\<rparr>"
      and t4: "map transaction_key (financial_transactions d4) = map transaction_key (financial_transactions d3)
          @ [(Some (stl_OrderID settlement), TransactionTypeDriverIncome)]"
      and d4: "d4 = d3\<lparr>financial_transactions := financial_transactions d4\<rparr>"
      and new: "\<not> list_ex (\<lambda>g. ofi_OrderID g = stl_OrderID (?s i j)) (order_finances d4)"
      and gross: "Amount (stl_GrossAmount (?s i j)) < 10 ^ 12"
      and d5: "d5 = d4\<lparr>order_finances := order_finances d4 @ [finance_of k st (?s i j)]\<rparr>"
      and post: "accounts_ok d5 \<and> park_exists d5 (stl_TaxiParkID (?s i j)) \<longrightarrow>
         p = (True, Some (?s i j)) \<and> credited st (?s i j) d5 d'"
    have d4': "d4 = d\<lparr>financial_transactions := financial_transactions d4\<rparr>"
      by (subst d4, subst d3) (simp add: d2)
    then obtain ts where ts: "d4 = d\<lparr>financial_transactions := ts\<rparr>" by (rule that)
    have fresh: "stl_OrderID (?s i j) \<notin> ofi_OrderID ` set (order_finances d)"
      using new unfolding ts by (auto simp: list_ex_iff)
    have d5': "d5 = d\<lparr>financial_transactions := financial_transactions d5,
        order_finances := order_finances d @ [finance_of k st (?s i j)]\<rparr>"
      unfolding d5 ts by simp
    have "accounts_ok d5"
      using ok fresh unfolding d5 ts by (simp add: accounts_ok_def)
    moreover have "park_exists d5 (stl_TaxiParkID (?s i j))"
      using refs unfolding d5 ts d2
      by (cases "stl_TaxiParkID settlement") (simp_all add: settlement_references_def park_exists_def)
    ultimately have p: "p = (True, Some (?s i j))" and posted: "credited st (?s i j) d5 d'"
      using post by simp_all
    have keys: "map transaction_key (financial_transactions d5)
        = map transaction_key (financial_transactions d)
          @ [(Some (stl_OrderID (?s i j)), TransactionTypeCommission),
             (Some (stl_OrderID (?s i j)), TransactionTypeDriverIncome)]"
      using t3 t4 unfolding d5 d2 by simp
    have "settled_tables (?s i j) d d'"
      unfolding settled_tables_def
      by (intro conjI fresh gross exI [of _ d5] exI [of _ k] exI [of _ st] d5' keys posted)
        (use refs d2 in \<open>simp add: settlement_references_def\<close>)
    with p show "p = (False, None)
       \<or> (\<exists>f. find (\<lambda>f. ofi_OrderID f = stl_OrderID settlement) (order_finances d) = Some f
            \<and> p = (True, Some (settlement_of f)) \<and> d' = d)
       \<or> (\<exists>i j. p = (True, Some (?s i j)) \<and> settled_tables (?s i j) d d')"
      by blast
  qed auto
qed

lemma total_park_rows:
  "total P v (park_rows s row b) =
     (case stl_TaxiParkID s of None \<Rightarrow> 0 | Some park \<Rightarrow> if P (row park b) then v (row park b) else 0)"
  by (simp add: park_rows_def split: option.splits)

lemma row_simps [simp]:
  "signed (income_row st s b) = Amount (stl_NetAmount s)"
  "led_Type (income_row st s b) = ''order_income''"
  "of_account k (income_row st s b) \<longleftrightarrow> k = (stl_DriverID s, stl_TaxiParkID s)"
  "signed (entry_row ty dir m st park s b) = (if dir = ''credit'' then Amount m else - Amount m)"
  "led_Type (entry_row ty dir m st park s b) = ty"
  "led_Amount (entry_row ty dir m st park s b) = Amount m"
  "park_ledger_row p (entry_row ty dir m st park s b) \<longleftrightarrow> p = park"
  by (auto simp: signed_def income_row_def entry_row_def empty_ledger_row_def of_account_def park_ledger_row_def)

lemma settled_tables_ledgers:
  assumes "settled_tables s d d'"
  obtains i st b b1 b2 where
    "order_finances d' = order_finances d @ [finance_of i st s]"
    "driver_ledger d' = driver_ledger d @ [income_row st s b]"
    "park_ledger d' = park_ledger d @ park_rows s (\<lambda>park. entry_row ''order_commission_income''
       ''credit'' (stl_TaxiParkIncomeAmount s) st park s) b1"
    "fee_ledger d' = fee_ledger d @ park_rows s (\<lambda>park. entry_row ''platform_service_fee_accrual''
       ''debit'' (stl_PlatformFeeAmount s) st park s) b2"
    "\<And>k. driver_account d' k = driver_account d k
       + (if k = (stl_DriverID s, stl_TaxiParkID s) then Amount (stl_NetAmount s) else 0)"
    "\<And>p. park_account d' p = park_account d p
       + (if stl_TaxiParkID s = Some p then Amount (stl_TaxiParkIncomeAmount s) else 0)"
    "accounts_ok d'"
    "(\<forall>b \<in> set (driver_balances d). 0 \<le> available b) \<Longrightarrow>
     (\<forall>b \<in> set (driver_balances d'). 0 \<le> available b)"
proof -
  from assms obtain d1 i st where
    d1: "d1 = d\<lparr>financial_transactions := financial_transactions d1,
                order_finances := order_finances d @ [finance_of i st s]\<rparr>"
    and post: "credited st s d1 d'"
    unfolding settled_tables_def by blast
  then obtain ts where d1: "d1 = d\<lparr>financial_transactions := ts,
                order_finances := order_finances d @ [finance_of i st s]\<rparr>" by blast
  have same: "driver_account d1 = driver_account d" "park_account d1 = park_account d"
    by (simp_all add: d1 driver_account_def park_account_def fun_eq_iff)
  from post obtain b b1 b2 where
    "driver_ledger d' = driver_ledger d1 @ [income_row st s b]"
    "park_ledger d' = park_ledger d1 @ park_rows s (\<lambda>park. entry_row ''order_commission_income''
       ''credit'' (stl_TaxiParkIncomeAmount s) st park s) b1"
    "fee_ledger d' = fee_ledger d1 @ park_rows s (\<lambda>park. entry_row ''platform_service_fee_accrual''
       ''debit'' (stl_PlatformFeeAmount s) st park s) b2"
    unfolding credited_def by blast
  note rows = this
  have drivers: "driver_account d' k = driver_account d k
       + (if k = (stl_DriverID s, stl_TaxiParkID s) then Amount (stl_NetAmount s) else 0)" for k
    using post unfolding credited_def same by blast
  have parks: "park_account d' p = park_account d p
       + (if stl_TaxiParkID s = Some p then Amount (stl_TaxiParkIncomeAmount s) else 0)" for p
    using post unfolding credited_def same by blast
  have rest: "accounts_ok d'" "order_finances d' = order_finances d1"
    "(\<forall>b \<in> set (driver_balances d1). 0 \<le> available b) \<longrightarrow> (\<forall>b \<in> set (driver_balances d'). 0 \<le> available b)"
    using post unfolding credited_def by blast+
  show ?thesis
    by (rule that [OF _ _ _ _ drivers parks]) (use rows rest in \<open>simp_all add: d1\<close>)
qed

lemma settled_tables_books:
  assumes "settled_tables s d d'"
  shows "books_of d' = post_settlement s (books_of d)"
  by (rule settled_tables_ledgers [OF assms])
    (auto simp: books_of_def post_settlement_def fee_debt_def add_at_def fun_eq_iff total_park_rows
      split: option.splits)

lemma settled_tables_balanced:
  assumes "settled_tables s d d'" "books_balanced d"
    and "Amount (stl_GrossAmount s) = Amount (stl_CommissionAmount s) + Amount (stl_NetAmount s)"
  shows "books_balanced d'"
proof (rule settled_tables_ledgers [OF assms(1)])
  fix i st b b1 b2
  assume rows: "order_finances d' = order_finances d @ [finance_of i st s]"
    "driver_ledger d' = driver_ledger d @ [income_row st s b]"
    "park_ledger d' = park_ledger d @ park_rows s (\<lambda>park. entry_row ''order_commission_income''
       ''credit'' (stl_TaxiParkIncomeAmount s) st park s) b1"
    "fee_ledger d' = fee_ledger d @ park_rows s (\<lambda>park. entry_row ''platform_service_fee_accrual''
       ''debit'' (stl_PlatformFeeAmount s) st park s) b2"
    and accounts: "\<And>k. driver_account d' k = driver_account d k
       + (if k = (stl_DriverID s, stl_TaxiParkID s) then Amount (stl_NetAmount s) else 0)"
      "\<And>p. park_account d' p = park_account d p
       + (if stl_TaxiParkID s = Some p then Amount (stl_TaxiParkIncomeAmount s) else 0)"
    and ok: "accounts_ok d'"
    and pos: "(\<forall>b \<in> set (driver_balances d). 0 \<le> available b) \<Longrightarrow>
     (\<forall>b \<in> set (driver_balances d'). 0 \<le> available b)"
  show "books_balanced d'"
    unfolding books_balanced_def
  proof (intro conjI)
    show "accounts_ok d'" by (rule ok)
    show "\<forall>b \<in> set (driver_balances d'). 0 \<le> available b"
      by (rule pos) (use assms(2) in \<open>simp add: books_balanced_def\<close>)
    show "\<forall>f \<in> set (order_finances d'). Amount (ofi_OrderTotalAmount f)
          = Amount (ofi_TaxiParkCommissionAmount f) + Amount (ofi_DriverIncomeAmount f)"
      using assms(2,3) by (auto simp: books_balanced_def rows)
  qed (use assms(2) in \<open>auto simp: books_balanced_def rows accounts total_park_rows split: option.splits\<close>)
qed

end
