(* ===== verification/Finance_Safety.thy ===== *)
theory Finance_Safety
  imports Finance_Books
begin

text \<open>
  The properties of the money: a settlement posts once and exactly, a payout is paid once and only
  from what the driver has, and the books stay balanced under every operation.
\<close>

section \<open>The repository's settlement\<close>

lemma CreateOrderSettlement_effect:
  assumes "rouble_amounts settlement"
  shows "effect (CreateOrderSettlement settlement)
    (\<lambda>c d a c' d'. accounts_ok d \<longrightarrow>
       (\<exists>f \<in> set (order_finances d). ofi_OrderID f = stl_OrderID settlement \<and> a = settlement_of f \<and> d' = d)
       \<or> (\<exists>i j. a = settlement\<lparr>stl_CommissionTransactionID := i, stl_IncomeTransactionID := j\<rparr>
            \<and> settled_tables a d d'))"
  unfolding CreateOrderSettlement_def getCommittedOrderSettlement_def getOrderSettlementForUpdate_def
  by (rule effect_conseq, (rule effect_intros settle_in_transaction_effect [OF assms])+)
    (auto simp: find_Some_iff Let_def split: if_splits)

text \<open>The arithmetic of the service.\<close>

lemma settlement_from_Inr:
  assumes "settlement_from snapshot now = Inr s"
  shows "snp_Status snapshot = OrderStatusCompleted"
    and "snp_FinalPrice snapshot = Some (stl_GrossAmount s)"
    and "snp_DriverID snapshot = Some (stl_DriverID s)"
    and "stl_TaxiParkID s = snp_TaxiParkID snapshot" and "stl_OrderID s = snp_OrderID snapshot"
    and "stl_TaxiParkIncomeAmount s = stl_CommissionAmount s"
    and "CalculateCommission (stl_GrossAmount s) (stl_CommissionRate s)
           = Inr (stl_CommissionAmount s, stl_NetAmount s)"
    and "CalculatePlatformFee (stl_CommissionAmount s) (stl_PlatformFeeRate s) = Inr (stl_PlatformFeeAmount s)"
    and "stl_CreatedAt s = now"
  using assms
  by (auto simp: settlement_from_def Let_def split: if_splits option.splits sum.splits)

lemma CalculateCommission_Inr:
  assumes "CalculateCommission gross rate = Inr (commission, net)"
  shows "0 \<le> Amount gross" "0 \<le> Amount commission" "0 \<le> Amount net" "0 \<le> BasisPoints rate"
    "BasisPoints rate \<le> 10000" "Currency gross \<noteq> ''''"
    "Currency commission = Currency gross" "Currency net = Currency gross"
    "Amount commission = basis_points_of (Amount gross) (BasisPoints rate)"
    "Amount net = wrap64 (Amount gross - Amount commission)"
  using assms
  by (auto simp: CalculateCommission_def Let_def NewMoney_def split: if_splits)

lemma CalculatePlatformFee_Inr:
  assumes "CalculatePlatformFee base rate = Inr fee"
  shows "0 \<le> Amount fee" "0 \<le> BasisPoints rate" "BasisPoints rate \<le> 10000"
    "Amount fee = basis_points_of (Amount base) (BasisPoints rate)" "Currency fee = Currency base"
  using assms by (auto simp: CalculatePlatformFee_def NewMoney_def split: if_splits)

lemma settlement_from_amounts:
  assumes "settlement_from snapshot now = Inr s"
  shows "rouble_amounts s"
    and "Amount (stl_GrossAmount s) < 10 ^ 12 \<Longrightarrow>
      Amount (stl_GrossAmount s) = Amount (stl_CommissionAmount s) + Amount (stl_NetAmount s)"
proof -
  note c = CalculateCommission_Inr [OF settlement_from_Inr(7) [OF assms]]
  note f = CalculatePlatformFee_Inr [OF settlement_from_Inr(8) [OF assms]]
  show "rouble_amounts s"
    using c f settlement_from_Inr(6) [OF assms] by (simp add: rouble_amounts_def)
  assume small: "Amount (stl_GrossAmount s) < 10 ^ 12"
  have "Amount (stl_CommissionAmount s) \<le> int64_max" using wrap64_bounds c(9) by (simp add: basis_points_of_def)
  then have "wrap64 (Amount (stl_GrossAmount s) - Amount (stl_CommissionAmount s))
      = Amount (stl_GrossAmount s) - Amount (stl_CommissionAmount s)"
    using c(1,2) small by (intro wrap64_id) (auto simp: int64_min_def int64_max_def)
  with c(10) show "Amount (stl_GrossAmount s) = Amount (stl_CommissionAmount s) + Amount (stl_NetAmount s)"
    by simp
qed

lemma CreateOrderSettlement_keeps:
  assumes from_s: "settlement_from snapshot now = Inr s"
    and bal: "\<And>d. P d \<Longrightarrow> books_balanced d"
    and new: "\<And>d d' a. P d \<Longrightarrow> settled_tables a d d' \<Longrightarrow> stl_OrderID a = stl_OrderID s \<Longrightarrow>
      books_balanced d' \<Longrightarrow> P d'"
  shows "keeps (on_db P) (CreateOrderSettlement s)"
  unfolding CreateOrderSettlement_def
proof (rule keeps_bind)
  show "keeps (on_db P) (db_transaction (settle_in_transaction s))"
  proof (rule keeps_transaction_effect [OF settle_in_transaction_effect])
    show "rouble_amounts s" by (rule settlement_from_amounts(1) [OF from_s])
    fix c d a c' and d' :: db
    assume P: "P d"
      and R: "accounts_ok d \<longrightarrow> (True, a) = (False, None)
       \<or> (\<exists>f. find (\<lambda>f. ofi_OrderID f = stl_OrderID s) (order_finances d) = Some f
            \<and> (True, a) = (True, Some (settlement_of f)) \<and> d' = d)
       \<or> (\<exists>i j. let s = s\<lparr>stl_CommissionTransactionID := i, stl_IncomeTransactionID := j\<rparr>
                in (True, a) = (True, Some s) \<and> settled_tables s d d')"
    show "P d'"
    proof (cases "d' = d")
      case False
      have "accounts_ok d" using bal [OF P] by (simp add: books_balanced_def)
      with R False obtain i j where
        st: "settled_tables (s\<lparr>stl_CommissionTransactionID := i, stl_IncomeTransactionID := j\<rparr>) d d'"
        by (auto simp: Let_def)
      then have "Amount (stl_GrossAmount s) < 10 ^ 12" by (simp add: settled_tables_def)
      then have "books_balanced d'"
        using settled_tables_balanced [OF st bal [OF P]] settlement_from_amounts(2) [OF from_s] by simp
      with new [OF P st] show ?thesis by simp
    qed (use P in simp)
  qed
next
  show "keeps (on_db P)
      (case r of None \<Rightarrow> getCommittedOrderSettlement (stl_OrderID s) | Some s \<Rightarrow> ret s)" for r
    unfolding getCommittedOrderSettlement_def getOrderSettlementForUpdate_def
    by (intro keeps_intros keeps_db_transaction)
qed

section \<open>Settling a completed order\<close>

lemma one_row_map_Inr:
  "one_row (map f (filter P rows)) = Inr y \<Longrightarrow> \<exists>r \<in> set rows. P r \<and> y = f r"
  by (induction rows) (auto split: if_splits)

lemma GetOrderSnapshot_Inr:
  assumes "GetOrderSnapshot orderID w = (Inr snapshot, u)"
  obtains r where "r \<in> set (orders (db w))" "ord_ID r = orderID" "snapshot = snapshot_of (db w) r"
    "db u = db w" "clock w \<le> clock u"
  using assms unfolding GetOrderSnapshot_def
  by (elim query_Inr) (drule one_row_map_Inr, blast)

lemma SettleCompletedOrder_effect:
  "effect (SettleCompletedOrder orderID)
    (\<lambda>c d a c' d'. accounts_ok d \<longrightarrow>
       (\<exists>r \<in> set (orders d). \<exists>snapshot s now. ord_ID r = orderID \<and> snapshot = snapshot_of d r
          \<and> settlement_from snapshot now = Inr s
          \<and> ((\<exists>f \<in> set (order_finances d). ofi_OrderID f = orderID \<and> a = settlement_of f \<and> d' = d)
             \<or> (\<exists>i j. a = s\<lparr>stl_CommissionTransactionID := i, stl_IncomeTransactionID := j\<rparr>
                  \<and> settled_tables a d d'))))"
  unfolding SettleCompletedOrder_def
proof (rule effectI)
  fix w :: world and a t
  assume "bind (GetOrderSnapshot orderID) (\<lambda>snapshot. bind time_Now (\<lambda>now.
     bind (lift (settlement_from snapshot now)) CreateOrderSettlement)) w = (Inr a, t)"
  then obtain snapshot u now u1 s u2 where
    snap: "GetOrderSnapshot orderID w = (Inr snapshot, u)" and now: "time_Now u = (Inr now, u1)"
    and s: "lift (settlement_from snapshot now) u1 = (Inr s, u2)"
    and run: "CreateOrderSettlement s u2 = (Inr a, t)"
    by (elim bind_Inr)
  have from_s: "settlement_from snapshot now = Inr s" and u: "u1 = u" "u2 = u1"
    using s now by (auto simp: Inr_simps)
  obtain r where r: "r \<in> set (orders (db w))" "ord_ID r = orderID" "snapshot = snapshot_of (db w) r"
    and clocks: "db u = db w" "clock w \<le> clock u"
    by (rule GetOrderSnapshot_Inr [OF snap])
  have id: "stl_OrderID s = orderID"
    using settlement_from_Inr(5) [OF from_s] r by (simp add: snapshot_of_def)
  from effectD [OF CreateOrderSettlement_effect [OF settlement_from_amounts(1) [OF from_s]] run]
  have "clock u \<le> clock t" and "accounts_ok (db w) \<longrightarrow>
       (\<exists>f \<in> set (order_finances (db w)). ofi_OrderID f = orderID \<and> a = settlement_of f \<and> db t = db w)
       \<or> (\<exists>i j. a = s\<lparr>stl_CommissionTransactionID := i, stl_IncomeTransactionID := j\<rparr>
            \<and> settled_tables a (db w) (db t))"
    using clocks u id by auto
  with r from_s clocks show "clock w \<le> clock t \<and> (accounts_ok (db w) \<longrightarrow>
       (\<exists>r \<in> set (orders (db w)). \<exists>snapshot s now. ord_ID r = orderID \<and> snapshot = snapshot_of (db w) r
          \<and> settlement_from snapshot now = Inr s
          \<and> ((\<exists>f \<in> set (order_finances (db w)). ofi_OrderID f = orderID \<and> a = settlement_of f \<and> db t = db w)
             \<or> (\<exists>i j. a = s\<lparr>stl_CommissionTransactionID := i, stl_IncomeTransactionID := j\<rparr>
                  \<and> settled_tables a (db w) (db t)))))"
    by force
qed


text \<open>An invariant that a new settlement of this order keeps is kept by every call, failed or not.\<close>

lemma SettleCompletedOrder_keeps:
  assumes bal: "\<And>d. P d \<Longrightarrow> books_balanced d"
    and new: "\<And>d d' a. P d \<Longrightarrow> settled_tables a d d' \<Longrightarrow> stl_OrderID a = orderID \<Longrightarrow>
      books_balanced d' \<Longrightarrow> P d'"
  shows "keeps (on_db P) (SettleCompletedOrder orderID)"
proof (rule keepsI)
  fix w :: world
  assume P: "P (db w)"
  obtain r u where ru: "GetOrderSnapshot orderID w = (r, u)" by (cases "GetOrderSnapshot orderID w")
  have "keeps (on_db P) (GetOrderSnapshot orderID)" unfolding GetOrderSnapshot_def by (rule keeps_query)
  then have Pu: "P (db u)" using P ru by (metis keepsD snd_conv)
  show "P (db (snd (SettleCompletedOrder orderID w)))"
  proof (cases r)
    case Inl
    then show ?thesis using ru Pu by (simp add: SettleCompletedOrder_def bind_def)
  next
    case (Inr snapshot)
    with ru have snap: "GetOrderSnapshot orderID w = (Inr snapshot, u)" by simp
    have id: "snp_OrderID snapshot = orderID"
      by (rule GetOrderSnapshot_Inr [OF snap]) (simp add: snapshot_of_def)
    have run: "SettleCompletedOrder orderID w =
        (case settlement_from snapshot (clock u) of Inl e \<Rightarrow> (Inl e, u) | Inr s \<Rightarrow> CreateOrderSettlement s u)"
      by (simp add: SettleCompletedOrder_def bind_def snap time_Now_def gets_def lift_def split: sum.splits)
    show ?thesis
    proof (cases "settlement_from snapshot (clock u)")
      case Inl
      then show ?thesis using Pu by (simp add: run)
    next
      case (Inr s)
      have "keeps (on_db P) (CreateOrderSettlement s)"
        by (rule CreateOrderSettlement_keeps [OF Inr bal])
          (use new settlement_from_Inr(5) [OF Inr] id in auto)
      from keepsD [OF this, of u] Pu Inr show ?thesis by (simp add: run)
    qed
  qed
qed

lemma keeps_SettleCompletedOrder [keeps_intros]:
  "keeps (on_db books_balanced) (SettleCompletedOrder orderID)"
  by (rule SettleCompletedOrder_keeps)

text \<open>
  C11: retrying a settlement is safe: after any number of calls for one order, each of which may
  fail or lose its reply at any point, the books are those of the start or those with a single
  posting of that order, and they balance.
\<close>

theorem SettleCompletedOrder_at_most_once:
  assumes "books_balanced (db s)"
  shows "books_balanced (db (((\<lambda>w. snd (SettleCompletedOrder orderID w)) ^^ n) s))
    \<and> (\<exists>posted. books_of (db (((\<lambda>w. snd (SettleCompletedOrder orderID w)) ^^ n) s)) =
         (case posted of None \<Rightarrow> books_of (db s) | Some a \<Rightarrow> post_settlement a (books_of (db s)))
       \<and> (case posted of None \<Rightarrow> True
          | Some a \<Rightarrow> stl_OrderID a = orderID \<and> orderID \<notin> bk_settled (books_of (db s))))"
proof -
  let ?B = "books_of (db s)"
  define P where "P = (\<lambda>d. books_balanced d \<and> (\<exists>posted. books_of d =
         (case posted of None \<Rightarrow> ?B | Some a \<Rightarrow> post_settlement a ?B)
       \<and> (case posted of None \<Rightarrow> True
          | Some a \<Rightarrow> stl_OrderID a = orderID \<and> orderID \<notin> bk_settled ?B)))"
  have "P d'" if d: "P d" and st: "settled_tables a d d'" and a: "stl_OrderID a = orderID"
    and bal: "books_balanced d'" for d d' a
  proof -
    have new: "orderID \<notin> bk_settled (books_of d)" using st a by (simp add: settled_tables_def books_of_def)
    with d have start: "books_of d = ?B"
      by (auto simp: P_def post_settlement_def split: option.splits)
    have "books_of d' = post_settlement a ?B" using settled_tables_books [OF st] start by simp
    with bal a new start show ?thesis unfolding P_def by (intro conjI exI [of _ "Some a"]) auto
  qed
  then have "keeps (on_db P) (SettleCompletedOrder orderID)"
    by (intro SettleCompletedOrder_keeps) (simp_all add: P_def)
  then have step: "P (db (snd (SettleCompletedOrder orderID w)))" if "P (db w)" for w
    using that by (rule keepsD)
  have "P (db (((\<lambda>w. snd (SettleCompletedOrder orderID w)) ^^ n) s))"
  proof (induction n)
    case 0
    show ?case using assms by (auto simp: P_def intro: exI [of _ None])
  next
    case (Suc n)
    then show ?case using step by simp
  qed
  then show ?thesis by (simp add: P_def)
qed

section \<open>Payouts\<close>

lemma updateDriverPayoutStatusTx_effect [effect_intros]:
  "effect (updateDriverPayoutStatusTx started owner payoutID status setPaidAt)
    (\<lambda>c d a c' d'. \<exists>p \<in> set (payouts d). open_payout d owner payoutID p
       \<and> a = p\<lparr>pay_Status := status, pay_PaidAt := (if setPaidAt then Some started else None),
               pay_UpdatedAt := started\<rparr>
       \<and> d' = d\<lparr>payouts := sql_update (open_payout d owner payoutID)
            (\<lambda>p. p\<lparr>pay_Status := status, pay_PaidAt := (if setPaidAt then Some started else None),
               pay_UpdatedAt := started\<rparr>) (payouts d)\<rparr>)"
  unfolding updateDriverPayoutStatusTx_def Let_def
  by (rule effect_conseq, rule effect_intros)
    (auto simp: filter_eq_Cons_iff split: list.splits)

lemma total_unique:
  assumes "distinct (map key rows)" "r \<in> set rows" "key r = k"
  shows "total (\<lambda>r. key r = k) v rows = v r"
  using assms
proof (induction rows)
  case (Cons q rows)
  have none: "total (\<lambda>r. key r = k) v rows = 0" if "k \<notin> set (map key rows)"
  proof -
    have "filter (\<lambda>r. key r = k) rows = []" using that by (auto simp: filter_empty_conv)
    then show ?thesis by (simp add: total_def)
  qed
  show ?case
  proof (cases "q = r")
    case True
    then show ?thesis using none Cons.prems by (auto simp: total_def)
  next
    case False
    then show ?thesis using Cons by (auto simp: total_def)
  qed
qed simp

lemma accounts_ok_payout_status:
  assumes "accounts_ok d"
  shows "accounts_ok (d\<lparr>payouts := sql_update P (\<lambda>p. p\<lparr>pay_Status := st, pay_PaidAt := pa,
     pay_UpdatedAt := u\<rparr>) (payouts d)\<rparr>)"
proof -
  have "map pay_ID (sql_update P (\<lambda>p. p\<lparr>pay_Status := st, pay_PaidAt := pa, pay_UpdatedAt := u\<rparr>) (payouts d))
      = map pay_ID (payouts d)"
    by (rule map_sql_update) simp
  with assms show ?thesis by (auto simp: accounts_ok_def set_sql_update)
qed

definition payout_row :: "time \<Rightarrow> driver_payout \<Rightarrow> int \<Rightarrow> ledger_row" where
  "payout_row started p balance =
     empty_ledger_row\<lparr>led_DriverID := Some (pay_DriverID p), led_TaxiParkID := Some (pay_TaxiParkID p),
       led_Type := ''payout'', led_Amount := Amount (pay_Amount p),
       led_Currency := Currency (pay_Amount p), led_Direction := ''debit'',
       led_BalanceAfter := balance, led_Comment := pay_Comment p, led_CreatedAt := started\<rparr>"

text \<open>How the tables look after a payout was paid.\<close>

definition paid_tables :: "driver_payout \<Rightarrow> db \<Rightarrow> db \<Rightarrow> bool" where
  "paid_tables p d d' \<longleftrightarrow> accounts_ok d'
     \<and> (\<exists>bs rows b started. d' = d\<lparr>payouts := rows, driver_balances := bs,
           driver_ledger := driver_ledger d @ [payout_row started p b]\<rparr>)
     \<and> Amount (pay_Amount p) \<le> driver_account d (pay_DriverID p, Some (pay_TaxiParkID p))
     \<and> (\<forall>k. driver_account d' k = driver_account d k
          - (if k = (pay_DriverID p, Some (pay_TaxiParkID p)) then Amount (pay_Amount p) else 0))
     \<and> ((\<forall>b \<in> set (driver_balances d). 0 \<le> available b) \<longrightarrow>
        (\<forall>b \<in> set (driver_balances d'). 0 \<le> available b))"

definition payout_paid :: "uuid \<Rightarrow> uuid \<Rightarrow> driver_payout \<Rightarrow> db \<Rightarrow> db \<Rightarrow> bool" where
  "payout_paid owner payoutID a d d' \<longleftrightarrow>
     (\<exists>p \<in> set (payouts d). open_payout d owner payoutID p
        \<and> (\<exists>started. a = p\<lparr>pay_Status := ''paid'', pay_PaidAt := Some started, pay_UpdatedAt := started\<rparr>
             \<and> payouts d' = sql_update (open_payout d owner payoutID)
                 (\<lambda>p. p\<lparr>pay_Status := ''paid'', pay_PaidAt := Some started, pay_UpdatedAt := started\<rparr>)
                 (payouts d))
        \<and> paid_tables a d d')"

lemma pay_in_transaction_effect:
  "effect (pay_in_transaction owner payoutID)
    (\<lambda>c d r c' d'. accounts_ok d \<longrightarrow> fst r \<and> payout_paid owner payoutID (snd r) d d')"
  unfolding pay_in_transaction_def debit_balance_def driverParkBalanceInTransaction_def
proof (rule effect_conseq, (rule effect_intros)+, elim exE conjE bexE, intro impI, elim disjE conjE exE)
  fix c :: time and d :: db and r c' and d' :: db and st c2 d2 paid c3 d3 n c4 d4 p balance c5 d5 u c6 d6 x y
  let ?change = "\<lambda>p. p\<lparr>pay_Status := ''paid'', pay_PaidAt := if True then Some st else None, pay_UpdatedAt := st\<rparr>"
  assume d': "d' = d6" and d2: "d2 = d"
    and up: "update_balances (\<lambda>b. balance_key (pay_DriverID paid) (Some (pay_TaxiParkID paid)) b
          \<and> Amount (pay_Amount paid) \<le> available b) (- Amount (pay_Amount paid)) st d3 = (Inr n, d4)"
    and p: "p \<in> set (payouts d2)" "open_payout d2 owner payoutID p" "paid = ?change p"
    and d3: "d3 = d2\<lparr>payouts := sql_update (open_payout d2 owner payoutID) ?change (payouts d2)\<rparr>"
    and ok: "accounts_ok d" and n: "\<not> n \<noteq> 1" and d5: "d5 = d4"
    and x: "numeric_12_2 (moneyCentsToNumeric (Amount (pay_Amount paid))) = Inr x"
    and d6: "d6 = set_ledger driver_balance_ledger (ledger driver_balance_ledger d5 @
        [empty_ledger_row\<lparr>led_DriverID := Some (pay_DriverID paid), led_TaxiParkID := Some (pay_TaxiParkID paid),
           led_Type := ''payout'', led_Currency := Currency (pay_Amount paid), led_Direction := ''debit'',
           led_Comment := pay_Comment paid, led_Amount := x, led_BalanceAfter := y, led_CreatedAt := st\<rparr>]) d5"
    and fin: "r = (True, paid)"
  let ?k = "(pay_DriverID p, Some (pay_TaxiParkID p))"
  have amount: "0 \<le> Amount (pay_Amount p)" using ok p(1) d2 by (simp add: accounts_ok_def)
  have ok3: "accounts_ok d3" unfolding d3 d2 using accounts_ok_payout_status [OF ok] by simp
  have one: "list_ex (\<lambda>b. balance_key (pay_DriverID paid) (Some (pay_TaxiParkID paid)) b
          \<and> Amount (pay_Amount paid) \<le> available b) (driver_balances d3)"
  proof (rule ccontr)
    assume "\<not> ?thesis"
    then have "n = 0" using up
      by (auto simp: update_balances_def rows_affected_def list_ex_iff filter_empty_conv split: if_splits)
    with n show False by simp
  qed
  note posts = update_balances_posts [OF up ok3 _ one, of ?k]
  have key: "balance_account b = ?k" if "balance_key (pay_DriverID paid) (Some (pay_TaxiParkID paid)) b
          \<and> Amount (pay_Amount paid) \<le> available b" for b
    using that p(3) by (simp add: balance_key_account)
  obtain bs where d4: "d4 = d3\<lparr>driver_balances := bs\<rparr>" using posts(2) [OF key] by (rule that)
  have same: "driver_account d3 = driver_account d" unfolding d3 d2 by (simp add: driver_account_def fun_eq_iff)
  have x': "x = Amount (pay_Amount paid)" using x amount p(3) by (simp split: if_splits)
  have frame: "d' = d\<lparr>payouts := sql_update (open_payout d owner payoutID) ?change (payouts d),
      driver_balances := bs, driver_ledger := driver_ledger d @ [payout_row st paid y]\<rparr>"
    unfolding d' d6 d5 d4 d3 d2 x' by (simp add: payout_row_def empty_ledger_row_def)
  have enough: "Amount (pay_Amount paid) \<le> driver_account d ?k"
  proof -
    from one obtain bl where bl: "bl \<in> set (driver_balances d3)" "balance_account bl = ?k"
      "Amount (pay_Amount paid) \<le> available bl"
      using key by (auto simp: list_ex_iff)
    have "total (\<lambda>b. balance_account b = ?k) available (driver_balances d3) = available bl"
      by (rule total_unique [where key = balance_account, OF _ bl(1,2)])
        (use ok3 in \<open>simp add: accounts_ok_def\<close>)
    with bl(3) show ?thesis unfolding same [symmetric] by (simp add: driver_account_def)
  qed
  have paid: "paid_tables paid d d'"
    unfolding paid_tables_def
  proof (intro conjI allI)
    show "accounts_ok d'" using posts(3) [OF key] unfolding frame d4 d3 d2 by (simp add: accounts_ok_def)
    show "\<exists>bs rows b started. d' = d\<lparr>payouts := rows, driver_balances := bs,
           driver_ledger := driver_ledger d @ [payout_row started paid b]\<rparr>"
      by (intro exI) (rule frame)
    show "Amount (pay_Amount paid) \<le> driver_account d (pay_DriverID paid, Some (pay_TaxiParkID paid))"
      using enough p(3) by simp
    show "driver_account d' k = driver_account d k
          - (if k = (pay_DriverID paid, Some (pay_TaxiParkID paid)) then Amount (pay_Amount paid) else 0)" for k
      using posts(4) [OF key, of k] p(3) unfolding same frame d4 by (simp add: driver_account_def)
    show "(\<forall>b \<in> set (driver_balances d). 0 \<le> available b) \<longrightarrow>
        (\<forall>b \<in> set (driver_balances d'). 0 \<le> available b)"
      using posts(5) [OF key] unfolding frame d4 d3 d2 by simp
  qed
  have "payout_paid owner payoutID paid d d'"
    unfolding payout_paid_def
  proof (intro bexI [of _ p] conjI exI [of _ st])
    show "payouts d' = sql_update (open_payout d owner payoutID)
        (\<lambda>p. p\<lparr>pay_Status := ''paid'', pay_PaidAt := Some st, pay_UpdatedAt := st\<rparr>) (payouts d)"
      unfolding frame by simp
    show "open_payout d owner payoutID p" "p \<in> set (payouts d)" using p(1,2) d2 by simp_all
    show "paid = p\<lparr>pay_Status := ''paid'', pay_PaidAt := Some st, pay_UpdatedAt := st\<rparr>"
      using p(3) by simp
    show "paid_tables paid d d'" by (rule paid)
  qed
  with fin show "fst r \<and> payout_paid owner payoutID (snd r) d d'" by simp
qed auto

lemma MarkDriverPayoutPaid_effect:
  "effect (MarkDriverPayoutPaid owner payoutID)
    (\<lambda>c d a c' d'. accounts_ok d \<longrightarrow> payout_paid owner payoutID a d d')"
  unfolding MarkDriverPayoutPaid_def
  by (rule effect_conseq, rule effect_transaction, rule pay_in_transaction_effect) auto

lemma payout_row_simps [simp]:
  "signed (payout_row st p b) = - Amount (pay_Amount p)"
  "of_account k (payout_row st p b) \<longleftrightarrow> k = (pay_DriverID p, Some (pay_TaxiParkID p))"
  "led_Type (payout_row st p b) = ''payout''"
  by (auto simp: signed_def payout_row_def empty_ledger_row_def of_account_def)

lemma paid_tables_balanced:
  assumes "paid_tables p d d'" "books_balanced d"
  shows "books_balanced d'" and "books_of d' = post_payout p (books_of d)"
proof -
  from assms(1) obtain bs rows b st where
    d': "d' = d\<lparr>payouts := rows, driver_balances := bs, driver_ledger := driver_ledger d @ [payout_row st p b]\<rparr>"
    unfolding paid_tables_def by blast
  have acc: "driver_account d' k = driver_account d k
          - (if k = (pay_DriverID p, Some (pay_TaxiParkID p)) then Amount (pay_Amount p) else 0)" for k
    using assms(1) unfolding paid_tables_def by blast
  have parks: "park_account d' = park_account d" by (simp add: d' park_account_def fun_eq_iff)
  show "books_of d' = post_payout p (books_of d)"
    using acc parks
    by (auto simp: books_of_def post_payout_def fee_debt_def add_at_def fun_eq_iff d')
  have rest: "accounts_ok d'" "(\<forall>b \<in> set (driver_balances d). 0 \<le> available b) \<longrightarrow>
        (\<forall>b \<in> set (driver_balances d'). 0 \<le> available b)"
    using assms(1) unfolding paid_tables_def by blast+
  show "books_balanced d'"
    unfolding books_balanced_def
  proof (intro conjI)
    show "accounts_ok d'" by (rule rest)
    show "\<forall>b \<in> set (driver_balances d'). 0 \<le> available b"
      using rest(2) assms(2) by (simp add: books_balanced_def)
    show "\<forall>k. driver_account d' k = total (of_account k) signed (driver_ledger d')"
      using assms(2) acc by (auto simp: books_balanced_def d')
  qed (use assms(2) parks in \<open>auto simp: books_balanced_def d'\<close>)
qed

lemma open_payout_paid:
  "\<not> open_payout d' owner payoutID
     (q\<lparr>pay_Status := ''paid'', pay_PaidAt := x, pay_UpdatedAt := y\<rparr>)"
  by (simp add: open_payout_def)

text \<open>
  C22: paying a payout takes exactly its amount from the driver's account at that park and nothing
  from any other account, only if the account holds it and only if the payout was open and belongs to
  a park of the caller; afterwards the books balance, no balance is negative, and the payout is
  closed for everybody who owns its park.
\<close>

theorem MarkDriverPayoutPaid_pays:
  assumes "MarkDriverPayoutPaid owner payoutID s = (Inr a, t)" and "books_balanced (db s)"
  shows "(\<exists>p \<in> set (payouts (db s)). open_payout (db s) owner payoutID p \<and> pay_Amount a = pay_Amount p
        \<and> pay_DriverID a = pay_DriverID p \<and> pay_TaxiParkID a = pay_TaxiParkID p)
    \<and> Amount (pay_Amount a) \<le> bk_driver (books_of (db s)) (pay_DriverID a, Some (pay_TaxiParkID a))
    \<and> books_of (db t) = post_payout a (books_of (db s)) \<and> books_balanced (db t)
    \<and> \<not> list_ex (open_payout (db t) owner payoutID) (payouts (db t))"
proof -
  have ok: "accounts_ok (db s)" using assms(2) by (simp add: books_balanced_def)
  from effectD [OF MarkDriverPayoutPaid_effect assms(1)] ok obtain p st where
    p: "p \<in> set (payouts (db s))" "open_payout (db s) owner payoutID p"
    and a: "a = p\<lparr>pay_Status := ''paid'', pay_PaidAt := Some st, pay_UpdatedAt := st\<rparr>"
    and rows: "payouts (db t) = sql_update (open_payout (db s) owner payoutID)
        (\<lambda>p. p\<lparr>pay_Status := ''paid'', pay_PaidAt := Some st, pay_UpdatedAt := st\<rparr>) (payouts (db s))"
    and paid: "paid_tables a (db s) (db t)"
    unfolding payout_paid_def by blast
  from paid obtain bs rs b st' where "db t = (db s)\<lparr>payouts := rs, driver_balances := bs,
      driver_ledger := driver_ledger (db s) @ [payout_row st' a b]\<rparr>"
    unfolding paid_tables_def by blast
  then have same: "open_payout (db t) = open_payout (db s)"
    by (simp add: open_payout_def fun_eq_iff)
  have closed: "\<not> list_ex (open_payout (db t) owner payoutID) (payouts (db t))"
    unfolding rows same by (auto simp: list_ex_iff set_sql_update open_payout_paid)
  have "Amount (pay_Amount a) \<le> bk_driver (books_of (db s)) (pay_DriverID a, Some (pay_TaxiParkID a))"
    using paid by (simp add: paid_tables_def books_of_def)
  with paid_tables_balanced [OF paid assms(2)] closed p a show ?thesis by auto
qed

section \<open>A rate of zero\<close>

text \<open>
  A park that sets its commission to zero is charged one per cent: the settlement of an order
  whose snapshot holds a zero commission, or a zero platform fee, applies the default of 100 basis
  points, exactly as for a park that has never set a rate.
\<close>

theorem settlement_from_zero_rate:
  assumes "settlement_from snapshot now = Inr s"
  shows "(snp_DriverCommissionBPS snapshot = Some 0 \<longrightarrow> BasisPoints (stl_CommissionRate s) = 100
      \<and> settlement_from (snapshot\<lparr>snp_DriverCommissionBPS := None\<rparr>) now = Inr s)
    \<and> (snp_PlatformFeeBPS snapshot = 0 \<longrightarrow> BasisPoints (stl_PlatformFeeRate s) = 100)"
  using assms unfolding settlement_from_def
  by (auto simp: Let_def ResolveCommissionRate_def override_rate_def
      DefaultPlatformCommissionBasisPoints_def split: if_splits option.splits sum.splits prod.splits)

section \<open>The books stay balanced\<close>

lemma total_sql_update_same:
  assumes "\<And>r. P r \<Longrightarrow> K (f r) = K r \<and> v (f r) = v r"
  shows "total K v (sql_update P f rows) = total K v rows"
  using assms by (induction rows) (auto simp: total_def sql_update_def)

lemma books_balanced_accounts: "books_balanced d \<Longrightarrow> accounts_ok d"
  by (simp add: books_balanced_def)

lemma keeps_MarkDriverPayoutPaid [keeps_intros]:
  "keeps (on_db books_balanced) (MarkDriverPayoutPaid owner payoutID)"
  unfolding MarkDriverPayoutPaid_def
  by (rule keeps_transaction_effect [OF pay_in_transaction_effect])
    (auto simp: payout_paid_def dest: books_balanced_accounts intro: paid_tables_balanced(1))

lemma books_balanced_payouts:
  assumes "books_balanced d" "accounts_ok (d\<lparr>payouts := rows\<rparr>)"
  shows "books_balanced (d\<lparr>payouts := rows\<rparr>)"
  using assms by (simp add: books_balanced_def driver_account_def park_account_def)

lemma keeps_ApproveDriverPayout [keeps_intros]:
  "keeps (on_db books_balanced) (ApproveDriverPayout owner payoutID)"
  unfolding ApproveDriverPayout_def updateDriverPayoutStatus_def
proof (rule keeps_transaction_effect, (rule effect_intros)+, elim exE conjE bexE)
  fix d a and d' :: db and st d1 p d2 x y
  assume "books_balanced d" "d1 = d"
    and "d' = d2" "d2 = d1\<lparr>payouts := sql_update (open_payout d1 owner payoutID)
       (\<lambda>p. p\<lparr>pay_Status := ''approved'', pay_PaidAt := x, pay_UpdatedAt := y\<rparr>) (payouts d1)\<rparr>"
  then show "books_balanced d'"
    using books_balanced_payouts [OF _ accounts_ok_payout_status] by (simp add: books_balanced_accounts)
qed

text \<open>Every other statement leaves the amounts of the books alone.\<close>

lemma keeps_insert_payout [keeps_intros]: "keeps (on_db books_balanced) (sql (\<lambda>t. insert_payout p))"
proof (rule keeps_sql)
  fix now :: time and d :: db
  assume bal: "books_balanced d"
  show "books_balanced (snd (insert_payout p d))"
  proof (cases "Amount (pay_Amount p) < 0 \<or> list_ex (\<lambda>q. pay_ID q = pay_ID p) (payouts d)")
    case True
    then show ?thesis using bal by (auto simp: insert_payout_def)
  next
    case False
    then have "accounts_ok (d\<lparr>payouts := payouts d @ [p]\<rparr>)"
      using books_balanced_accounts [OF bal] by (auto simp: accounts_ok_def list_ex_iff)
    from books_balanced_payouts [OF bal this] False show ?thesis by (simp add: insert_payout_def)
  qed
qed

lemma keeps_insert_invoice [keeps_intros]: "keeps (on_db books_balanced) (sql (\<lambda>t. insert_invoice i))"
  by (rule keeps_sql)
    (simp add: insert_invoice_def books_balanced_def accounts_ok_def driver_account_def park_account_def)

lemma keeps_attach_invoice [keeps_intros]:
  "keeps (on_db books_balanced) (sql (\<lambda>_ d. (Inr (), d\<lparr>fee_ledger := sql_update (accrued park input)
     (\<lambda>r. r\<lparr>led_InvoiceID := Some i\<rparr>) (fee_ledger d)\<rparr>)))"
proof (rule keeps_sql)
  fix d :: db
  assume bal: "books_balanced d"
  have "total K led_Amount (sql_update (accrued park input) (\<lambda>r. r\<lparr>led_InvoiceID := Some i\<rparr>) (fee_ledger d))
      = total K led_Amount (fee_ledger d)" if "\<And>r x. K (r\<lparr>led_InvoiceID := x\<rparr>) = K r" for K
    by (rule total_sql_update_same) (simp add: that)
  with bal show "books_balanced (snd (Inr (), d\<lparr>fee_ledger := sql_update (accrued park input)
     (\<lambda>r. r\<lparr>led_InvoiceID := Some i\<rparr>) (fee_ledger d)\<rparr>))"
    by (simp add: books_balanced_def accounts_ok_def driver_account_def park_account_def park_ledger_row_def)
qed

lemma keeps_mark_invoice_paid [keeps_intros]:
  "keeps (on_db books_balanced) (sql (\<lambda>_. mark_invoice_paid started i))"
  by (rule keeps_sql)
    (simp add: mark_invoice_paid_def Let_def books_balanced_def accounts_ok_def driver_account_def
      park_account_def split: list.splits)

lemma keeps_invoice_ledger_entry [keeps_intros]:
  assumes "table \<in> {taxi_park_platform_fee_ledger, platform_balance_ledger}"
    and "ty \<noteq> ''platform_service_fee_accrual''"
  shows "keeps (on_db books_balanced) (invoice_ledger_entry table ty started invoice b)"
  unfolding invoice_ledger_entry_def write_ledger_def
  by (rule keeps_sql)
    (use assms in \<open>auto simp: insert_ledger_def books_balanced_def accounts_ok_def driver_account_def
      park_account_def empty_ledger_row_def split: sum.splits\<close>)

lemma keeps_write_document [keeps_intros]:
  "keeps (on_db books_balanced) (sql (\<lambda>t d. let doc = f t in (Inr doc, d\<lparr>finance_documents :=
     finance_documents d @ [doc]\<rparr>)))"
  by (rule keeps_sql)
    (simp add: Let_def books_balanced_def accounts_ok_def driver_account_def park_account_def)

lemma keeps_repository [keeps_intros]:
  "keeps (on_db books_balanced) (CreateDriverPayout owner driver input)"
  "keeps (on_db books_balanced) (CreateTaxiParkPlatformInvoice owner pinput)"
  "keeps (on_db books_balanced) (MarkAdminPlatformInvoicePaid invoiceID)"
  "keeps (on_db books_balanced) (GenerateDriverPayoutAct payoutID)"
  "keeps (on_db books_balanced) (GeneratePlatformInvoice invoiceID)"
  "keeps (on_db books_balanced) (GeneratePlatformAct invoiceID)"
  unfolding CreateDriverPayout_def resolveTaxiParkIDByOwner_def driverParkBalanceInTransaction_def
    CreateTaxiParkPlatformInvoice_def MarkAdminPlatformInvoicePaid_def nextLedgerBalance_def
    GenerateDriverPayoutAct_def GeneratePlatformInvoice_def GeneratePlatformAct_def
    invoice_document_def insertFinanceDocument_def
  by ((intro keeps_intros keeps_db_transaction; simp?)+)

lemma keeps_upsert_commission [keeps_intros]:
  "keeps (on_db books_balanced) (UpdateTaxiParkDriverCommission owner bps)"
  unfolding UpdateTaxiParkDriverCommission_def
  by (rule keeps_sql)
    (auto simp: upsert_commission_def Let_def books_balanced_def accounts_ok_def driver_account_def
      park_account_def split: sum.splits list.splits option.splits)

text \<open>The calls of the finance service that write.\<close>

datatype finance_call =
    Settle uuid
  | SetCommission uuid int
  | RequestPayout uuid uuid create_driver_payout_input
  | ApprovePayout uuid uuid
  | PayPayout uuid uuid
  | IssueInvoice uuid create_platform_invoice_input
  | PayInvoice uuid

primrec finance_run :: "finance_call \<Rightarrow> world \<Rightarrow> world" where
  "finance_run (Settle orderID) w = snd (SettleCompletedOrder orderID w)"
| "finance_run (SetCommission owner bps) w = snd (UpdateTaxiParkDriverCommission_service owner bps w)"
| "finance_run (RequestPayout owner driver input) w = snd (CreateDriverPayout_service owner driver input w)"
| "finance_run (ApprovePayout owner payoutID) w = snd (ApproveDriverPayout owner payoutID w)"
| "finance_run (PayPayout owner payoutID) w = snd (MarkDriverPayoutPaid owner payoutID w)"
| "finance_run (IssueInvoice owner input) w = snd (CreateTaxiParkPlatformInvoice_service owner input w)"
| "finance_run (PayInvoice invoiceID) w = snd (MarkAdminPlatformInvoicePaid_service invoiceID w)"

lemma finance_run_balanced:
  assumes "books_balanced (db w)"
  shows "books_balanced (db (finance_run call w))"
proof -
  have runs: "books_balanced (db (snd (m w)))" if "keeps (on_db books_balanced) m" for m :: "(world, 'a) op"
    using that assms by (rule keepsD)
  show ?thesis
    by (cases call; simp; rule runs;
        (unfold UpdateTaxiParkDriverCommission_service_def CreateDriverPayout_service_def
           CreateTaxiParkPlatformInvoice_service_def MarkAdminPlatformInvoicePaid_service_def
           with_document_def)?; intro keeps_intros)
qed

text \<open>
  C2: the books are an invariant: whatever sequence of settlements, commission changes, payouts and
  invoices runs, in any order, with any failures of the database, every driver's balance is the sum
  of his ledger, every park's balance is the sum of its ledger and of the commissions of its settled
  orders, the accrued fees are the fees of the settled orders, no balance is negative, and no order
  is settled twice.
\<close>

theorem books_balanced_invariant:
  assumes "books_balanced (db w)"
  shows "books_balanced (db (fold finance_run calls w))"
  using assms
proof (induction calls arbitrary: w)
  case (Cons call calls)
  then show ?case by (simp add: finance_run_balanced)
qed simp

theorem books_balanced_invariant_witness:
  "books_balanced (db (fold finance_run [Settle 1, Settle 1, PayInvoice 4] (world_at 5 (sample_db sample_order))))"
proof (rule books_balanced_invariant)
  show "books_balanced (db (world_at 5 (sample_db sample_order)))"
    by (simp add: books_balanced_def accounts_ok_def driver_account_def park_account_def world_at_def
        sample_db_def empty_db_def sample_park_def)
qed

end
