(* ===== verification/Finance_Liveness.thy ===== *)
theory Finance_Liveness
  imports Finance_Safety
begin

text \<open>
  A completed order can be settled: when the database answers, the settlement goes through for every
  order whose rows exist and whose sums fit the columns.
\<close>

section \<open>The statements when nothing fails\<close>

definition fits :: "int \<Rightarrow> bool" where
  "fits n \<longleftrightarrow> 0 \<le> n \<and> n < 10 ^ 12"

lemma fits_written [simp]: "fits n \<Longrightarrow> numeric_12_2 (moneyCentsToNumeric n) = Inr n"
  by (simp add: fits_def)

lemma fits_wrap [simp]: "fits n \<Longrightarrow> wrap64 n = n"
  by (rule wrap64_id) (simp_all add: fits_def int64_min_def int64_max_def)

lemma write_ledger_ok:
  assumes "script w = []" "fits amount" "fits balance"
  shows "wp (write_ledger table started row amount balance) Q E w =
    Q () (w\<lparr>db := set_ledger table (ledger table (db w) @
      [row\<lparr>led_Amount := amount, led_BalanceAfter := balance, led_CreatedAt := started\<rparr>]) (db w)\<rparr>)"
  using assms unfolding write_ledger_def
  by (simp add: wp_ok insert_ledger_def fits_def)

definition latest_or_zero :: "ledger_table \<Rightarrow> uuid \<Rightarrow> db \<Rightarrow> int" where
  "latest_or_zero table park d = (case latest_balance table park d of None \<Rightarrow> 0 | Some b \<Rightarrow> b)"

lemma park_ledger_entry_ok:
  assumes "script w = []" "fits (Amount amount)" "fits (latest_or_zero table park (db w) + Amount amount)"
  shows "wp (park_ledger_entry table entryType direction amount started park s) Q E w =
    Q () (w\<lparr>db := set_ledger table (ledger table (db w) @ [entry_row entryType direction amount started park s
        (latest_or_zero table park (db w) + Amount amount)]) (db w)\<rparr>)"
  using assms unfolding park_ledger_entry_def nextLedgerBalance_def
  by (simp add: wp_bind wp_ok wp_ret write_ledger_ok latest_or_zero_def entry_row_def empty_ledger_row_def)

text \<open>The sums that the credits of a settlement compute.\<close>

definition room :: "db \<Rightarrow> order_settlement \<Rightarrow> bool" where
  "room d s \<longleftrightarrow> fits (Amount (stl_NetAmount s)) \<and> fits (Amount (stl_TaxiParkIncomeAmount s))
     \<and> fits (Amount (stl_PlatformFeeAmount s))
     \<and> list_all (\<lambda>b. balance_key (stl_DriverID s) (stl_TaxiParkID s) b \<longrightarrow>
          0 \<le> available b \<and> fits (available b + Amount (stl_NetAmount s))) (driver_balances d)
     \<and> (case stl_TaxiParkID s of None \<Rightarrow> True | Some park \<Rightarrow>
          list_all (\<lambda>tp. tp_ID tp = park \<longrightarrow>
            tp_balance_cents tp + Amount (stl_TaxiParkIncomeAmount s) \<le> int64_max) (taxi_parks d)
          \<and> fits (latest_or_zero taxi_park_balance_ledger park d + Amount (stl_TaxiParkIncomeAmount s))
          \<and> fits (latest_or_zero taxi_park_platform_fee_ledger park d + Amount (stl_PlatformFeeAmount s))
          \<and> fits (latest_or_zero platform_balance_ledger park d + Amount (stl_PlatformFeeAmount s)))"

lemma filter_sql_update:
  "(\<And>r. K (f r) = K r) \<Longrightarrow> filter K (sql_update K f rows) = map f (filter K rows)"
  by (induction rows) (auto simp: sql_update_def)

lemma upsert_balance_ok:
  assumes "room d s"
  obtains bs n b where "upsert_balance (stl_DriverID s) (stl_TaxiParkID s) (stl_NetAmount s) now d =
      (Inr n, d\<lparr>driver_balances := bs\<rparr>)"
    "one_row (map available (filter (balance_key (stl_DriverID s) (stl_TaxiParkID s)) bs)) = Inr b" "fits b"
proof -
  let ?K = "balance_key (stl_DriverID s) (stl_TaxiParkID s)" and ?n = "Amount (stl_NetAmount s)"
  have net: "fits ?n" and old: "\<And>b. b \<in> set (driver_balances d) \<Longrightarrow> ?K b \<Longrightarrow> 0 \<le> available b \<and> fits (available b + ?n)"
    using assms by (auto simp: room_def list_all_iff)
  show ?thesis
  proof (cases "list_ex ?K (driver_balances d)")
    case False
    then have "filter ?K (driver_balances d) = []" by (auto simp: list_ex_iff filter_empty_conv)
    then show ?thesis
      using net False that [of 1 "driver_balances d @ [\<lparr>bal_DriverID = stl_DriverID s,
          bal_AvailableBalance = stl_NetAmount s, bal_PendingBalance = (stl_NetAmount s)\<lparr>Amount := 0\<rparr>,
          bal_UpdatedAt = now, bal_TaxiParkID = stl_TaxiParkID s, bal_version = 1\<rparr>]" ?n]
      by (simp add: upsert_balance_def fits_def balance_key_def available_def)
  next
    case True
    let ?bs = "sql_update ?K (add_available ?n now) (driver_balances d)"
    have "\<not> list_ex (\<lambda>b. ?K b \<and> available b + ?n > int64_max) (driver_balances d)"
      "\<not> list_ex (\<lambda>b. ?K b \<and> available b + ?n < 0) (driver_balances d)"
      using old by (fastforce simp: list_ex_iff fits_def int64_max_def)+
    then have run: "upsert_balance (stl_DriverID s) (stl_TaxiParkID s) (stl_NetAmount s) now d =
        (Inr (rows_affected ?K (driver_balances d)), d\<lparr>driver_balances := ?bs\<rparr>)"
      using True net by (simp add: upsert_balance_def update_balances_def fits_def)
    have "filter ?K ?bs = map (add_available ?n now) (filter ?K (driver_balances d))"
      by (rule filter_sql_update) (simp add: balance_key_account)
    moreover obtain b rest where b: "filter ?K (driver_balances d) = b # rest"
      using True by (cases "filter ?K (driver_balances d)") (auto simp: list_ex_iff filter_empty_conv)
    ultimately have "one_row (map available (filter ?K ?bs)) = Inr (available b + ?n)" by simp
    moreover have "b \<in> set (driver_balances d)" "?K b"
      using b by (auto simp: filter_eq_Cons_iff)
    ultimately show ?thesis using that [OF run] old by blast
  qed
qed

lemma credit_accounts_ok:
  assumes "script w = []" "room (db w) s" "park_exists (db w) (stl_TaxiParkID s)"
  shows "wp (credit_accounts started s) (\<lambda>p t. script t = [] \<and> p = (True, Some s)) (\<lambda>_ _. False) w"
proof -
  obtain bs n b where up: "upsert_balance (stl_DriverID s) (stl_TaxiParkID s) (stl_NetAmount s) started (db w) =
      (Inr n, (db w)\<lparr>driver_balances := bs\<rparr>)"
    and bal: "one_row (map available (filter (balance_key (stl_DriverID s) (stl_TaxiParkID s)) bs)) = Inr b" "fits b"
    by (rule upsert_balance_ok [OF assms(2)])
  have net: "fits (Amount (stl_NetAmount s))" using assms(2) by (simp add: room_def)
  note run = insertDriverBalanceLedger_def driverParkBalanceInTransaction_def insertFinanceAudit_def
    wp_bind wp_ok wp_ret write_ledger_ok
  show ?thesis
  proof (cases "stl_TaxiParkID s")
    case None
    then show ?thesis
      using assms(1) up bal net unfolding credit_accounts_def by (simp add: run)
  next
    case (Some park)
    have fine: "\<not> list_ex (\<lambda>tp. tp_ID tp = park
        \<and> int64_max < tp_balance_cents tp + Amount (stl_TaxiParkIncomeAmount s)) (taxi_parks (db w))"
      "fits (Amount (stl_TaxiParkIncomeAmount s))" "fits (Amount (stl_PlatformFeeAmount s))"
      "fits (latest_or_zero taxi_park_balance_ledger park (db w) + Amount (stl_TaxiParkIncomeAmount s))"
      "fits (latest_or_zero taxi_park_platform_fee_ledger park (db w) + Amount (stl_PlatformFeeAmount s))"
      "fits (latest_or_zero platform_balance_ledger park (db w) + Amount (stl_PlatformFeeAmount s))"
      using assms(2) Some by (auto simp: room_def list_all_iff list_ex_iff)
    show ?thesis
      using assms(1) up bal net fine Some
      unfolding credit_accounts_def settle_park_def insertTaxiParkBalanceLedger_def
        insertTaxiParkPlatformFeeLedger_def insertPlatformBalanceLedger_def
      by (simp add: run update_park_balance_def park_ledger_entry_ok latest_or_zero_def latest_balance_def)
  qed
qed

section \<open>The settlement when nothing fails\<close>

definition settleable :: "db \<Rightarrow> order_settlement \<Rightarrow> bool" where
  "settleable d s \<longleftrightarrow> rouble_amounts s \<and> BasisPoints (stl_CommissionRate s) \<le> 10000
     \<and> BasisPoints (stl_PlatformFeeRate s) \<le> 10000 \<and> fits (Amount (stl_GrossAmount s))
     \<and> fits (Amount (stl_CommissionAmount s))
     \<and> settlement_references d s
     \<and> list_all (\<lambda>t. ftx_OrderID t \<noteq> Some (stl_OrderID s)) (financial_transactions d)
     \<and> list_all (\<lambda>f. ofi_OrderID f \<noteq> stl_OrderID s) (order_finances d) \<and> room d s"

lemma wp_unless_duplicate_ok:
  assumes "wp m (\<lambda>a. wp (k a) Q E) (\<lambda>_ _. False) w"
  shows "wp (unless_duplicate m k) Q E w"
  unfolding unless_duplicate_def wp_catching
  by (rule wp_conseq [OF assms]) auto

lemma insertFinancialTransaction_ok:
  assumes "script w = []" "settlement_references (db w) s" "rouble_amounts s"
    "BasisPoints (stl_CommissionRate s) \<le> 10000"
    "\<not> list_ex (\<lambda>u. ftx_OrderID u = Some (stl_OrderID s) \<and> ftx_TransactionType u = ty)
        (financial_transactions (db w))"
    and "\<And>i t n. ftx_TransactionType t = ty \<Longrightarrow> Q i (w\<lparr>draws := n, db := (db w)
       \<lparr>financial_transactions := financial_transactions (db w) @ [t]\<rparr>\<rparr>)"
  shows "wp (insertFinancialTransaction started s ty) Q E w"
  using assms unfolding insertFinancialTransaction_def Let_def
  by (auto simp: wp_bind wp_uuid_New wp_ok wp_ret insert_transaction_def rouble_amounts_def)

lemma insertOrderFinance_ok:
  assumes "script w = []" "settleable d s"
    "list_all (\<lambda>f. ofi_OrderID f \<noteq> stl_OrderID s) (order_finances (db w))"
    and "\<And>n f. Q () (w\<lparr>draws := n, db := (db w)\<lparr>order_finances := order_finances (db w) @ [f]\<rparr>\<rparr>)"
  shows "wp (insertOrderFinance started s) Q E w"
proof -
  have "list_all2 (\<lambda>x n. x = Inr n)
      [numeric_12_2 (moneyCentsToNumeric (Amount (stl_GrossAmount s))),
       numeric_5_2 (basisPointsToNumeric (BasisPoints (stl_CommissionRate s))),
       numeric_12_2 (moneyCentsToNumeric (Amount (stl_CommissionAmount s))),
       numeric_12_2 (moneyCentsToNumeric (Amount (stl_NetAmount s))),
       numeric_5_2 (basisPointsToNumeric (BasisPoints (stl_PlatformFeeRate s))),
       numeric_12_2 (moneyCentsToNumeric (Amount (stl_PlatformFeeAmount s))),
       numeric_12_2 (moneyCentsToNumeric (Amount (stl_TaxiParkIncomeAmount s)))]
      [Amount (stl_GrossAmount s), BasisPoints (stl_CommissionRate s), Amount (stl_CommissionAmount s),
       Amount (stl_NetAmount s), BasisPoints (stl_PlatformFeeRate s), Amount (stl_PlatformFeeAmount s),
       Amount (stl_TaxiParkIncomeAmount s)]"
    using assms(2) by (simp add: settleable_def rouble_amounts_def room_def fits_def)
  then have run: "collect
      [numeric_12_2 (moneyCentsToNumeric (Amount (stl_GrossAmount s))),
       numeric_5_2 (basisPointsToNumeric (BasisPoints (stl_CommissionRate s))),
       numeric_12_2 (moneyCentsToNumeric (Amount (stl_CommissionAmount s))),
       numeric_12_2 (moneyCentsToNumeric (Amount (stl_NetAmount s))),
       numeric_5_2 (basisPointsToNumeric (BasisPoints (stl_PlatformFeeRate s))),
       numeric_12_2 (moneyCentsToNumeric (Amount (stl_PlatformFeeAmount s))),
       numeric_12_2 (moneyCentsToNumeric (Amount (stl_TaxiParkIncomeAmount s)))]
      (\<lambda>x. bind (lift x) (\<lambda>n. ret [n])) () =
      (Inr [Amount (stl_GrossAmount s), BasisPoints (stl_CommissionRate s), Amount (stl_CommissionAmount s),
       Amount (stl_NetAmount s), BasisPoints (stl_PlatformFeeRate s), Amount (stl_PlatformFeeAmount s),
       Amount (stl_TaxiParkIncomeAmount s)], ())"
    unfolding collect_lifted by simp
  have row: "order_finance_row i started s [Amount (stl_GrossAmount s), BasisPoints (stl_CommissionRate s),
       Amount (stl_CommissionAmount s), Amount (stl_NetAmount s), BasisPoints (stl_PlatformFeeRate s),
       Amount (stl_PlatformFeeAmount s), Amount (stl_TaxiParkIncomeAmount s)] = finance_of i started s" for i
    by (simp add: finance_of_def)
  have ins: "insert_order_finance (finance_of i started s) (db w) =
      (Inr (), (db w)\<lparr>order_finances := order_finances (db w) @ [finance_of i started s]\<rparr>)" for i
    using assms(2,3)
    by (auto simp: insert_order_finance_def finance_of_def order_finance_row_def Let_def settleable_def
        rouble_amounts_def list_ex_iff list_all_iff)
  show ?thesis
    using assms(1,4) unfolding insertOrderFinance_def run
    by (simp add: wp_bind wp_uuid_New wp_ok row ins)
qed

lemma room_update:
  "room d (s\<lparr>stl_CommissionTransactionID := i, stl_IncomeTransactionID := j\<rparr>) = room d s"
  by (cases "stl_TaxiParkID s") (simp_all add: room_def)

lemma settleable_update:
  "settleable d (s\<lparr>stl_CommissionTransactionID := i, stl_IncomeTransactionID := j\<rparr>) = settleable d s"
  by (simp add: settleable_def rouble_amounts_def settlement_references_def room_update)

lemma room_inserted:
  "room (d\<lparr>financial_transactions := ts, order_finances := fs\<rparr>) s = room d s"
  by (simp add: room_def latest_or_zero_def latest_balance_def split: option.splits)

lemma settle_in_transaction_ok:
  assumes "script w = []" "settleable (db w) s"
  shows "wp (settle_in_transaction s) (\<lambda>p t. script t = [] \<and> (\<exists>a. p = (True, Some a))) (\<lambda>_ _. False) w"
proof -
  have facts: "settlement_references (db w) s" "rouble_amounts s" "BasisPoints (stl_CommissionRate s) \<le> 10000"
    "room (db w) s" "\<And>t. t \<in> set (financial_transactions (db w)) \<Longrightarrow> ftx_OrderID t \<noteq> Some (stl_OrderID s)"
    "list_all (\<lambda>f. ofi_OrderID f \<noteq> stl_OrderID s) (order_finances (db w))"
    using assms(2) by (auto simp: settleable_def list_all_iff)
  have none: "find (\<lambda>f. ofi_OrderID f = stl_OrderID s) (order_finances (db w)) = None"
    using facts(6) by (auto simp: find_None_iff list_all_iff)
  let ?s = "\<lambda>i j. s\<lparr>stl_CommissionTransactionID := i, stl_IncomeTransactionID := j\<rparr>"
  have credits: "wp (credit_accounts st (?s i j)) (\<lambda>p t. script t = [] \<and> (\<exists>a. p = (True, Some a)))
      (\<lambda>_ _. False) (w\<lparr>draws := n, db := (db w)\<lparr>financial_transactions := ts, order_finances := fs\<rparr>\<rparr>)"
    for st i j n ts fs
  proof (rule wp_conseq [OF credit_accounts_ok])
    show "script (w\<lparr>draws := n, db := (db w)\<lparr>financial_transactions := ts, order_finances := fs\<rparr>\<rparr>) = []"
      using assms(1) by simp
    show "room (db (w\<lparr>draws := n, db := (db w)\<lparr>financial_transactions := ts, order_finances := fs\<rparr>\<rparr>)) (?s i j)"
      using facts(4) by (simp add: room_inserted room_update)
    show "park_exists (db (w\<lparr>draws := n, db := (db w)\<lparr>financial_transactions := ts, order_finances := fs\<rparr>\<rparr>))
        (stl_TaxiParkID (?s i j))"
      using facts(1) by (simp add: settlement_references_def park_exists_def split: option.splits)
  qed auto
  show ?thesis
    unfolding settle_in_transaction_def getOrderSettlementForUpdate_def Let_def
    apply (simp add: wp_bind wp_time_Now wp_ok [OF assms(1)] none)
    apply (rule wp_unless_duplicate_ok)
    apply (rule insertFinancialTransaction_ok [OF assms(1) facts(1-3)])
     apply (use facts(5) in \<open>auto simp: list_ex_iff\<close>) []
    apply (rule wp_unless_duplicate_ok)
    apply (rule insertFinancialTransaction_ok)
         apply (use assms(1) in simp)
        apply (use facts(1) in \<open>simp add: settlement_references_def park_exists_def split: option.splits\<close>)
       apply (rule facts(2))
      apply (rule facts(3))
     apply (use facts(5) in \<open>auto simp: list_ex_iff\<close>) []
    apply (rule wp_unless_duplicate_ok)
    apply (rule insertOrderFinance_ok [where d = "db w"])
       apply (use assms(1) in simp)
      apply (simp add: settleable_update assms(2))
     apply (use facts(6) in simp)
    apply simp
    apply (rule credits)
    done
qed

lemma CreateOrderSettlement_ok:
  assumes "script w = []" "settleable (db w) s"
  shows "wp (CreateOrderSettlement s) (\<lambda>a t. script t = []) (\<lambda>_ _. False) w"
  unfolding CreateOrderSettlement_def wp_bind
  by (rule wp_transaction_ok [OF assms(1)], rule wp_conseq [OF settle_in_transaction_ok [OF assms]])
    (auto simp: wp_ret)

lemma SettleCompletedOrder_ok:
  assumes "script w = []"
    and "filter (\<lambda>r. ord_ID r = orderID \<and> ord_DeletedAt r = None) (orders (db w)) = [r]"
    and "settlement_from (snapshot_of (db w) r) (clock w) = Inr s" "settleable (db w) s"
  shows "wp (SettleCompletedOrder orderID) (\<lambda>a t. script t = []) (\<lambda>_ _. False) w"
  using CreateOrderSettlement_ok [OF assms(1,4)] assms(1-3)
  unfolding SettleCompletedOrder_def GetOrderSnapshot_def
  by (simp add: wp_bind wp_ok wp_time_Now wp_lift wp_ret)

text \<open>
  C23: a completed order can be settled: when the database answers, the rows that the order names are
  there, none of them is settled yet and the sums fit their columns, then the settlement returns an
  answer and posts exactly that answer to the books.
\<close>

theorem SettleCompletedOrder_succeeds:
  assumes "script w = []" "books_balanced (db w)"
    and "filter (\<lambda>r. ord_ID r = orderID \<and> ord_DeletedAt r = None) (orders (db w)) = [r]"
    and "settlement_from (snapshot_of (db w) r) (clock w) = Inr s" "settleable (db w) s"
  shows "\<exists>a t. SettleCompletedOrder orderID w = (Inr a, t)
    \<and> books_of (db t) = post_settlement a (books_of (db w)) \<and> books_balanced (db t)"
proof -
  obtain a t where run: "SettleCompletedOrder orderID w = (Inr a, t)"
    using SettleCompletedOrder_ok [OF assms(1,3-5)]
    by (cases "SettleCompletedOrder orderID w") (auto simp: wp_def split: sum.splits)
  have kept: "books_balanced (db t)"
    using keepsD [OF keeps_SettleCompletedOrder, of "w" orderID] assms(2) run by simp
  have "r \<in> set (filter (\<lambda>r. ord_ID r = orderID \<and> ord_DeletedAt r = None) (orders (db w)))"
    unfolding assms(3) by simp
  then have id: "stl_OrderID s = orderID"
    using settlement_from_Inr(5) [OF assms(4)] by (simp add: snapshot_of_def)
  have fresh: "\<forall>f \<in> set (order_finances (db w)). ofi_OrderID f \<noteq> orderID"
    using assms(5) id by (simp add: settleable_def list_all_iff)
  from effectD [OF SettleCompletedOrder_effect run] assms(2) fresh obtain r' s' now i j where
    from_s: "settlement_from (snapshot_of (db w) r') now = Inr s'"
    and a: "a = s'\<lparr>stl_CommissionTransactionID := i, stl_IncomeTransactionID := j\<rparr>"
    and st: "settled_tables a (db w) (db t)"
    by (fastforce simp: books_balanced_def)
  show ?thesis using run kept settled_tables_books [OF st] by blast
qed

section \<open>A park that settles one order and pays it out\<close>

definition completed_order :: order_row where
  "completed_order = reserved_order\<lparr>ord_Status := OrderStatusCompleted,
     ord_FinalPrice := Some (sample_money 10000)\<rparr>"

definition sample_settlement :: order_settlement where
  "sample_settlement =
     \<lparr>stl_OrderID = 1, stl_DriverID = 3, stl_TaxiParkID = Some 7, stl_GrossAmount = roubles 10000,
      stl_CommissionRate = \<lparr>BasisPoints = 100, Source = ''platform_default''\<rparr>,
      stl_CommissionAmount = roubles 100, stl_NetAmount = roubles 9900,
      stl_PlatformFeeRate = \<lparr>BasisPoints = 100, Source = ''platform_default''\<rparr>,
      stl_PlatformFeeAmount = roubles 1, stl_TaxiParkIncomeAmount = roubles 100,
      stl_CommissionTransactionID = uuid_Nil, stl_IncomeTransactionID = uuid_Nil, stl_CreatedAt = 5\<rparr>"

definition completed_world :: world where
  "completed_world = world_at 5 (sample_db completed_order)"

lemma completed_world_balanced: "books_balanced (db completed_world)"
  by (simp add: completed_world_def books_balanced_def accounts_ok_def driver_account_def
      park_account_def world_at_def sample_db_def empty_db_def sample_park_def)

lemma completed_world_order:
  "filter (\<lambda>r. ord_ID r = 1 \<and> ord_DeletedAt r = None) (orders (db completed_world)) = [completed_order]"
  by (simp add: completed_world_def world_at_def sample_db_def completed_order_def reserved_order_def
      sample_order_def)

lemma completed_world_settlement:
  "settlement_from (snapshot_of (db completed_world) completed_order) (clock completed_world) = Inr sample_settlement"
proof -
  have snap: "snapshot_of (db completed_world) completed_order =
      \<lparr>snp_OrderID = 1, snp_DriverID = Some 3, snp_TaxiParkID = Some 7, snp_CityID = 5,
       snp_TariffID = None, snp_Status = OrderStatusCompleted, snp_FinalPrice = Some (roubles 10000),
       snp_DriverCommissionBPS = Some 0, snp_PlatformFeeBPS = 100\<rparr>"
    by (simp add: snapshot_of_def completed_world_def world_at_def sample_db_def completed_order_def
        reserved_order_def sample_order_def active_settings_def park_commission_def empty_db_def
        sample_park_def order_park_def in_roubles_def sample_money_def roubles_def)
  have now: "clock completed_world = 5" by (simp add: completed_world_def world_at_def)
  have rate: "ResolveCommissionRate \<lparr>PlatformDefaultBasisPoints = b, CityBasisPoints = None,
      TariffBasisPoints = None, TaxiParkBasisPoints = None, DriverBasisPoints = None\<rparr> =
      Inr \<lparr>BasisPoints = 100, Source = ''platform_default''\<rparr>" if "b \<in> {0, 100}" for b
    using that by (auto simp: ResolveCommissionRate_def override_rate_def DefaultPlatformCommissionBasisPoints_def)
  have split: "CalculateCommission (roubles 10000) \<lparr>BasisPoints = 100, Source = ''platform_default''\<rparr> =
      Inr (roubles 100, roubles 9900)"
    "CalculatePlatformFee (roubles 100) \<lparr>BasisPoints = 100, Source = ''platform_default''\<rparr> = Inr (roubles 1)"
    by code_simp+
  show ?thesis
    unfolding snap now settlement_from_def sample_settlement_def by (simp add: rate split Let_def)
qed

lemma completed_world_settleable: "settleable (db completed_world) sample_settlement"
  by (simp add: settleable_def rouble_amounts_def room_def settlement_references_def park_exists_def
      fits_def sample_settlement_def completed_world_def world_at_def sample_db_def empty_db_def
      sample_park_def sample_driver_def completed_order_def reserved_order_def sample_order_def
      roubles_def latest_or_zero_def latest_balance_def int64_max_def)

lemma completed_world_script: "script completed_world = []"
  by (simp add: completed_world_def world_at_def)

theorem SettleCompletedOrder_succeeds_witness:
  "\<exists>a t. SettleCompletedOrder 1 completed_world = (Inr a, t)
    \<and> books_of (db t) = post_settlement a (books_of (db completed_world)) \<and> books_balanced (db t)"
  by (rule SettleCompletedOrder_succeeds [OF completed_world_script completed_world_balanced
      completed_world_order completed_world_settlement completed_world_settleable])

theorem settlement_from_zero_rate_witness:
  "BasisPoints (stl_CommissionRate sample_settlement) = 100
    \<and> settlement_from ((snapshot_of (db completed_world) completed_order)\<lparr>snp_DriverCommissionBPS := None\<rparr>)
        (clock completed_world) = Inr sample_settlement"
proof -
  have "snp_DriverCommissionBPS (snapshot_of (db completed_world) completed_order) = Some 0"
    by (simp add: snapshot_of_def completed_world_def world_at_def sample_db_def completed_order_def
        reserved_order_def sample_order_def active_settings_def park_commission_def empty_db_def
        sample_park_def order_park_def)
  with settlement_from_zero_rate [OF completed_world_settlement] show ?thesis by simp
qed


theorem SettleCompletedOrder_at_most_once_witness:
  "books_balanced (db (((\<lambda>w. snd (SettleCompletedOrder 1 w)) ^^ 2) completed_world))
    \<and> (\<exists>posted. books_of (db (((\<lambda>w. snd (SettleCompletedOrder 1 w)) ^^ 2) completed_world)) =
         (case posted of None \<Rightarrow> books_of (db completed_world)
          | Some a \<Rightarrow> post_settlement a (books_of (db completed_world)))
       \<and> (case posted of None \<Rightarrow> True
          | Some a \<Rightarrow> stl_OrderID a = 1 \<and> 1 \<notin> bk_settled (books_of (db completed_world))))"
  by (rule SettleCompletedOrder_at_most_once [OF completed_world_balanced])

text \<open>A driver with 99 roubles at park 7 and an approved payout of 50 roubles.\<close>

definition sample_payout :: driver_payout where
  "sample_payout = \<lparr>pay_ID = 21, pay_DriverID = 3, pay_TaxiParkID = 7, pay_Amount = roubles 5000,
     pay_Status = ''approved'', pay_PeriodFrom = None, pay_PeriodTo = None, pay_PaymentMethod = [],
     pay_PaymentDocumentNumber = [], pay_Comment = [], pay_CreatedBy = Some 70, pay_CreatedAt = 2,
     pay_PaidAt = None, pay_UpdatedAt = 2\<rparr>"

definition payout_world :: world where
  "payout_world = world_at 5 ((sample_db completed_order)
     \<lparr>payouts := [sample_payout],
      driver_balances := [\<lparr>bal_DriverID = 3, bal_AvailableBalance = roubles 9900,
        bal_PendingBalance = roubles 0, bal_UpdatedAt = 1, bal_TaxiParkID = Some 7, bal_version = 1\<rparr>],
      driver_ledger := [empty_ledger_row\<lparr>led_DriverID := Some 3, led_TaxiParkID := Some 7,
        led_Amount := 9900, led_Direction := ''credit'', led_BalanceAfter := 9900\<rparr>]\<rparr>)"

lemma payout_world_pays: "\<exists>t. MarkDriverPayoutPaid 70 21 payout_world =
    (Inr (sample_payout\<lparr>pay_Status := ''paid'', pay_PaidAt := Some 5, pay_UpdatedAt := 5\<rparr>), t)"
proof -
  have script: "script payout_world = []" by (simp add: payout_world_def world_at_def)
  have "wp (MarkDriverPayoutPaid 70 21)
      (\<lambda>a t. a = sample_payout\<lparr>pay_Status := ''paid'', pay_PaidAt := Some 5, pay_UpdatedAt := 5\<rparr>)
      (\<lambda>_ _. False) payout_world"
    unfolding MarkDriverPayoutPaid_def
    apply (rule wp_transaction_ok [OF script])
    apply (simp add: pay_in_transaction_def updateDriverPayoutStatusTx_def Let_def wp_bind wp_time_Now
        wp_ok wp_ret payout_world_def world_at_def sample_db_def open_payout_def sample_payout_def
        sample_park_def roubles_def debit_balance_def update_balances_def balance_key_def
        available_def add_available_def rows_affected_def sql_update_def driverParkBalanceInTransaction_def
        write_ledger_ok fits_def int64_max_def)
    done
  then show ?thesis
    by (cases "MarkDriverPayoutPaid 70 21 payout_world") (auto simp: wp_def split: sum.splits)
qed

lemma payout_world_balanced: "books_balanced (db payout_world)"
  by (auto simp: books_balanced_def accounts_ok_def driver_account_def park_account_def payout_world_def
      world_at_def sample_db_def empty_db_def sample_park_def sample_payout_def roubles_def
      empty_ledger_row_def total_def of_account_def park_ledger_row_def signed_def available_def
      balance_account_def balance_key_def)

theorem MarkDriverPayoutPaid_pays_witness:
  "\<exists>a t. MarkDriverPayoutPaid 70 21 payout_world = (Inr a, t)
    \<and> books_of (db t) = post_payout a (books_of (db payout_world))
    \<and> \<not> list_ex (open_payout (db t) 70 21) (payouts (db t))"
proof -
  obtain a t where run: "MarkDriverPayoutPaid 70 21 payout_world = (Inr a, t)"
    using payout_world_pays by blast
  with MarkDriverPayoutPaid_pays [OF run payout_world_balanced] show ?thesis by blast
qed

end
