(* ===== verification/Order_Service.thy ===== *)
theory Order_Service
  imports Finance_Liveness Dispatch_Safety
begin

text \<open>
  \<^verbatim>\<open>internal/order/service.go\<close>: a status change of an order with everything that follows it, the
  event, the end of the dispatch after a cancellation, the settlement after a completion, the messages.
\<close>

section \<open>The texts of statuses and events\<close>

fun status_text :: "order_status \<Rightarrow> string" where
  "status_text OrderStatusCreated = ''created''"
| "status_text OrderStatusSearching = ''searching''"
| "status_text OrderStatusDriverAssigned = ''driver_assigned''"
| "status_text OrderStatusDriverArriving = ''driver_arriving''"
| "status_text OrderStatusDriverWaiting = ''driver_waiting''"
| "status_text OrderStatusInProgress = ''in_progress''"
| "status_text OrderStatusCompleted = ''completed''"
| "status_text OrderStatusCancelled = ''cancelled''"
| "status_text OrderStatusFailed = ''failed''"
| "status_text (OrderStatusOther s) = s"

fun event_text :: "order_event_type \<Rightarrow> string" where
  "event_text OrderEventCreated = ''order.created''"
| "event_text OrderEventSearching = ''order.searching''"
| "event_text OrderEventOffer = ''order.offer''"
| "event_text OrderEventAccepted = ''order.accepted''"
| "event_text OrderEventRejected = ''order.rejected''"
| "event_text OrderEventUpdated = ''order.updated''"
| "event_text OrderEventCancelled = ''order.cancelled''"
| "event_text OrderEventLocation = ''driver.location''"
| "event_text OrderEventArriving = ''driver.arriving''"
| "event_text OrderEventArrived = ''driver.arrived''"
| "event_text OrderEventTripStarted = ''trip.started''"
| "event_text OrderEventCompleted = ''trip.completed''"
| "event_text OrderEventFailed = ''trip.failed''"

definition PUuidOption :: "uuid option \<Rightarrow> payload_value" where
  "PUuidOption x = (case x of None \<Rightarrow> PNull | Some v \<Rightarrow> PUuid v)"

section \<open>The service\<close>

text \<open>A dependency that may be nil is an option or a flag.\<close>

record order_service =
  osv_dispatchController :: "dispatch_service option"
  osv_has_realtimePublisher :: bool
  osv_has_financeProcessor :: bool

record transition_command =
  cmd_OrderID :: uuid
  cmd_ToStatus :: order_status
  cmd_ActorUserID :: "uuid option"
  cmd_ActorDriverID :: "uuid option"
  cmd_Reason :: string

definition publishState :: "order_service \<Rightarrow> order \<Rightarrow> order_event_type \<Rightarrow> (world, unit) op" where
  "publishState service order eventType =
     (let payload = [(''order_id'', PUuid (ord_ID order)), (''status'', PStr (status_text (ord_Status order))),
            (''version'', PInt (ord_Version order)), (''driver_id'', PUuidOption (ord_DriverID order))]
      in if \<not> osv_has_realtimePublisher service then done_op
         else andthen (SendToPassenger (ord_PassengerID order) (event_text eventType) payload)
           (case ord_DriverID order of
              None \<Rightarrow> done_op
            | Some driverID \<Rightarrow> SendToDriver driverID (event_text eventType) payload))"

definition transition_event :: "transition_command \<Rightarrow> order_transition \<Rightarrow> order \<Rightarrow> order_event" where
  "transition_event command transition updatedOrder =
     \<lparr>oev_OrderID = ord_ID updatedOrder, oev_ActorUserID = cmd_ActorUserID command,
      oev_ActorDriverID = cmd_ActorDriverID command,
      oev_EventType = EventTypeForOrderStatus (cmd_ToStatus command),
      oev_Payload =
        [(''order_id'', PUuid (ord_ID updatedOrder)),
         (''from_status'', PStr (status_text (tr_FromStatus transition))),
         (''to_status'', PStr (status_text (tr_ToStatus transition))),
         (''version'', PInt (ord_Version updatedOrder)), (''reason'', PStr (cmd_Reason command)),
         (''occurred_at'', PTime (tr_OccurredAt transition))],
      oev_CreatedAt = 0\<rparr>"

text \<open>What follows a change that is stored and logged.\<close>

definition after_transition ::
  "order_service \<Rightarrow> transition_command \<Rightarrow> order \<Rightarrow> order_event \<Rightarrow> (world, order) op" where
  "after_transition service command updatedOrder event =
     andthen (case osv_dispatchController service of
         Some dispatch \<Rightarrow>
           if cmd_ToStatus command = OrderStatusCancelled then StopDispatch dispatch (ord_ID updatedOrder)
           else done_op
       | None \<Rightarrow> done_op)
     (andthen (if cmd_ToStatus command = OrderStatusCompleted \<and> osv_has_financeProcessor service
         then bind (SettleCompletedOrder (ord_ID updatedOrder)) (\<lambda>_. done_op) else done_op)
     (andthen (publishState service updatedOrder (oev_EventType event)) (ret updatedOrder)))"

definition Transition :: "order_service \<Rightarrow> transition_command \<Rightarrow> (world, order) op" where
  "Transition service command =
     bind (GetOrderByID (cmd_OrderID command)) (\<lambda>currentOrder.
     bind time_Now (\<lambda>now.
     bind (lift (NewOrderTransition now currentOrder (cmd_ToStatus command) (cmd_ActorUserID command)
       (cmd_ActorDriverID command) (cmd_Reason command) now)) (\<lambda>transition.
     bind (TransitionOrderStatus transition) (\<lambda>changed.
       case changed of
         None \<Rightarrow> fail [Service ErrOrderConcurrentUpdate]
       | Some updatedOrder \<Rightarrow>
           (let event = transition_event command transition updatedOrder
            in andthen (AddStateEvent event) (after_transition service command updatedOrder event))))))"

definition CurrentForPassenger :: "uuid \<Rightarrow> (world, order) op" where
  "CurrentForPassenger passengerID = GetCurrentOrderByPassengerID passengerID"

definition CurrentForDriver :: "uuid \<Rightarrow> (world, order) op" where
  "CurrentForDriver driverID = GetCurrentOrderByDriverID driverID"

section \<open>The settlement leaves the orders alone\<close>

lemma orders_set_ledger [simp]: "orders (set_ledger table rows d) = orders d"
  by (cases table) simp_all

lemma orders_finance_statements [simp]:
  "orders (snd (insert_transaction s t d)) = orders d"
  "orders (snd (insert_order_finance f d)) = orders d"
  "orders (snd (update_balances P n now d)) = orders d"
  "orders (snd (upsert_balance driver park m now d)) = orders d"
  "orders (snd (update_park_balance p n now d)) = orders d"
  "orders (snd (insert_ledger table row d)) = orders d"
  by (simp_all add: insert_transaction_def insert_order_finance_def update_balances_def
      upsert_balance_def update_park_balance_def insert_ledger_def)

abbreviation same_orders :: "order_row list \<Rightarrow> world \<Rightarrow> bool" where
  "same_orders v \<equiv> on_db (\<lambda>d. orders d = v)"

lemma keeps_same_orders:
  "(\<And>now d. orders (snd (f now d)) = orders d) \<Longrightarrow> keeps (same_orders v) (sql f)"
  by (rule keeps_sql) simp

lemma same_orders_keeps: "(\<And>v. keeps (same_orders v) m) \<Longrightarrow> keeps (on_db (\<lambda>d. P (orders d))) m"
  by (simp add: keeps_def)

lemma same_ordersD: "(\<And>v. keeps (same_orders v) m) \<Longrightarrow> m s = (r, t) \<Longrightarrow> orders (db t) = orders (db s)"
  by (simp add: keeps_def) (metis snd_conv)

lemma keeps_unless_duplicate:
  "keeps I m \<Longrightarrow> (\<And>a. keeps I (k a)) \<Longrightarrow> keeps I (unless_duplicate m k)"
  unfolding unless_duplicate_def by (intro keeps_intros)

lemma keeps_orders_ledger [keeps_intros]:
  "keeps (same_orders v) (write_ledger table st row a b)"
  unfolding write_ledger_def by (rule keeps_same_orders) (simp split: sum.splits)

lemma keeps_orders_order_finance [keeps_intros]:
  "keeps (same_orders v) (insertOrderFinance st s)"
  unfolding insertOrderFinance_def
  by (intro keeps_intros keeps_same_orders) (simp del: collect.simps split: prod.splits sum.splits)

lemma keeps_orders_credits [keeps_intros]:
  "keeps (same_orders v) (insertFinancialTransaction st s ty)"
  "keeps (same_orders v) (park_ledger_entry table ty' dir m st park s)"
  "keeps (same_orders v) (insertFinanceAudit i s ev)"
  unfolding insertFinancialTransaction_def park_ledger_entry_def nextLedgerBalance_def
    insertFinanceAudit_def Let_def
  by (intro keeps_intros keeps_same_orders; simp)+

lemma keeps_orders_accounts [keeps_intros]:
  "keeps (same_orders v) (credit_accounts st s)"
  unfolding credit_accounts_def settle_park_def insertTaxiParkBalanceLedger_def
    insertTaxiParkPlatformFeeLedger_def insertPlatformBalanceLedger_def insertDriverBalanceLedger_def
    driverParkBalanceInTransaction_def
  by (intro keeps_intros keeps_same_orders; simp)

lemma same_orders_settlement [keeps_intros]:
  "keeps (same_orders v) (SettleCompletedOrder orderID)"
  unfolding SettleCompletedOrder_def CreateOrderSettlement_def settle_in_transaction_def Let_def
    getCommittedOrderSettlement_def getOrderSettlementForUpdate_def GetOrderSnapshot_def
  by (intro keeps_intros keeps_db_transaction keeps_unless_duplicate)

lemma keeps_orders_settlement [keeps_intros]:
  "keeps (orders_since rows0) (SettleCompletedOrder orderID)"
  by (rule same_orders_keeps [OF same_orders_settlement])

lemma same_orders_AddStateEvent [keeps_intros]: "keeps (same_orders v) (AddStateEvent ev)"
  unfolding AddStateEvent_def insertOrderEvent_def Let_def
  by (intro keeps_intros keeps_same_orders) simp

section \<open>The order table\<close>

lemma publishState_keeps [keeps_intros]: "keeps (on_db P) (publishState service o1 ty)"
  unfolding publishState_def by (intro keeps_intros)

lemma after_transition_keeps [keeps_intros]:
  "keeps (orders_since rows0) (after_transition service command o1 ev)"
  unfolding after_transition_def by (intro keeps_intros)

text \<open>
  A status change requested from the order service, whatever fails on the way, leaves the order
  table consistent: every row stays well formed, every order evolves along the state machine with a
  growing version, no passenger and no driver gets a second active order.  The exception is a request
  for the status \<open>driver_assigned\<close>, which the service would store without a driver.
\<close>

theorem Transition_keeps_orders:
  assumes "cmd_ToStatus command \<noteq> OrderStatusDriverAssigned"
    and "list_all order_wf (orders (db s))" "orders_consistent (orders (db s))"
  shows "good_since (orders (db s)) (orders (db (snd (Transition service command s))))
    \<and> orders_consistent (orders (db (snd (Transition service command s))))"
proof -
  have "keeps (orders_since (orders (db s))) (Transition service command)"
    unfolding Transition_def Let_def
    by (rule keeps_bind, intro keeps_intros, rule keeps_bind, intro keeps_intros, rule keeps_bind_lift,
        intro keeps_intros) (use assms(1) in \<open>auto simp: plain_transition_def NewOrderTransition_Inr\<close>)
  from keepsD [OF this, of s] assms(2,3) show ?thesis by (simp add: good_since_refl)
qed

section \<open>Completion and settlement\<close>

lemma Transition_runs:
  assumes "Transition service command s = (Inr o1, t)"
  obtains currentOrder transition s1 s2 s3 where
    "GetOrderByID (cmd_OrderID command) s = (Inr currentOrder, s1)"
    "NewOrderTransition (clock s1) currentOrder (cmd_ToStatus command) (cmd_ActorUserID command)
       (cmd_ActorDriverID command) (cmd_Reason command) (clock s1) = Inr transition"
    "TransitionOrderStatus transition s1 = (Inr (Some o1), s2)"
    "AddStateEvent (transition_event command transition o1) s2 = (Inr (), s3)"
    "after_transition service command o1 (transition_event command transition o1) s3 = (Inr o1, t)"
proof -
  obtain currentOrder s1 transition changed s2 where
    run: "GetOrderByID (cmd_OrderID command) s = (Inr currentOrder, s1)"
    "NewOrderTransition (clock s1) currentOrder (cmd_ToStatus command) (cmd_ActorUserID command)
       (cmd_ActorDriverID command) (cmd_Reason command) (clock s1) = Inr transition"
    "TransitionOrderStatus transition s1 = (Inr changed, s2)"
    "(case changed of None \<Rightarrow> fail [Service ErrOrderConcurrentUpdate]
      | Some updatedOrder \<Rightarrow>
          let event = transition_event command transition updatedOrder
          in andthen (AddStateEvent event) (after_transition service command updatedOrder event)) s2
      = (Inr o1, t)"
    using assms unfolding Transition_def by (elim bind_Inr) (auto simp: Inr_simps)
  from run(4) obtain o2 s3 where o2: "changed = Some o2"
    "AddStateEvent (transition_event command transition o2) s2 = (Inr (), s3)"
    "after_transition service command o2 (transition_event command transition o2) s3 = (Inr o1, t)"
    by (cases changed) (auto simp: Inr_simps Let_def elim!: bind_Inr)
  have "o2 = o1"
    using o2(3) unfolding after_transition_def by (elim bind_Inr) (auto simp: Inr_simps)
  with run(1-3) o2 that show thesis by blast
qed

lemma after_completed:
  assumes "after_transition service command o1 ev s = (Inr o2, t)"
    and "cmd_ToStatus command = OrderStatusCompleted" "osv_has_financeProcessor service"
  obtains a u where "SettleCompletedOrder (ord_ID o1) s = (Inr a, u)"
    "publishState service o1 (oev_EventType ev) u = (Inr (), t)"
proof -
  have "(case osv_dispatchController service of
         Some dispatch \<Rightarrow>
           if cmd_ToStatus command = OrderStatusCancelled then StopDispatch dispatch (ord_ID o1)
           else done_op
       | None \<Rightarrow> done_op) = done_op"
    by (simp add: assms(2) split: option.split)
  with assms show thesis
    unfolding after_transition_def by (elim bind_Inr) (auto simp: Inr_simps intro: that elim!: bind_Inr)
qed

lemma books_balanced_orders [simp]:
  "books_balanced (d\<lparr>orders := rows\<rparr>) = books_balanced d"
  "books_balanced (d\<lparr>order_events := evs\<rparr>) = books_balanced d"
  "books_balanced (d\<lparr>drivers := drs\<rparr>) = books_balanced d"
  by (simp_all add: books_balanced_def accounts_ok_def driver_account_def park_account_def)

lemma keeps_books_events [keeps_intros]: "keeps (on_db books_balanced) (AddStateEvent ev)"
  unfolding AddStateEvent_def insertOrderEvent_def Let_def
  by (intro keeps_intros keeps_sql) (simp add: append_event_def)

lemma keeps_books_TransitionOrderStatus [keeps_intros]:
  "keeps (on_db books_balanced) (TransitionOrderStatus tr)"
proof -
  have "keeps (on_db books_balanced)
      (sql (update_orders_returning (transition_applies tr) (transitioned_row tr)))"
    by (rule keeps_sql) (simp add: update_orders_returning_def update_orders_def Let_def)
  then show ?thesis
    unfolding TransitionOrderStatus_def by (rule keeps_bind) (auto intro!: keeps_intros split: list.splits)
qed

lemma SettleCompletedOrder_settles:
  assumes "SettleCompletedOrder orderID s = (Inr a, t)" "books_balanced (db s)"
  shows "orderID \<in> bk_settled (books_of (db t))"
proof -
  have ok: "accounts_ok (db s)" using assms(2) by (simp add: books_balanced_def)
  from effectD [OF SettleCompletedOrder_effect assms(1)] ok obtain r sn now where
    r: "ord_ID r = orderID" and from_s: "settlement_from (snapshot_of (db s) r) now = Inr sn"
    and alt: "(\<exists>f \<in> set (order_finances (db s)). ofi_OrderID f = orderID \<and> a = settlement_of f \<and> db t = db s)
       \<or> (\<exists>i j. a = sn\<lparr>stl_CommissionTransactionID := i, stl_IncomeTransactionID := j\<rparr>
            \<and> settled_tables a (db s) (db t))"
    by metis
  have id: "stl_OrderID sn = orderID"
    using settlement_from_Inr(5) [OF from_s] r by (simp add: snapshot_of_def)
  from alt show ?thesis
  proof (elim disjE exE bexE conjE)
    fix i j
    assume st: "settled_tables a (db s) (db t)"
      and a: "a = sn\<lparr>stl_CommissionTransactionID := i, stl_IncomeTransactionID := j\<rparr>"
    show ?thesis using settled_tables_books [OF st] a id by (simp add: post_settlement_def)
  qed (auto simp: books_of_def)
qed

text \<open>
  C10: completing an order through the order service settles it: when the call succeeds, the order was
  under way or already completed, its row is completed and names the driver, the order is settled in
  the books, and the books balance.
\<close>

theorem Transition_completes_and_settles:
  assumes "Transition service command s = (Inr o1, t)"
    and "cmd_ToStatus command = OrderStatusCompleted" "osv_has_financeProcessor service"
    and "books_balanced (db s)" "orders_consistent (orders (db s))" "list_all order_wf (orders (db s))"
  shows "(\<exists>r \<in> set (orders (db s)). ord_ID r = cmd_OrderID command
            \<and> ord_Status r \<in> {OrderStatusInProgress, OrderStatusCompleted})
    \<and> (\<exists>r \<in> set (orders (db t)). ord_ID r = cmd_OrderID command
            \<and> ord_Status r = OrderStatusCompleted \<and> ord_DriverID r \<noteq> None)
    \<and> cmd_OrderID command \<in> bk_settled (books_of (db t)) \<and> books_balanced (db t)"
proof -
  obtain currentOrder transition s1 s2 s3 where
    run: "GetOrderByID (cmd_OrderID command) s = (Inr currentOrder, s1)"
    "NewOrderTransition (clock s1) currentOrder (cmd_ToStatus command) (cmd_ActorUserID command)
       (cmd_ActorDriverID command) (cmd_Reason command) (clock s1) = Inr transition"
    "TransitionOrderStatus transition s1 = (Inr (Some o1), s2)"
    "AddStateEvent (transition_event command transition o1) s2 = (Inr (), s3)"
    "after_transition service command o1 (transition_event command transition o1) s3 = (Inr o1, t)"
    by (rule Transition_runs [OF assms(1)])
  obtain row where row: "row \<in> set (orders (db s))" "ord_ID row = cmd_OrderID command"
    "scanDispatchOrder row = Inr currentOrder" "db s1 = db s"
    by (rule GetOrderByID_Inr [OF run(1)])
  note scanned = scanDispatchOrder_Inr [OF row(3)]
  have tr: "tr_OrderID transition = cmd_OrderID command" "tr_ToStatus transition = OrderStatusCompleted"
    "legal_change (ord_Status row) OrderStatusCompleted"
    using run(2) scanned row(2) assms(2) by (auto simp: NewOrderTransition_Inr)
  have start: "ord_Status row \<in> {OrderStatusInProgress, OrderStatusCompleted}"
    using tr(3) by (cases "ord_Status row") (auto simp: legal_change_iff)
  have cons: "orders_consistent (orders (db s1))" using assms(5) row(4) by simp
  obtain now where rep: "replaced (\<lambda>r r'. transition_applies transition r
       \<and> r' = (transitioned_row transition r)\<lparr>ord_UpdatedAt := now\<rparr> \<and> scanDispatchOrder r' = Inr o1)
       (orders (db s)) (orders (db s2))"
    by (rule TransitionOrderStatus_Some [OF run(3) cons, unfolded row(4)])
  obtain r where r: "r \<in> set (orders (db s))" "transition_applies transition r"
    "(transitioned_row transition r)\<lparr>ord_UpdatedAt := now\<rparr> \<in> set (orders (db s2))"
    "scanDispatchOrder ((transitioned_row transition r)\<lparr>ord_UpdatedAt := now\<rparr>) = Inr o1"
  proof (rule replacedE [OF rep])
    fix xs r ys r'
    assume rows: "orders (db s) = xs @ r # ys" "orders (db s2) = xs @ r' # ys"
      and change: "transition_applies transition r
       \<and> r' = (transitioned_row transition r)\<lparr>ord_UpdatedAt := now\<rparr> \<and> scanDispatchOrder r' = Inr o1"
    have a: "transition_applies transition r" and b: "scanDispatchOrder r' = Inr o1"
      and r': "r' = (transitioned_row transition r)\<lparr>ord_UpdatedAt := now\<rparr>"
      using change by blast+
    have "r \<in> set (orders (db s))" "r' \<in> set (orders (db s2))" using rows by simp_all
    from this(1) a this(2) b show thesis unfolding r' by (rule that)
  qed
  have ids: "ord_ID o1 = cmd_OrderID command"
    using scanDispatchOrder_Inr(1) [OF r(4)] r(2) tr(1) by (simp add: transition_applies_def)
  have driven: "ord_DriverID r \<noteq> None"
  proof -
    have "ord_ID r = ord_ID row" using r(2) tr(1) row(2) by (simp add: transition_applies_def)
    moreover have "distinct (map ord_ID (orders (db s)))"
      using assms(5) by (simp add: orders_consistent_def orders_unique_def)
    ultimately have "r = row" using r(1) row(1) by (auto simp: distinct_map inj_on_def)
    then show ?thesis using assms(6) row(1) start
      by (auto simp: list_all_iff order_wf_def driver_active_statuses_def)
  qed
  obtain a u where settle: "SettleCompletedOrder (ord_ID o1) s3 = (Inr a, u)"
    and pub: "publishState service o1 (oev_EventType (transition_event command transition o1)) u = (Inr (), t)"
    by (rule after_completed [OF run(5) assms(2,3)])
  have same: "db t = db u"
    using keepsD [OF publishState_keeps, of "\<lambda>d. d = db u" u service o1] pub by (metis snd_conv)
  have "books_balanced (db s2)"
    using keepsD [OF keeps_books_TransitionOrderStatus, of s1 transition] run(3) assms(4) row(4) by simp
  then have bal: "books_balanced (db s3)"
    using keepsD [OF keeps_books_events, of s2 "transition_event command transition o1"] run(4) by simp
  have "books_balanced (db t)"
    using keepsD [OF keeps_SettleCompletedOrder bal, of "ord_ID o1"] settle same by simp
  moreover have "cmd_OrderID command \<in> bk_settled (books_of (db t))"
    using SettleCompletedOrder_settles [OF settle bal] ids same by simp
  moreover have "orders (db t) = orders (db s2)"
    using same_ordersD [OF same_orders_settlement settle] same_ordersD [OF same_orders_AddStateEvent run(4)]
      same by simp
  moreover have "ord_ID r = cmd_OrderID command"
    using r(2) tr(1) by (simp add: transition_applies_def)
  ultimately show ?thesis
    using start row(1,2) r(3) tr(2) driven
    by (intro conjI bexI [of _ row] bexI [of _ "(transitioned_row transition r)\<lparr>ord_UpdatedAt := now\<rparr>"])
      simp_all
qed

text \<open>A trip in progress with its final price, completed by its driver.\<close>

definition trip_order :: order_row where
  "trip_order = completed_order\<lparr>ord_Status := OrderStatusInProgress, ord_FareMode := FareModeMetered\<rparr>"

definition trip_world :: world where
  "trip_world = world_at 5 (sample_db trip_order)"

definition sample_completion :: transition_command where
  "sample_completion = \<lparr>cmd_OrderID = 1, cmd_ToStatus = OrderStatusCompleted, cmd_ActorUserID = None,
     cmd_ActorDriverID = Some 3, cmd_Reason = []\<rparr>"

definition sample_order_service :: order_service where
  "sample_order_service = \<lparr>osv_dispatchController = None, osv_has_realtimePublisher = False,
     osv_has_financeProcessor = True\<rparr>"

lemma trip_world_consistent: "orders_consistent (orders (db trip_world))"
proof -
  have "order_checks trip_order" by code_simp
  then show ?thesis
    by (simp add: trip_world_def world_at_def sample_db_def orders_consistent_def orders_unique_def)
qed

lemma trip_world_wf: "list_all order_wf (orders (db trip_world))"
  by (simp add: trip_world_def world_at_def sample_db_def order_wf_def trip_order_def completed_order_def
      reserved_order_def sample_order_def)

lemma trip_world_balanced: "books_balanced (db trip_world)"
  using completed_world_balanced
  by (simp add: completed_world_def trip_world_def world_at_def sample_db_def books_balanced_def
      accounts_ok_def driver_account_def park_account_def)

lemma trip_settles:
  assumes "script w = []" "clock w = 5" "db w = (sample_db trip_order)
      \<lparr>orders := [(transitioned_row tr trip_order)\<lparr>ord_UpdatedAt := 5\<rparr>], order_events := evs\<rparr>"
    and "tr_ToStatus tr = OrderStatusCompleted"
  shows "wp (SettleCompletedOrder 1) (\<lambda>a t. script t = []) (\<lambda>_ _. False) w"
proof (rule SettleCompletedOrder_ok [OF assms(1)])
  show "settlement_from (snapshot_of (db w) ((transitioned_row tr trip_order)\<lparr>ord_UpdatedAt := 5\<rparr>)) (clock w)
      = Inr sample_settlement"
  proof -
    have "snapshot_of (db w) ((transitioned_row tr trip_order)\<lparr>ord_UpdatedAt := 5\<rparr>) =
        snapshot_of (db completed_world) completed_order"
      using assms(4)
      by (simp add: assms(3) snapshot_of_def transitioned_row_def trip_order_def completed_world_def
          world_at_def sample_db_def completed_order_def reserved_order_def sample_order_def
          active_settings_def park_commission_def order_park_def empty_db_def sample_park_def)
    moreover have "clock w = clock completed_world"
      by (simp add: assms(2) completed_world_def world_at_def)
    ultimately show ?thesis using completed_world_settlement by simp
  qed
  show "filter (\<lambda>r. ord_ID r = 1 \<and> ord_DeletedAt r = None) (orders (db w)) =
      [(transitioned_row tr trip_order)\<lparr>ord_UpdatedAt := 5\<rparr>]"
    by (simp add: assms(3) transitioned_row_def trip_order_def completed_order_def reserved_order_def sample_order_def)
  show "settleable (db w) sample_settlement"
    by (simp add: assms(3) settleable_def rouble_amounts_def room_def settlement_references_def
        park_exists_def fits_def sample_settlement_def sample_db_def empty_db_def roubles_def
        sample_driver_def sample_park_def transitioned_row_def trip_order_def completed_order_def
        reserved_order_def sample_order_def latest_or_zero_def latest_balance_def int64_max_def)
qed

lemma trip_world_completes:
  "\<exists>o1 t. Transition sample_order_service sample_completion trip_world = (Inr o1, t)"
proof -
  have w: "script trip_world = []" "clock trip_world = 5" "db trip_world = sample_db trip_order"
    "orders (sample_db trip_order) = [trip_order]"
    by (simp_all add: trip_world_def world_at_def sample_db_def)
  let ?tr = "\<lparr>tr_OrderID = 1, tr_FromStatus = OrderStatusInProgress, tr_ToStatus = OrderStatusCompleted,
      tr_ExpectedVersion = 1, tr_ActorUserID = None, tr_ActorDriverID = Some 3, tr_Reason = [],
      tr_OccurredAt = 5\<rparr>"
  let ?r = "(transitioned_row ?tr trip_order)\<lparr>ord_UpdatedAt := 5\<rparr>"
  have scan: "\<exists>o1. scanDispatchOrder r = Inr o1" if "ord_PickupLocation r = empty_coordinates"
    "ord_DestinationLocation r = None" for r
    using that by (simp add: scanDispatchOrder_def coordinates_of_def NewCoordinates_def empty_coordinates_def)
  have loc: "ord_PickupLocation trip_order = empty_coordinates" "ord_DestinationLocation trip_order = None"
    "ord_PickupLocation ?r = empty_coordinates" "ord_DestinationLocation ?r = None"
    by (simp_all add: transitioned_row_def trip_order_def completed_order_def reserved_order_def sample_order_def)
  obtain o1 where o1: "scanDispatchOrder trip_order = Inr o1" using scan loc by blast
  obtain o2 where o2: "scanDispatchOrder ?r = Inr o2" using scan loc by blast
  have f1: "ord_ID o1 = 1" "ord_Status o1 = OrderStatusInProgress" "ord_Version o1 = 1"
    using scanDispatchOrder_Inr [OF o1]
    by (simp_all add: trip_order_def completed_order_def reserved_order_def sample_order_def)
  have f2: "ord_ID o2 = 1"
    using scanDispatchOrder_Inr(1) [OF o2]
    by (simp add: trip_order_def completed_order_def reserved_order_def sample_order_def)
  have tr: "NewOrderTransition 5 o1 OrderStatusCompleted None (Some 3) [] 5 = Inr ?tr"
    using f1 by (simp add: NewOrderTransition_Inr legal_change_iff time_IsZero_def OrderStatus_Validate_def)
  have upd: "update_orders_returning (transition_applies ?tr) (transitioned_row ?tr) 5 (sample_db trip_order) =
      (Inr [?r], (sample_db trip_order)\<lparr>orders := [?r]\<rparr>)"
  proof -
    have "transition_applies ?tr trip_order" "order_checks ?r" by code_simp+
    then show ?thesis
      by (simp add: update_orders_returning_def update_orders_def updated_rows_def Let_def sql_update_def
          orders_unique_def w(4))
  qed
  have cmd: "cmd_OrderID sample_completion = 1" "cmd_ToStatus sample_completion = OrderStatusCompleted"
    "cmd_ActorUserID sample_completion = None" "cmd_ActorDriverID sample_completion = Some 3"
    "cmd_Reason sample_completion = []"
    by (simp_all add: sample_completion_def)
  have one: "ord_ID trip_order = 1" "ord_DeletedAt trip_order = None"
    by (simp_all add: trip_order_def completed_order_def reserved_order_def sample_order_def)
  have "wp (Transition sample_order_service sample_completion) (\<lambda>_ _. True) (\<lambda>_ _. False) trip_world"
    unfolding Transition_def GetOrderByID_def TransitionOrderStatus_def AddStateEvent_def
      insertOrderEvent_def Let_def cmd
    using one
    by (simp add: wp_bind wp_ok w wp_lift wp_time_Now wp_ret o1 tr cmd upd o2)
      (simp add: append_event_def after_transition_def sample_order_service_def cmd wp_bind wp_ret f2
        publishState_def, rule wp_conseq [OF trip_settles [where tr = ?tr]],
        simp_all add: w wp_bind wp_ret)
  then show ?thesis
    by (cases "Transition sample_order_service sample_completion trip_world")
      (auto simp: wp_def split: sum.splits)
qed

theorem Transition_completes_and_settles_witness:
  "\<exists>o1 t. Transition sample_order_service sample_completion trip_world = (Inr o1, t)
     \<and> 1 \<in> bk_settled (books_of (db t)) \<and> books_balanced (db t)
     \<and> (\<exists>r \<in> set (orders (db t)). ord_ID r = 1 \<and> ord_Status r = OrderStatusCompleted)"
proof -
  obtain o1 t where run: "Transition sample_order_service sample_completion trip_world = (Inr o1, t)"
    using trip_world_completes by blast
  have "cmd_ToStatus sample_completion = OrderStatusCompleted" "cmd_OrderID sample_completion = 1"
    "osv_has_financeProcessor sample_order_service"
    by (simp_all add: sample_completion_def sample_order_service_def)
  from Transition_completes_and_settles [OF run this(1,3) trip_world_balanced trip_world_consistent
      trip_world_wf] this(2) run show ?thesis by auto
qed

theorem Transition_keeps_orders_witness:
  "good_since (orders (db trip_world))
     (orders (db (snd (Transition sample_order_service sample_completion trip_world))))"
  using Transition_keeps_orders [OF _ trip_world_wf trip_world_consistent, of sample_completion
      sample_order_service]
  by (simp add: sample_completion_def)

end
