(* ===== verification/Scheduled.thy ===== *)
theory Scheduled
  imports Dispatch_Safety
begin

text \<open>
  Orders for a later time: \<^verbatim>\<open>internal/repository/scheduled_order_repository.go\<close>, the service
  \<^verbatim>\<open>internal/scheduled/service.go\<close> that activates the due orders and expires the late ones, and the
  rounds of its worker (\<^verbatim>\<open>worker.go\<close>).  A row of \<^verbatim>\<open>taxi_park_settings\<close> is kept together with the
  columns of the city of its park that every query joins to it.
\<close>

section \<open>The settings of a park\<close>

definition scanTaxiParkSettings :: "taxi_park_settings \<Rightarrow> error + taxi_park_settings" where
  "scanTaxiParkSettings row =
     (case coordinates_of (set_CityCenter row) of
        Inl e \<Rightarrow> Inl e
      | Inr coordinates \<Rightarrow>
          Inr (row\<lparr>set_MinimumOrderPrice := in_roubles (set_MinimumOrderPrice row),
                   set_CityCenter := coordinates\<rparr>))"

text \<open>The settings of the park whose identifier the metadata of the order holds.\<close>

definition settings_of_order :: "db \<Rightarrow> order_row \<Rightarrow> taxi_park_settings list" where
  "settings_of_order d r = filter (\<lambda>s. meta_taxi_park_id r = Some (set_TaxiParkID s)) (park_settings d)"

definition GetTaxiParkSettingsByOrderID :: "uuid \<Rightarrow> (world, taxi_park_settings) op" where
  "GetTaxiParkSettingsByOrderID orderID =
     bind (query (\<lambda>now d. one_row
        [s. r \<leftarrow> orders d, ord_ID r = orderID \<and> ord_DeletedAt r = None, s \<leftarrow> settings_of_order d r,
            list_ex (\<lambda>p. tp_ID p = set_TaxiParkID s) (taxi_parks d)]))
       (\<lambda>row. lift (scanTaxiParkSettings row))"

section \<open>Due orders\<close>

text \<open>A scheduled order that waits for its activation.\<close>

definition awaits_activation :: "order_row \<Rightarrow> bool" where
  "awaits_activation r \<longleftrightarrow> ord_OrderType r = OrderTypeScheduled
     \<and> ord_ScheduledStatus r \<in> {Some ScheduledOrderStatusConfirmed, Some ScheduledOrderStatusDriverAssigned}
     \<and> ord_DeletedAt r = None"

definition due :: "time \<Rightarrow> order_row \<Rightarrow> bool" where
  "due now r \<longleftrightarrow> awaits_activation r
     \<and> (case ord_ActivationAt r of None \<Rightarrow> False | Some t \<Rightarrow> t \<le> now)"

definition ListDueOrderIDs :: "int \<Rightarrow> (world, uuid list) op" where
  "ListDueOrderIDs limit =
     query (\<lambda>now d. Inr (map ord_ID (take (nat (if limit \<le> 0 then 100 else limit))
       (sort_key (\<lambda>r. the (ord_ActivationAt r)) (filter (due now) (orders d))))))"

definition activated_row :: "time \<Rightarrow> order_row \<Rightarrow> order_row" where
  "activated_row now r =
     r\<lparr>ord_ScheduledStatus := Some ScheduledOrderStatusActivated,
       ord_ActivatedAt := Some now,
       ord_Status := (if ord_PreassignedDriverID r = None then OrderStatusCreated
                      else OrderStatusDriverAssigned),
       ord_DriverID := (case ord_DriverID r of None \<Rightarrow> ord_PreassignedDriverID r | Some x \<Rightarrow> Some x),
       ord_AcceptedAt := (if ord_PreassignedDriverID r = None then ord_AcceptedAt r
                          else (case ord_AcceptedAt r of None \<Rightarrow> Some now | Some t \<Rightarrow> Some t)),
       ord_Version := ord_Version r + 1\<rparr>"

text \<open>\<open>None\<close> is the answer \<^verbatim>\<open>(Order{}, false, nil)\<close>.\<close>

definition ActivateOrder :: "uuid \<Rightarrow> (world, order option) op" where
  "ActivateOrder orderID =
     bind (sql (\<lambda>now. update_orders_returning (\<lambda>r. ord_ID r = orderID \<and> due now r) (activated_row now) now))
       (\<lambda>rows. case rows of
          [] \<Rightarrow> ret None
        | row # _ \<Rightarrow> bind (lift (scanDispatchOrder row)) (\<lambda>o1. ret (Some o1)))"

section \<open>Late orders\<close>

definition late :: "time \<Rightarrow> db \<Rightarrow> order_row \<Rightarrow> bool" where
  "late now d r \<longleftrightarrow> awaits_activation r
     \<and> (case ord_ScheduledAt r of
          None \<Rightarrow> False
        | Some scheduledAt \<Rightarrow> list_ex (\<lambda>s. scheduledAt + minutes (set_ScheduledExpireAfterMinutes s) \<le> now)
                       (settings_of_order d r))"

definition late_candidates :: "time \<Rightarrow> db \<Rightarrow> int \<Rightarrow> uuid list" where
  "late_candidates now d limit =
     map ord_ID (take (nat (if limit \<le> 0 then 100 else limit))
       (sort_key (\<lambda>r. the (ord_ScheduledAt r)) (filter (late now d) (orders d))))"

definition expired_row :: "time \<Rightarrow> order_row \<Rightarrow> order_row" where
  "expired_row now r =
     r\<lparr>ord_ScheduledStatus := Some ScheduledOrderStatusExpired, ord_ScheduledExpiredAt := Some now,
       ord_Version := ord_Version r + 1\<rparr>"

text \<open>
  The statement returns 36 columns and \<^verbatim>\<open>scanDispatchOrder\<close> reads a row of 52, so the scan of
  the first returned row is an error; the statement has been executed by then.
\<close>

definition scan_expired_rows :: "order_row list \<Rightarrow> error + order list" where
  "scan_expired_rows rows =
     (case rows of
        [] \<Rightarrow> Inr []
      | _ # _ \<Rightarrow> Inl [Msg ''number of field descriptions must equal number of destinations''])"

definition ExpirePendingOrders_repository :: "int \<Rightarrow> (world, order list) op" where
  "ExpirePendingOrders_repository limit =
     bind (sql (\<lambda>now d. update_orders_returning (\<lambda>r. ord_ID r \<in> set (late_candidates now d limit))
        (expired_row now) now d))
       (\<lambda>rows. lift (scan_expired_rows rows))"

section \<open>The service\<close>

record scheduled_service =
  ssv_dispatchController :: dispatch_service
  ssv_has_realtimeGateway :: bool
  ssv_BatchSize :: int

definition NewScheduledService :: "dispatch_service \<Rightarrow> bool \<Rightarrow> int \<Rightarrow> scheduled_service" where
  "NewScheduledService dispatchController has_gateway batchSize =
     \<lparr>ssv_dispatchController = dispatchController, ssv_has_realtimeGateway = has_gateway,
      ssv_BatchSize = (if batchSize \<le> 0 then 100 else batchSize)\<rparr>"

definition dispatchConfigFromTaxiParkSettings :: "taxi_park_settings \<Rightarrow> dispatch_config" where
  "dispatchConfigFromTaxiParkSettings settings =
     \<lparr>InitialRadiusMeters = set_DispatchInitialRadiusMeters settings,
      MaxRadiusMeters = set_DispatchMaxRadiusMeters settings,
      RadiusStepMeters = set_DispatchRadiusStepMeters settings,
      RadiusAttemptsMeters = set_DispatchRadiusAttemptsMeters settings,
      MaxDriversPerOffer = set_DispatchMaxDriversPerOffer settings,
      DriverLocationMaxAge = seconds (set_DispatchDriverLocationMaxAgeSec settings),
      OfferTTL = seconds (set_DispatchOfferTTLSec settings),
      AcceptLockTTL = seconds (set_DispatchAcceptLockTTLSec settings),
      WorkerPollTimeout = seconds (set_DispatchWorkerPollTimeoutSec settings),
      RecoveryInterval = seconds (set_DispatchRecoveryIntervalSec settings),
      ConfirmationTTL = 0\<rparr>"

fun scheduled_status_text :: "scheduled_order_status \<Rightarrow> string" where
  "scheduled_status_text ScheduledOrderStatusNew = ''scheduled_new''"
| "scheduled_status_text ScheduledOrderStatusConfirmed = ''scheduled_confirmed''"
| "scheduled_status_text ScheduledOrderStatusDriverAssigned = ''scheduled_driver_assigned''"
| "scheduled_status_text ScheduledOrderStatusWaitingActivation = ''scheduled_waiting_activation''"
| "scheduled_status_text ScheduledOrderStatusActivated = ''scheduled_activated''"
| "scheduled_status_text ScheduledOrderStatusCancelled = ''scheduled_cancelled''"
| "scheduled_status_text ScheduledOrderStatusExpired = ''scheduled_expired''"
| "scheduled_status_text ScheduledOrderStatusFailed = ''scheduled_failed''"
| "scheduled_status_text (ScheduledOrderStatusOther s) = s"

definition scheduled_payload :: "order \<Rightarrow> payload" where
  "scheduled_payload o1 =
     [(''order_id'', PUuid (ord_ID o1)),
      (''scheduled_status'', case ord_ScheduledStatus o1 of
          None \<Rightarrow> PNull | Some st \<Rightarrow> PStr (scheduled_status_text st)),
      (''scheduled_at'', case ord_ScheduledAt o1 of None \<Rightarrow> PNull | Some t \<Rightarrow> PTime t),
      (''activation_at'', case ord_ActivationAt o1 of None \<Rightarrow> PNull | Some t \<Rightarrow> PTime t),
      (''pickup_address'', PStr (ord_PickupAddress o1)),
      (''destination_address'', PStr (ord_DestinationAddress o1)),
      (''driver_id'', case ord_PreassignedDriverID o1 of None \<Rightarrow> PNull | Some i \<Rightarrow> PUuid i),
      (''passenger_id'', PUuid (ord_PassengerID o1)),
      (''comment'', PStr (ord_PassengerComment o1))]"

definition publishScheduledEvent :: "scheduled_service \<Rightarrow> order \<Rightarrow> string \<Rightarrow> (world, unit) op" where
  "publishScheduledEvent service o1 eventName =
     (if \<not> ssv_has_realtimeGateway service then done_op
      else
        andthen (SendToPassenger (ord_PassengerID o1) eventName (scheduled_payload o1))
        (andthen (SendToTaxiParkByOrder (ord_ID o1) eventName (scheduled_payload o1))
        (case ord_PreassignedDriverID o1 of
           None \<Rightarrow> done_op
         | Some driverID \<Rightarrow> SendToDriver driverID eventName (scheduled_payload o1))))"

text \<open>One pass of the loop: an error ends the loop, an order that is no longer due is skipped.\<close>

definition activate_due_order :: "scheduled_service \<Rightarrow> uuid \<Rightarrow> (world, unit) op" where
  "activate_due_order service orderID =
     bind (ActivateOrder orderID) (\<lambda>changed.
       case changed of
         None \<Rightarrow> done_op
       | Some o1 \<Rightarrow>
           andthen (if ord_PreassignedDriverID o1 = None
              then bind (GetTaxiParkSettingsByOrderID (ord_ID o1)) (\<lambda>settings.
                EnqueueOrderWithConfig (ssv_dispatchController service) (ord_ID o1)
                  (dispatchConfigFromTaxiParkSettings settings))
              else done_op)
             (publishScheduledEvent service o1 ''scheduled_order_activated''))"

definition ActivateDueOrders :: "scheduled_service \<Rightarrow> (world, unit) op" where
  "ActivateDueOrders service =
     bind (ListDueOrderIDs (ssv_BatchSize service))
       (\<lambda>orderIDs. for_each orderIDs (activate_due_order service))"

definition ExpirePendingOrders :: "scheduled_service \<Rightarrow> (world, unit) op" where
  "ExpirePendingOrders service =
     bind (ExpirePendingOrders_repository (ssv_BatchSize service))
       (\<lambda>expired. for_each expired (\<lambda>o1. publishScheduledEvent service o1 ''scheduled_order_expired''))"

text \<open>One round of the worker: the errors are logged.  The worker runs a round at every tick.\<close>

definition scheduled_round :: "scheduled_service \<Rightarrow> (world, unit) op" where
  "scheduled_round service =
     catching (ActivateDueOrders service) (\<lambda>_.
       catching (ExpirePendingOrders service) (\<lambda>_. done_op))"

primrec scheduled_worker_Run :: "nat \<Rightarrow> bool \<Rightarrow> scheduled_service \<Rightarrow> (world, unit) op" where
  "scheduled_worker_Run 0 enabled service = done_op"
| "scheduled_worker_Run (Suc n) enabled service =
     (if \<not> enabled then done_op
      else andthen (scheduled_round service) (scheduled_worker_Run n enabled service))"

section \<open>The order table\<close>

lemma activated_row_good:
  assumes "order_wf r" "due now r"
  shows "order_wf (activated_row now r) \<and> order_evolves r (activated_row now r)"
  using assms
  by (auto simp: order_wf_def order_evolves_def activated_row_def due_def awaits_activation_def
      driving_statuses_def driver_active_statuses_def split: option.splits)

lemma expired_row_good:
  assumes "order_wf r"
  shows "order_wf (expired_row now r) \<and> order_evolves r (expired_row now r)"
  using assms by (simp add: order_wf_def order_evolves_def expired_row_def)

lemma scheduled_queries_keep [keeps_intros]:
  "keeps (on_db P) (GetTaxiParkSettingsByOrderID i)" "keeps (on_db P) (ListDueOrderIDs n)"
  "keeps (on_db P) (publishScheduledEvent service o1 ev)"
  unfolding GetTaxiParkSettingsByOrderID_def ListDueOrderIDs_def publishScheduledEvent_def
  by (intro keeps_intros)+

lemma ActivateOrder_keeps [keeps_intros]: "keeps (orders_since rows0) (ActivateOrder orderID)"
  unfolding ActivateOrder_def
  by (intro keeps_intros keeps_update_orders activated_row_good)
     (auto intro!: keeps_intros split: list.splits)

lemma ExpirePendingOrders_repository_keeps [keeps_intros]:
  "keeps (orders_since rows0) (ExpirePendingOrders_repository limit)"
  unfolding ExpirePendingOrders_repository_def
  by (intro keeps_intros keeps_update_orders expired_row_good)

lemma scheduled_service_keeps [keeps_intros]:
  "keeps (orders_since rows0) (activate_due_order service orderID)"
  "keeps (orders_since rows0) (ActivateDueOrders service)"
  "keeps (orders_since rows0) (ExpirePendingOrders service)"
  "keeps (orders_since rows0) (scheduled_round service)"
  unfolding activate_due_order_def ActivateDueOrders_def ExpirePendingOrders_def scheduled_round_def
  by (intro keeps_intros)+

lemma scheduled_worker_keeps [keeps_intros]:
  "keeps (orders_since rows0) (scheduled_worker_Run n enabled service)"
  by (induction n) (auto intro!: keeps_intros)

section \<open>Properties\<close>


text \<open>
  An order is activated at most once: while the table stays as an activation left it, at whatever
  later time, the order is not listed as due and a second activation is reported as not done.  (So an
  order whose enqueueing fails after its activation is not tried again.)
\<close>

theorem ActivateOrder_once:
  assumes "orders_consistent (orders (db s))" "ActivateOrder orderID s = (Inr (Some o1), t)"
    and "orders (db u) = orders (db t)"
  shows "fst (ActivateOrder orderID u) \<noteq> Inr (Some o2)
    \<and> (\<forall>ids v. ListDueOrderIDs limit u = (Inr ids, v) \<longrightarrow> orderID \<notin> set ids)"
proof -
  let ?P = "\<lambda>now r. ord_ID r = orderID \<and> due now r"
  obtain now where c: "orders_consistent (orders (db t))" and rep: "replaced (\<lambda>r r'. ?P now r
       \<and> r' = (activated_row now r)\<lparr>ord_UpdatedAt := now\<rparr> \<and> scanDispatchOrder r' = Inr o1)
       (orders (db s)) (orders (db t))"
    by (rule update_returning_Some [where P = ?P and f = activated_row,
          OF assms(2) [unfolded ActivateOrder_def] assms(1)]) auto
  from rep obtain q where q: "q \<in> set (orders (db u))" "ord_ID q = orderID"
    "ord_ScheduledStatus q = Some ScheduledOrderStatusActivated"
  proof (rule replacedE)
    fix xs r ys r'
    assume "orders (db t) = xs @ r' # ys" "?P now r
       \<and> r' = (activated_row now r)\<lparr>ord_UpdatedAt := now\<rparr> \<and> scanDispatchOrder r' = Inr o1"
    then show thesis by (intro that [of r']) (simp_all add: assms(3) activated_row_def)
  qed
  have "distinct (map ord_ID (orders (db u)))"
    using c assms(3) by (simp add: orders_consistent_def orders_unique_def)
  then have only: "\<not> due now' r" if "r \<in> set (orders (db u))" "ord_ID r = orderID" for r now'
    using q that by (auto simp: distinct_map inj_on_def due_def awaits_activation_def)
  have "fst (ActivateOrder orderID u) \<noteq> Inr (Some o2)"
  proof
    assume "fst (ActivateOrder orderID u) = Inr (Some o2)"
    then obtain v where v: "ActivateOrder orderID u = (Inr (Some o2), v)" by (metis prod.collapse)
    obtain now' where "replaced (\<lambda>r r'. ?P now' r
       \<and> r' = (activated_row now' r)\<lparr>ord_UpdatedAt := now'\<rparr> \<and> scanDispatchOrder r' = Inr o2)
       (orders (db u)) (orders (db v))"
      by (rule update_returning_Some [where P = ?P and f = activated_row,
            OF v [unfolded ActivateOrder_def]]) (use c assms(3) in auto)
    then show False by (rule replacedE) (use only in auto)
  qed
  moreover have "orderID \<notin> set ids" if "ListDueOrderIDs limit u = (Inr ids, v)" for ids v
    using that only unfolding ListDueOrderIDs_def
    by (elim query_Inr) (auto dest!: in_set_takeD)
  ultimately show ?thesis by blast
qed

text \<open>Updates that keep what the constraints look at.\<close>

lemma orders_consistent_sql_update:
  assumes "orders_consistent rows"
    and "\<And>r. ord_ID (f r) = ord_ID r \<and> ord_DriverID (f r) = ord_DriverID r
      \<and> ord_PassengerID (f r) = ord_PassengerID r \<and> ord_Status (f r) = ord_Status r
      \<and> ord_DeletedAt (f r) = ord_DeletedAt r \<and> order_checks (f r) = order_checks r"
  shows "orders_consistent (sql_update P f rows)"
proof -
  have s: "serving (f r) = serving r" "current_of_passenger (f r) = current_of_passenger r" for r
    using assms(2) [of r] by (simp_all add: serving_def current_of_passenger_def)
  have "map ord_DriverID (filter serving (sql_update P f rows)) = map ord_DriverID (filter serving rows)"
    "map ord_PassengerID (filter current_of_passenger (sql_update P f rows)) =
      map ord_PassengerID (filter current_of_passenger rows)"
    "map ord_ID (sql_update P f rows) = map ord_ID rows"
    "list_all order_checks (sql_update P f rows) = list_all order_checks rows"
    by (induction rows) (auto simp: sql_update_def s assms(2))
  then show ?thesis using assms(1) by (simp add: orders_consistent_def orders_unique_def)
qed


lemma second_serving:
  assumes "q \<in> set xs \<union> set ys" "serving q" "serving r" "ord_DriverID r = ord_DriverID q"
  shows "\<not> orders_unique (xs @ r # ys)"
proof -
  have "ord_DriverID r \<in> ord_DriverID ` {x \<in> set xs. serving x} \<union> ord_DriverID ` {x \<in> set ys. serving x}"
    using assms by auto
  then show ?thesis using assms(3) by (auto simp: orders_unique_def simp del: Un_iff)
qed

text \<open>
  A busy driver holds up every due order.  If the first due order has a preassigned driver who is
  still serving another order, its activation violates the uniqueness of the driver's active order;
  the error ends the round, and nothing at all is activated, however many orders are due behind it.
\<close>

theorem ActivateDueOrders_blocked:
  assumes "script s = []" "orders_consistent (orders (db s))" "0 < ssv_BatchSize service"
    and first: "sort_key (\<lambda>r. the (ord_ActivationAt r)) (filter (due (clock s)) (orders (db s))) = r # rest"
    and driver: "ord_PreassignedDriverID r = Some driverID" "ord_DriverID r = None"
    and busy: "q \<in> set (orders (db s))" "serving q" "ord_DriverID q = Some driverID"
  shows "ActivateDueOrders service s = (Inl [Infra ErrUniqueViolation], s)"
proof -
  let ?P = "\<lambda>x. ord_ID x = ord_ID r \<and> due (clock s) x"
  let ?f = "\<lambda>x. (activated_row (clock s) x)\<lparr>ord_UpdatedAt := clock s\<rparr>"
  have "r \<in> set (sort_key (\<lambda>r. the (ord_ActivationAt r)) (filter (due (clock s)) (orders (db s))))"
    unfolding first by simp
  then have r: "r \<in> set (orders (db s))" "due (clock s) r" by simp_all
  obtain xs ys where xs: "orders (db s) = xs @ r # ys" "sql_update ?P ?f (orders (db s)) = xs @ ?f r # ys"
    using sql_update_one [of ord_ID "orders (db s)" ?P "ord_ID r" r ?f] assms(2) r
    by (auto simp: orders_consistent_def orders_unique_def)
  have "q \<noteq> r" using driver busy by auto
  then have q: "q \<in> set xs \<union> set ys" using busy(1) xs(1) by auto
  have "serving (?f r)" "ord_DriverID (?f r) = Some driverID"
    using driver r(2)
    by (simp_all add: serving_def activated_row_def driver_active_statuses_def due_def awaits_activation_def)
  then have "\<not> orders_unique (xs @ ?f r # ys)"
    using busy(2,3) by (intro second_serving [OF q]) simp_all
  moreover have "list_all order_checks (xs @ ?f r # ys)"
  proof -
    have "order_checks (?f r) = order_checks r" by (simp add: order_checks_def activated_row_def)
    then show ?thesis using assms(2) unfolding orders_consistent_def xs(1) by simp
  qed
  ultimately have upd: "update_orders ?P (activated_row (clock s)) (clock s) (db s) =
      (Inl [Infra ErrUniqueViolation], db s)"
    by (simp add: update_orders_def Let_def xs(2))
  obtain n where n: "nat (ssv_BatchSize service) = Suc n" using assms(3) by (cases "nat (ssv_BatchSize service)") auto
  have "ActivateOrder (ord_ID r) s = (Inl [Infra ErrUniqueViolation], s)"
    by (simp add: ActivateOrder_def bind_def sql_ok assms(1) update_orders_returning_def upd)
  then show ?thesis
    using assms(3)
    by (simp add: ActivateDueOrders_def ListDueOrderIDs_def bind_def query_ok assms(1) first n
        activate_due_order_def)
qed

section \<open>Witnesses\<close>

text \<open>Passenger 2 has booked a trip for second 60; it is due at second 4 and late a minute after second 60.\<close>

definition booked_order :: order_row where
  "booked_order = sample_order\<lparr>ord_Status := OrderStatusCreated, ord_OrderType := OrderTypeScheduled,
     ord_ScheduledStatus := Some ScheduledOrderStatusConfirmed, ord_ScheduledAt := Some (seconds 60),
     ord_ActivationAt := Some (seconds 4), meta_taxi_park_id := Some 7\<rparr>"

definition booked_world :: "time \<Rightarrow> world" where
  "booked_world t = world_at t (sample_db booked_order)"

lemma booked_world_simps [simp]:
  "script (booked_world t) = []" "clock (booked_world t) = t"
  "orders (db (booked_world t)) = [booked_order]"
  by (simp_all add: booked_world_def world_at_def sample_db_def)

lemma booked_world_consistent: "orders_consistent [booked_order]"
proof -
  have "order_checks booked_order" by code_simp
  then show ?thesis by (simp add: orders_consistent_def orders_unique_def)
qed

lemma booked_world_activates:
  "\<exists>o1 t. ActivateOrder 1 (booked_world (seconds 5)) = (Inr (Some o1), t)"
proof -
  let ?r = "(activated_row (seconds 5) booked_order)\<lparr>ord_UpdatedAt := seconds 5\<rparr>"
  have o: "due (seconds 5) booked_order" "order_checks ?r" "ord_ID booked_order = 1" by code_simp+
  have "\<exists>o1. scanDispatchOrder ?r = Inr o1"
    by (simp add: scanDispatchOrder_def coordinates_of_def activated_row_def booked_order_def
        sample_order_def NewCoordinates_def empty_coordinates_def)
  with o show ?thesis
    by (auto simp: ActivateOrder_def bind_def sql_ok update_orders_returning_def update_orders_def
        updated_rows_def Let_def sql_update_def orders_unique_def lift_def ret_def)
qed


theorem ActivateOrder_once_witness:
  "\<exists>o1 t. ActivateOrder 1 (booked_world (seconds 5)) = (Inr (Some o1), t)
     \<and> fst (ActivateOrder 1 t) \<noteq> Inr (Some o1)"
proof -
  obtain o1 t where run: "ActivateOrder 1 (booked_world (seconds 5)) = (Inr (Some o1), t)"
    using booked_world_activates by blast
  have c: "orders_consistent (orders (db (booked_world (seconds 5))))"
    using booked_world_consistent by simp
  from ActivateOrder_once [OF c run refl, of o1] run show ?thesis by blast
qed

text \<open>An hour later the order is late for every deadline of the park's settings below an hour.\<close>

definition sample_settings :: taxi_park_settings where
  "sample_settings =
     \<lparr>set_ID = 77, set_TaxiParkID = 7, set_CityID = 5, set_CityName = '''', set_CityRegion = '''',
      set_CityCountryCode = ''RU'', set_CityTimezone = ''UTC'', set_CityCenter = empty_coordinates,
      set_DisplayName = ''Park'', set_ShortName = '''', set_SupportPhone = '''', set_SupportEmail = '''',
      set_LegalName = '''', set_LegalAddress = '''', set_INN = '''', set_OGRN = '''', set_Website = '''',
      set_LogoURL = '''', set_PrimaryColor = '''', set_SecondaryColor = '''',
      set_CommissionBasisPoints = None, set_MinimumOrderPrice = sample_money 0,
      set_CancellationTimeoutSec = 60, set_DriverArrivalTimeoutSec = 60, set_AllowCashPayment = True,
      set_AllowCardPayment = True, set_AllowTransferPayment = True,
      set_DispatchInitialRadiusMeters = 1000, set_DispatchMaxRadiusMeters = 5000,
      set_DispatchRadiusStepMeters = 1000, set_DispatchRadiusAttemptsMeters = [],
      set_DispatchMaxDriversPerOffer = 3, set_DispatchDriverLocationMaxAgeSec = 60,
      set_DispatchOfferTTLSec = 20, set_DispatchAcceptLockTTLSec = 10,
      set_DispatchWorkerPollTimeoutSec = 5, set_DispatchRecoveryIntervalSec = 30,
      set_ScheduledOrdersEnabled = True, set_ScheduledMinBeforeMinutes = 30,
      set_ScheduledActivationBeforeMinutes = 15, set_ScheduledExpireAfterMinutes = 15,
      set_AllowScheduledDriverPreassignment = True, set_IsActive = True, set_CreatedAt = 1,
      set_UpdatedAt = 1\<rparr>"

definition sample_scheduled_service :: "scheduled_service" where
  "sample_scheduled_service = NewScheduledService
     (NewService False False (dispatchConfigFromTaxiParkSettings sample_settings)) True 0"

definition late_world :: world where
  "late_world = world_at (hours 1) ((sample_db booked_order)\<lparr>park_settings := [sample_settings]\<rparr>)"


text \<open>Driver 3 is on a trip (order 2) when the order that is preassigned to him falls due.\<close>

definition preassigned_order :: order_row where
  "preassigned_order = booked_order\<lparr>ord_PreassignedDriverID := Some 3\<rparr>"

definition other_trip :: order_row where
  "other_trip = reserved_order\<lparr>ord_ID := 2, ord_PassengerID := 4, ord_Status := OrderStatusInProgress,
     ord_PriceConfirmationState := ''confirmed'', ord_AgreedPriceCents := Some 29018\<rparr>"

definition blocked_world :: world where
  "blocked_world = world_at (seconds 5) ((sample_db booked_order)\<lparr>orders := [preassigned_order, other_trip]\<rparr>)"

theorem ActivateDueOrders_blocked_witness:
  "ActivateDueOrders sample_scheduled_service blocked_world = (Inl [Infra ErrUniqueViolation], blocked_world)"
proof (rule ActivateDueOrders_blocked [where r = preassigned_order and rest = "[]" and q = other_trip
      and driverID = 3])
  have o: "due (seconds 5) preassigned_order" "\<not> due (seconds 5) other_trip"
    "order_checks preassigned_order" "order_checks other_trip" "serving other_trip"
    "ord_ID preassigned_order = 1" "ord_ID other_trip = 2" "ord_PassengerID preassigned_order = 2"
    "ord_PassengerID other_trip = 4" "ord_DriverID preassigned_order = None"
    by code_simp+
  have w: "orders (db blocked_world) = [preassigned_order, other_trip]" "clock blocked_world = seconds 5"
    by (simp_all add: blocked_world_def world_at_def)
  show "script blocked_world = []" by (simp add: blocked_world_def world_at_def)
  show "0 < ssv_BatchSize sample_scheduled_service"
    by (simp add: sample_scheduled_service_def NewScheduledService_def)
  show "orders_consistent (orders (db blocked_world))"
    using o by (simp add: w orders_consistent_def orders_unique_def serving_def)
  show "sort_key (\<lambda>r. the (ord_ActivationAt r)) (filter (due (clock blocked_world)) (orders (db blocked_world))) =
      [preassigned_order]"
    using o by (simp add: w)
  show "ord_PreassignedDriverID preassigned_order = Some 3" by (simp add: preassigned_order_def)
  show "ord_DriverID preassigned_order = None" "serving other_trip" by (rule o)+
  show "other_trip \<in> set (orders (db blocked_world))" by (simp add: w)
  show "ord_DriverID other_trip = Some 3" by (simp add: other_trip_def reserved_order_def)
qed

end
