(* ===== verification/Invite_Store.thy ===== *)
theory Invite_Store
  imports Finance_Store
begin

text \<open>
  The statements behind the invitations of drivers to taxi parks,
  \<^verbatim>\<open>internal/repository/driver_park_invite_repository.go\<close>, with the constraints of migration 40.
  The names that an invitation carries are no columns: every read joins them, so a stored row has
  them empty.  The table \<^verbatim>\<open>car_driver_assignments\<close> is the list of attached drivers of each car.
\<close>

section \<open>What the service sees\<close>

record invite_driver =
  idr_ID :: uuid
  idr_UserID :: uuid
  idr_ParkID :: "uuid option"
  idr_Name :: string
  idr_Status :: driver_status

record invite_park =
  ipk_ID :: uuid
  ipk_CityID :: uuid
  ipk_Name :: string
  ipk_Active :: bool

text \<open>\<^verbatim>\<open>inviteQueryError\<close>: no row is an unknown invitation.\<close>

definition inviteQueryError :: "error \<Rightarrow> error" where
  "inviteQueryError err =
     (if errors_Is err (Infra ErrNoRows) then [Domain ErrParkInviteNotFound] else err)"

definition invite_query :: "(time \<Rightarrow> db \<Rightarrow> 'a list) \<Rightarrow> (world, 'a) op" where
  "invite_query rows =
     catching (query (\<lambda>now d. one_row (rows now d)))
       (\<lambda>r. case r of Inl e \<Rightarrow> fail (inviteQueryError e) | Inr a \<Rightarrow> ret a)"

section \<open>Parks\<close>

definition works_for :: "db \<Rightarrow> user \<Rightarrow> taxi_park_row \<Rightarrow> bool" where
  "works_for d u tp \<longleftrightarrow>
     (tp_OwnerUserID tp = usr_ID u \<and> usr_Role u = UserRoleTaxiPark)
     \<or> list_ex (\<lambda>st. stf_TaxiParkID st = tp_ID tp \<and> stf_UserID st = usr_ID u \<and> stf_IsActive st
          \<and> stf_DeletedAt st = None \<and> stf_Role st \<in> {UserRoleDispatcher, UserRoleTaxiPark}
          \<and> usr_Role u \<in> {UserRoleDispatcher, UserRoleTaxiPark}) (taxi_park_staff d)"

definition actor_parks :: "db \<Rightarrow> uuid \<Rightarrow> uuid list" where
  "actor_parks d actor = sort_key id
     [tp_ID tp. tp \<leftarrow> taxi_parks d, u \<leftarrow> users d,
        usr_ID u = actor \<and> usr_IsActive u \<and> usr_DeletedAt u = None
        \<and> tp_DeletedAt tp = None \<and> works_for d u tp]"

definition park_settings_of :: "db \<Rightarrow> uuid \<Rightarrow> bool option" where
  "park_settings_of d parkID =
     map_option set_IsActive (find (\<lambda>s. set_TaxiParkID s = parkID) (park_settings d))"

definition invite_Park :: "uuid \<Rightarrow> (world, invite_park) op" where
  "invite_Park i =
     bind (invite_query (\<lambda>now d.
        [\<lparr>ipk_ID = tp_ID tp, ipk_CityID = tp_CityID tp, ipk_Name = tp_Name tp,
          ipk_Active = (tp_DeletedAt tp = None
             \<and> (case park_settings_of d (tp_ID tp) of None \<Rightarrow> True | Some b \<Rightarrow> b))\<rparr>.
         tp \<leftarrow> taxi_parks d, tp_ID tp = i])) (\<lambda>park.
     bind (query (\<lambda>now d. Inr (park_settings_of d i))) (\<lambda>active.
       ret (case active of None \<Rightarrow> park | Some b \<Rightarrow> park\<lparr>ipk_Active := ipk_Active park \<and> b\<rparr>)))"

definition ActorPark :: "uuid \<Rightarrow> (world, invite_park) op" where
  "ActorPark actor =
     bind (catching (query (\<lambda>now d. one_row (actor_parks d actor)))
        (\<lambda>r. case r of
           Inl e \<Rightarrow> if errors_Is e (Infra ErrNoRows) then fail [Domain ErrParkInviteForbidden] else fail e
         | Inr i \<Rightarrow> ret i))
       invite_Park"

section \<open>Drivers\<close>

definition sql_trim :: "string \<Rightarrow> string" where
  "sql_trim s = rev (dropWhile (\<lambda>c. c = CHR '' '') (rev (dropWhile (\<lambda>c. c = CHR '' '') s)))"

definition full_name :: "user \<Rightarrow> string" where
  "full_name u = sql_trim (usr_FirstName u @ '' '' @ usr_LastName u)"

definition joined_driver :: "driver \<Rightarrow> user \<Rightarrow> invite_driver" where
  "joined_driver dr u =
     \<lparr>idr_ID = drv_ID dr, idr_UserID = drv_UserID dr, idr_ParkID = drv_TaxiParkID dr,
      idr_Name = full_name u, idr_Status = drv_Status dr\<rparr>"

definition LockDriver :: "uuid \<Rightarrow> string \<Rightarrow> (world, invite_driver) op" where
  "LockDriver userID phone = invite_query (\<lambda>now d.
     [joined_driver dr u. dr \<leftarrow> drivers d, u \<leftarrow> users d,
        usr_ID u = drv_UserID dr \<and> (usr_ID u = userID \<or> (phone \<noteq> [] \<and> usr_Phone u = phone))
        \<and> usr_Role u = UserRoleDriver \<and> usr_IsActive u \<and> usr_DeletedAt u = None
        \<and> drv_DeletedAt dr = None])"

definition LockInviteDriver :: "uuid \<Rightarrow> (world, invite_driver) op" where
  "LockInviteDriver i = invite_query (\<lambda>now d.
     [joined_driver dr u. dr \<leftarrow> drivers d, u \<leftarrow> users d,
        usr_ID u = drv_UserID dr \<and> drv_DeletedAt dr = None
        \<and> list_ex (\<lambda>invite. inv_ID invite = i \<and> inv_DriverID invite = drv_ID dr) (invites d)])"

section \<open>Invitations\<close>

definition park_name :: "db \<Rightarrow> uuid option \<Rightarrow> string" where
  "park_name d parkID =
     (case parkID of
        None \<Rightarrow> []
      | Some p \<Rightarrow> (case find (\<lambda>tp. tp_ID tp = p) (taxi_parks d) of None \<Rightarrow> [] | Some tp \<Rightarrow> tp_Name tp))"

text \<open>The joins of \<^verbatim>\<open>inviteSelect\<close>, with the user the driver belongs to.\<close>

definition invite_select :: "db \<Rightarrow> (driver_park_invite \<times> driver \<times> user) list" where
  "invite_select d =
     [(invite\<lparr>inv_FromTaxiParkName := park_name d (inv_FromTaxiParkID invite),
           inv_ToTaxiParkName := tp_Name target, inv_DriverName := full_name u\<rparr>, dr, u).
      invite \<leftarrow> invites d, dr \<leftarrow> drivers d, u \<leftarrow> users d, target \<leftarrow> taxi_parks d,
      drv_ID dr = inv_DriverID invite \<and> usr_ID u = drv_UserID dr \<and> tp_ID target = inv_ToTaxiParkID invite]"

definition selected_invites :: "db \<Rightarrow> driver_park_invite list" where
  "selected_invites d = map fst (invite_select d)"

definition invite_Invite :: "uuid \<Rightarrow> (world, driver_park_invite) op" where
  "invite_Invite i = invite_query (\<lambda>now d. filter (\<lambda>invite. inv_ID invite = i) (selected_invites d))"

definition invite_Pending :: "uuid \<Rightarrow> uuid \<Rightarrow> (world, driver_park_invite option) op" where
  "invite_Pending driver park =
     catching (invite_query (\<lambda>now d. filter (\<lambda>invite. inv_DriverID invite = driver
        \<and> inv_ToTaxiParkID invite = park \<and> inv_Status invite = DriverParkInvitePending) (selected_invites d)))
       (\<lambda>r. case r of
          Inl e \<Rightarrow> if errors_Is e (Domain ErrParkInviteNotFound) then ret None else fail e
        | Inr invite \<Rightarrow> ret (Some invite))"

text \<open>The constraints: the checks of a row, the keys of the table, the references.\<close>

definition invite_checks :: "driver_park_invite \<Rightarrow> bool" where
  "invite_checks invite \<longleftrightarrow>
     inv_Status invite \<in> {DriverParkInvitePending, DriverParkInviteAccepted, DriverParkInviteDeclined,
       DriverParkInviteCancelled, DriverParkInviteExpired}
     \<and> inv_CreatedAt invite < inv_ExpiresAt invite \<and> inv_FromTaxiParkID invite \<noteq> Some (inv_ToTaxiParkID invite)"

definition pending_invite :: "driver_park_invite \<Rightarrow> bool" where
  "pending_invite invite \<longleftrightarrow> inv_Status invite = DriverParkInvitePending"

definition invites_unique :: "driver_park_invite list \<Rightarrow> bool" where
  "invites_unique rows \<longleftrightarrow> distinct (map inv_ID rows)
     \<and> distinct (map (\<lambda>invite. (inv_DriverID invite, inv_ToTaxiParkID invite)) (filter pending_invite rows))"

definition invite_references :: "db \<Rightarrow> driver_park_invite \<Rightarrow> bool" where
  "invite_references d invite \<longleftrightarrow>
     list_ex (\<lambda>dr. drv_ID dr = inv_DriverID invite) (drivers d)
     \<and> list_ex (\<lambda>tp. tp_ID tp = inv_ToTaxiParkID invite) (taxi_parks d)
     \<and> (case inv_FromTaxiParkID invite of None \<Rightarrow> True | Some p \<Rightarrow> list_ex (\<lambda>tp. tp_ID tp = p) (taxi_parks d))
     \<and> list_ex (\<lambda>u. usr_ID u = inv_CreatedByUserID invite) (users d)"

definition write_invites :: "driver_park_invite list \<Rightarrow> db \<Rightarrow> (error + unit) \<times> db" where
  "write_invites rows d =
     (if \<not> list_all invite_checks rows then (Inl [Infra ErrCheckViolation], d)
      else if \<not> invites_unique rows then (Inl [Infra ErrUniqueViolation], d)
      else if \<not> list_all (invite_references d) rows then (Inl [Infra ErrForeignKeyViolation], d)
      else (Inr (), d\<lparr>invites := rows\<rparr>))"

definition stored_invite :: "driver_park_invite \<Rightarrow> driver_park_invite" where
  "stored_invite invite =
     invite\<lparr>inv_FromTaxiParkName := [], inv_ToTaxiParkName := [], inv_DriverName := [],
         inv_AcceptedAt := None, inv_DeclinedAt := None, inv_CancelledAt := None,
         inv_CancellationReason := []\<rparr>"

definition invite_Insert :: "driver_park_invite \<Rightarrow> (world, unit) op" where
  "invite_Insert invite = sql (\<lambda>now d. write_invites (invites d @ [stored_invite invite]) d)"

definition saved_row :: "driver_park_invite \<Rightarrow> driver_park_invite \<Rightarrow> driver_park_invite" where
  "saved_row invite row =
     row\<lparr>inv_Status := inv_Status invite, inv_AcceptedAt := inv_AcceptedAt invite,
         inv_DeclinedAt := inv_DeclinedAt invite, inv_CancelledAt := inv_CancelledAt invite,
         inv_CancellationReason := inv_CancellationReason invite\<rparr>"

definition invite_Save :: "driver_park_invite \<Rightarrow> (world, unit) op" where
  "invite_Save invite = sql (\<lambda>now d.
     write_invites (sql_update (\<lambda>r. inv_ID r = inv_ID invite) (saved_row invite) (invites d)) d)"

definition invite_Expire :: "uuid \<Rightarrow> time \<Rightarrow> (world, unit) op" where
  "invite_Expire driver at_time = sql (\<lambda>now d.
     write_invites (sql_update
       (\<lambda>r. inv_DriverID r = driver \<and> pending_invite r \<and> inv_ExpiresAt r \<le> at_time)
       (\<lambda>r. r\<lparr>inv_Status := DriverParkInviteExpired\<rparr>) (invites d)) d)"

definition superseded_row :: "time \<Rightarrow> driver_park_invite \<Rightarrow> driver_park_invite" where
  "superseded_row at_time r =
     r\<lparr>inv_Status := (if inv_ExpiresAt r \<le> at_time then DriverParkInviteExpired else DriverParkInviteCancelled),
       inv_CancelledAt := (if inv_ExpiresAt r > at_time then Some at_time else None),
       inv_CancellationReason := ''driver_transferred_to_another_park''\<rparr>"

definition CancelOtherPending :: "uuid \<Rightarrow> uuid \<Rightarrow> time \<Rightarrow> (world, unit) op" where
  "CancelOtherPending driver i at_time = sql (\<lambda>now d.
     write_invites (sql_update (\<lambda>r. inv_DriverID r = driver \<and> inv_ID r \<noteq> i \<and> pending_invite r)
       (superseded_row at_time) (invites d)) d)"

section \<open>The transfer of a driver\<close>

text \<open>An order that is not over names the driver, as its driver or as the preassigned one.\<close>

definition has_orders :: "db \<Rightarrow> uuid \<Rightarrow> bool" where
  "has_orders d driver \<longleftrightarrow>
     list_ex (\<lambda>r. (ord_DriverID r = Some driver \<or> ord_PreassignedDriverID r = Some driver)
       \<and> ord_Status r \<notin> {OrderStatusCompleted, OrderStatusCancelled, OrderStatusFailed}
       \<and> ord_DeletedAt r = None) (orders d)"

definition HasOrders :: "uuid \<Rightarrow> (world, bool) op" where
  "HasOrders driver = query (\<lambda>now d. Inr (has_orders d driver))"

definition open_stay :: "uuid \<Rightarrow> park_history_row \<Rightarrow> bool" where
  "open_stay driver h \<longleftrightarrow> dph_DriverID h = driver \<and> dph_LeftAt h = None"

definition history_unique :: "park_history_row list \<Rightarrow> bool" where
  "history_unique rows \<longleftrightarrow> distinct (map dph_DriverID (filter (\<lambda>h. dph_LeftAt h = None) rows))"

definition history_checks :: "park_history_row \<Rightarrow> bool" where
  "history_checks h \<longleftrightarrow> (case dph_LeftAt h of None \<Rightarrow> True | Some left \<Rightarrow> dph_JoinedAt h \<le> left)"

definition history_references :: "db \<Rightarrow> park_history_row \<Rightarrow> bool" where
  "history_references d h \<longleftrightarrow>
     list_ex (\<lambda>dr. drv_ID dr = dph_DriverID h) (drivers d)
     \<and> list_ex (\<lambda>tp. tp_ID tp = dph_TaxiParkID h) (taxi_parks d)
     \<and> (case dph_TransferInviteID h of None \<Rightarrow> True | Some i \<Rightarrow> list_ex (\<lambda>v. inv_ID v = i) (invites d))"

definition write_history :: "park_history_row list \<Rightarrow> db \<Rightarrow> (error + unit) \<times> db" where
  "write_history rows d =
     (if \<not> list_all history_checks rows then (Inl [Infra ErrCheckViolation], d)
      else if \<not> history_unique rows then (Inl [Infra ErrUniqueViolation], d)
      else if \<not> list_all (history_references d) rows then (Inl [Infra ErrForeignKeyViolation], d)
      else (Inr (), d\<lparr>park_history := rows\<rparr>))"

definition first_stay :: "db \<Rightarrow> uuid \<Rightarrow> park_history_row list" where
  "first_stay d driver =
     (if list_ex (open_stay driver) (park_history d) then []
      else concat (map (\<lambda>dr. case drv_TaxiParkID dr of
             None \<Rightarrow> []
           | Some p \<Rightarrow> [\<lparr>dph_DriverID = driver, dph_TaxiParkID = p, dph_JoinedAt = drv_CreatedAt dr,
                        dph_LeftAt = None, dph_TransferInviteID = None\<rparr>])
         (filter (\<lambda>dr. drv_ID dr = driver) (drivers d))))"

definition transferred_driver :: "invite_park \<Rightarrow> driver \<Rightarrow> driver" where
  "transferred_driver park dr =
     dr\<lparr>drv_TaxiParkID := Some (ipk_ID park), drv_CityID := ipk_CityID park,
        drv_Status := DriverStatusOffline, drv_CommissionBasisPoints := None,
        drv_TaxiParkComment := [], drv_VerificationCheckedBy := None,
        drv_VerificationCheckedAt := None, drv_VerificationStatus := ComplianceStatusPendingVerification,
        drv_IsVerified := False\<rparr>"

definition detach_car :: "uuid \<Rightarrow> car \<Rightarrow> car" where
  "detach_car driver c = c\<lparr>car_AttachedDriverIDs := removeAll driver (car_AttachedDriverIDs c)\<rparr>"

definition release_car :: "time \<Rightarrow> car \<Rightarrow> car" where
  "release_car now c = c\<lparr>car_PrimaryDriverID := None, car_UpdatedAt := now\<rparr>"

definition zero_balance :: "uuid \<Rightarrow> uuid \<Rightarrow> time \<Rightarrow> driver_balance_row" where
  "zero_balance driver park now =
     \<lparr>bal_DriverID = driver, bal_AvailableBalance = \<lparr>Amount = 0, Currency = ''RUB''\<rparr>,
      bal_PendingBalance = \<lparr>Amount = 0, Currency = ''RUB''\<rparr>, bal_UpdatedAt = now,
      bal_TaxiParkID = Some park, bal_version = 1\<rparr>"

text \<open>The seven statements in their order.\<close>

definition Transfer ::
  "invite_driver \<Rightarrow> invite_park \<Rightarrow> driver_park_invite \<Rightarrow> time \<Rightarrow> (world, unit) op" where
  "Transfer driver park invite at_time =
     andthen (sql (\<lambda>now d. write_history (park_history d @ first_stay d (idr_ID driver)) d))
     (andthen (sql (\<lambda>now d. write_history
         (sql_update (open_stay (idr_ID driver)) (\<lambda>h. h\<lparr>dph_LeftAt := Some at_time\<rparr>) (park_history d)) d))
     (andthen (sql (\<lambda>now d. (Inr (), d\<lparr>cars := map (detach_car (idr_ID driver)) (cars d)\<rparr>)))
     (andthen (sql (\<lambda>now d. (Inr (), d\<lparr>cars := sql_update
         (\<lambda>c. car_PrimaryDriverID c = Some (idr_ID driver)) (release_car now) (cars d)\<rparr>)))
     (bind (sql (update_drivers (\<lambda>dr. drv_ID dr = idr_ID driver) (transferred_driver park))) (\<lambda>_.
      andthen (sql (\<lambda>now d. write_history (park_history d @
         [\<lparr>dph_DriverID = idr_ID driver, dph_TaxiParkID = ipk_ID park, dph_JoinedAt = at_time,
           dph_LeftAt = None, dph_TransferInviteID = Some (inv_ID invite)\<rparr>]) d))
      (sql (\<lambda>now d. (Inr (),
         if list_ex (balance_key (idr_ID driver) (Some (ipk_ID park))) (driver_balances d) then d
         else d\<lparr>driver_balances := driver_balances d @ [zero_balance (idr_ID driver) (ipk_ID park) now]\<rparr>))))))))"

text \<open>The payload column of the audit row is the invitation as JSON; it is not kept.\<close>

definition invite_Audit :: "uuid \<Rightarrow> string \<Rightarrow> driver_park_invite \<Rightarrow> (world, unit) op" where
  "invite_Audit actor event invite = sql (\<lambda>now d. (Inr (), d\<lparr>finance_audit := finance_audit d @
     [\<lparr>fae_TransactionID = None, fae_OrderID = None, fae_ActorUserID = Some actor, fae_EventType = event\<rparr>]\<rparr>))"

section \<open>Lists\<close>

definition newest_first :: "driver_park_invite list \<Rightarrow> driver_park_invite list" where
  "newest_first = sort_key (\<lambda>invite. - inv_CreatedAt invite)"

definition List_repository :: "uuid \<Rightarrow> bool \<Rightarrow> (world, driver_park_invite list) op" where
  "List_repository actor park =
     db_transaction (bind
       (if park
        then bind (ActorPark actor) (\<lambda>target. query (\<lambda>now d. Inr (take 200 (newest_first
               (filter (\<lambda>invite. inv_ToTaxiParkID invite = ipk_ID target) (selected_invites d))))))
        else query (\<lambda>now d. Inr (take 200 (newest_first (map fst (filter
               (\<lambda>(invite, dr, u). usr_ID u = actor \<and> usr_IsActive u \<and> usr_DeletedAt u = None
                  \<and> drv_DeletedAt dr = None) (invite_select d)))))))
       (\<lambda>rows. ret (True, rows)))"

end
