(* ===== verification/Driver_Invite.thy ===== *)
theory Driver_Invite
  imports Invite_Store Finance_Books Dispatch_Safety
begin

text \<open>
  Invitations by which a driver changes the taxi park: \<^verbatim>\<open>internal/driverinvite/service.go\<close>, and the
  messages that follow a change (\<^verbatim>\<open>internal/push/driver_invite.go\<close>).  The service is written against
  the interface \<^verbatim>\<open>Transaction\<close>, a record of operations here; the repository of \<open>Invite_Store\<close> is
  one such record.
\<close>

section \<open>The interface\<close>

record invite_transaction =
  tx_ActorPark :: "uuid \<Rightarrow> (world, invite_park) op"
  tx_Park :: "uuid \<Rightarrow> (world, invite_park) op"
  tx_LockDriver :: "uuid \<Rightarrow> string \<Rightarrow> (world, invite_driver) op"
  tx_LockInviteDriver :: "uuid \<Rightarrow> (world, invite_driver) op"
  tx_Invite :: "uuid \<Rightarrow> (world, driver_park_invite) op"
  tx_Pending :: "uuid \<Rightarrow> uuid \<Rightarrow> (world, driver_park_invite option) op"
  tx_Insert :: "driver_park_invite \<Rightarrow> (world, unit) op"
  tx_Save :: "driver_park_invite \<Rightarrow> (world, unit) op"
  tx_Expire :: "uuid \<Rightarrow> time \<Rightarrow> (world, unit) op"
  tx_HasOrders :: "uuid \<Rightarrow> (world, bool) op"
  tx_Transfer :: "invite_driver \<Rightarrow> invite_park \<Rightarrow> driver_park_invite \<Rightarrow> time \<Rightarrow> (world, unit) op"
  tx_CancelOtherPending :: "uuid \<Rightarrow> uuid \<Rightarrow> time \<Rightarrow> (world, unit) op"
  tx_Audit :: "uuid \<Rightarrow> string \<Rightarrow> driver_park_invite \<Rightarrow> (world, unit) op"

definition postgres_invites :: invite_transaction where
  "postgres_invites =
     \<lparr>tx_ActorPark = ActorPark, tx_Park = invite_Park, tx_LockDriver = LockDriver,
      tx_LockInviteDriver = LockInviteDriver, tx_Invite = invite_Invite, tx_Pending = invite_Pending,
      tx_Insert = invite_Insert, tx_Save = invite_Save, tx_Expire = invite_Expire,
      tx_HasOrders = HasOrders, tx_Transfer = Transfer,
      tx_CancelOtherPending = CancelOtherPending, tx_Audit = invite_Audit\<rparr>"

text \<open>\<open>None\<close>: no notifier; the flag says whether push notifications are enabled.\<close>

record invite_service =
  isv_ttl :: duration
  isv_notifier :: "bool option"

section \<open>Messages\<close>

fun invite_status_text :: "driver_park_invite_status \<Rightarrow> string" where
  "invite_status_text DriverParkInvitePending = ''pending''"
| "invite_status_text DriverParkInviteAccepted = ''accepted''"
| "invite_status_text DriverParkInviteDeclined = ''declined''"
| "invite_status_text DriverParkInviteCancelled = ''cancelled''"
| "invite_status_text DriverParkInviteExpired = ''expired''"
| "invite_status_text (DriverParkInviteOther s) = s"

definition ListDriverPushTokens :: "uuid \<Rightarrow> (world, string list) op" where
  "ListDriverPushTokens driver = query (\<lambda>now d. Inr
     [pt_Token t. t \<leftarrow> driver_push_tokens d, dr \<leftarrow> drivers d,
        drv_UserID dr = pt_UserID t \<and> drv_ID dr = driver])"

definition ListParkInviteRecipients :: "uuid \<Rightarrow> (world, uuid list) op" where
  "ListParkInviteRecipients park = query (\<lambda>now d. Inr (remdups
     ([tp_OwnerUserID p. p \<leftarrow> taxi_parks d, u \<leftarrow> users d,
         usr_ID u = tp_OwnerUserID p \<and> tp_ID p = park \<and> usr_IsActive u \<and> usr_DeletedAt u = None]
      @ [stf_UserID st. st \<leftarrow> taxi_park_staff d, u \<leftarrow> users d,
           usr_ID u = stf_UserID st \<and> stf_TaxiParkID st = park \<and> stf_IsActive st
           \<and> stf_DeletedAt st = None \<and> usr_IsActive u \<and> usr_DeletedAt u = None])))"

text \<open>A call whose error is collected.\<close>

definition attempt :: "(world, unit) op \<Rightarrow> (world, error list) op" where
  "attempt m = catching m (\<lambda>r. ret (case r of Inl e \<Rightarrow> [e] | Inr u \<Rightarrow> []))"

primrec attempt_each :: "'a list \<Rightarrow> ('a \<Rightarrow> (world, error list) op) \<Rightarrow> (world, error list) op" where
  "attempt_each [] body = ret []"
| "attempt_each (x # xs) body =
     bind (body x) (\<lambda>f. bind (attempt_each xs body) (\<lambda>g. ret (f @ g)))"

text \<open>\<^verbatim>\<open>omitempty\<close> leaves an absent member out.\<close>

definition optional_time :: "string \<Rightarrow> time option \<Rightarrow> payload" where
  "optional_time name value = (case value of None \<Rightarrow> [] | Some t \<Rightarrow> [(name, PTime t)])"

definition invite_payload :: "driver_park_invite \<Rightarrow> payload" where
  "invite_payload invite =
     [(''id'', PUuid (inv_ID invite)), (''driver_id'', PUuid (inv_DriverID invite)),
      (''from_taxi_park_id'', case inv_FromTaxiParkID invite of None \<Rightarrow> PNull | Some p \<Rightarrow> PUuid p),
      (''to_taxi_park_id'', PUuid (inv_ToTaxiParkID invite)),
      (''to_taxi_park_name'', PStr (inv_ToTaxiParkName invite)),
      (''driver_name'', PStr (inv_DriverName invite)),
      (''status'', PStr (invite_status_text (inv_Status invite))),
      (''created_by_user_id'', PUuid (inv_CreatedByUserID invite)),
      (''created_at'', PTime (inv_CreatedAt invite)), (''expires_at'', PTime (inv_ExpiresAt invite))]
     @ (if inv_FromTaxiParkName invite = [] then []
        else [(''from_taxi_park_name'', PStr (inv_FromTaxiParkName invite))])
     @ optional_time ''accepted_at'' (inv_AcceptedAt invite)
     @ optional_time ''declined_at'' (inv_DeclinedAt invite)
     @ optional_time ''cancelled_at'' (inv_CancelledAt invite)
     @ (if inv_CancellationReason invite = [] then []
        else [(''cancellation_reason'', PStr (inv_CancellationReason invite))])"

text \<open>What a park gets to see; the sentence for the screen is left out.\<close>

definition park_payload :: "driver_park_invite \<Rightarrow> payload" where
  "park_payload invite =
     [(''invite_id'', PUuid (inv_ID invite)), (''driver_id'', PUuid (inv_DriverID invite)),
      (''driver_name'', PStr (inv_DriverName invite)),
      (''status'', PStr (invite_status_text (inv_Status invite)))]"

text \<open>The keys of \<^verbatim>\<open>parkMessages\<close>; Go visits them in any order.\<close>

definition notified_parks :: "driver_park_invite \<Rightarrow> uuid list" where
  "notified_parks invite = remdups (inv_ToTaxiParkID invite #
     (if inv_Status invite = DriverParkInviteAccepted
      then case inv_FromTaxiParkID invite of None \<Rightarrow> [] | Some p \<Rightarrow> [p] else []))"

definition Notify :: "bool \<Rightarrow> driver_park_invite \<Rightarrow> string \<Rightarrow> (world, unit) op" where
  "Notify push invite event =
     bind (attempt (SendToDriver (inv_DriverID invite) event (invite_payload invite))) (\<lambda>f.
     bind (if event = ''driver.park_invite.created'' \<and> push
           then attempt (bind (ListDriverPushTokens (inv_DriverID invite)) (\<lambda>tokens.
                  if tokens \<noteq> [] then external done_op else done_op))
           else ret []) (\<lambda>g.
     bind (if inv_Status invite \<noteq> DriverParkInvitePending
           then attempt_each (notified_parks invite) (\<lambda>park.
              catching (ListParkInviteRecipients park) (\<lambda>r. case r of
                  Inl e \<Rightarrow> ret [e]
                | Inr recipients \<Rightarrow> attempt_each recipients (\<lambda>recipient.
                    attempt (SendToUser recipient event (park_payload invite)))))
           else ret []) (\<lambda>h.
     if f @ g @ h = [] then done_op else fail (concat (f @ g @ h)))))"

definition notify :: "invite_service \<Rightarrow> driver_park_invite \<Rightarrow> string \<Rightarrow> (world, unit) op" where
  "notify service invite event =
     (case isv_notifier service of
        None \<Rightarrow> done_op
      | Some push \<Rightarrow> catching (Notify push invite event) (\<lambda>_. done_op))"

section \<open>The service\<close>

definition new_invite ::
  "uuid \<Rightarrow> invite_driver \<Rightarrow> invite_park \<Rightarrow> uuid \<Rightarrow> time \<Rightarrow> duration \<Rightarrow> string \<Rightarrow> driver_park_invite" where
  "new_invite i driver park actor now ttl previousName =
     \<lparr>inv_ID = i, inv_DriverID = idr_ID driver, inv_FromTaxiParkID = idr_ParkID driver,
      inv_ToTaxiParkID = ipk_ID park, inv_FromTaxiParkName = previousName,
      inv_ToTaxiParkName = ipk_Name park, inv_DriverName = idr_Name driver,
      inv_Status = DriverParkInvitePending, inv_CreatedByUserID = actor, inv_CreatedAt = now,
      inv_ExpiresAt = now + ttl, inv_AcceptedAt = None, inv_DeclinedAt = None,
      inv_CancelledAt = None, inv_CancellationReason = []\<rparr>"

definition create_in_transaction ::
  "invite_transaction \<Rightarrow> invite_service \<Rightarrow> uuid \<Rightarrow> string \<Rightarrow> (world, driver_park_invite \<times> bool) op" where
  "create_in_transaction tx service actor phone =
     bind (tx_ActorPark tx actor) (\<lambda>park.
     if \<not> ipk_Active park then fail [Domain ErrParkInviteInactivePark]
     else bind (tx_LockDriver tx uuid_Nil phone) (\<lambda>driver.
     if idr_ParkID driver = Some (ipk_ID park) then fail [Domain ErrParkInviteSamePark]
     else bind time_Now (\<lambda>now.
     andthen (tx_Expire tx (idr_ID driver) now)
     (bind (tx_Pending tx (idr_ID driver) (ipk_ID park)) (\<lambda>existing.
     case existing of
       Some invite \<Rightarrow> ret (invite, False)
     | None \<Rightarrow>
         bind uuid_New (\<lambda>i.
         bind (case idr_ParkID driver of
                 None \<Rightarrow> ret []
               | Some p \<Rightarrow> bind (tx_Park tx p) (\<lambda>previous. ret (ipk_Name previous))) (\<lambda>previousName.
         let result = new_invite i driver park actor now (isv_ttl service) previousName
         in andthen (tx_Insert tx result)
            (andthen (tx_Audit tx actor ''driver_park_invite.created'' result) (ret (result, True))))))))))"

definition Create ::
  "invite_transaction \<Rightarrow> invite_service \<Rightarrow> uuid \<Rightarrow> string \<Rightarrow> (world, driver_park_invite) op" where
  "Create tx service actor rawPhone =
     bind (lift (NormalizePhone rawPhone)) (\<lambda>phone.
     if isv_ttl service \<le> 0 then fail [Msg ''invite lifetime must be positive'']
     else bind (db_transaction (bind (create_in_transaction tx service actor phone) (\<lambda>r. ret (True, r))))
       (\<lambda>(result, created).
         andthen (if created then notify service result ''driver.park_invite.created'' else done_op)
           (ret result)))"

text \<open>A pending invitation whose time is over is shown as expired; a park does not see the other park.\<close>

definition listed_invite :: "bool \<Rightarrow> time \<Rightarrow> driver_park_invite \<Rightarrow> driver_park_invite" where
  "listed_invite park now invite =
     (let shown = (if inv_Status invite = DriverParkInvitePending \<and> \<not> now < inv_ExpiresAt invite
                   then invite\<lparr>inv_Status := DriverParkInviteExpired\<rparr> else invite)
      in if park then shown\<lparr>inv_FromTaxiParkID := None, inv_FromTaxiParkName := []\<rparr> else shown)"

definition List_invites :: "uuid \<Rightarrow> bool \<Rightarrow> (world, driver_park_invite list) op" where
  "List_invites actor park =
     bind (List_repository actor park) (\<lambda>rows. bind time_Now (\<lambda>now. ret (map (listed_invite park now) rows)))"

text \<open>The part that moves the driver.\<close>

definition accept_invite ::
  "invite_transaction \<Rightarrow> invite_driver \<Rightarrow> driver_park_invite \<Rightarrow> time \<Rightarrow> (world, driver_park_invite) op" where
  "accept_invite tx driver invite now =
     bind (tx_Park tx (inv_ToTaxiParkID invite)) (\<lambda>park.
     if \<not> ipk_Active park then fail [Domain ErrParkInviteInactivePark]
     else bind (tx_HasOrders tx (idr_ID driver)) (\<lambda>hasOrders.
     andthen (lift (EnsureTransfer invite (idr_ParkID driver) (idr_Status driver) hasOrders))
     (let result = invite\<lparr>inv_AcceptedAt := Some now\<rparr>
      in andthen (tx_Transfer tx driver park result now)
         (andthen (tx_CancelOtherPending tx (idr_ID driver) (inv_ID invite) now) (ret result)))))"

definition answer_invite ::
  "invite_transaction \<Rightarrow> invite_driver \<Rightarrow> driver_park_invite \<Rightarrow> time \<Rightarrow> driver_park_invite_status \<Rightarrow>
   (world, driver_park_invite) op" where
  "answer_invite tx driver invite now action =
     (case action of
        DriverParkInviteAccepted \<Rightarrow> accept_invite tx driver invite now
      | DriverParkInviteDeclined \<Rightarrow> ret (invite\<lparr>inv_DeclinedAt := Some now\<rparr>)
      | DriverParkInviteCancelled \<Rightarrow>
          ret (invite\<lparr>inv_CancelledAt := Some now, inv_CancellationReason := ''cancelled_by_park''\<rparr>)
      | _ \<Rightarrow> fail [Domain ErrParkInviteForbidden])"

text \<open>Who may answer: the driver, or for a cancellation a user of the inviting park.\<close>

definition check_actor ::
  "invite_transaction \<Rightarrow> uuid \<Rightarrow> driver_park_invite_status \<Rightarrow> invite_driver \<Rightarrow> driver_park_invite \<Rightarrow>
   (world, unit) op" where
  "check_actor tx actor action driver invite =
     (if inv_DriverID invite \<noteq> idr_ID driver then fail [Domain ErrParkInviteNotFound]
      else if action = DriverParkInviteCancelled
      then bind (tx_ActorPark tx actor) (\<lambda>park.
        if inv_ToTaxiParkID invite \<noteq> ipk_ID park then fail [Domain ErrParkInviteNotFound] else done_op)
      else if idr_UserID driver \<noteq> actor then fail [Domain ErrParkInviteNotFound]
      else done_op)"

text \<open>The result carries the error of an invitation whose expiry has just been stored.\<close>

definition respond_in_transaction ::
  "invite_transaction \<Rightarrow> uuid \<Rightarrow> uuid \<Rightarrow> driver_park_invite_status \<Rightarrow>
   (world, error + driver_park_invite) op" where
  "respond_in_transaction tx actor i action =
     bind (if action = DriverParkInviteCancelled then tx_LockInviteDriver tx i
           else tx_LockDriver tx actor []) (\<lambda>driver.
     bind (tx_Invite tx i) (\<lambda>invite.
     andthen (check_actor tx actor action driver invite)
     (bind time_Now (\<lambda>now.
     case EnsurePending invite now of
       Inl err \<Rightarrow>
         if inv_Status invite = DriverParkInvitePending
         then andthen (tx_Save tx (invite\<lparr>inv_Status := DriverParkInviteExpired\<rparr>)) (ret (Inl err))
         else fail err
     | Inr _ \<Rightarrow>
         bind (answer_invite tx driver invite now action) (\<lambda>answered.
         let result = answered\<lparr>inv_Status := action\<rparr>
         in andthen (tx_Save tx result)
            (andthen (tx_Audit tx actor (''driver_park_invite.'' @ invite_status_text action) result)
            (andthen (if action = DriverParkInviteAccepted
                      then tx_Audit tx actor ''driver.transferred_to_park'' result else done_op)
            (ret (Inr result)))))))))"

definition Respond ::
  "invite_transaction \<Rightarrow> invite_service \<Rightarrow> uuid \<Rightarrow> uuid \<Rightarrow> driver_park_invite_status \<Rightarrow>
   (world, driver_park_invite) op" where
  "Respond tx service actor i action =
     bind (db_transaction (bind (respond_in_transaction tx actor i action) (\<lambda>r. ret (True, r)))) (\<lambda>outcome.
       case outcome of
         Inl err \<Rightarrow> fail err
       | Inr result \<Rightarrow>
           andthen (notify service result (''driver.park_invite.'' @ invite_status_text action)) (ret result))"

section \<open>What the service keeps\<close>

text \<open>
  A property of the tables that holds whenever a part of a transaction has succeeded holds after the
  transaction: a part that fails is rolled back.
\<close>

definition kept_on_success :: "(db \<Rightarrow> bool) \<Rightarrow> (world, 'a) op \<Rightarrow> bool" where
  "kept_on_success I m \<longleftrightarrow> (\<forall>s. I (db s) \<longrightarrow> succeeds m (\<lambda>_ t. I (db t)) s)"

named_theorems success_intros

lemma kept_ret [success_intros]: "kept_on_success I (ret a)"
  by (simp add: kept_on_success_def wp_ret)

lemma kept_fail [success_intros]: "kept_on_success I (fail e)"
  by (simp add: kept_on_success_def wp_fail)

lemma kept_keeps: "keeps (on_db I) m \<Longrightarrow> kept_on_success I m"
  unfolding kept_on_success_def by (auto intro: succeeds_keeps)

lemma kept_bind [success_intros]:
  "kept_on_success I m \<Longrightarrow> (\<And>a. kept_on_success I (k a)) \<Longrightarrow> kept_on_success I (bind m k)"
  unfolding kept_on_success_def wp_bind by (auto intro: succeeds_conseq)

lemma kept_if [success_intros]:
  "(b \<Longrightarrow> kept_on_success I m) \<Longrightarrow> (\<not> b \<Longrightarrow> kept_on_success I n) \<Longrightarrow> kept_on_success I (if b then m else n)"
  by simp

lemma kept_option [success_intros]:
  "(x = None \<Longrightarrow> kept_on_success I m) \<Longrightarrow> (\<And>a. x = Some a \<Longrightarrow> kept_on_success I (n a)) \<Longrightarrow>
   kept_on_success I (case x of None \<Rightarrow> m | Some a \<Rightarrow> n a)"
  by (cases x) simp_all

lemma kept_sum [success_intros]:
  "(\<And>a. x = Inl a \<Longrightarrow> kept_on_success I (m a)) \<Longrightarrow> (\<And>b. x = Inr b \<Longrightarrow> kept_on_success I (n b)) \<Longrightarrow>
   kept_on_success I (case x of Inl a \<Rightarrow> m a | Inr b \<Rightarrow> n b)"
  by (cases x) simp_all

lemma kept_time_Now [success_intros]: "kept_on_success I time_Now"
  by (rule kept_keeps) (intro keeps_intros)

lemma kept_uuid_New [success_intros]: "kept_on_success I uuid_New"
  by (rule kept_keeps) (intro keeps_intros)

lemma kept_lift [success_intros]: "kept_on_success I (lift r)"
  by (rule kept_keeps) (intro keeps_intros)

lemma kept_transaction:
  assumes "kept_on_success I body"
  shows "keeps (on_db I) (db_transaction (bind body (\<lambda>r. ret (True, r))))"
proof (rule keepsI)
  fix s :: world
  assume s: "I (db s)"
  obtain r1 s1 where first: "external done_op s = (r1, s1)" by (cases "external done_op s")
  have "keeps (on_db I) (external done_op)" by (rule keeps_external) (simp_all add: keeps_ret)
  then have s1: "I (db s1)" using keepsD [of "on_db I" "external done_op" s] s first by simp
  obtain r t where body: "body s1 = (r, t)" by (cases "body s1")
  have t: "I (db t)" if "r = Inr a" for a
  proof -
    have "succeeds body (\<lambda>_ t. I (db t)) s1" using assms s1 by (simp add: kept_on_success_def)
    then show ?thesis using wpD [of body "\<lambda>_ t. I (db t)" "\<lambda>_ _. True" s1 a t] body that by simp
  qed
  show "I (db (snd (db_transaction (bind body (\<lambda>r. ret (True, r))) s)))"
  proof (cases r1)
    case (Inl e)
    then show ?thesis using first s1 by (simp add: db_transaction_def transaction_def bind_def)
  next
    case (Inr u)
    then show ?thesis
      using first s1 body t
      by (cases r; cases "script t")
        (auto simp: db_transaction_def transaction_def bind_def ret_def Let_def split: outcome.split)
  qed
qed

lemma kept_case_product [success_intros]:
  "(\<And>a b. kept_on_success I (k a b)) \<Longrightarrow> kept_on_success I (case p of (a, b) \<Rightarrow> k a b)"
  by (cases p) simp

lemma notify_keeps [keeps_intros]: "keeps (on_db P) (notify service invite event)"
proof -
  have attempts: "keeps (on_db P) (attempt_each xs body)" if "\<And>x. keeps (on_db P) (body x)"
    for xs :: "'b list" and body
    by (induction xs) (auto intro!: keeps_intros that)
  have one: "keeps (on_db P) (attempt m)" if "keeps (on_db P) m" for m
    unfolding attempt_def by (intro keeps_intros that)
  have ext: "keeps (on_db P) (external done_op)" by (rule keeps_external) (simp_all add: keeps_ret)
  show ?thesis
    unfolding notify_def Notify_def ListDriverPushTokens_def ListParkInviteRecipients_def
    by (intro keeps_intros attempts one ext)
qed

text \<open>What a repository must keep for the service to keep it.\<close>

locale invite_invariant =
  fixes tx :: invite_transaction and I :: "db \<Rightarrow> bool"
  assumes reads: "kept_on_success I (tx_ActorPark tx actor)" "kept_on_success I (tx_Park tx i)"
      "kept_on_success I (tx_LockDriver tx actor phone)" "kept_on_success I (tx_LockInviteDriver tx i)"
      "kept_on_success I (tx_Invite tx i)" "kept_on_success I (tx_Pending tx i j)"
      "kept_on_success I (tx_HasOrders tx i)"
    and writes: "kept_on_success I (tx_Insert tx invite)" "kept_on_success I (tx_Save tx invite)"
      "kept_on_success I (tx_Expire tx i now)" "kept_on_success I (tx_CancelOtherPending tx i j now)"
      "kept_on_success I (tx_Audit tx actor event invite)"
    and transfer: "kept_on_success I (tx_Transfer tx driver park invite now)"
begin

lemma Create_keeps: "keeps (on_db I) (Create tx service actor phone)"
proof -
  have "kept_on_success I (create_in_transaction tx service actor p)" for p
    unfolding create_in_transaction_def Let_def by (intro success_intros reads writes)
  then show ?thesis
    unfolding Create_def by (intro keeps_intros kept_transaction keeps_case_product)
qed

lemma answer_keeps: "kept_on_success I (answer_invite tx driver invite now action)"
  unfolding answer_invite_def accept_invite_def Let_def
  by (cases action) (auto intro!: success_intros reads writes transfer)

lemma Respond_keeps: "keeps (on_db I) (Respond tx service actor i action)"
proof -
  have "kept_on_success I (respond_in_transaction tx actor i action)"
    unfolding respond_in_transaction_def check_actor_def Let_def
    by (intro success_intros reads writes answer_keeps)
  then show ?thesis
    unfolding Respond_def by (intro keeps_intros kept_transaction)
qed

end

section \<open>The statements\<close>

lemma invite_query_Inr:
  assumes "invite_query rows s = (Inr a, t)"
  obtains now where "clock s \<le> now" "a \<in> set (rows now (db s))" "db t = db s" "clock s \<le> clock t"
proof -
  from assms obtain r u where q: "query (\<lambda>now d. one_row (rows now d)) s = (r, u)"
    "(case r of Inl e \<Rightarrow> fail (inviteQueryError e) | Inr a \<Rightarrow> ret a) u = (Inr a, t)"
    unfolding invite_query_def by (rule catching_elim)
  from q(2) have r: "r = Inr a" "t = u" by (cases r; simp add: Inr_simps)+
  from q(1) [unfolded r(1)] show thesis
  proof (rule query_Inr)
    fix c
    assume c: "clock s \<le> c" "one_row (rows c (db s)) = Inr a" "db u = db s" "clock u = c"
    from that [OF c(1) one_row_Inr [OF c(2)]] c show thesis by (simp add: r(2))
  qed
qed

lemma invite_query_keeps [keeps_intros]: "keeps (on_db P) (invite_query rows)"
  unfolding invite_query_def by (intro keeps_intros)

lemma invite_reads_keep [keeps_intros]:
  "keeps (on_db P) (invite_Park i)" "keeps (on_db P) (ActorPark actor)"
  "keeps (on_db P) (LockDriver actor phone)" "keeps (on_db P) (LockInviteDriver i)"
  "keeps (on_db P) (invite_Invite i)" "keeps (on_db P) (invite_Pending i j)"
  "keeps (on_db P) (HasOrders i)"
  unfolding invite_Park_def ActorPark_def LockDriver_def LockInviteDriver_def invite_Invite_def
    invite_Pending_def HasOrders_def
  by (intro keeps_intros)+

lemma write_invites_iff:
  "write_invites rows d = (Inr u, d') \<longleftrightarrow> d' = d\<lparr>invites := rows\<rparr>
     \<and> list_all invite_checks rows \<and> invites_unique rows \<and> list_all (invite_references d) rows"
  by (auto simp: write_invites_def split: if_splits)

lemma write_history_iff:
  "write_history rows d = (Inr u, d') \<longleftrightarrow> d' = d\<lparr>park_history := rows\<rparr>
     \<and> list_all history_checks rows \<and> history_unique rows \<and> list_all (history_references d) rows"
  by (auto simp: write_history_def split: if_splits)

text \<open>What a transfer that succeeds has written.\<close>

lemma sql_pure_Inr:
  "(sql (\<lambda>now d. (Inr (), g now d)) :: (world, unit) op) s = (Inr u, t) \<Longrightarrow> \<exists>now. db t = g now (db s)"
  by (erule sql_Inr) auto

lemma update_drivers_Inr:
  "sql (update_drivers P f) s = (Inr n, t) \<Longrightarrow>
   \<exists>now. db t = (db s)\<lparr>drivers := sql_update P (\<lambda>r. (f r)\<lparr>drv_UpdatedAt := now\<rparr>) (drivers (db s))\<rparr>"
  by (erule sql_Inr) (auto simp: update_drivers_def)

lemma Transfer_Inr:
  assumes "Transfer driver park invite at_time s = (Inr u, t)"
  obtains now1 now2 now3 where
    "db t = (db s)\<lparr>
       park_history := sql_update (open_stay (idr_ID driver)) (\<lambda>h. h\<lparr>dph_LeftAt := Some at_time\<rparr>)
           (park_history (db s) @ first_stay (db s) (idr_ID driver))
         @ [\<lparr>dph_DriverID = idr_ID driver, dph_TaxiParkID = ipk_ID park, dph_JoinedAt = at_time,
             dph_LeftAt = None, dph_TransferInviteID = Some (inv_ID invite)\<rparr>],
       cars := sql_update (\<lambda>c. car_PrimaryDriverID c = Some (idr_ID driver)) (release_car now1)
         (map (detach_car (idr_ID driver)) (cars (db s))),
       drivers := sql_update (\<lambda>dr. drv_ID dr = idr_ID driver)
         (\<lambda>dr. (transferred_driver park dr)\<lparr>drv_UpdatedAt := now2\<rparr>) (drivers (db s)),
       driver_balances := driver_balances (db s) @
         (if list_ex (balance_key (idr_ID driver) (Some (ipk_ID park))) (driver_balances (db s)) then []
          else [zero_balance (idr_ID driver) (ipk_ID park) now3])\<rparr>"
    "list_all history_checks (park_history (db t))" "history_unique (park_history (db t))"
    "list_all (history_references (db t)) (park_history (db t))"
proof -
  let ?i = "idr_ID driver"
  let ?first = "\<lambda>now d. write_history (park_history d @ first_stay d ?i) d"
  let ?close = "\<lambda>now d. write_history
         (sql_update (open_stay ?i) (\<lambda>h. h\<lparr>dph_LeftAt := Some at_time\<rparr>) (park_history d)) d"
  let ?detach = "\<lambda>now d. (Inr (), d\<lparr>cars := map (detach_car ?i) (cars d)\<rparr>)"
  let ?release = "\<lambda>now d. (Inr (), d\<lparr>cars := sql_update
         (\<lambda>c. car_PrimaryDriverID c = Some ?i) (release_car now) (cars d)\<rparr>)"
  let ?move = "update_drivers (\<lambda>dr. drv_ID dr = ?i) (transferred_driver park)"
  let ?new = "\<lparr>dph_DriverID = ?i, dph_TaxiParkID = ipk_ID park, dph_JoinedAt = at_time,
           dph_LeftAt = None, dph_TransferInviteID = Some (inv_ID invite)\<rparr>"
  let ?join = "\<lambda>now d. write_history (park_history d @ [?new]) d"
  let ?open = "\<lambda>now d. (Inr (),
         if list_ex (balance_key ?i (Some (ipk_ID park))) (driver_balances d) then d
         else d\<lparr>driver_balances := driver_balances d @ [zero_balance ?i (ipk_ID park) now]\<rparr>)"
  obtain s1 s2 s3 s4 s5 s6 u1 u2 u3 u4 u6 n where
    r: "sql ?first s = (Inr u1, s1)" "sql ?close s1 = (Inr u2, s2)"
    "(sql ?detach :: (world, unit) op) s2 = (Inr u3, s3)"
    "(sql ?release :: (world, unit) op) s3 = (Inr u4, s4)" "sql ?move s4 = (Inr n, s5)"
    "sql ?join s5 = (Inr u6, s6)" "sql ?open s6 = (Inr u, t)"
    using assms unfolding Transfer_def by (elim bind_Inr) (rule that; assumption)
  have d1: "db s1 = (db s)\<lparr>park_history := park_history (db s) @ first_stay (db s) ?i\<rparr>"
    using r(1) by (rule sql_Inr) (simp add: write_history_iff)
  have d2: "db s2 = (db s1)\<lparr>park_history := sql_update (open_stay ?i) (\<lambda>h. h\<lparr>dph_LeftAt := Some at_time\<rparr>)
      (park_history (db s1))\<rparr>"
    using r(2) by (rule sql_Inr) (simp add: write_history_iff)
  have d3: "db s3 = (db s2)\<lparr>cars := map (detach_car ?i) (cars (db s2))\<rparr>"
    using r(3) by (rule sql_Inr) simp
  obtain now1 where d4: "db s4 = (db s3)\<lparr>cars := sql_update (\<lambda>c. car_PrimaryDriverID c = Some ?i)
      (release_car now1) (cars (db s3))\<rparr>"
    using sql_pure_Inr [OF r(4)] by blast
  obtain now2 where d5: "db s5 = (db s4)\<lparr>drivers := sql_update (\<lambda>dr. drv_ID dr = ?i)
      (\<lambda>dr. (transferred_driver park dr)\<lparr>drv_UpdatedAt := now2\<rparr>) (drivers (db s4))\<rparr>"
    using update_drivers_Inr [OF r(5)] by blast
  have d6: "db s6 = (db s5)\<lparr>park_history := park_history (db s5) @ [?new]\<rparr>"
    "list_all history_checks (park_history (db s6))" "history_unique (park_history (db s6))"
    "list_all (history_references (db s5)) (park_history (db s6))"
    using r(6) by (rule sql_Inr, simp add: write_history_iff)+
  obtain now3 where d7: "db t = (db s6)\<lparr>driver_balances := driver_balances (db s6) @
      (if list_ex (balance_key ?i (Some (ipk_ID park))) (driver_balances (db s6)) then []
       else [zero_balance ?i (ipk_ID park) now3])\<rparr>"
  proof -
    obtain now where "db t = (if list_ex (balance_key ?i (Some (ipk_ID park))) (driver_balances (db s6)) then db s6
         else (db s6)\<lparr>driver_balances := driver_balances (db s6) @ [zero_balance ?i (ipk_ID park) now]\<rparr>)"
      using sql_pure_Inr [OF r(7)] by blast
    then show thesis by (intro that [of now]) simp
  qed
  have refs: "list_all (history_references (db t)) (park_history (db t))"
  proof -
    have "history_references (db t) = history_references (db s5)"
      by (rule ext) (simp add: history_references_def d7 d6(1) split: option.split)
    then show ?thesis using d6(4) by (simp add: d7)
  qed
  show thesis
  proof (rule that [of now3 now2 now1, OF _ _ _ refs])
    show "list_all history_checks (park_history (db t))" "history_unique (park_history (db t))"
      using d6(2,3) by (simp_all add: d7)
  qed (rule db.equality; simp add: d7 d6(1) d5 d4 d3 d2 d1)
qed

section \<open>Invariants\<close>

text \<open>
  The constraints of the two tables, and the history against the drivers: an open stay names the park
  the driver belongs to.
\<close>

definition stays_match :: "db \<Rightarrow> bool" where
  "stays_match d \<longleftrightarrow> list_all (\<lambda>h. dph_LeftAt h = None \<longrightarrow>
     list_ex (\<lambda>dr. drv_ID dr = dph_DriverID h \<and> drv_TaxiParkID dr = Some (dph_TaxiParkID h)) (drivers d))
     (park_history d)"

definition roster_ok :: "db \<Rightarrow> bool" where
  "roster_ok d \<longleftrightarrow> list_all invite_checks (invites d) \<and> invites_unique (invites d)
     \<and> list_all history_checks (park_history d) \<and> history_unique (park_history d)
     \<and> stays_match d \<and> distinct (map drv_ID (drivers d))"

lemma kept_sql:
  assumes "\<And>now d u d'. I d \<Longrightarrow> f now d = (Inr u, d') \<Longrightarrow> I d'"
  shows "kept_on_success I (sql f)"
  unfolding kept_on_success_def by (auto intro!: succeeds_sql intro: assms)

lemma stays_match_cong [simp]:
  "stays_match (d\<lparr>invites := rows\<rparr>) = stays_match d"
  "stays_match (d\<lparr>finance_audit := evs\<rparr>) = stays_match d"
  by (simp_all add: stays_match_def)

lemma transferred_driver_simps [simp]:
  "drv_ID (transferred_driver park dr) = drv_ID dr"
  "drv_TaxiParkID (transferred_driver park dr) = Some (ipk_ID park)"
  "drv_Status (transferred_driver park dr) = DriverStatusOffline"
  "drv_IsVerified (transferred_driver park dr) = False"
  "drv_UserID (transferred_driver park dr) = drv_UserID dr"
  by (simp_all add: transferred_driver_def)

lemma transfer_roster:
  assumes "Transfer driver park invite at_time s = (Inr u, t)" "roster_ok (db s)"
  shows "roster_ok (db t)"
  using assms(1)
proof (rule Transfer_Inr)
  fix now1 now2 now3
  let ?i = "idr_ID driver"
  let ?rows = "sql_update (open_stay ?i) (\<lambda>h. h\<lparr>dph_LeftAt := Some at_time\<rparr>)
      (park_history (db s) @ first_stay (db s) ?i)"
  let ?new = "\<lparr>dph_DriverID = ?i, dph_TaxiParkID = ipk_ID park, dph_JoinedAt = at_time,
     dph_LeftAt = None, dph_TransferInviteID = Some (inv_ID invite)\<rparr>"
  assume t: "db t = (db s)\<lparr>park_history := ?rows @ [?new],
       cars := sql_update (\<lambda>c. car_PrimaryDriverID c = Some ?i) (release_car now1)
         (map (detach_car ?i) (cars (db s))),
       drivers := sql_update (\<lambda>dr. drv_ID dr = ?i)
         (\<lambda>dr. (transferred_driver park dr)\<lparr>drv_UpdatedAt := now2\<rparr>) (drivers (db s)),
       driver_balances := driver_balances (db s) @
         (if list_ex (balance_key ?i (Some (ipk_ID park))) (driver_balances (db s)) then []
          else [zero_balance ?i (ipk_ID park) now3])\<rparr>"
    and h: "list_all history_checks (park_history (db t))" "history_unique (park_history (db t))"
      "list_all (history_references (db t)) (park_history (db t))"
  have hist: "park_history (db t) = ?rows @ [?new]"
    and drs: "drivers (db t) = sql_update (\<lambda>dr. drv_ID dr = ?i)
         (\<lambda>dr. (transferred_driver park dr)\<lparr>drv_UpdatedAt := now2\<rparr>) (drivers (db s))"
    and inv: "invites (db t) = invites (db s)"
    by (simp_all add: t)
  have ids: "map drv_ID (drivers (db t)) = map drv_ID (drivers (db s))"
    by (simp add: drs sql_update_def)
  have others: "\<exists>dr \<in> set (drivers (db t)). drv_ID dr = dph_DriverID x \<and> drv_TaxiParkID dr = Some (dph_TaxiParkID x)"
    if x: "x \<in> set (park_history (db s) @ first_stay (db s) ?i)" "dph_LeftAt x = None" "\<not> open_stay ?i x" for x
  proof -
    have not_i: "dph_DriverID x \<noteq> ?i" using x(2,3) by (simp add: open_stay_def)
    then have "x \<in> set (park_history (db s))"
      using x(1) by (auto simp: first_stay_def split: if_splits option.splits)
    then obtain dr where dr: "dr \<in> set (drivers (db s))" "drv_ID dr = dph_DriverID x"
      "drv_TaxiParkID dr = Some (dph_TaxiParkID x)"
      using assms(2) x(2) by (auto simp: roster_ok_def stays_match_def list_all_iff list_ex_iff)
    then have "dr \<in> set (drivers (db t))" using not_i by (force simp: drs sql_update_def)
    with dr show ?thesis by blast
  qed
  have new: "\<exists>dr \<in> set (drivers (db t)). drv_ID dr = ?i \<and> drv_TaxiParkID dr = Some (ipk_ID park)"
  proof -
    have "list_ex (\<lambda>dr. drv_ID dr = ?i) (drivers (db t))"
      using h(3) by (simp add: hist history_references_def)
    then show ?thesis by (force simp: list_ex_iff drs sql_update_def)
  qed
  have "stays_match (db t)"
    using others new by (auto simp: stays_match_def hist list_all_iff list_ex_iff sql_update_def)
  then show ?thesis
    using assms(2) h(1,2) ids by (simp add: roster_ok_def inv)
qed

interpretation roster: invite_invariant postgres_invites roster_ok
proof unfold_locales
  show "kept_on_success roster_ok (tx_Transfer postgres_invites driver park invite now)"
    for driver park invite now
    unfolding postgres_invites_def kept_on_success_def
    by (auto intro!: wp_partial intro: transfer_roster)
qed (auto simp: postgres_invites_def invite_Insert_def invite_Save_def invite_Expire_def
      CancelOtherPending_def invite_Audit_def roster_ok_def write_invites_iff
      intro!: kept_keeps kept_sql invite_reads_keep)

text \<open>The orders and the books: a transfer only adds an empty account for the new park.\<close>

interpretation order_rows: invite_invariant postgres_invites "\<lambda>d. orders d = v" for v
proof unfold_locales
  show "kept_on_success (\<lambda>d. orders d = v) (tx_Transfer postgres_invites driver park invite now)"
    for driver park invite now
    unfolding postgres_invites_def kept_on_success_def
    by (auto intro!: wp_partial elim!: Transfer_Inr)
qed (auto simp: postgres_invites_def invite_Insert_def invite_Save_def invite_Expire_def
      CancelOtherPending_def invite_Audit_def write_invites_iff
      intro!: kept_keeps kept_sql invite_reads_keep)

lemma empty_account:
  assumes "books_balanced d" "\<not> list_ex (balance_key i (Some p)) (driver_balances d)"
  shows "books_balanced (d\<lparr>driver_balances := driver_balances d @ [zero_balance i p now]\<rparr>)"
proof -
  let ?d = "d\<lparr>driver_balances := driver_balances d @ [zero_balance i p now]\<rparr>"
  have z: "available (zero_balance i p now) = 0" "balance_account (zero_balance i p now) = (i, Some p)"
    by (simp_all add: zero_balance_def available_def balance_account_def)
  have "(i, Some p) \<notin> set (map balance_account (driver_balances d))"
    using assms(2) by (auto simp: list_ex_iff balance_key_def balance_account_def)
  then have "accounts_ok ?d" using assms(1) z by (simp add: books_balanced_def accounts_ok_def)
  moreover have "driver_account ?d k = driver_account d k" for k
    by (simp add: driver_account_def z)
  moreover have "park_account ?d q = park_account d q" for q by (simp add: park_account_def)
  ultimately show ?thesis using assms(1) z(1) by (auto simp: books_balanced_def)
qed

lemma books_balanced_cong:
  "driver_balances d' = driver_balances d \<Longrightarrow> taxi_parks d' = taxi_parks d \<Longrightarrow>
   order_finances d' = order_finances d \<Longrightarrow> payouts d' = payouts d \<Longrightarrow>
   driver_ledger d' = driver_ledger d \<Longrightarrow> park_ledger d' = park_ledger d \<Longrightarrow>
   fee_ledger d' = fee_ledger d \<Longrightarrow> books_balanced d = books_balanced d'"
  by (simp add: books_balanced_def accounts_ok_def driver_account_def park_account_def)

lemma books_balanced_roster [simp]:
  "books_balanced (d\<lparr>invites := a\<rparr>) = books_balanced d"
  "books_balanced (d\<lparr>park_history := b\<rparr>) = books_balanced d"
  "books_balanced (d\<lparr>cars := c\<rparr>) = books_balanced d"
  "books_balanced (d\<lparr>drivers := e\<rparr>) = books_balanced d"
  "books_balanced (d\<lparr>finance_audit := f\<rparr>) = books_balanced d"
  by (simp_all add: books_balanced_def accounts_ok_def driver_account_def park_account_def)

interpretation books: invite_invariant postgres_invites books_balanced
proof unfold_locales
  show "kept_on_success books_balanced (tx_Transfer postgres_invites driver park invite now)"
    for driver park invite now
    unfolding postgres_invites_def kept_on_success_def
  proof (intro allI impI wp_partial)
    fix s u t
    assume bal: "books_balanced (db s)"
      and run: "tx_Transfer \<lparr>tx_ActorPark = ActorPark, tx_Park = invite_Park, tx_LockDriver = LockDriver,
          tx_LockInviteDriver = LockInviteDriver, tx_Invite = invite_Invite, tx_Pending = invite_Pending,
          tx_Insert = invite_Insert, tx_Save = invite_Save, tx_Expire = invite_Expire,
          tx_HasOrders = HasOrders, tx_Transfer = Transfer,
          tx_CancelOtherPending = CancelOtherPending, tx_Audit = invite_Audit\<rparr>
          driver park invite now s = (Inr u, t)"
    from run have "Transfer driver park invite now s = (Inr u, t)" by simp
    then show "books_balanced (db t)"
    proof (rule Transfer_Inr)
      fix now1 now2 now3
      assume t: "db t = (db s)\<lparr>
         park_history := sql_update (open_stay (idr_ID driver)) (\<lambda>h. h\<lparr>dph_LeftAt := Some now\<rparr>)
             (park_history (db s) @ first_stay (db s) (idr_ID driver))
           @ [\<lparr>dph_DriverID = idr_ID driver, dph_TaxiParkID = ipk_ID park, dph_JoinedAt = now,
               dph_LeftAt = None, dph_TransferInviteID = Some (inv_ID invite)\<rparr>],
         cars := sql_update (\<lambda>c. car_PrimaryDriverID c = Some (idr_ID driver)) (release_car now1)
           (map (detach_car (idr_ID driver)) (cars (db s))),
         drivers := sql_update (\<lambda>dr. drv_ID dr = idr_ID driver)
           (\<lambda>dr. (transferred_driver park dr)\<lparr>drv_UpdatedAt := now2\<rparr>) (drivers (db s)),
         driver_balances := driver_balances (db s) @
           (if list_ex (balance_key (idr_ID driver) (Some (ipk_ID park))) (driver_balances (db s)) then []
            else [zero_balance (idr_ID driver) (ipk_ID park) now3])\<rparr>"
      let ?d = "(db s)\<lparr>driver_balances := driver_balances (db t)\<rparr>"
      have "books_balanced ?d"
        using bal empty_account [OF bal, of "idr_ID driver" "ipk_ID park" now3] by (simp add: t)
      then show ?thesis
        by (rule books_balanced_cong [THEN iffD1, rotated -1]) (simp_all add: t)
    qed
  qed
qed (auto simp: postgres_invites_def invite_Insert_def invite_Save_def invite_Expire_def
      CancelOtherPending_def invite_Audit_def write_invites_iff
      intro!: kept_keeps kept_sql invite_reads_keep)

section \<open>Properties\<close>

text \<open>
  C20: invitations keep the platform consistent.  Whatever is asked of the service and whatever fails on
  the way, at most one invitation of a driver to a park is pending, a driver has at most one open stay
  and it names the park the driver belongs to, no order changes, and the books stay balanced.
\<close>

theorem invites_keep_platform:
  assumes "roster_ok (db s)" "books_balanced (db s)"
  shows "t \<in> {snd (Create postgres_invites service actor phone s),
              snd (Respond postgres_invites service actor i action s)} \<Longrightarrow>
    roster_ok (db t) \<and> books_balanced (db t) \<and> orders (db t) = orders (db s)"
  using keepsD [OF roster.Create_keeps, of s service actor phone]
    keepsD [OF books.Create_keeps, of s service actor phone]
    keepsD [OF order_rows.Create_keeps [where v = "orders (db s)"], of s service actor phone]
    keepsD [OF roster.Respond_keeps, of s service actor i action]
    keepsD [OF books.Respond_keeps, of s service actor i action]
    keepsD [OF order_rows.Respond_keeps [where v = "orders (db s)"], of s service actor i action] assms
  by auto

lemma Respond_Inr:
  assumes "Respond tx service actor i action s = (Inr result, t)"
  obtains s1 u where "db s1 = db s" "respond_in_transaction tx actor i action s1 = (Inr (Inr result), u)"
    "db t = db u"
proof -
  from assms obtain outcome v where v:
    "db_transaction (bind (respond_in_transaction tx actor i action) (\<lambda>r. ret (True, r))) s = (Inr outcome, v)"
    "(case outcome of Inl err \<Rightarrow> fail err
      | Inr result \<Rightarrow> andthen (notify service result (''driver.park_invite.'' @ invite_status_text action))
          (ret result)) v = (Inr result, t)"
    unfolding Respond_def by (rule bind_Inr)
  from v(2) obtain w x where out: "outcome = Inr result"
    "notify service result (''driver.park_invite.'' @ invite_status_text action) v = (Inr x, w)" "t = w"
    by (cases outcome) (auto simp: Inr_simps elim!: bind_Inr)
  have "db t = db v"
    using keepsD [OF notify_keeps [of "\<lambda>d. d = db v"], of v service result] out by (metis snd_conv)
  with v(1) out(1) show thesis
    by (elim db_transaction_Inr bind_Inr) (auto simp: Inr_simps intro: that)
qed

lemma reads_db:
  assumes "\<And>P. keeps (on_db P) m" "m s = (r, t)"
  shows "db t = db s"
  using keepsD [OF assms(1) [of "\<lambda>d. d = db s"], of s] assms(2) by simp

lemma invite_Park_Inr:
  assumes "invite_Park i s = (Inr park, t)"
  shows "ipk_ID park = i"
proof -
  from assms obtain p0 s4 act where "invite_query (\<lambda>now d.
        [\<lparr>ipk_ID = tp_ID tp, ipk_CityID = tp_CityID tp, ipk_Name = tp_Name tp,
          ipk_Active = (tp_DeletedAt tp = None
             \<and> (case park_settings_of d (tp_ID tp) of None \<Rightarrow> True | Some b \<Rightarrow> b))\<rparr>.
         tp \<leftarrow> taxi_parks d, tp_ID tp = i]) s = (Inr p0, s4)"
      "park = (case act of None \<Rightarrow> p0 | Some b \<Rightarrow> p0\<lparr>ipk_Active := ipk_Active p0 \<and> b\<rparr>)"
    unfolding invite_Park_def by (elim bind_Inr) (auto simp: Inr_simps)
  then show ?thesis by (auto elim!: invite_query_Inr split: option.splits)
qed

lemma accept_invite_Inr:
  assumes "accept_invite postgres_invites driver invite now s = (Inr answered, t)"
  obtains park u v where "inv_FromTaxiParkID invite = idr_ParkID driver"
    "idr_ParkID driver \<noteq> Some (inv_ToTaxiParkID invite)" "idr_Status driver = DriverStatusOffline"
    "\<not> has_orders (db s) (idr_ID driver)" "ipk_ID park = inv_ToTaxiParkID invite"
    "db u = db s" "Transfer driver park (invite\<lparr>inv_AcceptedAt := Some now\<rparr>) now u = (Inr (), v)"
    "CancelOtherPending (idr_ID driver) (inv_ID invite) now v = (Inr (), t)"
    "answered = invite\<lparr>inv_AcceptedAt := Some now\<rparr>"
proof -
  have tx: "tx_Park postgres_invites = invite_Park" "tx_HasOrders postgres_invites = HasOrders"
    "tx_Transfer postgres_invites = Transfer" "tx_CancelOtherPending postgres_invites = CancelOtherPending"
    by (simp_all add: postgres_invites_def)
  from assms obtain park s1 where s1: "invite_Park (inv_ToTaxiParkID invite) s = (Inr park, s1)"
    and rest: "(if \<not> ipk_Active park then fail [Domain ErrParkInviteInactivePark]
     else bind (HasOrders (idr_ID driver)) (\<lambda>hasOrders.
     andthen (lift (EnsureTransfer invite (idr_ParkID driver) (idr_Status driver) hasOrders))
     (let result = invite\<lparr>inv_AcceptedAt := Some now\<rparr>
      in andthen (Transfer driver park result now)
         (andthen (CancelOtherPending (idr_ID driver) (inv_ID invite) now) (ret result))))) s1 = (Inr answered, t)"
    unfolding accept_invite_def tx by (rule bind_Inr)
  from rest obtain hasOrders s2 s3 v e f where
    s2: "HasOrders (idr_ID driver) s1 = (Inr hasOrders, s2)"
    and ens: "EnsureTransfer invite (idr_ParkID driver) (idr_Status driver) hasOrders = Inr e" "s3 = s2"
    and tr: "Transfer driver park (invite\<lparr>inv_AcceptedAt := Some now\<rparr>) now s3 = (Inr (), v)"
    and co: "CancelOtherPending (idr_ID driver) (inv_ID invite) now v = (Inr (), t)"
    and ans: "answered = invite\<lparr>inv_AcceptedAt := Some now\<rparr>"
    by (auto simp: Let_def Inr_simps split: if_splits elim!: bind_Inr)
  have d1: "db s1 = db s" using s1 by (rule reads_db [rotated]) (rule invite_reads_keep)
  have d2: "db s2 = db s1" using s2 by (rule reads_db [rotated]) (rule invite_reads_keep)
  have has: "hasOrders = has_orders (db s1) (idr_ID driver)"
    using s2 unfolding HasOrders_def by (rule query_Inr) simp
  have park: "ipk_ID park = inv_ToTaxiParkID invite" by (rule invite_Park_Inr [OF s1])
  show thesis
    using that [OF _ _ _ _ park _ tr co ans] ens has d1 d2 by (auto simp: EnsureTransfer_Inr)
qed

lemma invite_Audit_Inr:
  "invite_Audit actor event invite s = (Inr u, t) \<Longrightarrow> \<exists>evs. db t = (db s)\<lparr>finance_audit := evs\<rparr>"
  unfolding invite_Audit_def by (drule sql_pure_Inr) blast

lemma write_invites_sql:
  assumes "sql (\<lambda>now d. write_invites (f d) d) s = (Inr u, t)"
  shows "db t = (db s)\<lparr>invites := f (db s)\<rparr>"
  using assms by (rule sql_Inr) (simp add: write_invites_iff)

lemma selected_invite:
  assumes "invite \<in> set (selected_invites d)"
  obtains row where "row \<in> set (invites d)" "inv_ID row = inv_ID invite"
    "inv_DriverID row = inv_DriverID invite" "inv_Status row = inv_Status invite"
    "inv_FromTaxiParkID row = inv_FromTaxiParkID invite" "inv_ToTaxiParkID row = inv_ToTaxiParkID invite"
  using assms by (auto simp: selected_invites_def invite_select_def intro: that)

lemma ActorPark_Inr:
  assumes "ActorPark actor s = (Inr park, t)"
  shows "ipk_ID park \<in> set (actor_parks (db s) actor)"
proof -
  from assms obtain i u where i: "catching (query (\<lambda>now d. one_row (actor_parks d actor)))
        (\<lambda>r. case r of
           Inl e \<Rightarrow> if errors_Is e (Infra ErrNoRows) then fail [Domain ErrParkInviteForbidden] else fail e
         | Inr i \<Rightarrow> ret i) s = (Inr i, u)" "invite_Park i u = (Inr park, t)"
    unfolding ActorPark_def by (rule bind_Inr)
  from i(1) obtain q w where q: "query (\<lambda>now d. one_row (actor_parks d actor)) s = (q, w)"
    "(case q of
           Inl e \<Rightarrow> if errors_Is e (Infra ErrNoRows) then fail [Domain ErrParkInviteForbidden] else fail e
         | Inr i \<Rightarrow> ret i) w = (Inr i, u)"
    by (rule catching_elim)
  from q(2) have "q = Inr i" by (cases q) (auto simp: Inr_simps split: if_splits)
  with q(1) have "i \<in> set (actor_parks (db s) actor)" by (auto elim!: query_Inr dest!: one_row_Inr)
  then show ?thesis using invite_Park_Inr [OF i(2)] by simp
qed

lemma respond_accept_Inr:
  assumes "respond_in_transaction postgres_invites actor i DriverParkInviteAccepted s = (Inr (Inr result), t)"
  obtains driver dr invite now s4 answered v w u evs where
    "driver = joined_driver dr u" "dr \<in> set (drivers (db s))" "drv_UserID dr = actor"
    "invite \<in> set (selected_invites (db s))" "inv_ID invite = i" "inv_DriverID invite = drv_ID dr"
    "inv_Status invite = DriverParkInvitePending" "db s4 = db s"
    "accept_invite postgres_invites driver invite now s4 = (Inr answered, v)"
    "invite_Save (answered\<lparr>inv_Status := DriverParkInviteAccepted\<rparr>) v = (Inr (), w)"
    "db t = (db w)\<lparr>finance_audit := evs\<rparr>"
proof -
  have tx: "tx_LockDriver postgres_invites = LockDriver" "tx_Invite postgres_invites = invite_Invite"
    "tx_Save postgres_invites = invite_Save" "tx_Audit postgres_invites = invite_Audit"
    by (simp_all add: postgres_invites_def)
  from assms obtain driver s1 invite s2 e s3 now s5 where
    r: "LockDriver actor [] s = (Inr driver, s1)" "invite_Invite i s1 = (Inr invite, s2)"
    "check_actor postgres_invites actor DriverParkInviteAccepted driver invite s2 = (Inr e, s3)"
    and now: "time_Now s3 = (Inr now, s5)"
    and rest0: "(case EnsurePending invite now of
       Inl err \<Rightarrow>
         if inv_Status invite = DriverParkInvitePending
         then andthen (invite_Save (invite\<lparr>inv_Status := DriverParkInviteExpired\<rparr>)) (ret (Inl err))
         else fail err
     | Inr _ \<Rightarrow>
         bind (answer_invite postgres_invites driver invite now DriverParkInviteAccepted) (\<lambda>answered.
         let result = answered\<lparr>inv_Status := DriverParkInviteAccepted\<rparr>
         in andthen (invite_Save result)
            (andthen (invite_Audit actor (''driver_park_invite.'' @ invite_status_text DriverParkInviteAccepted) result)
            (andthen (invite_Audit actor ''driver.transferred_to_park'' result)
            (ret (Inr result)))))) s5 = (Inr (Inr result), t)"
    unfolding respond_in_transaction_def tx
    by (simp only: driver_park_invite_status.distinct if_False simp_thms if_True)
      (elim bind_Inr, rule that; assumption)
  have s5: "s5 = s3" using now by (simp add: Inr_simps)
  note rest = rest0 [unfolded s5]
  have d1: "db s1 = db s" using r(1) by (rule reads_db [rotated]) (rule invite_reads_keep)
  have d2: "db s2 = db s1" using r(2) by (rule reads_db [rotated]) (rule invite_reads_keep)
  have actor: "inv_DriverID invite = idr_ID driver" "idr_UserID driver = actor" "s3 = s2"
    using r(3) by (auto simp: check_actor_def Inr_simps split: if_splits)
  obtain dr u where dr: "driver = joined_driver dr u" "dr \<in> set (drivers (db s))"
    using r(1) unfolding LockDriver_def by (rule invite_query_Inr) (auto intro: that)
  obtain invite': "invite \<in> set (selected_invites (db s))" "inv_ID invite = i"
    using r(2) d1 unfolding invite_Invite_def by (auto elim!: invite_query_Inr)
  obtain f where pending: "EnsurePending invite now = Inr f"
    using rest by (cases "EnsurePending invite now") (auto simp: Inr_simps split: if_splits elim!: bind_Inr)
  from rest pending obtain answered v w w1 where
    acc: "accept_invite postgres_invites driver invite now s3 = (Inr answered, v)"
    "invite_Save (answered\<lparr>inv_Status := DriverParkInviteAccepted\<rparr>) v = (Inr (), w)"
    and aud: "invite_Audit actor ''driver_park_invite.accepted''
        (answered\<lparr>inv_Status := DriverParkInviteAccepted\<rparr>) w = (Inr (), w1)"
      "invite_Audit actor ''driver.transferred_to_park''
        (answered\<lparr>inv_Status := DriverParkInviteAccepted\<rparr>) w1 = (Inr (), t)"
    by (auto simp: answer_invite_def Let_def Inr_simps elim!: bind_Inr)
  obtain evs where "db t = (db w)\<lparr>finance_audit := evs\<rparr>"
    using aud by (auto dest!: invite_Audit_Inr)
  with that [OF dr(1,2) _ invite' _ _ _ acc, where evs = evs] actor pending d1 d2 dr show thesis
    by (simp add: joined_driver_def EnsurePending_Inr)
qed


text \<open>
  A park never learns from its list where an invited driver works: every invitation it gets was made
  by a park of the actor, without the driver's present park; a driver's list holds only invitations
  to his own driver account.
\<close>

theorem List_invites_private:
  assumes "List_invites actor park s = (Inr rows, t)" "invite \<in> set rows"
  shows "(park \<longrightarrow> inv_FromTaxiParkID invite = None \<and> inv_FromTaxiParkName invite = []
            \<and> inv_ToTaxiParkID invite \<in> set (actor_parks (db s) actor))
    \<and> (\<not> park \<longrightarrow> (\<exists>dr \<in> set (drivers (db s)). drv_UserID dr = actor \<and> drv_ID dr = inv_DriverID invite))"
proof -
  from assms(1) obtain raw where raw: "List_repository actor park s = (Inr raw, t)"
    "rows = map (listed_invite park (clock t)) raw"
    unfolding List_invites_def by (auto simp: Inr_simps elim!: bind_Inr)
  from assms(2) raw(2) obtain v where v: "v \<in> set raw" "invite = listed_invite park (clock t) v" by auto
  have same: "inv_ToTaxiParkID invite = inv_ToTaxiParkID v" "inv_DriverID invite = inv_DriverID v"
    by (simp_all add: v(2) listed_invite_def Let_def)
  from raw(1) obtain s1 b w where tx: "db s1 = db s" "(if park
        then bind (ActorPark actor) (\<lambda>target. query (\<lambda>now d. Inr (take 200 (newest_first
               (filter (\<lambda>inv. inv_ToTaxiParkID inv = ipk_ID target) (selected_invites d))))))
        else query (\<lambda>now d. Inr (take 200 (newest_first (map fst (filter
               (\<lambda>(inv, dr, u). usr_ID u = actor \<and> usr_IsActive u \<and> usr_DeletedAt u = None
                  \<and> drv_DeletedAt dr = None) (invite_select d))))))) s1 = (Inr raw, w)"
    unfolding List_repository_def by (elim db_transaction_Inr bind_Inr) (auto simp: Inr_simps)
  show ?thesis
  proof (cases park)
    case True
    with tx(2) obtain target s2 where t: "ActorPark actor s1 = (Inr target, s2)"
      "query (\<lambda>now d. Inr (take 200 (newest_first
         (filter (\<lambda>inv. inv_ToTaxiParkID inv = ipk_ID target) (selected_invites d))))) s2 = (Inr raw, w)"
      by (auto elim!: bind_Inr)
    have "inv_ToTaxiParkID v = ipk_ID target"
      using t(2) v(1) by (auto simp: newest_first_def elim!: query_Inr dest!: in_set_takeD)
    moreover have "ipk_ID target \<in> set (actor_parks (db s1) actor)"
      by (rule ActorPark_Inr [OF t(1)])
    ultimately show ?thesis using True v(2) same tx(1) by (simp add: listed_invite_def Let_def)
  next
    case False
    with tx(2) v(1) obtain dr u where "(v, dr, u) \<in> set (invite_select (db s1))" "usr_ID u = actor"
      by (auto simp: newest_first_def elim!: query_Inr dest!: in_set_takeD intro: that)
    then show ?thesis
      using False same tx(1) by (auto simp: invite_select_def)
  qed
qed

section \<open>Witnesses\<close>

text \<open>Driver 3 of park 7 rests; park 11, which belongs to user 110, has invited him.\<close>

definition sample_invite :: driver_park_invite where
  "sample_invite =
     \<lparr>inv_ID = 50, inv_DriverID = 3, inv_FromTaxiParkID = Some 7, inv_ToTaxiParkID = 11,
      inv_FromTaxiParkName = '''', inv_ToTaxiParkName = '''', inv_DriverName = '''',
      inv_Status = DriverParkInvitePending, inv_CreatedByUserID = 110, inv_CreatedAt = 1,
      inv_ExpiresAt = 100, inv_AcceptedAt = None, inv_DeclinedAt = None, inv_CancelledAt = None,
      inv_CancellationReason = ''''\<rparr>"

definition invite_world :: world where
  "invite_world = world_at 50 (empty_db
     \<lparr>users := [sample_user 33 UserRoleDriver, sample_user 110 UserRoleTaxiPark],
      drivers := [sample_driver\<lparr>drv_Status := DriverStatusOffline\<rparr>],
      taxi_parks := [sample_park, sample_park\<lparr>tp_ID := 11, tp_OwnerUserID := 110\<rparr>],
      cars := [sample_car], invites := [sample_invite],
      park_history := [\<lparr>dph_DriverID = 3, dph_TaxiParkID = 7, dph_JoinedAt = 1, dph_LeftAt = None,
        dph_TransferInviteID = None\<rparr>]\<rparr>)"

definition sample_invite_service :: invite_service where
  "sample_invite_service = \<lparr>isv_ttl = seconds 3600, isv_notifier = None\<rparr>"

lemma invite_world_accepts:
  "case Respond postgres_invites sample_invite_service 33 50 DriverParkInviteAccepted invite_world of
     (Inr result, t) \<Rightarrow> True | _ \<Rightarrow> False"
  by code_simp


lemma invite_world_ok: "roster_ok (db invite_world)" "books_balanced (db invite_world)"
proof -
  show "roster_ok (db invite_world)" by code_simp
  show "books_balanced (db invite_world)"
    by (simp add: invite_world_def world_at_def empty_db_def books_balanced_def accounts_ok_def
        driver_account_def park_account_def sample_park_def total_def)
qed

theorem invites_keep_platform_witness:
  "roster_ok (db (snd (Respond postgres_invites sample_invite_service 33 50
     DriverParkInviteAccepted invite_world)))"
  using invites_keep_platform [OF invite_world_ok, of _ sample_invite_service] by blast

theorem List_invites_private_witness:
  "\<exists>invite t. List_invites 110 True invite_world = (Inr [invite], t) \<and> inv_FromTaxiParkID invite = None"
proof -
  have "case List_invites 110 True invite_world of (Inr [invite], t) \<Rightarrow> True | _ \<Rightarrow> False" by code_simp
  then obtain invite t where run: "List_invites 110 True invite_world = (Inr [invite], t)"
    by (cases "List_invites 110 True invite_world") (auto split: sum.splits list.splits)
  then show ?thesis using List_invites_private [OF run, of invite] by simp
qed

end
