(* ===== verification/Park_Store.thy ===== *)
theory Park_Store
  imports Invite_Store Scheduled Order_Service "HOL-Library.Product_Lexorder"
begin

text \<open>
  The orders that a taxi park takes by telephone and the settings it takes them under: the statements
  of \<^verbatim>\<open>internal/repository/taxi_park_settings_repository.go\<close> about orders, with
  \<^verbatim>\<open>order_tariff_reader.go\<close>.  The park of a request is the one that its user owns or works for.  The
  length limits of text columns are not modelled.
\<close>

section \<open>The park of a user\<close>

definition no_rows_is :: "sentinel \<Rightarrow> (world, 'a) op \<Rightarrow> (world, 'a) op" where
  "no_rows_is known m =
     catching m (\<lambda>r. case r of
        Inl e \<Rightarrow> if errors_Is e (Infra ErrNoRows) then fail [known] else fail e
      | Inr a \<Rightarrow> ret a)"

lemma keeps_no_rows_is [keeps_intros]: "keeps I m \<Longrightarrow> keeps I (no_rows_is e m)"
  unfolding no_rows_is_def by (intro keeps_intros)

lemma no_rows_is_Inr: "no_rows_is e m s = (Inr a, t) \<longleftrightarrow> m s = (Inr a, t)"
  by (auto simp: no_rows_is_def catching_def Inr_simps split: sum.splits prod.splits if_splits)

definition parks_owned :: "db \<Rightarrow> uuid \<Rightarrow> taxi_park_row list" where
  "parks_owned d owner = filter (\<lambda>tp. tp_OwnerUserID tp = owner \<and> tp_DeletedAt tp = None) (taxi_parks d)"

text \<open>
  The \<^verbatim>\<open>UNION\<close> of the parks that the user owns and of those where he is active staff.  Which row
  \<^verbatim>\<open>LIMIT 1\<close> leaves is not specified by the statement; the model takes an own park first.
\<close>

definition parks_of_actor :: "db \<Rightarrow> uuid \<Rightarrow> taxi_park_row list" where
  "parks_of_actor d actor = parks_owned d actor
     @ [tp. st \<leftarrow> taxi_park_staff d, tp \<leftarrow> taxi_parks d,
          tp_ID tp = stf_TaxiParkID st \<and> stf_UserID st = actor \<and> stf_IsActive st
          \<and> stf_DeletedAt st = None \<and> stf_Role st \<in> {UserRoleDispatcher, UserRoleTaxiPark}
          \<and> tp_DeletedAt tp = None]"

definition taxiParkIDByOwner :: "uuid \<Rightarrow> (world, uuid) op" where
  "taxiParkIDByOwner owner = no_rows_is (Service ErrTaxiParkNotFound)
     (query (\<lambda>_ d. one_row (map tp_ID (parks_owned d owner))))"

definition taxiParkIDByActor :: "uuid \<Rightarrow> (world, uuid) op" where
  "taxiParkIDByActor actor = no_rows_is (Service ErrTaxiParkNotFound)
     (query (\<lambda>_ d. one_row (map tp_ID (parks_of_actor d actor))))"

definition taxiParkIDAndCityByActor :: "uuid \<Rightarrow> (world, uuid \<times> uuid) op" where
  "taxiParkIDAndCityByActor actor = no_rows_is (Service ErrTaxiParkNotFound)
     (query (\<lambda>_ d. one_row (map (\<lambda>tp. (tp_ID tp, tp_CityID tp)) (parks_of_actor d actor))))"

text \<open>The settings of that park.\<close>

definition GetSettingsByActorUserID :: "uuid \<Rightarrow> (world, taxi_park_settings) op" where
  "GetSettingsByActorUserID actor = no_rows_is (Service ErrTaxiParkNotFound)
     (bind (query (\<lambda>_ d. one_row
        [s. tp \<leftarrow> take 1 (parks_of_actor d actor), s \<leftarrow> park_settings d, set_TaxiParkID s = tp_ID tp]))
      (\<lambda>row. lift (scanTaxiParkSettings row)))"

section \<open>The tariff of an order\<close>

definition live_global_tariff :: "uuid \<Rightarrow> global_tariff_row \<Rightarrow> bool" where
  "live_global_tariff tariffID g \<longleftrightarrow> gtf_ID g = tariffID \<and> gtf_IsActive g \<and> gtf_DeletedAt g = None"

definition roubles :: "int \<Rightarrow> money" where
  "roubles amount = \<lparr>Amount = amount, Currency = ''RUB''\<rparr>"

text \<open>\<^verbatim>\<open>domain.TaxiParkTariff{ID: .., PricingMode: distance, IsActive: true}\<close> with the prices of the row.\<close>

definition distance_tariff :: "global_tariff_row \<Rightarrow> tariff" where
  "distance_tariff g =
     \<lparr>trf_ID = gtf_ID g, trf_TaxiParkID = uuid_Nil, trf_CarClassID = None, trf_Name = [],
      trf_Description = [], trf_PricingMode = PricingModeDistance, trf_FareMode = FareModeOther [],
      trf_Priority = 0, trf_BasePrice = roubles (gtf_BasePrice g),
      trf_FixedPrice = \<lparr>Amount = 0, Currency = []\<rparr>, trf_PricePerKM = roubles (gtf_PricePerKM g),
      trf_PricePerMinute = \<lparr>Amount = 0, Currency = []\<rparr>,
      trf_MinimumPrice = roubles (gtf_MinimumPrice g), trf_FixedRoutes = [], trf_IsActive = True,
      trf_CreatedAt = 0, trf_UpdatedAt = 0\<rparr>"

definition park_tariffs :: "db \<Rightarrow> uuid \<Rightarrow> uuid \<Rightarrow> tariff list" where
  "park_tariffs d parkID tariffID =
     filter (\<lambda>t. trf_ID t = tariffID \<and> trf_TaxiParkID t = parkID \<and> trf_IsActive t) (tariffs d)"

definition read_global_tariff :: "uuid \<Rightarrow> (world, global_tariff_row) op" where
  "read_global_tariff tariffID = no_rows_is (Service ErrOrderTariffNotFound)
     (query (\<lambda>_ d. one_row (filter (live_global_tariff tariffID) (global_tariffs d))))"

definition GetOrderTariff :: "uuid \<Rightarrow> uuid \<Rightarrow> (world, tariff) op" where
  "GetOrderTariff actor tariffID = db_transaction
     (bind (taxiParkIDByActor actor) (\<lambda>parkID.
      catching (query (\<lambda>_ d. one_row (map in_roubles_tariff (park_tariffs d parkID tariffID)))) (\<lambda>r.
        case r of
          Inr t \<Rightarrow> ret (True, t)
        | Inl e \<Rightarrow>
            if errors_Is e (Infra ErrNoRows)
            then bind (read_global_tariff tariffID) (\<lambda>g. ret (True, distance_tariff g))
            else fail e)))"

text \<open>Which of the two tables the identifier names, with the base, kilometre and minimum prices.\<close>

definition resolveOrderTariff ::
  "uuid \<Rightarrow> uuid \<Rightarrow> (world, uuid option \<times> uuid option \<times> int \<times> int \<times> int) op" where
  "resolveOrderTariff parkID tariffID =
     catching (query (\<lambda>_ d. one_row (park_tariffs d parkID tariffID))) (\<lambda>r.
       case r of
         Inr t \<Rightarrow> ret (None, Some (trf_ID t), Amount (trf_BasePrice t), Amount (trf_PricePerKM t),
                     Amount (trf_MinimumPrice t))
       | Inl e \<Rightarrow>
           if errors_Is e (Infra ErrNoRows)
           then bind (read_global_tariff tariffID) (\<lambda>g.
                  ret (Some (gtf_ID g), None, gtf_BasePrice g, gtf_PricePerKM g, gtf_MinimumPrice g))
           else fail e)"

definition snapshotPriceCents :: "order_pricing_snapshot option \<Rightarrow> int option" where
  "snapshotPriceCents snapshot =
     (case snapshot of
        None \<Rightarrow> None
      | Some sn \<Rightarrow> if \<not> ops_PriceAvailable sn then None else map_option Amount (ops_EstimatedPrice sn))"

section \<open>The passenger of an order\<close>

text \<open>\<^verbatim>\<open>INSERT .. ON CONFLICT (phone) DO UPDATE ..\<close>; a deleted passenger keeps its telephone number.\<close>

definition new_passenger :: "uuid \<Rightarrow> string \<Rightarrow> string \<Rightarrow> time \<Rightarrow> passenger" where
  "new_passenger newID phone name now =
     \<lparr>psg_ID = newID, psg_Phone = phone, psg_Name = name, psg_Email = [], psg_AvatarURL = [],
      psg_IsActive = True, psg_PhoneVerifiedAt = Some now, psg_LastLoginAt = None,
      psg_CreatedAt = now, psg_UpdatedAt = now, psg_DeletedAt = None\<rparr>"

definition upsert_passenger :: "uuid \<Rightarrow> string \<Rightarrow> string \<Rightarrow> time \<Rightarrow> db \<Rightarrow> (error + uuid) \<times> db" where
  "upsert_passenger newID phone name now d =
     (case find (\<lambda>p. psg_Phone p = phone) (passengers d) of
        Some p \<Rightarrow>
          (Inr (psg_ID p),
           d\<lparr>passengers := sql_update (\<lambda>q. psg_Phone q = phone)
               (\<lambda>q. q\<lparr>psg_Name := (if name = [] then psg_Name q else name), psg_UpdatedAt := now\<rparr>)
               (passengers d)\<rparr>)
      | None \<Rightarrow>
          if list_ex (\<lambda>p. psg_ID p = newID) (passengers d) then (Inl [Infra ErrUniqueViolation], d)
          else (Inr newID, d\<lparr>passengers := passengers d @ [new_passenger newID phone name now]\<rparr>))"

text \<open>Without a telephone number the order is taken in the name of the owner of the park.\<close>

definition resolveTaxiParkOrderPassenger :: "time \<Rightarrow> uuid \<Rightarrow> string \<Rightarrow> string \<Rightarrow> (world, uuid) op" where
  "resolveTaxiParkOrderPassenger now parkID passengerPhone passengerName =
     bind (if passengerPhone = []
           then no_rows_is (Service ErrTaxiParkNotFound) (query (\<lambda>_ d. one_row
             [(usr_Phone u, full_name u). tp \<leftarrow> taxi_parks d, u \<leftarrow> users d,
                usr_ID u = tp_OwnerUserID tp \<and> tp_ID tp = parkID \<and> tp_DeletedAt tp = None]))
           else ret (passengerPhone, passengerName)) (\<lambda>(phone, name).
     bind uuid_New (\<lambda>newID. sql (\<lambda>_. upsert_passenger newID phone name now)))"

section \<open>New orders\<close>

text \<open>\<^verbatim>\<open>estimated_price NUMERIC(12,2)\<close>: at most ten digits before the point.\<close>

definition numeric_12_2 :: "money option \<Rightarrow> bool" where
  "numeric_12_2 price = (case price of None \<Rightarrow> True | Some m \<Rightarrow> \<bar>Amount m\<bar> < 10 ^ 12)"

definition price_non_negative :: "order_row \<Rightarrow> bool" where
  "price_non_negative r \<longleftrightarrow>
     (case ord_EstimatedPrice r of None \<Rightarrow> True | Some m \<Rightarrow> 0 \<le> Amount m)
     \<and> (case ord_FinalPrice r of None \<Rightarrow> True | Some m \<Rightarrow> 0 \<le> Amount m)"

definition insert_order :: "order_row \<Rightarrow> db \<Rightarrow> (error + order_row) \<times> db" where
  "insert_order row d =
     (if \<not> numeric_12_2 (ord_EstimatedPrice row) then (Inl [Infra ErrNumericOutOfRange], d)
      else if \<not> (order_checks row \<and> price_non_negative row) then (Inl [Infra ErrCheckViolation], d)
      else if \<not> orders_unique (orders d @ [row]) then (Inl [Infra ErrUniqueViolation], d)
      else (Inr row, d\<lparr>orders := orders d @ [row]\<rparr>))"

text \<open>\<^verbatim>\<open>COALESCE\<close> of the class of the tariff and of the class \<open>economy\<close>.\<close>

definition order_car_class :: "db \<Rightarrow> uuid option \<Rightarrow> uuid option" where
  "order_car_class d parkTariffID =
     (case find (\<lambda>t. Some (trf_ID t) = parkTariffID \<and> trf_CarClassID t \<noteq> None) (tariffs d) of
        Some t \<Rightarrow> trf_CarClassID t
      | None \<Rightarrow> map_option ccl_ID (find (\<lambda>c. ccl_Code c = ''economy'' \<and> ccl_IsActive c
                   \<and> ccl_DeletedAt c = None) (car_classes d)))"

record create_order_record =
  cor_PricingSnapshot :: "order_pricing_snapshot option"
  cor_PassengerPhone :: string
  cor_PassengerName :: string
  cor_TariffID :: uuid
  cor_PickupAddress :: string
  cor_PickupLocation :: coordinates
  cor_DestinationAddress :: string
  cor_DestinationLocation :: "coordinates option"
  cor_PaymentMethod :: payment_method
  cor_Comment :: string

record create_scheduled_order_record = create_order_record +
  csr_ScheduledAt :: time
  csr_Timezone :: string
  csr_PreassignedDriverID :: "uuid option"

text \<open>
  The columns of the statement, with the defaults of the table for those it does not name: an order of
  the type \<open>instant\<close>, metered, without a driver.
\<close>

definition park_order_row ::
  "uuid \<Rightarrow> time \<Rightarrow> db \<Rightarrow> uuid \<Rightarrow> uuid \<Rightarrow> uuid \<Rightarrow> uuid option \<Rightarrow> uuid option \<Rightarrow>
   'x create_order_record_scheme \<Rightarrow> order_row" where
  "park_order_row newID now d parkID cityID passengerID orderTariffID parkTariffID record =
     \<lparr>ord_ID = newID, ord_PassengerID = passengerID, ord_CreatedByRole = UserRoleTaxiPark,
      ord_DriverID = None, ord_Driver = None, ord_Passenger = None, ord_CarID = None,
      ord_ParkID = None, ord_PreassignedDriverID = None, ord_CityID = cityID,
      ord_TariffID = orderTariffID, ord_AssignedTariffID = None,
      ord_CarClassID = order_car_class d parkTariffID, ord_Status = OrderStatusSearching,
      ord_OrderType = OrderTypeInstant, ord_ScheduledStatus = None,
      ord_PickupAddress = cor_PickupAddress record, ord_PickupEntrance = [], ord_PickupComment = [],
      ord_PickupLocation = cor_PickupLocation record,
      ord_DestinationAddress = cor_DestinationAddress record,
      ord_DestinationLocation = cor_DestinationLocation record, ord_ScheduledAt = None,
      ord_ActivationAt = None, ord_ScheduledTimezone = [], ord_RequestedAt = now,
      ord_AcceptedAt = None, ord_StartedAt = None, ord_CompletedAt = None, ord_CancelledAt = None,
      ord_ActivatedAt = None, ord_ScheduledCancelledAt = None, ord_ScheduledExpiredAt = None,
      ord_CancellationReason = [], ord_ScheduledCancelReason = [],
      ord_EstimatedPrice = map_option roubles (snapshotPriceCents (cor_PricingSnapshot record)),
      ord_FinalPrice = None, ord_FareMode = FareModeMetered, ord_PriceConfirmationState = [],
      ord_ProposedPriceCents = None, ord_AgreedPriceCents = None,
      ord_PriceConfirmationExpiresAt = None, ord_DeclinedDriverIDs = [],
      ord_ActualDistanceMeters = None, ord_ActualDurationSeconds = None,
      ord_PaymentMethod = cor_PaymentMethod record, ord_PassengerComment = cor_Comment record,
      ord_PassengerLocationSharingEnabled = False, ord_DispatchAttempt = 0,
      ord_ScheduledCreatedBy = None, ord_Version = 1, ord_CreatedAt = now, ord_UpdatedAt = now,
      ord_DeletedAt = None, meta_taxi_park_id = Some parkID,
      meta_route_distance_meters =
        Option.bind (cor_PricingSnapshot record) ops_RouteDistanceMeters,
      meta_route_duration_seconds =
        Option.bind (cor_PricingSnapshot record) ops_RouteDurationSeconds,
      meta_assigned_tariff = None\<rparr>"

text \<open>The events of a new order, in one statement.\<close>

definition created_events :: "uuid \<Rightarrow> time \<Rightarrow> order \<Rightarrow> order_event list" where
  "created_events actor now o1 =
     [\<lparr>oev_OrderID = ord_ID o1, oev_ActorUserID = Some actor, oev_ActorDriverID = None,
       oev_EventType = OrderEventCreated,
       oev_Payload = [(''order_id'', PUuid (ord_ID o1)), (''status'', PStr ''created'')],
       oev_CreatedAt = now\<rparr>,
      \<lparr>oev_OrderID = ord_ID o1, oev_ActorUserID = Some actor, oev_ActorDriverID = None,
       oev_EventType = OrderEventSearching,
       oev_Payload = [(''order_id'', PUuid (ord_ID o1)), (''status'', PStr ''searching''),
         (''version'', PInt (ord_Version o1))],
       oev_CreatedAt = now\<rparr>]"

definition append_events :: "order_event list \<Rightarrow> db \<Rightarrow> (error + unit) \<times> db" where
  "append_events events d = (Inr (), d\<lparr>order_events := order_events d @ events\<rparr>)"

definition CreateOrderByOwnerUserID :: "uuid \<Rightarrow> create_order_record \<Rightarrow> (world, order) op" where
  "CreateOrderByOwnerUserID actor record = db_transaction
     (bind time_Now (\<lambda>now.
      bind (taxiParkIDAndCityByActor actor) (\<lambda>(parkID, cityID).
      bind (resolveTaxiParkOrderPassenger now parkID (cor_PassengerPhone record) (cor_PassengerName record))
        (\<lambda>passengerID.
      bind (resolveOrderTariff parkID (cor_TariffID record)) (\<lambda>(orderTariffID, parkTariffID, _, _, _).
      bind uuid_New (\<lambda>newID.
      bind (sql (\<lambda>_ d. insert_order
          (park_order_row newID now d parkID cityID passengerID orderTariffID parkTariffID record) d))
        (\<lambda>row.
      bind (lift (scanDispatchOrder row)) (\<lambda>o1.
      andthen (sql (\<lambda>_. append_events (created_events actor now o1)))
        (ret (True, o1))))))))))"

section \<open>Events\<close>

definition park_order_event ::
  "time \<Rightarrow> uuid \<Rightarrow> order \<Rightarrow> order_event_type \<Rightarrow> payload \<Rightarrow> order_event" where
  "park_order_event now actor o1 eventType body =
     \<lparr>oev_OrderID = ord_ID o1, oev_ActorUserID = Some actor, oev_ActorDriverID = ord_DriverID o1,
      oev_EventType = eventType, oev_Payload = body, oev_CreatedAt = now\<rparr>"

definition insertTaxiParkOrderEvent ::
  "time \<Rightarrow> order \<Rightarrow> uuid \<Rightarrow> order_event_type \<Rightarrow> payload \<Rightarrow> (world, unit) op" where
  "insertTaxiParkOrderEvent now o1 actor eventType body =
     sql (\<lambda>_. append_events [park_order_event now actor o1 eventType body])"

definition PTimeOption :: "time option \<Rightarrow> payload_value" where
  "PTimeOption x = (case x of None \<Rightarrow> PNull | Some t \<Rightarrow> PTime t)"

section \<open>Orders for later\<close>

definition ensureDriverBelongsToTaxiPark :: "uuid \<Rightarrow> uuid \<Rightarrow> (world, unit) op" where
  "ensureDriverBelongsToTaxiPark parkID driverID =
     bind (no_rows_is (Service ErrTaxiParkResourceNotFound)
       (query (\<lambda>_ d. one_row (filter (\<lambda>dr. drv_ID dr = driverID \<and> drv_TaxiParkID dr = Some parkID
          \<and> drv_DeletedAt dr = None) (drivers d))))) (\<lambda>_. done_op)"

definition settings_row :: "uuid \<Rightarrow> (world, taxi_park_settings) op" where
  "settings_row parkID =
     query (\<lambda>_ d. one_row (filter (\<lambda>s. set_TaxiParkID s = parkID) (park_settings d)))"

definition scheduled_order_row ::
  "uuid \<Rightarrow> time \<Rightarrow> db \<Rightarrow> uuid \<Rightarrow> uuid \<Rightarrow> uuid \<Rightarrow> uuid option \<Rightarrow> uuid option \<Rightarrow> uuid \<Rightarrow> time \<Rightarrow>
   create_scheduled_order_record \<Rightarrow> order_row" where
  "scheduled_order_row newID now d parkID cityID passengerID orderTariffID parkTariffID actor activationAt
     record =
     (park_order_row newID now d parkID cityID passengerID orderTariffID parkTariffID record)
       \<lparr>ord_DriverID := csr_PreassignedDriverID record,
        ord_PreassignedDriverID := csr_PreassignedDriverID record,
        ord_Status := OrderStatusCreated, ord_OrderType := OrderTypeScheduled,
        ord_ScheduledStatus := Some (if csr_PreassignedDriverID record = None
          then ScheduledOrderStatusConfirmed else ScheduledOrderStatusDriverAssigned),
        ord_ScheduledAt := Some (csr_ScheduledAt record), ord_ActivationAt := Some activationAt,
        ord_ScheduledTimezone := csr_Timezone record, ord_ScheduledCreatedBy := Some actor\<rparr>"

definition scheduled_created_payload :: "order \<Rightarrow> payload" where
  "scheduled_created_payload o1 =
     [(''order_id'', PUuid (ord_ID o1)), (''order_type'', PStr ''scheduled''),
      (''scheduled_status'', case ord_ScheduledStatus o1 of
          None \<Rightarrow> PNull | Some st \<Rightarrow> PStr (scheduled_status_text st)),
      (''scheduled_at'', PTimeOption (ord_ScheduledAt o1)),
      (''activation_at'', PTimeOption (ord_ActivationAt o1)),
      (''preassigned_driver_id'', case ord_PreassignedDriverID o1 of None \<Rightarrow> PNull | Some i \<Rightarrow> PUuid i)]"

definition CreateScheduledOrderByActorUserID ::
  "uuid \<Rightarrow> create_scheduled_order_record \<Rightarrow> (world, order) op" where
  "CreateScheduledOrderByActorUserID actor record = db_transaction
     (bind time_Now (\<lambda>now.
      bind (taxiParkIDAndCityByActor actor) (\<lambda>(parkID, cityID).
      bind (settings_row parkID) (\<lambda>settings.
      if \<not> set_ScheduledOrdersEnabled settings then fail [Service ErrScheduledOrdersDisabled] else
      andthen (case csr_PreassignedDriverID record of
          None \<Rightarrow> done_op
        | Some driverID \<Rightarrow>
            if \<not> set_AllowScheduledDriverPreassignment settings then fail [Service ErrInvalidScheduledOrder]
            else ensureDriverBelongsToTaxiPark parkID driverID)
      (bind (resolveTaxiParkOrderPassenger now parkID (cor_PassengerPhone record) (cor_PassengerName record))
        (\<lambda>passengerID.
      bind (resolveOrderTariff parkID (cor_TariffID record)) (\<lambda>(orderTariffID, parkTariffID, _, _, _).
      bind uuid_New (\<lambda>newID.
      bind (sql (\<lambda>_ d. insert_order
          (scheduled_order_row newID now d parkID cityID passengerID orderTariffID parkTariffID actor
             (csr_ScheduledAt record - minutes (set_ScheduledActivationBeforeMinutes settings)) record) d))
        (\<lambda>row.
      bind (lift (scanDispatchOrder row)) (\<lambda>o1.
      andthen (insertTaxiParkOrderEvent now o1 actor OrderEventCreated (scheduled_created_payload o1))
        (ret (True, o1))))))))))))"

definition of_park :: "uuid \<Rightarrow> order_row \<Rightarrow> bool" where
  "of_park parkID r \<longleftrightarrow> meta_taxi_park_id r = Some parkID \<and> ord_DeletedAt r = None"

definition scheduled_of_park :: "uuid \<Rightarrow> order_row \<Rightarrow> bool" where
  "scheduled_of_park parkID r \<longleftrightarrow> of_park parkID r \<and> ord_OrderType r = OrderTypeScheduled"

text \<open>\<^verbatim>\<open>ORDER BY scheduled_at ASC, created_at DESC\<close>; a missing instant comes last.\<close>

definition scheduled_before :: "order_row \<Rightarrow> bool \<times> int \<times> int" where
  "scheduled_before r = (case ord_ScheduledAt r of
      None \<Rightarrow> (True, 0, - ord_CreatedAt r) | Some t \<Rightarrow> (False, t, - ord_CreatedAt r))"

definition ListScheduledOrdersByActorUserID :: "uuid \<Rightarrow> (world, order list) op" where
  "ListScheduledOrdersByActorUserID actor = db_transaction
     (bind (taxiParkIDByActor actor) (\<lambda>parkID.
      bind (query (\<lambda>_ d. Inr (sort_key scheduled_before (filter (scheduled_of_park parkID) (orders d)))))
       (\<lambda>rows.
      bind (collect rows (\<lambda>row. bind (lift (scanDispatchOrder row)) (\<lambda>o1. ret [o1]))) (\<lambda>found.
        ret (True, found)))))"

definition scheduledTaxiParkOrderForUpdate :: "uuid \<Rightarrow> uuid \<Rightarrow> (world, order) op" where
  "scheduledTaxiParkOrderForUpdate parkID orderID = no_rows_is (Service ErrTaxiParkResourceNotFound)
     (bind (query (\<lambda>_ d. one_row (filter (\<lambda>r. ord_ID r = orderID \<and> scheduled_of_park parkID r) (orders d))))
       (\<lambda>row. lift (scanDispatchOrder row)))"

definition GetScheduledOrderByActorUserID :: "uuid \<Rightarrow> uuid \<Rightarrow> (world, order) op" where
  "GetScheduledOrderByActorUserID actor orderID = db_transaction
     (bind (taxiParkIDByActor actor) (\<lambda>parkID.
      bind (scheduledTaxiParkOrderForUpdate parkID orderID) (\<lambda>o1. ret (True, o1))))"

text \<open>
  \<^verbatim>\<open>UPDATE orders .. FROM order_points p .. RETURNING .. ST_Y(pickup_location::geometry) ..\<close>: both the
  table and \<open>order_points\<close> have a column \<open>pickup_location\<close>, so PostgreSQL refuses the statement as
  ambiguous before it looks at a row.  The two statements that change an order in place are of that form.
\<close>

definition ambiguous_column :: error where
  "ambiguous_column = [Msg ''column reference pickup_location is ambiguous'']"

definition update_order_in_place :: "(world, order) op" where
  "update_order_in_place = sql (\<lambda>_ d. (Inl ambiguous_column, d))"

record update_order_record =
  uor_PickupAddress :: "string option"
  uor_PickupLocation :: "coordinates option"
  uor_DestinationAddress :: "string option"
  uor_DestinationLocation :: "coordinates option"
  uor_PaymentMethod :: "payment_method option"
  uor_Comment :: "string option"

record update_scheduled_order_record = update_order_record +
  uso_ScheduledAt :: "time option"
  uso_Timezone :: "string option"
  uso_PreassignedDriverID :: "uuid option"

definition terminal_schedule :: "order \<Rightarrow> bool" where
  "terminal_schedule o1 = (case ord_ScheduledStatus o1 of
      None \<Rightarrow> True | Some st \<Rightarrow> ScheduledOrderStatus_IsTerminal st)"

definition UpdateScheduledOrderByActorUserID ::
  "uuid \<Rightarrow> uuid \<Rightarrow> update_scheduled_order_record \<Rightarrow> (world, order) op" where
  "UpdateScheduledOrderByActorUserID actor orderID record = db_transaction
     (bind (taxiParkIDByActor actor) (\<lambda>parkID.
      bind (scheduledTaxiParkOrderForUpdate parkID orderID) (\<lambda>currentOrder.
      if terminal_schedule currentOrder then fail [Domain ErrInvalidOrderStatusTransition] else
      bind (settings_row parkID) (\<lambda>settings.
      andthen (case uso_PreassignedDriverID record of
          None \<Rightarrow> done_op | Some driverID \<Rightarrow> ensureDriverBelongsToTaxiPark parkID driverID)
      (bind update_order_in_place (\<lambda>o1. ret (True, o1)))))))"

definition AssignScheduledOrderDriverByActorUserID :: "uuid \<Rightarrow> uuid \<Rightarrow> uuid \<Rightarrow> (world, order) op" where
  "AssignScheduledOrderDriverByActorUserID actor orderID driverID =
     UpdateScheduledOrderByActorUserID actor orderID
       \<lparr>uor_PickupAddress = None, uor_PickupLocation = None, uor_DestinationAddress = None,
        uor_DestinationLocation = None, uor_PaymentMethod = None, uor_Comment = None,
        uso_ScheduledAt = None, uso_Timezone = None, uso_PreassignedDriverID = Some driverID\<rparr>"

text \<open>One row of a version, updated and read back.\<close>

definition update_order_row ::
  "uuid \<Rightarrow> int \<Rightarrow> (order_row \<Rightarrow> bool) \<Rightarrow> (order_row \<Rightarrow> order_row) \<Rightarrow> time \<Rightarrow> (world, order) op" where
  "update_order_row orderID version P f now =
     bind (sql (\<lambda>_. update_orders_returning
        (\<lambda>r. ord_ID r = orderID \<and> ord_Version r = version \<and> P r \<and> ord_DeletedAt r = None) f now)) (\<lambda>rows.
     bind (lift (one_row rows)) (\<lambda>row. lift (scanDispatchOrder row)))"

definition schedule_cancelled_row :: "time \<Rightarrow> string \<Rightarrow> order_row \<Rightarrow> order_row" where
  "schedule_cancelled_row now reason r =
     r\<lparr>ord_ScheduledStatus := Some ScheduledOrderStatusCancelled, ord_ScheduledCancelReason := reason,
       ord_ScheduledCancelledAt := Some now, ord_Version := ord_Version r + 1\<rparr>"

definition CancelScheduledOrderByActorUserID :: "uuid \<Rightarrow> uuid \<Rightarrow> string \<Rightarrow> (world, order) op" where
  "CancelScheduledOrderByActorUserID actor orderID reason = db_transaction
     (bind time_Now (\<lambda>started.
      bind (taxiParkIDByActor actor) (\<lambda>parkID.
      bind (scheduledTaxiParkOrderForUpdate parkID orderID) (\<lambda>currentOrder.
      if terminal_schedule currentOrder then fail [Domain ErrInvalidOrderStatusTransition] else
      bind time_Now (\<lambda>now.
      bind (update_order_row orderID (ord_Version currentOrder) (\<lambda>_. True)
         (schedule_cancelled_row now reason) started) (\<lambda>o1.
      andthen (insertTaxiParkOrderEvent started o1 actor OrderEventCancelled
        [(''order_id'', PUuid (ord_ID o1)), (''scheduled_status'', PStr ''scheduled_cancelled''),
         (''scheduled_cancel_reason'', PStr reason)])
        (ret (True, o1))))))))"

section \<open>Orders of a park\<close>

definition taxiParkOrderForUpdate :: "uuid \<Rightarrow> uuid \<Rightarrow> (world, order) op" where
  "taxiParkOrderForUpdate parkID orderID = no_rows_is (Service ErrTaxiParkResourceNotFound)
     (bind (query (\<lambda>_ d. one_row (filter (\<lambda>r. ord_ID r = orderID \<and> of_park parkID r) (orders d))))
       (\<lambda>row. lift (scanDispatchOrder row)))"

text \<open>The \<^verbatim>\<open>LEFT JOIN\<close>s of the participants.\<close>

definition order_driver :: "db \<Rightarrow> order_row \<Rightarrow> order_participant option" where
  "order_driver d r = map_option (\<lambda>dr.
       (case find (\<lambda>u. usr_ID u = drv_UserID dr \<and> usr_DeletedAt u = None) (users d) of
          None \<Rightarrow> \<lparr>part_ID = drv_ID dr, part_Name = [], part_Phone = []\<rparr>
        | Some u \<Rightarrow> \<lparr>part_ID = drv_ID dr, part_Name = full_name u, part_Phone = usr_Phone u\<rparr>))
     (find (\<lambda>dr. ord_DriverID r = Some (drv_ID dr) \<and> drv_DeletedAt dr = None) (drivers d))"

definition order_passenger :: "db \<Rightarrow> order_row \<Rightarrow> order_participant option" where
  "order_passenger d r = map_option (\<lambda>p.
       \<lparr>part_ID = psg_ID p, part_Name = psg_Name p, part_Phone = psg_Phone p\<rparr>)
     (find (\<lambda>p. psg_ID p = ord_PassengerID r \<and> psg_DeletedAt p = None) (passengers d))"

definition GetOrderByActorUserID :: "uuid \<Rightarrow> uuid \<Rightarrow> (world, order) op" where
  "GetOrderByActorUserID actor orderID = db_transaction
     (bind (taxiParkIDByActor actor) (\<lambda>parkID.
      bind (taxiParkOrderForUpdate parkID orderID) (\<lambda>o1.
      bind (query (\<lambda>_ d. one_row (map (\<lambda>r. (order_driver d r, order_passenger d r))
          (filter (\<lambda>r. ord_ID r = orderID) (orders d))))) (\<lambda>(driver, passenger).
        ret (True, o1\<lparr>ord_Driver := driver, ord_Passenger := passenger\<rparr>)))))"

definition UpdateOrderByActorUserID :: "uuid \<Rightarrow> uuid \<Rightarrow> update_order_record \<Rightarrow> (world, order) op" where
  "UpdateOrderByActorUserID actor orderID record = db_transaction
     (bind (taxiParkIDByActor actor) (\<lambda>parkID.
      bind (taxiParkOrderForUpdate parkID orderID) (\<lambda>currentOrder.
      if OrderStatus_IsTerminal (ord_Status currentOrder) then fail [Domain ErrInvalidOrderStatusTransition]
      else bind update_order_in_place (\<lambda>o1. ret (True, o1)))))"

text \<open>
  The status change of the dashboard.  Its \<^verbatim>\<open>WHERE\<close> asks for status and version; unlike the statement of
  the order service it does not look at the price confirmation.
\<close>

definition park_transitioned_row :: "order_transition \<Rightarrow> order_row \<Rightarrow> order_row" where
  "park_transitioned_row tr r =
     r\<lparr>ord_Status := tr_ToStatus tr, ord_Version := ord_Version r + 1,
       ord_CancelledAt := (if tr_ToStatus tr = OrderStatusCancelled
                           then Some (tr_OccurredAt tr) else ord_CancelledAt r),
       ord_CancellationReason := (if tr_ToStatus tr = OrderStatusCancelled
                                  then tr_Reason tr else ord_CancellationReason r),
       ord_CompletedAt := (if tr_ToStatus tr = OrderStatusCompleted
                           then Some (tr_OccurredAt tr) else ord_CompletedAt r),
       ord_FinalPrice := (if tr_ToStatus tr = OrderStatusCompleted
                          then (case ord_FinalPrice r of None \<Rightarrow> ord_EstimatedPrice r | Some p \<Rightarrow> Some p)
                          else ord_FinalPrice r)\<rparr>"

definition park_transition_payload :: "order_transition \<Rightarrow> order \<Rightarrow> string \<Rightarrow> payload" where
  "park_transition_payload tr o1 reason =
     [(''order_id'', PUuid (ord_ID o1)), (''from_status'', PStr (status_text (tr_FromStatus tr))),
      (''to_status'', PStr (status_text (tr_ToStatus tr))), (''version'', PInt (ord_Version o1)),
      (''reason'', PStr reason), (''occurred_at'', PTime (tr_OccurredAt tr))]"

definition free_order_driver :: "time \<Rightarrow> order \<Rightarrow> (world, unit) op" where
  "free_order_driver now o1 =
     (case ord_DriverID o1 of
        None \<Rightarrow> done_op
      | Some driverID \<Rightarrow>
          bind (sql (\<lambda>_. update_drivers (\<lambda>dr. drv_ID dr = driverID
             \<and> drv_Status dr \<in> {DriverStatusBusy, DriverStatusOnline} \<and> drv_DeletedAt dr = None)
             (\<lambda>dr. dr\<lparr>drv_Status := DriverStatusOnline\<rparr>) now)) (\<lambda>_. done_op))"

definition transitionOrderByActorUserID ::
  "uuid \<Rightarrow> uuid \<Rightarrow> order_status \<Rightarrow> string \<Rightarrow> (world, order) op" where
  "transitionOrderByActorUserID actor orderID toStatus reason = db_transaction
     (bind time_Now (\<lambda>started.
      bind (taxiParkIDByActor actor) (\<lambda>parkID.
      bind (taxiParkOrderForUpdate parkID orderID) (\<lambda>currentOrder.
      bind time_Now (\<lambda>now.
      bind (lift (NewOrderTransition now currentOrder toStatus (Some actor) (ord_DriverID currentOrder)
         reason now)) (\<lambda>tr.
      bind (no_rows_is (Domain ErrInvalidOrderStatusTransition)
         (update_order_row (tr_OrderID tr) (tr_ExpectedVersion tr)
            (\<lambda>r. ord_Status r = tr_FromStatus tr) (park_transitioned_row tr) started)) (\<lambda>o1.
      andthen (insertTaxiParkOrderEvent started o1 actor (EventTypeForOrderStatus toStatus)
         (park_transition_payload tr o1 reason))
      (andthen (if toStatus \<in> {OrderStatusCancelled, OrderStatusCompleted}
                then free_order_driver started o1 else done_op)
        (ret (True, o1))))))))))"

definition CancelOrderByActorUserID :: "uuid \<Rightarrow> uuid \<Rightarrow> string \<Rightarrow> (world, order) op" where
  "CancelOrderByActorUserID actor orderID reason =
     transitionOrderByActorUserID actor orderID OrderStatusCancelled reason"

definition CompleteOrderByActorUserID :: "uuid \<Rightarrow> uuid \<Rightarrow> int \<Rightarrow> (world, order) op" where
  "CompleteOrderByActorUserID actor orderID finalPriceCents =
     transitionOrderByActorUserID actor orderID OrderStatusCompleted []"

section \<open>The order table\<close>

lemma park_reads_keep [keeps_intros]:
  "keeps (on_db P) (taxiParkIDByOwner i)" "keeps (on_db P) (taxiParkIDByActor i)"
  "keeps (on_db P) (taxiParkIDAndCityByActor i)" "keeps (on_db P) (GetSettingsByActorUserID i)"
  "keeps (on_db P) (read_global_tariff i)" "keeps (on_db P) (resolveOrderTariff i j)"
  "keeps (on_db P) (ensureDriverBelongsToTaxiPark i j)" "keeps (on_db P) (settings_row i)"
  "keeps (on_db P) (taxiParkOrderForUpdate i j)" "keeps (on_db P) (scheduledTaxiParkOrderForUpdate i j)"
  "keeps (on_db P) update_order_in_place"
  unfolding taxiParkIDByOwner_def taxiParkIDByActor_def taxiParkIDAndCityByActor_def
    GetSettingsByActorUserID_def read_global_tariff_def resolveOrderTariff_def
    ensureDriverBelongsToTaxiPark_def settings_row_def taxiParkOrderForUpdate_def
    scheduledTaxiParkOrderForUpdate_def update_order_in_place_def
  by (intro keeps_intros keeps_sql; simp)+

lemma park_views_keep [keeps_intros]:
  "keeps (on_db P) (GetOrderTariff i j)" "keeps (on_db P) (ListScheduledOrdersByActorUserID i)"
  "keeps (on_db P) (GetScheduledOrderByActorUserID i j)" "keeps (on_db P) (GetOrderByActorUserID i j)"
  "keeps (on_db P) (UpdateOrderByActorUserID i j u)"
  "keeps (on_db P) (UpdateScheduledOrderByActorUserID i j v)"
  "keeps (on_db P) (AssignScheduledOrderDriverByActorUserID i j k)"
  unfolding GetOrderTariff_def ListScheduledOrdersByActorUserID_def GetScheduledOrderByActorUserID_def
    GetOrderByActorUserID_def UpdateOrderByActorUserID_def UpdateScheduledOrderByActorUserID_def
    AssignScheduledOrderDriverByActorUserID_def
  by (intro keeps_db_transaction keeps_intros keeps_case_product)+

lemma keeps_insert_order:
  assumes "\<And>d. order_wf (row d)"
  shows "keeps (orders_since rows0) (sql (\<lambda>_ d. insert_order (row d) d))"
  by (rule keeps_sql) (use assms in \<open>auto simp: insert_order_def orders_consistent_def good_since_append\<close>)

lemma orders_upsert_passenger [simp]:
  "orders (snd (upsert_passenger newID phone name now d)) = orders d"
  by (simp add: upsert_passenger_def split: option.split)

lemma orders_write_event [simp]: "orders (snd (append_events evs d)) = orders d"
  by (simp add: append_events_def)

lemma new_rows_wf:
  "order_wf (park_order_row newID now d parkID cityID passengerID x y record)"
  "order_wf (scheduled_order_row newID now d parkID cityID passengerID x y actor a record')"
  by (simp_all add: order_wf_def park_order_row_def scheduled_order_row_def driver_active_statuses_def
      driving_statuses_def)

lemma schedule_cancelled_row_good:
  "order_wf r \<Longrightarrow> order_wf (schedule_cancelled_row now reason r)
    \<and> order_evolves r (schedule_cancelled_row now reason r)"
  by (simp add: order_wf_def order_evolves_def schedule_cancelled_row_def)

lemma park_transitioned_row_simps [simp]:
  "ord_Status (park_transitioned_row tr r) = tr_ToStatus tr"
  "ord_DriverID (park_transitioned_row tr r) = ord_DriverID r"
  "ord_FareMode (park_transitioned_row tr r) = ord_FareMode r"
  "ord_PriceConfirmationState (park_transitioned_row tr r) = ord_PriceConfirmationState r"
  "ord_ProposedPriceCents (park_transitioned_row tr r) = ord_ProposedPriceCents r"
  "ord_PriceConfirmationExpiresAt (park_transitioned_row tr r) = ord_PriceConfirmationExpiresAt r"
  "ord_AgreedPriceCents (park_transitioned_row tr r) = ord_AgreedPriceCents r"
  "ord_Version (park_transitioned_row tr r) = ord_Version r + 1"
  "ord_ID (park_transitioned_row tr r) = ord_ID r"
  "ord_PassengerID (park_transitioned_row tr r) = ord_PassengerID r"
  "ord_OrderType (park_transitioned_row tr r) = ord_OrderType r"
  "meta_taxi_park_id (park_transitioned_row tr r) = meta_taxi_park_id r"
  "ord_DeletedAt (park_transitioned_row tr r) = ord_DeletedAt r"
  by (simp_all add: park_transitioned_row_def)

text \<open>The dashboard only ends orders.\<close>

definition ending_transition :: "order_transition \<Rightarrow> bool" where
  "ending_transition tr \<longleftrightarrow> legal_change (tr_FromStatus tr) (tr_ToStatus tr)
     \<and> tr_ToStatus tr \<in> {OrderStatusCancelled, OrderStatusCompleted}"

lemma ending_transition_from:
  "ending_transition tr \<Longrightarrow> tr_ToStatus tr = OrderStatusCompleted \<Longrightarrow>
    tr_FromStatus tr \<in> {OrderStatusInProgress, OrderStatusCompleted}"
  by (cases "tr_FromStatus tr") (auto simp: ending_transition_def legal_change_iff)

lemma park_transitioned_row_good:
  assumes "ending_transition tr" "order_wf r" "ord_Status r = tr_FromStatus tr"
  shows "order_wf (park_transitioned_row tr r) \<and> order_evolves r (park_transitioned_row tr r)"
proof -
  have to: "tr_ToStatus tr \<in> {OrderStatusCancelled, OrderStatusCompleted}"
    and step: "status_step (ord_Status r) (tr_ToStatus tr)"
    using assms(1,3) by (auto simp: ending_transition_def status_step_def)
  have "order_evolves r (park_transitioned_row tr r)" using step by (auto simp: order_evolves_def)
  moreover have "order_wf (park_transitioned_row tr r)"
  proof (cases "tr_ToStatus tr = OrderStatusCancelled")
    case True
    then show ?thesis
      using assms(2) by (simp add: order_wf_def driver_active_statuses_def driving_statuses_def)
  next
    case False
    then have c: "tr_ToStatus tr = OrderStatusCompleted" using to by simp
    have "ord_Status r = OrderStatusInProgress \<or> ord_Status r = OrderStatusCompleted"
      using ending_transition_from [OF assms(1) c] assms(3) by simp
    then show ?thesis
      using assms(2) c
      by (elim disjE) (simp_all add: order_wf_def driver_active_statuses_def driving_statuses_def)
  qed
  ultimately show ?thesis by simp
qed

lemma keeps_update_order_row:
  assumes "\<And>r. order_wf r \<Longrightarrow> P r \<Longrightarrow> order_wf (f r) \<and> order_evolves r (f r)"
  shows "keeps (orders_since rows0) (update_order_row i v P f now)"
  unfolding update_order_row_def
  by (intro keeps_intros keeps_update_orders) (use assms in auto)

lemma keeps_park_pieces [keeps_intros]:
  "keeps (orders_since rows0) (insertTaxiParkOrderEvent now o1 actor ty body)"
  "keeps (orders_since rows0) (free_order_driver now o1)"
  "keeps (orders_since rows0) (resolveTaxiParkOrderPassenger now park phone name)"
  unfolding insertTaxiParkOrderEvent_def free_order_driver_def resolveTaxiParkOrderPassenger_def
  by (intro keeps_intros keeps_case_product keeps_orders_other; simp)+

lemma CreateOrderByOwnerUserID_keeps [keeps_intros]:
  "keeps (orders_since rows0) (CreateOrderByOwnerUserID actor record)"
  unfolding CreateOrderByOwnerUserID_def
  by (intro keeps_db_transaction keeps_intros keeps_case_product keeps_insert_order new_rows_wf
      keeps_orders_other) simp

lemma CreateScheduledOrderByActorUserID_keeps [keeps_intros]:
  "keeps (orders_since rows0) (CreateScheduledOrderByActorUserID actor record)"
  unfolding CreateScheduledOrderByActorUserID_def
  by (intro keeps_db_transaction keeps_intros keeps_case_product keeps_insert_order new_rows_wf)

lemma CancelScheduledOrderByActorUserID_keeps [keeps_intros]:
  "keeps (orders_since rows0) (CancelScheduledOrderByActorUserID actor i reason)"
  unfolding CancelScheduledOrderByActorUserID_def
  by (intro keeps_db_transaction keeps_intros keeps_update_order_row schedule_cancelled_row_good)

lemma transitionOrderByActorUserID_keeps:
  assumes "toStatus \<in> {OrderStatusCancelled, OrderStatusCompleted}"
  shows "keeps (orders_since rows0) (transitionOrderByActorUserID actor i toStatus reason)"
  unfolding transitionOrderByActorUserID_def
  by (rule keeps_db_transaction, rule keeps_bind, intro keeps_intros, rule keeps_bind, intro keeps_intros,
      rule keeps_bind, intro keeps_intros, rule keeps_bind, intro keeps_intros, rule keeps_bind_lift,
      intro keeps_intros keeps_update_order_row park_transitioned_row_good)
     (use assms in \<open>auto simp: ending_transition_def NewOrderTransition_Inr\<close>)

lemma ending_orders_keeps [keeps_intros]:
  "keeps (orders_since rows0) (CancelOrderByActorUserID actor i reason)"
  "keeps (orders_since rows0) (CompleteOrderByActorUserID actor i n)"
  unfolding CancelOrderByActorUserID_def CompleteOrderByActorUserID_def
  by (rule transitionOrderByActorUserID_keeps; simp)+

end
