(* ===== verification/Park_Orders.thy ===== *)
theory Park_Orders
  imports Park_Store Dispatch_Outcomes
begin

text \<open>
  The orders of a taxi park, \<^verbatim>\<open>internal/taxipark/service.go\<close> and \<^verbatim>\<open>routing.go\<close>: taking an order now or for
  later, its price on the road, changing, cancelling and completing it from the dashboard.
\<close>

section \<open>Requests\<close>

text \<open>
  A request (\<^verbatim>\<open>internal/dto/taxi_park_order.go\<close>): an absent payment method is the empty text, an absent
  point is \<open>None\<close>.
\<close>

record create_order_request =
  crq_PassengerPhone :: string
  crq_PassengerName :: string
  crq_TariffID :: uuid
  crq_PickupAddress :: string
  crq_PickupLocation :: "coordinates option"
  crq_DestinationAddress :: string
  crq_DestinationLocation :: "coordinates option"
  crq_PaymentType :: payment_method
  crq_PaymentMethod :: payment_method
  crq_Comment :: string

record create_scheduled_order_request = create_order_request +
  srq_ScheduledAt :: time
  srq_Timezone :: string
  srq_PreassignedDriverID :: "uuid option"

record update_order_request =
  urq_PickupAddress :: "string option"
  urq_PickupLocation :: "coordinates option"
  urq_DestinationAddress :: "string option"
  urq_DestinationLocation :: "coordinates option"
  urq_PaymentType :: "payment_method option"
  urq_PaymentMethod :: "payment_method option"
  urq_Comment :: "string option"

record update_scheduled_order_request = update_order_request +
  usq_ScheduledAt :: "time option"
  usq_Timezone :: "string option"
  usq_PreassignedDriverID :: "uuid option"

abbreviation no_payment_method :: payment_method where
  "no_payment_method \<equiv> PaymentMethodOther []"

definition validateOrderCoordinates :: "coordinates \<Rightarrow> error + unit" where
  "validateOrderCoordinates c =
     (if f64_less (Latitude c) (Fin (-90)) \<or> f64_less (Fin 90) (Latitude c)
      then Inl [Service ErrInvalidOrderFields]
      else if f64_less (Longitude c) (Fin (-180)) \<or> f64_less (Fin 180) (Longitude c)
      then Inl [Service ErrInvalidOrderFields] else Inr ())"

definition isZeroOrderCoordinates :: "coordinates \<Rightarrow> bool" where
  "isZeroOrderCoordinates c \<longleftrightarrow> Latitude c = Fin 0 \<and> Longitude c = Fin 0"

text \<open>The payment method, its old name, cash.\<close>

definition requested_payment :: "payment_method \<Rightarrow> payment_method \<Rightarrow> payment_method" where
  "requested_payment method old =
     (let m = (if method = no_payment_method then old else method)
      in if m = no_payment_method then PaymentMethodCash else m)"

definition requested_phone :: "string \<Rightarrow> error + string" where
  "requested_phone phone =
     (let passengerPhone = TrimSpace phone
      in if passengerPhone = [] then Inr [] else NormalizePhone passengerPhone)"

text \<open>The checks that an order for now and an order for later have in common, in their order.\<close>

definition check_order_points ::
  "'x create_order_request_scheme \<Rightarrow> error + coordinates \<times> coordinates" where
  "check_order_points request =
     (if crq_TariffID request = uuid_Nil \<or> TrimSpace (crq_PickupAddress request) = []
      then Inl [Service ErrInvalidOrderFields]
      else case crq_PickupLocation request of
        None \<Rightarrow> Inl [Service ErrInvalidOrderFields]
      | Some pickup \<Rightarrow>
          if TrimSpace (crq_DestinationAddress request) = [] then Inl [Service ErrInvalidOrderFields]
          else case crq_DestinationLocation request of
            None \<Rightarrow> Inl [Service ErrInvalidOrderFields]
          | Some destination \<Rightarrow>
              (case validateOrderCoordinates pickup of
                 Inl e \<Rightarrow> Inl e
               | Inr _ \<Rightarrow>
                   if isZeroOrderCoordinates pickup \<or> isZeroOrderCoordinates destination
                   then Inl [Service ErrInvalidOrderFields]
                   else case validateOrderCoordinates destination of
                     Inl e \<Rightarrow> Inl e
                   | Inr _ \<Rightarrow> Inr (pickup, destination)))"

definition orderRecordFromRequest :: "'x create_order_request_scheme \<Rightarrow> error + create_order_record" where
  "orderRecordFromRequest request =
     (case check_order_points request of
        Inl e \<Rightarrow> Inl e
      | Inr (pickup, destination) \<Rightarrow>
          let paymentMethod = requested_payment (crq_PaymentMethod request) (crq_PaymentType request)
          in case PaymentMethod_Validate paymentMethod of
            Inl e \<Rightarrow> Inl e
          | Inr _ \<Rightarrow>
              (case requested_phone (crq_PassengerPhone request) of
                 Inl e \<Rightarrow> Inl e
               | Inr phone \<Rightarrow> Inr
                   \<lparr>cor_PricingSnapshot = None, cor_PassengerPhone = phone,
                    cor_PassengerName = TrimSpace (crq_PassengerName request),
                    cor_TariffID = crq_TariffID request,
                    cor_PickupAddress = TrimSpace (crq_PickupAddress request),
                    cor_PickupLocation = pickup,
                    cor_DestinationAddress = TrimSpace (crq_DestinationAddress request),
                    cor_DestinationLocation = Some destination, cor_PaymentMethod = paymentMethod,
                    cor_Comment = TrimSpace (crq_Comment request)\<rparr>))"

definition scheduledOrderRecordFromRequest ::
  "create_scheduled_order_request \<Rightarrow> error + create_scheduled_order_record" where
  "scheduledOrderRecordFromRequest request =
     map_sum id (\<lambda>record. create_order_record.extend record
       \<lparr>csr_ScheduledAt = srq_ScheduledAt request, csr_Timezone = TrimSpace (srq_Timezone request),
        csr_PreassignedDriverID = srq_PreassignedDriverID request\<rparr>)
       (orderRecordFromRequest request)"

text \<open>A point or a payment method that may be absent.\<close>

definition checked :: "('a \<Rightarrow> error + 'b) \<Rightarrow> 'a option \<Rightarrow> error + 'b option" where
  "checked f x =
     (case x of
        None \<Rightarrow> Inr None
      | Some a \<Rightarrow> (case f a of Inl e \<Rightarrow> Inl [Service ErrInvalidOrderFields] | Inr b \<Rightarrow> Inr (Some b)))"

definition point_of :: "coordinates \<Rightarrow> error + coordinates" where
  "point_of c = NewCoordinates (Latitude c) (Longitude c)"

definition valid_method :: "payment_method \<Rightarrow> error + payment_method" where
  "valid_method m = map_sum id (\<lambda>_. m) (PaymentMethod_Validate m)"

definition updateOrderRecordFromRequest :: "'x update_order_request_scheme \<Rightarrow> error + update_order_record" where
  "updateOrderRecordFromRequest request =
     (case checked point_of (urq_PickupLocation request) of
        Inl e \<Rightarrow> Inl e
      | Inr pickup \<Rightarrow>
          (case checked point_of (urq_DestinationLocation request) of
             Inl e \<Rightarrow> Inl e
           | Inr destination \<Rightarrow>
               (case checked valid_method (case urq_PaymentMethod request of
                    None \<Rightarrow> urq_PaymentType request | Some m \<Rightarrow> Some m) of
                  Inl e \<Rightarrow> Inl e
                | Inr method \<Rightarrow> Inr
                    \<lparr>uor_PickupAddress = map_option TrimSpace (urq_PickupAddress request),
                     uor_PickupLocation = pickup,
                     uor_DestinationAddress = map_option TrimSpace (urq_DestinationAddress request),
                     uor_DestinationLocation = destination, uor_PaymentMethod = method,
                     uor_Comment = map_option TrimSpace (urq_Comment request)\<rparr>)))"

definition updateScheduledOrderRecordFromRequest ::
  "update_scheduled_order_request \<Rightarrow> error + update_scheduled_order_record" where
  "updateScheduledOrderRecordFromRequest request =
     map_sum id (\<lambda>record. update_order_record.extend record
       \<lparr>uso_ScheduledAt = usq_ScheduledAt request,
        uso_Timezone = map_option TrimSpace (usq_Timezone request),
        uso_PreassignedDriverID = usq_PreassignedDriverID request\<rparr>)
       (updateOrderRecordFromRequest request)"

section \<open>The service\<close>

text \<open>
  \<^verbatim>\<open>routing.Route\<close> without its geometry.  A routing provider is a program outside the repository: a
  function of the instant and the two points that may fail.
\<close>

record route =
  rte_DistanceMeters :: int
  rte_DurationSeconds :: int
  rte_Source :: string
  rte_DataVersion :: string
  rte_CalculatedAt :: time

type_synonym routing = "time \<Rightarrow> coordinates \<Rightarrow> coordinates \<Rightarrow> error + route"

text \<open>\<^verbatim>\<open>time.LoadLocation\<close> asks the time zone database of the system: \<open>psv_LoadLocation\<close>.\<close>

record park_service =
  psv_dispatchController :: "dispatch_service option"
  psv_has_realtimeGateway :: bool
  psv_has_financeProcessor :: bool
  psv_routingService :: "routing option"
  psv_has_tariffReader :: bool
  psv_LoadLocation :: "string \<Rightarrow> bool"

definition Route :: "routing \<Rightarrow> coordinates \<Rightarrow> coordinates \<Rightarrow> (world, route) op" where
  "Route provider pickup destination =
     external (\<lambda>s. (provider (clock s) pickup destination, s))"

definition unavailable_snapshot :: "time \<Rightarrow> order_pricing_snapshot" where
  "unavailable_snapshot now =
     \<lparr>ops_EstimatedPrice = None, ops_EstimatedPriceMin = None, ops_EstimatedPriceMax = None,
      ops_EstimatedPriceSource = EstimatedPriceSourceUnavailable, ops_PricingMode = PricingModeOther [],
      ops_FareMode = FareModeOther [], ops_PriceAvailable = False, ops_IsFinal = False, ops_Message = [],
      ops_UnavailableReason = ''routing_unavailable'', ops_SearchRadiusMeters = None,
      ops_RouteDistanceMeters = None, ops_RouteDurationSeconds = None, ops_RouteSource = [],
      ops_RouteDataVersion = [], ops_TariffRates = [], ops_RoundingRule = [], ops_TaxiParkCount = 0,
      ops_ExcludedTariffReasons = [], ops_CalculatedAt = now\<rparr>"

definition road_price :: "tariff \<Rightarrow> order_pricing_snapshot \<Rightarrow> route \<Rightarrow> error + order_pricing_snapshot" where
  "road_price t snapshot route =
     (case CalculateTripPrice t (rte_DistanceMeters route) (rte_DurationSeconds route) of
        Inl e \<Rightarrow> Inl e
      | Inr price \<Rightarrow> Inr (snapshot
          \<lparr>ops_EstimatedPrice := Some \<lparr>Amount = price, Currency = Currency (trf_BasePrice t)\<rparr>,
           ops_EstimatedPriceSource := EstimatedPriceSourceFixedTariff, ops_PriceAvailable := True,
           ops_UnavailableReason := [],
           ops_RouteDistanceMeters := Some (rte_DistanceMeters route),
           ops_RouteDurationSeconds := Some (rte_DurationSeconds route),
           ops_RouteSource := rte_Source route, ops_RouteDataVersion := rte_DataVersion route,
           ops_CalculatedAt := rte_CalculatedAt route\<rparr>))"

definition estimateRoadPrice ::
  "park_service \<Rightarrow> uuid \<Rightarrow> uuid \<Rightarrow> coordinates \<Rightarrow> coordinates option \<Rightarrow>
   (world, order_pricing_snapshot) op" where
  "estimateRoadPrice service actor tariffID pickup destination =
     bind time_Now (\<lambda>now.
     if \<not> psv_has_tariffReader service then ret (unavailable_snapshot now) else
     bind (GetOrderTariff actor tariffID) (\<lambda>t.
     let snapshot = (unavailable_snapshot now)
           \<lparr>ops_TariffRates := SnapshotTariffRates [t], ops_PricingMode := trf_PricingMode t,
            ops_RoundingRule := ''distance_nearest_kopeck;time_started_minute''\<rparr>
     in case destination of
          None \<Rightarrow> ret (snapshot\<lparr>ops_UnavailableReason := ''destination_required''\<rparr>)
        | Some target \<Rightarrow>
            (case psv_routingService service of
               None \<Rightarrow> ret snapshot
             | Some provider \<Rightarrow>
                 bind (Route provider pickup target) (\<lambda>route. lift (road_price t snapshot route)))))"

definition EstimateOrder ::
  "park_service \<Rightarrow> uuid \<Rightarrow> 'x create_order_request_scheme \<Rightarrow> (world, order_pricing_snapshot) op" where
  "EstimateOrder service actor request =
     bind (lift (orderRecordFromRequest request)) (\<lambda>record.
     bind (GetSettingsByActorUserID actor) (\<lambda>_.
       estimateRoadPrice service actor (cor_TariffID record) (cor_PickupLocation record)
         (cor_DestinationLocation record)))"

definition CreateOrder :: "park_service \<Rightarrow> uuid \<Rightarrow> create_order_request \<Rightarrow> (world, order) op" where
  "CreateOrder service owner request =
     bind (lift (orderRecordFromRequest request)) (\<lambda>record.
     bind (GetSettingsByActorUserID owner) (\<lambda>settings.
     bind (estimateRoadPrice service owner (cor_TariffID record) (cor_PickupLocation record)
        (cor_DestinationLocation record)) (\<lambda>snapshot.
     bind (CreateOrderByOwnerUserID owner (record\<lparr>cor_PricingSnapshot := Some snapshot\<rparr>)) (\<lambda>o1.
     andthen (case psv_dispatchController service of
         None \<Rightarrow> done_op
       | Some dispatch \<Rightarrow> EnqueueOrderWithConfig dispatch (ord_ID o1)
           (dispatchConfigFromTaxiParkSettings settings))
       (ret o1)))))"

definition validateScheduledTiming :: "park_service \<Rightarrow> time \<Rightarrow> string \<Rightarrow> int \<Rightarrow> (world, unit) op" where
  "validateScheduledTiming service scheduledAt timezone minBeforeMinutes =
     (if time_IsZero scheduledAt \<or> TrimSpace timezone = [] \<or> \<not> psv_LoadLocation service timezone
      then fail [Service ErrInvalidScheduledOrder]
      else bind time_Now (\<lambda>now.
        if \<not> now < scheduledAt then fail [Service ErrInvalidScheduledOrder]
        else if scheduledAt < now + minutes minBeforeMinutes then fail [Service ErrInvalidScheduledOrder]
        else done_op))"

definition CreateScheduledOrder ::
  "park_service \<Rightarrow> uuid \<Rightarrow> create_scheduled_order_request \<Rightarrow> (world, order) op" where
  "CreateScheduledOrder service actor request =
     bind (lift (scheduledOrderRecordFromRequest request)) (\<lambda>record.
     bind (GetSettingsByActorUserID actor) (\<lambda>settings.
     if \<not> set_ScheduledOrdersEnabled settings then fail [Service ErrScheduledOrdersDisabled] else
     andthen (validateScheduledTiming service (csr_ScheduledAt record) (csr_Timezone record)
        (set_ScheduledMinBeforeMinutes settings))
     (bind (estimateRoadPrice service actor (cor_TariffID record) (cor_PickupLocation record)
        (cor_DestinationLocation record)) (\<lambda>snapshot.
       CreateScheduledOrderByActorUserID actor (record\<lparr>cor_PricingSnapshot := Some snapshot\<rparr>)))))"

definition ListScheduledOrders :: "uuid \<Rightarrow> (world, order list) op" where
  "ListScheduledOrders actor = ListScheduledOrdersByActorUserID actor"

definition GetScheduledOrder :: "uuid \<Rightarrow> uuid \<Rightarrow> (world, order) op" where
  "GetScheduledOrder actor orderID = GetScheduledOrderByActorUserID actor orderID"

definition UpdateScheduledOrder ::
  "park_service \<Rightarrow> uuid \<Rightarrow> uuid \<Rightarrow> update_scheduled_order_request \<Rightarrow> (world, order) op" where
  "UpdateScheduledOrder service actor orderID request =
     bind (lift (updateScheduledOrderRecordFromRequest request)) (\<lambda>record.
     andthen (case uso_ScheduledAt record of
         None \<Rightarrow> done_op
       | Some scheduledAt \<Rightarrow>
           bind (GetSettingsByActorUserID actor) (\<lambda>settings.
             validateScheduledTiming service scheduledAt
               (case uso_Timezone record of
                  Some tz \<Rightarrow> if TrimSpace tz \<noteq> [] then TrimSpace tz else set_CityTimezone settings
                | None \<Rightarrow> set_CityTimezone settings)
               (set_ScheduledMinBeforeMinutes settings)))
       (UpdateScheduledOrderByActorUserID actor orderID record))"

definition CancelScheduledOrder :: "uuid \<Rightarrow> uuid \<Rightarrow> string \<Rightarrow> (world, order) op" where
  "CancelScheduledOrder actor orderID reason =
     CancelScheduledOrderByActorUserID actor orderID (TrimSpace reason)"

definition AssignScheduledOrderDriver :: "uuid \<Rightarrow> uuid \<Rightarrow> uuid \<Rightarrow> (world, order) op" where
  "AssignScheduledOrderDriver actor orderID driverID =
     AssignScheduledOrderDriverByActorUserID actor orderID driverID"

definition GetOrder :: "uuid \<Rightarrow> uuid \<Rightarrow> (world, order) op" where
  "GetOrder actor orderID = GetOrderByActorUserID actor orderID"

definition publishOrderEvent :: "park_service \<Rightarrow> order \<Rightarrow> string \<Rightarrow> (world, unit) op" where
  "publishOrderEvent service o1 eventName =
     (let body = [(''order_id'', PUuid (ord_ID o1)), (''status'', PStr (status_text (ord_Status o1))),
            (''version'', PInt (ord_Version o1))]
            @ (case ord_DriverID o1 of None \<Rightarrow> [] | Some i \<Rightarrow> [(''driver_id'', PUuid i)])
      in if \<not> psv_has_realtimeGateway service then done_op
         else
           andthen (SendToTaxiParkByOrder (ord_ID o1) eventName body)
           (andthen (SendToPassenger (ord_PassengerID o1) eventName body)
           (case ord_DriverID o1 of
              None \<Rightarrow> done_op
            | Some driverID \<Rightarrow> SendToDriver driverID eventName body)))"

definition UpdateOrder :: "park_service \<Rightarrow> uuid \<Rightarrow> uuid \<Rightarrow> update_order_request \<Rightarrow> (world, order) op" where
  "UpdateOrder service actor orderID request =
     bind (lift (updateOrderRecordFromRequest request)) (\<lambda>record.
     bind (UpdateOrderByActorUserID actor orderID record) (\<lambda>o1.
     andthen (publishOrderEvent service o1 ''order.updated'') (ret o1)))"

definition CancelOrder :: "park_service \<Rightarrow> uuid \<Rightarrow> uuid \<Rightarrow> string \<Rightarrow> (world, order) op" where
  "CancelOrder service actor orderID reason =
     bind (CancelOrderByActorUserID actor orderID (TrimSpace reason)) (\<lambda>o1.
     andthen (case psv_dispatchController service of
         None \<Rightarrow> done_op | Some dispatch \<Rightarrow> StopDispatch dispatch (ord_ID o1))
     (andthen (publishOrderEvent service o1 ''order.cancelled'') (ret o1)))"

definition CompleteOrder :: "park_service \<Rightarrow> uuid \<Rightarrow> uuid \<Rightarrow> (world, order) op" where
  "CompleteOrder service actor orderID =
     bind (CompleteOrderByActorUserID actor orderID 0) (\<lambda>o1.
     andthen (if psv_has_financeProcessor service
              then bind (SettleCompletedOrder (ord_ID o1)) (\<lambda>_. done_op) else done_op)
     (andthen (publishOrderEvent service o1 ''order.completed'') (ret o1)))"

section \<open>The order table\<close>

lemma park_calls_keep [keeps_intros]:
  "keeps (on_db P) (Route provider p q)" "keeps (on_db P) (publishOrderEvent service o1 ev)"
  "keeps (on_db P) (validateScheduledTiming service t tz n)"
  unfolding Route_def publishOrderEvent_def validateScheduledTiming_def Let_def
  by (intro keeps_intros keeps_external; simp add: keeps_def)+

lemma estimate_keeps [keeps_intros]:
  "keeps (on_db P) (estimateRoadPrice service actor tariff p q)"
  "keeps (on_db P) (EstimateOrder service actor request)"
  unfolding EstimateOrder_def estimateRoadPrice_def Let_def by (intro keeps_intros)+

lemma park_updates_keep [keeps_intros]:
  "keeps (on_db P) (UpdateOrder service actor i u)"
  "keeps (on_db P) (UpdateScheduledOrder service actor i v)"
  "keeps (on_db P) (AssignScheduledOrderDriver actor i j)"
  unfolding UpdateOrder_def UpdateScheduledOrder_def AssignScheduledOrderDriver_def
  by (intro keeps_intros)+

lemma park_service_keeps [keeps_intros]:
  "keeps (orders_since rows0) (CreateOrder service actor request)"
  "keeps (orders_since rows0) (CreateScheduledOrder service actor request')"
  "keeps (orders_since rows0) (CancelScheduledOrder actor i reason)"
  "keeps (orders_since rows0) (CancelOrder service actor i reason)"
  "keeps (orders_since rows0) (CompleteOrder service actor i)"
  unfolding CreateOrder_def CreateScheduledOrder_def CancelScheduledOrder_def CancelOrder_def
    CompleteOrder_def
  by (intro keeps_intros)+

section \<open>What a change did\<close>

lemma update_order_row_Inr:
  assumes "update_order_row i v P f now s = (Inr o1, t)" "orders_consistent (orders (db s))"
  shows "orders_consistent (orders (db t))" "db t = (db s)\<lparr>orders := orders (db t)\<rparr>"
    "replaced (\<lambda>r r'. ord_ID r = i \<and> ord_Version r = v \<and> P r \<and> ord_DeletedAt r = None
       \<and> r' = (f r)\<lparr>ord_UpdatedAt := now\<rparr> \<and> scanDispatchOrder r' = Inr o1) (orders (db s)) (orders (db t))"
proof -
  let ?P = "\<lambda>r. ord_ID r = i \<and> ord_Version r = v \<and> P r \<and> ord_DeletedAt r = None"
  obtain rows u row w where u: "sql (\<lambda>_. update_orders_returning ?P f now) s = (Inr rows, u)"
    "lift (one_row rows) u = (Inr row, w)" "lift (scanDispatchOrder row) w = (Inr o1, t)"
    using assms(1) unfolding update_order_row_def by (elim bind_Inr) (rule that; assumption)
  from u(2,3) obtain rest where rows: "rows = row # rest" "scanDispatchOrder row = Inr o1" "t = u"
    by (cases rows) (auto simp: Inr_simps)
  have run: "update_orders_returning ?P f now (db s) = (Inr (row # rest), db t)"
    using u(1) unfolding rows by (rule sql_Inr) (simp add: rows)
  have one: "\<And>r. ?P r \<Longrightarrow> ord_ID r = i" by blast
  note res = update_orders_returning_one [OF run assms(2) one]
  show "orders_consistent (orders (db t))" by (rule res(1))
  show "db t = (db s)\<lparr>orders := orders (db t)\<rparr>" by (rule res(2))
  show "replaced (\<lambda>r r'. ord_ID r = i \<and> ord_Version r = v \<and> P r \<and> ord_DeletedAt r = None
       \<and> r' = (f r)\<lparr>ord_UpdatedAt := now\<rparr> \<and> scanDispatchOrder r' = Inr o1) (orders (db s)) (orders (db t))"
    by (rule replaced_mono [OF res(3)]) (use rows(2) in auto)
qed

lemma taxiParkIDByActor_Inr:
  "taxiParkIDByActor actor s = (Inr park, t) \<Longrightarrow>
   park \<in> tp_ID ` set (parks_of_actor (db s) actor) \<and> db t = db s"
  unfolding taxiParkIDByActor_def no_rows_is_Inr
  by (erule query_Inr) (auto dest!: one_row_Inr)

lemma taxiParkOrderForUpdate_Inr:
  assumes "taxiParkOrderForUpdate park i s = (Inr o1, t)"
  obtains row where "row \<in> set (orders (db s))" "ord_ID row = i" "of_park park row"
    "scanDispatchOrder row = Inr o1" "db t = db s"
proof -
  obtain row u where u: "query (\<lambda>_ d. one_row (filter (\<lambda>r. ord_ID r = i \<and> of_park park r) (orders d))) s
      = (Inr row, u)" "lift (scanDispatchOrder row) u = (Inr o1, t)"
    using assms unfolding taxiParkOrderForUpdate_def no_rows_is_Inr by (elim bind_Inr) (rule that; assumption)
  from u(1) have "row \<in> set (filter (\<lambda>r. ord_ID r = i \<and> of_park park r) (orders (db s))) \<and> db u = db s"
    by (rule query_Inr) (auto dest!: one_row_Inr)
  with u(2) show thesis by (intro that [of row]) (auto simp: Inr_simps)
qed

definition freed :: "time \<Rightarrow> uuid option \<Rightarrow> driver list \<Rightarrow> driver list" where
  "freed now driverID rows = (case driverID of
      None \<Rightarrow> rows
    | Some i \<Rightarrow> sql_update (\<lambda>dr. drv_ID dr = i \<and> drv_Status dr \<in> {DriverStatusBusy, DriverStatusOnline}
          \<and> drv_DeletedAt dr = None)
        (\<lambda>dr. dr\<lparr>drv_Status := DriverStatusOnline, drv_UpdatedAt := now\<rparr>) rows)"

lemma freed_idle:
  assumes "dr \<in> set (freed now (Some (drv_ID dr)) rows)" "drv_DeletedAt dr = None"
  shows "drv_Status dr \<noteq> DriverStatusBusy"
proof -
  let ?P = "\<lambda>q. drv_ID q = drv_ID dr \<and> drv_Status q \<in> {DriverStatusBusy, DriverStatusOnline}
    \<and> drv_DeletedAt q = None"
  let ?f = "\<lambda>q. q\<lparr>drv_Status := DriverStatusOnline, drv_UpdatedAt := now\<rparr>"
  from assms(1) obtain q where q: "dr = (if ?P q then ?f q else q)"
    unfolding freed_def option.case by (auto dest!: sql_update_mem)
  show ?thesis
  proof (cases "?P q")
    case True
    have "dr = ?f q" by (rule q [unfolded if_P [OF True]])
    then have "drv_Status dr = DriverStatusOnline" by simp
    then show ?thesis by simp
  next
    case False
    have "dr = q" by (rule q [unfolded if_not_P [OF False]])
    with False assms(2) show ?thesis by blast
  qed
qed

lemma free_order_driver_Inr:
  assumes "free_order_driver now o1 s = (Inr u, t)"
  shows "db t = (db s)\<lparr>drivers := freed now (ord_DriverID o1) (drivers (db s))\<rparr>"
proof (cases "ord_DriverID o1")
  case None
  then show ?thesis using assms by (simp add: free_order_driver_def freed_def Inr_simps)
next
  case (Some i)
  then show ?thesis
    using assms unfolding free_order_driver_def
    by (auto simp: Inr_simps freed_def update_drivers_def elim!: bind_Inr sql_Inr)
qed

lemma insertTaxiParkOrderEvent_Inr:
  "insertTaxiParkOrderEvent now o1 actor ty body s = (Inr u, t) \<Longrightarrow>
   db t = (db s)\<lparr>order_events := order_events (db s) @ [park_order_event now actor o1 ty body]\<rparr>"
  unfolding insertTaxiParkOrderEvent_def append_events_def by (erule sql_Inr) simp

lemma transitionOrderByActorUserID_Inr:
  assumes "transitionOrderByActorUserID actor i toStatus reason s = (Inr o1, t)"
    and "orders_consistent (orders (db s))" "toStatus \<in> {OrderStatusCancelled, OrderStatusCompleted}"
  obtains park row tr now ev where "park \<in> tp_ID ` set (parks_of_actor (db s) actor)"
    "row \<in> set (orders (db s))" "ord_ID row = i" "of_park park row"
    "ending_transition tr" "tr_FromStatus tr = ord_Status row" "tr_ToStatus tr = toStatus"
    "tr_Reason tr = reason"
    "replaced (\<lambda>r r'. r = row \<and> r' = (park_transitioned_row tr row)\<lparr>ord_UpdatedAt := now\<rparr>
       \<and> scanDispatchOrder r' = Inr o1) (orders (db s)) (orders (db t))"
    "db t = (db s)\<lparr>orders := orders (db t), order_events := order_events (db s) @ [ev],
       drivers := freed now (ord_DriverID row) (drivers (db s))\<rparr>"
proof -
  from assms(1) obtain s0 b u where s0: "db s0 = db s" "redis s0 = redis s" and commit: "db t = (if b then db u else db s)"
    and body: "bind time_Now (\<lambda>started.
      bind (taxiParkIDByActor actor) (\<lambda>parkID.
      bind (taxiParkOrderForUpdate parkID i) (\<lambda>currentOrder.
      bind time_Now (\<lambda>now.
      bind (lift (NewOrderTransition now currentOrder toStatus (Some actor) (ord_DriverID currentOrder)
         reason now)) (\<lambda>tr.
      bind (no_rows_is (Domain ErrInvalidOrderStatusTransition)
         (update_order_row (tr_OrderID tr) (tr_ExpectedVersion tr)
            (\<lambda>r. ord_Status r = tr_FromStatus tr) (park_transitioned_row tr) started)) (\<lambda>o1.
      andthen (insertTaxiParkOrderEvent started o1 actor (EventTypeForOrderStatus toStatus)
         (park_transition_payload tr o1 reason))
      (andthen (if toStatus \<in> {OrderStatusCancelled, OrderStatusCompleted}
                then free_order_driver started o1 else done_op)
        (ret (True, o1))))))))) s0 = (Inr (b, o1), u)"
    unfolding transitionOrderByActorUserID_def by (rule db_transaction_Inr)
  have to: "(toStatus \<in> {OrderStatusCancelled, OrderStatusCompleted}) = True" using assms(3) by simp
  from body obtain s1 parkID s2 currentOrder s3 now s4 tr s5 s6 e1 s7 e2 s8 o2 where
    r: "taxiParkIDByActor actor s1 = (Inr parkID, s2)"
    "taxiParkOrderForUpdate parkID i s2 = (Inr currentOrder, s3)"
    "NewOrderTransition now currentOrder toStatus (Some actor) (ord_DriverID currentOrder) reason now = Inr tr"
    "update_order_row (tr_OrderID tr) (tr_ExpectedVersion tr)
       (\<lambda>r. ord_Status r = tr_FromStatus tr) (park_transitioned_row tr) (clock s0) s5 = (Inr o2, s6)"
    "insertTaxiParkOrderEvent (clock s0) o2 actor (EventTypeForOrderStatus toStatus)
         (park_transition_payload tr o2 reason) s6 = (Inr e1, s7)"
    "free_order_driver (clock s0) o2 s7 = (Inr e2, s8)"
    and eqs: "s1 = s0" "s5 = s3" "b" "o2 = o1" "u = s8"
    unfolding to if_True by (elim bind_Inr) (auto simp: Inr_simps no_rows_is_Inr)
  from taxiParkIDByActor_Inr [OF r(1)] have park: "parkID \<in> tp_ID ` set (parks_of_actor (db s) actor)"
    "db s2 = db s" using eqs(1) s0(1) by simp_all
  from r(2) obtain row where row: "row \<in> set (orders (db s))" "ord_ID row = i" "of_park parkID row"
    "scanDispatchOrder row = Inr currentOrder" "db s3 = db s"
    using park(2) by (metis taxiParkOrderForUpdate_Inr)
  note scanned = scanDispatchOrder_Inr [OF row(4)]
  have tr: "legal_change (ord_Status row) toStatus" "tr_FromStatus tr = ord_Status row"
    "tr_ToStatus tr = toStatus" "tr_OrderID tr = i" "tr_Reason tr = reason"
    using r(3) by (auto simp: NewOrderTransition_Inr scanned row(2))
  have ending: "ending_transition tr" using tr assms(3) by (simp add: ending_transition_def)
  have cons: "orders_consistent (orders (db s5))" using assms(2) eqs(2) row(5) by simp
  note upd = update_order_row_Inr [OF r(4) cons]
  have dist: "distinct (map ord_ID (orders (db s)))"
    using assms(2) by (simp add: orders_consistent_def orders_unique_def)
  have evd: "db s7 = (db s6)\<lparr>order_events := order_events (db s6) @
       [park_order_event (clock s0) actor o2 (EventTypeForOrderStatus toStatus)
         (park_transition_payload tr o2 reason)]\<rparr>"
    by (rule insertTaxiParkOrderEvent_Inr [OF r(5)])
  have fin: "db s8 = (db s7)\<lparr>drivers := freed (clock s0) (ord_DriverID o2) (drivers (db s7))\<rparr>"
    by (rule free_order_driver_Inr [OF r(6)])
  have rep: "replaced (\<lambda>r r'. r = row \<and> r' = (park_transitioned_row tr row)\<lparr>ord_UpdatedAt := clock s0\<rparr>
       \<and> scanDispatchOrder r' = Inr o1) (orders (db s)) (orders (db s6))"
  proof -
    have here: "replaced (\<lambda>r r'. ord_ID r = tr_OrderID tr \<and> ord_Version r = tr_ExpectedVersion tr
       \<and> ord_Status r = tr_FromStatus tr \<and> ord_DeletedAt r = None
       \<and> r' = (park_transitioned_row tr r)\<lparr>ord_UpdatedAt := clock s0\<rparr> \<and> scanDispatchOrder r' = Inr o2)
       (orders (db s)) (orders (db s6))"
      using upd(3) eqs(2) row(5) by simp
    then obtain xs r ys where q: "orders (db s) = xs @ r # ys"
      "orders (db s6) = xs @ (park_transitioned_row tr r)\<lparr>ord_UpdatedAt := clock s0\<rparr> # ys" "ord_ID r = i"
      "scanDispatchOrder ((park_transitioned_row tr r)\<lparr>ord_UpdatedAt := clock s0\<rparr>) = Inr o2"
      using tr(4) by (auto elim: replacedE)
    have "r = row" using dist row(1,2) q(1,3) by (auto simp: distinct_map inj_on_def)
    then show ?thesis unfolding replaced_def using q eqs(4) by blast
  qed
  then have "ord_DriverID o2 = ord_DriverID row"
    using eqs(4) by (auto elim!: replacedE dest!: scanDispatchOrder_Inr(4))
  have all: "db t = (db s)\<lparr>orders := orders (db s6), order_events := order_events (db s) @
       [park_order_event (clock s0) actor o2 (EventTypeForOrderStatus toStatus)
         (park_transition_payload tr o2 reason)],
       drivers := freed (clock s0) (ord_DriverID row) (drivers (db s))\<rparr>"
  proof -
    obtain rows where d6: "db s6 = (db s)\<lparr>orders := rows\<rparr>"
      using upd(2) eqs(2) row(5) by auto
    have "db t = db s8" using commit eqs by simp
    then show ?thesis using fin evd \<open>ord_DriverID o2 = ord_DriverID row\<close> by (simp add: d6)
  qed
  show thesis
    by (rule that [OF park(1) row(1-3) ending tr(2,3,5)]) (use rep all in simp_all)
qed

lemma StopDispatch_db [keeps_intros]: "keeps (on_db P) (StopDispatch dispatch i)"
  unfolding StopDispatch_def by (intro keeps_intros)

lemma keeps_db_eq:
  assumes "m s = (r, t)" "\<And>P. keeps (on_db P) m"
  shows "db t = db s"
  using keepsD [OF assms(2) [of "\<lambda>d. d = db s"], of s] assms(1) by simp

section \<open>Properties\<close>

text \<open>
  C26: the dashboard of a park ends only its own orders.  A cancellation that succeeds has replaced one
  row, an order that was taken by a park of the acting user and from whose status cancelled can be
  reached; it is cancelled now with the given reason, and its driver is not left busy.
\<close>

theorem CancelOrder_own_park:
  assumes "CancelOrder service actor i reason s = (Inr o1, t)" "orders_consistent (orders (db s))"
  shows "\<exists>park \<in> tp_ID ` set (parks_of_actor (db s) actor). \<exists>row.
     replaced (\<lambda>r r'. r = row \<and> ord_ID r = i \<and> meta_taxi_park_id r = Some park
         \<and> EnsureOrderStatusTransition (ord_Status r) OrderStatusCancelled = Inr ()
         \<and> ord_Status r' = OrderStatusCancelled \<and> ord_CancellationReason r' = TrimSpace reason
         \<and> ord_Version r' = ord_Version r + 1) (orders (db s)) (orders (db t))
     \<and> (\<forall>dr \<in> set (drivers (db t)). ord_DriverID row = Some (drv_ID dr) \<and> drv_DeletedAt dr = None
         \<longrightarrow> drv_Status dr \<noteq> DriverStatusBusy)"
proof -
  obtain o2 u u1 e1 u2 e2 where
    r: "transitionOrderByActorUserID actor i OrderStatusCancelled (TrimSpace reason) s = (Inr o2, u)"
    "(case psv_dispatchController service of None \<Rightarrow> done_op
      | Some dispatch \<Rightarrow> StopDispatch dispatch (ord_ID o2)) u = (Inr e1, u1)"
    "publishOrderEvent service o2 ''order.cancelled'' u1 = (Inr e2, u2)" "u2 = t"
    using assms(1) unfolding CancelOrder_def CancelOrderByActorUserID_def
    by (elim bind_Inr) (auto simp: Inr_simps)
  have "db u1 = db u"
    using r(2) by (rule keeps_db_eq) (intro keeps_intros)
  moreover have "db u2 = db u1" using r(3) by (rule keeps_db_eq) (intro keeps_intros)
  ultimately have t: "db t = db u" using r(4) by simp
  obtain park row tr now ev where d: "park \<in> tp_ID ` set (parks_of_actor (db s) actor)"
    "ord_ID row = i" "of_park park row" "ending_transition tr" "tr_FromStatus tr = ord_Status row"
    "tr_ToStatus tr = OrderStatusCancelled" "tr_Reason tr = TrimSpace reason"
    and rep: "replaced (\<lambda>r r'. r = row \<and> r' = (park_transitioned_row tr row)\<lparr>ord_UpdatedAt := now\<rparr>
       \<and> scanDispatchOrder r' = Inr o2) (orders (db s)) (orders (db u))"
    and db: "db u = (db s)\<lparr>orders := orders (db u), order_events := order_events (db s) @ [ev],
       drivers := freed now (ord_DriverID row) (drivers (db s))\<rparr>"
    by (rule transitionOrderByActorUserID_Inr [OF r(1) assms(2)]) auto
  have "drv_Status dr \<noteq> DriverStatusBusy"
    if "dr \<in> set (drivers (db u))" "ord_DriverID row = Some (drv_ID dr)" "drv_DeletedAt dr = None" for dr
  proof -
    have "dr \<in> set (freed now (ord_DriverID row) (drivers (db s)))"
      using that(1) by (subst (asm) db) simp
    with that(2,3) show ?thesis by (auto dest: freed_idle)
  qed
  moreover have "replaced (\<lambda>r r'. r = row \<and> ord_ID r = i \<and> meta_taxi_park_id r = Some park
         \<and> EnsureOrderStatusTransition (ord_Status r) OrderStatusCancelled = Inr ()
         \<and> ord_Status r' = OrderStatusCancelled \<and> ord_CancellationReason r' = TrimSpace reason
         \<and> ord_Version r' = ord_Version r + 1) (orders (db s)) (orders (db u))"
    by (rule replaced_mono [OF rep])
      (use d in \<open>auto simp: of_park_def ending_transition_def legal_change_def park_transitioned_row_def\<close>)
  ultimately show ?thesis unfolding t by (intro bexI [OF _ d(1)] exI [of _ row] conjI) blast+
qed

lemma in_place_fails: "update_order_in_place s = (Inr o1, t) \<Longrightarrow> False"
  unfolding update_order_in_place_def by (erule sql_Inr) simp

lemma never_updates:
  "UpdateOrderByActorUserID actor i u s = (Inr o1, t) \<Longrightarrow> False"
  "UpdateScheduledOrderByActorUserID actor i v s = (Inr o1, t) \<Longrightarrow> False"
  unfolding UpdateOrderByActorUserID_def UpdateScheduledOrderByActorUserID_def
  by (elim db_transaction_Inr bind_Inr; auto simp: Inr_simps split: if_splits
      elim!: bind_Inr dest: in_place_fails)+


text \<open>
  C25: completing an order from the dashboard settles it.  If the operation succeeds, the order was taken by
  a park of the acting user and was on its way (or completed already) with a driver; it is completed now
  for its final price or else for its estimate, it is settled, and the books still balance.
\<close>

theorem CompleteOrder_settles:
  assumes "CompleteOrder service actor i s = (Inr o1, t)" "psv_has_financeProcessor service"
    and "orders_consistent (orders (db s))" "list_all order_wf (orders (db s))" "books_balanced (db s)"
  shows "i \<in> bk_settled (books_of (db t)) \<and> books_balanced (db t)
     \<and> (\<exists>park \<in> tp_ID ` set (parks_of_actor (db s) actor).
         replaced (\<lambda>r r'. ord_ID r = i \<and> meta_taxi_park_id r = Some park \<and> ord_DriverID r \<noteq> None
           \<and> ord_Status r \<in> {OrderStatusInProgress, OrderStatusCompleted}
           \<and> ord_Status r' = OrderStatusCompleted \<and> ord_DriverID r' = ord_DriverID r
           \<and> ord_FinalPrice r' = (if ord_FinalPrice r = None then ord_EstimatedPrice r else ord_FinalPrice r))
         (orders (db s)) (orders (db t)))"
proof -
  obtain o2 u a u1 e u2 where
    r: "transitionOrderByActorUserID actor i OrderStatusCompleted [] s = (Inr o2, u)"
    "SettleCompletedOrder (ord_ID o2) u = (Inr a, u1)"
    "publishOrderEvent service o2 ''order.completed'' u1 = (Inr e, u2)" "u2 = t"
    using assms(1,2) unfolding CompleteOrder_def CompleteOrderByActorUserID_def
    by (elim bind_Inr) (auto simp: Inr_simps elim!: bind_Inr)
  have "db u2 = db u1" using r(3) by (rule keeps_db_eq) (intro keeps_intros)
  then have t: "db t = db u1" using r(4) by simp
  obtain park row tr now ev where d: "park \<in> tp_ID ` set (parks_of_actor (db s) actor)"
    "row \<in> set (orders (db s))" "ord_ID row = i" "of_park park row" "ending_transition tr"
    "tr_FromStatus tr = ord_Status row" "tr_ToStatus tr = OrderStatusCompleted"
    and rep: "replaced (\<lambda>r r'. r = row \<and> r' = (park_transitioned_row tr row)\<lparr>ord_UpdatedAt := now\<rparr>
       \<and> scanDispatchOrder r' = Inr o2) (orders (db s)) (orders (db u))"
    and db: "db u = (db s)\<lparr>orders := orders (db u), order_events := order_events (db s) @ [ev],
       drivers := freed now (ord_DriverID row) (drivers (db s))\<rparr>"
    by (rule transitionOrderByActorUserID_Inr [OF r(1) assms(3)]) auto
  have from_status: "ord_Status row \<in> {OrderStatusInProgress, OrderStatusCompleted}"
    using ending_transition_from [OF d(5,7)] d(6) by simp
  then have driven: "ord_DriverID row \<noteq> None"
    using assms(4) d(2) by (auto simp: list_all_iff order_wf_def driver_active_statuses_def)
  obtain q where "scanDispatchOrder ((park_transitioned_row tr row)\<lparr>ord_UpdatedAt := now\<rparr>) = Inr o2"
    using rep by (auto elim: replacedE)
  then have id: "ord_ID o2 = i" using scanDispatchOrder_Inr(1) d(3) by fastforce
  have bal: "books_balanced (db u)" by (subst db) (simp add: assms(5))
  have orders: "orders (db u1) = orders (db u)" by (rule same_ordersD [OF same_orders_settlement r(2)])
  have "i \<in> bk_settled (books_of (db t))"
    using SettleCompletedOrder_settles [OF r(2) bal] id t by simp
  moreover have "books_balanced (db t)"
    using keepsD [OF keeps_SettleCompletedOrder bal, of "ord_ID o2"] r(2) t by simp
  moreover have "replaced (\<lambda>r r'. ord_ID r = i \<and> meta_taxi_park_id r = Some park \<and> ord_DriverID r \<noteq> None
           \<and> ord_Status r \<in> {OrderStatusInProgress, OrderStatusCompleted}
           \<and> ord_Status r' = OrderStatusCompleted \<and> ord_DriverID r' = ord_DriverID r
           \<and> ord_FinalPrice r' = (if ord_FinalPrice r = None then ord_EstimatedPrice r else ord_FinalPrice r))
         (orders (db s)) (orders (db t))"
    unfolding t orders
    by (rule replaced_mono [OF rep])
      (use d driven from_status in \<open>auto simp: of_park_def park_transitioned_row_def\<close>)
  ultimately show ?thesis using d(1) by blast
qed

section \<open>New orders\<close>

definition order_tariffs :: "db \<Rightarrow> uuid \<Rightarrow> uuid \<Rightarrow> tariff set" where
  "order_tariffs d actor tariffID =
     {in_roubles_tariff t |t park. park \<in> tp_ID ` set (parks_of_actor d actor)
        \<and> t \<in> set (park_tariffs d park tariffID)}
     \<union> {distance_tariff g |g. g \<in> set (global_tariffs d) \<and> live_global_tariff tariffID g}"

lemma read_global_tariff_Inr:
  "read_global_tariff i s = (Inr g, t) \<Longrightarrow>
   g \<in> set (global_tariffs (db s)) \<and> live_global_tariff i g \<and> db t = db s"
  unfolding read_global_tariff_def no_rows_is_Inr by (erule query_Inr) (auto dest!: one_row_Inr)

lemma GetOrderTariff_Inr:
  assumes "GetOrderTariff actor i s = (Inr a, t)"
  shows "a \<in> order_tariffs (db s) actor i \<and> db t = db s"
proof -
  have same: "db t = db s" using assms by (rule keeps_db_eq) (intro keeps_intros)
  from assms obtain s1 b u where s1: "db s1 = db s" and body: "bind (taxiParkIDByActor actor) (\<lambda>parkID.
      catching (query (\<lambda>_ d. one_row (map in_roubles_tariff (park_tariffs d parkID i)))) (\<lambda>r.
        case r of
          Inr t \<Rightarrow> ret (True, t)
        | Inl e \<Rightarrow>
            if errors_Is e (Infra ErrNoRows)
            then bind (read_global_tariff i) (\<lambda>g. ret (True, distance_tariff g))
            else fail e)) s1 = (Inr (b, a), u)"
    unfolding GetOrderTariff_def by (rule db_transaction_Inr)
  from body obtain park s2 r s3 where r: "taxiParkIDByActor actor s1 = (Inr park, s2)"
    "query (\<lambda>_ d. one_row (map in_roubles_tariff (park_tariffs d park i))) s2 = (r, s3)"
    "(case r of Inr t \<Rightarrow> ret (True, t)
        | Inl e \<Rightarrow> if errors_Is e (Infra ErrNoRows)
            then bind (read_global_tariff i) (\<lambda>g. ret (True, distance_tariff g)) else fail e) s3 = (Inr (b, a), u)"
    by (elim bind_Inr catching_elim) (rule that; assumption)
  from taxiParkIDByActor_Inr [OF r(1)] have park: "park \<in> tp_ID ` set (parks_of_actor (db s) actor)" "db s2 = db s"
    using s1 by simp_all
  have s3: "db s3 = db s" using r(2) park(2) by (metis keeps_db_eq keeps_query)
  have "a \<in> order_tariffs (db s) actor i"
  proof (cases r)
    case (Inr q)
    then have "a \<in> set (map in_roubles_tariff (park_tariffs (db s2) park i))"
      using r(2,3) by (auto simp: Inr_simps elim!: query_Inr dest!: one_row_Inr)
    then show ?thesis using park by (auto simp: order_tariffs_def)
  next
    case (Inl e)
    then obtain g where "read_global_tariff i s3 = (Inr g, u)" "a = distance_tariff g"
      using r(3) by (auto simp: Inr_simps split: if_splits elim!: bind_Inr)
    then show ?thesis using read_global_tariff_Inr s3 by (fastforce simp: order_tariffs_def)
  qed
  with same show ?thesis by simp
qed

text \<open>A price on the road: the tariff of the order on the route that the provider found.\<close>

definition road_snapshot ::
  "db \<Rightarrow> routing \<Rightarrow> uuid \<Rightarrow> uuid \<Rightarrow> coordinates \<Rightarrow> coordinates \<Rightarrow> order_pricing_snapshot \<Rightarrow> bool" where
  "road_snapshot d provider actor tariffID p q snapshot \<longleftrightarrow>
     (\<exists>t \<in> order_tariffs d actor tariffID. \<exists>now route price. provider now p q = Inr route
        \<and> CalculateTripPrice t (rte_DistanceMeters route) (rte_DurationSeconds route) = Inr price
        \<and> snapshotPriceCents (Some snapshot) = Some price
        \<and> ops_RouteDistanceMeters snapshot = Some (rte_DistanceMeters route)
        \<and> ops_RouteDurationSeconds snapshot = Some (rte_DurationSeconds route))"

lemma estimateRoadPrice_Inr:
  assumes "estimateRoadPrice service actor i p (Some q) s = (Inr snapshot, t)"
    and "psv_has_tariffReader service" "psv_routingService service = Some provider"
  shows "road_snapshot (db s) provider actor i p q snapshot"
proof -
  from assms obtain a s2 route s3 sn where r: "GetOrderTariff actor i s = (Inr a, s2)"
    "Route provider p q s2 = (Inr route, s3)" "road_price a sn route = Inr snapshot"
    unfolding estimateRoadPrice_def by (elim bind_Inr) (auto simp: Inr_simps Let_def elim!: bind_Inr)
  from r(2) obtain now where "provider now p q = Inr route"
    unfolding Route_def by (elim external_Inr) auto
  with r(3) GetOrderTariff_Inr [OF r(1)] show ?thesis
    by (force simp: road_snapshot_def road_price_def snapshotPriceCents_def split: sum.splits)
qed

text \<open>A new row is the last one.\<close>

lemma insert_order_Inr:
  assumes "insert_order row d = (Inr r, d')"
  shows "r = row" "d' = d\<lparr>orders := orders d @ [row]\<rparr>" "orders_unique (orders d @ [row])"
    "order_checks row" "price_non_negative row"
  using assms by (auto simp: insert_order_def split: if_splits)

lemma resolved_passenger_frame:
  "keeps (on_db (\<lambda>d. orders d = v \<and> taxi_parks d = w)) (resolveTaxiParkOrderPassenger now park phone name)"
proof -
  have "orders (snd (upsert_passenger i ph nm now d)) = orders d
      \<and> taxi_parks (snd (upsert_passenger i ph nm now d)) = taxi_parks d" for i ph nm d
    by (simp add: upsert_passenger_def split: option.split)
  then show ?thesis
    unfolding resolveTaxiParkOrderPassenger_def
    by (intro keeps_intros keeps_case_product keeps_sql) auto
qed

lemma CreateOrderByOwnerUserID_Inr:
  assumes "CreateOrderByOwnerUserID actor record s = (Inr o1, t)"
  obtains tp now d newID passengerID x y where "tp \<in> set (parks_of_actor (db s) actor)"
    "orders (db t) = orders (db s) @
       [park_order_row newID now d (tp_ID tp) (tp_CityID tp) passengerID x y record]"
    "orders_unique (orders (db t))" "ord_ID o1 = newID"
proof -
  from assms obtain s1 b u where s1: "db s1 = db s" and commit: "db t = (if b then db u else db s)" and
    body: "bind time_Now (\<lambda>now.
      bind (taxiParkIDAndCityByActor actor) (\<lambda>(parkID, cityID).
      bind (resolveTaxiParkOrderPassenger now parkID (cor_PassengerPhone record) (cor_PassengerName record))
        (\<lambda>passengerID.
      bind (resolveOrderTariff parkID (cor_TariffID record)) (\<lambda>(orderTariffID, parkTariffID, _, _, _).
      bind uuid_New (\<lambda>newID.
      bind (sql (\<lambda>_ d. insert_order
          (park_order_row newID now d parkID cityID passengerID orderTariffID parkTariffID record) d))
        (\<lambda>row.
      bind (lift (scanDispatchOrder row)) (\<lambda>o1.
      andthen (sql (\<lambda>_. append_events (created_events actor now o1)))
        (ret (True, o1))))))))) s1 = (Inr (b, o1), u)"
    unfolding CreateOrderByOwnerUserID_def by (rule db_transaction_Inr)
  from body obtain now s2 parkID cityID s3 passengerID s4 orderTariffID parkTariffID p1 s5 newID s6 row s7 e s8
    where r: "taxiParkIDAndCityByActor actor s2 = (Inr (parkID, cityID), s3)" "s2 = s1"
    "resolveTaxiParkOrderPassenger now parkID (cor_PassengerPhone record) (cor_PassengerName record) s3
       = (Inr passengerID, s4)"
    "resolveOrderTariff parkID (cor_TariffID record) s4 = (Inr (orderTariffID, parkTariffID, p1), s5)"
    "uuid_New s5 = (Inr newID, s6)"
    "sql (\<lambda>_ d. insert_order
          (park_order_row newID now d parkID cityID passengerID orderTariffID parkTariffID record) d) s6
       = (Inr row, s7)"
    "scanDispatchOrder row = Inr o1"
    "sql (\<lambda>_. append_events (created_events actor now o1)) s7 = (Inr e, s8)" "b" "u = s8"
    by (elim bind_Inr) (auto simp: Inr_simps elim!: bind_Inr)
  have tp: "(parkID, cityID) \<in> (\<lambda>tp. (tp_ID tp, tp_CityID tp)) ` set (parks_of_actor (db s) actor)"
    "db s3 = db s"
    using r(1,2) s1 unfolding taxiParkIDAndCityByActor_def no_rows_is_Inr
    by (auto elim!: query_Inr dest!: one_row_Inr)
  have s4: "orders (db s4) = orders (db s)"
    using keepsD [OF resolved_passenger_frame [of "orders (db s)" "taxi_parks (db s)" now parkID
        "cor_PassengerPhone record" "cor_PassengerName record"], of s3] r(3) tp(2) by simp
  have s5: "db s5 = db s4" using r(4) by (rule keeps_db_eq) (intro keeps_intros)
  have s6: "db s6 = db s5" using r(5) by (auto simp: uuid_New_def)
  let ?row = "park_order_row newID now (db s6) parkID cityID passengerID orderTariffID parkTariffID record"
  have s7: "insert_order ?row (db s6) = (Inr row, db s7)" using r(6) by (rule sql_Inr) simp
  have s8: "orders (db s8) = orders (db s7)" using r(8) by (rule sql_Inr) (auto simp: append_events_def)
  note ins = insert_order_Inr [OF s7]
  have rows: "orders (db t) = orders (db s) @ [?row]"
    using commit r(9,10) s8 ins(2) s4 s5 s6 by simp
  have id: "ord_ID o1 = newID"
    using scanDispatchOrder_Inr(1) [OF r(7)] ins(1) by (simp add: park_order_row_def)
  from tp(1) obtain tp where tp': "tp \<in> set (parks_of_actor (db s) actor)" "parkID = tp_ID tp"
    "cityID = tp_CityID tp" by auto
  show thesis
    by (rule that [OF tp'(1) _ _ id])
      (use rows ins(3) s4 s5 s6 in \<open>simp_all add: tp'(2,3)\<close>)
qed

lemma MarkOrderSearching_last:
  assumes "MarkOrderSearching i s = (Inr u, t)" "orders (db s) = xs @ [r]" "orders_unique (xs @ [r])"
    and r: "ord_ID r = i" "ord_Status r = OrderStatusSearching" "ord_DriverID r = None" "ord_DeletedAt r = None"
  shows "\<exists>now. orders (db t) = xs @ [r\<lparr>ord_Version := ord_Version r + 1, ord_UpdatedAt := now\<rparr>]"
proof -
  let ?P = "\<lambda>r. ord_ID r = i \<and> ord_Status r \<in> {OrderStatusCreated, OrderStatusSearching}
           \<and> ord_DriverID r = None \<and> ord_DeletedAt r = None"
  let ?f = "\<lambda>r. r\<lparr>ord_Status := OrderStatusSearching, ord_Version := ord_Version r + 1\<rparr>"
  obtain n s1 where n: "sql (update_orders ?P ?f) s = (Inr n, s1)" "require_row n s1 = (Inr u, t)"
    using assms(1) unfolding MarkOrderSearching_def by (rule bind_Inr)
  have t: "t = s1" using n(2) by (auto simp: require_row_def Inr_simps split: if_splits)
  from n(1) obtain now where "update_orders ?P ?f now (db s) = (Inr n, db s1)"
    by (rule sql_Inr) blast
  from update_orders_Inr(2) [OF this]
  have rows: "orders (db t) = sql_update ?P (\<lambda>r. (?f r)\<lparr>ord_UpdatedAt := now\<rparr>) (xs @ [r])"
    using assms(2) t by simp
  have "i \<notin> ord_ID ` set xs" using assms(3) r(1) by (simp add: orders_unique_def)
  then have "map (\<lambda>r. if ?P r then (?f r)\<lparr>ord_UpdatedAt := now\<rparr> else r) xs = xs"
    by (intro map_idI) auto
  moreover have "?P r" using r by simp
  ultimately have "orders (db t) = xs @ [(?f r)\<lparr>ord_UpdatedAt := now\<rparr>]"
    unfolding rows sql_update_def by (simp del: map_append add: map_append [of _ xs "[r]"])
  moreover have "?f r = r\<lparr>ord_Version := ord_Version r + 1\<rparr>" using r(2) by (simp add: order.equality)
  ultimately show ?thesis by auto
qed

text \<open>Until the order is handed to the dispatcher no Redis key changes.\<close>

lemma redis_uuid_New [keeps_intros]: "keeps (on_redis R) uuid_New"
  by (rule keeps_uuid_New) simp

lemma redis_transaction: "keeps (on_redis R) body \<Longrightarrow> keeps (on_redis R) (db_transaction body)"
  unfolding db_transaction_def by (rule keeps_transaction) auto

lemma redis_order_creation [keeps_intros]:
  "keeps (on_redis R) (CreateOrderByOwnerUserID actor record)"
  "keeps (on_redis R) (GetSettingsByActorUserID actor)"
  "keeps (on_redis R) (estimateRoadPrice service actor i p q)"
  unfolding CreateOrderByOwnerUserID_def GetSettingsByActorUserID_def estimateRoadPrice_def Let_def
    taxiParkIDAndCityByActor_def resolveTaxiParkOrderPassenger_def resolveOrderTariff_def
    read_global_tariff_def GetOrderTariff_def taxiParkIDByActor_def Route_def
  by (intro redis_transaction keeps_intros keeps_case_product keeps_external; simp add: keeps_def)+

definition first_task :: "uuid \<Rightarrow> dispatch_config option \<Rightarrow> dispatch_task \<Rightarrow> bool" where
  "first_task i config task \<longleftrightarrow> task_OrderID task = i \<and> task_Attempt task = 0
     \<and> task_ExcludeDriverIDs task = [] \<and> task_Config task = config"

lemma enqueueOrder_new:
  assumes "enqueueOrder dispatch i config s = (Inr u, t)" "orders (db s) = xs @ [r]"
    and "orders_unique (xs @ [r])" "ord_ID r = i" "ord_Status r = OrderStatusSearching"
    "ord_DriverID r = None" "ord_DeletedAt r = None"
  shows "\<exists>v now. orders (db t) = xs @ [r\<lparr>ord_Version := v, ord_UpdatedAt := now\<rparr>]"
    and "rd_dispatching (redis s) i = None \<Longrightarrow>
      \<exists>task. rd_queue (redis t) = task # rd_queue (redis s) \<and> first_task i config task"
proof -
  obtain started s1 where b: "(if svc_has_state_store dispatch then BeginDispatch i (minutes 30) else ret True) s
      = (Inr started, s1)"
    and rest: "(if \<not> started then done_op else andthen (MarkOrderSearching i)
       (bind time_Now (\<lambda>now. Publish \<lparr>task_OrderID = i, task_Attempt = 0, task_QueuedAt = now,
          task_ExcludeDriverIDs = [], task_Config = config\<rparr>))) s1 = (Inr u, t)"
    using assms(1) unfolding enqueueOrder_def by (rule bind_Inr)
  have s1: "db s1 = db s" using b by (rule keeps_db_eq) (intro keeps_intros)
  have queue: "rd_queue (redis s1) = rd_queue (redis s)
      \<and> (rd_dispatching (redis s) i = None \<longrightarrow> started)"
  proof (cases "svc_has_state_store dispatch")
    case True
    then have run: "BeginDispatch i (minutes 30) s = (Inr started, s1)" using b by simp
    have "started" if "rd_dispatching (redis s) i = None"
      using run that unfolding BeginDispatch_def
      by (auto simp: look_dispatching_def live_def elim!: redis_cmd_Inr)
    then show ?thesis
      using keepsD [OF keeps_BeginDispatch_queue [of "rd_queue (redis s)" i "minutes 30"], of s] run by simp
  qed (use b in \<open>simp add: Inr_simps\<close>)
  show "\<exists>v now. orders (db t) = xs @ [r\<lparr>ord_Version := v, ord_UpdatedAt := now\<rparr>]"
  proof (cases started)
    case False
    have "orders (db t) = xs @ [r\<lparr>ord_Version := ord_Version r, ord_UpdatedAt := ord_UpdatedAt r\<rparr>]"
      using rest False s1 assms(2) by (simp add: Inr_simps)
    then show ?thesis by blast
  next
    case True
    obtain e s2 where m: "MarkOrderSearching i s1 = (Inr e, s2)" "db t = db s2"
      using rest True unfolding Publish_def
      by (auto simp: Inr_simps elim!: bind_Inr redis_cmd_Inr)
    from MarkOrderSearching_last [OF m(1) _ assms(3-7)] s1 assms(2) m(2) show ?thesis by auto
  qed
  show "\<exists>task. rd_queue (redis t) = task # rd_queue (redis s) \<and> first_task i config task"
    if "rd_dispatching (redis s) i = None"
  proof -
    have started using queue that by blast
    with rest obtain e s2 now where m: "MarkOrderSearching i s1 = (Inr e, s2)"
      "Publish \<lparr>task_OrderID = i, task_Attempt = 0, task_QueuedAt = now, task_ExcludeDriverIDs = [],
         task_Config = config\<rparr> s2 = (Inr u, t)"
      by (auto simp: Inr_simps elim!: bind_Inr)
    have "redis s2 = redis s1"
      using m(1) unfolding MarkOrderSearching_def require_row_def
      by (auto simp: Inr_simps split: if_splits elim!: bind_Inr sql_Inr)
    have "rd_queue (redis t) = \<lparr>task_OrderID = i, task_Attempt = 0, task_QueuedAt = now,
        task_ExcludeDriverIDs = [], task_Config = config\<rparr> # rd_queue (redis s2)"
      using m(2) unfolding Publish_def queue_push_def
      by (rule redis_cmd_Inr) (auto dest!: arg_cong [where f = rd_queue])
    with queue \<open>redis s2 = redis s1\<close> show ?thesis by (simp add: first_task_def)
  qed
qed

lemma orders_unique_touched:
  "orders_unique (xs @ [r\<lparr>ord_Version := v, ord_UpdatedAt := now\<rparr>]) = orders_unique (xs @ [r])"
proof -
  have "serving (r\<lparr>ord_Version := v, ord_UpdatedAt := now\<rparr>) = serving r"
    "current_of_passenger (r\<lparr>ord_Version := v, ord_UpdatedAt := now\<rparr>) = current_of_passenger r"
    by (simp_all add: serving_def current_of_passenger_def)
  then show ?thesis by (cases "serving r"; cases "current_of_passenger r") (simp_all add: orders_unique_def)
qed

lemma keeps_redis_eq:
  assumes "m s = (r, t)" "\<And>P. keeps (on_redis P) m"
  shows "redis t = redis s"
  using keepsD [OF assms(2) [of "\<lambda>d. d = redis s"], of s] assms(1) by simp

lemma check_order_points_Inr:
  assumes "check_order_points request = Inr (p, q)"
  shows "crq_PickupLocation request = Some p" "crq_DestinationLocation request = Some q"
    "NewCoordinates (Latitude p) (Longitude p) = Inr p" "NewCoordinates (Latitude q) (Longitude q) = Inr q"
    "crq_TariffID request \<noteq> uuid_Nil"
  using assms
  by (auto simp: check_order_points_def validateOrderCoordinates_def NewCoordinates_def
      split: if_splits option.splits sum.splits)

lemma orderRecordFromRequest_Inr:
  assumes "orderRecordFromRequest request = Inr entry"
  obtains p q where "check_order_points request = Inr (p, q)" "cor_PickupLocation entry = p"
    "cor_DestinationLocation entry = Some q" "cor_TariffID entry = crq_TariffID request"
  using assms by (auto simp: orderRecordFromRequest_def Let_def split: sum.splits)


section \<open>A park at work\<close>

definition sample_route :: routing where
  "sample_route now p q = Inr \<lparr>rte_DistanceMeters = 12300, rte_DurationSeconds = 600, rte_Source = ''road'',
     rte_DataVersion = ''1'', rte_CalculatedAt = now\<rparr>"

definition sample_park_service :: park_service where
  "sample_park_service = \<lparr>psv_dispatchController = Some (NewService True False empty_config),
     psv_has_realtimeGateway = False, psv_has_financeProcessor = True, psv_routingService = Some sample_route,
     psv_has_tariffReader = True, psv_LoadLocation = (\<lambda>_. True)\<rparr>"

definition park_trip :: order_row where
  "park_trip = trip_order\<lparr>meta_taxi_park_id := Some 7\<rparr>"

definition park_world :: "order_row list \<Rightarrow> world" where
  "park_world rows = world_at 5 ((sample_db sample_order)\<lparr>orders := rows, park_settings := [sample_settings]\<rparr>)"

definition sample_call :: create_order_request where
  "sample_call = \<lparr>crq_PassengerPhone = ''+79123456789'', crq_PassengerName = ''N'', crq_TariffID = 1,
     crq_PickupAddress = ''A'', crq_PickupLocation = Some empty_coordinates, crq_DestinationAddress = ''B'',
     crq_DestinationLocation = Some empty_coordinates, crq_PaymentType = no_payment_method,
     crq_PaymentMethod = no_payment_method, crq_Comment = []\<rparr>"

fun succeeds :: "('s, 'a) op \<Rightarrow> 's \<Rightarrow> bool" where
  "succeeds m s = (case m s of (Inl _, _) \<Rightarrow> False | (Inr _, _) \<Rightarrow> True)"


lemma succeeds_run: "succeeds m s \<Longrightarrow> \<exists>a t. m s = (Inr a, t)"
  by (auto split: prod.splits sum.splits)

lemma park_world_runs:
  "succeeds (CreateOrder sample_park_service 70 sample_call) (park_world [])"
  "succeeds (CancelOrder sample_park_service 70 1 []) (park_world [sample_order\<lparr>meta_taxi_park_id := Some 7\<rparr>])"
  "succeeds (CompleteOrder sample_park_service 70 1) (park_world [park_trip])"
  by code_simp+

lemma park_world_ok:
  "orders_consistent (orders (db (park_world [sample_order\<lparr>meta_taxi_park_id := Some 7\<rparr>])))"
  "orders_consistent (orders (db (park_world [park_trip])))"
  "list_all order_wf (orders (db (park_world [park_trip])))"
  by code_simp+

lemma park_world_balanced: "books_balanced (db (park_world rows))"
  using completed_world_balanced
  by (simp add: completed_world_def park_world_def world_at_def sample_db_def books_balanced_def
      accounts_ok_def driver_account_def park_account_def)

theorem CancelOrder_own_park_witness:
  "\<exists>o1 t. CancelOrder sample_park_service 70 1 [] (park_world [sample_order\<lparr>meta_taxi_park_id := Some 7\<rparr>])
     = (Inr o1, t) \<and> (\<exists>r. ord_Status r = OrderStatusCancelled \<and> r \<in> set (orders (db t)))"
proof -
  obtain o1 t where run: "CancelOrder sample_park_service 70 1 []
      (park_world [sample_order\<lparr>meta_taxi_park_id := Some 7\<rparr>]) = (Inr o1, t)"
    using succeeds_run [OF park_world_runs(2)] by blast
  from CancelOrder_own_park [OF run park_world_ok(1)] run show ?thesis
    by (auto elim!: replacedE)
qed

theorem CompleteOrder_settles_witness:
  "\<exists>o1 t. CompleteOrder sample_park_service 70 1 (park_world [park_trip]) = (Inr o1, t)
     \<and> 1 \<in> bk_settled (books_of (db t)) \<and> books_balanced (db t)"
proof -
  obtain o1 t where run: "CompleteOrder sample_park_service 70 1 (park_world [park_trip]) = (Inr o1, t)"
    using succeeds_run [OF park_world_runs(3)] by blast
  have "psv_has_financeProcessor sample_park_service" by (simp add: sample_park_service_def)
  from CompleteOrder_settles [OF run this park_world_ok(2,3) park_world_balanced] run show ?thesis by auto
qed


text \<open>
  The status check of a cancellation allows an order that is cancelled already, and it releases the driver
  of that order whatever he is doing: here he is driving another passenger.
\<close>

definition second_cancellation :: world where
  "second_cancellation = (park_world [])\<lparr>db := (db (park_world
     [(sample_order\<lparr>ord_ID := 4, ord_PassengerID := 6, ord_Status := OrderStatusCancelled,
        ord_DriverID := Some 3, meta_taxi_park_id := Some 7\<rparr>), park_trip]))
     \<lparr>drivers := [sample_driver\<lparr>drv_Status := DriverStatusBusy\<rparr>]\<rparr>\<rparr>"

lemma CancelOrder_frees_serving_driver:
  "list_all order_wf (orders (db second_cancellation)) \<and> orders_consistent (orders (db second_cancellation))
   \<and> (let d = db (snd (CancelOrder sample_park_service 70 4 [] second_cancellation))
      in map drv_Status (drivers d) = [DriverStatusOnline]
         \<and> map (\<lambda>r. (ord_DriverID r, ord_Status r)) (orders d) =
             [(Some 3, OrderStatusCancelled), (Some 3, OrderStatusInProgress)])"
  by code_simp

end
