(* ===== verification/Order_Typing.thy ===== *)
theory Order_Typing
  imports Park_Orders
begin

text \<open>
  What a caller may rely on in an order that any component hands out: its points lie on the earth and its
  prices are in roubles, whichever statement read the row.
\<close>

fun degrees_within :: "rat \<Rightarrow> f64 \<Rightarrow> bool" where
  "degrees_within bound (Fin x) \<longleftrightarrow> \<bar>x\<bar> \<le> bound"
| "degrees_within bound NaN \<longleftrightarrow> True"
| "degrees_within bound _ \<longleftrightarrow> False"

definition on_earth :: "coordinates \<Rightarrow> bool" where
  "on_earth c \<longleftrightarrow> degrees_within 90 (Latitude c) \<and> degrees_within 180 (Longitude c)"

definition order_typed :: "order \<Rightarrow> bool" where
  "order_typed o1 \<longleftrightarrow> on_earth (ord_PickupLocation o1)
     \<and> (case ord_DestinationLocation o1 of None \<Rightarrow> True | Some c \<Rightarrow> on_earth c)
     \<and> (case ord_EstimatedPrice o1 of None \<Rightarrow> True | Some m \<Rightarrow> Currency m = ''RUB'')
     \<and> (case ord_FinalPrice o1 of None \<Rightarrow> True | Some m \<Rightarrow> Currency m = ''RUB'')"

text \<open>Every value that an operation returns satisfies \<open>P\<close>.\<close>

definition yields :: "('s, 'a) op \<Rightarrow> ('a \<Rightarrow> bool) \<Rightarrow> bool" where
  "yields m P \<longleftrightarrow> (\<forall>s a t. m s = (Inr a, t) \<longrightarrow> P a)"

lemma yieldsI: "(\<And>s a t. m s = (Inr a, t) \<Longrightarrow> P a) \<Longrightarrow> yields m P"
  by (auto simp: yields_def)

lemma yieldsD: "yields m P \<Longrightarrow> m s = (Inr a, t) \<Longrightarrow> P a"
  by (auto simp: yields_def)

lemma NewCoordinates_on_earth: "NewCoordinates x y = Inr c \<Longrightarrow> on_earth c"
  by (cases x; cases y) (auto simp: NewCoordinates_def on_earth_def split: if_splits)

lemma scanDispatchOrder_typed: "scanDispatchOrder r = Inr o1 \<Longrightarrow> order_typed o1"
  by (auto simp: scanDispatchOrder_def coordinates_of_def order_typed_def Let_def in_roubles_def
      order.defs dest!: NewCoordinates_on_earth split: sum.splits option.splits)

lemma update_order_row_typed: "yields (update_order_row i v P f now) order_typed"
  unfolding update_order_row_def
  by (rule yieldsI) (auto simp: Inr_simps dest!: scanDispatchOrder_typed elim!: bind_Inr)

lemma read_typed:
  "yields (GetOrderByID i) order_typed" "yields (GetCurrentOrderByPassengerID i) order_typed"
  "yields (GetCurrentOrderByDriverID i) order_typed"
  "yields (TransitionOrderStatus tr) (pred_option order_typed)"
  "yields (taxiParkOrderForUpdate park i) order_typed"
  "yields (scheduledTaxiParkOrderForUpdate park i) order_typed"
  unfolding GetOrderByID_def GetCurrentOrderByPassengerID_def GetCurrentOrderByDriverID_def
    TransitionOrderStatus_def taxiParkOrderForUpdate_def scheduledTaxiParkOrderForUpdate_def
  by (rule yieldsI; auto simp: Inr_simps no_rows_is_Inr dest!: scanDispatchOrder_typed elim!: bind_Inr
      split: list.splits if_splits)+

lemma park_row_typed:
  "yields (transitionOrderByActorUserID a i st reason) order_typed"
  "yields (CancelScheduledOrderByActorUserID a i reason) order_typed"
  "yields (CreateOrderByOwnerUserID a rec) order_typed"
  "yields (CreateScheduledOrderByActorUserID a srec) order_typed"
  unfolding transitionOrderByActorUserID_def CancelScheduledOrderByActorUserID_def
    CreateOrderByOwnerUserID_def CreateScheduledOrderByActorUserID_def
  by (rule yieldsI; elim db_transaction_Inr bind_Inr;
      auto simp: Inr_simps no_rows_is_Inr split: if_splits prod.splits elim!: bind_Inr
        dest!: scanDispatchOrder_typed dest: yieldsD [OF update_order_row_typed])+

lemma park_read_typed:
  "yields (GetOrderByActorUserID a i) order_typed" "yields (GetScheduledOrderByActorUserID a i) order_typed"
  unfolding GetOrderByActorUserID_def GetScheduledOrderByActorUserID_def
  by (rule yieldsI; elim db_transaction_Inr bind_Inr;
      auto simp: Inr_simps order_typed_def split: prod.splits elim!: bind_Inr
        dest!: yieldsD [OF read_typed(5)] yieldsD [OF read_typed(6)])+


end
