(* ===== verification/Passenger_Auth.thy ===== *)
theory Passenger_Auth
  imports Park_Orders
begin

text \<open>
  The sign-in of passengers: \<^verbatim>\<open>internal/passenger/auth_service.go\<close> and \<^verbatim>\<open>jwt.go\<close>,
  \<^verbatim>\<open>internal/security/code.go\<close>, and the repositories \<^verbatim>\<open>passenger_auth_code_repository.go\<close>,
  \<^verbatim>\<open>passenger_refresh_token_repository.go\<close> and \<^verbatim>\<open>passenger_repository.go\<close> behind it.
  bcrypt, HMAC-SHA256, SHA-256 and the JSON and base64 text of a token are parameters, about which only
  what a theorem names is assumed.
\<close>

section \<open>Tokens\<close>

datatype token_use = TokenUseAccess | TokenUseRefresh | TokenUseOther string

record token_claims =
  tcl_Subject :: uuid
  tcl_Role :: user_role
  tcl_TokenType :: string
  tcl_TokenUse :: token_use
  tcl_TokenID :: uuid
  tcl_Issuer :: string
  tcl_IssuedAt :: int
  tcl_ExpiresAt :: int

text \<open>
  The cryptography and the text format of a token: the encoded header \<^verbatim>\<open>{"alg": "HS256", "typ": "JWT"}\<close>
  and its check, the encoding and decoding of the claims, \<^verbatim>\<open>base64(hmac(secret, text))\<close> and
  \<^verbatim>\<open>hex(sha256(text))\<close>.
\<close>

record token_codec =
  tcd_header :: string
  tcd_header_ok :: "string \<Rightarrow> bool"
  tcd_encode :: "token_claims \<Rightarrow> string"
  tcd_decode :: "string \<Rightarrow> token_claims option"
  tcd_mac :: "string \<Rightarrow> string \<Rightarrow> string"
  tcd_sha256 :: "string \<Rightarrow> string"

record token_manager =
  tkm_codec :: token_codec
  tkm_accessSecret :: string
  tkm_refreshSecret :: string
  tkm_issuer :: string
  tkm_accessTTL :: duration
  tkm_refreshTTL :: duration

definition ErrPassengerTokenInvalid :: sentinel where
  "ErrPassengerTokenInvalid = Msg ''passenger token invalid''"

definition TokenTypePassenger :: string where "TokenTypePassenger = ''passenger''"

text \<open>\<^verbatim>\<open>strings.Split(s, ".")\<close>.\<close>

fun split_dots :: "string \<Rightarrow> string list" where
  "split_dots [] = [[]]"
| "split_dots (c # cs) =
     (if c = CHR ''.'' then [] # split_dots cs
      else case split_dots cs of [] \<Rightarrow> [[c]] | p # ps \<Rightarrow> (c # p) # ps)"

definition token_sign :: "token_manager \<Rightarrow> string \<Rightarrow> token_use \<Rightarrow> string" where
  "token_sign m unsignedToken tokenUse =
     tcd_mac (tkm_codec m) (if tokenUse = TokenUseRefresh then tkm_refreshSecret m else tkm_accessSecret m)
       unsignedToken"

definition token_text :: "token_manager \<Rightarrow> token_claims \<Rightarrow> string" where
  "token_text m claims =
     (let unsignedToken = tcd_header (tkm_codec m) @ ''.'' @ tcd_encode (tkm_codec m) claims
      in unsignedToken @ ''.'' @ token_sign m unsignedToken (tcl_TokenUse claims))"

definition passenger_claims ::
  "token_manager \<Rightarrow> uuid \<Rightarrow> token_use \<Rightarrow> duration \<Rightarrow> time \<Rightarrow> uuid \<Rightarrow> token_claims" where
  "passenger_claims m passengerID tokenUse ttl now newID =
     \<lparr>tcl_Subject = passengerID, tcl_Role = UserRolePassenger, tcl_TokenType = TokenTypePassenger,
      tcl_TokenUse = tokenUse, tcl_TokenID = newID, tcl_Issuer = tkm_issuer m,
      tcl_IssuedAt = unix_seconds now, tcl_ExpiresAt = unix_seconds (now + ttl)\<rparr>"

definition issueToken ::
  "token_manager \<Rightarrow> uuid \<Rightarrow> token_use \<Rightarrow> duration \<Rightarrow> time \<Rightarrow> (world, string) op" where
  "issueToken m passengerID tokenUse ttl now =
     bind uuid_New (\<lambda>newID. ret (token_text m (passenger_claims m passengerID tokenUse ttl now newID)))"

definition GenerateTokenPair ::
  "token_manager \<Rightarrow> uuid \<Rightarrow> time \<Rightarrow> (world, string \<times> string \<times> time) op" where
  "GenerateTokenPair m passengerID now =
     bind (issueToken m passengerID TokenUseAccess (tkm_accessTTL m) now) (\<lambda>accessToken.
     bind (issueToken m passengerID TokenUseRefresh (tkm_refreshTTL m) now) (\<lambda>refreshToken.
       ret (accessToken, refreshToken, now + tkm_refreshTTL m)))"

definition parse_at :: "token_manager \<Rightarrow> string \<Rightarrow> token_use \<Rightarrow> time \<Rightarrow> error + token_claims" where
  "parse_at m token expectedUse now =
     (case split_dots token of
        [header, body, signature] \<Rightarrow>
          if signature \<noteq> token_sign m (header @ ''.'' @ body) expectedUse
             \<or> \<not> tcd_header_ok (tkm_codec m) header
          then Inl [ErrPassengerTokenInvalid]
          else (case tcd_decode (tkm_codec m) body of
              None \<Rightarrow> Inl [ErrPassengerTokenInvalid]
            | Some claims \<Rightarrow>
                if tcl_Subject claims = uuid_Nil \<or> tcl_Role claims \<noteq> UserRolePassenger
                   \<or> tcl_TokenType claims \<noteq> TokenTypePassenger \<or> tcl_TokenUse claims \<noteq> expectedUse
                   \<or> tcl_Issuer claims \<noteq> tkm_issuer m \<or> tcl_ExpiresAt claims \<le> unix_seconds now
                then Inl [ErrPassengerTokenInvalid] else Inr claims)
      | _ \<Rightarrow> Inl [ErrPassengerTokenInvalid])"

definition parseToken :: "token_manager \<Rightarrow> string \<Rightarrow> token_use \<Rightarrow> (world, token_claims) op" where
  "parseToken m token expectedUse = bind time_Now (\<lambda>now. lift (parse_at m token expectedUse now))"

definition AccessTTLSeconds :: "token_manager \<Rightarrow> int" where
  "AccessTTLSeconds m = tkm_accessTTL m sdiv seconds 1"

definition HashToken :: "token_manager \<Rightarrow> string \<Rightarrow> string" where
  "HashToken m token = tcd_sha256 (tkm_codec m) token"

section \<open>Codes\<close>

text \<open>
  \<^verbatim>\<open>passenger_auth_codes\<close>, with its check on the attempts.  Two codes of one instant: the statement
  does not say which comes first, the model takes the one that was stored first.
\<close>

definition code_checks :: "passenger_auth_code \<Rightarrow> bool" where
  "code_checks c \<longleftrightarrow> 0 \<le> pac_Attempts c \<and> 0 < pac_MaxAttempts c"

definition new_code :: "uuid \<Rightarrow> string \<Rightarrow> string \<Rightarrow> int \<Rightarrow> time \<Rightarrow> time \<Rightarrow> passenger_auth_code" where
  "new_code newID phone hash maxAttempts expiresAt now =
     \<lparr>pac_ID = newID, pac_Phone = phone, pac_CodeHash = hash, pac_Attempts = 0,
      pac_MaxAttempts = maxAttempts, pac_ExpiresAt = expiresAt, pac_UsedAt = None,
      pac_CreatedAt = now, pac_UpdatedAt = now\<rparr>"

definition CreateAuthCode :: "string \<Rightarrow> string \<Rightarrow> int \<Rightarrow> time \<Rightarrow> (world, passenger_auth_code) op" where
  "CreateAuthCode phone hash maxAttempts expiresAt =
     bind uuid_New (\<lambda>newID. sql (\<lambda>now d.
       let c = new_code newID phone hash maxAttempts expiresAt now
       in if \<not> code_checks c then (Inl [Infra ErrCheckViolation], d)
          else if newID \<in> pac_ID ` set (auth_codes d) then (Inl [Infra ErrUniqueViolation], d)
          else (Inr c, d\<lparr>auth_codes := auth_codes d @ [c]\<rparr>)))"

text \<open>An \<^verbatim>\<open>UPDATE\<close> of codes; the trigger writes \<^verbatim>\<open>updated_at\<close>.\<close>

definition update_codes ::
  "(passenger_auth_code \<Rightarrow> bool) \<Rightarrow> (passenger_auth_code \<Rightarrow> passenger_auth_code) \<Rightarrow> time \<Rightarrow> db \<Rightarrow>
   (error + nat) \<times> db" where
  "update_codes P f now d =
     (Inr (rows_affected P (auth_codes d)),
      d\<lparr>auth_codes := sql_update P (\<lambda>c. (f c)\<lparr>pac_UpdatedAt := now\<rparr>) (auth_codes d)\<rparr>)"

definition InvalidateActiveByPhone :: "string \<Rightarrow> time \<Rightarrow> (world, unit) op" where
  "InvalidateActiveByPhone phone invalidatedAt =
     bind (sql (update_codes (\<lambda>c. pac_Phone c = phone \<and> pac_UsedAt c = None \<and> invalidatedAt < pac_ExpiresAt c)
       (\<lambda>c. c\<lparr>pac_UsedAt := Some invalidatedAt\<rparr>))) (\<lambda>_. done_op)"

definition latest_codes :: "string \<Rightarrow> db \<Rightarrow> passenger_auth_code list" where
  "latest_codes phone d =
     sort_key (\<lambda>c. - pac_CreatedAt c) (filter (\<lambda>c. pac_Phone c = phone) (auth_codes d))"

definition GetLatestActiveByPhone :: "string \<Rightarrow> (world, passenger_auth_code) op" where
  "GetLatestActiveByPhone phone = query (\<lambda>_ d. one_row (latest_codes phone d))"

definition IncrementAttempts :: "uuid \<Rightarrow> (world, unit) op" where
  "IncrementAttempts codeID =
     bind (sql (update_codes (\<lambda>c. pac_ID c = codeID) (\<lambda>c. c\<lparr>pac_Attempts := pac_Attempts c + 1\<rparr>))) require_row"

definition MarkUsed :: "uuid \<Rightarrow> time \<Rightarrow> (world, unit) op" where
  "MarkUsed codeID usedAt =
     bind (sql (update_codes (\<lambda>c. pac_ID c = codeID) (\<lambda>c. c\<lparr>pac_UsedAt := Some usedAt\<rparr>))) require_row"

section \<open>Refresh tokens\<close>

definition insert_token :: "uuid \<Rightarrow> string \<Rightarrow> time \<Rightarrow> db \<Rightarrow> (error + unit) \<times> db" where
  "insert_token passengerID tokenHash expiresAt d =
     (if tokenHash \<in> rft_TokenHash ` set (refresh_tokens d) then (Inl [Infra ErrUniqueViolation], d)
      else if passengerID \<notin> psg_ID ` set (passengers d) then (Inl [Infra ErrForeignKeyViolation], d)
      else (Inr (), d\<lparr>refresh_tokens := refresh_tokens d @
        [\<lparr>rft_PassengerID = passengerID, rft_TokenHash = tokenHash, rft_ExpiresAt = expiresAt,
          rft_RevokedAt = None\<rparr>]\<rparr>))"

definition StoreToken :: "uuid \<Rightarrow> string \<Rightarrow> time \<Rightarrow> (world, unit) op" where
  "StoreToken passengerID tokenHash expiresAt = sql (\<lambda>_. insert_token passengerID tokenHash expiresAt)"

definition revoke_tokens :: "(refresh_token_row \<Rightarrow> bool) \<Rightarrow> time \<Rightarrow> db \<Rightarrow> (error + nat) \<times> db" where
  "revoke_tokens P now d =
     (Inr (rows_affected P (refresh_tokens d)),
      d\<lparr>refresh_tokens := sql_update P (\<lambda>r. r\<lparr>rft_RevokedAt := Some now\<rparr>) (refresh_tokens d)\<rparr>)"

text \<open>\<^verbatim>\<open>now()\<close> is the start of the transaction.\<close>

definition RotateToken :: "string \<Rightarrow> uuid \<Rightarrow> string \<Rightarrow> time \<Rightarrow> (world, unit) op" where
  "RotateToken oldHash passengerID newHash newExpiresAt = db_transaction
     (bind time_Now (\<lambda>started.
      andthen (bind (sql (\<lambda>_. revoke_tokens (\<lambda>r. rft_TokenHash r = oldHash \<and> rft_PassengerID r = passengerID
         \<and> rft_RevokedAt r = None \<and> started < rft_ExpiresAt r) started)) require_row)
      (andthen (sql (\<lambda>_. insert_token passengerID newHash newExpiresAt)) (ret (True, ())))))"

definition RevokeToken :: "string \<Rightarrow> (world, unit) op" where
  "RevokeToken tokenHash =
     bind (sql (\<lambda>now. revoke_tokens (\<lambda>r. rft_TokenHash r = tokenHash \<and> rft_RevokedAt r = None) now))
       (\<lambda>_. done_op)"

section \<open>Passengers\<close>

definition GetPassengerByID :: "uuid \<Rightarrow> (world, passenger) op" where
  "GetPassengerByID i =
     query (\<lambda>_ d. one_row (filter (\<lambda>p. psg_ID p = i \<and> psg_DeletedAt p = None) (passengers d)))"

definition GetPassengerByPhone :: "string \<Rightarrow> (world, passenger) op" where
  "GetPassengerByPhone phone =
     query (\<lambda>_ d. one_row (filter (\<lambda>p. psg_Phone p = phone \<and> psg_DeletedAt p = None) (passengers d)))"

definition CreatePassenger :: "string \<Rightarrow> string \<Rightarrow> (world, passenger) op" where
  "CreatePassenger phone name =
     bind uuid_New (\<lambda>newID. sql (\<lambda>now d.
       let p = (new_passenger newID phone name now)\<lparr>psg_PhoneVerifiedAt := None\<rparr>
       in if newID \<in> psg_ID ` set (passengers d) \<or> phone \<in> psg_Phone ` set (passengers d)
          then (Inl [Infra ErrUniqueViolation], d)
          else (Inr p, d\<lparr>passengers := passengers d @ [p]\<rparr>)))"

definition authenticated_row :: "time option \<Rightarrow> time \<Rightarrow> time \<Rightarrow> passenger \<Rightarrow> passenger" where
  "authenticated_row phoneVerifiedAt lastLoginAt now p =
     p\<lparr>psg_PhoneVerifiedAt := (case phoneVerifiedAt of None \<Rightarrow> psg_PhoneVerifiedAt p | Some t \<Rightarrow> Some t),
       psg_LastLoginAt := Some lastLoginAt, psg_UpdatedAt := now\<rparr>"

definition MarkAuthenticated :: "uuid \<Rightarrow> time option \<Rightarrow> time \<Rightarrow> (world, passenger) op" where
  "MarkAuthenticated i phoneVerifiedAt lastLoginAt =
     bind (sql (\<lambda>now d.
        let P = (\<lambda>p. psg_ID p = i \<and> psg_DeletedAt p = None); f = authenticated_row phoneVerifiedAt lastLoginAt now
        in (Inr (map f (filter P (passengers d))), d\<lparr>passengers := sql_update P f (passengers d)\<rparr>)))
     (\<lambda>rows. lift (one_row rows))"

section \<open>The service\<close>

text \<open>
  bcrypt draws a salt, here an identifier of the random stream; a comparison returns an error when the
  code does not belong to the hash.
\<close>

record passenger_auth =
  pas_HashCode :: "uuid \<Rightarrow> string \<Rightarrow> error + string"
  pas_CompareCodeAndHash :: "string \<Rightarrow> string \<Rightarrow> error + unit"
  pas_tokenManager :: token_manager
  pas_codeLength :: int
  pas_codeTTL :: duration
  pas_maxCodeAttempts :: int
  pas_devCode :: string

definition NewAuthService :: "passenger_auth \<Rightarrow> passenger_auth" where
  "NewAuthService params = params\<lparr>pas_devCode := TrimSpace (pas_devCode params)\<rparr>"

definition digit_of :: "uuid \<Rightarrow> char" where
  "digit_of r = ''0123456789'' ! (unat r mod 10)"

primrec numeric_code :: "nat \<Rightarrow> (world, string) op" where
  "numeric_code 0 = ret []"
| "numeric_code (Suc n) = bind uuid_New (\<lambda>r. bind (numeric_code n) (\<lambda>rest. ret (digit_of r # rest)))"

definition GenerateNumericCode :: "int \<Rightarrow> (world, string) op" where
  "GenerateNumericCode length_wanted =
     (if length_wanted \<le> 0 then fail [Msg ''code length must be positive'']
      else numeric_code (nat length_wanted))"

definition generateCode :: "passenger_auth \<Rightarrow> (world, string) op" where
  "generateCode service =
     (if pas_devCode service \<noteq> [] then ret (pas_devCode service)
      else GenerateNumericCode (pas_codeLength service))"

definition SendCode :: "string \<Rightarrow> string \<Rightarrow> (world, unit) op" where
  "SendCode phone code =
     external (\<lambda>s. (Inr (), s\<lparr>texted := texted s @ [\<lparr>txt_Phone = phone, txt_Code = code\<rparr>]\<rparr>))"

definition RequestCode :: "passenger_auth \<Rightarrow> string \<Rightarrow> (world, unit) op" where
  "RequestCode service requested =
     bind (lift (NormalizePhone requested)) (\<lambda>phone.
     bind (generateCode service) (\<lambda>code.
     bind uuid_New (\<lambda>salt.
     bind (lift (pas_HashCode service salt code)) (\<lambda>hash.
     bind time_Now (\<lambda>now.
     andthen (InvalidateActiveByPhone phone now)
     (bind (CreateAuthCode phone hash (pas_maxCodeAttempts service) (now + pas_codeTTL service)) (\<lambda>_.
       SendCode phone code)))))))"

record confirm_request =
  cfr_Phone :: string
  cfr_Code :: string
  cfr_Name :: string

definition check_code :: "passenger_auth_code \<Rightarrow> time \<Rightarrow> error + unit" where
  "check_code c now =
     (if pac_UsedAt c \<noteq> None then Inl [Service ErrCodeAlreadyUsed]
      else if pac_ExpiresAt c < now then Inl [Service ErrCodeExpired]
      else if pac_MaxAttempts c \<le> pac_Attempts c then Inl [Service ErrTooManyAttempts]
      else Inr ())"

text \<open>The passenger of a telephone number, registered at the first sign-in.\<close>

definition known_passenger :: "string \<Rightarrow> string \<Rightarrow> (world, passenger) op" where
  "known_passenger phone name =
     catching (GetPassengerByPhone phone) (\<lambda>r. case r of
        Inl e \<Rightarrow> if errors_Is e (Infra ErrNoRows) then CreatePassenger phone (NormalizePassengerName name)
                 else fail e
      | Inr p \<Rightarrow> ret p)"

definition compare_code :: "passenger_auth \<Rightarrow> string \<Rightarrow> passenger_auth_code \<Rightarrow> (world, unit) op" where
  "compare_code service code c =
     (case pas_CompareCodeAndHash service (TrimSpace code) (pac_CodeHash c) of
        Inr _ \<Rightarrow> done_op
      | Inl _ \<Rightarrow> andthen (IncrementAttempts (pac_ID c)) (fail [Service ErrInvalidCode]))"

text \<open>What follows a code that was found right.\<close>

definition sign_in ::
  "passenger_auth \<Rightarrow> string \<Rightarrow> string \<Rightarrow> passenger_auth_code \<Rightarrow> time \<Rightarrow> (world, string \<times> string \<times> passenger) op" where
  "sign_in service phone name c now =
     bind (known_passenger phone name) (\<lambda>p0.
     if \<not> psg_IsActive p0 then fail [Service ErrPassengerBlocked] else
     bind (MarkAuthenticated (psg_ID p0) (if psg_PhoneVerifiedAt p0 = None then Some now else None) now) (\<lambda>p.
     andthen (MarkUsed (pac_ID c) now)
     (bind (GenerateTokenPair (pas_tokenManager service) (psg_ID p) now)
        (\<lambda>(accessToken, refreshToken, refreshExpiresAt).
     andthen (StoreToken (psg_ID p) (HashToken (pas_tokenManager service) refreshToken) refreshExpiresAt)
       (ret (accessToken, refreshToken, p))))))"

definition ConfirmCode :: "passenger_auth \<Rightarrow> confirm_request \<Rightarrow> (world, string \<times> string \<times> passenger) op" where
  "ConfirmCode service request =
     bind (lift (NormalizePhone (cfr_Phone request))) (\<lambda>phone.
     bind (no_rows_is (Service ErrInvalidCode) (GetLatestActiveByPhone phone)) (\<lambda>c.
     bind time_Now (\<lambda>now.
     andthen (lift (check_code c now))
     (andthen (compare_code service (cfr_Code request) c) (sign_in service phone (cfr_Name request) c now)))))"

definition Refresh :: "passenger_auth \<Rightarrow> string \<Rightarrow> (world, string \<times> string) op" where
  "Refresh service presented =
     bind (catching (parseToken (pas_tokenManager service) presented TokenUseRefresh) (\<lambda>r. case r of
        Inl e \<Rightarrow> fail [Service ErrInvalidRefreshToken] | Inr claims \<Rightarrow> ret claims)) (\<lambda>claims.
     bind (no_rows_is (Service ErrInvalidRefreshToken) (GetPassengerByID (tcl_Subject claims))) (\<lambda>p.
     if \<not> psg_IsActive p then fail [Service ErrPassengerBlocked] else
     bind time_Now (\<lambda>now.
     bind (GenerateTokenPair (pas_tokenManager service) (psg_ID p) now)
        (\<lambda>(accessToken, refreshToken, refreshExpiresAt).
     andthen (no_rows_is (Service ErrInvalidRefreshToken)
        (RotateToken (HashToken (pas_tokenManager service) presented) (psg_ID p)
           (HashToken (pas_tokenManager service) refreshToken) refreshExpiresAt))
       (ret (accessToken, refreshToken))))))"

definition Logout :: "passenger_auth \<Rightarrow> string \<Rightarrow> (world, unit) op" where
  "Logout service presented =
     (if TrimSpace presented = [] then fail [Service ErrInvalidRefreshToken]
      else RevokeToken (HashToken (pas_tokenManager service) presented))"

section \<open>The codes stay within their attempts\<close>

definition codes_ok :: "db \<Rightarrow> bool" where
  "codes_ok d \<longleftrightarrow> distinct (map pac_ID (auth_codes d))
     \<and> (\<forall>c \<in> set (auth_codes d). 0 \<le> pac_Attempts c \<and> pac_Attempts c \<le> pac_MaxAttempts c)"

lemma after_bind:
  assumes "\<And>a t. m s = (Inr a, t) \<Longrightarrow> I (snd (k a t))" "\<And>e t. m s = (Inl e, t) \<Longrightarrow> I t"
  shows "I (snd (bind m k s))"
  using assms by (auto simp: bind_def split: prod.splits sum.splits)

lemma update_codes_ids: "map pac_ID (auth_codes (snd (update_codes P f now d))) = map pac_ID (auth_codes d)"
  if "\<And>c. pac_ID (f c) = pac_ID c"
  using that by (simp add: update_codes_def sql_update_def comp_def if_distrib cong: map_cong)

lemma update_codes_ok:
  assumes "codes_ok d" "\<And>c. pac_ID (f c) = pac_ID c"
    and "\<And>c. c \<in> set (auth_codes d) \<Longrightarrow> P c \<Longrightarrow> 0 \<le> pac_Attempts (f c) \<and> pac_Attempts (f c) \<le> pac_MaxAttempts (f c)"
  shows "codes_ok (snd (update_codes P f now d))"
proof -
  have "distinct (map pac_ID (auth_codes (snd (update_codes P f now d))))"
    using assms(1) update_codes_ids [OF assms(2)] by (simp add: codes_ok_def)
  moreover have "\<forall>c \<in> set (auth_codes (snd (update_codes P f now d))).
      0 \<le> pac_Attempts c \<and> pac_Attempts c \<le> pac_MaxAttempts c"
    using assms(1,3) by (auto simp: update_codes_def sql_update_def codes_ok_def)
  ultimately show ?thesis by (simp add: codes_ok_def)
qed

lemma codes_ok_other [simp]:
  "codes_ok (d\<lparr>refresh_tokens := ts\<rparr>) = codes_ok d" "codes_ok (d\<lparr>passengers := ps\<rparr>) = codes_ok d"
  by (simp_all add: codes_ok_def)

lemma codes_ok_sql:
  assumes "\<And>now d. codes_ok d \<Longrightarrow> codes_ok (snd (f now d))"
  shows "keeps (on_db codes_ok) (sql f)"
  using assms by (rule keeps_sql)

lemma keeps_codes_ok [keeps_intros]:
  "keeps (on_db codes_ok) (MarkUsed i now)"
  "keeps (on_db codes_ok) (InvalidateActiveByPhone phone now)"
  "keeps (on_db codes_ok) (MarkAuthenticated p v l)"
  "keeps (on_db codes_ok) (StoreToken p h e)"
  "keeps (on_db codes_ok) (RevokeToken h)"
  "keeps (on_db codes_ok) (CreatePassenger phone name)"
proof -
  have used: "codes_ok (snd (update_codes P (\<lambda>c. c\<lparr>pac_UsedAt := Some now\<rparr>) n d))"
    if "codes_ok d" for P n d now
    by (rule update_codes_ok [OF that]) (use that in \<open>auto simp: codes_ok_def\<close>)
  show "keeps (on_db codes_ok) (MarkUsed i now)"
    unfolding MarkUsed_def require_row_def by (intro keeps_intros codes_ok_sql used)
  show "keeps (on_db codes_ok) (InvalidateActiveByPhone phone now)"
    unfolding InvalidateActiveByPhone_def by (intro keeps_intros codes_ok_sql used)
  show "keeps (on_db codes_ok) (MarkAuthenticated p v l)"
    unfolding MarkAuthenticated_def by (intro keeps_intros codes_ok_sql) (simp add: Let_def)
  show "keeps (on_db codes_ok) (StoreToken p h e)"
    unfolding StoreToken_def by (intro keeps_intros codes_ok_sql) (simp add: insert_token_def)
  show "keeps (on_db codes_ok) (RevokeToken h)"
    unfolding RevokeToken_def by (intro keeps_intros codes_ok_sql) (simp add: revoke_tokens_def)
  show "keeps (on_db codes_ok) (CreatePassenger phone name)"
    unfolding CreatePassenger_def by (intro keeps_intros codes_ok_sql) (simp add: Let_def)
qed

lemma keeps_numeric_code [keeps_intros]: "keeps (on_db P) (numeric_code n)"
  by (induction n) (auto intro!: keeps_intros)

lemma keeps_code_steps [keeps_intros]:
  "keeps (on_db P) (generateCode service)" "keeps (on_db P) (SendCode phone code)"
  "keeps (on_db P) (GenerateTokenPair m p now)" "keeps (on_db P) (parseToken m tok u)"
  unfolding generateCode_def GenerateNumericCode_def GenerateTokenPair_def issueToken_def parseToken_def SendCode_def
  by (intro keeps_intros keeps_external; simp add: keeps_def)+

lemma keeps_CreateAuthCode [keeps_intros]: "keeps (on_db codes_ok) (CreateAuthCode phone h m e)"
  unfolding CreateAuthCode_def
  by (intro keeps_intros codes_ok_sql) (auto simp: Let_def codes_ok_def code_checks_def new_code_def)

lemma keeps_RotateToken [keeps_intros]: "keeps (on_db codes_ok) (RotateToken old p new e)"
  unfolding RotateToken_def require_row_def
  by (intro keeps_db_transaction keeps_intros codes_ok_sql) (simp_all add: revoke_tokens_def insert_token_def)

lemma sql_after: "P (db s) \<Longrightarrow> (\<And>now. P (snd (f now (db s)))) \<Longrightarrow> P (db (snd (sql f s)))"
  by (auto simp: sql_def external_def Let_def case_prod_unfold split: list.splits outcome.splits)

lemma compare_code_ok:
  assumes "codes_ok (db s)" "c \<in> set (auth_codes (db s))" "pac_Attempts c < pac_MaxAttempts c"
  shows "codes_ok (db (snd (compare_code service code c s)))"
proof -
  have "codes_ok (snd (update_codes (\<lambda>x. pac_ID x = pac_ID c) (\<lambda>x. x\<lparr>pac_Attempts := pac_Attempts x + 1\<rparr>) now d))"
    if d: "codes_ok d \<and> c \<in> set (auth_codes d)" for now d
  proof (rule update_codes_ok)
    fix x assume x: "x \<in> set (auth_codes d)" "pac_ID x = pac_ID c"
    then have "x = c" using d by (auto simp: codes_ok_def distinct_map inj_on_def)
    then show "0 \<le> pac_Attempts (x\<lparr>pac_Attempts := pac_Attempts x + 1\<rparr>) \<and>
        pac_Attempts (x\<lparr>pac_Attempts := pac_Attempts x + 1\<rparr>) \<le> pac_MaxAttempts (x\<lparr>pac_Attempts := pac_Attempts x + 1\<rparr>)"
      using assms(3) d by (auto simp: codes_ok_def)
  qed (use d in auto)
  then have "codes_ok (db (snd (sql (update_codes (\<lambda>x. pac_ID x = pac_ID c)
      (\<lambda>x. x\<lparr>pac_Attempts := pac_Attempts x + 1\<rparr>)) s)))"
    by (rule sql_after [where P = codes_ok, OF assms(1)]) (use assms(1,2) in blast)
  then show ?thesis
    using assms(1) unfolding compare_code_def IncrementAttempts_def require_row_def
    by (auto simp: bind_def ret_def fail_def split: sum.splits prod.splits)
qed

lemma GetLatest_state:
  assumes "GetLatestActiveByPhone phone s = (r, t)"
  shows "db t = db s" "\<And>c. r = Inr c \<Longrightarrow> \<exists>rest. latest_codes phone (db s) = c # rest"
proof -
  show "db t = db s"
    using assms by (rule keeps_db_eq) (simp add: GetLatestActiveByPhone_def keeps_query)
  show "\<exists>rest. latest_codes phone (db s) = c # rest" if "r = Inr c" for c
    using assms unfolding that GetLatestActiveByPhone_def
    by (elim query_Inr) (auto simp: one_row_def split: list.splits)
qed

lemma latest_codes_mem: "latest_codes phone d = c # rest \<Longrightarrow> c \<in> set (auth_codes d) \<and> pac_Phone c = phone"
  by (metis (mono_tags, lifting) latest_codes_def list.set_intros(1) mem_Collect_eq set_filter set_sort)

lemma check_code_Inr:
  "check_code c now = Inr () \<longleftrightarrow> pac_UsedAt c = None \<and> now \<le> pac_ExpiresAt c \<and> pac_Attempts c < pac_MaxAttempts c"
  by (auto simp: check_code_def)

lemma keeps_no_rows_GetLatest: "keeps (on_db P) (no_rows_is e (GetLatestActiveByPhone phone))"
  unfolding GetLatestActiveByPhone_def by (intro keeps_intros)

lemma keeps_sign_in [keeps_intros]: "keeps (on_db codes_ok) (sign_in service phone name c now)"
  unfolding sign_in_def known_passenger_def GetPassengerByPhone_def by (intro keeps_intros)

lemma ConfirmCode_ok: "codes_ok (db s) \<Longrightarrow> codes_ok (db (snd (ConfirmCode service request s)))"
  unfolding ConfirmCode_def
proof (rule after_bind [where I = "on_db codes_ok"])
  fix phone t
  assume ok: "codes_ok (db s)" and "lift (NormalizePhone (cfr_Phone request)) s = (Inr phone, t)"
  then have t: "t = s" by (simp add: lift_def)
  let ?next = "\<lambda>c. bind time_Now (\<lambda>now. andthen (lift (check_code c now))
     (andthen (compare_code service (cfr_Code request) c) (sign_in service phone (cfr_Name request) c now)))"
  show "codes_ok (db (snd (bind (no_rows_is (Service ErrInvalidCode) (GetLatestActiveByPhone phone)) ?next t)))"
  proof (rule after_bind [where I = "on_db codes_ok"])
    fix c u
    assume run: "no_rows_is (Service ErrInvalidCode) (GetLatestActiveByPhone phone) t = (Inr c, u)"
    have u: "codes_ok (db u)" "c \<in> set (auth_codes (db u))"
      using GetLatest_state [OF run [unfolded no_rows_is_Inr]] latest_codes_mem ok t by auto
    show "codes_ok (db (snd (?next c u)))"
    proof (intro after_bind [where I = "on_db codes_ok"])
      fix now v x w r y
      assume "time_Now u = (Inr now, v)" and "lift (check_code c now) v = (Inr x, w)"
      then have "w = u" "check_code c now = Inr ()" by (auto simp: Inr_simps)
      then have after: "codes_ok (db (snd (compare_code service (cfr_Code request) c w)))"
        using compare_code_ok u by (simp add: check_code_Inr)
      then show "codes_ok (db y)" if "compare_code service (cfr_Code request) c w = (Inl r, y)"
        using that by simp
      show "codes_ok (db (snd (sign_in service phone (cfr_Name request) c now y)))"
        if "compare_code service (cfr_Code request) c w = (Inr z, y)" for z
        using keepsD [OF keeps_sign_in, of y] after that by simp
    qed (use u in \<open>auto simp: time_Now_def gets_def lift_def\<close>)
  qed (use ok t keepsD [OF keeps_no_rows_GetLatest [of codes_ok]] in \<open>metis snd_conv\<close>)
qed (simp add: lift_def)

text \<open>
  C30: the attempts at a code are bounded.  No operation of the sign-in, whatever fails on the way, lets a
  code count more attempts than it allows, and no two codes share an identifier.
\<close>

theorem attempts_bounded:
  assumes "codes_ok (db s)"
  shows "codes_ok (db (snd (RequestCode service phone s)))
     \<and> codes_ok (db (snd (ConfirmCode service request s)))
     \<and> codes_ok (db (snd (Refresh service presented s)))
     \<and> codes_ok (db (snd (Logout service presented s)))"
proof -
  have "keeps (on_db codes_ok) (RequestCode service phone)" "keeps (on_db codes_ok) (Refresh service presented)"
    "keeps (on_db codes_ok) (Logout service presented)"
    unfolding RequestCode_def Refresh_def Logout_def GetPassengerByID_def by (intro keeps_intros)+
  with assms ConfirmCode_ok [OF assms] show ?thesis by (auto dest: keepsD)
qed

section \<open>Guessing\<close>

lemma map_sort_key: "(\<And>x. g (f x) = g x) \<Longrightarrow> sort_key g (map f xs) = map f (sort_key g xs)"
proof (induction xs)
  case (Cons x xs)
  have "insort_key g (f x) (map f ys) = map f (insort_key g x ys)" for ys
    using Cons.prems by (induction ys) auto
  with Cons show ?case by simp
qed simp

lemma latest_codes_map:
  assumes "\<And>x. pac_Phone (f x) = pac_Phone x" "\<And>x. pac_CreatedAt (f x) = pac_CreatedAt x"
  shows "latest_codes phone (d\<lparr>auth_codes := map f (auth_codes d)\<rparr>) = map f (latest_codes phone d)"
  using assms by (simp add: latest_codes_def filter_map comp_def map_sort_key)

definition guessed :: "time \<Rightarrow> passenger_auth_code \<Rightarrow> passenger_auth_code" where
  "guessed now c = c\<lparr>pac_Attempts := pac_Attempts c + 1, pac_UpdatedAt := now\<rparr>"

definition wrong_guess :: "passenger_auth \<Rightarrow> string \<Rightarrow> string \<Rightarrow> confirm_request \<Rightarrow> bool" where
  "wrong_guess service phone hash g \<longleftrightarrow>
     NormalizePhone (cfr_Phone g) = Inr phone
     \<and> (\<exists>e. pas_CompareCodeAndHash service (TrimSpace (cfr_Code g)) hash = Inl e)"

lemma GetLatest_ok:
  "script s = [] \<Longrightarrow> latest_codes phone (db s) = c # rest \<Longrightarrow>
   no_rows_is e (GetLatestActiveByPhone phone) s = (Inr c, s)"
  by (simp add: no_rows_is_Inr GetLatestActiveByPhone_def query_def sql_ok)

lemma locked_refused:
  assumes "script s = []" "latest_codes phone (db s) = c # rest" "NormalizePhone (cfr_Phone g) = Inr phone"
    "pac_UsedAt c = None" "clock s \<le> pac_ExpiresAt c" "pac_MaxAttempts c \<le> pac_Attempts c"
  shows "ConfirmCode service g s = (Inl [Service ErrTooManyAttempts], s)"
  using assms by (simp add: ConfirmCode_def bind_def lift_def GetLatest_ok time_Now_def gets_def check_code_def)

lemma wrong_guess_counts:
  assumes "script s = []" "latest_codes phone (db s) = c # rest" "wrong_guess service phone (pac_CodeHash c) g"
    "pac_UsedAt c = None" "clock s \<le> pac_ExpiresAt c" "pac_Attempts c < pac_MaxAttempts c" "codes_ok (db s)"
  shows "\<exists>t rest'. ConfirmCode service g s = (Inl [Service ErrInvalidCode], t) \<and> script t = []
     \<and> clock t = clock s \<and> latest_codes phone (db t) = guessed (clock s) c # rest'"
proof -
  from assms(3) obtain e where g: "NormalizePhone (cfr_Phone g) = Inr phone"
    "pas_CompareCodeAndHash service (TrimSpace (cfr_Code g)) (pac_CodeHash c) = Inl e"
    by (auto simp: wrong_guess_def)
  let ?P = "\<lambda>x. pac_ID x = pac_ID c"
  let ?d = "(db s)\<lparr>auth_codes := sql_update ?P (guessed (clock s)) (auth_codes (db s))\<rparr>"
  have mem: "c \<in> set (auth_codes (db s))" using latest_codes_mem [OF assms(2)] by blast
  have some_row: "rows_affected ?P (auth_codes (db s)) \<noteq> 0"
    using mem by (auto simp: rows_affected_def filter_empty_conv)
  have run: "ConfirmCode service g s = (Inl [Service ErrInvalidCode], s\<lparr>db := ?d\<rparr>)"
    using assms(1,2,4-6) g some_row
    by (simp add: ConfirmCode_def bind_def lift_def GetLatest_ok time_Now_def gets_def check_code_def
        compare_code_def IncrementAttempts_def sql_ok update_codes_def require_row_def ret_def fail_def
        guessed_def [abs_def])
  let ?f = "\<lambda>x. if ?P x then guessed (clock s) x else x"
  have "latest_codes phone ?d = map ?f (latest_codes phone (db s))"
    unfolding sql_update_def by (rule latest_codes_map) (simp_all add: guessed_def)
  then have "latest_codes phone ?d = guessed (clock s) c # map ?f rest" using assms(2) by simp
  with run assms(1) show ?thesis by auto
qed

primrec after_guesses :: "passenger_auth \<Rightarrow> confirm_request list \<Rightarrow> world \<Rightarrow> world" where
  "after_guesses service [] s = s"
| "after_guesses service (g # gs) s = after_guesses service gs (snd (ConfirmCode service g s))"

text \<open>
  C13: wrong guesses lock a code.  Once as many wrong codes have been tried as the latest code of a
  telephone number still allows, every further attempt is refused, the right code included.
\<close>

theorem wrong_guesses_lock:
  assumes "script s = []" "codes_ok (db s)" "latest_codes phone (db s) = c # rest"
    and "pac_UsedAt c = None" "clock s \<le> pac_ExpiresAt c"
    and "list_all (wrong_guess service phone (pac_CodeHash c)) gs"
    and "pac_MaxAttempts c \<le> pac_Attempts c + int (length gs)"
    and "NormalizePhone (cfr_Phone g) = Inr phone"
  shows "fst (ConfirmCode service g (after_guesses service gs s)) = Inl [Service ErrTooManyAttempts]"
  using assms(1-7)
proof (induction gs arbitrary: s c rest)
  case Nil
  then show ?case using locked_refused [OF Nil.prems(1,3) assms(8)] by simp
next
  case (Cons x xs)
  then have x: "wrong_guess service phone (pac_CodeHash c) x"
    and xs: "list_all (wrong_guess service phone (pac_CodeHash c)) xs" by simp_all
  show ?case
  proof (cases "pac_Attempts c < pac_MaxAttempts c")
    case True
    obtain t rest' where t: "ConfirmCode service x s = (Inl [Service ErrInvalidCode], t)" "script t = []"
      "clock t = clock s" "latest_codes phone (db t) = guessed (clock s) c # rest'"
      using wrong_guess_counts [OF Cons.prems(1,3) x Cons.prems(4,5) True Cons.prems(2)] by blast
    have "codes_ok (db t)" using ConfirmCode_ok [OF Cons.prems(2), of service x] t(1) by simp
    from Cons.IH [OF t(2) this t(4)] t(1,3) xs Cons.prems(4,5,7) show ?thesis
      by (simp add: guessed_def)
  next
    case False
    have "NormalizePhone (cfr_Phone x) = Inr phone" using x by (simp add: wrong_guess_def)
    then have "ConfirmCode service x s = (Inl [Service ErrTooManyAttempts], s)"
      using locked_refused [OF Cons.prems(1,3) _ Cons.prems(4,5)] False by simp
    then show ?thesis using Cons.IH [OF Cons.prems(1-5) xs] False by simp
  qed
qed

section \<open>Signing in\<close>

lemma keeps_codes [keeps_intros]:
  "keeps (on_db (\<lambda>d. auth_codes d = X)) (known_passenger phone name)"
  "keeps (on_db (\<lambda>d. auth_codes d = X)) (MarkAuthenticated i v l)"
  "keeps (on_db (\<lambda>d. auth_codes d = X)) (StoreToken i h e)"
  unfolding known_passenger_def GetPassengerByPhone_def CreatePassenger_def MarkAuthenticated_def StoreToken_def
  by (intro keeps_intros keeps_sql; simp add: insert_token_def Let_def)+

lemma MarkUsed_Inr:
  assumes "MarkUsed i now s = (Inr u, t)"
  obtains n where "auth_codes (db t) =
      map (\<lambda>x. if pac_ID x = i then x\<lparr>pac_UsedAt := Some now, pac_UpdatedAt := n\<rparr> else x) (auth_codes (db s))"
    "passengers (db t) = passengers (db s)"
  using assms unfolding MarkUsed_def
  by (elim bind_Inr sql_Inr) (auto simp: update_codes_def sql_update_def require_row_def Inr_simps split: if_splits)

lemma MarkAuthenticated_Inr:
  assumes "MarkAuthenticated i v l s = (Inr p, t)"
  shows "\<exists>q \<in> set (passengers (db s)). psg_ID q = i \<and> (\<exists>n. p = authenticated_row v l n q)"
    "p \<in> set (passengers (db t))"
proof -
  from assms obtain rows u where
    run: "sql (\<lambda>now d. let P = (\<lambda>p. psg_ID p = i \<and> psg_DeletedAt p = None); f = authenticated_row v l now
        in (Inr (map f (filter P (passengers d))), d\<lparr>passengers := sql_update P f (passengers d)\<rparr>)) s = (Inr rows, u)"
    and one: "one_row rows = Inr p" "u = t"
    unfolding MarkAuthenticated_def by (rule bind_Inr) (auto simp: Inr_simps)
  have p: "p \<in> set rows" using one_row_Inr [OF one(1)] by simp
  from run obtain now where r: "rows = map (authenticated_row v l now)
      (filter (\<lambda>p. psg_ID p = i \<and> psg_DeletedAt p = None) (passengers (db s)))"
    and t: "db t = (db s)\<lparr>passengers := sql_update (\<lambda>p. psg_ID p = i \<and> psg_DeletedAt p = None)
      (authenticated_row v l now) (passengers (db s))\<rparr>"
    unfolding one(2) Let_def by (rule sql_Inr) auto
  show "\<exists>q \<in> set (passengers (db s)). psg_ID q = i \<and> (\<exists>n. p = authenticated_row v l n q)"
    using p unfolding r by auto
  show "p \<in> set (passengers (db t))" using p unfolding r t by (auto simp: set_sql_update)
qed

lemma known_passenger_Inr:
  assumes "known_passenger phone name s = (Inr p, t)"
  shows "psg_Phone p = phone \<and> p \<in> set (passengers (db t))"
proof (cases "GetPassengerByPhone phone s")
  case (Pair r u)
  show ?thesis
  proof (cases r)
    case (Inr q)
    then have "p = q" "t = u" using assms Pair by (auto simp: known_passenger_def catching_def Inr_simps)
    with Pair Inr have "GetPassengerByPhone phone s = (Inr p, t)" by simp
    then show ?thesis unfolding GetPassengerByPhone_def by (rule query_Inr) (auto dest!: one_row_Inr)
  next
    case (Inl e)
    then have "CreatePassenger phone (NormalizePassengerName name) u = (Inr p, t)"
      using assms Pair by (auto simp: known_passenger_def catching_def Inr_simps split: if_splits)
    then show ?thesis unfolding CreatePassenger_def
      by (elim bind_Inr sql_Inr)
        (auto simp: Let_def new_passenger_def split: if_splits dest!: sym [of _ "db t"])
  qed
qed

lemma StoreToken_Inr:
  "StoreToken i h e s = (Inr u, t) \<Longrightarrow>
   \<lparr>rft_PassengerID = i, rft_TokenHash = h, rft_ExpiresAt = e, rft_RevokedAt = None\<rparr> \<in> set (refresh_tokens (db t))
   \<and> passengers (db t) = passengers (db s)"
  unfolding StoreToken_def
  by (rule sql_Inr, assumption) (auto simp: insert_token_def split: if_splits dest!: sym [of _ "db t"])

definition used_code :: "uuid \<Rightarrow> time \<Rightarrow> time \<Rightarrow> passenger_auth_code \<Rightarrow> passenger_auth_code" where
  "used_code i now n x = (if pac_ID x = i then x\<lparr>pac_UsedAt := Some now, pac_UpdatedAt := n\<rparr> else x)"

definition passengers_ok :: "db \<Rightarrow> bool" where
  "passengers_ok d \<longleftrightarrow> distinct (map psg_ID (passengers d))"

lemma keeps_known_passenger: "keeps (on_db passengers_ok) (known_passenger phone name)"
  unfolding known_passenger_def GetPassengerByPhone_def CreatePassenger_def
  by (intro keeps_intros keeps_sql) (auto simp: passengers_ok_def Let_def new_passenger_def)

lemma GenerateTokenPair_Inr:
  "GenerateTokenPair m i now s = (Inr (a, r, e), t) \<Longrightarrow> e = now + tkm_refreshTTL m"
  unfolding GenerateTokenPair_def by (auto simp: Inr_simps elim!: bind_Inr)

lemma sign_in_Inr:
  assumes "sign_in service phone name c now s = (Inr (a, r, p), t)" "passengers_ok (db s)"
  obtains n where "auth_codes (db t) = map (used_code (pac_ID c) now n) (auth_codes (db s))"
    "psg_Phone p = phone" "psg_IsActive p" "psg_PhoneVerifiedAt p \<noteq> None" "p \<in> set (passengers (db t))"
    "\<exists>row \<in> set (refresh_tokens (db t)). rft_PassengerID row = psg_ID p \<and> rft_RevokedAt row = None
       \<and> rft_TokenHash row = HashToken (pas_tokenManager service) r
       \<and> rft_ExpiresAt row = now + tkm_refreshTTL (pas_tokenManager service)"
proof -
  obtain p0 s1 s2 u s3 e s4 v where
    r: "known_passenger phone name s = (Inr p0, s1)" "psg_IsActive p0"
    "MarkAuthenticated (psg_ID p0) (if psg_PhoneVerifiedAt p0 = None then Some now else None) now s1 = (Inr p, s2)"
    "MarkUsed (pac_ID c) now s2 = (Inr u, s3)"
    "GenerateTokenPair (pas_tokenManager service) (psg_ID p) now s3 = (Inr (a, r, e), s4)"
    "StoreToken (psg_ID p) (HashToken (pas_tokenManager service) r) e s4 = (Inr v, t)"
    using assms(1) unfolding sign_in_def
    by (elim bind_Inr) (auto simp: Inr_simps split: if_splits elim!: bind_Inr)
  note p0 = known_passenger_Inr [OF r(1)]
  have ok1: "passengers_ok (db s1)" using keepsD [OF keeps_known_passenger assms(2)] r(1) by (metis snd_conv)
  obtain q k where q: "q \<in> set (passengers (db s1))" "psg_ID q = psg_ID p0"
    "p = authenticated_row (if psg_PhoneVerifiedAt p0 = None then Some now else None) now k q"
    using MarkAuthenticated_Inr(1) [OF r(3)] by blast
  have "q = p0" using ok1 q(1,2) p0 by (auto simp: passengers_ok_def distinct_map inj_on_def)
  then have p: "psg_Phone p = phone" "psg_IsActive p" "psg_PhoneVerifiedAt p \<noteq> None"
    using q(3) p0 r(2) by (auto simp: authenticated_row_def)
  have s4: "db s4 = db s3" using r(5) by (rule keeps_db_eq) (intro keeps_intros)
  have c1: "auth_codes (db s1) = auth_codes (db s)"
    using keepsD [OF keeps_codes(1) [of "auth_codes (db s)" phone name], of s] r(1) by simp
  have c2: "auth_codes (db s2) = auth_codes (db s1)"
    using keepsD [OF keeps_codes(2) [of "auth_codes (db s1)"], of s1] r(3) by (metis snd_conv)
  have c4: "auth_codes (db t) = auth_codes (db s4)"
    using keepsD [OF keeps_codes(3) [of "auth_codes (db s4)"], of s4] r(6) by (metis snd_conv)
  obtain n where n: "auth_codes (db s3) = map (used_code (pac_ID c) now n) (auth_codes (db s2))"
    "passengers (db s3) = passengers (db s2)"
    by (rule MarkUsed_Inr [OF r(4)]) (auto simp: used_code_def [abs_def])
  show thesis
  proof (rule that [OF _ p])
    show "auth_codes (db t) = map (used_code (pac_ID c) now n) (auth_codes (db s))"
      using n(1) c1 c2 c4 s4 by simp
    show "p \<in> set (passengers (db t))"
      using StoreToken_Inr [OF r(6)] MarkAuthenticated_Inr(2) [OF r(3)] n(2) s4 by simp
    show "\<exists>row \<in> set (refresh_tokens (db t)). rft_PassengerID row = psg_ID p \<and> rft_RevokedAt row = None
       \<and> rft_TokenHash row = HashToken (pas_tokenManager service) r
       \<and> rft_ExpiresAt row = now + tkm_refreshTTL (pas_tokenManager service)"
      using StoreToken_Inr [OF r(6)] GenerateTokenPair_Inr [OF r(5)] by force
  qed
qed

text \<open>
  C31: a code signs one passenger in, once.  When a confirmation succeeds, the code was the latest of the
  number, not used, not expired, not locked, and the right one; the passenger of that number is active and
  his number verified; the refresh token is stored for him under its hash, valid for its time to live; and
  the number cannot be confirmed a second time before another code is asked for.
\<close>

theorem ConfirmCode_effect:
  assumes "ConfirmCode service request s = (Inr (access, refresh, p), t)" "passengers_ok (db s)"
  shows "\<exists>phone c rest now. NormalizePhone (cfr_Phone request) = Inr phone \<and> psg_Phone p = phone
     \<and> latest_codes phone (db s) = c # rest \<and> clock s \<le> now
     \<and> pac_UsedAt c = None \<and> now \<le> pac_ExpiresAt c \<and> pac_Attempts c < pac_MaxAttempts c
     \<and> pas_CompareCodeAndHash service (TrimSpace (cfr_Code request)) (pac_CodeHash c) = Inr ()
     \<and> psg_IsActive p \<and> psg_PhoneVerifiedAt p \<noteq> None \<and> p \<in> set (passengers (db t))
     \<and> (\<exists>row \<in> set (refresh_tokens (db t)). rft_PassengerID row = psg_ID p \<and> rft_RevokedAt row = None
          \<and> rft_TokenHash row = HashToken (pas_tokenManager service) refresh
          \<and> rft_ExpiresAt row = now + tkm_refreshTTL (pas_tokenManager service))
     \<and> (\<forall>again x u. NormalizePhone (cfr_Phone again) = Inr phone \<longrightarrow> ConfirmCode service again t \<noteq> (Inr x, u))"
proof -
  obtain phone c s1 now s2 where r: "NormalizePhone (cfr_Phone request) = Inr phone"
    "GetLatestActiveByPhone phone s = (Inr c, s1)" "now = clock s1"
    "check_code c now = Inr ()" "compare_code service (cfr_Code request) c s1 = (Inr (), s2)"
    "sign_in service phone (cfr_Name request) c now s2 = (Inr (access, refresh, p), t)"
    using assms(1) unfolding ConfirmCode_def
    by (elim bind_Inr) (auto simp: Inr_simps no_rows_is_Inr elim!: bind_Inr)
  have cmp: "pas_CompareCodeAndHash service (TrimSpace (cfr_Code request)) (pac_CodeHash c) = Inr ()" "s2 = s1"
    using r(5) by (auto simp: compare_code_def Inr_simps split: sum.splits elim!: bind_Inr)
  obtain rest where rest: "latest_codes phone (db s) = c # rest" and db1: "db s1 = db s"
    using GetLatest_state [OF r(2)] by blast
  have clk: "clock s \<le> now" using r(2,3) unfolding GetLatestActiveByPhone_def by (auto elim: query_Inr)
  have ok: "passengers_ok (db s2)" using assms(2) db1 cmp(2) by simp
  obtain n where signed: "auth_codes (db t) = map (used_code (pac_ID c) now n) (auth_codes (db s2))"
    "psg_Phone p = phone" "psg_IsActive p" "psg_PhoneVerifiedAt p \<noteq> None" "p \<in> set (passengers (db t))"
    "\<exists>row \<in> set (refresh_tokens (db t)). rft_PassengerID row = psg_ID p \<and> rft_RevokedAt row = None
       \<and> rft_TokenHash row = HashToken (pas_tokenManager service) refresh
       \<and> rft_ExpiresAt row = now + tkm_refreshTTL (pas_tokenManager service)"
    by (rule sign_in_Inr [OF r(6) ok])
  have "latest_codes phone (db t) = latest_codes phone ((db s2)\<lparr>auth_codes :=
      map (used_code (pac_ID c) now n) (auth_codes (db s2))\<rparr>)"
    using signed(1) by (simp add: latest_codes_def)
  also have "\<dots> = map (used_code (pac_ID c) now n) (latest_codes phone (db s2))"
    by (rule latest_codes_map) (simp_all add: used_code_def)
  also have "\<dots> = used_code (pac_ID c) now n c # map (used_code (pac_ID c) now n) rest"
    using rest db1 cmp(2) by simp
  finally have latest: "\<exists>xs. latest_codes phone (db t) = used_code (pac_ID c) now n c # xs" by blast
  have once: "ConfirmCode service again t \<noteq> (Inr x, u)" if "NormalizePhone (cfr_Phone again) = Inr phone" for again x u
  proof
    assume "ConfirmCode service again t = (Inr x, u)"
    then obtain phone' c' v where "NormalizePhone (cfr_Phone again) = Inr phone'"
      "GetLatestActiveByPhone phone' t = (Inr c', v)" "check_code c' (clock v) = Inr ()"
      unfolding ConfirmCode_def by (elim bind_Inr) (auto simp: Inr_simps no_rows_is_Inr elim!: bind_Inr)
    then have "GetLatestActiveByPhone phone t = (Inr c', v)" "check_code c' (clock v) = Inr ()"
      using that by simp_all
    then show False using GetLatest_state(2) latest by (fastforce simp: check_code_Inr used_code_def)
  qed
  have "pac_UsedAt c = None" "now \<le> pac_ExpiresAt c" "pac_Attempts c < pac_MaxAttempts c"
    using r(4) by (simp_all add: check_code_Inr)
  then show ?thesis using r(1) rest clk cmp(1) signed(2-6) once by blast
qed

section \<open>Refreshing\<close>

definition live_token :: "string \<Rightarrow> uuid \<Rightarrow> refresh_token_row \<Rightarrow> bool" where
  "live_token hash i row \<longleftrightarrow> rft_TokenHash row = hash \<and> rft_PassengerID row = i \<and> rft_RevokedAt row = None"

lemma revoke_tokens_Inr:
  "sql (\<lambda>_. revoke_tokens P now) s = (Inr n, t) \<Longrightarrow> n = rows_affected P (refresh_tokens (db s))
   \<and> refresh_tokens (db t) = sql_update P (\<lambda>r. r\<lparr>rft_RevokedAt := Some now\<rparr>) (refresh_tokens (db s))"
  by (rule sql_Inr, assumption) (auto simp: revoke_tokens_def dest!: sym [of _ "db t"])

lemma insert_token_Inr:
  "sql (\<lambda>_. insert_token i h e) s = (Inr u, t) \<Longrightarrow> h \<notin> rft_TokenHash ` set (refresh_tokens (db s))
   \<and> refresh_tokens (db t) = refresh_tokens (db s) @
      [\<lparr>rft_PassengerID = i, rft_TokenHash = h, rft_ExpiresAt = e, rft_RevokedAt = None\<rparr>]"
  by (rule sql_Inr, assumption) (auto simp: insert_token_def split: if_splits dest!: sym [of _ "db t"])

lemma RotateToken_live:
  assumes "RotateToken old i new e s = (Inr u, t)"
  shows "\<exists>row \<in> set (refresh_tokens (db s)). live_token old i row"
proof -
  obtain s0 b v where s0: "db s0 = db s"
    and body: "(bind time_Now (\<lambda>started.
      andthen (bind (sql (\<lambda>_. revoke_tokens (\<lambda>r. rft_TokenHash r = old \<and> rft_PassengerID r = i
         \<and> rft_RevokedAt r = None \<and> started < rft_ExpiresAt r) started)) require_row)
      (andthen (sql (\<lambda>_. insert_token i new e)) (ret (True, ()))))) s0 = (Inr (b, u), v)"
    by (rule db_transaction_Inr [OF assms [unfolded RotateToken_def]]) auto
  let ?P = "\<lambda>r. rft_TokenHash r = old \<and> rft_PassengerID r = i \<and> rft_RevokedAt r = None \<and> clock s0 < rft_ExpiresAt r"
  obtain n s1 where "sql (\<lambda>_. revoke_tokens ?P (clock s0)) s0 = (Inr n, s1)" "n \<noteq> 0"
    using body by (elim bind_Inr) (auto simp: Inr_simps require_row_def split: if_splits elim!: bind_Inr)
  then show ?thesis
    using s0 by (auto simp: rows_affected_def filter_empty_conv live_token_def dest!: revoke_tokens_Inr)
qed

lemma RotateToken_Inr:
  assumes "RotateToken old i new e s = (Inr u, t)" "distinct (map rft_TokenHash (refresh_tokens (db s)))"
  shows "\<exists>row \<in> set (refresh_tokens (db s)). live_token old i row"
    "\<exists>row \<in> set (refresh_tokens (db t)). live_token new i row \<and> rft_ExpiresAt row = e"
    "\<forall>row \<in> set (refresh_tokens (db t)). \<not> live_token old i row"
proof -
  obtain s0 b v where s0: "db s0 = db s" and commit: "db t = (if b then db v else db s)"
    and body: "(bind time_Now (\<lambda>started.
      andthen (bind (sql (\<lambda>_. revoke_tokens (\<lambda>r. rft_TokenHash r = old \<and> rft_PassengerID r = i
         \<and> rft_RevokedAt r = None \<and> started < rft_ExpiresAt r) started)) require_row)
      (andthen (sql (\<lambda>_. insert_token i new e)) (ret (True, ()))))) s0 = (Inr (b, u), v)"
    by (rule db_transaction_Inr [OF assms(1) [unfolded RotateToken_def]]) auto
  let ?P = "\<lambda>r. rft_TokenHash r = old \<and> rft_PassengerID r = i \<and> rft_RevokedAt r = None \<and> clock s0 < rft_ExpiresAt r"
  obtain n s1 s2 x where r: "sql (\<lambda>_. revoke_tokens ?P (clock s0)) s0 = (Inr n, s1)" "n \<noteq> 0"
    "sql (\<lambda>_. insert_token i new e) s1 = (Inr x, s2)" "b" "v = s2"
    using body by (elim bind_Inr) (auto simp: Inr_simps require_row_def split: if_splits elim!: bind_Inr)
  note revoked = revoke_tokens_Inr [OF r(1)] and stored = insert_token_Inr [OF r(3)]
  have t: "db t = db s2" using commit r(4,5) by simp
  obtain row where row: "row \<in> set (refresh_tokens (db s))" "?P row"
    using revoked r(2) s0 by (auto simp: rows_affected_def filter_empty_conv)
  then show "\<exists>row \<in> set (refresh_tokens (db s)). live_token old i row" by (auto simp: live_token_def)
  show "\<exists>row \<in> set (refresh_tokens (db t)). live_token new i row \<and> rft_ExpiresAt row = e"
    using stored t by (simp add: live_token_def)
  have only: "q = row" if "q \<in> set (refresh_tokens (db s))" "rft_TokenHash q = old" for q
    using assms(2) row that by (auto simp: distinct_map dest: inj_onD)
  have "map rft_TokenHash (refresh_tokens (db s1)) = map rft_TokenHash (refresh_tokens (db s))"
    using revoked s0 by (simp add: map_sql_update)
  then have "rft_TokenHash ` set (refresh_tokens (db s1)) = rft_TokenHash ` set (refresh_tokens (db s))"
    by (metis set_map)
  then have "old \<in> rft_TokenHash ` set (refresh_tokens (db s1))" using row by (auto intro: rev_image_eqI)
  then have "new \<noteq> old" using stored by blast
  moreover have "\<not> live_token old i q" if "q \<in> set (refresh_tokens (db s1))" for q
    using that revoked s0 only row(2) by (auto simp: live_token_def sql_update_def split: if_splits)
  ultimately show "\<forall>row \<in> set (refresh_tokens (db t)). \<not> live_token old i row"
    using stored t by (auto simp: live_token_def)
qed

lemma Refresh_Inr:
  assumes "Refresh service presented s = (Inr (access, refresh), t)"
  obtains claims now s1 p e u where
    "parse_at (pas_tokenManager service) presented TokenUseRefresh now = Inr claims"
    "db s1 = db s" "p \<in> set (passengers (db s))" "psg_ID p = tcl_Subject claims" "psg_IsActive p"
    "RotateToken (HashToken (pas_tokenManager service) presented) (psg_ID p)
        (HashToken (pas_tokenManager service) refresh) e s1 = (Inr u, t)"
proof -
  let ?m = "pas_tokenManager service"
  obtain claims s0 p s1 e s2 u where r:
    "catching (parseToken ?m presented TokenUseRefresh) (\<lambda>r. case r of
        Inl e \<Rightarrow> fail [Service ErrInvalidRefreshToken] | Inr claims \<Rightarrow> ret claims) s = (Inr claims, s0)"
    "GetPassengerByID (tcl_Subject claims) s0 = (Inr p, s1)" "psg_IsActive p"
    "GenerateTokenPair ?m (psg_ID p) (clock s1) s1 = (Inr (access, refresh, e), s2)"
    "RotateToken (HashToken ?m presented) (psg_ID p) (HashToken ?m refresh) e s2 = (Inr u, t)"
    using assms unfolding Refresh_def
    by (elim bind_Inr) (auto simp: Inr_simps no_rows_is_Inr split: if_splits elim!: bind_Inr)
  have parsed: "parse_at ?m presented TokenUseRefresh (clock s) = Inr claims \<and> s0 = s"
    using r(1) by (elim catching_elim) (auto simp: parseToken_def Inr_simps split: sum.splits elim!: bind_Inr)
  from r(2) have p: "p \<in> set (passengers (db s0)) \<and> psg_ID p = tcl_Subject claims \<and> db s1 = db s0"
    unfolding GetPassengerByID_def by (rule query_Inr) (auto dest!: one_row_Inr)
  have "db s2 = db s1" using r(4) by (rule keeps_db_eq) (intro keeps_intros)
  then show thesis
    by (intro that [OF parsed [THEN conjunct1] _ _ _ r(3,5)]) (use parsed p in simp_all)
qed

lemma parse_at_time:
  "parse_at m token use1 t1 = Inr c1 \<Longrightarrow> parse_at m token use1 t2 = Inr c2 \<Longrightarrow> c1 = c2"
  unfolding parse_at_def by (auto split: list.splits if_splits option.splits)

text \<open>
  C29: a refresh token works once.  A refresh that succeeds was made with a live token of an active
  passenger, stored under its hash; it revokes that token and stores the new one, and no later refresh
  with the old one succeeds while the table is not changed.
\<close>

theorem Refresh_single_use:
  assumes "Refresh service presented s = (Inr (access, refresh), t)"
    and "distinct (map rft_TokenHash (refresh_tokens (db s)))"
  shows "\<exists>p \<in> set (passengers (db s)). psg_IsActive p
     \<and> (\<exists>row \<in> set (refresh_tokens (db s)).
          live_token (HashToken (pas_tokenManager service) presented) (psg_ID p) row)
     \<and> (\<exists>row \<in> set (refresh_tokens (db t)).
          live_token (HashToken (pas_tokenManager service) refresh) (psg_ID p) row)
     \<and> (\<forall>u x v. refresh_tokens (db u) = refresh_tokens (db t) \<longrightarrow> Refresh service presented u \<noteq> (Inr x, v))"
proof -
  let ?h = "HashToken (pas_tokenManager service)"
  obtain claims now s1 p e u where r: "parse_at (pas_tokenManager service) presented TokenUseRefresh now = Inr claims"
    "db s1 = db s" "p \<in> set (passengers (db s))" "psg_ID p = tcl_Subject claims" "psg_IsActive p"
    "RotateToken (?h presented) (psg_ID p) (?h refresh) e s1 = (Inr u, t)"
    by (rule Refresh_Inr [OF assms(1)])
  have dist: "distinct (map rft_TokenHash (refresh_tokens (db s1)))" using assms(2) r(2) by simp
  note rotated = RotateToken_Inr [OF r(6) dist]
  have "Refresh service presented w \<noteq> (Inr x, v)" if same: "refresh_tokens (db w) = refresh_tokens (db t)" for w x v
  proof
    assume "Refresh service presented w = (Inr x, v)"
    then have again: "Refresh service presented w = (Inr (fst x, snd x), v)" by simp
    obtain claims' now' s1' p' e' u' where q:
      "parse_at (pas_tokenManager service) presented TokenUseRefresh now' = Inr claims'"
      "db s1' = db w" "p' \<in> set (passengers (db w))" "psg_ID p' = tcl_Subject claims'" "psg_IsActive p'"
      "RotateToken (?h presented) (psg_ID p') (?h (snd x)) e' s1' = (Inr u', v)"
      by (rule Refresh_Inr [OF again])
    have "psg_ID p' = psg_ID p" using parse_at_time [OF r(1) q(1)] r(4) q(4) by simp
    moreover obtain row where "row \<in> set (refresh_tokens (db w))" "live_token (?h presented) (psg_ID p') row"
      using RotateToken_live [OF q(6)] q(2) by auto
    ultimately show False using rotated(3) same by auto
  qed
  then show ?thesis using r(2,3,5) rotated(1,2) by auto
qed

section \<open>A sign-in\<close>

definition sample_codec :: token_codec where
  "sample_codec = \<lparr>tcd_header = ''h'', tcd_header_ok = (\<lambda>h. h = ''h''),
     tcd_encode = (\<lambda>c. if tcl_TokenUse c \<noteq> TokenUseRefresh then ''a'' else if tcl_TokenID c = 1 then ''r'' else ''q''),
     tcd_decode = (\<lambda>b. if b = ''r'' then Some \<lparr>tcl_Subject = 2, tcl_Role = UserRolePassenger,
        tcl_TokenType = TokenTypePassenger, tcl_TokenUse = TokenUseRefresh, tcl_TokenID = 1, tcl_Issuer = ''i'',
        tcl_IssuedAt = 0, tcl_ExpiresAt = 1000\<rparr> else None),
     tcd_mac = (\<lambda>secret text. secret), tcd_sha256 = (\<lambda>text. text)\<rparr>"

definition sample_auth :: passenger_auth where
  "sample_auth = \<lparr>pas_HashCode = (\<lambda>_ code. Inr code),
     pas_CompareCodeAndHash = (\<lambda>code hash. if code = hash then Inr () else Inl [Msg ''mismatch'']),
     pas_tokenManager = \<lparr>tkm_codec = sample_codec, tkm_accessSecret = ''s'', tkm_refreshSecret = ''t'',
        tkm_issuer = ''i'', tkm_accessTTL = seconds 900, tkm_refreshTTL = seconds 3600\<rparr>,
     pas_codeLength = 4, pas_codeTTL = seconds 300, pas_maxCodeAttempts = 5, pas_devCode = []\<rparr>"

definition sample_code :: passenger_auth_code where
  "sample_code = new_code 1 ''+79990000002'' ''1234'' 5 (seconds 300) 1"

definition sample_confirmation :: "string \<Rightarrow> confirm_request" where
  "sample_confirmation code = \<lparr>cfr_Phone = ''+79990000002'', cfr_Code = code, cfr_Name = ''Anna''\<rparr>"

definition code_world :: "refresh_token_row list \<Rightarrow> world" where
  "code_world tokens = world_at 5 (empty_db\<lparr>auth_codes := [sample_code], passengers := [sample_passenger],
     refresh_tokens := tokens\<rparr>)"

lemma code_world_ok:
  "codes_ok (db (code_world []))" "passengers_ok (db (code_world []))" "script (code_world []) = []"
  "latest_codes ''+79990000002'' (db (code_world [])) = [sample_code]"
  "pac_UsedAt sample_code = None" "clock (code_world []) \<le> pac_ExpiresAt sample_code"
  "pac_MaxAttempts sample_code \<le> pac_Attempts sample_code + int (length (replicate 5 (sample_confirmation ''0000'')))"
  "NormalizePhone (cfr_Phone (sample_confirmation code)) = Inr ''+79990000002''"
  by code_simp+

theorem attempts_bounded_witness: "codes_ok (db (snd (ConfirmCode sample_auth (sample_confirmation ''0000'') (code_world []))))"
  using attempts_bounded [OF code_world_ok(1)] by blast

lemma sample_wrong_guess:
  "list_all (wrong_guess sample_auth ''+79990000002'' (pac_CodeHash sample_code)) (replicate 5 (sample_confirmation ''0000''))"
proof -
  have "pas_CompareCodeAndHash sample_auth (TrimSpace (cfr_Code (sample_confirmation ''0000''))) (pac_CodeHash sample_code)
      = Inl [Msg ''mismatch'']" by code_simp
  then show ?thesis using code_world_ok(8) by (auto simp: wrong_guess_def list_all_iff)
qed

theorem wrong_guesses_lock_witness:
  "fst (ConfirmCode sample_auth (sample_confirmation ''1234'')
     (after_guesses sample_auth (replicate 5 (sample_confirmation ''0000'')) (code_world []))) = Inl [Service ErrTooManyAttempts]"
  by (rule wrong_guesses_lock [OF code_world_ok(3,1,4,5,6) sample_wrong_guess code_world_ok(7,8)])

theorem ConfirmCode_effect_witness:
  "\<exists>access refresh p t. ConfirmCode sample_auth (sample_confirmation ''1234'') (code_world [])
     = (Inr (access, refresh, p), t) \<and> psg_Phone p = ''+79990000002'' \<and> psg_PhoneVerifiedAt p \<noteq> None"
proof -
  have "succeeds (ConfirmCode sample_auth (sample_confirmation ''1234'')) (code_world [])" by code_simp
  then obtain access refresh p t where run: "ConfirmCode sample_auth (sample_confirmation ''1234'') (code_world [])
     = (Inr (access, refresh, p), t)" by (metis succeeds_run prod_cases3)
  from ConfirmCode_effect [OF run code_world_ok(2)] code_world_ok(8) run show ?thesis by fastforce
qed

definition sample_token :: refresh_token_row where
  "sample_token = \<lparr>rft_PassengerID = 2, rft_TokenHash = ''h.r.t'', rft_ExpiresAt = seconds 1000, rft_RevokedAt = None\<rparr>"

lemma token_world_ok: "distinct (map rft_TokenHash (refresh_tokens (db (code_world [sample_token]))))"
  by code_simp

theorem Refresh_single_use_witness:
  "\<exists>access refresh t. Refresh sample_auth ''h.r.t'' (code_world [sample_token]) = (Inr (access, refresh), t)
     \<and> (\<forall>x v. Refresh sample_auth ''h.r.t'' t \<noteq> (Inr x, v))"
proof -
  have "succeeds (Refresh sample_auth ''h.r.t'') (code_world [sample_token])" by code_simp
  then obtain access refresh t where run: "Refresh sample_auth ''h.r.t'' (code_world [sample_token]) = (Inr (access, refresh), t)"
    by (metis succeeds_run surj_pair)
  from Refresh_single_use [OF run token_world_ok] run show ?thesis by blast
qed

end
