(* ===== verification/Driver_Mobile.thy ===== *)
theory Driver_Mobile
  imports Park_Orders
begin

text \<open>
  The statements behind the application of the driver,
  \<^verbatim>\<open>internal/repository/driver_mobile_repository.go\<close>, with the presence and throttle keys of
  \<^verbatim>\<open>internal/redis/driver_presence_store.go\<close> and \<^verbatim>\<open>location_throttle.go\<close> and the location table
  (\<^verbatim>\<open>driver_location_repository.go\<close>).  A driver reaches an order only through the join of the order with
  his own row.
\<close>

section \<open>What the application reads\<close>

text \<open>\<^verbatim>\<open>CurrentOrder\<close>; the rating of the passenger is constantly zero in the statements and left out.\<close>

record current_order =
  cod_OrderID :: uuid
  cod_DriverID :: uuid
  cod_PassengerID :: uuid
  cod_PassengerName :: string
  cod_PassengerPhone :: string
  cod_PassengerPhotoURL :: string
  cod_PickupAddress :: string
  cod_PickupLocation :: coordinates
  cod_DestinationAddress :: string
  cod_DestinationLocation :: "coordinates option"
  cod_Status :: order_status
  cod_Price :: "money option"
  cod_AssignedTariffID :: "uuid option"
  cod_AssignedTaxiParkID :: "uuid option"
  cod_PricingMode :: "pricing_mode option"
  cod_FareMode :: fare_mode
  cod_PriceConfirmationState :: string
  cod_PriceConfirmationExpiresAt :: "time option"
  cod_Comment :: string
  cod_Version :: int
  cod_CreatedAt :: time

text \<open>The price shown: final, else proposed, else estimated.\<close>

definition shown_price :: "order_row \<Rightarrow> money option" where
  "shown_price r =
     map_option roubles (case ord_FinalPrice r of
        Some m \<Rightarrow> Some (Amount m)
      | None \<Rightarrow> (case ord_ProposedPriceCents r of
          Some p \<Rightarrow> Some p | None \<Rightarrow> map_option Amount (ord_EstimatedPrice r)))"

definition current_order_of :: "db \<Rightarrow> order_row \<Rightarrow> driver \<Rightarrow> passenger \<Rightarrow> current_order" where
  "current_order_of d r dr p =
     \<lparr>cod_OrderID = ord_ID r, cod_DriverID = drv_ID dr, cod_PassengerID = psg_ID p,
      cod_PassengerName = psg_Name p, cod_PassengerPhone = psg_Phone p,
      cod_PassengerPhotoURL = psg_AvatarURL p, cod_PickupAddress = ord_PickupAddress r,
      cod_PickupLocation = ord_PickupLocation r, cod_DestinationAddress = ord_DestinationAddress r,
      cod_DestinationLocation = ord_DestinationLocation r, cod_Status = ord_Status r,
      cod_Price = shown_price r, cod_AssignedTariffID = ord_AssignedTariffID r,
      cod_AssignedTaxiParkID = ord_ParkID r,
      cod_PricingMode = map_option trf_PricingMode
        (find (\<lambda>t. Some (trf_ID t) = ord_AssignedTariffID r) (tariffs d)),
      cod_FareMode = ord_FareMode r, cod_PriceConfirmationState = ord_PriceConfirmationState r,
      cod_PriceConfirmationExpiresAt = ord_PriceConfirmationExpiresAt r,
      cod_Comment = ord_PassengerComment r, cod_Version = ord_Version r, cod_CreatedAt = ord_CreatedAt r\<rparr>"

text \<open>The live orders of the driver with this user account, each with his row.\<close>

definition driven_orders :: "db \<Rightarrow> uuid \<Rightarrow> (order_row \<times> driver) list" where
  "driven_orders d userID =
     [(r, dr). r \<leftarrow> orders d, dr \<leftarrow> drivers d, ord_DriverID r = Some (drv_ID dr) \<and> drv_UserID dr = userID
        \<and> ord_DeletedAt r = None \<and> drv_DeletedAt dr = None]"

definition with_passenger :: "db \<Rightarrow> (order_row \<times> driver) list \<Rightarrow> current_order list" where
  "with_passenger d rows =
     [current_order_of d r dr p. (r, dr) \<leftarrow> rows, p \<leftarrow> passengers d, psg_ID p = ord_PassengerID r]"

definition GetCurrentOrderByUserID :: "uuid \<Rightarrow> (world, current_order) op" where
  "GetCurrentOrderByUserID userID = no_rows_is (Service ErrCurrentOrderNotFound)
     (query (\<lambda>_ d. one_row (with_passenger d (sort_key (\<lambda>(r, _). - ord_CreatedAt r)
        (filter (\<lambda>(r, _). ord_Status r \<in> set driver_active_statuses) (driven_orders d userID))))))"

definition GetOrderByUserID :: "uuid \<Rightarrow> uuid \<Rightarrow> (world, current_order) op" where
  "GetOrderByUserID userID orderID = no_rows_is (Service ErrCurrentOrderNotFound)
     (query (\<lambda>_ d. one_row (with_passenger d (filter (\<lambda>(r, _). ord_ID r = orderID) (driven_orders d userID)))))"

definition closed_at :: "order_row \<Rightarrow> time" where
  "closed_at r =
     (case ord_CompletedAt r of Some t \<Rightarrow> t
      | None \<Rightarrow> (case ord_CancelledAt r of Some t \<Rightarrow> t | None \<Rightarrow> ord_UpdatedAt r))"

definition ListOrderHistoryByUserID :: "uuid \<Rightarrow> int \<Rightarrow> (world, current_order list) op" where
  "ListOrderHistoryByUserID userID limit =
     (let limit = (if limit \<le> 0 \<or> 100 < limit then 50 else limit)
      in query (\<lambda>_ d. Inr (take (nat limit) (with_passenger d (sort_key (\<lambda>(r, _). - closed_at r)
        (filter (\<lambda>(r, _). OrderStatus_IsTerminal (ord_Status r)) (driven_orders d userID)))))))"

section \<open>Status changes of the driver\<close>

text \<open>
  \<^verbatim>\<open>selectDriverDomainOrderForTransition\<close> reads identifier, passenger, driver, status and version; the
  model returns the row, of which the callers use nothing else.
\<close>

definition selectDriverDomainOrderForTransition :: "uuid \<Rightarrow> uuid \<Rightarrow> (world, order) op" where
  "selectDriverDomainOrderForTransition userID orderID = no_rows_is (Service ErrDriverNotFound)
     (query (\<lambda>_ d. one_row (map (\<lambda>(r, _). order.truncate r)
        (filter (\<lambda>(r, _). ord_ID r = orderID) (driven_orders d userID)))))"

text \<open>
  The statement is that of the order service with a final price when the order is completed, and without the
  exception that lets a metered order leave the assigned status while a price waits.
\<close>

definition driver_transition_applies :: "order_transition \<Rightarrow> order_row \<Rightarrow> bool" where
  "driver_transition_applies tr r \<longleftrightarrow>
     ord_ID r = tr_OrderID tr \<and> ord_Status r = tr_FromStatus tr
     \<and> (ord_Status r \<noteq> OrderStatusDriverAssigned
        \<or> ord_PriceConfirmationState r \<in> {'''', ''confirmed''}
        \<or> tr_ToStatus tr = OrderStatusCancelled)
     \<and> ord_Version r = tr_ExpectedVersion tr \<and> ord_DeletedAt r = None"

definition driver_transitioned_row :: "order_transition \<Rightarrow> int option \<Rightarrow> order_row \<Rightarrow> order_row" where
  "driver_transitioned_row tr finalPriceCents r =
     (transitioned_row tr r)
       \<lparr>ord_FinalPrice := (if tr_ToStatus tr = OrderStatusCompleted
          then map_option roubles finalPriceCents else ord_FinalPrice r)\<rparr>"

definition transitionDispatchOrderStatus ::
  "time \<Rightarrow> order_transition \<Rightarrow> int option \<Rightarrow> (world, order option) op" where
  "transitionDispatchOrderStatus started tr finalPriceCents =
     bind (sql (\<lambda>_. update_orders_returning (driver_transition_applies tr)
         (driver_transitioned_row tr finalPriceCents) started))
       (\<lambda>rows. case rows of
          [] \<Rightarrow> ret None
        | row # _ \<Rightarrow> bind (lift (scanDispatchOrder row)) (\<lambda>o1. ret (Some o1)))"

definition driver_order_event :: "order_transition \<Rightarrow> order \<Rightarrow> order_event" where
  "driver_order_event tr updated =
     \<lparr>oev_OrderID = ord_ID updated, oev_ActorUserID = tr_ActorUserID tr,
      oev_ActorDriverID = tr_ActorDriverID tr,
      oev_EventType = EventTypeForOrderStatus (tr_ToStatus tr),
      oev_Payload = park_transition_payload tr updated (tr_Reason tr), oev_CreatedAt = tr_OccurredAt tr\<rparr>"

definition markDriverOnlineInTx :: "time \<Rightarrow> uuid \<Rightarrow> (world, unit) op" where
  "markDriverOnlineInTx started driverID =
     bind (sql (\<lambda>_. update_drivers (\<lambda>dr. drv_ID dr = driverID
        \<and> drv_Status dr \<in> {DriverStatusBusy, DriverStatusOnline} \<and> drv_DeletedAt dr = None)
        (\<lambda>dr. dr\<lparr>drv_Status := DriverStatusOnline\<rparr>) started)) (\<lambda>_. done_op)"

definition selectDriverCurrentOrderByID :: "uuid \<Rightarrow> uuid \<Rightarrow> (world, current_order) op" where
  "selectDriverCurrentOrderByID userID orderID =
     query (\<lambda>_ d. one_row (with_passenger d (filter (\<lambda>(r, _). ord_ID r = orderID) (driven_orders d userID))))"

text \<open>\<open>concurrent_update\<close> is the error of a statement that changed nothing.\<close>

definition required_change :: "order option \<Rightarrow> (world, order) op" where
  "required_change changed =
     (case changed of None \<Rightarrow> fail [Domain ErrInvalidOrderStatusTransition] | Some o1 \<Rightarrow> ret o1)"

definition TransitionOrderByUserID ::
  "uuid \<Rightarrow> uuid \<Rightarrow> order_status \<Rightarrow> string \<Rightarrow> int option \<Rightarrow> (world, current_order) op" where
  "TransitionOrderByUserID userID orderID toStatus reason finalPriceCents = db_transaction
     (bind time_Now (\<lambda>started.
      bind (selectDriverDomainOrderForTransition userID orderID) (\<lambda>currentOrder.
      bind time_Now (\<lambda>now.
      bind (lift (NewOrderTransition now currentOrder toStatus (Some userID) (ord_DriverID currentOrder)
         reason now)) (\<lambda>tr.
      bind (transitionDispatchOrderStatus started tr finalPriceCents) (\<lambda>changed.
      bind (required_change changed) (\<lambda>updated.
      andthen (sql (\<lambda>_. append_events [driver_order_event tr updated]))
      (andthen (if toStatus \<in> {OrderStatusCancelled, OrderStatusCompleted}
                then markDriverOnlineInTx started (the (ord_DriverID updated)) else done_op)
      (bind (selectDriverCurrentOrderByID userID orderID) (\<lambda>o1. ret (True, o1)))))))))))"

text \<open>\<open>the\<close> is the dereference \<^verbatim>\<open>*updated.DriverID\<close>; the order has a driver, its join found him.\<close>

definition initialOrderPrice :: "uuid \<Rightarrow> (world, int) op" where
  "initialOrderPrice orderID =
     query (\<lambda>_ d. one_row [Amount m. r \<leftarrow> orders d, ord_ID r = orderID,
        m \<leftarrow> (case ord_FinalPrice r of Some m \<Rightarrow> [m]
             | None \<Rightarrow> (case ord_EstimatedPrice r of Some m \<Rightarrow> [m] | None \<Rightarrow> []))])"

text \<open>
  \<^verbatim>\<open>ROUND\<close> of a double rounds halves to even, \<^verbatim>\<open>::bigint\<close> of a numeric away from zero.  The sum of the
  distances is exact here.
\<close>

definition round_half_even :: "rat \<Rightarrow> int" where
  "round_half_even x =
     (let n = \<lfloor>x\<rfloor>; rest = x - of_int n
      in if rest < 1/2 \<or> (rest = 1/2 \<and> even n) then n else n + 1)"

definition driven_points :: "db \<Rightarrow> uuid \<Rightarrow> coordinates list" where
  "driven_points d orderID =
     map rpt_Location (sort_key rpt_RecordedAt
       [p. p \<leftarrow> route_points d, r \<leftarrow> orders d, rpt_OrderID p = orderID \<and> ord_ID r = orderID
          \<and> (case ord_StartedAt r of None \<Rightarrow> False | Some t \<Rightarrow> t \<le> rpt_RecordedAt p)])"

definition trip_metrics :: "(coordinates \<Rightarrow> coordinates \<Rightarrow> rat) \<Rightarrow> time \<Rightarrow> db \<Rightarrow> order_row \<Rightarrow> int \<times> int" where
  "trip_metrics st_distance now d r =
     (let points = driven_points d (ord_ID r)
      in (round_half_even (sum_list (map2 st_distance (tl points) points)),
          case ord_StartedAt r of None \<Rightarrow> 0 | Some t \<Rightarrow> (max (now - t) 0 + 500000000) div seconds 1))"

definition completedTripMetrics ::
  "(coordinates \<Rightarrow> coordinates \<Rightarrow> rat) \<Rightarrow> time \<Rightarrow> uuid \<Rightarrow> (world, int \<times> int) op" where
  "completedTripMetrics st_distance started orderID =
     query (\<lambda>_ d. one_row (map (trip_metrics st_distance started d) (filter (\<lambda>r. ord_ID r = orderID) (orders d))))"

definition store_trip_metrics :: "time \<Rightarrow> uuid \<Rightarrow> int \<times> int \<Rightarrow> (world, unit) op" where
  "store_trip_metrics started orderID metrics =
     bind (sql (\<lambda>_. update_orders (\<lambda>r. ord_ID r = orderID)
        (\<lambda>r. r\<lparr>ord_ActualDistanceMeters := Some (fst metrics),
               ord_ActualDurationSeconds := Some (snd metrics)\<rparr>) started)) (\<lambda>_. done_op)"

definition CompleteOrderByUserID ::
  "(coordinates \<Rightarrow> coordinates \<Rightarrow> rat) \<Rightarrow> uuid \<Rightarrow> uuid \<Rightarrow> (world, current_order) op" where
  "CompleteOrderByUserID st_distance userID orderID = db_transaction
     (bind time_Now (\<lambda>started.
      bind (selectDriverDomainOrderForTransition userID orderID) (\<lambda>currentOrder.
      bind time_Now (\<lambda>now.
      bind (lift (NewOrderTransition now currentOrder OrderStatusCompleted (Some userID)
         (ord_DriverID currentOrder) [] now)) (\<lambda>tr.
      bind (initialOrderPrice orderID) (\<lambda>finalPriceCents.
      bind (completedTripMetrics st_distance started orderID) (\<lambda>metrics.
      bind (transitionDispatchOrderStatus started tr (Some finalPriceCents)) (\<lambda>changed.
      bind (required_change changed) (\<lambda>updated.
      andthen (store_trip_metrics started orderID metrics)
      (andthen (sql (\<lambda>_. append_events [driver_order_event tr updated]))
      (andthen (markDriverOnlineInTx started (the (ord_DriverID updated)))
      (bind (selectDriverCurrentOrderByID userID orderID) (\<lambda>o1. ret (True, o1))))))))))))))"

section \<open>Going on line and off line\<close>

text \<open>\<^verbatim>\<open>Profile\<close>, without the car and the compliance flags, which no decision of the application reads.\<close>

record driver_profile =
  dpr_DriverID :: uuid
  dpr_UserID :: uuid
  dpr_CityID :: uuid
  dpr_Phone :: string
  dpr_FirstName :: string
  dpr_LastName :: string
  dpr_Status :: driver_status
  dpr_IsVerified :: bool
  dpr_TaxiParkID :: "uuid option"

definition profile_of :: "driver \<Rightarrow> user \<Rightarrow> driver_profile" where
  "profile_of dr u =
     \<lparr>dpr_DriverID = drv_ID dr, dpr_UserID = drv_UserID dr, dpr_CityID = drv_CityID dr,
      dpr_Phone = usr_Phone u, dpr_FirstName = usr_FirstName u, dpr_LastName = usr_LastName u,
      dpr_Status = drv_Status dr, dpr_IsVerified = drv_IsVerified dr,
      dpr_TaxiParkID = drv_TaxiParkID dr\<rparr>"

definition profiles :: "db \<Rightarrow> uuid \<Rightarrow> (driver \<Rightarrow> user \<Rightarrow> bool) \<Rightarrow> driver_profile list" where
  "profiles d userID P =
     [profile_of dr u. dr \<leftarrow> drivers d, u \<leftarrow> users d, drv_UserID dr = userID \<and> usr_ID u = drv_UserID dr \<and> P dr u]"

definition GetProfileByUserID :: "uuid \<Rightarrow> (world, driver_profile) op" where
  "GetProfileByUserID userID = no_rows_is (Service ErrDriverNotFound)
     (query (\<lambda>_ d. one_row (profiles d userID (\<lambda>dr u. drv_DeletedAt dr = None \<and> usr_DeletedAt u = None))))"

text \<open>
  \<^verbatim>\<open>WITH updated_driver AS (UPDATE .. RETURNING id) SELECT ..\<close>: the outer query sees the tables as they
  were before the update, so the profile has the old status.
\<close>

definition update_driver_status ::
  "(time \<Rightarrow> db \<Rightarrow> driver \<Rightarrow> bool) \<Rightarrow> driver_status \<Rightarrow> uuid \<Rightarrow> (world, driver_profile) op" where
  "update_driver_status P status userID =
     bind (sql (\<lambda>now d.
        let Q = (\<lambda>dr. drv_UserID dr = userID \<and> drv_DeletedAt dr = None \<and> P now d dr)
        in (Inr (profiles d userID (\<lambda>dr _. Q dr)),
            snd (update_drivers Q (\<lambda>dr. dr\<lparr>drv_Status := status\<rparr>) now d))))
     (\<lambda>found. lift (one_row found))"

definition may_go_online :: "time \<Rightarrow> db \<Rightarrow> driver \<Rightarrow> bool" where
  "may_go_online now d dr \<longleftrightarrow>
     drv_Status dr \<in> {DriverStatusOffline, DriverStatusPaused, DriverStatusOnline}
     \<and> drv_IsVerified dr \<and> drv_VerificationStatus dr = ComplianceStatusVerified
     \<and> (case drv_TaxiParkID dr of None \<Rightarrow> False | Some p \<Rightarrow> park_active d p)
     \<and> list_ex (usable_car now dr) (cars d)"

definition markOnline :: "uuid \<Rightarrow> (world, driver_profile) op" where
  "markOnline userID =
     catching (update_driver_status may_go_online DriverStatusOnline userID) (\<lambda>r. case r of
        Inr p \<Rightarrow> ret p
      | Inl e \<Rightarrow>
          if errors_Is e (Infra ErrNoRows)
          then bind (query (\<lambda>_ d. Inr (list_ex (\<lambda>dr. drv_UserID dr = userID \<and> drv_DeletedAt dr = None) (drivers d))))
            (\<lambda>exists. if exists then fail [Service ErrDriverNotAvailable] else fail [Service ErrDriverNotFound])
          else fail e)"

definition markOffline :: "uuid \<Rightarrow> (world, driver_profile) op" where
  "markOffline userID = no_rows_is (Service ErrDriverNotFound)
     (update_driver_status (\<lambda>_ d dr. \<not> driver_serving d (drv_ID dr)) DriverStatusOffline userID)"

definition SetStatusByUserID :: "uuid \<Rightarrow> driver_status \<Rightarrow> (world, driver_profile) op" where
  "SetStatusByUserID userID status =
     (if status = DriverStatusOnline then markOnline userID
      else if status = DriverStatusOffline then markOffline userID
      else fail [Domain ErrInvalidDriverStatus])"

text \<open>The presence keys: one transaction of Redis each.\<close>

definition PresenceMarkOnline :: "uuid \<Rightarrow> uuid \<Rightarrow> duration \<Rightarrow> (world, unit) op" where
  "PresenceMarkOnline cityID driverID ttl =
     redis_cmd (\<lambda>now r. (Inr (),
       r\<lparr>rd_city_online := set_expire now ttl cityID (set_add now cityID driverID (rd_city_online r)),
         rd_online := (rd_online r)(driverID := Some (cityID, now + ttl))\<rparr>))"

definition PresenceMarkOffline :: "uuid \<Rightarrow> uuid \<Rightarrow> (world, unit) op" where
  "PresenceMarkOffline cityID driverID =
     redis_cmd (\<lambda>now r. (Inr (),
       r\<lparr>rd_city_online := set_remove now cityID driverID (rd_city_online r),
         rd_online := (rd_online r)(driverID := None)\<rparr>))"

definition IsOnline :: "uuid \<Rightarrow> (world, bool) op" where
  "IsOnline driverID = redis_cmd (\<lambda>now r. (Inr (live now (rd_online r) driverID \<noteq> None), r))"

definition AllowLocationUpdate :: "uuid \<Rightarrow> duration \<Rightarrow> (world, bool) op" where
  "AllowLocationUpdate driverID interval =
     redis_cmd (\<lambda>now r.
       if live now (rd_throttled r) driverID = None
       then (Inr True, r\<lparr>rd_throttled := (rd_throttled r)(driverID := Some ((), now + interval))\<rparr>)
       else (Inr False, r))"

section \<open>Locations\<close>

text \<open>Heading, speed and accuracy are not modelled.\<close>

record location_update =
  lup_DriverID :: uuid
  lup_CityID :: uuid
  lup_Location :: coordinates
  lup_RecordedAt :: time

definition UpdateDriverLocation :: "location_update \<Rightarrow> (world, unit) op" where
  "UpdateDriverLocation u =
     sql (\<lambda>now d.
       if lup_DriverID u \<notin> drv_ID ` set (drivers d) then (Inl [Infra ErrForeignKeyViolation], d)
       else (Inr (), d\<lparr>driver_locations :=
         (let row = \<lparr>loc_DriverID = lup_DriverID u, loc_CityID = lup_CityID u, loc_Location = lup_Location u,
                     loc_RecordedAt = lup_RecordedAt u, loc_UpdatedAt = now\<rparr>
          in if lup_DriverID u \<in> loc_DriverID ` set (driver_locations d)
             then sql_update (\<lambda>l. loc_DriverID l = lup_DriverID u) (\<lambda>_. row) (driver_locations d)
             else driver_locations d @ [row])\<rparr>))"

text \<open>
  A driver is stale when his last fix is older than the age that his park allows, by default
  \<open>staleBefore\<close>; \<^verbatim>\<open>LIMIT\<close> without \<^verbatim>\<open>ORDER BY\<close> takes any, here the first.
\<close>

definition stale_driver :: "time \<Rightarrow> time \<Rightarrow> db \<Rightarrow> driver \<Rightarrow> bool" where
  "stale_driver staleBefore now d dr \<longleftrightarrow>
     drv_Status dr = DriverStatusOnline \<and> drv_DeletedAt dr = None
     \<and> list_ex (\<lambda>l. loc_DriverID l = drv_ID dr \<and> loc_UpdatedAt l <
          (case find (\<lambda>s. drv_TaxiParkID dr = Some (set_TaxiParkID s)) (park_settings d) of
             None \<Rightarrow> staleBefore
           | Some s \<Rightarrow> if set_DispatchDriverLocationMaxAgeSec s = 0 then staleBefore
                       else now - seconds (set_DispatchDriverLocationMaxAgeSec s)))
        (driver_locations d)"

definition MarkStaleDriversOffline_repository :: "time \<Rightarrow> int \<Rightarrow> (world, nat) op" where
  "MarkStaleDriversOffline_repository staleBefore limit =
     sql (\<lambda>now d.
       let chosen = take (nat limit) (map drv_ID (filter (stale_driver staleBefore now d) (drivers d)))
       in update_drivers (\<lambda>dr. drv_ID dr \<in> set chosen) (\<lambda>dr. dr\<lparr>drv_Status := DriverStatusOffline\<rparr>) now d)"

text \<open>The fix is also a point of the trip that the driver is on.\<close>

definition latest_trip :: "db \<Rightarrow> uuid \<Rightarrow> (order_row \<times> driver) list" where
  "latest_trip d userID =
     take 1 (sort_key (\<lambda>(r, _). - ord_UpdatedAt r)
       (filter (\<lambda>(r, _). ord_Status r = OrderStatusInProgress) (driven_orders d userID)))"

definition same_point :: "route_point_row \<Rightarrow> route_point_row \<Rightarrow> bool" where
  "same_point p q \<longleftrightarrow> rpt_OrderID p = rpt_OrderID q \<and> rpt_RecordedAt p = rpt_RecordedAt q
     \<and> rpt_Location p = rpt_Location q"

definition AppendRoutePointByUserID :: "uuid \<Rightarrow> location_update \<Rightarrow> (world, unit) op" where
  "AppendRoutePointByUserID userID u =
     sql (\<lambda>_ d.
       let new = [\<lparr>rpt_OrderID = ord_ID r, rpt_DriverID = drv_ID dr, rpt_Location = lup_Location u,
                   rpt_RecordedAt = lup_RecordedAt u\<rparr>. (r, dr) \<leftarrow> latest_trip d userID]
       in if list_ex (\<lambda>p. list_ex (same_point p) (route_points d)) new
          then (Inl [Infra ErrUniqueViolation], d)
          else (Inr (), d\<lparr>route_points := route_points d @ new\<rparr>))"

record route_upload_access =
  rua_OrderID :: uuid
  rua_DriverID :: uuid
  rua_DriverUserID :: uuid
  rua_Status :: order_status

definition GetOrderRouteUploadAccess :: "uuid \<Rightarrow> (world, route_upload_access) op" where
  "GetOrderRouteUploadAccess orderID =
     bind (no_rows_is (Service ErrCurrentOrderNotFound) (query (\<lambda>_ d. one_row
        [(r, find (\<lambda>dr. ord_DriverID r = Some (drv_ID dr) \<and> drv_DeletedAt dr = None) (drivers d)).
           r \<leftarrow> orders d, ord_ID r = orderID \<and> ord_DeletedAt r = None])))
     (\<lambda>(r, driver). case driver of
        None \<Rightarrow> fail [Service ErrOrderAccessDenied]
      | Some dr \<Rightarrow> ret \<lparr>rua_OrderID = ord_ID r, rua_DriverID = drv_ID dr, rua_DriverUserID = drv_UserID dr,
          rua_Status = ord_Status r\<rparr>)"

text \<open>
  Points of the trip, not before its start and at most five seconds ahead of the clock of the database;
  \<^verbatim>\<open>ON CONFLICT DO NOTHING\<close> drops what the unique index on order, instant and place excludes.
\<close>

definition point_fits :: "time \<Rightarrow> db \<Rightarrow> uuid \<Rightarrow> uuid \<Rightarrow> coordinates \<times> time \<Rightarrow> bool" where
  "point_fits now d orderID driverID point \<longleftrightarrow>
     list_ex (\<lambda>r. ord_ID r = orderID \<and> ord_DriverID r = Some driverID \<and> ord_Status r = OrderStatusInProgress
       \<and> (case ord_StartedAt r of None \<Rightarrow> False | Some t \<Rightarrow> t \<le> snd point)) (orders d)
     \<and> snd point \<le> now + seconds 5"

fun insert_points :: "route_point_row list \<Rightarrow> route_point_row list \<Rightarrow> nat \<times> route_point_row list" where
  "insert_points [] stored = (0, stored)"
| "insert_points (p # ps) stored =
     (if list_ex (same_point p) stored then insert_points ps stored
      else (case insert_points ps (stored @ [p]) of (n, rows) \<Rightarrow> (Suc n, rows)))"

definition AppendOrderRoutePoints ::
  "uuid \<Rightarrow> uuid \<Rightarrow> (coordinates \<times> time) list \<Rightarrow> (world, nat \<times> nat) op" where
  "AppendOrderRoutePoints orderID driverID points =
     (if points = [] then ret (0, 0)
      else bind (sql (\<lambda>now d.
          let new = [\<lparr>rpt_OrderID = orderID, rpt_DriverID = driverID, rpt_Location = fst p,
                      rpt_RecordedAt = snd p\<rparr>. p \<leftarrow> filter (point_fits now d orderID driverID) points]
          in case insert_points new (route_points d) of
               (n, rows) \<Rightarrow> (Inr n, d\<lparr>route_points := rows\<rparr>)))
        (\<lambda>accepted. ret (accepted, length points - accepted)))"

definition ListRoutePointsByUserID :: "uuid \<Rightarrow> uuid \<Rightarrow> (world, route_point_row list) op" where
  "ListRoutePointsByUserID userID orderID =
     bind (query (\<lambda>_ d. Inr (list_ex (\<lambda>(r, _). ord_ID r = orderID) (driven_orders d userID)))) (\<lambda>exists.
     if \<not> exists then fail [Service ErrCurrentOrderNotFound]
     else query (\<lambda>_ d. Inr (sort_key rpt_RecordedAt
        [p. p \<leftarrow> route_points d, (r, dr) \<leftarrow> driven_orders d userID,
           rpt_OrderID p = orderID \<and> ord_ID r = orderID \<and> rpt_DriverID p = drv_ID dr])))"

end
