(* ===== verification/Driver_App.thy ===== *)
theory Driver_App
  imports Driver_Mobile
begin

text \<open>
  The application of the driver, \<^verbatim>\<open>internal/driver/mobile_service.go\<close>, over the statements of
  \<open>Driver_Mobile\<close>: going on and off line, locations and routes, offers, and the steps of a trip; and
  the locations of \<^verbatim>\<open>internal/geo/location_service.go\<close>.
\<close>

section \<open>Locations\<close>

definition minUpdateInterval :: duration where "minUpdateInterval = seconds 2"
definition staleAfter :: duration where "staleAfter = seconds 30"

definition ErrLocationUpdateThrottled :: sentinel where
  "ErrLocationUpdateThrottled = Msg ''driver location update throttled''"

definition UpdateLocation :: "location_update \<Rightarrow> (world, unit) op" where
  "UpdateLocation u =
     bind time_Now (\<lambda>now.
     let u = (if time_IsZero (lup_RecordedAt u) then u\<lparr>lup_RecordedAt := now\<rparr> else u)
     in bind (AllowLocationUpdate (lup_DriverID u) minUpdateInterval) (\<lambda>allowed.
        if \<not> allowed then fail [ErrLocationUpdateThrottled] else UpdateDriverLocation u))"

definition UpdateLocationBatch :: "location_update list \<Rightarrow> (world, unit) op" where
  "UpdateLocationBatch updates =
     for_each updates (\<lambda>u. catching (UpdateLocation u) (\<lambda>r. case r of
        Inl e \<Rightarrow> if errors_Is e ErrLocationUpdateThrottled then done_op else fail e
      | Inr _ \<Rightarrow> done_op))"

definition MarkStaleDriversOffline :: "int \<Rightarrow> (world, nat) op" where
  "MarkStaleDriversOffline limit =
     bind time_Now (\<lambda>now. MarkStaleDriversOffline_repository (now - staleAfter) limit)"

section \<open>The service\<close>

record driver_app =
  dap_dispatchController :: "dispatch_service option"
  dap_has_realtimeGateway :: bool
  dap_has_financeProcessor :: bool
  dap_has_passengerNotifier :: bool
  dap_st_distance :: "coordinates \<Rightarrow> coordinates \<Rightarrow> rat"

definition presenceTTL :: duration where "presenceTTL = seconds 45"

fun driver_status_text :: "driver_status \<Rightarrow> string" where
  "driver_status_text DriverStatusOffline = ''offline''"
| "driver_status_text DriverStatusOnline = ''online''"
| "driver_status_text DriverStatusBusy = ''busy''"
| "driver_status_text DriverStatusPaused = ''paused''"
| "driver_status_text DriverStatusBlocked = ''blocked''"
| "driver_status_text (DriverStatusOther text) = text"

definition publishPresenceChanged :: "driver_app \<Rightarrow> driver_profile \<Rightarrow> (world, unit) op" where
  "publishPresenceChanged service p =
     (if \<not> dap_has_realtimeGateway service then done_op
      else bind time_Now (\<lambda>now. SendDriverPresenceToTaxiPark (dpr_DriverID p)
        [(''driver_id'', PUuid (dpr_DriverID p)), (''user_id'', PUuid (dpr_UserID p)),
         (''city_id'', PUuid (dpr_CityID p)), (''taxi_park_id'', PUuidOption (dpr_TaxiParkID p)),
         (''name'', PStr (TrimSpace (TrimSpace (dpr_FirstName p) @ '' '' @ TrimSpace (dpr_LastName p)))),
         (''phone'', PStr (dpr_Phone p)), (''status'', PStr (driver_status_text (dpr_Status p))),
         (''changed_at'', PTime now)]))"

definition MarkDriverOnline :: "driver_app \<Rightarrow> uuid \<Rightarrow> (world, driver_profile) op" where
  "MarkDriverOnline service userID =
     bind (SetStatusByUserID userID DriverStatusOnline) (\<lambda>p0.
     let p = p0\<lparr>dpr_Status := DriverStatusOnline\<rparr>
     in andthen (PresenceMarkOnline (dpr_CityID p) (dpr_DriverID p) presenceTTL)
        (andthen (publishPresenceChanged service p) (ret p)))"

definition MarkDriverOffline :: "driver_app \<Rightarrow> uuid \<Rightarrow> (world, driver_profile) op" where
  "MarkDriverOffline service userID =
     bind (SetStatusByUserID userID DriverStatusOffline) (\<lambda>p0.
     let p = p0\<lparr>dpr_Status := DriverStatusOffline\<rparr>
     in andthen (PresenceMarkOffline (dpr_CityID p) (dpr_DriverID p))
        (andthen (publishPresenceChanged service p) (ret p)))"

definition locationUpdate :: "time \<Rightarrow> driver_profile \<Rightarrow> coordinates \<Rightarrow> location_update" where
  "locationUpdate now p location =
     \<lparr>lup_DriverID = dpr_DriverID p, lup_CityID = dpr_CityID p, lup_Location = location,
      lup_RecordedAt = now\<rparr>"

definition publishLocationUpdated ::
  "driver_app \<Rightarrow> driver_profile \<Rightarrow> location_update \<Rightarrow> (world, unit) op" where
  "publishLocationUpdated service p u =
     (if \<not> dap_has_realtimeGateway service then done_op
      else SendDriverLocationToTaxiPark (dpr_DriverID p)
        [(''driver_id'', PUuid (dpr_DriverID p)), (''user_id'', PUuid (dpr_UserID p)),
         (''name'', PStr (TrimSpace (TrimSpace (dpr_FirstName p) @ '' '' @ TrimSpace (dpr_LastName p)))),
         (''phone'', PStr (dpr_Phone p)), (''status'', PStr (driver_status_text (dpr_Status p))), (''location'', PCoordinates (lup_Location u)),
         (''recorded_at'', PTime (lup_RecordedAt u))])"

definition publishPassengerDriverLocation ::
  "driver_app \<Rightarrow> uuid \<Rightarrow> driver_profile \<Rightarrow> location_update \<Rightarrow> (world, unit) op" where
  "publishPassengerDriverLocation service userID p u =
     (if \<not> dap_has_realtimeGateway service then done_op
      else catching (GetCurrentOrderByUserID userID) (\<lambda>r. case r of
         Inl e \<Rightarrow> if errors_Is e (Service ErrCurrentOrderNotFound) then done_op else fail e
       | Inr o1 \<Rightarrow> SendToPassenger (cod_PassengerID o1) ''driver.location_updated''
           [(''order_id'', PUuid (cod_OrderID o1)), (''driver_id'', PUuid (dpr_DriverID p)),
            (''status'', PStr (status_text (cod_Status o1))), (''location'', PCoordinates (lup_Location u)),
            (''recorded_at'', PTime (lup_RecordedAt u))]))"

definition UpdateDriverLocation_service :: "driver_app \<Rightarrow> uuid \<Rightarrow> coordinates \<Rightarrow> (world, unit) op" where
  "UpdateDriverLocation_service service userID location =
     bind (GetProfileByUserID userID) (\<lambda>p.
     bind time_Now (\<lambda>now.
     let u = locationUpdate now p location
     in andthen (UpdateLocation u)
        (andthen (AppendRoutePointByUserID userID u)
        (andthen (publishLocationUpdated service p u) (publishPassengerDriverLocation service userID p u)))))"

definition UpdateDriverLocationBatch :: "driver_app \<Rightarrow> uuid \<Rightarrow> coordinates list \<Rightarrow> (world, unit) op" where
  "UpdateDriverLocationBatch service userID locations =
     bind (GetProfileByUserID userID) (\<lambda>p.
     bind (collect locations (\<lambda>l. bind time_Now (\<lambda>now. ret [locationUpdate now p l]))) (\<lambda>updates.
     andthen (UpdateLocationBatch updates)
       (if updates = [] then done_op
        else andthen (for_each updates (AppendRoutePointByUserID userID))
          (andthen (publishLocationUpdated service p (last updates))
            (publishPassengerDriverLocation service userID p (last updates))))))"

definition canAppendOrderRoutePoints :: "order_status \<Rightarrow> bool" where
  "canAppendOrderRoutePoints status \<longleftrightarrow> status = OrderStatusInProgress"

definition AppendOrderRoutePoints_service ::
  "uuid \<Rightarrow> uuid \<Rightarrow> (coordinates \<times> time) list \<Rightarrow> (world, nat \<times> nat) op" where
  "AppendOrderRoutePoints_service userID orderID points =
     bind (GetOrderRouteUploadAccess orderID) (\<lambda>access.
     if rua_DriverUserID access \<noteq> userID then fail [Service ErrOrderAccessDenied]
     else if \<not> canAppendOrderRoutePoints (rua_Status access) then fail [Service ErrOrderRouteForbidden]
     else AppendOrderRoutePoints orderID (rua_DriverID access) points)"

section \<open>Offers\<close>

definition AcceptDriverOrder :: "driver_app \<Rightarrow> uuid \<Rightarrow> uuid \<Rightarrow> (world, current_order) op" where
  "AcceptDriverOrder service userID orderID =
     (case dap_dispatchController service of
        None \<Rightarrow> fail [Service ErrNotImplemented]
      | Some dispatch \<Rightarrow>
          bind (GetProfileByUserID userID) (\<lambda>p.
          andthen (AcceptOffer dispatch orderID (dpr_DriverID p)) (GetCurrentOrderByUserID userID)))"

definition ListDriverOrderOffers :: "driver_app \<Rightarrow> uuid \<Rightarrow> (world, driver_order_offer list) op" where
  "ListDriverOrderOffers service userID =
     (case dap_dispatchController service of
        None \<Rightarrow> fail [Service ErrNotImplemented]
      | Some _ \<Rightarrow>
          bind (GetProfileByUserID userID) (\<lambda>p. ListDriverOffers_service (dpr_DriverID p)))"

definition RejectDriverOrder :: "driver_app \<Rightarrow> uuid \<Rightarrow> uuid \<Rightarrow> string \<Rightarrow> (world, unit) op" where
  "RejectDriverOrder service userID orderID reason =
     (case dap_dispatchController service of
        None \<Rightarrow> fail [Service ErrNotImplemented]
      | Some _ \<Rightarrow>
          bind (GetProfileByUserID userID) (\<lambda>p. RejectOffer orderID (dpr_DriverID p) reason))"

section \<open>The steps of a trip\<close>

definition state_payload :: "current_order \<Rightarrow> payload" where
  "state_payload o1 =
     [(''order_id'', PUuid (cod_OrderID o1)), (''status'', PStr (status_text (cod_Status o1))),
      (''version'', PInt (cod_Version o1))]
     @ (if cod_DriverID o1 = uuid_Nil then [] else [(''driver_id'', PUuid (cod_DriverID o1))])"

definition publishOrderState :: "driver_app \<Rightarrow> current_order \<Rightarrow> string \<Rightarrow> (world, unit) op" where
  "publishOrderState service o1 eventName =
     (if \<not> dap_has_realtimeGateway service then done_op
      else andthen (SendToPassenger (cod_PassengerID o1) eventName (state_payload o1))
        (andthen (SendToTaxiParkByOrder (cod_OrderID o1) eventName (state_payload o1))
        (SendToDriver (cod_DriverID o1) eventName (state_payload o1))))"

definition publishDriverCancelledOrderState ::
  "driver_app \<Rightarrow> current_order \<Rightarrow> string \<Rightarrow> (world, unit) op" where
  "publishDriverCancelledOrderState service o1 reason =
     (if \<not> dap_has_realtimeGateway service then done_op
      else andthen (SendToPassenger (cod_PassengerID o1) ''order.cancelled''
            (state_payload o1 @ [(''cancelled_by'', PStr ''driver''),
               (''cancellation_reason'', PStr (TrimSpace reason))]))
        (andthen (SendToTaxiParkByOrder (cod_OrderID o1) ''order.cancelled'' (state_payload o1))
        (SendToDriver (cod_DriverID o1) ''order.cancelled'' (state_payload o1))))"

definition notifyPassenger_app :: "driver_app \<Rightarrow> uuid \<Rightarrow> payload \<Rightarrow> (world, unit) op" where
  "notifyPassenger_app service passengerID body =
     (if \<not> dap_has_passengerNotifier service \<or> passengerID = uuid_Nil then done_op
      else NotifyPassenger passengerID body)"

definition trip_notice :: "current_order \<Rightarrow> string \<Rightarrow> payload" where
  "trip_notice o1 event =
     [(''event'', PStr event), (''order_id'', PUuid (cod_OrderID o1)), (''driver_id'', PUuid (cod_DriverID o1))]"

definition markProfileOnline :: "uuid \<Rightarrow> (world, unit) op" where
  "markProfileOnline userID =
     bind (GetProfileByUserID userID) (\<lambda>p. PresenceMarkOnline (dpr_CityID p) (dpr_DriverID p) presenceTTL)"

definition MarkDriverArriving :: "driver_app \<Rightarrow> uuid \<Rightarrow> uuid \<Rightarrow> (world, current_order) op" where
  "MarkDriverArriving service userID orderID =
     bind (TransitionOrderByUserID userID orderID OrderStatusDriverArriving [] None) (\<lambda>o1.
     andthen (publishOrderState service o1 ''order.driver_arriving'')
     (andthen (notifyPassenger_app service (cod_PassengerID o1) (trip_notice o1 ''order.driver_arriving''))
     (ret o1)))"

definition MarkDriverArrived :: "driver_app \<Rightarrow> uuid \<Rightarrow> uuid \<Rightarrow> (world, current_order) op" where
  "MarkDriverArrived service userID orderID =
     bind (TransitionOrderByUserID userID orderID OrderStatusDriverWaiting [] None) (\<lambda>o1.
     andthen (publishOrderState service o1 ''order.driver_waiting'')
     (andthen (notifyPassenger_app service (cod_PassengerID o1) (trip_notice o1 ''order.driver_waiting''))
     (ret o1)))"

definition CancelDriverOrder :: "driver_app \<Rightarrow> uuid \<Rightarrow> uuid \<Rightarrow> string \<Rightarrow> (world, current_order) op" where
  "CancelDriverOrder service userID orderID reason =
     bind (TransitionOrderByUserID userID orderID OrderStatusCancelled reason None) (\<lambda>o1.
     andthen (markProfileOnline userID)
     (andthen (publishDriverCancelledOrderState service o1 reason)
     (andthen (notifyPassenger_app service (cod_PassengerID o1)
        (trip_notice o1 ''order.cancelled'' @ [(''cancelled_by'', PStr ''driver''),
           (''cancellation_reason'', PStr (TrimSpace reason))]))
     (ret o1))))"

definition StartDriverTrip :: "driver_app \<Rightarrow> uuid \<Rightarrow> uuid \<Rightarrow> (world, current_order) op" where
  "StartDriverTrip service userID orderID =
     bind (TransitionOrderByUserID userID orderID OrderStatusInProgress [] None) (\<lambda>o1.
     andthen (publishOrderState service o1 ''order.trip_started'') (ret o1))"

definition CompleteDriverTrip :: "driver_app \<Rightarrow> uuid \<Rightarrow> uuid \<Rightarrow> (world, current_order) op" where
  "CompleteDriverTrip service userID orderID =
     bind (CompleteOrderByUserID (dap_st_distance service) userID orderID) (\<lambda>o1.
     andthen (if dap_has_financeProcessor service
              then bind (SettleCompletedOrder orderID) (\<lambda>_. done_op) else done_op)
     (andthen (markProfileOnline userID)
     (andthen (publishOrderState service o1 ''order.completed'') (ret o1))))"

end
