(* ===== verification/Driver_Trips.thy ===== *)
theory Driver_Trips
  imports Driver_App
begin

text \<open>
  What the application of the driver may do to the orders: he moves only the order that names him, along
  the state machine, and is free again when it ends; the completion settles it; and only a checked driver
  goes on line.
\<close>

section \<open>The database behind the messages\<close>

lemma driver_messages_keep [keeps_intros]:
  "keeps (on_db P) (publishOrderState service o1 name)"
  "keeps (on_db P) (publishDriverCancelledOrderState service o1 reason)"
  "keeps (on_db P) (notifyPassenger_app service i body)"
  "keeps (on_db P) (PresenceMarkOnline c j ttl)"
  "keeps (on_db P) (PresenceMarkOffline c j)"
  "keeps (on_db P) (publishPresenceChanged service p)"
  "keeps (on_db P) (AllowLocationUpdate j n)"
  unfolding publishOrderState_def publishDriverCancelledOrderState_def notifyPassenger_app_def
    PresenceMarkOnline_def PresenceMarkOffline_def publishPresenceChanged_def AllowLocationUpdate_def
  by (intro keeps_intros)+

lemma driver_reads_keep [keeps_intros]:
  "keeps (on_db P) (GetProfileByUserID i)"
  "keeps (on_db P) (GetCurrentOrderByUserID i)"
  "keeps (on_db P) (selectDriverDomainOrderForTransition i j)"
  "keeps (on_db P) (selectDriverCurrentOrderByID i j)"
  "keeps (on_db P) (initialOrderPrice j)"
  "keeps (on_db P) (completedTripMetrics st_distance now j)"
  "keeps (on_db P) (required_change changed)"
  unfolding GetProfileByUserID_def GetCurrentOrderByUserID_def selectDriverDomainOrderForTransition_def
    selectDriverCurrentOrderByID_def initialOrderPrice_def completedTripMetrics_def required_change_def
  by (intro keeps_intros)+

lemma markProfileOnline_keeps [keeps_intros]: "keeps (on_db P) (markProfileOnline userID)"
  unfolding markProfileOnline_def by (intro keeps_intros)

section \<open>One step of the driver\<close>

lemma driven_orders_iff:
  "(r, dr) \<in> set (driven_orders d userID) \<longleftrightarrow> r \<in> set (orders d) \<and> dr \<in> set (drivers d)
     \<and> ord_DriverID r = Some (drv_ID dr) \<and> drv_UserID dr = userID \<and> ord_DeletedAt r = None \<and> drv_DeletedAt dr = None"
  by (auto simp: driven_orders_def)

lemma selectDriverDomainOrderForTransition_Inr:
  assumes "selectDriverDomainOrderForTransition userID i s = (Inr o1, t)"
  obtains r dr where "(r, dr) \<in> set (driven_orders (db s) userID)" "ord_ID r = i" "o1 = order.truncate r"
    "db t = db s"
  using assms unfolding selectDriverDomainOrderForTransition_def no_rows_is_Inr
  by (elim query_Inr) (auto dest!: one_row_Inr intro: that)

lemma transitionDispatchOrderStatus_Some:
  assumes "transitionDispatchOrderStatus started tr price s = (Inr (Some o1), t)"
    and "orders_consistent (orders (db s))"
  shows "db t = (db s)\<lparr>orders := orders (db t)\<rparr>" "orders_consistent (orders (db t))"
    "replaced (\<lambda>r r'. driver_transition_applies tr r \<and> r' = (driver_transitioned_row tr price r)\<lparr>ord_UpdatedAt := started\<rparr>
       \<and> scanDispatchOrder r' = Inr o1) (orders (db s)) (orders (db t))"
proof -
  obtain rows u where u: "sql (\<lambda>_. update_orders_returning (driver_transition_applies tr)
      (driver_transitioned_row tr price) started) s = (Inr rows, u)"
    "(case rows of [] \<Rightarrow> ret None
      | row # _ \<Rightarrow> bind (lift (scanDispatchOrder row)) (\<lambda>o1. ret (Some o1))) u = (Inr (Some o1), t)"
    by (rule bind_Inr [OF assms(1) [unfolded transitionDispatchOrderStatus_def]])
  from u(2) obtain row rest where rows: "rows = row # rest" "scanDispatchOrder row = Inr o1" "t = u"
    by (cases rows) (auto simp: Inr_simps elim!: bind_Inr)
  have run: "update_orders_returning (driver_transition_applies tr) (driver_transitioned_row tr price) started (db s)
      = (Inr (row # rest), db t)"
    using u(1) unfolding rows by (rule sql_Inr) (simp add: rows)
  have one: "\<And>r. driver_transition_applies tr r \<Longrightarrow> ord_ID r = tr_OrderID tr" by (simp add: driver_transition_applies_def)
  note res = update_orders_returning_one [OF run assms(2) one]
  show "db t = (db s)\<lparr>orders := orders (db t)\<rparr>" by (rule res(2))
  show "orders_consistent (orders (db t))" by (rule res(1))
  show "replaced (\<lambda>r r'. driver_transition_applies tr r \<and> r' = (driver_transitioned_row tr price r)\<lparr>ord_UpdatedAt := started\<rparr>
       \<and> scanDispatchOrder r' = Inr o1) (orders (db s)) (orders (db t))"
    by (rule replaced_mono [OF res(3)]) (use rows(2) in auto)
qed

lemma markDriverOnlineInTx_Inr:
  "markDriverOnlineInTx now i s = (Inr u, t) \<Longrightarrow>
   db t = (db s)\<lparr>drivers := freed now (Some i) (drivers (db s))\<rparr>"
  unfolding markDriverOnlineInTx_def
  by (auto simp: Inr_simps freed_def update_drivers_def elim!: bind_Inr sql_Inr)

lemma append_event_Inr:
  "sql (\<lambda>_. append_events evs) s = (Inr u, t) \<Longrightarrow>
   db t = (db s)\<lparr>order_events := order_events (db s) @ evs\<rparr>"
  unfolding append_events_def by (erule sql_Inr) simp

text \<open>
  \<open>driver_moved\<close>: one order of the driver was moved by \<open>tr\<close>, an event was logged, and the driver is free if
  \<open>ends\<close>.
\<close>

definition driver_moved ::
  "uuid \<Rightarrow> uuid \<Rightarrow> order_status \<Rightarrow> bool \<Rightarrow> db \<Rightarrow> db \<Rightarrow> order_row \<Rightarrow> order_row \<Rightarrow> bool" where
  "driver_moved userID i toStatus ends d d' r r' \<longleftrightarrow>
     (\<exists>dr \<in> set (drivers d). ord_DriverID r = Some (drv_ID dr) \<and> drv_UserID dr = userID \<and> drv_DeletedAt dr = None)
     \<and> ord_ID r = i \<and> EnsureOrderStatusTransition (ord_Status r) toStatus = Inr ()
     \<and> ord_Status r' = toStatus \<and> ord_Version r' = ord_Version r + 1
     \<and> ord_DriverID r' = ord_DriverID r \<and> ord_PassengerID r' = ord_PassengerID r
     \<and> (ord_Status r = OrderStatusDriverAssigned \<and> toStatus \<noteq> OrderStatusCancelled
          \<longrightarrow> ord_PriceConfirmationState r \<noteq> ''pending'')
     \<and> (ends \<longrightarrow> (\<forall>dr \<in> set (drivers d'). ord_DriverID r = Some (drv_ID dr) \<and> drv_DeletedAt dr = None
          \<longrightarrow> drv_Status dr \<noteq> DriverStatusBusy))"

lemma same_order:
  "orders_consistent rows \<Longrightarrow> r \<in> set rows \<Longrightarrow> q \<in> set rows \<Longrightarrow> ord_ID r = ord_ID q \<Longrightarrow> r = q"
  by (auto simp: orders_consistent_def orders_unique_def distinct_map dest: inj_onD)

lemma driver_step_moved:
  assumes "selectDriverDomainOrderForTransition userID i s = (Inr o0, s1)"
    and "NewOrderTransition now o0 toStatus usr drv reason now = Inr tr"
    and "transitionDispatchOrderStatus started tr price s1' = (Inr (Some o1), s2)" "db s1' = db s1"
    and "orders_consistent (orders (db s))"
  obtains row dr where "row \<in> set (orders (db s))" "dr \<in> set (drivers (db s))" "drv_UserID dr = userID"
    "drv_DeletedAt dr = None" "ord_DriverID row = Some (drv_ID dr)" "ord_DriverID o1 = ord_DriverID row"
    "ord_ID row = i" "legal_change (ord_Status row) toStatus" "driver_transition_applies tr row"
    "tr_FromStatus tr = ord_Status row" "tr_ToStatus tr = toStatus"
    "replaced (\<lambda>r r'. r = row \<and> r' = (driver_transitioned_row tr price row)\<lparr>ord_UpdatedAt := started\<rparr>)
       (orders (db s)) (orders (db s2))"
    "db s2 = (db s)\<lparr>orders := orders (db s2)\<rparr>" "orders_consistent (orders (db s2))"
proof -
  obtain row dr where row: "(row, dr) \<in> set (driven_orders (db s) userID)" "ord_ID row = i"
    "o0 = order.truncate row" "db s1' = db s"
    using selectDriverDomainOrderForTransition_Inr [OF assms(1)] assms(4) by metis
  have tr: "legal_change (ord_Status row) toStatus" "tr_FromStatus tr = ord_Status row" "tr_ToStatus tr = toStatus"
    "tr_OrderID tr = i"
    using assms(2) row(2) unfolding row(3) by (auto simp: NewOrderTransition_Inr order.defs)
  have cons: "orders_consistent (orders (db s1'))" using assms(5) row(4) by simp
  note upd = transitionDispatchOrderStatus_Some [OF assms(3) cons]
  obtain xs r ys where q: "orders (db s) = xs @ r # ys" "driver_transition_applies tr r"
    "orders (db s2) = xs @ (driver_transitioned_row tr price r)\<lparr>ord_UpdatedAt := started\<rparr> # ys"
    "scanDispatchOrder ((driver_transitioned_row tr price r)\<lparr>ord_UpdatedAt := started\<rparr>) = Inr o1"
    using upd(3) row(4) by (auto elim: replacedE)
  have "ord_ID r = i" using q(2) tr(4) by (simp add: driver_transition_applies_def)
  moreover have "row \<in> set (orders (db s))" using row(1) by (simp add: driven_orders_iff)
  moreover have "r \<in> set (orders (db s))" unfolding q(1) by simp
  ultimately have "r = row" using same_order [OF assms(5)] row(2) by blast
  have d2: "db s2 = (db s)\<lparr>orders := orders (db s2)\<rparr>" using upd(1) row(4) by simp
  have drv: "ord_DriverID o1 = ord_DriverID row"
    using scanDispatchOrder_Inr(4) [OF q(4)] \<open>r = row\<close> by (simp add: driver_transitioned_row_def)
  have rep: "replaced (\<lambda>r r'. r = row \<and> r' = (driver_transitioned_row tr price row)\<lparr>ord_UpdatedAt := started\<rparr>)
       (orders (db s)) (orders (db s2))"
    unfolding replaced_def using q \<open>r = row\<close> by blast
  show thesis
    by (rule that [of row dr, OF _ _ _ _ _ drv row(2) tr(1) _ tr(2,3) rep d2 upd(2)])
      (use row(1) q(2) \<open>r = row\<close> in \<open>simp_all add: driven_orders_iff\<close>)
qed

lemma required_change_Inr: "required_change c s = (Inr o1, t) \<longleftrightarrow> c = Some o1 \<and> t = s"
  by (auto simp: required_change_def Inr_simps split: option.splits)

lemma driver_movedI:
  assumes "dr \<in> set (drivers d)" "drv_UserID dr = userID" "drv_DeletedAt dr = None" "ord_DriverID row = Some (drv_ID dr)"
    and "ord_ID row = i" "legal_change (ord_Status row) toStatus" "driver_transition_applies tr row"
    and "tr_FromStatus tr = ord_Status row" "tr_ToStatus tr = toStatus"
    and "ord_Status row' = toStatus" "ord_Version row' = ord_Version row + 1" "ord_DriverID row' = ord_DriverID row"
    and "ord_PassengerID row' = ord_PassengerID row"
    and "ends \<Longrightarrow> drivers d' = freed now (Some (drv_ID dr)) rest"
  shows "driver_moved userID i toStatus ends d d' row row'"
proof -
  have "drv_Status q \<noteq> DriverStatusBusy"
    if "ends" "q \<in> set (drivers d')" "ord_DriverID row = Some (drv_ID q)" "drv_DeletedAt q = None" for q
    using that assms(4,14) by (auto dest: freed_idle)
  then show ?thesis
    unfolding driver_moved_def using assms(1-13) by (auto simp: legal_change_def driver_transition_applies_def)
qed

lemma TransitionOrderByUserID_Inr:
  assumes "TransitionOrderByUserID userID i toStatus reason price s = (Inr co, t)"
    and "orders_consistent (orders (db s))"
  shows "replaced (driver_moved userID i toStatus (toStatus \<in> {OrderStatusCancelled, OrderStatusCompleted}) (db s) (db t))
     (orders (db s)) (orders (db t))"
proof -
  obtain s0 b u where s0: "db s0 = db s" and commit: "db t = (if b then db u else db s)"
    and body: "(bind time_Now (\<lambda>started.
      bind (selectDriverDomainOrderForTransition userID i) (\<lambda>currentOrder.
      bind time_Now (\<lambda>now.
      bind (lift (NewOrderTransition now currentOrder toStatus (Some userID) (ord_DriverID currentOrder)
         reason now)) (\<lambda>tr.
      bind (transitionDispatchOrderStatus started tr price) (\<lambda>changed.
      bind (required_change changed) (\<lambda>updated.
      andthen (sql (\<lambda>_. append_events [driver_order_event tr updated]))
      (andthen (if toStatus \<in> {OrderStatusCancelled, OrderStatusCompleted}
                then markDriverOnlineInTx started (the (ord_DriverID updated)) else done_op)
      (bind (selectDriverCurrentOrderByID userID i) (\<lambda>o1. ret (True, o1))))))))))) s0 = (Inr (b, co), u)"
    by (rule db_transaction_Inr [OF assms(1) [unfolded TransitionOrderByUserID_def]])
  obtain o0 s2 now tr s4 o1 s5 e1 s6 e2 where
    r: "selectDriverDomainOrderForTransition userID i s0 = (Inr o0, s2)"
    "NewOrderTransition now o0 toStatus (Some userID) (ord_DriverID o0) reason now = Inr tr"
    "transitionDispatchOrderStatus (clock s0) tr price s2 = (Inr (Some o1), s4)"
    "sql (\<lambda>_. append_events [driver_order_event tr o1]) s4 = (Inr e1, s5)"
    "(if toStatus \<in> {OrderStatusCancelled, OrderStatusCompleted}
       then markDriverOnlineInTx (clock s0) (the (ord_DriverID o1)) else done_op) s5 = (Inr e2, s6)"
    "selectDriverCurrentOrderByID userID i s6 = (Inr co, u)" "b"
    using body by (elim bind_Inr) (auto simp: Inr_simps required_change_Inr simp del: insert_iff)
  have cons: "orders_consistent (orders (db s0))" using assms(2) s0 by simp
  obtain row dr where m: "row \<in> set (orders (db s0))" "dr \<in> set (drivers (db s0))" "drv_UserID dr = userID"
    "drv_DeletedAt dr = None" "ord_DriverID row = Some (drv_ID dr)" "ord_DriverID o1 = ord_DriverID row"
    "ord_ID row = i" "legal_change (ord_Status row) toStatus" "driver_transition_applies tr row"
    "tr_FromStatus tr = ord_Status row" "tr_ToStatus tr = toStatus"
    "replaced (\<lambda>r r'. r = row \<and> r' = (driver_transitioned_row tr price row)\<lparr>ord_UpdatedAt := clock s0\<rparr>)
       (orders (db s0)) (orders (db s4))"
    "db s4 = (db s0)\<lparr>orders := orders (db s4)\<rparr>"
    by (rule driver_step_moved [OF r(1-3) refl cons])
  have s5: "db s5 = (db s4)\<lparr>order_events := order_events (db s4) @ [driver_order_event tr o1]\<rparr>"
    by (rule append_event_Inr [OF r(4)])
  have rows: "orders (db s5) = orders (db s4)" using s5 by simp
  have "db u = db s6" using r(6) by (rule keeps_db_eq) (intro keeps_intros)
  then have t: "db t = db s6" using commit r(7) by simp
  have s6: "orders (db s6) = orders (db s5)"
    "toStatus \<in> {OrderStatusCancelled, OrderStatusCompleted} \<Longrightarrow>
       drivers (db s6) = freed (clock s0) (Some (drv_ID dr)) (drivers (db s5))"
    using r(5) m(5,6) by (auto simp: Inr_simps dest: markDriverOnlineInTx_Inr split: if_splits)
  show ?thesis
    unfolding t s0 [symmetric] s6(1) rows
    by (rule replaced_mono [OF m(12)], elim conjE, hypsubst, rule driver_movedI [OF m(2-5,7-11)])
      (use m(11) s5 m(13) s6(2) in \<open>simp_all add: driver_transitioned_row_def\<close>)
qed

section \<open>The completion of a trip\<close>

definition row_price :: "order_row \<Rightarrow> money option" where
  "row_price r = (case ord_FinalPrice r of Some m \<Rightarrow> Some m | None \<Rightarrow> ord_EstimatedPrice r)"

lemma initialOrderPrice_Inr:
  assumes "initialOrderPrice i s = (Inr price, t)"
  shows "(\<exists>r \<in> set (orders (db s)). ord_ID r = i \<and> map_option Amount (row_price r) = Some price) \<and> db t = db s"
proof -
  from assms have "one_row [Amount m. r \<leftarrow> orders (db s), ord_ID r = i,
        m \<leftarrow> (case ord_FinalPrice r of Some m \<Rightarrow> [m]
             | None \<Rightarrow> (case ord_EstimatedPrice r of Some m \<Rightarrow> [m] | None \<Rightarrow> []))] = Inr price \<and> db t = db s"
    unfolding initialOrderPrice_def by (rule query_Inr) blast
  then have "price \<in> set [Amount m. r \<leftarrow> orders (db s), ord_ID r = i,
        m \<leftarrow> (case ord_FinalPrice r of Some m \<Rightarrow> [m]
             | None \<Rightarrow> (case ord_EstimatedPrice r of Some m \<Rightarrow> [m] | None \<Rightarrow> []))]" "db t = db s"
    by (auto dest: one_row_Inr)
  then obtain r m where "r \<in> set (orders (db s))" "ord_ID r = i" "price = Amount m"
    "m \<in> set (case ord_FinalPrice r of Some m \<Rightarrow> [m]
             | None \<Rightarrow> (case ord_EstimatedPrice r of Some m \<Rightarrow> [m] | None \<Rightarrow> []))"
    by (simp only: set_concat set_map UN_iff image_iff set_simps if_split) (auto split: if_splits)
  then have "map_option Amount (row_price r) = Some price"
    by (cases "ord_FinalPrice r"; cases "ord_EstimatedPrice r") (simp_all add: row_price_def)
  with \<open>r \<in> set (orders (db s))\<close> \<open>ord_ID r = i\<close> \<open>db t = db s\<close> show ?thesis by blast
qed

lemma completedTripMetrics_Inr:
  assumes "completedTripMetrics st_distance now i s = (Inr metrics, t)"
  shows "(\<exists>r \<in> set (orders (db s)). ord_ID r = i \<and> metrics = trip_metrics st_distance now (db s) r) \<and> db t = db s"
proof -
  from assms have "one_row (map (trip_metrics st_distance now (db s)) (filter (\<lambda>r. ord_ID r = i) (orders (db s))))
      = Inr metrics \<and> db t = db s"
    unfolding completedTripMetrics_def by (rule query_Inr) blast
  then show ?thesis by (auto dest!: one_row_Inr)
qed

lemma update_orders_frame: "update_orders P f now d = (Inr n, d') \<Longrightarrow> d' = d\<lparr>orders := orders d'\<rparr>"
  by (auto simp: update_orders_def Let_def split: if_splits)

lemma store_trip_metrics_Inr:
  assumes "store_trip_metrics now i metrics s = (Inr u, t)" "orders_consistent (orders (db s))"
    and "row \<in> set (orders (db s))" "ord_ID row = i"
  shows "replaced (\<lambda>r r'. r = row \<and> r' = row\<lparr>ord_ActualDistanceMeters := Some (fst metrics),
            ord_ActualDurationSeconds := Some (snd metrics), ord_UpdatedAt := now\<rparr>) (orders (db s)) (orders (db t))"
    "db t = (db s)\<lparr>orders := orders (db t)\<rparr>"
proof -
  let ?f = "\<lambda>r :: order_row. r\<lparr>ord_ActualDistanceMeters := Some (fst metrics),
            ord_ActualDurationSeconds := Some (snd metrics)\<rparr>"
  obtain n where run: "update_orders (\<lambda>r. ord_ID r = i) ?f now (db s) = (Inr n, db t)"
    using assms(1) unfolding store_trip_metrics_def by (elim bind_Inr sql_Inr) (auto simp: Inr_simps)
  have n: "0 < n" unfolding update_orders_Inr(1) [OF run] rows_affected_pos using assms(3,4) by blast
  have "replaced (\<lambda>r r'. ord_ID r = i \<and> r' = (?f r)\<lparr>ord_UpdatedAt := now\<rparr>) (orders (db s)) (orders (db t))"
    by (rule update_orders_replaces [OF run n assms(2)])
  then obtain xs r ys where q: "orders (db s) = xs @ r # ys" "ord_ID r = i"
    "orders (db t) = xs @ (?f r)\<lparr>ord_UpdatedAt := now\<rparr> # ys" by (rule replacedE) blast
  have "r \<in> set (orders (db s))" unfolding q(1) by simp
  then have "r = row" using same_order [OF assms(2)] assms(3,4) q(2) by blast
  then show "replaced (\<lambda>r r'. r = row \<and> r' = row\<lparr>ord_ActualDistanceMeters := Some (fst metrics),
            ord_ActualDurationSeconds := Some (snd metrics), ord_UpdatedAt := now\<rparr>) (orders (db s)) (orders (db t))"
    unfolding replaced_def using q by blast
  show "db t = (db s)\<lparr>orders := orders (db t)\<rparr>"
    by (rule update_orders_frame [OF run])
qed

text \<open>A row replaced twice.\<close>

lemma replaced_twice:
  assumes "replaced (\<lambda>r r'. r = a \<and> r' = b) rows rows'" "replaced (\<lambda>r r'. r = b \<and> r' = c) rows' rows''"
    and "orders_consistent rows'"
  shows "replaced (\<lambda>r r'. r = a \<and> r' = c) rows rows''"
proof -
  obtain xs ys where q: "rows = xs @ a # ys" "rows' = xs @ b # ys" using assms(1) by (auto simp: replaced_def)
  obtain us vs where w: "rows' = us @ b # vs" "rows'' = us @ c # vs" using assms(2) by (auto simp: replaced_def)
  have "distinct rows'" using assms(3) by (auto simp: orders_consistent_def orders_unique_def distinct_map)
  then have "b \<notin> set xs" "b \<notin> set ys" unfolding q(2) by auto
  then have "xs = us \<and> ys = vs" using append_Cons_eq_iff [of b xs ys us vs] q(2) w(1) by simp
  then show ?thesis using q w by (auto simp: replaced_def)
qed

definition trip_completed ::
  "(coordinates \<Rightarrow> coordinates \<Rightarrow> rat) \<Rightarrow> time \<Rightarrow> db \<Rightarrow> order_row \<Rightarrow> order_row \<Rightarrow> bool" where
  "trip_completed st_distance now d r r' \<longleftrightarrow>
     row_price r \<noteq> None \<and> map_option Amount (ord_FinalPrice r') = map_option Amount (row_price r)
     \<and> (ord_ActualDistanceMeters r', ord_ActualDurationSeconds r') =
         (Some (fst (trip_metrics st_distance now d r)), Some (snd (trip_metrics st_distance now d r)))"

lemma CompleteOrderByUserID_Inr:
  assumes "CompleteOrderByUserID st_distance userID i s = (Inr co, t)" "orders_consistent (orders (db s))"
  shows "\<exists>now. clock s \<le> now \<and> replaced (\<lambda>r r'. driver_moved userID i OrderStatusCompleted True (db s) (db t) r r'
       \<and> trip_completed st_distance now (db s) r r') (orders (db s)) (orders (db t))" (is ?A)
    "\<exists>rows evs drs. db t = (db s)\<lparr>orders := rows, order_events := evs, drivers := drs\<rparr>" (is ?B)
proof -
  obtain s0 b u where s0: "db s0 = db s" "clock s \<le> clock s0" and commit: "db t = (if b then db u else db s)"
    and body: "(bind time_Now (\<lambda>started.
      bind (selectDriverDomainOrderForTransition userID i) (\<lambda>currentOrder.
      bind time_Now (\<lambda>now.
      bind (lift (NewOrderTransition now currentOrder OrderStatusCompleted (Some userID)
         (ord_DriverID currentOrder) [] now)) (\<lambda>tr.
      bind (initialOrderPrice i) (\<lambda>finalPriceCents.
      bind (completedTripMetrics st_distance started i) (\<lambda>metrics.
      bind (transitionDispatchOrderStatus started tr (Some finalPriceCents)) (\<lambda>changed.
      bind (required_change changed) (\<lambda>updated.
      andthen (store_trip_metrics started i metrics)
      (andthen (sql (\<lambda>_. append_events [driver_order_event tr updated]))
      (andthen (markDriverOnlineInTx started (the (ord_DriverID updated)))
      (bind (selectDriverCurrentOrderByID userID i) (\<lambda>o1. ret (True, o1)))))))))))))) s0 = (Inr (b, co), u)"
    by (rule db_transaction_Inr [OF assms(1) [unfolded CompleteOrderByUserID_def]])
  obtain o0 s2 now tr price s3 metrics s4 o1 s5 e1 s6 e2 s7 e3 s8 where
    r: "selectDriverDomainOrderForTransition userID i s0 = (Inr o0, s2)"
    "NewOrderTransition now o0 OrderStatusCompleted (Some userID) (ord_DriverID o0) [] now = Inr tr"
    "initialOrderPrice i s2 = (Inr price, s3)"
    "completedTripMetrics st_distance (clock s0) i s3 = (Inr metrics, s4)"
    "transitionDispatchOrderStatus (clock s0) tr (Some price) s4 = (Inr (Some o1), s5)"
    "store_trip_metrics (clock s0) i metrics s5 = (Inr e1, s6)"
    "sql (\<lambda>_. append_events [driver_order_event tr o1]) s6 = (Inr e2, s7)"
    "markDriverOnlineInTx (clock s0) (the (ord_DriverID o1)) s7 = (Inr e3, s8)"
    "selectDriverCurrentOrderByID userID i s8 = (Inr co, u)" "b"
    using body by (elim bind_Inr) (auto simp: Inr_simps required_change_Inr)
  have cons: "orders_consistent (orders (db s0))" using assms(2) s0 by simp
  obtain p where p: "p \<in> set (orders (db s2))" "ord_ID p = i" "map_option Amount (row_price p) = Some price"
    and s3: "db s3 = db s2" using initialOrderPrice_Inr [OF r(3)] by blast
  obtain q where q: "q \<in> set (orders (db s3))" "ord_ID q = i" "metrics = trip_metrics st_distance (clock s0) (db s3) q"
    and s4: "db s4 = db s3" using completedTripMetrics_Inr [OF r(4)] by blast
  obtain row dr where m: "row \<in> set (orders (db s0))" "dr \<in> set (drivers (db s0))" "drv_UserID dr = userID"
    "drv_DeletedAt dr = None" "ord_DriverID row = Some (drv_ID dr)" "ord_DriverID o1 = ord_DriverID row"
    "ord_ID row = i" "legal_change (ord_Status row) OrderStatusCompleted" "driver_transition_applies tr row"
    "tr_FromStatus tr = ord_Status row" "tr_ToStatus tr = OrderStatusCompleted"
    and rep: "replaced (\<lambda>r r'. r = row \<and> r' = (driver_transitioned_row tr (Some price) row)\<lparr>ord_UpdatedAt := clock s0\<rparr>)
       (orders (db s0)) (orders (db s5))"
    and d5: "db s5 = (db s0)\<lparr>orders := orders (db s5)\<rparr>" and cons5: "orders_consistent (orders (db s5))"
    by (rule driver_step_moved [OF r(1,2,5) _ cons]) (use s3 s4 in simp_all)
  let ?row = "(driver_transitioned_row tr (Some price) row)\<lparr>ord_UpdatedAt := clock s0\<rparr>"
  have "db s2 = db s0" using selectDriverDomainOrderForTransition_Inr [OF r(1)] by metis
  note same = same_order [OF cons _ m(1)]
  have "p = row" by (rule same) (use p(1,2) m(7) \<open>db s2 = db s0\<close> in simp_all)
  moreover have "q = row" by (rule same) (use q(1,2) m(7) s3 \<open>db s2 = db s0\<close> in simp_all)
  ultimately have "p = row" "q = row" by simp_all
  have mem: "?row \<in> set (orders (db s5))" using rep by (auto simp: replaced_def)
  have "ord_ID ?row = i" using m(7) by (simp add: driver_transitioned_row_def)
  note store = store_trip_metrics_Inr [OF r(6) cons5 mem this]
  let ?row' = "?row\<lparr>ord_ActualDistanceMeters := Some (fst metrics),
     ord_ActualDurationSeconds := Some (snd metrics), ord_UpdatedAt := clock s0\<rparr>"
  have both: "replaced (\<lambda>r r'. r = row \<and> r' = ?row') (orders (db s)) (orders (db s6))"
    using replaced_twice [OF rep store(1) cons5] s0(1) by simp
  have "db u = db s8" using r(9) by (rule keeps_db_eq) (intro keeps_intros)
  then have "db t = db s8" using commit r(10) by simp
  also have "\<dots> = (db s7)\<lparr>drivers := freed (clock s0) (Some (drv_ID dr)) (drivers (db s7))\<rparr>"
    using markDriverOnlineInTx_Inr [OF r(8)] m(5,6) by simp
  finally have t8: "db t = (db s7)\<lparr>drivers := freed (clock s0) (Some (drv_ID dr)) (drivers (db s7))\<rparr>" .
  obtain rows5 rows6 where rows: "db s5 = (db s)\<lparr>orders := rows5\<rparr>" "db s6 = (db s5)\<lparr>orders := rows6\<rparr>"
    using store(2) d5 s0(1) by metis
  have t: "db t = (db s)\<lparr>orders := orders (db s6),
      order_events := order_events (db s) @ [driver_order_event tr o1],
      drivers := freed (clock s0) (Some (drv_ID dr)) (drivers (db s))\<rparr>"
    unfolding t8 append_event_Inr [OF r(7)] rows by simp
  have "driver_moved userID i OrderStatusCompleted True (db s) (db t) row ?row'"
    by (rule driver_movedI [OF _ m(3-5,7-11)])
      (use m(2,11) s0(1) t in \<open>simp_all add: driver_transitioned_row_def\<close>)
  moreover have "trip_completed st_distance (clock s0) (db s) row ?row'"
    using p(3) q(3) s3 \<open>db s2 = db s0\<close> s0(1) m(11) \<open>p = row\<close> \<open>q = row\<close>
    by (auto simp: trip_completed_def driver_transitioned_row_def roubles_def)
  ultimately have "replaced (\<lambda>r r'. driver_moved userID i OrderStatusCompleted True (db s) (db t) r r'
       \<and> trip_completed st_distance (clock s0) (db s) r r') (orders (db s)) (orders (db t))"
    using both unfolding t by (auto simp: replaced_def)
  then show ?A using s0(2) by blast
  show ?B using t by blast
qed

section \<open>Calls of the driver\<close>

text \<open>The four buttons of a trip before its end.\<close>

datatype trip_call = CallArriving | CallArrived | CallStart | CallCancel string

fun trip_target :: "trip_call \<Rightarrow> order_status" where
  "trip_target CallArriving = OrderStatusDriverArriving"
| "trip_target CallArrived = OrderStatusDriverWaiting"
| "trip_target CallStart = OrderStatusInProgress"
| "trip_target (CallCancel _) = OrderStatusCancelled"

fun run_trip_call :: "driver_app \<Rightarrow> uuid \<Rightarrow> uuid \<Rightarrow> trip_call \<Rightarrow> (world, current_order) op" where
  "run_trip_call service userID i CallArriving = MarkDriverArriving service userID i"
| "run_trip_call service userID i CallArrived = MarkDriverArrived service userID i"
| "run_trip_call service userID i CallStart = StartDriverTrip service userID i"
| "run_trip_call service userID i (CallCancel reason) = CancelDriverOrder service userID i reason"

lemma run_trip_call_Inr:
  assumes "run_trip_call service userID i call s = (Inr co, t)"
  obtains reason u where
    "TransitionOrderByUserID userID i (trip_target call) reason None s = (Inr co, u)" "db t = db u"
proof -
  have frame: "db w = db v" if "(m :: (world, unit) op) v = (Inr x, w)" "\<And>P. keeps (on_db P) m" for m v x w
    using that by (rule keeps_db_eq)
  note keep = driver_messages_keep(1-3) markProfileOnline_keeps
  show thesis
  proof (cases call)
    case CallArriving
    with assms show thesis
      by (auto simp: MarkDriverArriving_def Inr_simps elim!: bind_Inr
          dest!: frame [OF _ keep(1)] frame [OF _ keep(3)] intro: that)
  next
    case CallArrived
    with assms show thesis
      by (auto simp: MarkDriverArrived_def Inr_simps elim!: bind_Inr
          dest!: frame [OF _ keep(1)] frame [OF _ keep(3)] intro: that)
  next
    case CallStart
    with assms show thesis
      by (auto simp: StartDriverTrip_def Inr_simps elim!: bind_Inr dest!: frame [OF _ keep(1)] intro: that)
  next
    case (CallCancel r)
    with assms show thesis
      by (auto simp: CancelDriverOrder_def Inr_simps elim!: bind_Inr
          dest!: frame [OF _ keep(2)] frame [OF _ keep(3)] frame [OF _ keep(4)] intro: that)
  qed
qed

text \<open>
  C4: a driver moves only his own order.  Whatever order he names, a call of his that succeeds has moved
  exactly one order, one that a live driver record of this user account holds, from a status from which
  the target can be reached; the order keeps its driver and passenger, a price that still waits for the
  passenger blocks every step except the cancellation, and after a cancellation the driver is not busy.
\<close>

theorem driver_moves_own_order:
  assumes "run_trip_call service userID i call s = (Inr co, t)" "orders_consistent (orders (db s))"
  shows "replaced (driver_moved userID i (trip_target call) (trip_target call = OrderStatusCancelled) (db s) (db t))
     (orders (db s)) (orders (db t))"
proof -
  obtain reason u where run: "TransitionOrderByUserID userID i (trip_target call) reason None s = (Inr co, u)"
    "db t = db u" by (rule run_trip_call_Inr [OF assms(1)])
  have "trip_target call \<in> {OrderStatusCancelled, OrderStatusCompleted} \<longleftrightarrow> trip_target call = OrderStatusCancelled"
    by (cases call) simp_all
  then show ?thesis using TransitionOrderByUserID_Inr [OF run(1) assms(2)] unfolding run(2) by (simp only:)
qed

lemma settled_tables_drivers:
  assumes "settled_tables a d d'"
  shows "drivers d' = drivers d"
proof -
  obtain d1 i started where d1: "d1 = d\<lparr>financial_transactions := financial_transactions d1,
      order_finances := order_finances d @ [finance_of i started a]\<rparr>" and c: "credited started a d1 d'"
    using assms unfolding settled_tables_def by blast
  have "drivers d1 = drivers d" by (subst d1) simp
  with c show ?thesis by (simp add: credited_def)
qed

lemma SettleCompletedOrder_drivers:
  assumes "SettleCompletedOrder i s = (Inr a, t)" "accounts_ok (db s)"
  shows "drivers (db t) = drivers (db s)"
proof -
  from effectD [OF SettleCompletedOrder_effect assms(1)] assms(2)
  have "db t = db s \<or> settled_tables a (db s) (db t)" by blast
  then show ?thesis by (auto dest: settled_tables_drivers)
qed

text \<open>
  C8: completing a trip settles it.  If the driver's completion succeeds, it was his own order, on its way or
  completed already; it is completed now for its final price or else for its estimate, with the distance
  and the duration that the recorded points of the trip give, and the driver is not busy; the order is
  settled and the books still balance.
\<close>

theorem CompleteDriverTrip_settles:
  assumes "CompleteDriverTrip service userID i s = (Inr co, t)" "dap_has_financeProcessor service"
    and "orders_consistent (orders (db s))" "books_balanced (db s)"
  shows "i \<in> bk_settled (books_of (db t)) \<and> books_balanced (db t)
     \<and> (\<exists>now. clock s \<le> now \<and> replaced (\<lambda>r r'. driver_moved userID i OrderStatusCompleted True (db s) (db t) r r'
          \<and> trip_completed (dap_st_distance service) now (db s) r r') (orders (db s)) (orders (db t)))"
proof -
  obtain u a u1 e1 u2 e2 where
    r: "CompleteOrderByUserID (dap_st_distance service) userID i s = (Inr co, u)"
    "SettleCompletedOrder i u = (Inr a, u1)" "markProfileOnline userID u1 = (Inr e1, u2)"
    "publishOrderState service co ''order.completed'' u2 = (Inr e2, t)"
    using assms(1,2) unfolding CompleteDriverTrip_def
    by (elim bind_Inr) (auto simp: Inr_simps elim!: bind_Inr)
  note step = CompleteOrderByUserID_Inr [OF r(1) assms(3)]
  have "db t = db u2" using r(4) by (rule keeps_db_eq) (intro keeps_intros)
  moreover have "db u2 = db u1" using r(3) by (rule keeps_db_eq) (intro keeps_intros)
  ultimately have t: "db t = db u1" by simp
  have bal: "books_balanced (db u)" using step(2) assms(4) by auto
  have orders: "orders (db t) = orders (db u)" unfolding t by (rule same_ordersD [OF same_orders_settlement r(2)])
  have drivers: "drivers (db t) = drivers (db u)"
    unfolding t by (rule SettleCompletedOrder_drivers [OF r(2)]) (use bal in \<open>simp add: books_balanced_def\<close>)
  have "i \<in> bk_settled (books_of (db t))" using SettleCompletedOrder_settles [OF r(2) bal] t by simp
  moreover have "books_balanced (db t)" using keepsD [OF keeps_SettleCompletedOrder bal, of i] r(2) t by simp
  moreover have "driver_moved userID i OrderStatusCompleted True (db s) (db t) r r'"
    if "driver_moved userID i OrderStatusCompleted True (db s) (db u) r r'" for r r'
    using that unfolding driver_moved_def drivers .
  ultimately show ?thesis using step(1) unfolding orders by (blast intro: replaced_mono)
qed

section \<open>Going on line\<close>

lemma update_driver_status_Inr:
  assumes "update_driver_status P status userID s = (Inr p, t)"
  obtains now dr u where "clock s \<le> now" "dr \<in> set (drivers (db s))" "drv_UserID dr = userID" "drv_DeletedAt dr = None"
    "P now (db s) dr" "p = profile_of dr u"
    "drv_ID dr \<in> drv_ID ` {q \<in> set (drivers (db t)). drv_Status q = status}" "clock t = now" "redis t = redis s"
proof -
  let ?Q = "\<lambda>now q. drv_UserID q = userID \<and> drv_DeletedAt q = None \<and> P now (db s) q"
  from assms obtain found u where
    run: "sql (\<lambda>now d.
        let Q = (\<lambda>dr. drv_UserID dr = userID \<and> drv_DeletedAt dr = None \<and> P now d dr)
        in (Inr (profiles d userID (\<lambda>dr _. Q dr)),
            snd (update_drivers Q (\<lambda>dr. dr\<lparr>drv_Status := status\<rparr>) now d))) s = (Inr found, u)"
    and one: "one_row found = Inr p" "t = u"
    unfolding update_driver_status_def by (rule bind_Inr) (auto simp: Inr_simps)
  from run obtain now where now: "clock s \<le> now" "clock u = now" "redis u = redis s"
    "profiles (db s) userID (\<lambda>dr _. ?Q now dr) = found"
    "snd (update_drivers (?Q now) (\<lambda>dr. dr\<lparr>drv_Status := status\<rparr>) now (db s)) = db u"
    by (rule sql_Inr) (auto simp: Let_def)
  have "p \<in> set (profiles (db s) userID (\<lambda>dr _. ?Q now dr))" using one_row_Inr [OF one(1)] now(4) by simp
  then obtain dr usr where dr: "dr \<in> set (drivers (db s))" "?Q now dr" "p = profile_of dr usr"
    by (auto simp: profiles_def split: if_splits)
  have drs: "drivers (db t) = sql_update (?Q now) (\<lambda>q. q\<lparr>drv_Status := status, drv_UpdatedAt := now\<rparr>) (drivers (db s))"
    unfolding one(2) now(5) [symmetric] by (simp add: update_drivers_def)
  have "dr\<lparr>drv_Status := status, drv_UpdatedAt := now\<rparr> \<in> set (drivers (db t))"
    unfolding drs using dr(1,2) by (force simp: sql_update_def)
  then have here: "drv_ID dr \<in> drv_ID ` {q \<in> set (drivers (db t)). drv_Status q = status}"
    by (intro image_eqI [where x = "dr\<lparr>drv_Status := status, drv_UpdatedAt := now\<rparr>"]) simp_all
  show thesis by (rule that [OF now(1) dr(1) _ _ _ dr(3) here]) (use dr(2) now(2,3) one(2) in simp_all)
qed

lemma keeps_presence_redis [keeps_intros]: "keeps (on_redis R) (publishPresenceChanged service p)"
  unfolding publishPresenceChanged_def SendDriverPresenceToTaxiPark_def taxiParkRealtimeRecipientUserIDs_def
  by (intro keeps_intros)

text \<open>
  C18: only a checked driver goes on line.  When the button of the application succeeds, the user account
  belongs to a driver who was off line, paused or on line already, verified, with a verified licence check,
  a member of an active park and with a usable car; he is on line now, and his presence key names his
  city until its time to live has passed.
\<close>

theorem MarkDriverOnline_checked:
  assumes "MarkDriverOnline service userID s = (Inr p, t)"
  shows "\<exists>now dr park. clock s \<le> now \<and> dr \<in> set (drivers (db s)) \<and> drv_UserID dr = userID \<and> drv_DeletedAt dr = None
     \<and> drv_Status dr \<notin> {DriverStatusBusy, DriverStatusBlocked}
     \<and> drv_IsVerified dr \<and> drv_VerificationStatus dr = ComplianceStatusVerified
     \<and> drv_TaxiParkID dr = Some park \<and> park_active (db s) park \<and> list_ex (usable_car now dr) (cars (db s))
     \<and> dpr_DriverID p = drv_ID dr \<and> dpr_Status p = DriverStatusOnline
     \<and> (\<exists>q \<in> set (drivers (db t)). drv_ID q = drv_ID dr \<and> drv_Status q = DriverStatusOnline)
     \<and> (\<exists>expires. rd_online (redis t) (drv_ID dr) = Some (drv_CityID dr, expires) \<and> clock s + presenceTTL \<le> expires)"
proof -
  obtain p0 u u1 e1 u2 e2 where r: "markOnline userID s = (Inr p0, u)" "p = p0\<lparr>dpr_Status := DriverStatusOnline\<rparr>"
    "PresenceMarkOnline (dpr_CityID p) (dpr_DriverID p) presenceTTL u = (Inr e1, u1)"
    "publishPresenceChanged service p u1 = (Inr e2, t)"
    using assms unfolding MarkDriverOnline_def SetStatusByUserID_def
    by (elim bind_Inr) (auto simp: Inr_simps Let_def elim!: bind_Inr)
  have "update_driver_status may_go_online DriverStatusOnline userID s = (Inr p0, u)"
    using r(1) unfolding markOnline_def
    by (elim catching_elim) (auto simp: Inr_simps split: sum.splits if_splits elim!: bind_Inr)
  then obtain now dr usr where d: "clock s \<le> now" "dr \<in> set (drivers (db s))" "drv_UserID dr = userID"
    "drv_DeletedAt dr = None" "may_go_online now (db s) dr" "p0 = profile_of dr usr"
    "drv_ID dr \<in> drv_ID ` {q \<in> set (drivers (db u)). drv_Status q = DriverStatusOnline}" "clock u = now"
    by (rule update_driver_status_Inr)
  have "db t = db u1" using r(4) by (rule keeps_db_eq) (intro keeps_intros)
  moreover have "db u1 = db u" using r(3) by (rule keeps_db_eq) (intro keeps_intros)
  ultimately have db: "db t = db u" by simp
  have redis: "redis t = redis u1" using r(4) by (rule keeps_redis_eq) (intro keeps_intros)
  obtain c where c: "now \<le> c" "rd_online (redis u1) (drv_ID dr) = Some (drv_CityID dr, c + presenceTTL)"
    using r(2,3) d(6,8) unfolding PresenceMarkOnline_def
    by (elim redis_cmd_Inr) (auto simp: profile_of_def dest!: sym [of _ "redis u1"])
  show ?thesis
    using d c r(2) db redis
    by (intro exI [of _ now] exI [of _ dr] exI [of _ "the (drv_TaxiParkID dr)"])
      (auto simp: may_go_online_def profile_of_def split: option.splits)
qed

section \<open>A driver at work\<close>

definition sample_app :: driver_app where
  "sample_app = \<lparr>dap_dispatchController = None, dap_has_realtimeGateway = False, dap_has_financeProcessor = True,
     dap_has_passengerNotifier = False, dap_st_distance = (\<lambda>_ _. 0)\<rparr>"

definition driver_world :: "order_row list \<Rightarrow> driver_status \<Rightarrow> world" where
  "driver_world rows status = world_at 5 ((sample_db sample_order)\<lparr>orders := rows,
     drivers := [sample_driver\<lparr>drv_Status := status\<rparr>], users := [sample_user 33 UserRoleDriver],
     passengers := [sample_passenger], park_settings := [sample_settings]\<rparr>)"

definition waiting_trip :: order_row where
  "waiting_trip = trip_order\<lparr>ord_Status := OrderStatusDriverWaiting\<rparr>"

lemma driver_world_runs:
  "succeeds (run_trip_call sample_app 33 1 CallStart) (driver_world [waiting_trip] DriverStatusBusy)"
  "succeeds (CompleteDriverTrip sample_app 33 1) (driver_world [trip_order] DriverStatusBusy)"
  "succeeds (MarkDriverOnline sample_app 33) (driver_world [] DriverStatusOffline)"
  by code_simp+

lemma driver_world_ok:
  "orders_consistent (orders (db (driver_world [waiting_trip] DriverStatusBusy)))"
  "orders_consistent (orders (db (driver_world [trip_order] DriverStatusBusy)))"
  "dap_has_financeProcessor sample_app"
  by code_simp+

lemma driver_world_balanced: "books_balanced (db (driver_world rows status))"
  using completed_world_balanced
  by (simp add: completed_world_def driver_world_def world_at_def sample_db_def books_balanced_def
      accounts_ok_def driver_account_def park_account_def)

theorem driver_moves_own_order_witness:
  "\<exists>co t r. run_trip_call sample_app 33 1 CallStart (driver_world [waiting_trip] DriverStatusBusy) = (Inr co, t)
     \<and> orders (db t) = [r] \<and> ord_Status r = OrderStatusInProgress"
proof -
  obtain co t where run: "run_trip_call sample_app 33 1 CallStart (driver_world [waiting_trip] DriverStatusBusy) = (Inr co, t)"
    using succeeds_run [OF driver_world_runs(1)] by blast
  from driver_moves_own_order [OF run driver_world_ok(1)] run show ?thesis
    by (auto simp: driver_world_def world_at_def replaced_def driver_moved_def Cons_eq_append_conv)
qed

theorem CompleteDriverTrip_settles_witness:
  "\<exists>co t. CompleteDriverTrip sample_app 33 1 (driver_world [trip_order] DriverStatusBusy) = (Inr co, t)
     \<and> 1 \<in> bk_settled (books_of (db t))"
proof -
  obtain co t where run: "CompleteDriverTrip sample_app 33 1 (driver_world [trip_order] DriverStatusBusy) = (Inr co, t)"
    using succeeds_run [OF driver_world_runs(2)] by blast
  from CompleteDriverTrip_settles [OF run driver_world_ok(3,2) driver_world_balanced] run show ?thesis by auto
qed

theorem MarkDriverOnline_checked_witness:
  "\<exists>p t. MarkDriverOnline sample_app 33 (driver_world [] DriverStatusOffline) = (Inr p, t)
     \<and> dpr_DriverID p = 3 \<and> dpr_Status p = DriverStatusOnline"
proof -
  obtain p t where run: "MarkDriverOnline sample_app 33 (driver_world [] DriverStatusOffline) = (Inr p, t)"
    using succeeds_run [OF driver_world_runs(3)] by blast
  from MarkDriverOnline_checked [OF run] run show ?thesis
    by (auto simp: driver_world_def world_at_def sample_driver_def)
qed

end
