(* ===== verification/Passenger_Orders.thy ===== *)
theory Passenger_Orders
  imports Passenger_Auth Driver_Trips
begin

text \<open>
  The orders of passengers: \<^verbatim>\<open>internal/passenger/order_service.go\<close> over
  \<^verbatim>\<open>internal/repository/passenger_order_repository.go\<close>.  A passenger asks for a price, gets a quote for two
  minutes and orders at the quoted terms; the price is the mean of what the parks with a free driver near
  the pickup would charge.  The answers carry the order; the class, driver and car that are joined to it
  for display are left out.
\<close>

section \<open>Requests and the service\<close>

text \<open>\<^verbatim>\<open>geodomain.NewCoordinates\<close>, which, unlike that of the domain, refuses what is no number.\<close>

definition ErrInvalidGeoCoordinates :: sentinel where
  "ErrInvalidGeoCoordinates = Msg ''invalid geocoder coordinates''"

definition new_geo_coordinates :: "coordinates \<Rightarrow> error + coordinates" where
  "new_geo_coordinates c =
     (case (Latitude c, Longitude c) of
        (Fin lat, Fin lon) \<Rightarrow>
          if lat < -90 \<or> 90 < lat \<or> lon < -180 \<or> 180 < lon then Inl [ErrInvalidGeoCoordinates] else Inr c
      | _ \<Rightarrow> Inl [ErrInvalidGeoCoordinates])"

record estimate_request =
  erq_FareMode :: fare_mode
  erq_CarClassID :: "uuid option"
  erq_TariffID :: uuid
  erq_PickupLocation :: coordinates
  erq_DestinationLocation :: coordinates

record passenger_order_request = estimate_request +
  prq_QuoteID :: "uuid option"
  prq_PickupAddress :: string
  prq_PickupEntrance :: string
  prq_PickupComment :: string
  prq_DestinationAddress :: string
  prq_PaymentType :: payment_method
  prq_Comment :: string
  prq_PassengerLocationSharingEnabled :: bool

text \<open>
  The resolver of cities and the router are programs outside the repository: functions that may fail; the
  route of a failed answer is the empty one.  \<open>pos_st_distance\<close> stands for \<^verbatim>\<open>ST_Distance\<close> and
  \<open>pos_exclusion\<close> for the text \<^verbatim>\<open>fmt.Sprintf("tariff %s: %v", ..)\<close> of an excluded tariff.
\<close>

record passenger_orders =
  pos_dispatchQueue :: "dispatch_service option"
  pos_cityResolver :: "(coordinates \<Rightarrow> error + uuid option) option"
  pos_routingService :: routing
  pos_st_distance :: "coordinates \<Rightarrow> coordinates \<Rightarrow> rat"
  pos_exclusion :: "uuid \<Rightarrow> error option \<Rightarrow> string"

definition ErrRoutingUnavailable :: sentinel where
  "ErrRoutingUnavailable = Msg ''routing service unavailable''"
definition ErrRouteNotFound :: sentinel where
  "ErrRouteNotFound = Msg ''road route not found''"
definition ErrInvalidRoutingResponse :: sentinel where
  "ErrInvalidRoutingResponse = Msg ''invalid routing service response''"

definition no_route :: routing where
  "no_route now p q = Inl [ErrRoutingUnavailable]"

definition NewOrderService ::
  "dispatch_service option \<Rightarrow> (coordinates \<Rightarrow> error + uuid option) option \<Rightarrow> routing option \<Rightarrow>
   (coordinates \<Rightarrow> coordinates \<Rightarrow> rat) \<Rightarrow> (uuid \<Rightarrow> error option \<Rightarrow> string) \<Rightarrow> passenger_orders" where
  "NewOrderService dispatch resolver router st_distance exclusion =
     \<lparr>pos_dispatchQueue = dispatch, pos_cityResolver = resolver,
      pos_routingService = (case router of None \<Rightarrow> no_route | Some r \<Rightarrow> r),
      pos_st_distance = st_distance, pos_exclusion = exclusion\<rparr>"

section \<open>Statements\<close>

definition SavePriceQuote :: "price_quote \<Rightarrow> (world, unit) op" where
  "SavePriceQuote q =
     sql (\<lambda>_ d. if pqt_ID q \<in> pqt_ID ` set (price_quotes d) then (Inl [Infra ErrUniqueViolation], d)
       else (Inr (), d\<lparr>price_quotes := price_quotes d @ [q]\<rparr>))"

definition GetPriceQuote :: "uuid \<Rightarrow> uuid \<Rightarrow> (world, price_quote) op" where
  "GetPriceQuote quoteID passengerID =
     query (\<lambda>_ d. one_row (filter (\<lambda>q. pqt_ID q = quoteID \<and> pqt_PassengerID q = passengerID) (price_quotes d)))"

definition live_class :: "car_class_row \<Rightarrow> bool" where
  "live_class c \<longleftrightarrow> ccl_IsActive c \<and> ccl_DeletedAt c = None"

definition ListActiveCarClasses :: "(world, car_class_row list) op" where
  "ListActiveCarClasses =
     query (\<lambda>_ d. Inr (sort_key ccl_SortOrder (sort_key ccl_CreatedAt (filter live_class (car_classes d)))))"

definition GetActiveCarClassByID :: "uuid \<Rightarrow> (world, car_class_row) op" where
  "GetActiveCarClassByID i =
     query (\<lambda>_ d. one_row (filter (\<lambda>c. ccl_ID c = i \<and> live_class c) (car_classes d)))"

text \<open>A free driver of the city near the pickup with a car of at least the class.\<close>

definition near_driver ::
  "(coordinates \<Rightarrow> coordinates \<Rightarrow> rat) \<Rightarrow> time \<Rightarrow> db \<Rightarrow> coordinates \<Rightarrow> uuid \<Rightarrow> uuid \<Rightarrow> int \<Rightarrow> duration \<Rightarrow> driver \<Rightarrow> bool" where
  "near_driver st_distance now d pickup cityID classID radius maxAge dr \<longleftrightarrow>
     drv_CityID dr = cityID \<and> driver_on_line dr \<and> drv_TaxiParkID dr \<noteq> None
     \<and> \<not> driver_serving d (drv_ID dr)
     \<and> (case drv_TaxiParkID dr of None \<Rightarrow> False | Some p \<Rightarrow> park_active d p)
     \<and> list_ex (\<lambda>c. usable_car now dr c \<and> class_serves True d (Some classID) c) (cars d)
     \<and> list_ex (\<lambda>l. loc_DriverID l = drv_ID dr \<and> now - maxAge \<le> loc_UpdatedAt l
          \<and> st_distance (loc_Location l) pickup \<le> of_int radius) (driver_locations d)"

definition HasNearbyAvailableDrivers ::
  "(coordinates \<Rightarrow> coordinates \<Rightarrow> rat) \<Rightarrow> coordinates \<Rightarrow> uuid \<Rightarrow> uuid \<Rightarrow> int \<Rightarrow> duration \<Rightarrow> (world, bool) op" where
  "HasNearbyAvailableDrivers st_distance pickup cityID classID radius maxAge =
     query (\<lambda>now d. Inr (list_ex (near_driver st_distance now d pickup cityID classID radius maxAge) (drivers d)))"

definition eligible_parks ::
  "(coordinates \<Rightarrow> coordinates \<Rightarrow> rat) \<Rightarrow> time \<Rightarrow> db \<Rightarrow> coordinates \<Rightarrow> uuid \<Rightarrow> uuid \<Rightarrow> int \<Rightarrow> duration \<Rightarrow> uuid list" where
  "eligible_parks st_distance now d pickup cityID classID radius maxAge =
     sort (remdups (List.map_filter drv_TaxiParkID
       (filter (near_driver st_distance now d pickup cityID classID radius maxAge) (drivers d))))"

text \<open>\<^verbatim>\<open>DISTINCT ON (t.taxi_park_id) .. ORDER BY t.priority DESC, t.id DESC\<close>.\<close>

definition park_tariff :: "db \<Rightarrow> uuid \<Rightarrow> fare_mode \<Rightarrow> uuid \<Rightarrow> tariff option" where
  "park_tariff d classID fareMode parkID =
     best_by (\<lambda>a b. trf_Priority a > trf_Priority b \<or> (trf_Priority a = trf_Priority b \<and> trf_ID a > trf_ID b))
       (filter (\<lambda>t. trf_TaxiParkID t = parkID \<and> trf_CarClassID t = Some classID \<and> trf_FareMode t = fareMode
          \<and> trf_IsActive t) (tariffs d))"

definition available_tariffs ::
  "(coordinates \<Rightarrow> coordinates \<Rightarrow> rat) \<Rightarrow> time \<Rightarrow> db \<Rightarrow> coordinates \<Rightarrow> uuid \<Rightarrow> uuid \<Rightarrow> fare_mode \<Rightarrow> int \<Rightarrow> duration \<Rightarrow>
   tariff list" where
  "available_tariffs st_distance now d pickup cityID classID fareMode radius maxAge =
     map in_roubles_tariff (List.map_filter (park_tariff d classID fareMode)
       (eligible_parks st_distance now d pickup cityID classID radius maxAge))"

definition ListAvailableTaxiParkTariffs ::
  "(coordinates \<Rightarrow> coordinates \<Rightarrow> rat) \<Rightarrow> coordinates \<Rightarrow> uuid \<Rightarrow> uuid \<Rightarrow> fare_mode \<Rightarrow> int \<Rightarrow> duration \<Rightarrow>
   (world, tariff list) op" where
  "ListAvailableTaxiParkTariffs st_distance pickup cityID classID fareMode radius maxAge =
     query (\<lambda>now d. Inr (available_tariffs st_distance now d pickup cityID classID fareMode radius maxAge))"

section \<open>The price of a trip\<close>

text \<open>What the loop over the tariffs has gathered.\<close>

record fare_sum =
  fsm_total :: int
  fsm_minimum :: int
  fsm_maximum :: int
  fsm_valid :: "(tariff \<times> int) list"
  fsm_excluded :: "string list"

definition no_fares :: fare_sum where
  "no_fares = \<lparr>fsm_total = 0, fsm_minimum = 0, fsm_maximum = 0, fsm_valid = [], fsm_excluded = []\<rparr>"

definition add_fare :: "tariff \<Rightarrow> int \<Rightarrow> fare_sum \<Rightarrow> fare_sum" where
  "add_fare t price f =
     f\<lparr>fsm_minimum := (if fsm_valid f = [] \<or> price < fsm_minimum f then price else fsm_minimum f),
       fsm_maximum := (if fsm_valid f = [] \<or> fsm_maximum f < price then price else fsm_maximum f),
       fsm_total := fsm_total f + price, fsm_valid := fsm_valid f @ [(t, price)]\<rparr>"

fun sum_fares ::
  "(uuid \<Rightarrow> error option \<Rightarrow> string) \<Rightarrow> int \<Rightarrow> int \<Rightarrow> tariff list \<Rightarrow> fare_sum \<Rightarrow> error + fare_sum" where
  "sum_fares exclusion metres duration_s [] f = Inr f"
| "sum_fares exclusion metres duration_s (t # ts) f =
     (if trf_TaxiParkID t \<in> (trf_TaxiParkID \<circ> fst) ` set (fsm_valid f) then sum_fares exclusion metres duration_s ts f
      else case CalculateTripPrice t metres duration_s of
        Inl e \<Rightarrow> sum_fares exclusion metres duration_s ts
          (f\<lparr>fsm_excluded := fsm_excluded f @ [exclusion (trf_ID t) (Some e)]\<rparr>)
      | Inr price \<Rightarrow>
          if price \<le> 0 then sum_fares exclusion metres duration_s ts
            (f\<lparr>fsm_excluded := fsm_excluded f @ [exclusion (trf_ID t) None]\<rparr>)
          else if int64_max - price < fsm_total f
            then Inl [Msg ''sum available taxi park tariffs: overflow'']
          else sum_fares exclusion metres duration_s ts (add_fare t price f))"

definition average_price :: "fare_sum \<Rightarrow> int" where
  "average_price f =
     (let n = int (length (fsm_valid f))
      in fsm_total f div n + (fsm_total f mod n + n div 2) div n)"

record passenger_estimate =
  pes_PriceAmount :: "int option"
  pes_Pricing :: order_pricing_snapshot

definition unavailableTaxiParkEstimate ::
  "route option \<Rightarrow> string \<Rightarrow> fare_mode \<Rightarrow> string list \<Rightarrow> time \<Rightarrow> passenger_estimate" where
  "unavailableTaxiParkEstimate found reason fareMode excluded now =
     \<lparr>pes_PriceAmount = None, pes_Pricing = (unavailable_snapshot now)
       \<lparr>ops_PricingMode := PricingModeUnknown, ops_FareMode := fareMode, ops_Message := ''Price is unavailable'',
        ops_UnavailableReason := reason,
        ops_RouteSource := (case found of None \<Rightarrow> [] | Some r \<Rightarrow> rte_Source r),
        ops_RouteDistanceMeters := (case found of None \<Rightarrow> None
          | Some r \<Rightarrow> if 0 < rte_DistanceMeters r then Some (rte_DistanceMeters r) else None),
        ops_RouteDurationSeconds := (case found of None \<Rightarrow> None
          | Some r \<Rightarrow> if 0 < rte_DurationSeconds r then Some (rte_DurationSeconds r) else None),
        ops_ExcludedTariffReasons := excluded\<rparr>\<rparr>"

definition routingUnavailableReason :: "error \<Rightarrow> string" where
  "routingUnavailableReason e =
     (if errors_Is e ErrRouteNotFound then ''route_not_found''
      else if errors_Is e ErrInvalidRoutingResponse then ''routing_invalid_response''
      else ''routing_unavailable'')"

definition averaged_snapshot :: "fare_mode \<Rightarrow> int \<Rightarrow> route \<Rightarrow> fare_sum \<Rightarrow> order_pricing_snapshot" where
  "averaged_snapshot fareMode radius r f =
     \<lparr>ops_EstimatedPrice = Some (roubles (average_price f)), ops_EstimatedPriceMin = Some (roubles (fsm_minimum f)),
      ops_EstimatedPriceMax = Some (roubles (fsm_maximum f)),
      ops_EstimatedPriceSource = EstimatedPriceSourceAverageParks, ops_PricingMode = PricingModeUnknown,
      ops_FareMode = fareMode, ops_PriceAvailable = True, ops_IsFinal = False, ops_Message = [],
      ops_UnavailableReason = [], ops_SearchRadiusMeters = Some radius,
      ops_RouteDistanceMeters = Some (rte_DistanceMeters r), ops_RouteDurationSeconds = Some (rte_DurationSeconds r),
      ops_RouteSource = rte_Source r, ops_RouteDataVersion = rte_DataVersion r,
      ops_TariffRates = map2 (\<lambda>s (t, price). s\<lparr>trs_ProjectedPrice := Some (roubles price)\<rparr>)
        (SnapshotTariffRates (map fst (fsm_valid f))) (fsm_valid f),
      ops_RoundingRule = ''distance_nearest_kopeck;time_started_minute;average_nearest_kopeck'',
      ops_TaxiParkCount = int (length (fsm_valid f)), ops_ExcludedTariffReasons = fsm_excluded f,
      ops_CalculatedAt = rte_CalculatedAt r\<rparr>"

definition estimateRadiusMeters :: int where "estimateRadiusMeters = 10000"
definition estimateLocationMaxAge :: duration where "estimateLocationMaxAge = seconds 30"

definition buildTaxiParkEstimate ::
  "passenger_orders \<Rightarrow> uuid \<Rightarrow> uuid \<Rightarrow> coordinates \<Rightarrow> coordinates \<Rightarrow> fare_mode \<Rightarrow> (world, passenger_estimate) op" where
  "buildTaxiParkEstimate service classID cityID pickup destination fareMode =
     (if fareMode \<noteq> FareModeFixedQuote \<and> fareMode \<noteq> FareModeMetered then fail [Msg ''invalid fare mode'']
      else catching (Route (pos_routingService service) pickup destination) (\<lambda>answer. case answer of
        Inl e \<Rightarrow> bind time_Now (\<lambda>now.
          ret (unavailableTaxiParkEstimate None (routingUnavailableReason e) fareMode [] now))
      | Inr r \<Rightarrow>
          bind (ListAvailableTaxiParkTariffs (pos_st_distance service) pickup cityID classID fareMode
            estimateRadiusMeters estimateLocationMaxAge) (\<lambda>tariffs.
          if tariffs = []
          then bind (HasNearbyAvailableDrivers (pos_st_distance service) pickup cityID classID estimateRadiusMeters
              estimateLocationMaxAge) (\<lambda>available.
            bind time_Now (\<lambda>now. ret (unavailableTaxiParkEstimate (Some r)
              (if available then ''no_available_park_tariffs'' else ''no_available_drivers'') fareMode [] now)))
          else bind (lift (sum_fares (pos_exclusion service) (rte_DistanceMeters r) (rte_DurationSeconds r)
              tariffs no_fares)) (\<lambda>f.
            if fsm_valid f = []
            then bind time_Now (\<lambda>now. ret (unavailableTaxiParkEstimate (Some r) ''no_valid_park_tariffs'' fareMode
              (fsm_excluded f) now))
            else ret \<lparr>pes_PriceAmount = Some (average_price f),
                      pes_Pricing = averaged_snapshot fareMode estimateRadiusMeters r f\<rparr>))))"

section \<open>Estimates and quotes\<close>

definition fare_mode_asked :: "fare_mode \<Rightarrow> fare_mode" where
  "fare_mode_asked mode = (if mode = FareModeOther [] then FareModeMetered else mode)"

definition ensureActivePassenger :: "uuid \<Rightarrow> (world, passenger) op" where
  "ensureActivePassenger passengerID =
     bind (GetPassengerByID passengerID) (\<lambda>p.
     if psg_IsActive p then ret p else fail [Service ErrPassengerInactive])"

definition resolveRequestedCarClassID :: "uuid option \<Rightarrow> uuid \<Rightarrow> error + uuid" where
  "resolveRequestedCarClassID requested fallbackTariffID =
     (case requested of
        Some i \<Rightarrow> Inr i
      | None \<Rightarrow> if fallbackTariffID \<noteq> uuid_Nil then Inr fallbackTariffID
                else Inl [Service ErrPassengerCarClassRequired])"

definition resolveCityID :: "passenger_orders \<Rightarrow> coordinates \<Rightarrow> (world, uuid) op" where
  "resolveCityID service pickup =
     (case pos_cityResolver service of
        None \<Rightarrow> fail [Msg ''city resolver is not configured'']
      | Some resolver \<Rightarrow>
          bind (external (\<lambda>s. (resolver pickup, s))) (\<lambda>found.
          case found of None \<Rightarrow> fail [Msg ''city not found''] | Some i \<Rightarrow> ret i))"

text \<open>What the two requests share: the passenger, the class, the two points and the city.\<close>

definition requested_trip ::
  "passenger_orders \<Rightarrow> uuid \<Rightarrow> 'x estimate_request_scheme \<Rightarrow> (world, car_class_row \<times> coordinates \<times> coordinates \<times> uuid) op" where
  "requested_trip service passengerID request =
     andthen (bind (ensureActivePassenger passengerID) (\<lambda>_. done_op))
     (bind (lift (resolveRequestedCarClassID (erq_CarClassID request) (erq_TariffID request))) (\<lambda>classID.
      bind (no_rows_is (Service ErrPassengerCarClassNotFound) (GetActiveCarClassByID classID)) (\<lambda>carClass.
      bind (lift (new_geo_coordinates (erq_PickupLocation request))) (\<lambda>pickup.
      bind (lift (new_geo_coordinates (erq_DestinationLocation request))) (\<lambda>destination.
      bind (resolveCityID service pickup) (\<lambda>cityID.
        ret (carClass, pickup, destination, cityID)))))))"

record order_estimate =
  est_FareMode :: fare_mode
  est_CarClassID :: uuid
  est_PriceCents :: "int option"
  est_QuoteID :: "uuid option"
  est_ExpiresAt :: "time option"
  est_Pricing :: order_pricing_snapshot

definition quoted_estimate ::
  "uuid \<Rightarrow> uuid \<Rightarrow> uuid \<Rightarrow> fare_mode \<Rightarrow> coordinates \<Rightarrow> coordinates \<Rightarrow> passenger_estimate \<Rightarrow> (world, order_estimate) op" where
  "quoted_estimate passengerID cityID classID fareMode pickup destination estimate =
     (let plain = \<lparr>est_FareMode = fareMode, est_CarClassID = classID, est_PriceCents = pes_PriceAmount estimate,
            est_QuoteID = None, est_ExpiresAt = None, est_Pricing = pes_Pricing estimate\<rparr>
      in case pes_PriceAmount estimate of
           None \<Rightarrow> ret plain
         | Some _ \<Rightarrow>
             bind uuid_New (\<lambda>quoteID.
             bind time_Now (\<lambda>now.
             andthen (SavePriceQuote \<lparr>pqt_ID = quoteID, pqt_PassengerID = passengerID, pqt_CityID = cityID,
                pqt_CarClassID = classID, pqt_FareMode = fareMode, pqt_Pickup = pickup,
                pqt_Destination = destination, pqt_Pricing = pes_Pricing estimate,
                pqt_ExpiresAt = now + minutes 2, pqt_ConsumedOrderID = None\<rparr>)
               (ret (plain\<lparr>est_QuoteID := Some quoteID, est_ExpiresAt := Some (now + minutes 2)\<rparr>)))))"

definition EstimatePassengerOrder ::
  "passenger_orders \<Rightarrow> uuid \<Rightarrow> estimate_request \<Rightarrow> (world, order_estimate) op" where
  "EstimatePassengerOrder service passengerID request =
     (let fareMode = fare_mode_asked (erq_FareMode request)
      in bind (requested_trip service passengerID request) (\<lambda>(carClass, pickup, destination, cityID).
         bind (buildTaxiParkEstimate service (ccl_ID carClass) cityID pickup destination fareMode) (\<lambda>estimate.
           quoted_estimate passengerID cityID (ccl_ID carClass) fareMode pickup destination estimate)))"

definition ListPassengerCarClasses :: "uuid \<Rightarrow> (world, car_class_row list) op" where
  "ListPassengerCarClasses passengerID = bind (ensureActivePassenger passengerID) (\<lambda>_. ListActiveCarClasses)"

definition sameQuotedTerms :: "order_pricing_snapshot \<Rightarrow> order_pricing_snapshot \<Rightarrow> bool" where
  "sameQuotedTerms quoted current \<longleftrightarrow>
     ops_PriceAvailable quoted \<and> ops_PriceAvailable current
     \<and> ops_EstimatedPrice quoted = ops_EstimatedPrice current
     \<and> ops_EstimatedPriceMin quoted = ops_EstimatedPriceMin current
     \<and> ops_EstimatedPriceMax quoted = ops_EstimatedPriceMax current
     \<and> ops_RouteDistanceMeters quoted = ops_RouteDistanceMeters current
     \<and> ops_RouteDurationSeconds quoted = ops_RouteDurationSeconds current
     \<and> ops_RouteSource quoted = ops_RouteSource current \<and> ops_RouteDataVersion quoted = ops_RouteDataVersion current
     \<and> ops_TariffRates quoted = ops_TariffRates current"

section \<open>Orders\<close>

record passenger_order_record =
  cpr_QuoteID :: uuid
  cpr_FareMode :: fare_mode
  cpr_PassengerID :: uuid
  cpr_CityID :: uuid
  cpr_CarClassID :: uuid
  cpr_PickupAddress :: string
  cpr_PickupEntrance :: string
  cpr_PickupComment :: string
  cpr_PickupLocation :: coordinates
  cpr_DestinationAddress :: string
  cpr_DestinationLocation :: coordinates
  cpr_EstimatedPrice :: "money option"
  cpr_PricingSnapshot :: "order_pricing_snapshot option"
  cpr_PaymentMethod :: payment_method
  cpr_PassengerComment :: string
  cpr_PassengerLocationSharingEnabled :: bool

text \<open>The row of the \<^verbatim>\<open>INSERT\<close>: the columns it names, the defaults of the others.\<close>

definition passenger_order_row :: "uuid \<Rightarrow> time \<Rightarrow> passenger_order_record \<Rightarrow> order_row" where
  "passenger_order_row newID now record =
     \<lparr>ord_ID = newID, ord_PassengerID = cpr_PassengerID record, ord_CreatedByRole = UserRolePassenger,
      ord_DriverID = None, ord_Driver = None, ord_Passenger = None, ord_CarID = None,
      ord_ParkID = None, ord_PreassignedDriverID = None, ord_CityID = cpr_CityID record,
      ord_TariffID = None, ord_AssignedTariffID = None,
      ord_CarClassID = Some (cpr_CarClassID record), ord_Status = OrderStatusSearching,
      ord_OrderType = OrderTypeInstant, ord_ScheduledStatus = None,
      ord_PickupAddress = cpr_PickupAddress record, ord_PickupEntrance = cpr_PickupEntrance record,
      ord_PickupComment = cpr_PickupComment record, ord_PickupLocation = cpr_PickupLocation record,
      ord_DestinationAddress = cpr_DestinationAddress record,
      ord_DestinationLocation = Some (cpr_DestinationLocation record), ord_ScheduledAt = None,
      ord_ActivationAt = None, ord_ScheduledTimezone = [], ord_RequestedAt = now,
      ord_AcceptedAt = None, ord_StartedAt = None, ord_CompletedAt = None, ord_CancelledAt = None,
      ord_ActivatedAt = None, ord_ScheduledCancelledAt = None, ord_ScheduledExpiredAt = None,
      ord_CancellationReason = [], ord_ScheduledCancelReason = [],
      ord_EstimatedPrice = map_option (\<lambda>m. roubles (Amount m)) (cpr_EstimatedPrice record),
      ord_FinalPrice = None, ord_FareMode = cpr_FareMode record, ord_PriceConfirmationState = [],
      ord_ProposedPriceCents = None, ord_AgreedPriceCents = None,
      ord_PriceConfirmationExpiresAt = None, ord_DeclinedDriverIDs = [],
      ord_ActualDistanceMeters = None, ord_ActualDurationSeconds = None,
      ord_PaymentMethod = cpr_PaymentMethod record, ord_PassengerComment = cpr_PassengerComment record,
      ord_PassengerLocationSharingEnabled = cpr_PassengerLocationSharingEnabled record, ord_DispatchAttempt = 0,
      ord_ScheduledCreatedBy = None, ord_Version = 1, ord_CreatedAt = now, ord_UpdatedAt = now,
      ord_DeletedAt = None, meta_taxi_park_id = None,
      meta_route_distance_meters = Option.bind (cpr_PricingSnapshot record) ops_RouteDistanceMeters,
      meta_route_duration_seconds = Option.bind (cpr_PricingSnapshot record) ops_RouteDurationSeconds,
      meta_assigned_tariff = None\<rparr>"

definition passenger_created_events :: "uuid \<Rightarrow> time \<Rightarrow> order_event list" where
  "passenger_created_events orderID now =
     [\<lparr>oev_OrderID = orderID, oev_ActorUserID = None, oev_ActorDriverID = None,
       oev_EventType = OrderEventCreated,
       oev_Payload = [(''order_id'', PUuid orderID), (''status'', PStr ''created'')], oev_CreatedAt = now\<rparr>,
      \<lparr>oev_OrderID = orderID, oev_ActorUserID = None, oev_ActorDriverID = None,
       oev_EventType = OrderEventSearching,
       oev_Payload = [(''order_id'', PUuid orderID), (''status'', PStr ''searching''), (''version'', PInt 1)],
       oev_CreatedAt = now\<rparr>]"

text \<open>The columns of \<^verbatim>\<open>passengerOrderSelectQuery\<close>; the other fields of the order keep the zero value.\<close>

definition passenger_view :: "order_row \<Rightarrow> order" where
  "passenger_view r =
     (order.truncate r)\<lparr>ord_CreatedByRole := UserRoleOther [], ord_Driver := None, ord_Passenger := None,
        ord_PreassignedDriverID := None, ord_ScheduledStatus := None, ord_ScheduledAt := None,
        ord_ActivationAt := None, ord_ScheduledTimezone := [], ord_ActivatedAt := None,
        ord_ScheduledCancelledAt := None, ord_ScheduledExpiredAt := None, ord_ScheduledCancelReason := [],
        ord_EstimatedPrice := map_option in_roubles (ord_EstimatedPrice r),
        ord_FinalPrice := map_option in_roubles (ord_FinalPrice r), ord_DeclinedDriverIDs := [],
        ord_ActualDistanceMeters := None, ord_ActualDurationSeconds := None, ord_ScheduledCreatedBy := None,
        ord_DeletedAt := None\<rparr>"

definition orders_of_passenger :: "uuid \<Rightarrow> db \<Rightarrow> order_row list" where
  "orders_of_passenger passengerID d =
     filter (\<lambda>r. ord_PassengerID r = passengerID \<and> ord_DeletedAt r = None) (orders d)"

definition open_statuses :: "order_status set" where
  "open_statuses = {OrderStatusCreated, OrderStatusSearching, OrderStatusDriverAssigned, OrderStatusDriverArriving,
     OrderStatusDriverWaiting, OrderStatusInProgress}"

text \<open>The nil identifier asks for the current order.\<close>

definition getPassengerOrderByID :: "uuid \<Rightarrow> uuid \<Rightarrow> (world, order) op" where
  "getPassengerOrderByID passengerID orderID =
     query (\<lambda>_ d. one_row (map passenger_view
       (if orderID = uuid_Nil
        then sort_key (\<lambda>r. - ord_CreatedAt r) (filter (\<lambda>r. ord_Status r \<in> open_statuses)
               (orders_of_passenger passengerID d))
        else filter (\<lambda>r. ord_ID r = orderID) (orders_of_passenger passengerID d))))"

definition ListPassengerOrderHistory_repository :: "uuid \<Rightarrow> int \<Rightarrow> (world, order list) op" where
  "ListPassengerOrderHistory_repository passengerID limit =
     (let limit = (if limit \<le> 0 \<or> 100 < limit then 50 else limit)
      in query (\<lambda>_ d. Inr (map passenger_view (take (nat limit) (sort_key (\<lambda>r. - closed_at r)
           (filter (\<lambda>r. ord_Status r \<in> {OrderStatusCompleted, OrderStatusCancelled, OrderStatusFailed})
             (orders_of_passenger passengerID d)))))))"

definition quote_open :: "time \<Rightarrow> uuid \<Rightarrow> uuid \<Rightarrow> price_quote \<Rightarrow> bool" where
  "quote_open now quoteID passengerID q \<longleftrightarrow>
     pqt_ID q = quoteID \<and> pqt_PassengerID q = passengerID \<and> pqt_ConsumedOrderID q = None \<and> now < pqt_ExpiresAt q"

definition consume_quote :: "time \<Rightarrow> uuid \<Rightarrow> uuid \<Rightarrow> uuid \<Rightarrow> (world, unit) op" where
  "consume_quote now quoteID passengerID orderID =
     bind (sql (\<lambda>_ d. (Inr (rows_affected (quote_open now quoteID passengerID) (price_quotes d)),
        d\<lparr>price_quotes := sql_update (quote_open now quoteID passengerID)
             (\<lambda>q. q\<lparr>pqt_ConsumedOrderID := Some orderID\<rparr>) (price_quotes d)\<rparr>)))
     (\<lambda>n. if n \<noteq> 1 then fail [Service ErrPriceQuoteStale] else done_op)"

text \<open>A second open order of the passenger violates a unique index, and is reported as \<^verbatim>\<open>ErrNoRows\<close>.\<close>

definition CreatePassengerOrder_repository :: "passenger_order_record \<Rightarrow> (world, order) op" where
  "CreatePassengerOrder_repository record = db_transaction
     (bind time_Now (\<lambda>started.
      bind uuid_New (\<lambda>newID.
      bind (catching (sql (\<lambda>_. insert_order (passenger_order_row newID started record))) (\<lambda>r. case r of
          Inl e \<Rightarrow> if errors_Is e (Infra ErrUniqueViolation) then fail [Infra ErrNoRows] else fail e
        | Inr row \<Rightarrow> ret row)) (\<lambda>_.
      andthen (consume_quote started (cpr_QuoteID record) (cpr_PassengerID record) newID)
      (andthen (sql (\<lambda>_. append_events (passenger_created_events newID started)))
      (bind (getPassengerOrderByID (cpr_PassengerID record) newID) (\<lambda>o1. ret (True, o1))))))))"

definition passenger_cancellable :: "uuid \<Rightarrow> uuid \<Rightarrow> order_row \<Rightarrow> bool" where
  "passenger_cancellable passengerID orderID r \<longleftrightarrow>
     ord_ID r = orderID \<and> ord_PassengerID r = passengerID
     \<and> ord_Status r \<in> {OrderStatusSearching, OrderStatusDriverAssigned, OrderStatusDriverArriving,
         OrderStatusDriverWaiting}
     \<and> ord_DeletedAt r = None"

definition passenger_cancelled_row :: "string \<Rightarrow> time \<Rightarrow> order_row \<Rightarrow> order_row" where
  "passenger_cancelled_row reason cancelledAt r =
     r\<lparr>ord_Status := OrderStatusCancelled, ord_CancelledAt := Some cancelledAt, ord_CancellationReason := reason,
       ord_Version := ord_Version r + 1\<rparr>"

definition passenger_cancelled_event :: "uuid \<Rightarrow> string \<Rightarrow> time \<Rightarrow> order_event" where
  "passenger_cancelled_event orderID reason cancelledAt =
     \<lparr>oev_OrderID = orderID, oev_ActorUserID = None, oev_ActorDriverID = None,
      oev_EventType = OrderEventCancelled,
      oev_Payload = [(''order_id'', PUuid orderID), (''status'', PStr ''cancelled''),
        (''cancelled_by'', PStr ''passenger''), (''cancellation_reason'', PStr reason),
        (''occurred_at'', PTime cancelledAt)],
      oev_CreatedAt = cancelledAt\<rparr>"

text \<open>The driver of the order, \<^verbatim>\<open>SELECT driver_id FROM orders WHERE id = $1\<close>, is free if he was busy.\<close>

definition release_order_driver :: "time \<Rightarrow> uuid \<Rightarrow> (world, unit) op" where
  "release_order_driver now orderID =
     bind (sql (\<lambda>_ d. update_drivers (\<lambda>dr. list_ex (\<lambda>r. ord_ID r = orderID \<and> ord_DriverID r = Some (drv_ID dr)) (orders d)
         \<and> drv_Status dr = DriverStatusBusy \<and> drv_DeletedAt dr = None)
       (\<lambda>dr. dr\<lparr>drv_Status := DriverStatusOnline\<rparr>) now d)) (\<lambda>_. done_op)"

definition CancelPassengerOrder_repository :: "uuid \<Rightarrow> uuid \<Rightarrow> string \<Rightarrow> time \<Rightarrow> (world, order) op" where
  "CancelPassengerOrder_repository passengerID orderID reason cancelledAt = db_transaction
     (bind time_Now (\<lambda>started.
      bind (sql (\<lambda>_. update_orders_returning (passenger_cancellable passengerID orderID)
          (passenger_cancelled_row (TrimSpace reason) cancelledAt) started)) (\<lambda>rows.
      bind (lift (one_row rows)) (\<lambda>row.
      andthen (release_order_driver started (ord_ID row))
      (andthen (sql (\<lambda>_. append_events [passenger_cancelled_event (ord_ID row) (TrimSpace reason) cancelledAt]))
      (bind (getPassengerOrderByID passengerID (ord_ID row)) (\<lambda>o1. ret (True, o1))))))))"

section \<open>The operations of the passenger\<close>

text \<open>\<open>PriceQuoteChangedError\<close>, which carries the new estimate, is an answer of its own.\<close>

datatype created_or_changed = OrderCreated order | QuoteChanged order_estimate

definition quote_stale ::
  "time \<Rightarrow> price_quote \<Rightarrow> uuid \<Rightarrow> uuid \<Rightarrow> fare_mode \<Rightarrow> coordinates \<Rightarrow> coordinates \<Rightarrow> bool" where
  "quote_stale now q cityID classID fareMode pickup destination \<longleftrightarrow>
     pqt_ConsumedOrderID q \<noteq> None \<or> \<not> now < pqt_ExpiresAt q \<or> pqt_CityID q \<noteq> cityID
     \<or> pqt_CarClassID q \<noteq> classID \<or> pqt_FareMode q \<noteq> fareMode \<or> pqt_Pickup q \<noteq> pickup
     \<or> pqt_Destination q \<noteq> destination"

definition order_record_of ::
  "price_quote \<Rightarrow> uuid \<Rightarrow> uuid \<Rightarrow> uuid \<Rightarrow> fare_mode \<Rightarrow> coordinates \<Rightarrow> coordinates \<Rightarrow> passenger_order_request \<Rightarrow>
   passenger_order_record" where
  "order_record_of q passengerID cityID classID fareMode pickup destination request =
     \<lparr>cpr_QuoteID = pqt_ID q, cpr_FareMode = fareMode, cpr_PassengerID = passengerID, cpr_CityID = cityID,
      cpr_CarClassID = classID, cpr_PickupAddress = TrimSpace (prq_PickupAddress request),
      cpr_PickupEntrance = TrimSpace (prq_PickupEntrance request),
      cpr_PickupComment = TrimSpace (prq_PickupComment request), cpr_PickupLocation = pickup,
      cpr_DestinationAddress = TrimSpace (prq_DestinationAddress request), cpr_DestinationLocation = destination,
      cpr_EstimatedPrice = map_option (\<lambda>m. roubles (Amount m)) (ops_EstimatedPrice (pqt_Pricing q)),
      cpr_PricingSnapshot = Some (pqt_Pricing q), cpr_PaymentMethod = prq_PaymentType request,
      cpr_PassengerComment = TrimSpace (prq_Comment request),
      cpr_PassengerLocationSharingEnabled = prq_PassengerLocationSharingEnabled request\<rparr>"

definition CreatePassengerOrder ::
  "passenger_orders \<Rightarrow> uuid \<Rightarrow> passenger_order_request \<Rightarrow> (world, created_or_changed) op" where
  "CreatePassengerOrder service passengerID request =
     (case prq_QuoteID request of
        None \<Rightarrow> fail [Service ErrPriceQuoteRequired]
      | Some quoteID \<Rightarrow>
     if quoteID = uuid_Nil then fail [Service ErrPriceQuoteRequired] else
     let fareMode = fare_mode_asked (erq_FareMode request)
     in bind (requested_trip service passengerID request) (\<lambda>(carClass, pickup, destination, cityID).
     bind (no_rows_is (Service ErrPriceQuoteStale) (GetPriceQuote quoteID passengerID)) (\<lambda>q.
     bind time_Now (\<lambda>now.
     bind (buildTaxiParkEstimate service (ccl_ID carClass) cityID pickup destination fareMode) (\<lambda>estimate.
     if quote_stale now q cityID (ccl_ID carClass) fareMode pickup destination
        \<or> \<not> ops_PriceAvailable (pes_Pricing estimate) \<or> \<not> sameQuotedTerms (pqt_Pricing q) (pes_Pricing estimate)
     then bind (quoted_estimate passengerID cityID (ccl_ID carClass) fareMode pickup destination estimate)
        (\<lambda>updated. ret (QuoteChanged updated))
     else bind (no_rows_is (Service ErrPassengerActiveOrderExists) (CreatePassengerOrder_repository
             (order_record_of q passengerID cityID (ccl_ID carClass) fareMode pickup destination request))) (\<lambda>o1.
          andthen (case pos_dispatchQueue service of None \<Rightarrow> done_op | Some queue \<Rightarrow> EnqueueOrder queue (ord_ID o1))
            (ret (OrderCreated o1))))))))"

definition GetCurrentPassengerOrder :: "uuid \<Rightarrow> (world, order) op" where
  "GetCurrentPassengerOrder passengerID =
     bind (ensureActivePassenger passengerID) (\<lambda>_.
     no_rows_is (Service ErrPassengerOrderNotFound) (getPassengerOrderByID passengerID uuid_Nil))"

definition ListPassengerOrderHistory :: "uuid \<Rightarrow> (world, order list) op" where
  "ListPassengerOrderHistory passengerID =
     bind (ensureActivePassenger passengerID) (\<lambda>_. ListPassengerOrderHistory_repository passengerID 50)"

definition GetPassengerOrder :: "uuid \<Rightarrow> uuid \<Rightarrow> (world, order) op" where
  "GetPassengerOrder passengerID orderID =
     bind (ensureActivePassenger passengerID) (\<lambda>_.
     no_rows_is (Service ErrPassengerOrderNotFound) (getPassengerOrderByID passengerID orderID))"

definition ConfirmPassengerPrice :: "passenger_orders \<Rightarrow> uuid \<Rightarrow> uuid \<Rightarrow> (world, order) op" where
  "ConfirmPassengerPrice service passengerID orderID =
     bind (ensureActivePassenger passengerID) (\<lambda>_.
     case pos_dispatchQueue service of
       None \<Rightarrow> fail [Msg ''price confirmation dispatch service unavailable'']
     | Some _ \<Rightarrow> andthen (ConfirmOrderPrice orderID passengerID) (GetPassengerOrder passengerID orderID))"

definition DeclinePassengerPrice :: "passenger_orders \<Rightarrow> uuid \<Rightarrow> uuid \<Rightarrow> (world, order) op" where
  "DeclinePassengerPrice service passengerID orderID =
     bind (ensureActivePassenger passengerID) (\<lambda>_.
     case pos_dispatchQueue service of
       None \<Rightarrow> fail [Msg ''price confirmation dispatch service unavailable'']
     | Some queue \<Rightarrow> andthen (DeclineOrderPrice queue orderID passengerID) (GetPassengerOrder passengerID orderID))"

definition CancelPassengerOrder :: "uuid \<Rightarrow> uuid \<Rightarrow> string \<Rightarrow> (world, order) op" where
  "CancelPassengerOrder passengerID orderID reason =
     bind (ensureActivePassenger passengerID) (\<lambda>_.
     bind time_Now (\<lambda>now. no_rows_is (Service ErrPassengerOrderNotFound)
       (CancelPassengerOrder_repository passengerID orderID (TrimSpace reason) now)))"

end
