(* ===== verification/Passenger_Trips.thy ===== *)
theory Passenger_Trips
  imports Passenger_Orders
begin

text \<open>
  What passengers may rely on: a price between the cheapest and the dearest park, an order at the quoted
  terms that uses the quote up, and a cancellation that frees the driver.
\<close>

section \<open>The mean price\<close>

definition fares_of :: "fare_sum \<Rightarrow> int list" where "fares_of f = map snd (fsm_valid f)"

definition fares_ok :: "int \<Rightarrow> int \<Rightarrow> tariff set \<Rightarrow> fare_sum \<Rightarrow> bool" where
  "fares_ok metres duration_s ts f \<longleftrightarrow>
     (\<forall>(t, price) \<in> set (fsm_valid f). t \<in> ts \<and> CalculateTripPrice t metres duration_s = Inr price \<and> 0 < price)
     \<and> distinct (map (trf_TaxiParkID \<circ> fst) (fsm_valid f))
     \<and> fsm_total f = sum_list (fares_of f) \<and> fsm_total f \<le> int64_max
     \<and> (fsm_valid f \<noteq> [] \<longrightarrow> fsm_minimum f = Min (set (fares_of f)) \<and> fsm_maximum f = Max (set (fares_of f)))"

lemma min_step:
  fixes x :: int
  assumes "xs \<noteq> [] \<Longrightarrow> m = Min (set xs)"
  shows "Min (set (xs @ [x])) = (if xs = [] \<or> x < m then x else m)"
proof (cases "xs = []")
  case False
  then have "Min (set (xs @ [x])) = min x m" using assms by (simp add: Min_insert)
  with False show ?thesis by (simp add: min_def)
qed simp

lemma max_step:
  fixes x :: int
  assumes "xs \<noteq> [] \<Longrightarrow> m = Max (set xs)"
  shows "Max (set (xs @ [x])) = (if xs = [] \<or> m < x then x else m)"
proof (cases "xs = []")
  case False
  then have "Max (set (xs @ [x])) = max x m" using assms by (simp add: Max_insert)
  with False show ?thesis by (simp add: max_def)
qed simp

lemma add_fare_ok:
  assumes "fares_ok metres duration_s ts f" "t \<in> ts" "CalculateTripPrice t metres duration_s = Inr price" "0 < price"
    and "trf_TaxiParkID t \<notin> (trf_TaxiParkID \<circ> fst) ` set (fsm_valid f)" "\<not> int64_max - price < fsm_total f"
  shows "fares_ok metres duration_s ts (add_fare t price f)"
proof -
  have fares: "fares_of (add_fare t price f) = fares_of f @ [price]" "fares_of f = [] \<longleftrightarrow> fsm_valid f = []"
    by (simp_all add: fares_of_def add_fare_def)
  have "fsm_minimum (add_fare t price f) = Min (set (fares_of f @ [price]))"
    using assms(1) min_step [of "fares_of f" "fsm_minimum f" price] fares(2) by (simp add: fares_ok_def add_fare_def)
  moreover have "fsm_maximum (add_fare t price f) = Max (set (fares_of f @ [price]))"
    using assms(1) max_step [of "fares_of f" "fsm_maximum f" price] fares(2) by (simp add: fares_ok_def add_fare_def)
  moreover have "fsm_valid (add_fare t price f) = fsm_valid f @ [(t, price)]"
    "fsm_total (add_fare t price f) = fsm_total f + price" by (simp_all add: add_fare_def)
  ultimately show ?thesis using assms unfolding fares_ok_def fares(1) by simp
qed

lemma fares_ok_excluded [simp]: "fares_ok metres duration_s ts (f\<lparr>fsm_excluded := es\<rparr>) = fares_ok metres duration_s ts f"
  by (simp add: fares_ok_def fares_of_def)

lemma sum_fares_ok:
  "sum_fares ex metres duration_s rest f = Inr g \<Longrightarrow> fares_ok metres duration_s ts f \<Longrightarrow> set rest \<subseteq> ts \<Longrightarrow>
   fares_ok metres duration_s ts g"
proof (induction ex metres duration_s rest f rule: sum_fares.induct)
  case (2 ex metres duration_s t rest f)
  then show ?case
    using add_fare_ok [OF "2.prems"(2), of t] by (simp split: if_splits sum.splits)
qed simp

lemma sum_list_bounds:
  fixes xs :: "int list"
  assumes "xs \<noteq> []"
  shows "int (length xs) * Min (set xs) \<le> sum_list xs" "sum_list xs \<le> int (length xs) * Max (set xs)"
proof -
  have "sum_list (map (\<lambda>_. Min (set xs)) xs) \<le> sum_list (map id xs)" by (rule sum_list_mono) simp
  then show "int (length xs) * Min (set xs) \<le> sum_list xs" by (simp add: sum_list_triv)
  have "sum_list (map id xs) \<le> sum_list (map (\<lambda>_. Max (set xs)) xs)" by (rule sum_list_mono) simp
  then show "sum_list xs \<le> int (length xs) * Max (set xs)" by (simp add: sum_list_triv)
qed

lemma average_price_eq: "average_price f =
    (fsm_total f + int (length (fsm_valid f)) div 2) div int (length (fsm_valid f))"
proof (cases "fsm_valid f = []")
  case False
  let ?n = "int (length (fsm_valid f))"
  have "fsm_total f + ?n div 2 = (fsm_total f mod ?n + ?n div 2) + ?n * (fsm_total f div ?n)" by simp
  then have "(fsm_total f + ?n div 2) div ?n = fsm_total f div ?n + (fsm_total f mod ?n + ?n div 2) div ?n"
    using False by (simp only: div_mult_self2 of_nat_eq_0_iff length_0_conv simp_thms)
  then show ?thesis by (simp add: average_price_def Let_def)
qed (simp add: average_price_def)

lemma rounded_division:
  fixes total n lo hi :: int
  assumes "0 < n" "n * lo \<le> total" "total \<le> n * hi"
  defines "q \<equiv> (total + n div 2) div n"
  shows "lo \<le> q" "q \<le> hi" "\<bar>2 * (n * q - total)\<bar> \<le> n"
proof -
  define r where "r = (total + n div 2) mod n"
  have q: "total + n div 2 = n * q + r" unfolding q_def r_def by simp
  have r: "0 \<le> r" "r < n" using assms(1) by (simp_all add: r_def)
  have half: "2 * (n div 2) \<le> n" "n \<le> 2 * (n div 2) + 1" by presburger+
  have "n * q - total = n div 2 - r" using q by simp
  moreover have "\<bar>2 * (n div 2 - r)\<bar> \<le> n" using r half by (simp add: abs_le_iff)
  ultimately show "\<bar>2 * (n * q - total)\<bar> \<le> n" by (simp only:)
  have "n * lo < n * (q + 1)" using q r half assms(1,2) by (simp only: distrib_left mult_1_right)
  then show "lo \<le> q" using assms(1) by simp
  have "n * q < n * (hi + 1)" using q r half assms(1,3) by (simp only: distrib_left mult_1_right)
  then show "q \<le> hi" using assms(1) by simp
qed



section \<open>Ordering at the quoted terms\<close>

lemma passenger_reads_keep [keeps_intros]:
  "keeps (on_db P) (ensureActivePassenger i)"
  "keeps (on_db P) (resolveCityID service p)"
  "keeps (on_db P) (GetPriceQuote i j)"
  "keeps (on_db P) (getPassengerOrderByID i j)"
  unfolding ensureActivePassenger_def GetPassengerByID_def resolveCityID_def GetPriceQuote_def getPassengerOrderByID_def
  by (intro keeps_intros keeps_external; simp add: keeps_def)+

lemma requested_trip_keeps [keeps_intros]: "keeps (on_db P) (requested_trip service i request)"
  unfolding requested_trip_def GetActiveCarClassByID_def by (intro keeps_intros)

lemma buildTaxiParkEstimate_keeps [keeps_intros]: "keeps (on_db P) (buildTaxiParkEstimate service c i p d m)"
  unfolding buildTaxiParkEstimate_def Route_def ListAvailableTaxiParkTariffs_def HasNearbyAvailableDrivers_def
  by (intro keeps_intros keeps_external; simp add: keeps_def)

lemma passenger_order_redis [keeps_intros]:
  "keeps (on_redis R) (ensureActivePassenger i)"
  "keeps (on_redis R) (resolveCityID service p)"
  "keeps (on_redis R) (GetPriceQuote i j)"
  "keeps (on_redis R) (getPassengerOrderByID i j)"
  unfolding ensureActivePassenger_def GetPassengerByID_def resolveCityID_def GetPriceQuote_def getPassengerOrderByID_def
  by (intro keeps_intros keeps_external; simp add: keeps_def)+

lemma passenger_trip_redis [keeps_intros]:
  "keeps (on_redis R) (requested_trip service i request)"
  "keeps (on_redis R) (buildTaxiParkEstimate service c j p d m)"
  "keeps (on_redis R) (CreatePassengerOrder_repository record)"
  unfolding requested_trip_def GetActiveCarClassByID_def buildTaxiParkEstimate_def Route_def
    ListAvailableTaxiParkTariffs_def HasNearbyAvailableDrivers_def CreatePassengerOrder_repository_def consume_quote_def
  by (intro redis_transaction keeps_intros keeps_external; simp add: keeps_def)+

text \<open>An estimate with a price is the mean of what the parks near the pickup charge at that instant.\<close>

definition mean_offer ::
  "passenger_orders \<Rightarrow> db \<Rightarrow> uuid \<Rightarrow> uuid \<Rightarrow> coordinates \<Rightarrow> fare_mode \<Rightarrow> int \<Rightarrow> bool" where
  "mean_offer service d classID cityID pickup fareMode price \<longleftrightarrow>
     (\<exists>now metres duration_s f. sum_fares (pos_exclusion service) metres duration_s
         (available_tariffs (pos_st_distance service) now d pickup cityID classID fareMode
            estimateRadiusMeters estimateLocationMaxAge) no_fares = Inr f
       \<and> fsm_valid f \<noteq> [] \<and> price = average_price f)"

lemma unavailable_estimate [simp]: "\<not> ops_PriceAvailable (pes_Pricing (unavailableTaxiParkEstimate found why m ex now))"
  by (simp add: unavailableTaxiParkEstimate_def unavailable_snapshot_def)

lemma buildTaxiParkEstimate_Inr:
  assumes "buildTaxiParkEstimate service classID cityID pickup destination fareMode s = (Inr e, t)"
    and "ops_PriceAvailable (pes_Pricing e)"
  obtains price where "ops_EstimatedPrice (pes_Pricing e) = Some (roubles price)"
    "mean_offer service (db s) classID cityID pickup fareMode price"
proof -
  obtain r s1 where route: "Route (pos_routingService service) pickup destination s = (Inr r, s1)"
    and rest: "bind (ListAvailableTaxiParkTariffs (pos_st_distance service) pickup cityID classID fareMode
            estimateRadiusMeters estimateLocationMaxAge) (\<lambda>tariffs.
          if tariffs = []
          then bind (HasNearbyAvailableDrivers (pos_st_distance service) pickup cityID classID estimateRadiusMeters
              estimateLocationMaxAge) (\<lambda>available.
            bind time_Now (\<lambda>now. ret (unavailableTaxiParkEstimate (Some r)
              (if available then ''no_available_park_tariffs'' else ''no_available_drivers'') fareMode [] now)))
          else bind (lift (sum_fares (pos_exclusion service) (rte_DistanceMeters r) (rte_DurationSeconds r)
              tariffs no_fares)) (\<lambda>f.
            if fsm_valid f = []
            then bind time_Now (\<lambda>now. ret (unavailableTaxiParkEstimate (Some r) ''no_valid_park_tariffs'' fareMode
              (fsm_excluded f) now))
            else ret \<lparr>pes_PriceAmount = Some (average_price f),
                      pes_Pricing = averaged_snapshot fareMode estimateRadiusMeters r f\<rparr>)) s1 = (Inr e, t)"
    using assms unfolding buildTaxiParkEstimate_def
    by (auto simp: catching_def Inr_simps split: if_splits prod.splits sum.splits elim!: bind_Inr)
  have s1: "db s1 = db s"
    using route by (rule keeps_db_eq) (simp add: Route_def; intro keeps_external; simp add: keeps_def)
  obtain ts s2 where ts: "ListAvailableTaxiParkTariffs (pos_st_distance service) pickup cityID classID fareMode
            estimateRadiusMeters estimateLocationMaxAge s1 = (Inr ts, s2)" "ts \<noteq> []"
    and lst: "bind (lift (sum_fares (pos_exclusion service) (rte_DistanceMeters r) (rte_DurationSeconds r) ts no_fares))
       (\<lambda>f. if fsm_valid f = []
            then bind time_Now (\<lambda>now. ret (unavailableTaxiParkEstimate (Some r) ''no_valid_park_tariffs'' fareMode
              (fsm_excluded f) now))
            else ret \<lparr>pes_PriceAmount = Some (average_price f),
                      pes_Pricing = averaged_snapshot fareMode estimateRadiusMeters r f\<rparr>) s2 = (Inr e, t)"
    using rest assms(2) by (elim bind_Inr) (auto simp: Inr_simps split: if_splits elim!: bind_Inr)
  from ts(1) obtain now where "ts = available_tariffs (pos_st_distance service) now (db s) pickup cityID classID fareMode
            estimateRadiusMeters estimateLocationMaxAge"
    unfolding ListAvailableTaxiParkTariffs_def by (elim query_Inr) (auto simp: s1)
  moreover obtain f where "sum_fares (pos_exclusion service) (rte_DistanceMeters r) (rte_DurationSeconds r) ts no_fares = Inr f"
    "fsm_valid f \<noteq> []" "pes_Pricing e = averaged_snapshot fareMode estimateRadiusMeters r f"
    using lst assms(2) by (elim bind_Inr) (auto simp: Inr_simps split: if_splits elim!: bind_Inr)
  ultimately show thesis
    using that [of "average_price f"] unfolding mean_offer_def averaged_snapshot_def by auto
qed

lemma consume_quote_Inr:
  assumes "consume_quote now i p orderID s = (Inr u, t)"
  shows "\<exists>q \<in> set (price_quotes (db s)). quote_open now i p q"
    "db t = (db s)\<lparr>price_quotes := sql_update (quote_open now i p) (\<lambda>q. q\<lparr>pqt_ConsumedOrderID := Some orderID\<rparr>)
       (price_quotes (db s))\<rparr>"
proof -
  from assms obtain n where n: "n = rows_affected (quote_open now i p) (price_quotes (db s))" "n = 1"
    "db t = (db s)\<lparr>price_quotes := sql_update (quote_open now i p) (\<lambda>q. q\<lparr>pqt_ConsumedOrderID := Some orderID\<rparr>)
       (price_quotes (db s))\<rparr>"
    unfolding consume_quote_def by (elim bind_Inr sql_Inr) (auto simp: Inr_simps split: if_splits)
  then show "\<exists>q \<in> set (price_quotes (db s)). quote_open now i p q"
    by (metis rows_affected_pos zero_less_one)
  show "db t = (db s)\<lparr>price_quotes := sql_update (quote_open now i p) (\<lambda>q. q\<lparr>pqt_ConsumedOrderID := Some orderID\<rparr>)
       (price_quotes (db s))\<rparr>" by (rule n(3))
qed

lemma open_statuses_eq: "open_statuses = set passenger_active_statuses"
  by (simp add: open_statuses_def passenger_active_statuses_def driver_active_statuses_def)

lemma one_open_order:
  assumes "orders_unique (xs @ [r])" "v \<in> set (xs @ [r])" "ord_PassengerID v = ord_PassengerID r"
    "ord_DeletedAt v = None" "ord_DeletedAt r = None" "ord_Status v \<in> open_statuses" "ord_Status r \<in> open_statuses"
  shows "v = r"
proof -
  have v: "v \<in> set (filter current_of_passenger (xs @ [r]))" and r: "r \<in> set (filter current_of_passenger (xs @ [r]))"
    using assms(2,4-7) by (simp_all add: current_of_passenger_def open_statuses_eq)
  have "inj_on ord_PassengerID (set (filter current_of_passenger (xs @ [r])))"
    using assms(1) unfolding orders_unique_def distinct_map by blast
  from inj_onD [OF this assms(3) v r] show ?thesis .
qed

lemma CreatePassengerOrder_repository_Inr:
  assumes "CreatePassengerOrder_repository record s = (Inr o1, t)"
  obtains started newID q where "clock s \<le> started" "q \<in> set (price_quotes (db s))"
    "quote_open started (cpr_QuoteID record) (cpr_PassengerID record) q"
    "orders (db t) = orders (db s) @ [passenger_order_row newID started record]" "orders_unique (orders (db t))"
    "price_quotes (db t) = sql_update (quote_open started (cpr_QuoteID record) (cpr_PassengerID record))
       (\<lambda>q. q\<lparr>pqt_ConsumedOrderID := Some newID\<rparr>) (price_quotes (db s))"
    "ord_ID o1 = newID"
proof -
  obtain s0 b u where s0: "clock s \<le> clock s0" "db s0 = db s" and commit: "db t = (if b then db u else db s)"
    and body: "(bind time_Now (\<lambda>started.
      bind uuid_New (\<lambda>newID.
      bind (catching (sql (\<lambda>_. insert_order (passenger_order_row newID started record))) (\<lambda>r. case r of
          Inl e \<Rightarrow> if errors_Is e (Infra ErrUniqueViolation) then fail [Infra ErrNoRows] else fail e
        | Inr row \<Rightarrow> ret row)) (\<lambda>_.
      andthen (consume_quote started (cpr_QuoteID record) (cpr_PassengerID record) newID)
      (andthen (sql (\<lambda>_. append_events (passenger_created_events newID started)))
      (bind (getPassengerOrderByID (cpr_PassengerID record) newID) (\<lambda>o1. ret (True, o1)))))))) s0 = (Inr (b, o1), u)"
    by (rule db_transaction_Inr [OF assms [unfolded CreatePassengerOrder_repository_def]])
  obtain newID s1 row s2 e1 s3 e2 s4 where
    r: "uuid_New s0 = (Inr newID, s1)"
    "catching (sql (\<lambda>_. insert_order (passenger_order_row newID (clock s0) record))) (\<lambda>r. case r of
          Inl e \<Rightarrow> if errors_Is e (Infra ErrUniqueViolation) then fail [Infra ErrNoRows] else fail e
        | Inr row \<Rightarrow> ret row) s1 = (Inr row, s2)"
    "consume_quote (clock s0) (cpr_QuoteID record) (cpr_PassengerID record) newID s2 = (Inr e1, s3)"
    "sql (\<lambda>_. append_events (passenger_created_events newID (clock s0))) s3 = (Inr e2, s4)"
    "getPassengerOrderByID (cpr_PassengerID record) newID s4 = (Inr o1, u)" "b"
    using body by (elim bind_Inr) (auto simp: Inr_simps)
  have s1: "db s1 = db s0" using r(1) by (auto simp: uuid_New_def)
  have "sql (\<lambda>_. insert_order (passenger_order_row newID (clock s0) record)) s1 = (Inr row, s2)"
    using r(2) by (auto simp: catching_def Inr_simps split: prod.splits sum.splits if_splits)
  then have ins: "insert_order (passenger_order_row newID (clock s0) record) (db s1) = (Inr row, db s2)"
    by (rule sql_Inr) simp
  note ins = insert_order_Inr [OF ins]
  note used = consume_quote_Inr [OF r(3)]
  have s4: "db s4 = (db s3)\<lparr>order_events := order_events (db s3) @ passenger_created_events newID (clock s0)\<rparr>"
    by (rule append_event_Inr [OF r(4)])
  have u: "db u = db s4" using r(5) by (rule keeps_db_eq) (intro keeps_intros)
  have t: "db t = db s4" using commit r(6) u by simp
  let ?row = "passenger_order_row newID (clock s0) record"
  have rows: "orders (db s4) = orders (db s) @ [?row]" using s4 used(2) ins(2) s1 s0(2) by simp
  have unique: "orders_unique (orders (db s) @ [?row])" using ins(3) s1 s0(2) by simp
  from r(5) obtain v where v: "o1 = passenger_view v" "v \<in> set (orders_of_passenger (cpr_PassengerID record) (db s4))"
    "if newID = uuid_Nil then ord_Status v \<in> open_statuses else ord_ID v = newID"
    unfolding getPassengerOrderByID_def by (elim query_Inr) (auto dest!: one_row_Inr split: if_splits)
  have "ord_ID v = newID"
  proof (cases "newID = uuid_Nil")
    case True
    have "v = ?row"
      by (rule one_open_order [OF unique])
        (use v(2,3) True rows in \<open>auto simp: orders_of_passenger_def passenger_order_row_def open_statuses_def\<close>)
    then show ?thesis by (simp add: passenger_order_row_def)
  qed (use v(3) in simp)
  then have o1: "ord_ID o1 = newID" unfolding v(1) by (simp add: passenger_view_def order.defs)
  from used(1) obtain q where q: "q \<in> set (price_quotes (db s2))"
    "quote_open (clock s0) (cpr_QuoteID record) (cpr_PassengerID record) q" by blast
  have quotes: "price_quotes (db s2) = price_quotes (db s)" using ins(2) s1 s0(2) by simp
  show thesis
    by (rule that [OF s0(1) q(1) [unfolded quotes] q(2) _ _ _ o1])
      (use rows unique t s4 used(2) quotes in simp_all)
qed

lemma SavePriceQuote_orders: "keeps (on_db (\<lambda>d. orders d = v)) (quoted_estimate a b c m p q e)"
  unfolding quoted_estimate_def SavePriceQuote_def Let_def
  by (cases "pes_PriceAmount e") (auto intro!: keeps_intros keeps_sql)

lemma keeps_since_external [keeps_intros]: "keeps (since c) (external (\<lambda>s. (g s, s)))"
  by (rule keepsI) (auto simp: external_def Let_def split: list.splits outcome.splits prod.splits)

lemma keeps_later: "m s = (r, t) \<Longrightarrow> (\<And>c. keeps (since c) m) \<Longrightarrow> clock s \<le> clock t"
  by (metis keepsD order_refl snd_conv)

lemma passenger_order_clock [keeps_intros]:
  "keeps (since c) (requested_trip service i request)"
  "keeps (since c) (GetPriceQuote i j)"
  "keeps (since c) (buildTaxiParkEstimate service cls city p d m)"
  unfolding requested_trip_def GetActiveCarClassByID_def ensureActivePassenger_def GetPassengerByID_def resolveCityID_def
    buildTaxiParkEstimate_def Route_def ListAvailableTaxiParkTariffs_def HasNearbyAvailableDrivers_def GetPriceQuote_def
  by (intro keeps_intros)+

lemma CreatePassengerOrder_Inr:
  assumes "CreatePassengerOrder service p request s = (Inr (OrderCreated o1), t)"
  obtains started newID q entry price u where
    "prq_QuoteID request = Some (cpr_QuoteID entry)" "cpr_PassengerID entry = p"
    "clock s \<le> started" "q \<in> set (price_quotes (db s))" "quote_open started (cpr_QuoteID entry) p q"
    "\<exists>q' \<in> set (price_quotes (db s)). pqt_ID q' = cpr_QuoteID entry \<and> pqt_PassengerID q' = p
       \<and> cpr_FareMode entry = pqt_FareMode q' \<and> cpr_CarClassID entry = pqt_CarClassID q'
       \<and> cpr_CityID entry = pqt_CityID q' \<and> cpr_PickupLocation entry = pqt_Pickup q'
       \<and> cpr_DestinationLocation entry = pqt_Destination q' \<and> ops_EstimatedPrice (pqt_Pricing q') = Some (roubles price)
       \<and> mean_offer service (db s) (pqt_CarClassID q') (pqt_CityID q') (pqt_Pickup q') (pqt_FareMode q') price"
    "cpr_EstimatedPrice entry = Some (roubles price)"
    "orders (db u) = orders (db s) @ [passenger_order_row newID started entry]" "orders_unique (orders (db u))"
    "price_quotes (db u) = sql_update (quote_open started (cpr_QuoteID entry) p)
       (\<lambda>q. q\<lparr>pqt_ConsumedOrderID := Some newID\<rparr>) (price_quotes (db s))"
    "ord_ID o1 = newID" "redis u = redis s"
    "(case pos_dispatchQueue service of None \<Rightarrow> done_op | Some queue \<Rightarrow> EnqueueOrder queue newID) u = (Inr (), t)"
proof -
  obtain quoteID where quoteID: "prq_QuoteID request = Some quoteID" "quoteID \<noteq> uuid_Nil"
    using assms unfolding CreatePassengerOrder_def by (auto simp: Inr_simps split: option.splits if_splits)
  let ?mode = "fare_mode_asked (erq_FareMode request)"
  obtain carClass pickup destination cityID s1 q s2 now e s3 s4 where
    r: "requested_trip service p request s = (Inr (carClass, pickup, destination, cityID), s1)"
    "no_rows_is (Service ErrPriceQuoteStale) (GetPriceQuote quoteID p) s1 = (Inr q, s2)"
    "buildTaxiParkEstimate service (ccl_ID carClass) cityID pickup destination ?mode s2 = (Inr e, s3)"
    "\<not> quote_stale now q cityID (ccl_ID carClass) ?mode pickup destination"
    "ops_PriceAvailable (pes_Pricing e)" "sameQuotedTerms (pqt_Pricing q) (pes_Pricing e)"
    "no_rows_is (Service ErrPassengerActiveOrderExists) (CreatePassengerOrder_repository
        (order_record_of q p cityID (ccl_ID carClass) ?mode pickup destination request)) s3 = (Inr o1, s4)"
    "(case pos_dispatchQueue service of None \<Rightarrow> done_op | Some queue \<Rightarrow> EnqueueOrder queue (ord_ID o1)) s4 = (Inr (), t)"
    using assms [unfolded CreatePassengerOrder_def quoteID(1) option.case Let_def if_not_P [OF quoteID(2)]]
    by (elim bind_Inr) (auto simp: Inr_simps split: if_splits elim!: bind_Inr)
  let ?entry = "order_record_of q p cityID (ccl_ID carClass) ?mode pickup destination request"
  have d1: "db s1 = db s" using r(1) by (rule keeps_db_eq) (intro keeps_intros)
  have d2: "db s2 = db s1" using r(2) by (rule keeps_db_eq) (intro keeps_intros)
  have d3: "db s3 = db s2" using r(3) by (rule keeps_db_eq) (intro keeps_intros)
  have r1: "redis s1 = redis s" using r(1) by (rule keeps_redis_eq) (intro keeps_intros)
  have r2: "redis s2 = redis s1" using r(2) by (rule keeps_redis_eq) (intro keeps_intros)
  have r3: "redis s3 = redis s2" using r(3) by (rule keeps_redis_eq) (intro keeps_intros)
  have r4: "redis s4 = redis s3" using r(7) by (rule keeps_redis_eq) (intro keeps_intros)
  have q: "q \<in> set (price_quotes (db s))" "pqt_ID q = quoteID" "pqt_PassengerID q = p"
    using r(2) d1 unfolding no_rows_is_Inr GetPriceQuote_def by (auto elim!: query_Inr dest!: one_row_Inr)
  obtain price where price: "ops_EstimatedPrice (pes_Pricing e) = Some (roubles price)"
    "mean_offer service (db s2) (ccl_ID carClass) cityID pickup ?mode price"
    by (rule buildTaxiParkEstimate_Inr [OF r(3,5)])
  have quoted: "ops_EstimatedPrice (pqt_Pricing q) = Some (roubles price)"
    using r(6) price(1) by (simp add: sameQuotedTerms_def)
  have run: "CreatePassengerOrder_repository ?entry s3 = (Inr o1, s4)" using r(7) by (simp add: no_rows_is_Inr)
  obtain started newID q1 where c: "clock s3 \<le> started" "q1 \<in> set (price_quotes (db s3))"
    "quote_open started (cpr_QuoteID ?entry) (cpr_PassengerID ?entry) q1"
    "orders (db s4) = orders (db s3) @ [passenger_order_row newID started ?entry]" "orders_unique (orders (db s4))"
    "price_quotes (db s4) = sql_update (quote_open started (cpr_QuoteID ?entry) (cpr_PassengerID ?entry))
       (\<lambda>q. q\<lparr>pqt_ConsumedOrderID := Some newID\<rparr>) (price_quotes (db s3))" "ord_ID o1 = newID"
    by (rule CreatePassengerOrder_repository_Inr [OF run])
  have "clock s \<le> clock s1" using r(1) by (rule keeps_later) (intro keeps_intros)
  also have "clock s1 \<le> clock s2" using r(2) by (rule keeps_later) (intro keeps_intros)
  also have "clock s2 \<le> clock s3" using r(3) by (rule keeps_later) (intro keeps_intros)
  finally have clock: "clock s \<le> clock s3" .
  have fresh: "pqt_CityID q = cityID" "pqt_CarClassID q = ccl_ID carClass" "pqt_FareMode q = ?mode"
    "pqt_Pickup q = pickup" "pqt_Destination q = destination"
    using r(4) by (simp_all add: quote_stale_def)
  show thesis
    by (rule that [where entry = ?entry and u = s4 and price = price and started = started and newID = newID and q = q1])
      (use c clock d1 d2 d3 r1 r2 r3 r4 q quoteID quoted price(2) fresh r(8) in
        \<open>auto simp: order_record_of_def roubles_def\<close>)
qed

lemma EnqueueOrder_quotes: "keeps (on_db (\<lambda>d. price_quotes d = v)) (EnqueueOrder queue i)"
proof -
  have "price_quotes (snd (update_orders P f now d)) = price_quotes d" for P f now d
    by (simp add: update_orders_def Let_def)
  then show ?thesis
    unfolding EnqueueOrder_def enqueueOrder_def MarkOrderSearching_def require_row_def
    by (intro keeps_intros keeps_sql) simp_all
qed

definition quote_used :: "uuid \<Rightarrow> uuid \<Rightarrow> uuid \<Rightarrow> price_quote \<Rightarrow> price_quote" where
  "quote_used quoteID p orderID q =
     (if pqt_ID q = quoteID \<and> pqt_PassengerID q = p then q\<lparr>pqt_ConsumedOrderID := Some orderID\<rparr> else q)"

lemma same_quote:
  "distinct (map pqt_ID rows) \<Longrightarrow> q \<in> set rows \<Longrightarrow> q' \<in> set rows \<Longrightarrow> pqt_ID q = pqt_ID q' \<Longrightarrow> q = q'"
  unfolding distinct_map by (blast dest: inj_onD)

lemma used_quotes:
  assumes "distinct (map pqt_ID rows)" "q \<in> set rows" "quote_open now i p q"
  shows "sql_update (quote_open now i p) (\<lambda>q. q\<lparr>pqt_ConsumedOrderID := Some orderID\<rparr>) rows
     = map (quote_used i p orderID) rows"
proof -
  have "x = q" if "x \<in> set rows" "pqt_ID x = i" for x
    using same_quote [OF assms(1) that(1) assms(2)] assms(3) that(2) by (simp add: quote_open_def)
  with assms(3) show ?thesis
    unfolding sql_update_def quote_used_def by (intro map_cong refl if_cong) (auto simp: quote_open_def)
qed

definition fresh_order ::
  "passenger_orders \<Rightarrow> db \<Rightarrow> uuid \<Rightarrow> price_quote \<Rightarrow> order_row \<Rightarrow> bool" where
  "fresh_order service d p q r \<longleftrightarrow>
     ord_PassengerID r = p \<and> ord_Status r = OrderStatusSearching \<and> ord_DriverID r = None
     \<and> ord_FareMode r = pqt_FareMode q \<and> ord_CarClassID r = Some (pqt_CarClassID q) \<and> ord_CityID r = pqt_CityID q
     \<and> ord_PickupLocation r = pqt_Pickup q \<and> ord_DestinationLocation r = Some (pqt_Destination q)
     \<and> ord_EstimatedPrice r = ops_EstimatedPrice (pqt_Pricing q)
     \<and> (\<exists>price. ops_EstimatedPrice (pqt_Pricing q) = Some (roubles price)
          \<and> mean_offer service d (pqt_CarClassID q) (pqt_CityID q) (pqt_Pickup q) (pqt_FareMode q) price)"

lemma fresh_order_touched: "fresh_order service d p q r \<Longrightarrow> fresh_order service d p q (r\<lparr>ord_Version := v, ord_UpdatedAt := now\<rparr>)"
  by (simp add: fresh_order_def)

text \<open>
  C9: a passenger orders at the quoted terms.  When an order is created, the request named a quote of that
  passenger that was neither used nor expired; the table has one row more, an order of the passenger that
  searches for a driver on the route, in the class and at the price of the quote, and that price is still
  the mean of what the parks near the pickup charge; the quote is used up by that order; no passenger has
  two open orders; and unless a dispatch of that order was already marked, its first task is at the front of
  the queue.
\<close>

theorem CreatePassengerOrder_effect:
  assumes "CreatePassengerOrder service p request s = (Inr (OrderCreated o1), t)"
    and "distinct (map pqt_ID (price_quotes (db s)))"
  shows "\<exists>q \<in> set (price_quotes (db s)). \<exists>r.
     prq_QuoteID request = Some (pqt_ID q) \<and> pqt_PassengerID q = p
     \<and> pqt_ConsumedOrderID q = None \<and> clock s < pqt_ExpiresAt q
     \<and> orders (db t) = orders (db s) @ [r] \<and> ord_ID r = ord_ID o1 \<and> fresh_order service (db s) p q r
     \<and> price_quotes (db t) = map (quote_used (pqt_ID q) p (ord_ID r)) (price_quotes (db s))
     \<and> orders_unique (orders (db t))
     \<and> (\<forall>queue. pos_dispatchQueue service = Some queue \<and> rd_dispatching (redis s) (ord_ID r) = None
          \<longrightarrow> (\<exists>task. rd_queue (redis t) = task # rd_queue (redis s) \<and> first_task (ord_ID r) None task))"
proof -
  obtain started newID q entry price u where c:
    "prq_QuoteID request = Some (cpr_QuoteID entry)" "cpr_PassengerID entry = p"
    "clock s \<le> started" "q \<in> set (price_quotes (db s))" "quote_open started (cpr_QuoteID entry) p q"
    "\<exists>q' \<in> set (price_quotes (db s)). pqt_ID q' = cpr_QuoteID entry \<and> pqt_PassengerID q' = p
       \<and> cpr_FareMode entry = pqt_FareMode q' \<and> cpr_CarClassID entry = pqt_CarClassID q'
       \<and> cpr_CityID entry = pqt_CityID q' \<and> cpr_PickupLocation entry = pqt_Pickup q'
       \<and> cpr_DestinationLocation entry = pqt_Destination q' \<and> ops_EstimatedPrice (pqt_Pricing q') = Some (roubles price)
       \<and> mean_offer service (db s) (pqt_CarClassID q') (pqt_CityID q') (pqt_Pickup q') (pqt_FareMode q') price"
    "cpr_EstimatedPrice entry = Some (roubles price)"
    "orders (db u) = orders (db s) @ [passenger_order_row newID started entry]" "orders_unique (orders (db u))"
    "price_quotes (db u) = sql_update (quote_open started (cpr_QuoteID entry) p)
       (\<lambda>q. q\<lparr>pqt_ConsumedOrderID := Some newID\<rparr>) (price_quotes (db s))"
    "ord_ID o1 = newID" "redis u = redis s"
    "(case pos_dispatchQueue service of None \<Rightarrow> done_op | Some queue \<Rightarrow> EnqueueOrder queue newID) u = (Inr (), t)"
    by (rule CreatePassengerOrder_Inr [OF assms(1)])
  let ?row = "passenger_order_row newID started entry"
  from c(6) obtain q' where q': "q' \<in> set (price_quotes (db s))" "pqt_ID q' = cpr_QuoteID entry" and
    terms: "fresh_order service (db s) p q' ?row"
    using c(2,7) by (auto simp: fresh_order_def passenger_order_row_def roubles_def)
  have "pqt_ID q = cpr_QuoteID entry" using c(5) by (simp add: quote_open_def)
  then have "q' = q" using same_quote [OF assms(2) q'(1) c(4)] q'(2) by simp
  have quotes: "price_quotes (db u) = map (quote_used (pqt_ID q) p newID) (price_quotes (db s))"
    unfolding c(10) used_quotes [OF assms(2) c(4,5)] \<open>pqt_ID q = cpr_QuoteID entry\<close> ..
  have "\<exists>v now. orders (db t) = orders (db s) @ [?row\<lparr>ord_Version := v, ord_UpdatedAt := now\<rparr>]
      \<and> price_quotes (db t) = price_quotes (db u)
      \<and> (\<forall>queue. pos_dispatchQueue service = Some queue \<and> rd_dispatching (redis s) newID = None
          \<longrightarrow> (\<exists>task. rd_queue (redis t) = task # rd_queue (redis s) \<and> first_task newID None task))"
  proof (cases "pos_dispatchQueue service")
    case None
    then have "t = u" using c(13) by (simp add: Inr_simps)
    with None c(8) show ?thesis
      by (intro exI [of _ "ord_Version ?row"] exI [of _ "ord_UpdatedAt ?row"]) simp
  next
    case (Some queue)
    have run: "enqueueOrder queue newID None u = (Inr (), t)" using c(13) Some by (simp add: EnqueueOrder_def)
    note new = enqueueOrder_new [OF run c(8) c(9) [unfolded c(8)]]
    have "price_quotes (db t) = price_quotes (db u)"
      using keepsD [OF EnqueueOrder_quotes [of "price_quotes (db u)" queue newID], of u] c(13) Some by simp
    moreover have row: "ord_ID ?row = newID" "ord_Status ?row = OrderStatusSearching" "ord_DriverID ?row = None"
      "ord_DeletedAt ?row = None" by (simp_all add: passenger_order_row_def)
    moreover obtain v now where "orders (db t) = orders (db s) @ [?row\<lparr>ord_Version := v, ord_UpdatedAt := now\<rparr>]"
      using new(1) [OF row] by blast
    moreover have "rd_dispatching (redis s) newID = None \<Longrightarrow>
        \<exists>task. rd_queue (redis t) = task # rd_queue (redis s) \<and> first_task newID None task"
      using new(2) [OF row] unfolding c(12) .
    ultimately show ?thesis by (intro exI [of _ v] exI [of _ now]) (simp add: Some)
  qed
  then obtain v now where t: "orders (db t) = orders (db s) @ [?row\<lparr>ord_Version := v, ord_UpdatedAt := now\<rparr>]"
    "price_quotes (db t) = price_quotes (db u)"
    "\<forall>queue. pos_dispatchQueue service = Some queue \<and> rd_dispatching (redis s) newID = None
          \<longrightarrow> (\<exists>task. rd_queue (redis t) = task # rd_queue (redis s) \<and> first_task newID None task)" by blast
  have unique: "orders_unique (orders (db t))" unfolding t(1) orders_unique_touched using c(8,9) by simp
  have id: "ord_ID (?row\<lparr>ord_Version := v, ord_UpdatedAt := now\<rparr>) = newID" by (simp add: passenger_order_row_def)
  show ?thesis
    by (rule bexI [OF _ c(4)], rule exI [of _ "?row\<lparr>ord_Version := v, ord_UpdatedAt := now\<rparr>"], unfold id)
      (use c(1,3,5,11) t quotes unique terms \<open>q' = q\<close> fresh_order_touched in \<open>auto simp: quote_open_def\<close>)
qed

lemma created_with_quote:
  assumes "CreatePassengerOrder service p request s = (Inr (OrderCreated o1), t)"
    and "distinct (map pqt_ID (price_quotes (db s)))"
  shows "\<exists>started newID. \<exists>q \<in> set (price_quotes (db s)). prq_QuoteID request = Some (pqt_ID q)
     \<and> quote_open started (pqt_ID q) p q
     \<and> price_quotes (db t) = map (quote_used (pqt_ID q) p newID) (price_quotes (db s))"
proof -
  obtain started newID q entry price u where c:
    "prq_QuoteID request = Some (cpr_QuoteID entry)" "cpr_PassengerID entry = p"
    "clock s \<le> started" "q \<in> set (price_quotes (db s))" "quote_open started (cpr_QuoteID entry) p q"
    "\<exists>q' \<in> set (price_quotes (db s)). pqt_ID q' = cpr_QuoteID entry \<and> pqt_PassengerID q' = p
       \<and> cpr_FareMode entry = pqt_FareMode q' \<and> cpr_CarClassID entry = pqt_CarClassID q'
       \<and> cpr_CityID entry = pqt_CityID q' \<and> cpr_PickupLocation entry = pqt_Pickup q'
       \<and> cpr_DestinationLocation entry = pqt_Destination q' \<and> ops_EstimatedPrice (pqt_Pricing q') = Some (roubles price)
       \<and> mean_offer service (db s) (pqt_CarClassID q') (pqt_CityID q') (pqt_Pickup q') (pqt_FareMode q') price"
    "cpr_EstimatedPrice entry = Some (roubles price)"
    "orders (db u) = orders (db s) @ [passenger_order_row newID started entry]" "orders_unique (orders (db u))"
    "price_quotes (db u) = sql_update (quote_open started (cpr_QuoteID entry) p)
       (\<lambda>q. q\<lparr>pqt_ConsumedOrderID := Some newID\<rparr>) (price_quotes (db s))"
    "ord_ID o1 = newID" "redis u = redis s"
    "(case pos_dispatchQueue service of None \<Rightarrow> done_op | Some queue \<Rightarrow> EnqueueOrder queue newID) u = (Inr (), t)"
    by (rule CreatePassengerOrder_Inr [OF assms(1)])
  have "price_quotes (db t) = price_quotes (db u)"
  proof (cases "pos_dispatchQueue service")
    case (Some queue)
    with c(13) keepsD [OF EnqueueOrder_quotes [of "price_quotes (db u)" queue newID], of u] show ?thesis by simp
  qed (use c(13) in \<open>simp add: Inr_simps\<close>)
  moreover have "pqt_ID q = cpr_QuoteID entry" using c(5) by (simp add: quote_open_def)
  ultimately have "price_quotes (db t) = map (quote_used (pqt_ID q) p newID) (price_quotes (db s))"
    using c(10) used_quotes [OF assms(2) c(4,5)] by simp
  with c(1,4,5) \<open>pqt_ID q = cpr_QuoteID entry\<close> show ?thesis
    by (intro exI [of _ started] exI [of _ newID] bexI [of _ q]) simp_all
qed

text \<open>
  C12: a quote buys one order.  After an order was created with a quote, no later request of the passenger
  with that quote creates another one, in any state in which the table of quotes still holds what the first
  one left.
\<close>

theorem quote_used_once:
  assumes "CreatePassengerOrder service p request s = (Inr (OrderCreated o1), t)"
    and "distinct (map pqt_ID (price_quotes (db s)))"
    and "price_quotes (db t') = price_quotes (db t) @ later" "distinct (map pqt_ID (price_quotes (db t')))"
    and "prq_QuoteID request' = prq_QuoteID request"
  shows "CreatePassengerOrder service' p request' t' \<noteq> (Inr (OrderCreated o2), u')"
proof
  assume again: "CreatePassengerOrder service' p request' t' = (Inr (OrderCreated o2), u')"
  obtain started newID q where c: "q \<in> set (price_quotes (db s))" "prq_QuoteID request = Some (pqt_ID q)"
    "quote_open started (pqt_ID q) p q"
    "price_quotes (db t) = map (quote_used (pqt_ID q) p newID) (price_quotes (db s))"
    using created_with_quote [OF assms(1,2)] by blast
  obtain started' q' where d: "q' \<in> set (price_quotes (db t'))" "prq_QuoteID request' = Some (pqt_ID q')"
    "quote_open started' (pqt_ID q') p q'"
    using created_with_quote [OF again assms(4)] by blast
  let ?used = "quote_used (pqt_ID q) p newID q"
  have "?used \<in> set (price_quotes (db t'))" unfolding assms(3) c(4) using c(1) by simp
  moreover have "pqt_ID ?used = pqt_ID q'"
    using c(2,3) d(2) assms(5) by (simp add: quote_used_def)
  ultimately have "?used = q'" using same_quote [OF assms(4) _ d(1)] by blast
  then show False using c(3) d(3) by (auto simp: quote_used_def quote_open_def)
qed

section \<open>Cancellation\<close>

definition cancelled_by_passenger :: "uuid \<Rightarrow> uuid \<Rightarrow> string \<Rightarrow> db \<Rightarrow> db \<Rightarrow> order_row \<Rightarrow> order_row \<Rightarrow> bool" where
  "cancelled_by_passenger p i reason d d' r r' \<longleftrightarrow>
     passenger_cancellable p i r \<and> ord_Status r' = OrderStatusCancelled \<and> ord_CancellationReason r' = reason
     \<and> ord_Version r' = ord_Version r + 1 \<and> ord_DriverID r' = ord_DriverID r \<and> ord_ID r' = i
     \<and> (\<forall>dr \<in> set (drivers d'). ord_DriverID r = Some (drv_ID dr) \<and> drv_DeletedAt dr = None
          \<longrightarrow> drv_Status dr \<noteq> DriverStatusBusy)"

lemma release_order_driver_Inr:
  assumes "release_order_driver now i s = (Inr u, t)"
  shows "db t = (db s)\<lparr>drivers := sql_update (\<lambda>dr. list_ex (\<lambda>r. ord_ID r = i \<and> ord_DriverID r = Some (drv_ID dr)) (orders (db s))
         \<and> drv_Status dr = DriverStatusBusy \<and> drv_DeletedAt dr = None)
       (\<lambda>dr. dr\<lparr>drv_Status := DriverStatusOnline, drv_UpdatedAt := now\<rparr>) (drivers (db s))\<rparr>"
  using assms unfolding release_order_driver_def
  by (auto simp: Inr_simps update_drivers_def elim!: bind_Inr sql_Inr)

lemma released_idle:
  assumes "dr \<in> set (sql_update (\<lambda>dr. R (drv_ID dr) \<and> drv_Status dr = DriverStatusBusy \<and> drv_DeletedAt dr = None)
       (\<lambda>dr. dr\<lparr>drv_Status := DriverStatusOnline, drv_UpdatedAt := now\<rparr>) rows)"
    and "R (drv_ID dr)" "drv_DeletedAt dr = None"
  shows "drv_Status dr \<noteq> DriverStatusBusy"
  using assms by (auto simp: sql_update_def split: if_splits)

lemma CancelPassengerOrder_repository_Inr:
  assumes "CancelPassengerOrder_repository p i reason cancelledAt s = (Inr o1, t)" "orders_consistent (orders (db s))"
  shows "replaced (cancelled_by_passenger p i (TrimSpace reason) (db s) (db t)) (orders (db s)) (orders (db t))
     \<and> orders_consistent (orders (db t))"
proof -
  let ?P = "passenger_cancellable p i" and ?f = "passenger_cancelled_row (TrimSpace reason) cancelledAt"
  obtain s0 b u where s0: "db s0 = db s" and commit: "db t = (if b then db u else db s)"
    and body: "(bind time_Now (\<lambda>started.
      bind (sql (\<lambda>_. update_orders_returning ?P ?f started)) (\<lambda>rows.
      bind (lift (one_row rows)) (\<lambda>row.
      andthen (release_order_driver started (ord_ID row))
      (andthen (sql (\<lambda>_. append_events [passenger_cancelled_event (ord_ID row) (TrimSpace reason) cancelledAt]))
      (bind (getPassengerOrderByID p (ord_ID row)) (\<lambda>o1. ret (True, o1)))))))) s0 = (Inr (b, o1), u)"
    by (rule db_transaction_Inr [OF assms(1) [unfolded CancelPassengerOrder_repository_def]])
  obtain rows s1 row e1 s2 e2 s3 where
    r: "sql (\<lambda>_. update_orders_returning ?P ?f (clock s0)) s0 = (Inr rows, s1)" "one_row rows = Inr row"
    "release_order_driver (clock s0) (ord_ID row) s1 = (Inr e1, s2)"
    "sql (\<lambda>_. append_events [passenger_cancelled_event (ord_ID row) (TrimSpace reason) cancelledAt]) s2 = (Inr e2, s3)"
    "getPassengerOrderByID p (ord_ID row) s3 = (Inr o1, u)" "b"
    using body by (elim bind_Inr) (auto simp: Inr_simps)
  obtain rest where rows: "rows = row # rest" using r(2) by (cases rows) auto
  have run: "update_orders_returning ?P ?f (clock s0) (db s) = (Inr (row # rest), db s1)"
    using r(1) by (rule sql_Inr) (simp add: rows s0)
  have one: "\<And>r. ?P r \<Longrightarrow> ord_ID r = i" by (simp add: passenger_cancellable_def)
  note upd = update_orders_returning_one [OF run assms(2) one]
  obtain xs r0 ys where q: "orders (db s) = xs @ r0 # ys" "?P r0" "row = (?f r0)\<lparr>ord_UpdatedAt := clock s0\<rparr>"
    "orders (db s1) = xs @ row # ys"
    using upd(3) by (auto elim: replacedE)
  have row: "ord_ID row = i" "ord_DriverID row = ord_DriverID r0" "ord_Status row = OrderStatusCancelled"
    "ord_CancellationReason row = TrimSpace reason" "ord_Version row = ord_Version r0 + 1"
    using one [OF q(2)] by (simp_all add: q(3) passenger_cancelled_row_def)
  note rel = release_order_driver_Inr [OF r(3)]
  have s3: "db s3 = (db s2)\<lparr>order_events := order_events (db s2) @
      [passenger_cancelled_event (ord_ID row) (TrimSpace reason) cancelledAt]\<rparr>" by (rule append_event_Inr [OF r(4)])
  have u: "db u = db s3" using r(5) by (rule keeps_db_eq) (intro keeps_intros)
  have t: "orders (db t) = xs @ row # ys" "drivers (db t) = drivers (db s2)"
    using commit r(6) u s3 rel q(4) by simp_all
  have "drv_Status dr \<noteq> DriverStatusBusy"
    if "dr \<in> set (drivers (db t))" "ord_DriverID r0 = Some (drv_ID dr)" "drv_DeletedAt dr = None" for dr
    using that released_idle [of dr "\<lambda>j. list_ex (\<lambda>r. ord_ID r = ord_ID row \<and> ord_DriverID r = Some j) (orders (db s1))"
        "clock s0" "drivers (db s1)"] row(2) q(4)
    unfolding t(2) rel by simp
  then have "cancelled_by_passenger p i (TrimSpace reason) (db s) (db t) r0 row"
    using q(2) row by (simp add: cancelled_by_passenger_def)
  moreover have "orders_consistent (orders (db t))" using upd(1) q(4) t(1) by simp
  ultimately show ?thesis unfolding replaced_def q(1) t(1) by blast
qed


section \<open>A passenger on the way\<close>

definition sample_passenger_route :: route where
  "sample_passenger_route = \<lparr>rte_DistanceMeters = 12300, rte_DurationSeconds = 600, rte_Source = ''osrm'',
     rte_DataVersion = ''1'', rte_CalculatedAt = 1\<rparr>"

definition sample_passenger_service :: passenger_orders where
  "sample_passenger_service = NewOrderService None (Some (\<lambda>_. Inr (Some 5))) (Some (\<lambda>_ _ _. Inr sample_passenger_route))
     (\<lambda>_ _. 0) (\<lambda>_ _. [])"

definition sample_fares :: fare_sum where
  "sample_fares = (case sum_fares (\<lambda>_ _. []) 12300 600 [in_roubles_tariff sample_fixed_tariff] no_fares of
     Inr f \<Rightarrow> f | Inl _ \<Rightarrow> no_fares)"

definition sample_quote :: price_quote where
  "sample_quote = \<lparr>pqt_ID = 77, pqt_PassengerID = 2, pqt_CityID = 5, pqt_CarClassID = 9,
     pqt_FareMode = FareModeFixedQuote, pqt_Pickup = empty_coordinates, pqt_Destination = empty_coordinates,
     pqt_Pricing = averaged_snapshot FareModeFixedQuote estimateRadiusMeters sample_passenger_route sample_fares,
     pqt_ExpiresAt = seconds 100, pqt_ConsumedOrderID = None\<rparr>"

definition sample_request :: passenger_order_request where
  "sample_request = \<lparr>erq_FareMode = FareModeFixedQuote, erq_CarClassID = Some 9, erq_TariffID = 0,
     erq_PickupLocation = empty_coordinates, erq_DestinationLocation = empty_coordinates,
     prq_QuoteID = Some 77, prq_PickupAddress = ''A'', prq_PickupEntrance = [], prq_PickupComment = [],
     prq_DestinationAddress = ''B'', prq_PaymentType = PaymentMethodCash, prq_Comment = [],
     prq_PassengerLocationSharingEnabled = False\<rparr>"

definition quoted_world :: world where
  "quoted_world = world_at (seconds 5) ((sample_db sample_order)\<lparr>orders := [], passengers := [sample_passenger],
     price_quotes := [sample_quote]\<rparr>)"

definition creates_order :: "(world, created_or_changed) op \<Rightarrow> world \<Rightarrow> bool" where
  "creates_order m s = (case fst (m s) of Inr (OrderCreated _) \<Rightarrow> True | _ \<Rightarrow> False)"

lemma creates_order_run: "creates_order m s \<Longrightarrow> \<exists>o1 t. m s = (Inr (OrderCreated o1), t)"
  by (cases "m s") (auto simp: creates_order_def split: sum.splits created_or_changed.splits)

lemma quoted_world_runs:
  "creates_order (CreatePassengerOrder sample_passenger_service 2 sample_request) quoted_world"
  by code_simp

lemma sample_fares_run:
  "sum_fares (\<lambda>_ _. []) 12300 600 [in_roubles_tariff sample_fixed_tariff] no_fares = Inr sample_fares"
  "fsm_valid sample_fares \<noteq> []"
  by code_simp+


lemma quoted_world_quotes:
  "price_quotes (db quoted_world) = [sample_quote]" "orders (db quoted_world) = []" "clock quoted_world = seconds 5"
  "pqt_ID sample_quote = 77" "prq_QuoteID sample_request = Some 77"
  by (simp_all add: quoted_world_def world_at_def sample_quote_def sample_request_def)

theorem CreatePassengerOrder_effect_witness:
  "\<exists>o1 t r. CreatePassengerOrder sample_passenger_service 2 sample_request quoted_world = (Inr (OrderCreated o1), t)
     \<and> orders (db t) = [r] \<and> ord_ID r = ord_ID o1 \<and> ord_Status r = OrderStatusSearching"
proof -
  obtain o1 t where run: "CreatePassengerOrder sample_passenger_service 2 sample_request quoted_world
      = (Inr (OrderCreated o1), t)"
    using creates_order_run [OF quoted_world_runs] by blast
  have "distinct (map pqt_ID (price_quotes (db quoted_world)))" by (simp add: quoted_world_quotes)
  from CreatePassengerOrder_effect [OF run this] run show ?thesis
    by (auto simp: quoted_world_quotes fresh_order_def)
qed

theorem quote_used_once_witness:
  "\<exists>o1 t. CreatePassengerOrder sample_passenger_service 2 sample_request quoted_world = (Inr (OrderCreated o1), t)
     \<and> (\<forall>o2 u. CreatePassengerOrder sample_passenger_service 2 sample_request t \<noteq> (Inr (OrderCreated o2), u))"
proof -
  obtain o1 t where run: "CreatePassengerOrder sample_passenger_service 2 sample_request quoted_world
      = (Inr (OrderCreated o1), t)"
    using creates_order_run [OF quoted_world_runs] by blast
  have d: "distinct (map pqt_ID (price_quotes (db quoted_world)))" by (simp add: quoted_world_quotes)
  have "distinct (map pqt_ID (price_quotes (db t)))"
    using created_with_quote [OF run d] by (auto simp: quoted_world_quotes)
  with quote_used_once [OF run d, of t "[]" sample_request] run show ?thesis by auto
qed

definition cancel_world :: world where
  "cancel_world = world_at 5 ((sample_db sample_order)\<lparr>orders := [reserved_order],
     drivers := [sample_driver\<lparr>drv_Status := DriverStatusBusy\<rparr>], passengers := [sample_passenger]\<rparr>)"

lemma cancel_world_runs: "succeeds (CancelPassengerOrder 2 1 []) cancel_world"
  by code_simp

lemma cancel_world_ok: "orders_consistent (orders (db cancel_world))" by code_simp


end
