(* ===== verification/Chat.thy ===== *)
theory Chat
  imports Park_Orders
begin

text \<open>
  The chats of an order and the support chat of a passenger: \<^verbatim>\<open>internal/chat/service.go\<close> and
  \<^verbatim>\<open>internal/repository/chat_repository.go\<close>, with the indexes and checks of the migrations 19 and 33.
  Threads and messages are never deleted, so their \<^verbatim>\<open>deleted_at\<close> is not modelled.
\<close>

section \<open>Threads and messages\<close>

record order_chat_context =
  ocx_OrderID :: uuid
  ocx_Status :: order_status
  ocx_PassengerID :: uuid
  ocx_DriverID :: "uuid option"
  ocx_DriverUserID :: "uuid option"
  ocx_TaxiParkID :: "uuid option"

definition chat_context_of :: "db \<Rightarrow> order_row \<Rightarrow> order_chat_context" where
  "chat_context_of d r =
     \<lparr>ocx_OrderID = ord_ID r, ocx_Status = ord_Status r, ocx_PassengerID = ord_PassengerID r,
      ocx_DriverID = ord_DriverID r,
      ocx_DriverUserID = map_option drv_UserID
        (find (\<lambda>dr. ord_DriverID r = Some (drv_ID dr) \<and> drv_DeletedAt dr = None) (drivers d)),
      ocx_TaxiParkID = meta_taxi_park_id r\<rparr>"

definition GetOrderChatContext :: "uuid \<Rightarrow> (world, order_chat_context) op" where
  "GetOrderChatContext orderID = no_rows_is (Service ErrChatUnavailable)
     (query (\<lambda>_ d. one_row (map (chat_context_of d)
        (filter (\<lambda>r. ord_ID r = orderID \<and> ord_DeletedAt r = None) (orders d)))))"

definition new_thread ::
  "uuid \<Rightarrow> chat_type \<Rightarrow> uuid option \<Rightarrow> uuid option \<Rightarrow> uuid option \<Rightarrow> uuid option \<Rightarrow> time \<Rightarrow> chat_thread" where
  "new_thread newID chatType orderID parkID passengerID driverID now =
     \<lparr>cht_ID = newID, cht_Type = chatType, cht_OrderID = orderID, cht_TaxiParkID = parkID,
      cht_PassengerID = passengerID, cht_DriverID = driverID, cht_Status = ChatStatusOpen,
      cht_CreatedAt = now, cht_UpdatedAt = now, cht_ClosedAt = None\<rparr>"

text \<open>\<^verbatim>\<open>INSERT .. ON CONFLICT .. DO UPDATE .. RETURNING\<close>: \<open>P\<close> is the row that the index finds.\<close>

definition upsert_thread ::
  "(chat_thread \<Rightarrow> bool) \<Rightarrow> (chat_thread \<Rightarrow> chat_thread) \<Rightarrow> chat_thread \<Rightarrow> time \<Rightarrow> db \<Rightarrow>
   (error + chat_thread) \<times> db" where
  "upsert_thread P f new now d =
     (case find P (chat_threads d) of
        Some th \<Rightarrow> (Inr ((f th)\<lparr>cht_UpdatedAt := now\<rparr>),
           d\<lparr>chat_threads := sql_update P (\<lambda>x. (f x)\<lparr>cht_UpdatedAt := now\<rparr>) (chat_threads d)\<rparr>)
      | None \<Rightarrow>
          if cht_ID new \<in> cht_ID ` set (chat_threads d) then (Inl [Infra ErrUniqueViolation], d)
          else (Inr new, d\<lparr>chat_threads := chat_threads d @ [new]\<rparr>))"

definition EnsureOrderThread :: "uuid \<Rightarrow> chat_type \<Rightarrow> (world, chat_thread) op" where
  "EnsureOrderThread orderID chatType = no_rows_is (Service ErrChatUnavailable)
     (bind uuid_New (\<lambda>newID. sql (\<lambda>now d.
        case filter (\<lambda>r. ord_ID r = orderID \<and> ord_DeletedAt r = None) (orders d) of
          [] \<Rightarrow> (Inl [Infra ErrNoRows], d)
        | r # _ \<Rightarrow> upsert_thread (\<lambda>th. cht_OrderID th = Some orderID \<and> cht_Type th = chatType)
            (\<lambda>th. th\<lparr>cht_PassengerID := Some (ord_PassengerID r), cht_DriverID := ord_DriverID r,
                     cht_TaxiParkID := meta_taxi_park_id r\<rparr>)
            (new_thread newID chatType (Some orderID) (meta_taxi_park_id r) (Some (ord_PassengerID r))
               (ord_DriverID r) now) now d)))"

definition EnsurePassengerSupportThread :: "uuid \<Rightarrow> (world, chat_thread) op" where
  "EnsurePassengerSupportThread passengerID = no_rows_is (Service ErrChatUnavailable)
     (bind uuid_New (\<lambda>newID. sql (\<lambda>now d.
        if passengerID \<notin> psg_ID ` set (passengers d) then (Inl [Infra ErrForeignKeyViolation], d)
        else upsert_thread (\<lambda>th. cht_PassengerID th = Some passengerID \<and> cht_OrderID th = None
               \<and> cht_Type th = ChatTypePassengerSupport) id
            (new_thread newID ChatTypePassengerSupport None None (Some passengerID) None now) now d)))"

definition chat_message_checks :: "chat_message \<Rightarrow> bool" where
  "chat_message_checks m \<longleftrightarrow>
     chm_SenderRole m \<in> {UserRolePassenger, UserRoleDriver, UserRoleTaxiPark, UserRoleDispatcher, UserRoleAdmin}
     \<and> chm_Body m \<noteq> [] \<and> rune_count (chm_Body m) \<le> 2000"

definition chat_sender_exists :: "db \<Rightarrow> chat_message \<Rightarrow> bool" where
  "chat_sender_exists d m \<longleftrightarrow>
     (case chm_SenderUserID m of None \<Rightarrow> True | Some i \<Rightarrow> i \<in> usr_ID ` set (users d))
     \<and> (case chm_SenderPassengerID m of None \<Rightarrow> True | Some i \<Rightarrow> i \<in> psg_ID ` set (passengers d))"

definition new_message :: "uuid \<Rightarrow> chat_thread \<Rightarrow> uuid \<Rightarrow> user_role \<Rightarrow> string \<Rightarrow> time \<Rightarrow> chat_message" where
  "new_message newID thread sender senderRole body now =
     \<lparr>chm_ID = newID, chm_ThreadID = cht_ID thread, chm_OrderID = cht_OrderID thread, chm_SenderID = sender,
      chm_SenderUserID = (if senderRole = UserRolePassenger then None else Some sender),
      chm_SenderPassengerID = (if senderRole = UserRolePassenger then Some sender else None),
      chm_SenderRole = senderRole, chm_Body = body, chm_CreatedAt = now, chm_EditedAt = None\<rparr>"

definition CreateMessage :: "chat_thread \<Rightarrow> uuid \<Rightarrow> user_role \<Rightarrow> string \<Rightarrow> (world, chat_message) op" where
  "CreateMessage thread sender senderRole body =
     bind uuid_New (\<lambda>newID. sql (\<lambda>now d.
       let m = new_message newID thread sender senderRole body now
       in if \<not> chat_message_checks m then (Inl [Infra ErrCheckViolation], d)
          else if newID \<in> chm_ID ` set (chat_messages d) then (Inl [Infra ErrUniqueViolation], d)
          else if \<not> chat_sender_exists d m \<or> cht_ID thread \<notin> cht_ID ` set (chat_threads d)
          then (Inl [Infra ErrForeignKeyViolation], d)
          else (Inr m, d\<lparr>chat_messages := chat_messages d @ [m]\<rparr>)))"

text \<open>The latest messages of a thread, the oldest of them first.\<close>

definition recent_messages :: "db \<Rightarrow> uuid \<Rightarrow> nat \<Rightarrow> chat_message list" where
  "recent_messages d threadID limit =
     sort_key chm_CreatedAt (take limit (sort_key (\<lambda>m. - chm_CreatedAt m)
       (filter (\<lambda>m. chm_ThreadID m = threadID) (chat_messages d))))"

definition ListMessages :: "chat_thread \<Rightarrow> int \<Rightarrow> (world, chat_message list) op" where
  "ListMessages thread limit = query (\<lambda>_ d. Inr (recent_messages d (cht_ID thread) (nat limit)))"

definition park_chat_actor :: "db \<Rightarrow> uuid \<Rightarrow> uuid \<Rightarrow> bool" where
  "park_chat_actor d parkID actor \<longleftrightarrow>
     list_ex (\<lambda>tp. tp_ID tp = parkID \<and> tp_OwnerUserID tp = actor \<and> tp_DeletedAt tp = None) (taxi_parks d)
     \<or> list_ex (\<lambda>st. stf_TaxiParkID st = parkID \<and> stf_UserID st = actor
          \<and> stf_Role st \<in> {UserRoleDispatcher, UserRoleTaxiPark} \<and> stf_IsActive st \<and> stf_DeletedAt st = None
          \<and> list_ex (\<lambda>u. usr_ID u = actor \<and> usr_IsActive u \<and> usr_DeletedAt u = None) (users d))
        (taxi_park_staff d)"

definition IsTaxiParkActor :: "uuid \<Rightarrow> uuid \<Rightarrow> (world, bool) op" where
  "IsTaxiParkActor parkID actor = query (\<lambda>_ d. Inr (park_chat_actor d parkID actor))"

section \<open>The service\<close>

definition AllowsChat :: "order_chat_context \<Rightarrow> chat_type \<Rightarrow> bool" where
  "AllowsChat cx chatType =
     (case chatType of
        ChatTypeDispatcherDriver \<Rightarrow>
          ocx_DriverID cx \<noteq> None \<and> ocx_TaxiParkID cx \<noteq> None \<and> \<not> OrderStatus_IsTerminal (ocx_Status cx)
      | ChatTypeDriverPassenger \<Rightarrow>
          ocx_DriverID cx \<noteq> None \<and> ocx_Status cx \<in> {OrderStatusDriverAssigned, OrderStatusDriverArriving,
             OrderStatusDriverWaiting, OrderStatusInProgress}
      | _ \<Rightarrow> False)"

definition actorCanUseOrderChat ::
  "uuid \<Rightarrow> user_role \<Rightarrow> chat_type \<Rightarrow> order_chat_context \<Rightarrow> (world, bool) op" where
  "actorCanUseOrderChat actor role chatType cx =
     (case chatType of
        ChatTypeDispatcherDriver \<Rightarrow>
          if role = UserRoleDriver then ret (ocx_DriverUserID cx = Some actor)
          else if role \<in> {UserRoleTaxiPark, UserRoleDispatcher}
          then (case ocx_TaxiParkID cx of None \<Rightarrow> ret False | Some parkID \<Rightarrow> IsTaxiParkActor parkID actor)
          else ret False
      | ChatTypeDriverPassenger \<Rightarrow>
          if role = UserRoleDriver then ret (ocx_DriverUserID cx = Some actor)
          else if role = UserRolePassenger then ret (ocx_PassengerID cx = actor)
          else ret False
      | _ \<Rightarrow> ret False)"

definition authorizedOrderThread :: "uuid \<Rightarrow> user_role \<Rightarrow> uuid \<Rightarrow> chat_type \<Rightarrow> (world, chat_thread) op" where
  "authorizedOrderThread actor role orderID chatType =
     bind (lift (ChatType_Validate chatType)) (\<lambda>_.
     bind (GetOrderChatContext orderID) (\<lambda>cx.
     if \<not> AllowsChat cx chatType then fail [Service ErrChatUnavailable]
     else bind (actorCanUseOrderChat actor role chatType cx) (\<lambda>allowed.
       if \<not> allowed then fail [Service ErrChatForbidden] else EnsureOrderThread orderID chatType)))"

definition chat_limit :: "int \<Rightarrow> int" where
  "chat_limit limit = (if limit \<le> 0 \<or> 100 < limit then 50 else limit)"

definition ListOrderMessages ::
  "uuid \<Rightarrow> user_role \<Rightarrow> uuid \<Rightarrow> chat_type \<Rightarrow> int \<Rightarrow> (world, chat_thread \<times> chat_message list) op" where
  "ListOrderMessages actor role orderID chatType limit =
     bind (authorizedOrderThread actor role orderID chatType) (\<lambda>thread.
     bind (ListMessages thread (chat_limit limit)) (\<lambda>ms. ret (thread, ms)))"

fun chat_type_text :: "chat_type \<Rightarrow> string" where
  "chat_type_text ChatTypeDispatcherDriver = ''dispatcher_driver''"
| "chat_type_text ChatTypeDriverPassenger = ''driver_passenger''"
| "chat_type_text ChatTypePassengerSupport = ''passenger_support''"
| "chat_type_text (ChatTypeOther text) = text"

fun user_role_text :: "user_role \<Rightarrow> string" where
  "user_role_text UserRolePassenger = ''passenger''"
| "user_role_text UserRoleDriver = ''driver''"
| "user_role_text UserRoleTaxiPark = ''taxi_park''"
| "user_role_text UserRoleAdmin = ''admin''"
| "user_role_text UserRoleDispatcher = ''dispatcher''"
| "user_role_text (UserRoleOther text) = text"

definition chatMessageResponse :: "chat_thread \<Rightarrow> chat_message \<Rightarrow> payload" where
  "chatMessageResponse thread m =
     [(''id'', PUuid (chm_ID m)), (''thread_id'', PUuid (chm_ThreadID m)),
      (''order_id'', PUuidOption (chm_OrderID m)), (''chat_type'', PStr (chat_type_text (cht_Type thread))),
      (''sender_id'', PUuid (chm_SenderID m)),
      (''sender_user_id'', PUuidOption (chm_SenderUserID m)),
      (''sender_passenger_id'', PUuidOption (chm_SenderPassengerID m)),
      (''sender_role'', PStr (user_role_text (chm_SenderRole m))), (''body'', PStr (chm_Body m)), (''created_at'', PTime (chm_CreatedAt m))]"

definition publishOrderMessage :: "bool \<Rightarrow> chat_thread \<Rightarrow> payload \<Rightarrow> (world, unit) op" where
  "publishOrderMessage has_gateway thread message =
     (case cht_OrderID thread of
        None \<Rightarrow> done_op
      | Some orderID \<Rightarrow>
          if \<not> has_gateway then done_op
          else (let to_driver = (case cht_DriverID thread of
                       None \<Rightarrow> done_op | Some driverID \<Rightarrow> SendToDriver driverID ''chat.message'' message)
            in case cht_Type thread of
                 ChatTypeDispatcherDriver \<Rightarrow>
                   andthen to_driver (SendToTaxiParkByOrder orderID ''chat.message'' message)
               | ChatTypeDriverPassenger \<Rightarrow>
                   andthen to_driver (case cht_PassengerID thread of
                     None \<Rightarrow> done_op | Some passengerID \<Rightarrow> SendToPassenger passengerID ''chat.message'' message)
               | _ \<Rightarrow> done_op))"

definition SendOrderMessage ::
  "bool \<Rightarrow> uuid \<Rightarrow> user_role \<Rightarrow> uuid \<Rightarrow> chat_type \<Rightarrow> string \<Rightarrow> (world, chat_message) op" where
  "SendOrderMessage has_gateway actor role orderID chatType text_sent =
     bind (lift (NormalizeChatMessageBody text_sent)) (\<lambda>body.
     bind (authorizedOrderThread actor role orderID chatType) (\<lambda>thread.
     bind (CreateMessage thread actor role body) (\<lambda>m.
     andthen (publishOrderMessage has_gateway thread (chatMessageResponse thread m)) (ret m))))"

definition ListPassengerSupportMessages :: "uuid \<Rightarrow> int \<Rightarrow> (world, chat_thread \<times> chat_message list) op" where
  "ListPassengerSupportMessages passengerID limit =
     bind (EnsurePassengerSupportThread passengerID) (\<lambda>thread.
     bind (ListMessages thread (chat_limit limit)) (\<lambda>ms. ret (thread, ms)))"

definition SendPassengerSupportMessage :: "bool \<Rightarrow> uuid \<Rightarrow> string \<Rightarrow> (world, chat_message) op" where
  "SendPassengerSupportMessage has_gateway passengerID text_sent =
     bind (lift (NormalizeChatMessageBody text_sent)) (\<lambda>body.
     bind (EnsurePassengerSupportThread passengerID) (\<lambda>thread.
     bind (CreateMessage thread passengerID UserRolePassenger body) (\<lambda>m.
     andthen (if has_gateway
              then SendToPassenger passengerID ''chat.message'' (chatMessageResponse thread m) else done_op)
       (ret m))))"

section \<open>Who reads and writes\<close>

text \<open>The people of an order's chat.\<close>

definition chat_member :: "db \<Rightarrow> order_row \<Rightarrow> uuid \<Rightarrow> user_role \<Rightarrow> chat_type \<Rightarrow> bool" where
  "chat_member d r actor role chatType \<longleftrightarrow>
     ord_DriverID r \<noteq> None \<and> \<not> OrderStatus_IsTerminal (ord_Status r)
     \<and> (role = UserRoleDriver
          \<and> (\<exists>dr \<in> set (drivers d). ord_DriverID r = Some (drv_ID dr) \<and> drv_UserID dr = actor \<and> drv_DeletedAt dr = None)
        \<or> role = UserRolePassenger \<and> chatType = ChatTypeDriverPassenger \<and> ord_PassengerID r = actor
        \<or> role \<in> {UserRoleTaxiPark, UserRoleDispatcher} \<and> chatType = ChatTypeDispatcherDriver
          \<and> (\<exists>park. meta_taxi_park_id r = Some park \<and> park_chat_actor d park actor))"

lemma find_Some_mem: "find P xs = Some x \<Longrightarrow> x \<in> set xs \<and> P x"
  by (induction xs) (auto split: if_splits)

lemma actorCanUseOrderChat_member:
  assumes "actorCanUseOrderChat actor role chatType (chat_context_of (db s) r) s = (Inr True, t)"
    "AllowsChat (chat_context_of (db s) r) chatType"
  shows "chat_member (db s) r actor role chatType"
  using assms
  by (auto simp: actorCanUseOrderChat_def AllowsChat_def chat_context_of_def chat_member_def IsTaxiParkActor_def
      OrderStatus_IsTerminal_def terminalOrderStatuses_def Inr_simps dest!: find_Some_mem elim!: query_Inr
      split: chat_type.splits if_splits option.splits)

lemma GetOrderChatContext_Inr:
  assumes "GetOrderChatContext i s = (Inr cx, t)"
  obtains r where "r \<in> set (orders (db s))" "ord_ID r = i" "ord_DeletedAt r = None" "cx = chat_context_of (db s) r"
    "db t = db s"
proof -
  from assms have "one_row (map (chat_context_of (db s)) (filter (\<lambda>r. ord_ID r = i \<and> ord_DeletedAt r = None)
      (orders (db s)))) = Inr cx \<and> db t = db s"
    unfolding GetOrderChatContext_def no_rows_is_Inr by (rule query_Inr) blast
  then show thesis by (auto dest!: one_row_Inr intro: that)
qed

lemma upsert_thread_Inr:
  assumes "upsert_thread P f new now d = (Inr th, d')"
  shows "th \<in> set (chat_threads d') \<and> d' = d\<lparr>chat_threads := chat_threads d'\<rparr>
     \<and> (th = new \<or> (\<exists>old \<in> set (chat_threads d). P old \<and> th = (f old)\<lparr>cht_UpdatedAt := now\<rparr>))"
  using assms unfolding upsert_thread_def
  by (auto simp: set_sql_update image_iff split: option.splits if_splits dest!: find_Some_mem)

lemma EnsureOrderThread_Inr:
  assumes "EnsureOrderThread i chatType s = (Inr th, t)"
  shows "cht_OrderID th = Some i" "cht_Type th = chatType" "th \<in> set (chat_threads (db t))"
    "db t = (db s)\<lparr>chat_threads := chat_threads (db t)\<rparr>"
proof -
  obtain newID u where u: "uuid_New s = (Inr newID, u)" and run: "sql (\<lambda>now d.
        case filter (\<lambda>r. ord_ID r = i \<and> ord_DeletedAt r = None) (orders d) of
          [] \<Rightarrow> (Inl [Infra ErrNoRows], d)
        | r # _ \<Rightarrow> upsert_thread (\<lambda>th. cht_OrderID th = Some i \<and> cht_Type th = chatType)
            (\<lambda>th. th\<lparr>cht_PassengerID := Some (ord_PassengerID r), cht_DriverID := ord_DriverID r,
                     cht_TaxiParkID := meta_taxi_park_id r\<rparr>)
            (new_thread newID chatType (Some i) (meta_taxi_park_id r) (Some (ord_PassengerID r))
               (ord_DriverID r) now) now d) u = (Inr th, t)"
    using assms unfolding EnsureOrderThread_def no_rows_is_Inr by (rule bind_Inr)
  have "db u = db s" using u by (rule keeps_db_eq) (intro keeps_intros)
  moreover obtain r :: order_row and now where "upsert_thread (\<lambda>th. cht_OrderID th = Some i \<and> cht_Type th = chatType)
      (\<lambda>th. th\<lparr>cht_PassengerID := Some (ord_PassengerID r), cht_DriverID := ord_DriverID r,
               cht_TaxiParkID := meta_taxi_park_id r\<rparr>)
      (new_thread newID chatType (Some i) (meta_taxi_park_id r) (Some (ord_PassengerID r))
         (ord_DriverID r) now) now (db u) = (Inr th, db t)"
    using run by (rule sql_Inr) (auto split: list.splits intro: that)
  ultimately show "cht_OrderID th = Some i" "cht_Type th = chatType" "th \<in> set (chat_threads (db t))"
    "db t = (db s)\<lparr>chat_threads := chat_threads (db t)\<rparr>"
    by (auto dest!: upsert_thread_Inr simp: new_thread_def)
qed

lemma keeps_case_chat_type [keeps_intros]:
  "keeps I a \<Longrightarrow> keeps I b \<Longrightarrow> keeps I c \<Longrightarrow> (\<And>x. keeps I (f x)) \<Longrightarrow>
   keeps I (case ty of ChatTypeDispatcherDriver \<Rightarrow> a | ChatTypeDriverPassenger \<Rightarrow> b
     | ChatTypePassengerSupport \<Rightarrow> c | ChatTypeOther x \<Rightarrow> f x)"
  by (cases ty) simp_all

lemma keeps_actorCanUse [keeps_intros]: "keeps (on_db P) (actorCanUseOrderChat actor role chatType cx)"
  unfolding actorCanUseOrderChat_def IsTaxiParkActor_def by (intro keeps_intros)

lemma authorizedOrderThread_Inr:
  assumes "authorizedOrderThread actor role i chatType s = (Inr th, t)"
  obtains r where "r \<in> set (orders (db s))" "ord_ID r = i" "ord_DeletedAt r = None"
    "chat_member (db s) r actor role chatType" "cht_OrderID th = Some i" "cht_Type th = chatType"
    "th \<in> set (chat_threads (db t))" "db t = (db s)\<lparr>chat_threads := chat_threads (db t)\<rparr>"
proof -
  obtain cx s1 s2 where run: "GetOrderChatContext i s = (Inr cx, s1)" "AllowsChat cx chatType"
    "actorCanUseOrderChat actor role chatType cx s1 = (Inr True, s2)" "EnsureOrderThread i chatType s2 = (Inr th, t)"
    using assms unfolding authorizedOrderThread_def
    by (elim bind_Inr) (auto simp: Inr_simps split: if_splits elim!: bind_Inr)
  obtain r where r: "r \<in> set (orders (db s))" "ord_ID r = i" "ord_DeletedAt r = None" "cx = chat_context_of (db s) r"
    "db s1 = db s" by (rule GetOrderChatContext_Inr [OF run(1)])
  have "chat_member (db s1) r actor role chatType"
    by (rule actorCanUseOrderChat_member [of _ _ _ s1 r s2]) (use run(2,3) r(4,5) in simp_all)
  moreover have "db s2 = db s1" using run(3) by (rule keeps_db_eq) (intro keeps_intros)
  ultimately show thesis
    by (intro that [OF r(1-3) _ EnsureOrderThread_Inr(1-3) [OF run(4)]])
      (use EnsureOrderThread_Inr(4) [OF run(4)] r(5) in simp_all)
qed

lemma CreateMessage_Inr:
  assumes "CreateMessage thread actor role body s = (Inr m, t)"
  shows "db t = (db s)\<lparr>chat_messages := chat_messages (db s) @ [m]\<rparr>" "chat_message_checks m"
    "chm_ThreadID m = cht_ID thread" "chm_OrderID m = cht_OrderID thread" "chm_SenderID m = actor"
    "chm_SenderRole m = role" "chm_Body m = body" "chat_sender_exists (db s) m"
proof -
  obtain newID u where u: "uuid_New s = (Inr newID, u)" and run: "sql (\<lambda>now d.
       let m = new_message newID thread actor role body now
       in if \<not> chat_message_checks m then (Inl [Infra ErrCheckViolation], d)
          else if newID \<in> chm_ID ` set (chat_messages d) then (Inl [Infra ErrUniqueViolation], d)
          else if \<not> chat_sender_exists d m \<or> cht_ID thread \<notin> cht_ID ` set (chat_threads d)
          then (Inl [Infra ErrForeignKeyViolation], d)
          else (Inr m, d\<lparr>chat_messages := chat_messages d @ [m]\<rparr>)) u = (Inr m, t)"
    using assms unfolding CreateMessage_def by (rule bind_Inr)
  have u: "db u = db s" using u by (rule keeps_db_eq) (intro keeps_intros)
  obtain now where now: "m = new_message newID thread actor role body now" "chat_message_checks m"
    "chat_sender_exists (db u) m" "db t = (db u)\<lparr>chat_messages := chat_messages (db u) @ [m]\<rparr>"
    using run by (rule sql_Inr) (auto simp: Let_def split: if_splits)
  show "db t = (db s)\<lparr>chat_messages := chat_messages (db s) @ [m]\<rparr>" "chat_message_checks m"
    "chat_sender_exists (db s) m" using now(2-4) u by simp_all
  show "chm_ThreadID m = cht_ID thread" "chm_OrderID m = cht_OrderID thread" "chm_SenderID m = actor"
    "chm_SenderRole m = role" "chm_Body m = body" unfolding now(1) by (simp_all add: new_message_def)
qed

lemma publishOrderMessage_keeps [keeps_intros]: "keeps (on_db P) (publishOrderMessage gw thread body)"
  unfolding publishOrderMessage_def Let_def by (intro keeps_intros)

section \<open>Properties\<close>


text \<open>
  Only its people read the chat of an order.  A list that was returned is that of such a person; its
  messages are at most a hundred, all of the one thread of the order, the oldest first, and no message of
  the thread that was left out is newer than one that is shown.
\<close>

theorem ListOrderMessages_private:
  assumes "ListOrderMessages actor role i chatType limit s = (Inr (th, ms), t)"
  shows "(\<exists>r \<in> set (orders (db s)). ord_ID r = i \<and> ord_DeletedAt r = None \<and> chat_member (db s) r actor role chatType)
     \<and> cht_OrderID th = Some i \<and> cht_Type th = chatType \<and> chat_messages (db t) = chat_messages (db s)
     \<and> length ms \<le> 100 \<and> sorted (map chm_CreatedAt ms)
     \<and> (\<forall>m \<in> set ms. m \<in> set (chat_messages (db s)) \<and> chm_ThreadID m = cht_ID th
          \<and> (\<forall>q \<in> set (chat_messages (db s)). chm_ThreadID q = cht_ID th \<and> q \<notin> set ms
                \<longrightarrow> chm_CreatedAt q \<le> chm_CreatedAt m))"
proof -
  obtain s1 where run: "authorizedOrderThread actor role i chatType s = (Inr th, s1)"
    "ListMessages th (chat_limit limit) s1 = (Inr ms, t)"
    using assms unfolding ListOrderMessages_def by (elim bind_Inr) (auto simp: Inr_simps elim!: bind_Inr)
  obtain r where r: "r \<in> set (orders (db s))" "ord_ID r = i" "ord_DeletedAt r = None"
    "chat_member (db s) r actor role chatType" "cht_OrderID th = Some i" "cht_Type th = chatType"
    "db s1 = (db s)\<lparr>chat_threads := chat_threads (db s1)\<rparr>"
    by (rule authorizedOrderThread_Inr [OF run(1)])
  have ms: "ms = recent_messages (db s1) (cht_ID th) (nat (chat_limit limit))" "db t = db s1"
    using run(2) unfolding ListMessages_def by (rule query_Inr, simp)+
  obtain ths where "db s1 = (db s)\<lparr>chat_threads := ths\<rparr>" using r(7) by blast
  then have same: "chat_messages (db s1) = chat_messages (db s)" by simp
  let ?all = "sort_key (\<lambda>m. - chm_CreatedAt m) (filter (\<lambda>m. chm_ThreadID m = cht_ID th) (chat_messages (db s)))"
  have ms': "ms = sort_key chm_CreatedAt (take (nat (chat_limit limit)) ?all)"
    unfolding ms(1) recent_messages_def same ..
  have "length ms \<le> 100" unfolding ms' by (auto simp: chat_limit_def)
  moreover have "chm_CreatedAt q \<le> chm_CreatedAt m"
    if "m \<in> set ms" "q \<in> set (chat_messages (db s))" "chm_ThreadID q = cht_ID th" "q \<notin> set ms" for m q
  proof -
    let ?n = "nat (chat_limit limit)"
    have "m \<in> set (take ?n ?all)" "q \<in> set ?all" "q \<notin> set (take ?n ?all)" using that ms' by simp_all
    moreover have "set ?all = set (take ?n ?all) \<union> set (drop ?n ?all)"
      by (metis append_take_drop_id set_append)
    ultimately have "m \<in> set (take ?n ?all)" "q \<in> set (drop ?n ?all)" by blast+
    moreover have "sorted (map (\<lambda>m. - chm_CreatedAt m) (take ?n ?all) @ map (\<lambda>m. - chm_CreatedAt m) (drop ?n ?all))"
      unfolding map_append [symmetric] append_take_drop_id by simp
    then have "\<forall>x \<in> set (take ?n ?all). \<forall>y \<in> set (drop ?n ?all). - chm_CreatedAt x \<le> - chm_CreatedAt y"
      unfolding sorted_append by simp
    ultimately have "- chm_CreatedAt m \<le> - chm_CreatedAt q" by blast
    then show ?thesis by simp
  qed
  moreover have "m \<in> set (chat_messages (db s)) \<and> chm_ThreadID m = cht_ID th" if "m \<in> set ms" for m
    using that unfolding ms' by (auto dest: in_set_takeD)
  moreover have "sorted (map chm_CreatedAt ms)" unfolding ms' by simp
  moreover have "chat_messages (db t) = chat_messages (db s)" using same ms(2) by simp
  ultimately show ?thesis using r(1-6) by blast
qed

section \<open>A conversation\<close>

definition chat_world :: world where
  "chat_world = world_at 5 ((sample_db trip_order)\<lparr>users := [sample_user 33 UserRoleDriver],
     passengers := [sample_passenger]\<rparr>)"

lemma chat_world_runs:
  "succeeds (SendOrderMessage False 33 UserRoleDriver 1 ChatTypeDriverPassenger '' I am here '') chat_world"
  "succeeds (ListOrderMessages 2 UserRolePassenger 1 ChatTypeDriverPassenger 0) chat_world"
  by code_simp+

lemma new_messages: "d' = d\<lparr>chat_threads := x, chat_messages := ms\<rparr> \<Longrightarrow> chat_messages d' = ms"
  by simp


theorem ListOrderMessages_private_witness:
  "\<exists>th ms t. ListOrderMessages 2 UserRolePassenger 1 ChatTypeDriverPassenger 0 chat_world = (Inr (th, ms), t)
     \<and> cht_OrderID th = Some 1 \<and> length ms \<le> 100"
proof -
  obtain th ms t where run: "ListOrderMessages 2 UserRolePassenger 1 ChatTypeDriverPassenger 0 chat_world
      = (Inr (th, ms), t)" using succeeds_run [OF chat_world_runs(2)] by (metis surj_pair)
  from ListOrderMessages_private [OF run] run show ?thesis by blast
qed

end
