(* ===== verification/Platform.thy ===== *)
theory Platform
  imports Passenger_Trips Chat Dispatch_Safety Scheduled Driver_Invite Finance_Safety
begin

text \<open>
  The platform as a whole: every operation of every service, run in any order, by anybody, with any
  failures, keeps the order table consistent and the books balanced.
\<close>

section \<open>What most operations do not touch\<close>

lemma keeps_case_list [keeps_intros]:
  "keeps J a \<Longrightarrow> (\<And>x rest. keeps J (b x rest)) \<Longrightarrow> keeps J (case xs of [] \<Rightarrow> a | x # rest \<Rightarrow> b x rest)"
  by (cases xs) simp_all

text \<open>
  A predicate on the database that reads neither the drivers and their places, nor the passengers, their
  quotes, codes and tokens, nor the events and the messages: what these operations write does not change it.
\<close>

locale side_frame =
  fixes I :: "db \<Rightarrow> bool"
  assumes I_events [simp]: "I (d\<lparr>order_events := x1\<rparr>) = I d"
    and I_drivers [simp]: "I (d\<lparr>drivers := x2\<rparr>) = I d"
    and I_locations [simp]: "I (d\<lparr>driver_locations := x3\<rparr>) = I d"
    and I_passengers [simp]: "I (d\<lparr>passengers := x4\<rparr>) = I d"
    and I_quotes [simp]: "I (d\<lparr>price_quotes := x5\<rparr>) = I d"
    and I_points [simp]: "I (d\<lparr>route_points := x6\<rparr>) = I d"
    and I_threads [simp]: "I (d\<lparr>chat_threads := x7\<rparr>) = I d"
    and I_messages [simp]: "I (d\<lparr>chat_messages := x8\<rparr>) = I d"
    and I_codes [simp]: "I (d\<lparr>auth_codes := x9\<rparr>) = I d"
    and I_tokens [simp]: "I (d\<lparr>refresh_tokens := x10\<rparr>) = I d"
begin

lemma keeps_statement: "(\<And>now d. I (snd (f now d)) = I d) \<Longrightarrow> keeps (on_db I) (sql f)"
  by (rule keeps_sql) simp

lemma side_updates [simp]:
  "I (snd (update_drivers Q g now d)) = I d"
  "I (snd (append_events evs d)) = I d"
  "I (snd (append_event e1 now d)) = I d"
  "I (snd (upsert_passenger n ph nm now d)) = I d"
  "I (snd (update_codes P f now d)) = I d"
  "I (snd (insert_token p h t d)) = I d"
  "I (snd (revoke_tokens R now d)) = I d"
  by (simp_all add: update_drivers_def append_events_def append_event_def upsert_passenger_def update_codes_def
      insert_token_def revoke_tokens_def split: option.splits)

lemma event_statements [keeps_intros]:
  "keeps (on_db I) (insertOrderEvent ev)"
  "keeps (on_db I) (AddOrderEvent ev)"
  "keeps (on_db I) (AddStateEvent ev)"
  "keeps (on_db I) (insertTaxiParkOrderEvent now o1 actor ty body)"
  unfolding insertOrderEvent_def AddOrderEvent_def AddStateEvent_def insertTaxiParkOrderEvent_def Let_def
  by (intro keeps_intros keeps_statement; simp?)+

lemma driver_statements [keeps_intros]:
  "keeps (on_db I) (MarkDriverBusy j)"
  "keeps (on_db I) (free_order_driver now o1)"
  "keeps (on_db I) (markDriverOnlineInTx started j)"
  "keeps (on_db I) (update_driver_status P st i)"
  "keeps (on_db I) (UpdateDriverLocation fix1)"
  "keeps (on_db I) (MarkStaleDriversOffline_repository t n)"
  "keeps (on_db I) (AppendRoutePointByUserID i fix1)"
  unfolding MarkDriverBusy_def free_order_driver_def markDriverOnlineInTx_def update_driver_status_def
    UpdateDriverLocation_def MarkStaleDriversOffline_repository_def AppendRoutePointByUserID_def Let_def
  by (intro keeps_intros keeps_statement; simp?)+

lemma keeps_AppendOrderRoutePoints [keeps_intros]: "keeps (on_db I) (AppendOrderRoutePoints i j pts)"
  unfolding AppendOrderRoutePoints_def Let_def
  by (intro keeps_intros keeps_statement; simp split: prod.splits)

lemma keeps_SetStatusByUserID [keeps_intros]: "keeps (on_db I) (SetStatusByUserID i st)"
  unfolding SetStatusByUserID_def markOnline_def markOffline_def by (intro keeps_intros)

lemma passenger_statements [keeps_intros]:
  "keeps (on_db I) (SavePriceQuote q)"
  "keeps (on_db I) (consume_quote now i p j)"
  "keeps (on_db I) (release_order_driver now i)"
  "keeps (on_db I) (resolveTaxiParkOrderPassenger now park phone name)"
  unfolding SavePriceQuote_def consume_quote_def release_order_driver_def resolveTaxiParkOrderPassenger_def
  by (intro keeps_intros keeps_case_product keeps_statement; simp?)+

lemma chat_statements [keeps_intros]:
  "keeps (on_db I) (EnsureOrderThread i ct)"
  "keeps (on_db I) (EnsurePassengerSupportThread p)"
  "keeps (on_db I) (CreateMessage th sender role body)"
  unfolding EnsureOrderThread_def EnsurePassengerSupportThread_def CreateMessage_def upsert_thread_def Let_def
  by (intro keeps_intros keeps_statement; simp split: list.splits option.splits)+

lemma code_statements [keeps_intros]:
  "keeps (on_db I) (CreateAuthCode phone h m t)"
  "keeps (on_db I) (InvalidateActiveByPhone phone t)"
  "keeps (on_db I) (IncrementAttempts i)"
  "keeps (on_db I) (MarkUsed i t)"
  "keeps (on_db I) (StoreToken p h t)"
  "keeps (on_db I) (RotateToken old p h t)"
  "keeps (on_db I) (RevokeToken h)"
  "keeps (on_db I) (CreatePassenger phone name)"
  "keeps (on_db I) (MarkAuthenticated p v t)"
  unfolding CreateAuthCode_def InvalidateActiveByPhone_def IncrementAttempts_def MarkUsed_def StoreToken_def
    RotateToken_def RevokeToken_def CreatePassenger_def MarkAuthenticated_def Let_def
  by (intro keeps_db_transaction keeps_intros keeps_statement; simp?)+

end

text \<open>
  What a predicate must survive: the statements of the repositories that write, one by one.  The operations
  of the services are built from these.
\<close>

definition driver_statuses :: "order_status set" where
  "driver_statuses = {OrderStatusDriverArriving, OrderStatusDriverWaiting, OrderStatusInProgress,
     OrderStatusCancelled, OrderStatusCompleted}"

locale platform_statements = side_frame +
  assumes MarkOrderSearching [keeps_intros]: "keeps (on_db I) (MarkOrderSearching i)"
    and IncrementDispatchAttempt [keeps_intros]: "keeps (on_db I) (IncrementDispatchAttempt i)"
    and FailOrder [keeps_intros]: "keeps (on_db I) (FailOrder i reason)"
    and ConfirmDriverPrice [keeps_intros]: "keeps (on_db I) (ConfirmDriverPrice i p)"
    and TransitionOrderStatus [keeps_intros]: "plain_transition tr \<Longrightarrow> keeps (on_db I) (TransitionOrderStatus tr)"
    and AssignDriver [keeps_intros]: "keeps (on_db I) (AssignDriver i j t fare price expires q)"
    and ReleaseDriverReservation [keeps_intros]: "keeps (on_db I) (ReleaseDriverReservation i j)"
    and ActivateOrder [keeps_intros]: "keeps (on_db I) (ActivateOrder i)"
    and ExpirePendingOrders_repository [keeps_intros]: "keeps (on_db I) (ExpirePendingOrders_repository n)"
    and CreateOrderByOwnerUserID [keeps_intros]: "keeps (on_db I) (CreateOrderByOwnerUserID i cor)"
    and CreateScheduledOrderByActorUserID [keeps_intros]: "keeps (on_db I) (CreateScheduledOrderByActorUserID i csr)"
    and CancelScheduledOrderByActorUserID [keeps_intros]: "keeps (on_db I) (CancelScheduledOrderByActorUserID i j reason)"
    and CancelOrderByActorUserID [keeps_intros]: "keeps (on_db I) (CancelOrderByActorUserID i j reason)"
    and CompleteOrderByActorUserID [keeps_intros]: "keeps (on_db I) (CompleteOrderByActorUserID i j price_cents)"
    and TransitionOrderByUserID [keeps_intros]:
      "st \<in> driver_statuses \<Longrightarrow> keeps (on_db I) (TransitionOrderByUserID i j st reason c)"
    and CompleteOrderByUserID [keeps_intros]: "keeps (on_db I) (CompleteOrderByUserID st_distance i j)"
    and CreatePassengerOrder_repository [keeps_intros]: "keeps (on_db I) (CreatePassengerOrder_repository cpr)"
    and CancelPassengerOrder_repository [keeps_intros]: "keeps (on_db I) (CancelPassengerOrder_repository i j reason t)"
    and SettleCompletedOrder [keeps_intros]: "keeps (on_db I) (SettleCompletedOrder i)"
    and finance_calls: "I (db w) \<Longrightarrow> I (db (finance_run call w))"
    and Create_invite [keeps_intros]: "keeps (on_db I) (Create postgres_invites invs i phone)"
    and Respond_invite [keeps_intros]: "keeps (on_db I) (Respond postgres_invites invs i j action)"
begin

lemma dispatch_pieces [keeps_intros]:
  "keeps (on_db I) (enqueueOrder sv i cf)"
  "keeps (on_db I) (EnqueueOrder sv i)"
  "keeps (on_db I) (EnqueueOrderWithConfig sv i cf')"
  "keeps (on_db I) (failNoDriversFound sv o1 m)"
  "keeps (on_db I) (scheduleRadiusExpansionAfterTimeout sv task cf')"
  "keeps (on_db I) (scheduleNextAttempt sv task ds cf')"
  unfolding EnqueueOrder_def EnqueueOrderWithConfig_def enqueueOrder_def failNoDriversFound_def
    scheduleRadiusExpansionAfterTimeout_def scheduleNextAttempt_def
  by (intro keeps_intros)+

lemma dispatch_offers [keeps_intros]:
  "keeps (on_db I) (offerDrivers o1 a cs m cf)" "keeps (on_db I) (ProcessTask sv st_distance task)"
  unfolding ProcessTask_def offerDrivers_def offerDriver_def by (intro keeps_intros)+

lemma dispatch_prices [keeps_intros]:
  "keeps (on_db I) (confirmed_assignment i j p)"
  "keeps (on_db I) (ConfirmOrderPrice i p)"
  "keeps (on_db I) (releasePriceConfirmation sv i j)"
  "keeps (on_db I) (DeclineOrderPrice sv i p)"
  "keeps (on_db I) (ExpireOrderPrice sv i)"
  "keeps (on_db I) (expirePriceConfirmation sv task)"
  "keeps (on_db I) (HandleOfferTimeout sv task)"
  unfolding HandleOfferTimeout_def confirmed_assignment_def ConfirmOrderPrice_def releasePriceConfirmation_def
    DeclineOrderPrice_def ExpireOrderPrice_def expirePriceConfirmation_def
  by (intro keeps_intros)+

lemma dispatch_answers [keeps_intros]:
  "keeps (on_db I) (AcceptOffer sv i j)"
  "keeps (on_db I) (RejectOffer i j reason)"
  "keeps (on_db I) (ListDriverOffers_service j)"
  "keeps (on_db I) (StopDispatch sv i)"
  unfolding cancelRemainingOffers_def announce_acceptance_def after_reservation_def reserve_driver_def missing_offer_def
    AcceptOffer_def RejectOffer_def ListDriverOffers_service_def driver_offer_of_def StopDispatch_def
  by (intro keeps_intros)+

lemma dispatch_workers [keeps_intros]:
  "keeps (on_db I) (runDispatchWorker n sv st_distance)"
  "keeps (on_db I) (runOfferTimeoutWorker ticks sv)"
  "keeps (on_db I) (runStaleOrderRecoveryWorker n b sv)"
proof -
  have "keeps (on_db I) (dispatch_round sv st_distance)" "keeps (on_db I) (recoverSearchingOrders b sv)"
    unfolding dispatch_round_def recoverSearchingOrders_def by (intro keeps_intros)+
  then show "keeps (on_db I) (runDispatchWorker n sv st_distance)" "keeps (on_db I) (runStaleOrderRecoveryWorker n b sv)"
    by (induction n) (auto intro!: keeps_intros)
  show "keeps (on_db I) (runOfferTimeoutWorker ticks sv)" by (induction ticks) (auto intro!: keeps_intros)
qed

lemma order_service_steps [keeps_intros]:
  "cmd_ToStatus command \<noteq> OrderStatusDriverAssigned \<Longrightarrow> keeps (on_db I) (Transition osv command)"
  unfolding Transition_def after_transition_def publishState_def Let_def
  by (rule keeps_bind, intro keeps_intros, rule keeps_bind, intro keeps_intros, rule keeps_bind_lift,
      intro keeps_intros) (auto simp: plain_transition_def NewOrderTransition_Inr)

lemma park_steps [keeps_intros]:
  "keeps (on_db I) (CreateOrder psv i order_request)"
  "keeps (on_db I) (CreateScheduledOrder psv i scheduled_request)"
  "keeps (on_db I) (CancelScheduledOrder i j reason)"
  "keeps (on_db I) (CancelOrder psv i j reason)"
  "keeps (on_db I) (CompleteOrder psv i j)"
  unfolding CreateOrder_def CreateScheduledOrder_def CancelScheduledOrder_def CancelOrder_def CompleteOrder_def
  by (intro keeps_intros)+

lemma schedule_steps [keeps_intros]: "keeps (on_db I) (scheduled_worker_Run n enabled ssv)"
proof -
  have "keeps (on_db I) (scheduled_round ssv)"
    unfolding scheduled_round_def ActivateDueOrders_def activate_due_order_def ExpirePendingOrders_def
    by (intro keeps_intros)
  then show ?thesis by (induction n) (auto intro!: keeps_intros)
qed

lemma driver_steps [keeps_intros]:
  "keeps (on_db I) (MarkDriverOnline app i)"
  "keeps (on_db I) (MarkDriverOffline app i)"
  "keeps (on_db I) (AcceptDriverOrder app i j)"
  "keeps (on_db I) (RejectDriverOrder app i j reason)"
  "keeps (on_db I) (MarkDriverArriving app i j)"
  "keeps (on_db I) (MarkDriverArrived app i j)"
  "keeps (on_db I) (StartDriverTrip app i j)"
  "keeps (on_db I) (CancelDriverOrder app i j reason)"
  "keeps (on_db I) (CompleteDriverTrip app i j)"
  unfolding MarkDriverOnline_def MarkDriverOffline_def AcceptDriverOrder_def RejectDriverOrder_def MarkDriverArriving_def
    MarkDriverArrived_def StartDriverTrip_def CancelDriverOrder_def CompleteDriverTrip_def Let_def
  by (intro keeps_intros; simp add: driver_statuses_def)+

lemma location_steps [keeps_intros]:
  "keeps (on_db I) (UpdateDriverLocation_service app i place)"
  "keeps (on_db I) (UpdateDriverLocationBatch app i places)"
  "keeps (on_db I) (AppendOrderRoutePoints_service i j points)"
  "keeps (on_db I) (MarkStaleDriversOffline limit)"
  unfolding UpdateDriverLocation_service_def UpdateDriverLocationBatch_def AppendOrderRoutePoints_service_def
    MarkStaleDriversOffline_def UpdateLocation_def UpdateLocationBatch_def publishLocationUpdated_def
    publishPassengerDriverLocation_def GetOrderRouteUploadAccess_def Let_def
  by (intro keeps_intros; simp?)+

lemma passenger_steps [keeps_intros]:
  "keeps (on_db I) (EstimatePassengerOrder pos i estimate_request)"
  "keeps (on_db I) (CreatePassengerOrder pos i passenger_request)"
  "keeps (on_db I) (ConfirmPassengerPrice pos i j)"
  "keeps (on_db I) (DeclinePassengerPrice pos i j)"
  "keeps (on_db I) (CancelPassengerOrder i j reason)"
  unfolding EstimatePassengerOrder_def CreatePassengerOrder_def quoted_estimate_def ConfirmPassengerPrice_def
    DeclinePassengerPrice_def CancelPassengerOrder_def GetPassengerOrder_def Let_def
  by (intro keeps_intros keeps_case_product)+

lemma chat_steps [keeps_intros]:
  "keeps (on_db I) (ListOrderMessages i role j ct limit)"
  "keeps (on_db I) (SendOrderMessage gateway i role j ct body)"
  "keeps (on_db I) (SendPassengerSupportMessage gateway i body)"
  unfolding ListOrderMessages_def SendOrderMessage_def SendPassengerSupportMessage_def authorizedOrderThread_def
    actorCanUseOrderChat_def GetOrderChatContext_def IsTaxiParkActor_def ListMessages_def publishOrderMessage_def Let_def
  by (intro keeps_intros)+

lemma sign_in_steps [keeps_intros]:
  "keeps (on_db I) (RequestCode pas phone)"
  "keeps (on_db I) (ConfirmCode pas request)"
  "keeps (on_db I) (Refresh pas tok)"
  "keeps (on_db I) (Logout pas tok)"
  unfolding RequestCode_def ConfirmCode_def Refresh_def Logout_def compare_code_def sign_in_def known_passenger_def
    GetPassengerByID_def GetPassengerByPhone_def GetLatestActiveByPhone_def
  by (intro keeps_intros keeps_case_product)+

end

section \<open>Predicates that do not read the orders\<close>

locale platform_frame = side_frame +
  assumes I_orders [simp]: "I (d\<lparr>orders := rows\<rparr>) = I d"
    and I_settled [keeps_intros]: "keeps (on_db I) (SettleCompletedOrder i)"
    and I_finance: "I (db w) \<Longrightarrow> I (db (finance_run call w))"
    and I_invited [keeps_intros]: "keeps (on_db I) (Create postgres_invites invs i phone)"
    and I_answered [keeps_intros]: "keeps (on_db I) (Respond postgres_invites invs i j action)"
begin

lemma order_updates [simp]:
  "I (snd (update_orders P f now d)) = I d"
  "I (snd (update_orders_returning P f now d)) = I d"
  "I (snd (update_orders_logging P f ev now d)) = I d"
  "I (snd (insert_order row d)) = I d"
proof -
  show u: "I (snd (update_orders P f now d)) = I d" by (simp add: update_orders_def Let_def)
  show "I (snd (update_orders_returning P f now d)) = I d"
    using u by (cases "update_orders P f now d") (auto simp: update_orders_returning_def split: sum.splits)
  show "I (snd (update_orders_logging P f ev now d)) = I d"
    using u by (cases "update_orders P f now d") (auto simp: update_orders_logging_def split: sum.splits)
qed (simp add: insert_order_def)

lemma order_statements [keeps_intros]:
  "keeps (on_db I) (MarkOrderSearching i)"
  "keeps (on_db I) (IncrementDispatchAttempt i)"
  "keeps (on_db I) (FailOrder i reason)"
  "keeps (on_db I) (ConfirmDriverPrice i p)"
  "keeps (on_db I) (TransitionOrderStatus tr)"
  "keeps (on_db I) (AssignDriver i j t fare price expires q)"
  "keeps (on_db I) (ReleaseDriverReservation i j)"
  "keeps (on_db I) (ActivateOrder i)"
  "keeps (on_db I) (ExpirePendingOrders_repository n)"
  unfolding MarkOrderSearching_def IncrementDispatchAttempt_def FailOrder_def ConfirmDriverPrice_def
    TransitionOrderStatus_def AssignDriver_def ReleaseDriverReservation_def ActivateOrder_def
    ExpirePendingOrders_repository_def
  by (intro keeps_db_transaction keeps_intros keeps_statement; simp?)+

lemma park_pieces [keeps_intros]: "keeps (on_db I) (update_order_row i v P f now)"
  unfolding update_order_row_def by (intro keeps_intros keeps_statement; simp?)

lemma park_statements [keeps_intros]:
  "keeps (on_db I) (CreateOrderByOwnerUserID i cor)"
  "keeps (on_db I) (CreateScheduledOrderByActorUserID i csr)"
  "keeps (on_db I) (CancelScheduledOrderByActorUserID i j reason)"
  "keeps (on_db I) (CancelOrderByActorUserID i j reason)"
  "keeps (on_db I) (CompleteOrderByActorUserID i j price_cents)"
  unfolding CreateOrderByOwnerUserID_def CreateScheduledOrderByActorUserID_def CancelScheduledOrderByActorUserID_def
    CancelOrderByActorUserID_def CompleteOrderByActorUserID_def transitionOrderByActorUserID_def
  by (intro keeps_db_transaction keeps_intros keeps_case_product keeps_statement; simp?)+

lemma driver_pieces [keeps_intros]:
  "keeps (on_db I) (transitionDispatchOrderStatus started tr cents)"
  "keeps (on_db I) (store_trip_metrics started i m)"
  unfolding transitionDispatchOrderStatus_def store_trip_metrics_def
  by (intro keeps_intros keeps_statement; simp?)+

lemma trip_statements [keeps_intros]:
  "keeps (on_db I) (TransitionOrderByUserID i j st reason c)"
  "keeps (on_db I) (CompleteOrderByUserID st_distance i j)"
  "keeps (on_db I) (CreatePassengerOrder_repository cpr)"
  "keeps (on_db I) (CancelPassengerOrder_repository i j reason t)"
  unfolding TransitionOrderByUserID_def CompleteOrderByUserID_def CreatePassengerOrder_repository_def
    CancelPassengerOrder_repository_def
  by (intro keeps_db_transaction keeps_intros keeps_statement; simp?)+

end

sublocale platform_frame \<subseteq> platform_statements
  by unfold_locales (intro keeps_intros | erule I_finance)+

interpretation money: platform_frame books_balanced
proof unfold_locales
  fix w :: world and call assume "books_balanced (db w)"
  then show "books_balanced (db (finance_run call w))" by (rule finance_run_balanced)
next
  show "keeps (on_db books_balanced) (SettleCompletedOrder i)" for i by (intro keeps_intros)
  show "keeps (on_db books_balanced) (Create postgres_invites invs i phone)" for invs i phone
    by (rule books.Create_keeps)
  show "keeps (on_db books_balanced) (Respond postgres_invites invs i j action)" for invs i j action
    by (rule books.Respond_keeps)
qed (simp_all add: books_balanced_def accounts_ok_def driver_account_def park_account_def)


section \<open>The order table\<close>

text \<open>The statements that write the orders for the driver and for the passenger change rows as the domain allows.\<close>

lemma driver_transitioned_row_good:
  assumes "plain_transition tr" "order_wf r" "driver_transition_applies tr r"
  shows "order_wf (driver_transitioned_row tr c r) \<and> order_evolves r (driver_transitioned_row tr c r)"
proof -
  have "transition_applies tr r" using assms(3) by (auto simp: driver_transition_applies_def transition_applies_def)
  from transitioned_row_good [OF assms(1,2) this] show ?thesis
    by (simp add: driver_transitioned_row_def order_wf_def order_evolves_def)
qed

lemma transitionDispatchOrderStatus_keeps:
  "plain_transition tr \<Longrightarrow> keeps (orders_since rows0) (transitionDispatchOrderStatus started tr c)"
  unfolding transitionDispatchOrderStatus_def
  by (intro keeps_intros keeps_update_orders driver_transitioned_row_good) auto

lemma trip_pieces_keep [keeps_intros]:
  "keeps (orders_since rows0) (store_trip_metrics started i m)"
  "keeps (orders_since rows0) (markDriverOnlineInTx started j)"
  "keeps (orders_since rows0) (sql (\<lambda>_. append_events evs))"
  unfolding store_trip_metrics_def markDriverOnlineInTx_def
  by (intro keeps_intros keeps_update_orders keeps_orders_other; simp add: order_wf_def order_evolves_def)+

lemma driver_transition_plain:
  "NewOrderTransition now o1 st a b reason now = Inr tr \<Longrightarrow> st \<in> driver_statuses \<Longrightarrow> plain_transition tr"
  by (auto simp: plain_transition_def NewOrderTransition_Inr driver_statuses_def)

lemma TransitionOrderByUserID_keeps:
  assumes "st \<in> driver_statuses"
  shows "keeps (orders_since rows0) (TransitionOrderByUserID i j st reason c)"
  unfolding TransitionOrderByUserID_def
  by (rule keeps_db_transaction, rule keeps_bind, intro keeps_intros, rule keeps_bind, intro keeps_intros,
      rule keeps_bind, intro keeps_intros, rule keeps_bind_lift,
      intro keeps_intros transitionDispatchOrderStatus_keeps)
     (rule driver_transition_plain [OF _ assms])

lemma CompleteOrderByUserID_keeps: "keeps (orders_since rows0) (CompleteOrderByUserID st_distance i j)"
  unfolding CompleteOrderByUserID_def
  by (rule keeps_db_transaction, rule keeps_bind, intro keeps_intros, rule keeps_bind, intro keeps_intros,
      rule keeps_bind, intro keeps_intros, rule keeps_bind_lift,
      intro keeps_intros transitionDispatchOrderStatus_keeps)
     (erule driver_transition_plain, simp add: driver_statuses_def)

lemma passenger_order_row_wf: "order_wf (passenger_order_row newID now cpr)"
  by (simp add: order_wf_def passenger_order_row_def driver_active_statuses_def driving_statuses_def)

lemma passenger_cancelled_row_good:
  assumes "order_wf r" "passenger_cancellable p i r"
  shows "order_wf (passenger_cancelled_row reason t r) \<and> order_evolves r (passenger_cancelled_row reason t r)"
proof
  show "order_wf (passenger_cancelled_row reason t r)"
    using assms(1) by (simp add: order_wf_def passenger_cancelled_row_def driver_active_statuses_def driving_statuses_def)
  have "status_step (ord_Status r) OrderStatusCancelled"
    using assms(2) unfolding passenger_cancellable_def status_step_def
    by (elim conjE insertE emptyE) (simp_all add: legal_change_iff OrderStatus_Validate_iff)
  then show "order_evolves r (passenger_cancelled_row reason t r)"
    by (simp add: order_evolves_def passenger_cancelled_row_def r_into_rtranclp)
qed

lemma passenger_orders_keep:
  "keeps (orders_since rows0) (CreatePassengerOrder_repository cpr)"
  "keeps (orders_since rows0) (CancelPassengerOrder_repository i j reason t)"
proof -
  have pieces: "keeps (orders_since rows0) (consume_quote now q p o1)"
    "keeps (orders_since rows0) (release_order_driver now o1)" for now q p o1
    unfolding consume_quote_def release_order_driver_def
    by (intro keeps_intros keeps_orders_other; simp)+
  show "keeps (orders_since rows0) (CreatePassengerOrder_repository cpr)"
    unfolding CreatePassengerOrder_repository_def
    by (intro keeps_db_transaction keeps_intros keeps_insert_order passenger_order_row_wf pieces)
  show "keeps (orders_since rows0) (CancelPassengerOrder_repository i j reason t)"
    unfolding CancelPassengerOrder_repository_def
    by (intro keeps_db_transaction keeps_intros keeps_update_orders passenger_cancelled_row_good pieces)
qed

lemma finance_statements_keep [keeps_intros]:
  "keeps (same_orders v) (UpdateTaxiParkDriverCommission owner bps)"
  "keeps (same_orders v) (CreateDriverPayout owner driver input)"
  "keeps (same_orders v) (ApproveDriverPayout owner payoutID)"
  "keeps (same_orders v) (MarkDriverPayoutPaid owner payoutID)"
  "keeps (same_orders v) (CreateTaxiParkPlatformInvoice owner pinput)"
  "keeps (same_orders v) (MarkAdminPlatformInvoicePaid invoiceID)"
  "keeps (same_orders v) (GenerateDriverPayoutAct payoutID)"
  "keeps (same_orders v) (GeneratePlatformInvoice invoiceID)"
  "keeps (same_orders v) (GeneratePlatformAct invoiceID)"
  unfolding UpdateTaxiParkDriverCommission_def upsert_commission_def CreateDriverPayout_def
    resolveTaxiParkIDByOwner_def driverParkBalanceInTransaction_def insert_payout_def ApproveDriverPayout_def
    updateDriverPayoutStatus_def updateDriverPayoutStatusTx_def MarkDriverPayoutPaid_def pay_in_transaction_def
    debit_balance_def CreateTaxiParkPlatformInvoice_def insert_invoice_def MarkAdminPlatformInvoicePaid_def
    mark_invoice_paid_def nextLedgerBalance_def invoice_ledger_entry_def GenerateDriverPayoutAct_def
    GeneratePlatformInvoice_def GeneratePlatformAct_def invoice_document_def insertFinanceDocument_def Let_def
  by (intro keeps_intros keeps_db_transaction keeps_case_product keeps_same_orders;
      simp split: sum.splits list.splits option.splits)+

lemma finance_keeps_orders: "orders (db (finance_run call w)) = orders (db w)"
proof -
  have run: "orders (db (snd (m w))) = orders (db w)" if "keeps (same_orders (orders (db w))) m" for m :: "(world, 'a) op"
    using keepsD [OF that] by simp
  show ?thesis
    by (cases call; simp; rule run;
        (unfold UpdateTaxiParkDriverCommission_service_def CreateDriverPayout_service_def
           CreateTaxiParkPlatformInvoice_service_def MarkAdminPlatformInvoicePaid_service_def
           with_document_def)?; intro keeps_intros)
qed


interpretation order_table: platform_statements "\<lambda>d. good_since rows0 (orders d) \<and> orders_consistent (orders d)" for rows0
proof unfold_locales
  fix w :: world and call
  assume "good_since rows0 (orders (db w)) \<and> orders_consistent (orders (db w))"
  then show "good_since rows0 (orders (db (finance_run call w))) \<and> orders_consistent (orders (db (finance_run call w)))"
    by (simp add: finance_keeps_orders)
next
  show "keeps (orders_since rows0) (Create postgres_invites invs i phone)" for invs i phone
    by (rule same_orders_keeps [OF order_rows.Create_keeps])
  show "keeps (orders_since rows0) (Respond postgres_invites invs i j action)" for invs i j action
    by (rule same_orders_keeps [OF order_rows.Respond_keeps])
qed (simp | intro keeps_intros CompleteOrderByUserID_keeps passenger_orders_keep; assumption?
  | erule TransitionOrderByUserID_keeps)+

section \<open>Any operation, by anybody, at any time\<close>

text \<open>
  A step of the platform is one call of one operation that writes: its outcome is whatever it leaves, whether
  it succeeds or fails, and which of its statements fail is up to the script of the world.  Between the calls
  time passes and the script may change.  The settings of the services are arbitrary.  The one call left out is
  a request of the order service for the status \<open>driver_assigned\<close>.
\<close>

inductive platform_step :: "world \<Rightarrow> world \<Rightarrow> bool" where
  time_passes: "clock s \<le> now \<Longrightarrow> platform_step s (s\<lparr>clock := now, script := faults\<rparr>)"
| order_queued: "platform_step s (snd (EnqueueOrderWithConfig sv i cf s))"
| task_processed: "platform_step s (snd (ProcessTask sv st_distance task s))"
| offer_timed_out: "platform_step s (snd (HandleOfferTimeout sv task s))"
| offer_accepted: "platform_step s (snd (AcceptOffer sv i j s))"
| offer_rejected: "platform_step s (snd (RejectOffer i j reason s))"
| price_confirmed: "platform_step s (snd (ConfirmOrderPrice i p s))"
| price_declined: "platform_step s (snd (DeclineOrderPrice sv i p s))"
| dispatch_stopped: "platform_step s (snd (StopDispatch sv i s))"
| dispatch_worked: "platform_step s (snd (runDispatchWorker n sv st_distance s))"
| timeouts_worked: "platform_step s (snd (runOfferTimeoutWorker ticks sv s))"
| recovery_worked: "platform_step s (snd (runStaleOrderRecoveryWorker n b sv s))"
| schedule_worked: "platform_step s (snd (scheduled_worker_Run n enabled ssv s))"
| transition: "cmd_ToStatus command \<noteq> OrderStatusDriverAssigned \<Longrightarrow>
    platform_step s (snd (Transition osv command s))"
| park_created: "platform_step s (snd (CreateOrder psv i order_request s))"
| park_scheduled: "platform_step s (snd (CreateScheduledOrder psv i scheduled_request s))"
| schedule_cancelled: "platform_step s (snd (CancelScheduledOrder i j reason s))"
| park_cancelled: "platform_step s (snd (CancelOrder psv i j reason s))"
| park_completed: "platform_step s (snd (CompleteOrder psv i j s))"
| driver_online: "platform_step s (snd (MarkDriverOnline app i s))"
| driver_offline: "platform_step s (snd (MarkDriverOffline app i s))"
| driver_accepted: "platform_step s (snd (AcceptDriverOrder app i j s))"
| driver_rejected: "platform_step s (snd (RejectDriverOrder app i j reason s))"
| driver_arriving: "platform_step s (snd (MarkDriverArriving app i j s))"
| driver_arrived: "platform_step s (snd (MarkDriverArrived app i j s))"
| trip_started: "platform_step s (snd (StartDriverTrip app i j s))"
| driver_cancelled: "platform_step s (snd (CancelDriverOrder app i j reason s))"
| trip_finished: "platform_step s (snd (CompleteDriverTrip app i j s))"
| driver_moved: "platform_step s (snd (UpdateDriverLocation_service app i place s))"
| driver_moved_often: "platform_step s (snd (UpdateDriverLocationBatch app i places s))"
| route_uploaded: "platform_step s (snd (AppendOrderRoutePoints_service i j points s))"
| stale_drivers: "platform_step s (snd (MarkStaleDriversOffline limit s))"
| estimated: "platform_step s (snd (EstimatePassengerOrder pos i estimate_request s))"
| ordered: "platform_step s (snd (CreatePassengerOrder pos i passenger_request s))"
| passenger_confirmed: "platform_step s (snd (ConfirmPassengerPrice pos i j s))"
| passenger_declined: "platform_step s (snd (DeclinePassengerPrice pos i j s))"
| passenger_cancelled: "platform_step s (snd (CancelPassengerOrder i j reason s))"
| messages_listed: "platform_step s (snd (ListOrderMessages i role j ct n s))"
| message_sent: "platform_step s (snd (SendOrderMessage gateway i role j ct body s))"
| support_asked: "platform_step s (snd (SendPassengerSupportMessage gateway i body s))"
| code_requested: "platform_step s (snd (RequestCode pas phone s))"
| code_confirmed: "platform_step s (snd (ConfirmCode pas code_request s))"
| session_refreshed: "platform_step s (snd (Refresh pas tok s))"
| session_closed: "platform_step s (snd (Logout pas tok s))"
| driver_invited: "platform_step s (snd (Create postgres_invites invs i phone s))"
| invitation_answered: "platform_step s (snd (Respond postgres_invites invs i j action s))"
| finance: "platform_step s (finance_run call s)"

context platform_statements
begin

lemma step_keeps: "platform_step s t \<Longrightarrow> I (db s) \<Longrightarrow> I (db t)"
proof (induction rule: platform_step.induct)
  case (finance s call)
  then show ?case by (rule finance_calls)
qed (simp | rule keepsD [of "on_db I"], intro keeps_intros, assumption)+

lemma steps_keep: "platform_step\<^sup>*\<^sup>* s t \<Longrightarrow> I (db s) \<Longrightarrow> I (db t)"
  by (induction rule: rtranclp_induct) (auto intro: step_keeps)

end



end
