(* ===== verification/Spec2Isabelle.thy ===== *)
theory Spec2Isabelle
  imports Dispatch_Termination Domain_User Domain_Money Domain_Pricing Domain_Driver Park_Model
    Numeric_Text Finance_Liveness Order_Service Scheduled Driver_Invite Order_Typing Platform
begin

text \<open>
  A verification library for the taxi platform.
\<close>

end
